(* ===== verification/Prelude.thy ===== *)
theory Prelude
  imports Main "HOL-Library.Word" "HOL-Library.Multiset"
begin

text \<open>
  What every theory of the development shares: the collections its proofs name, the types
  the services agree on (UUIDs, Go results) and the lemmas on lists, association lists and
  results that several components need.

  A Go function that returns \<open>(T, error)\<close> is a function into \<open>'e + 'a\<close>:
  \<open>Inl e\<close> is the returned error, \<open>Inr x\<close> the value with a nil error. A UUID is
  sixteen bytes, so a 128 bit word, and \<open>uuid.Nil\<close> is the zero word.
\<close>

section \<open>Collections\<close>

named_theorems go_simps \<open>unfolding rules for the small Go helpers\<close>
named_theorems frame_simps \<open>which parts of a state an operation leaves alone\<close>
named_theorems invariants \<open>operations keep the invariant of their component\<close>

section \<open>UUIDs\<close>

type_synonym uuid = "128 word"

abbreviation uuid_nil :: uuid where
  "uuid_nil \<equiv> 0"

section \<open>Results\<close>

fun is_ok :: "'e + 'a \<Rightarrow> bool" where
  "is_ok (Inl _) = False"
| "is_ok (Inr _) = True"

lemma is_ok_iff: "is_ok r \<longleftrightarrow> (\<exists>x. r = Inr x)"
  by (cases r) auto

lemma is_ok_Inr [simp]: "r = Inr x \<Longrightarrow> is_ok r"
  by simp

section \<open>Lists\<close>

text \<open>
  Tables are lists of rows with a key column. A SQL \<open>UPDATE ... WHERE key = k\<close> is
  \<open>update_where\<close>: it rewrites the rows that satisfy the condition, in place.
\<close>

definition update_where :: "('a \<Rightarrow> bool) \<Rightarrow> ('a \<Rightarrow> 'a) \<Rightarrow> 'a list \<Rightarrow> 'a list" where
  "update_where p f xs = map (\<lambda>x. if p x then f x else x) xs"

lemma update_where_Nil [simp]: "update_where p f [] = []"
  by (simp add: update_where_def)

lemma update_where_Cons [simp]:
  "update_where p f (x # xs) = (if p x then f x else x) # update_where p f xs"
  by (simp add: update_where_def)

lemma length_update_where [simp]: "length (update_where p f xs) = length xs"
  by (simp add: update_where_def)

lemma set_update_where:
  "set (update_where p f xs) = f ` {x \<in> set xs. p x} \<union> {x \<in> set xs. \<not> p x}"
  by (auto simp: update_where_def)

lemma map_update_where [simp]:
  assumes "\<And>x. p x \<Longrightarrow> k (f x) = k x"
  shows "map k (update_where p f xs) = map k xs"
  using assms by (induction xs) auto

lemma update_where_id: "\<not> (\<exists>x \<in> set xs. p x) \<Longrightarrow> update_where p f xs = xs"
  by (induction xs) auto

lemma find_SomeD: "find p xs = Some x \<Longrightarrow> x \<in> set xs \<and> p x"
  by (induction xs) (auto split: if_splits)

lemma find_key_update:
  assumes "\<And>x. k (f x) = k x"
  shows "find (\<lambda>x. k x = i) (update_where (\<lambda>x. k x = j \<and> q x) f xs) =
    (case find (\<lambda>x. k x = i) xs of None \<Rightarrow> None
     | Some x \<Rightarrow> Some (if i = j \<and> q x then f x else x))"
  using assms by (induction xs) auto

lemma find_key_distinct:
  assumes "distinct (map k xs)" "x \<in> set xs"
  shows "find (\<lambda>y. k y = k x) xs = Some x"
  using assms by (induction xs) (auto simp: image_iff)

lemma filter_key_distinct:
  assumes "distinct (map k xs)" "x \<in> set xs"
  shows "filter (\<lambda>y. k y = k x) xs = [x]"
  using assms
proof (induction xs)
  case (Cons y ys)
  have none: "filter (\<lambda>z. k z = k y) ys = []" using Cons.prems(1) by (auto simp: filter_empty_conv image_iff)
  show ?case
  proof (cases "x = y")
    case False
    then have "x \<in> set ys" "k y \<noteq> k x" using Cons.prems by (auto simp: image_iff)
    with Cons show ?thesis by simp
  qed (simp add: none)
qed simp

lemma find_None_key: "find (\<lambda>x. k x = i) xs = None \<longleftrightarrow> i \<notin> k ` set xs"
  by (induction xs) auto

text \<open>The first maximal element of a list under a strict comparison of its keys.\<close>

fun best_by :: "('a \<Rightarrow> 'k::linorder) \<Rightarrow> 'a list \<Rightarrow> 'a option" where
  "best_by key [] = None"
| "best_by key (x # xs) =
     (case best_by key xs of None \<Rightarrow> Some x
      | Some y \<Rightarrow> if key x < key y then Some y else Some x)"

lemma best_by_None [simp]: "best_by key xs = None \<longleftrightarrow> xs = []"
  by (cases xs) (auto split: option.splits)

lemma best_by_in: "best_by key xs = Some x \<Longrightarrow> x \<in> set xs"
  by (induction xs arbitrary: x) (auto split: option.splits if_splits)

lemma best_by_max: "best_by key xs = Some x \<Longrightarrow> y \<in> set xs \<Longrightarrow> key y \<le> key x"
  by (induction xs arbitrary: x) (force split: option.splits if_splits)+

section \<open>Enumerations with a textual form\<close>

text \<open>
  Nearly every domain enumeration of the repository has a \<open>String()\<close> method and a
  \<open>To...\<close> parser, and the two are used across process boundaries: a service writes the
  text to a column or a message and another one parses it. The contract is that parsing
  what was printed gives the value back. The services rely on two consequences: distinct
  values never share a text, and a value survives any number of trips.
\<close>

locale text_enum =
  fixes valid :: "'a \<Rightarrow> bool"
    and print :: "'a \<Rightarrow> string"
    and parse :: "string \<Rightarrow> 'e + 'a"
  assumes parse_print: "valid x \<Longrightarrow> parse (print x) = Inr x"
    and parse_valid: "parse s = Inr x \<Longrightarrow> valid x"
begin

lemma print_inj: "valid x \<Longrightarrow> valid y \<Longrightarrow> print x = print y \<Longrightarrow> x = y"
  by (metis parse_print sum.inject(2))

lemma inj_on_print: "inj_on print {x. valid x}"
  by (rule inj_onI) (auto dest: print_inj)

lemma reparse: "parse s = Inr x \<Longrightarrow> parse (print x) = Inr x"
  by (rule parse_print) (rule parse_valid)

end

end
