(* ===== verification/GoStrings.thy ===== *)
theory GoStrings
  imports Prelude
begin

text \<open>
  The part of Go's \<open>strings\<close>, \<open>strconv\<close> and \<open>fmt\<close> packages the services
  use. A Go string is a byte string, a HOL \<open>string\<close>. White space and letter case are
  those of ASCII: a byte above 127 is left alone, so the definitions agree with Go on
  every text without non-ASCII white space or non-ASCII letters.
\<close>

section \<open>White space\<close>

definition is_space :: "char \<Rightarrow> bool" where
  "is_space c \<longleftrightarrow> c \<in> {CHR 0x09, CHR 0x0A, CHR 0x0B, CHR 0x0C, CHR 0x0D, CHR '' ''}"

definition TrimSpace :: "string \<Rightarrow> string" where
  "TrimSpace s = rev (dropWhile is_space (rev (dropWhile is_space s)))"

lemma dropWhile_idem: "dropWhile p (dropWhile p xs) = dropWhile p xs"
  by (induction xs) auto

lemma TrimSpace_Nil [simp]: "TrimSpace [] = []"
  by (simp add: TrimSpace_def)

lemma TrimSpace_trimmed:
  assumes "s \<noteq> []" "\<not> is_space (hd s)" "\<not> is_space (last s)"
  shows "TrimSpace s = s"
proof -
  have "dropWhile is_space s = s"
    using assms by (cases s) auto
  moreover have "dropWhile is_space (rev s) = rev s"
    using assms by (cases "rev s") (auto simp: hd_rev [symmetric])
  ultimately show ?thesis by (simp add: TrimSpace_def)
qed

lemma trim_ends:
  assumes "TrimSpace s \<noteq> []"
  shows "dropWhile is_space s \<noteq> []"
    and "hd (dropWhile is_space s) = hd (TrimSpace s)"
proof -
  let ?t = "dropWhile is_space s"
  show "?t \<noteq> []"
    using assms unfolding TrimSpace_def by (metis dropWhile.simps(1) rev.simps(1))
  have "?t = TrimSpace s @ rev (takeWhile is_space (rev ?t))"
    unfolding TrimSpace_def by (metis rev_append rev_rev_ident takeWhile_dropWhile_id)
  then show "hd ?t = hd (TrimSpace s)"
    using assms by (metis hd_append2)
qed

lemma TrimSpace_hd: "TrimSpace s \<noteq> [] \<Longrightarrow> \<not> is_space (hd (TrimSpace s))"
  using trim_ends hd_dropWhile by metis

lemma TrimSpace_last:
  assumes "TrimSpace s \<noteq> []"
  shows "\<not> is_space (last (TrimSpace s))"
proof -
  let ?u = "dropWhile is_space (rev (dropWhile is_space s))"
  have "?u \<noteq> []" using assms by (simp only: TrimSpace_def rev_is_Nil_conv) simp
  then show ?thesis
    unfolding TrimSpace_def by (metis hd_dropWhile last_rev)
qed

lemma TrimSpace_idem [simp]: "TrimSpace (TrimSpace s) = TrimSpace s"
  by (cases "TrimSpace s = []") (auto simp: TrimSpace_hd TrimSpace_last TrimSpace_trimmed)

lemma TrimSpace_eq_Nil: "TrimSpace s = [] \<longleftrightarrow> (\<forall>c \<in> set s. is_space c)"
proof
  assume "TrimSpace s = []"
  then have "\<forall>c \<in> set (dropWhile is_space s). is_space c"
    by (simp only: TrimSpace_def rev_is_Nil_conv dropWhile_eq_Nil_conv set_rev)
  then have "dropWhile is_space s = []"
    by (metis hd_dropWhile hd_in_set)
  then show "\<forall>c \<in> set s. is_space c"
    by (simp only: dropWhile_eq_Nil_conv)
next
  assume "\<forall>c \<in> set s. is_space c"
  then have "dropWhile is_space s = []"
    by (simp only: dropWhile_eq_Nil_conv)
  then show "TrimSpace s = []"
    unfolding TrimSpace_def by (simp only: dropWhile.simps rev.simps)
qed

section \<open>Letter case\<close>

definition upper_char :: "char \<Rightarrow> char" where
  "upper_char c = (let n = of_char c :: nat in
     if 97 \<le> n \<and> n \<le> 122 then char_of (n - 32) else c)"

definition lower_char :: "char \<Rightarrow> char" where
  "lower_char c = (let n = of_char c :: nat in
     if 65 \<le> n \<and> n \<le> 90 then char_of (n + 32) else c)"

definition ToUpper :: "string \<Rightarrow> string" where
  "ToUpper s = map upper_char s"

definition ToLower :: "string \<Rightarrow> string" where
  "ToLower s = map lower_char s"

text \<open>\<open>strings.EqualFold\<close> on ASCII: equal after folding the case.\<close>

definition EqualFold :: "string \<Rightarrow> string \<Rightarrow> bool" where
  "EqualFold s t \<longleftrightarrow> ToLower s = ToLower t"

section \<open>Prefixes, separators, concatenation\<close>

fun HasPrefix :: "string \<Rightarrow> string \<Rightarrow> bool" where
  "HasPrefix s [] = True"
| "HasPrefix [] (c # cs) = False"
| "HasPrefix (x # xs) (c # cs) = (x = c \<and> HasPrefix xs cs)"

lemma HasPrefix_append [simp]: "HasPrefix (p @ s) p"
  by (induction p) auto

text \<open>\<open>strings.SplitN(s, sep, 2)\<close> for a separator of one byte.\<close>

definition SplitN2 :: "string \<Rightarrow> char \<Rightarrow> string list" where
  "SplitN2 s sep = (case dropWhile (\<lambda>c. c \<noteq> sep) s of
     [] \<Rightarrow> [s]
   | _ # rest \<Rightarrow> [takeWhile (\<lambda>c. c \<noteq> sep) s, rest])"

lemma SplitN2_no_sep:
  assumes "sep \<notin> set s"
  shows "SplitN2 s sep = [s]"
proof -
  have "\<forall>c \<in> set s. c \<noteq> sep" using assms by blast
  then have "dropWhile (\<lambda>c. c \<noteq> sep) s = []"
    by (simp only: dropWhile_eq_Nil_conv)
  then show ?thesis by (simp only: SplitN2_def list.case)
qed

lemma SplitN2_sep: "sep \<notin> set a \<Longrightarrow> SplitN2 (a @ sep # b) sep = [a, b]"
proof -
  assume a: "sep \<notin> set a"
  then have "dropWhile (\<lambda>c. c \<noteq> sep) (a @ sep # b) = sep # b"
    and "takeWhile (\<lambda>c. c \<noteq> sep) (a @ sep # b) = a"
    by (induction a) auto
  then show ?thesis by (simp add: SplitN2_def)
qed

text \<open>\<open>strings.Join\<close>.\<close>

fun Join :: "string list \<Rightarrow> string \<Rightarrow> string" where
  "Join [] sep = []"
| "Join [s] sep = s"
| "Join (s # t # ss) sep = s @ sep @ Join (t # ss) sep"

text \<open>Two texts joined by a byte neither of them holds determine both.\<close>

lemma join_sep_inj:
  assumes "sep \<notin> set a" "sep \<notin> set c" "a @ sep # b = c @ sep # d"
  shows "a = c \<and> b = d"
  using assms
proof (induction a arbitrary: c)
  case Nil
  then show ?case by (cases c) auto
next
  case (Cons x a)
  then show ?case by (cases c) auto
qed

section \<open>Decimal numbers\<close>

definition digit_char :: "nat \<Rightarrow> char" where
  "digit_char d = char_of (48 + d)"

fun nat_text :: "nat \<Rightarrow> string" where
  "nat_text n = (if n < 10 then [digit_char n] else nat_text (n div 10) @ [digit_char (n mod 10)])"

declare nat_text.simps [simp del]

text \<open>The verb \<open>%d\<close> of \<open>fmt.Sprintf\<close>.\<close>

definition int_text :: "int \<Rightarrow> string" where
  "int_text i = (if i < 0 then CHR ''-'' # nat_text (nat (- i)) else nat_text (nat i))"

definition digit_val :: "char \<Rightarrow> nat" where
  "digit_val c = of_char c - 48"

lemma digit_val_char [simp]: "d < 10 \<Longrightarrow> digit_val (digit_char d) = d"
  by (simp add: digit_val_def digit_char_def)

definition text_nat :: "string \<Rightarrow> nat" where
  "text_nat s = foldl (\<lambda>acc c. 10 * acc + digit_val c) 0 s"

lemma text_nat_snoc: "text_nat (s @ [c]) = 10 * text_nat s + digit_val c"
  by (simp add: text_nat_def)

lemma text_nat_nat_text [simp]: "text_nat (nat_text n) = n"
proof (induction n rule: nat_text.induct)
  case (1 n)
  show ?case
  proof (cases "n < 10")
    case True
    then show ?thesis by (simp add: nat_text.simps [of n] text_nat_def)
  next
    case False
    with 1 have "text_nat (nat_text (n div 10)) = n div 10" by simp
    with False show ?thesis by (simp add: nat_text.simps [of n] text_nat_snoc)
  qed
qed

lemma nat_text_inj: "nat_text m = nat_text n \<Longrightarrow> m = n"
  by (metis text_nat_nat_text)

lemma nat_text_not_Nil [simp]: "nat_text n \<noteq> []"
  by (subst nat_text.simps) simp

text \<open>The \<open>btrim(text) = ''\<close> of the constraints: only spaces.\<close>

definition btrim_blank :: "string \<Rightarrow> bool" where
  "btrim_blank s \<longleftrightarrow> list_all (\<lambda>c. c = CHR '' '') s"

end
