(* ===== verification/Messages.thy ===== *)
theory Messages
  imports GoStrings
begin

text \<open>
  The message envelope every service exchanges: \<open>shared_lib/messaging/message.go\<close> and
  the outbound form the outbox ports take, \<open>shared_lib/messaging/port.go\<close>.
\<close>

section \<open>Message types\<close>

datatype MsgType =
  MsgTypeUnknown | MsgTypeUserCreated | MsgTypeUserUpdated | MsgTypeUserDeleted
| MsgTypeEmailVerificationRequestedReserved | MsgTypeDatasetFileUploaded
| MsgTypeRawSnapshotReady | MsgTypeFeatureSnapshotBuildRequestedDeprecated
| MsgTypeFeatureSnapshotReady | MsgTypeEmbeddingMaterializationRequestedDeprecated
| MsgTypeEmbeddingSnapshotReady | MsgTypeDatasetCreated | MsgTypeDatasetDeleted
| MsgTypeDatasetUpdated | MsgTypeModelTrainingCompleted | MsgTypeModelTrainingFailed
| MsgTypeModelUpdated | MsgTypePreferenceDatasetReadyDeprecated | MsgTypeModelArtifactIngested
| MsgTypePromotionRequested | MsgTypePromotionReportReady | MsgTypeGraphSnapshotReady
| MsgTypeAgentChampionUpdated | MsgTypeToolCapabilityUpdated | MsgTypeToolGrantUpdated
| MsgTypeToolCredentialBindingUpdated

definition msgType :: "(MsgType \<times> string) list" where
  "msgType = [
     (MsgTypeUserCreated, ''user_created''),
     (MsgTypeUserUpdated, ''user_updated''),
     (MsgTypeUserDeleted, ''user_deleted''),
     (MsgTypeDatasetFileUploaded, ''dataset_file_uploaded''),
     (MsgTypeRawSnapshotReady, ''raw_snapshot_ready''),
     (MsgTypeFeatureSnapshotReady, ''feature_snapshot_ready''),
     (MsgTypeEmbeddingSnapshotReady, ''embedding_snapshot_ready''),
     (MsgTypeDatasetCreated, ''dataset_created''),
     (MsgTypeDatasetDeleted, ''dataset_deleted''),
     (MsgTypeDatasetUpdated, ''dataset_updated''),
     (MsgTypeModelTrainingCompleted, ''model_training_completed''),
     (MsgTypeModelTrainingFailed, ''model_training_failed''),
     (MsgTypeModelUpdated, ''model_updated''),
     (MsgTypeModelArtifactIngested, ''model_artifact_ingested''),
     (MsgTypePromotionRequested, ''promotion_requested''),
     (MsgTypePromotionReportReady, ''promotion_report_ready''),
     (MsgTypeGraphSnapshotReady, ''graph_snapshot_ready''),
     (MsgTypeAgentChampionUpdated, ''agent_champion_updated''),
     (MsgTypeToolCapabilityUpdated, ''tool_capability_updated''),
     (MsgTypeToolGrantUpdated, ''tool_grant_updated''),
     (MsgTypeToolCredentialBindingUpdated, ''tool_credential_binding_updated'')]"

text \<open>A type without a name (unknown, reserved, deprecated) prints as the empty text.\<close>

definition MsgType_String :: "MsgType \<Rightarrow> string" where
  "MsgType_String m = (case map_of msgType m of None \<Rightarrow> [] | Some s \<Rightarrow> s)"

definition MsgTypeFromStringChecked :: "string \<Rightarrow> string + MsgType" where
  "MsgTypeFromStringChecked s = (case find (\<lambda>kv. snd kv = s) msgType of
     None \<Rightarrow> Inl (''unknown message type: '' @ s) | Some kv \<Rightarrow> Inr (fst kv))"

definition named_type :: "MsgType \<Rightarrow> bool" where
  "named_type m \<longleftrightarrow> m \<in> set (map fst msgType)"

lemma msgType_distinct: "distinct (map fst msgType)" "distinct (map snd msgType)"
  by (simp_all add: msgType_def)

interpretation msg_type: text_enum named_type MsgType_String MsgTypeFromStringChecked
proof
  fix x
  assume "named_type x"
  then obtain s where s: "(x, s) \<in> set msgType" by (auto simp: named_type_def)
  then have "MsgType_String x = s"
    by (simp add: MsgType_String_def map_of_is_SomeI [OF msgType_distinct(1)])
  moreover have "find (\<lambda>kv. snd kv = s) msgType = Some (x, s)"
    using find_key_distinct [OF msgType_distinct(2) s] by simp
  ultimately show "MsgTypeFromStringChecked (MsgType_String x) = Inr x"
    by (simp add: MsgTypeFromStringChecked_def)
next
  fix s x
  assume "MsgTypeFromStringChecked s = Inr x"
  then show "named_type x"
    by (auto simp: MsgTypeFromStringChecked_def named_type_def split: option.splits
        dest!: find_SomeD)
qed

section \<open>Envelopes\<close>

record message =
  ms_ResourceKey :: uuid
  ms_MsgType :: MsgType
  ms_Payload :: string

datatype message_error = EnvelopeInvalid string | DispatchKeyRequired | TopicRequired

definition Message_Validate :: "message \<Rightarrow> message_error option" where
  "Message_Validate m =
     (if ms_ResourceKey m = uuid_nil then Some (EnvelopeInvalid ''resource_key required'')
      else if ms_MsgType m = MsgTypeUnknown then Some (EnvelopeInvalid ''msg_type required'')
      else if ms_Payload m = [] then Some (EnvelopeInvalid ''payload required'')
      else None)"

type_synonym header = "string \<times> string"

record outbound_message =
  om_Topic :: string
  om_Message :: message
  om_Headers :: "header list"
  om_DispatchKey :: string

definition OutboundMessage_Validate :: "outbound_message \<Rightarrow> message_error option" where
  "OutboundMessage_Validate m =
     (if TrimSpace (om_Topic m) = [] then Some TopicRequired
      else case Message_Validate (om_Message m) of
        Some e \<Rightarrow> Some e
      | None \<Rightarrow> if TrimSpace (om_DispatchKey m) = [] then Some DispatchKeyRequired else None)"

lemma outbound_valid:
  "OutboundMessage_Validate m = None \<Longrightarrow>
     TrimSpace (om_Topic m) \<noteq> [] \<and> TrimSpace (om_DispatchKey m) \<noteq> [] \<and>
     ms_ResourceKey (om_Message m) \<noteq> uuid_nil \<and> ms_Payload (om_Message m) \<noteq> []"
  by (auto simp: OutboundMessage_Validate_def Message_Validate_def split: option.splits if_splits)

end
