(* ===== verification/UnitOfWork.thy ===== *)
theory UnitOfWork
  imports Prelude
begin

text \<open>
  Transactions: \<open>shared_lib/db/tx_runner.go\<close> and, on top of it, the unit of work with
  a transactional outbox, \<open>shared_lib/uow/uow.go\<close>.

  The body of a transaction is a function of the database state. What the database server
  and the connection decide (whether a transaction begins, commits, rolls back) is an
  argument, one \<open>tx_env\<close> per attempt. A commit that reports an error has not
  committed; PostgreSQL leaves that case open when the connection breaks during the
  commit, and the model takes the reported outcome.
\<close>

section \<open>One attempt\<close>

datatype ('e, 'a, 's) fn_outcome = FnOk 'a 's | FnErr 'e | FnPanic string

record 'e tx_env =
  te_begin :: "'e option"
  te_commit :: "'e option"
  te_rollback :: "'e option"

datatype 'e tx_error =
  BeginTx 'e
| FnError 'e "'e option"
| Panicked string "'e option"
| CommitTx 'e "'e option"

text \<open>
  \<open>te_rollback\<close> is the error of the rollback unless \<open>ignoreRollbackError\<close> drops it;
  it is kept beside the error it is reported with.
\<close>

definition doOnce ::
  "'e tx_env \<Rightarrow> ('s \<Rightarrow> ('e, 'a, 's) fn_outcome) \<Rightarrow> 's \<Rightarrow> ('e tx_error + 'a) \<times> 's" where
  "doOnce env fn s = (case te_begin env of
     Some e \<Rightarrow> (Inl (BeginTx e), s)
   | None \<Rightarrow> (case fn s of
       FnPanic p \<Rightarrow> (Inl (Panicked p (te_rollback env)), s)
     | FnErr e \<Rightarrow> (Inl (FnError e (te_rollback env)), s)
     | FnOk a s' \<Rightarrow> (case te_commit env of
         Some e \<Rightarrow> (Inl (CommitTx e (te_rollback env)), s)
       | None \<Rightarrow> (Inr a, s'))))"

text \<open>A transaction that reports an error has left nothing behind.\<close>

lemma doOnce_error: "doOnce env fn s = (Inl e, s') \<Longrightarrow> s' = s"
  by (auto simp: doOnce_def split: option.splits fn_outcome.splits)

lemma doOnce_ok: "doOnce env fn s = (Inr a, s') \<longleftrightarrow>
    te_begin env = None \<and> te_commit env = None \<and> fn s = FnOk a s'"
  by (auto simp: doOnce_def split: option.splits fn_outcome.splits)

section \<open>Retries\<close>

definition retryable_codes :: "string set" where
  "retryable_codes = {''40001'', ''40P01'', ''55P03''}"

text \<open>
  \<open>IsRetryableTransactionError\<close> looks for a PostgreSQL error anywhere in the chain of
  wrapped errors; \<open>code\<close> says which SQLSTATE, if any, an error carries. A panic is
  turned into a new error, which wraps nothing.
\<close>

fun tx_error_code :: "('e \<Rightarrow> string option) \<Rightarrow> 'e tx_error \<Rightarrow> string option" where
  "tx_error_code code (BeginTx e) = code e"
| "tx_error_code code (FnError e rb) = code e"
| "tx_error_code code (Panicked p rb) = None"
| "tx_error_code code (CommitTx e rb) = code e"

definition IsRetryableTransactionError :: "('e \<Rightarrow> string option) \<Rightarrow> 'e tx_error \<Rightarrow> bool" where
  "IsRetryableTransactionError code err = (case tx_error_code code err of
     None \<Rightarrow> False | Some c \<Rightarrow> c \<in> retryable_codes)"

record 'e tx_runner =
  tr_RetryAttempts :: int
  tr_RetryBaseBackoff :: int
  tr_code :: "'e \<Rightarrow> string option"
  tr_env :: "nat \<Rightarrow> 'e tx_env"
  tr_cancelled :: "nat \<Rightarrow> bool"
  tr_cancelled_in_backoff :: "nat \<Rightarrow> bool"

text \<open>
  The loop of \<open>Do\<close>, \<open>left\<close> attempts after this one. \<open>tr_cancelled k\<close> is
  \<open>ctx.Err() != nil\<close> after attempt \<open>k\<close>, \<open>tr_cancelled_in_backoff k\<close> that the
  context ends while the runner waits. The last component counts the attempts made.
\<close>

fun tx_loop ::
  "'e tx_runner \<Rightarrow> ('s \<Rightarrow> ('e, 'a, 's) fn_outcome) \<Rightarrow> nat \<Rightarrow> nat \<Rightarrow> 's \<Rightarrow>
   ('e tx_error + 'a) \<times> 's \<times> nat" where
  "tx_loop r fn attempt left s = (case doOnce (tr_env r attempt) fn s of
     (Inr a, s') \<Rightarrow> (Inr a, s', attempt)
   | (Inl e, s') \<Rightarrow>
       (case left of 0 \<Rightarrow> (Inl e, s', attempt)
        | Suc left' \<Rightarrow>
           if \<not> IsRetryableTransactionError (tr_code r) e \<or> tr_cancelled r attempt
           then (Inl e, s', attempt)
           else if int attempt * tr_RetryBaseBackoff r > 0 \<and> tr_cancelled_in_backoff r attempt
           then (Inl e, s', attempt)
           else tx_loop r fn (Suc attempt) left' s'))"

declare tx_loop.simps [simp del]

definition tx_Do ::
  "'e tx_runner \<Rightarrow> ('s \<Rightarrow> ('e, 'a, 's) fn_outcome) \<Rightarrow> 's \<Rightarrow> ('e tx_error + 'a) \<times> 's \<times> nat" where
  "tx_Do r fn s = (let attempts = (if tr_RetryAttempts r \<le> 0 then 1 else nat (tr_RetryAttempts r))
     in tx_loop r fn 1 (attempts - 1) s)"

lemma tx_loop_ok:
  "doOnce (tr_env r k) fn s = (Inr a, s1) \<Longrightarrow> tx_loop r fn k left s = (Inr a, s1, k)"
  by (simp add: tx_loop.simps)

lemma tx_loop_last:
  "doOnce (tr_env r k) fn s = (Inl e, s1) \<Longrightarrow> tx_loop r fn k 0 s = (Inl e, s1, k)"
  by (simp add: tx_loop.simps)

lemma tx_loop_again:
  "doOnce (tr_env r k) fn s = (Inl e, s1) \<Longrightarrow> tx_loop r fn k (Suc left) s =
     (if \<not> IsRetryableTransactionError (tr_code r) e \<or> tr_cancelled r k \<or>
         int k * tr_RetryBaseBackoff r > 0 \<and> tr_cancelled_in_backoff r k
      then (Inl e, s1, k) else tx_loop r fn (Suc k) left s1)"
  by (subst tx_loop.simps) auto

lemma tx_loop_result:
  assumes "tx_loop r fn k left s = (res, s', n)"
  shows "k \<le> n \<and> n \<le> k + left \<and>
    (case res of Inl e \<Rightarrow> s' = s | Inr a \<Rightarrow> doOnce (tr_env r n) fn s = (Inr a, s'))"
  using assms
proof (induction left arbitrary: k)
  case 0
  obtain res1 s1 where once: "doOnce (tr_env r k) fn s = (res1, s1)" by fastforce
  show ?case
  proof (cases res1)
    case (Inl e)
    have "s1 = s" using once Inl doOnce_error by metis
    then have "res = Inl e" "s' = s" "n = k"
      using 0 once Inl by (simp_all add: tx_loop_last)
    then show ?thesis by simp
  next
    case (Inr a)
    with 0 once show ?thesis by (auto simp: tx_loop_ok)
  qed
next
  case (Suc left)
  obtain res1 s1 where once: "doOnce (tr_env r k) fn s = (res1, s1)" by fastforce
  show ?case
  proof (cases res1)
    case (Inr a)
    with Suc.prems once show ?thesis by (auto simp: tx_loop_ok)
  next
    case (Inl e)
    then have s1: "s1 = s" using once doOnce_error by metis
    have "(res, s', n) = (Inl e, s, k) \<or> tx_loop r fn (Suc k) left s = (res, s', n)"
      using Suc.prems tx_loop_again [OF once [unfolded Inl s1], of left] by metis
    then consider "(res, s', n) = (Inl e, s, k)" | "tx_loop r fn (Suc k) left s = (res, s', n)"
      by blast
    then show ?thesis
    proof cases
      case 1
      then show ?thesis by simp
    next
      case 2
      then show ?thesis using Suc.IH [OF 2] by auto
    qed
  qed
qed

text \<open>An attempt is repeated only after an error that a repetition can cure.\<close>

lemma tx_loop_retries:
  assumes "tx_loop r fn k left s = (res, s', n)" "k \<le> i" "i < n"
  shows "\<exists>e. doOnce (tr_env r i) fn s = (Inl e, s) \<and> IsRetryableTransactionError (tr_code r) e \<and>
    \<not> tr_cancelled r i"
  using assms
proof (induction left arbitrary: k)
  case 0
  then show ?case
    using tx_loop_result [OF 0(1)] by simp
next
  case (Suc left)
  obtain res1 s1 where once: "doOnce (tr_env r k) fn s = (res1, s1)" by fastforce
  show ?case
  proof (cases res1)
    case (Inr a)
    with Suc.prems once show ?thesis by (auto simp: tx_loop_ok)
  next
    case (Inl e)
    then have s1: "s1 = s" using once doOnce_error by metis
    have go: "IsRetryableTransactionError (tr_code r) e" "\<not> tr_cancelled r k"
      and rest: "tx_loop r fn (Suc k) left s = (res, s', n)"
      using Suc.prems once Inl s1 by (auto simp: tx_loop_again split: if_splits)
    show ?thesis
    proof (cases "i = k")
      case True
      then show ?thesis using once Inl s1 go by blast
    next
      case False
      then show ?thesis using Suc.IH [OF rest] Suc.prems by simp
    qed
  qed
qed

text \<open>C23. A transaction is all or nothing across its retries: when \<open>Do\<close> reports an error
  the state is the one it started from, when it reports success the state is the result of
  exactly one committed run of the body on the starting state; it makes at least one attempt
  and no more than it is configured for, and repeats one only after a serialization
  failure, a deadlock or a lock timeout.\<close>

theorem tx_Do_atomic:
  assumes "tx_Do r fn s = (res, s', n)"
  shows "(case res of
       Inl e \<Rightarrow> s' = s
     | Inr a \<Rightarrow> fn s = FnOk a s' \<and> te_begin (tr_env r n) = None \<and> te_commit (tr_env r n) = None)
   \<and> 1 \<le> n \<and> int n \<le> max 1 (tr_RetryAttempts r)
   \<and> (\<forall>i. 1 \<le> i \<and> i < n \<longrightarrow>
        (\<exists>e. doOnce (tr_env r i) fn s = (Inl e, s) \<and> IsRetryableTransactionError (tr_code r) e))"
proof -
  let ?left = "(if tr_RetryAttempts r \<le> 0 then 1 else nat (tr_RetryAttempts r)) - 1"
  have loop: "tx_loop r fn 1 ?left s = (res, s', n)"
    using assms by (simp add: tx_Do_def Let_def)
  have "case res of Inl e \<Rightarrow> s' = s | Inr a \<Rightarrow> doOnce (tr_env r n) fn s = (Inr a, s')"
    and "1 \<le> n" "n \<le> 1 + ?left"
    using tx_loop_result [OF loop] by auto
  moreover have "int n \<le> max 1 (tr_RetryAttempts r)"
    using \<open>n \<le> 1 + ?left\<close> by (auto split: if_splits)
  ultimately show ?thesis
    using tx_loop_retries [OF loop] by (auto simp: doOnce_ok split: sum.splits)
qed

theorem tx_Do_atomic_witness:
  "fst (tx_Do \<lparr>tr_RetryAttempts = 3, tr_RetryBaseBackoff = 0, tr_code = (\<lambda>e. Some e),
      tr_env = (\<lambda>k. \<lparr>te_begin = None, te_commit = (if k = 1 then Some ''40001'' else None),
        te_rollback = None\<rparr>),
      tr_cancelled = (\<lambda>_. False), tr_cancelled_in_backoff = (\<lambda>_. False)\<rparr>
    (\<lambda>s. FnOk () (s + 1)) (5::int)) = Inr () \<and> (6::int) = 5 + 1"
proof -
  let ?r = "\<lparr>tr_RetryAttempts = 3, tr_RetryBaseBackoff = 0, tr_code = (\<lambda>e. Some e),
      tr_env = (\<lambda>k. \<lparr>te_begin = None, te_commit = (if k = 1 then Some ''40001'' else None),
        te_rollback = None\<rparr>),
      tr_cancelled = (\<lambda>_. False), tr_cancelled_in_backoff = (\<lambda>_. False)\<rparr>"
  have run: "tx_Do ?r (\<lambda>s. FnOk () (s + 1)) (5::int) = (Inr (), 6, 2)"
    by (simp add: tx_Do_def tx_loop.simps doOnce_def IsRetryableTransactionError_def
        retryable_codes_def numeral_2_eq_2)
  show ?thesis using tx_Do_atomic [OF run] run by simp
qed

section \<open>The unit of work\<close>

text \<open>
  \<open>uow.Do\<close> runs on a runner with the default of one attempt and hands its body an
  \<open>enqueue\<close> that writes to the outbox inside the transaction and remembers that it did.
  The last component of the result says whether the relay is signalled.
\<close>

definition uow_enqueue :: "('s \<Rightarrow> 'm \<Rightarrow> 'e + 's) \<Rightarrow> 's \<times> bool \<Rightarrow> 'm \<Rightarrow> 'e + ('s \<times> bool)" where
  "uow_enqueue enqueueTx st m = (case enqueueTx (fst st) m of
     Inl e \<Rightarrow> Inl e | Inr s' \<Rightarrow> Inr (s', True))"

definition uow_Do ::
  "'e tx_env \<Rightarrow> ('s \<Rightarrow> 'm \<Rightarrow> 'e + 's) \<Rightarrow>
   (('s \<times> bool \<Rightarrow> 'm \<Rightarrow> 'e + ('s \<times> bool)) \<Rightarrow> 's \<times> bool \<Rightarrow> ('e, 'a, 's \<times> bool) fn_outcome) \<Rightarrow>
   's \<Rightarrow> ('e tx_error + 'a) \<times> 's \<times> bool" where
  "uow_Do env enqueueTx fn s =
     (case doOnce env (fn (uow_enqueue enqueueTx)) (s, False) of
        (Inl e, st) \<Rightarrow> (Inl e, fst st, False)
      | (Inr a, st) \<Rightarrow> (Inr a, fst st, snd st))"

lemma uow_Do_error: "uow_Do env enq fn s = (Inl e, s', sig) \<Longrightarrow> s' = s \<and> \<not> sig"
  by (auto simp: uow_Do_def dest!: doOnce_error split: prod.splits sum.splits)

lemma uow_Do_ok:
  "uow_Do env enq fn s = (Inr a, s', sig) \<Longrightarrow> fn (uow_enqueue enq) (s, False) = FnOk a (s', sig)"
  by (auto simp: uow_Do_def doOnce_ok split: prod.splits sum.splits)

text \<open>The shape most bodies have: change the business tables, then enqueue what follows from it.\<close>

fun enqueue_all :: "('st \<Rightarrow> 'm \<Rightarrow> 'e + 'st) \<Rightarrow> 'st \<Rightarrow> 'm list \<Rightarrow> 'e + 'st" where
  "enqueue_all enq st [] = Inr st"
| "enqueue_all enq st (m # ms) = (case enq st m of Inl e \<Rightarrow> Inl e | Inr st' \<Rightarrow> enqueue_all enq st' ms)"

definition change_then_enqueue ::
  "('s \<Rightarrow> 'e + ('a \<times> 's)) \<Rightarrow> ('a \<Rightarrow> 'm list) \<Rightarrow>
   ('s \<times> bool \<Rightarrow> 'm \<Rightarrow> 'e + ('s \<times> bool)) \<Rightarrow> 's \<times> bool \<Rightarrow> ('e, 'a, 's \<times> bool) fn_outcome" where
  "change_then_enqueue change msgs enq st = (case change (fst st) of
     Inl e \<Rightarrow> FnErr e
   | Inr (a, s1) \<Rightarrow> (case enqueue_all enq (s1, snd st) (msgs a) of
       Inl e \<Rightarrow> FnErr e | Inr st' \<Rightarrow> FnOk a st'))"

text \<open>
  The contract of \<open>OrderedOutbox\<close> (\<open>shared_lib/messaging/port.go\<close>) that a body relies
  on: an enqueued message is in the outbox under its dispatch key, an enqueue removes no
  message and touches no business state.
\<close>

locale ordered_outbox =
  fixes enqueueTx :: "'s \<Rightarrow> 'm \<Rightarrow> 'e + 's"
    and keys :: "'s \<Rightarrow> string set"
    and key_of :: "'m \<Rightarrow> string"
    and business :: "'s \<Rightarrow> 'b"
  assumes enqueued: "enqueueTx s m = Inr s' \<Longrightarrow> key_of m \<in> keys s'"
    and keeps: "enqueueTx s m = Inr s' \<Longrightarrow> keys s \<subseteq> keys s'"
    and frame: "enqueueTx s m = Inr s' \<Longrightarrow> business s' = business s"
begin

lemma uow_enqueue_ok:
  assumes "uow_enqueue enqueueTx st m = Inr st'"
  shows "key_of m \<in> keys (fst st')" "keys (fst st) \<subseteq> keys (fst st')"
    "business (fst st') = business (fst st)" "snd st'"
proof -
  obtain s1 where "enqueueTx (fst st) m = Inr s1" "st' = (s1, True)"
    using assms by (auto simp: uow_enqueue_def split: sum.splits)
  then show "key_of m \<in> keys (fst st')" "keys (fst st) \<subseteq> keys (fst st')"
    "business (fst st') = business (fst st)" "snd st'"
    using enqueued keeps frame by auto
qed

lemma enqueue_all_ok:
  assumes "enqueue_all (uow_enqueue enqueueTx) st ms = Inr st'"
  shows "(\<forall>m \<in> set ms. key_of m \<in> keys (fst st')) \<and> keys (fst st) \<subseteq> keys (fst st') \<and>
    business (fst st') = business (fst st) \<and> (snd st' \<longleftrightarrow> snd st \<or> ms \<noteq> [])"
  using assms
proof (induction ms arbitrary: st)
  case (Cons m ms)
  obtain st1 where st1: "uow_enqueue enqueueTx st m = Inr st1"
    "enqueue_all (uow_enqueue enqueueTx) st1 ms = Inr st'"
    using Cons.prems by (auto split: sum.splits)
  show ?case using uow_enqueue_ok [OF st1(1)] Cons.IH [OF st1(2)] by auto
qed simp

lemma change_and_enqueue:
  assumes "uow_Do env enqueueTx (change_then_enqueue change msgs) s = (res, s', sig)"
  shows "case res of
      Inl e \<Rightarrow> s' = s \<and> \<not> sig
    | Inr a \<Rightarrow> (sig \<longleftrightarrow> msgs a \<noteq> []) \<and> (\<forall>m \<in> set (msgs a). key_of m \<in> keys s') \<and>
        (\<exists>s1. change s = Inr (a, s1) \<and> business s' = business s1 \<and> keys s1 \<subseteq> keys s')"
proof (cases res)
  case (Inl e)
  then show ?thesis using uow_Do_error assms by (metis (mono_tags, lifting) sum.case(1))
next
  case (Inr a)
  from uow_Do_ok [OF assms [unfolded Inr]] obtain s1
    where change: "change s = Inr (a, s1)"
      and enq: "enqueue_all (uow_enqueue enqueueTx) (s1, False) (msgs a) = Inr (s', sig)"
    by (simp add: change_then_enqueue_def split: sum.splits prod.splits)
  show ?thesis
    using enqueue_all_ok [OF enq] change Inr by auto
qed

end

end
