(* ===== verification/Outbox.thy ===== *)
theory Outbox
  imports Messages UnitOfWork
begin

text \<open>
  The transactional outbox on PostgreSQL and its relay:
  \<open>shared_lib/messaging/postgres_outbox.go\<close>, \<open>outbox.go\<close>,
  \<open>signaled_outbox.go\<close> and \<open>outbox_relay.go\<close>. The table is the one of the services'
  migrations (\<open>model_registry_service/db/migrations/000002\<close> and its siblings).

  The table is the list of its rows in insertion order. Times are integers. What the server
  or the clock supplies (ids, the current time, the rows another transaction holds locked,
  the errors of a statement) is an argument. The JSON of an envelope and the trace headers
  come from libraries and are fields of \<open>outbox_env\<close>. The text form of \<open>outbox_id\<close> is
  left out: a pending message carries the id itself.
\<close>

section \<open>The table\<close>

datatype outbox_status = OPending | OProcessing | OSent

record outbox_row =
  ob_id :: uuid
  ob_dispatch_key :: string
  ob_topic :: string
  ob_event_type :: string
  ob_resource_key :: uuid
  ob_payload :: string
  ob_headers :: "header list"
  ob_status :: outbox_status
  ob_attempts :: int
  ob_next_attempt_at :: int
  ob_processing_owner :: string
  ob_claim_token :: string
  ob_lease_expires_at :: "int option"
  ob_last_error :: string
  ob_sent_at :: "int option"
  ob_created_at :: int
  ob_updated_at :: int

type_synonym outbox = "outbox_row list"

record outbox_message =
  ox_Topic :: string
  ox_Message :: message
  ox_Payload :: string
  ox_Headers :: "header list"
  ox_DispatchKey :: string

record outbox_pending =
  op_PK :: uuid
  op_SK :: string
  op_Topic :: string
  op_Payload :: string
  op_Headers :: "header list"
  op_Attempts :: int
  op_ProcessingOwner :: string
  op_ClaimToken :: string

datatype outbox_error =
  InvalidMessage message_error
| SerializeEnvelope message_error
| WriteFailed string
| ReadFailed string
| MarkFailedError string
| NotClaimed uuid
| TransactionRequired
| BaseRequired

record outbox_env =
  oe_envelope :: "message \<Rightarrow> string"
  oe_trace_headers :: "header list"
  oe_derive_key :: "string \<Rightarrow> message \<Rightarrow> string \<Rightarrow> int \<Rightarrow> string"
  oe_exec_error :: "string option"

section \<open>Writing\<close>

definition outboxMessageFromOutbound ::
  "outbox_env \<Rightarrow> outbound_message \<Rightarrow> outbox_error + outbox_message" where
  "outboxMessageFromOutbound env msg = (case OutboundMessage_Validate msg of
     Some e \<Rightarrow> Inl (InvalidMessage e)
   | None \<Rightarrow> (case Message_Validate (om_Message msg) of
       Some e \<Rightarrow> Inl (SerializeEnvelope e)
     | None \<Rightarrow> Inr \<lparr>ox_Topic = om_Topic msg, ox_Message = om_Message msg,
         ox_Payload = oe_envelope env (om_Message msg),
         ox_Headers = om_Headers msg @ oe_trace_headers env,
         ox_DispatchKey = om_DispatchKey msg\<rparr>))"

definition dispatch_key_of :: "outbox_env \<Rightarrow> int \<Rightarrow> outbox_message \<Rightarrow> string" where
  "dispatch_key_of env now m = (if TrimSpace (ox_DispatchKey m) = []
     then oe_derive_key env (ox_Topic m) (ox_Message m) (ox_Payload m) now
     else TrimSpace (ox_DispatchKey m))"

definition new_row :: "outbox_env \<Rightarrow> int \<Rightarrow> uuid \<Rightarrow> outbox_message \<Rightarrow> outbox_row" where
  "new_row env now i m = \<lparr>ob_id = i, ob_dispatch_key = dispatch_key_of env now m,
     ob_topic = ox_Topic m, ob_event_type = MsgType_String (ms_MsgType (ox_Message m)),
     ob_resource_key = ms_ResourceKey (ox_Message m), ob_payload = ox_Payload m,
     ob_headers = ox_Headers m, ob_status = OPending, ob_attempts = 0, ob_next_attempt_at = now,
     ob_processing_owner = [], ob_claim_token = [], ob_lease_expires_at = None,
     ob_last_error = [], ob_sent_at = None, ob_created_at = now, ob_updated_at = now\<rparr>"

text \<open>The insert with \<open>ON CONFLICT (dispatch_key) DO NOTHING\<close>.\<close>

definition writeMessageTx ::
  "outbox_env \<Rightarrow> int \<Rightarrow> uuid \<Rightarrow> outbox_message \<Rightarrow> outbox \<Rightarrow> outbox_error + outbox" where
  "writeMessageTx env now i m ob = (case oe_exec_error env of
     Some e \<Rightarrow> Inl (WriteFailed e)
   | None \<Rightarrow> if dispatch_key_of env now m \<in> set (map ob_dispatch_key ob) then Inr ob
       else Inr (ob @ [new_row env now i m]))"

definition EnqueueTx ::
  "outbox_env \<Rightarrow> int \<Rightarrow> uuid \<Rightarrow> outbox \<Rightarrow> outbound_message \<Rightarrow> outbox_error + outbox" where
  "EnqueueTx env now i ob msg = (case outboxMessageFromOutbound env msg of
     Inl e \<Rightarrow> Inl e | Inr m \<Rightarrow> writeMessageTx env now i m ob)"

text \<open>
  \<open>WriteMessage\<close> and \<open>Enqueue\<close> outside a caller's transaction: a transaction of its own,
  whose begin and commit may fail.
\<close>

definition WriteMessage ::
  "outbox_env \<Rightarrow> string tx_env \<Rightarrow> int \<Rightarrow> uuid \<Rightarrow> outbox_message \<Rightarrow> outbox \<Rightarrow> (outbox_error + unit) \<times> outbox" where
  "WriteMessage env te now i m ob = (case te_begin te of
     Some e \<Rightarrow> (Inl (WriteFailed e), ob)
   | None \<Rightarrow> (case writeMessageTx env now i m ob of
       Inl e \<Rightarrow> (Inl e, ob)
     | Inr ob' \<Rightarrow> (case te_commit te of
         Some e \<Rightarrow> (Inl (WriteFailed e), ob) | None \<Rightarrow> (Inr (), ob'))))"

definition Enqueue ::
  "outbox_env \<Rightarrow> string tx_env \<Rightarrow> int \<Rightarrow> uuid \<Rightarrow> outbound_message \<Rightarrow> outbox \<Rightarrow> (outbox_error + unit) \<times> outbox" where
  "Enqueue env te now i msg ob = (case outboxMessageFromOutbound env msg of
     Inl e \<Rightarrow> (Inl e, ob) | Inr m \<Rightarrow> WriteMessage env te now i m ob)"

section \<open>Claiming and settling\<close>

definition eligible :: "int \<Rightarrow> outbox_row \<Rightarrow> bool" where
  "eligible now r \<longleftrightarrow>
     (ob_status r = OPending \<and> ob_next_attempt_at r \<le> now) \<or>
     (ob_status r = OProcessing \<and> (case ob_lease_expires_at r of None \<Rightarrow> False | Some t \<Rightarrow> t \<le> now))"

definition claim :: "string \<Rightarrow> string \<Rightarrow> int \<Rightarrow> int \<Rightarrow> outbox_row \<Rightarrow> outbox_row" where
  "claim owner token lease now r = r\<lparr>ob_status := OProcessing, ob_processing_owner := owner,
     ob_claim_token := token, ob_lease_expires_at := Some lease, ob_updated_at := now\<rparr>"

definition pending_of :: "string \<Rightarrow> string \<Rightarrow> outbox_row \<Rightarrow> outbox_pending" where
  "pending_of owner token r = \<lparr>op_PK = ob_id r, op_SK = ob_dispatch_key r, op_Topic = ob_topic r,
     op_Payload = ob_payload r, op_Headers = ob_headers r, op_Attempts = ob_attempts r,
     op_ProcessingOwner = owner, op_ClaimToken = token\<rparr>"

record relay_identity =
  ri_OwnerID :: string
  ri_LeaseTTL :: int

definition default_lease :: int where
  "default_lease = 30000000000"

definition ConfigureRelayIdentity :: "string \<Rightarrow> int \<Rightarrow> relay_identity \<Rightarrow> relay_identity" where
  "ConfigureRelayIdentity ownerID leaseDuration p =
     (let p1 = (if TrimSpace ownerID \<noteq> [] then p\<lparr>ri_OwnerID := ownerID\<rparr> else p)
      in if leaseDuration > 0 then p1\<lparr>ri_LeaseTTL := leaseDuration\<rparr> else p1)"

text \<open>
  What one call of \<open>ReadPending\<close> draws from outside: a fresh owner id and claim token,
  the process clock, the server clock, the ids of rows locked by other transactions, and
  the errors of its statements.
\<close>

record read_env =
  re_fresh_owner :: string
  re_fresh_token :: string
  re_process_now :: int
  re_now :: int
  re_locked :: "uuid list"
  re_begin :: "string option"
  re_query :: "string option"
  re_commit :: "string option"

definition candidates :: "int \<Rightarrow> uuid list \<Rightarrow> nat \<Rightarrow> outbox \<Rightarrow> outbox_row list" where
  "candidates now locked limit ob =
     take limit (sort_key ob_created_at (filter (\<lambda>r. eligible now r \<and> ob_id r \<notin> set locked) ob))"

definition ReadPending ::
  "read_env \<Rightarrow> int \<Rightarrow> relay_identity \<Rightarrow> outbox \<Rightarrow>
   (outbox_error + outbox_pending list) \<times> relay_identity \<times> outbox" where
  "ReadPending re maxMessages p ob =
     (if maxMessages \<le> 0 then (Inr [], p, ob)
      else let owner = (if ri_OwnerID p = [] then re_fresh_owner re else ri_OwnerID p);
               p' = p\<lparr>ri_OwnerID := owner\<rparr>;
               ttl = (if ri_LeaseTTL p \<le> 0 then default_lease else ri_LeaseTTL p);
               token = re_fresh_token re;
               lease = re_process_now re + ttl
           in case (re_begin re, re_query re, re_commit re) of
                (None, None, None) \<Rightarrow>
                  let ids = map ob_id (candidates (re_now re) (re_locked re) (nat maxMessages) ob);
                      ob' = update_where (\<lambda>r. ob_id r \<in> set ids) (claim owner token lease (re_now re)) ob
                  in (Inr (map (pending_of owner token) (filter (\<lambda>r. ob_id r \<in> set ids) ob')), p', ob')
              | (Some e, _, _) \<Rightarrow> (Inl (ReadFailed e), p', ob)
              | (None, Some e, _) \<Rightarrow> (Inl (ReadFailed e), p', ob)
              | (None, None, Some e) \<Rightarrow> (Inl (ReadFailed e), p', ob))"

definition holds_claim :: "outbox_pending \<Rightarrow> outbox_row \<Rightarrow> bool" where
  "holds_claim p r \<longleftrightarrow> ob_id r = op_PK p \<and> ob_status r = OProcessing \<and>
     ob_processing_owner r = op_ProcessingOwner p \<and> ob_claim_token r = op_ClaimToken p"

definition set_sent :: "int \<Rightarrow> outbox_row \<Rightarrow> outbox_row" where
  "set_sent now r = r\<lparr>ob_status := OSent, ob_sent_at := Some now, ob_updated_at := now\<rparr>"

definition set_failed :: "string \<Rightarrow> int \<Rightarrow> int \<Rightarrow> outbox_row \<Rightarrow> outbox_row" where
  "set_failed lastError nextAttemptAt now r = r\<lparr>ob_status := OPending,
     ob_attempts := ob_attempts r + 1, ob_last_error := lastError,
     ob_next_attempt_at := nextAttemptAt, ob_updated_at := now\<rparr>"

text \<open>A guarded update in a transaction of its own; no row hit is an error, and commits.\<close>

definition settle ::
  "string option \<Rightarrow> outbox_pending \<Rightarrow> (outbox_row \<Rightarrow> outbox_row) \<Rightarrow> outbox \<Rightarrow> (outbox_error + unit) \<times> outbox" where
  "settle err p f ob = (case err of
     Some e \<Rightarrow> (Inl (MarkFailedError e), ob)
   | None \<Rightarrow> (if \<exists>r \<in> set ob. holds_claim p r then Inr () else Inl (NotClaimed (op_PK p)),
              update_where (holds_claim p) f ob))"

definition MarkSent ::
  "string option \<Rightarrow> int \<Rightarrow> outbox_pending \<Rightarrow> outbox \<Rightarrow> (outbox_error + unit) \<times> outbox" where
  "MarkSent err now p ob = settle err p (set_sent now) ob"

definition MarkFailed ::
  "string option \<Rightarrow> int \<Rightarrow> outbox_pending \<Rightarrow> string \<Rightarrow> int \<Rightarrow> outbox \<Rightarrow> (outbox_error + unit) \<times> outbox" where
  "MarkFailed err now p lastError nextAttemptAt ob =
     settle err p (set_failed lastError nextAttemptAt now) ob"

section \<open>What the table keeps\<close>

definition wf_outbox :: "outbox \<Rightarrow> bool" where
  "wf_outbox ob \<longleftrightarrow> distinct (map ob_id ob) \<and> distinct (map ob_dispatch_key ob) \<and>
     (\<forall>r \<in> set ob. ob_status r = OProcessing \<longrightarrow> ob_lease_expires_at r \<noteq> None)"

definition outbox_keys :: "outbox \<Rightarrow> string set" where
  "outbox_keys ob = set (map ob_dispatch_key ob)"

lemma claim_fields [simp]:
  "ob_id (claim ow tk l now r) = ob_id r" "ob_dispatch_key (claim ow tk l now r) = ob_dispatch_key r"
  "ob_status (claim ow tk l now r) = OProcessing" "ob_lease_expires_at (claim ow tk l now r) = Some l"
  "ob_processing_owner (claim ow tk l now r) = ow" "ob_claim_token (claim ow tk l now r) = tk"
  by (simp_all add: claim_def)

lemma set_sent_fields [simp]:
  "ob_id (set_sent now r) = ob_id r" "ob_dispatch_key (set_sent now r) = ob_dispatch_key r"
  "ob_status (set_sent now r) = OSent" "ob_lease_expires_at (set_sent now r) = ob_lease_expires_at r"
  by (simp_all add: set_sent_def)

lemma set_failed_fields [simp]:
  "ob_id (set_failed e t now r) = ob_id r" "ob_dispatch_key (set_failed e t now r) = ob_dispatch_key r"
  "ob_status (set_failed e t now r) = OPending"
  "ob_lease_expires_at (set_failed e t now r) = ob_lease_expires_at r"
  "ob_next_attempt_at (set_failed e t now r) = t"
  by (simp_all add: set_failed_def)

lemma wf_update_where:
  assumes "wf_outbox ob" "\<And>r. ob_id (f r) = ob_id r" "\<And>r. ob_dispatch_key (f r) = ob_dispatch_key r"
    "\<And>r. r \<in> set ob \<Longrightarrow> p r \<Longrightarrow> ob_status (f r) = OProcessing \<Longrightarrow> ob_lease_expires_at (f r) \<noteq> None"
  shows "wf_outbox (update_where p f ob)"
  using assms by (auto simp: wf_outbox_def set_update_where)

lemma writeMessageTx_ok:
  assumes "writeMessageTx env now i m ob = Inr ob'"
  shows "(dispatch_key_of env now m \<in> outbox_keys ob \<and> ob' = ob) \<or>
    (dispatch_key_of env now m \<notin> outbox_keys ob \<and> ob' = ob @ [new_row env now i m])"
  using assms by (auto simp: writeMessageTx_def outbox_keys_def split: option.splits if_splits)

lemma new_row_fields [simp]:
  "ob_id (new_row env now i m) = i" "ob_status (new_row env now i m) = OPending"
  "ob_dispatch_key (new_row env now i m) = dispatch_key_of env now m"
  "ob_next_attempt_at (new_row env now i m) = now"
  by (simp_all add: new_row_def)

lemma writeMessageTx_wf [invariants]:
  assumes "wf_outbox ob" "i \<notin> ob_id ` set ob" "writeMessageTx env now i m ob = Inr ob'"
  shows "wf_outbox ob'"
  using writeMessageTx_ok [OF assms(3)] assms(1,2)
  by (auto simp: wf_outbox_def outbox_keys_def)

lemma EnqueueTx_ok:
  assumes "EnqueueTx env now i ob msg = Inr ob'"
  obtains m where "outboxMessageFromOutbound env msg = Inr m" "writeMessageTx env now i m ob = Inr ob'"
    "dispatch_key_of env now m = TrimSpace (om_DispatchKey msg)" "OutboundMessage_Validate msg = None"
proof -
  obtain m where m: "outboxMessageFromOutbound env msg = Inr m"
    and w: "writeMessageTx env now i m ob = Inr ob'"
    using assms by (auto simp: EnqueueTx_def split: sum.splits)
  have v: "OutboundMessage_Validate msg = None" and k: "ox_DispatchKey m = om_DispatchKey msg"
    using m by (auto simp: outboxMessageFromOutbound_def split: option.splits)
  from outbound_valid [OF v] k have "dispatch_key_of env now m = TrimSpace (om_DispatchKey msg)"
    by (simp add: dispatch_key_of_def)
  from that [OF m w this v] show ?thesis .
qed

lemma EnqueueTx_wf [invariants]:
  assumes "wf_outbox ob" "i \<notin> ob_id ` set ob" "EnqueueTx env now i ob msg = Inr ob'"
  shows "wf_outbox ob'"
  by (rule EnqueueTx_ok [OF assms(3)]) (rule writeMessageTx_wf [OF assms(1,2)])

lemma settle_wf:
  assumes "wf_outbox ob" "\<And>r. ob_id (f r) = ob_id r" "\<And>r. ob_dispatch_key (f r) = ob_dispatch_key r"
    "\<And>r. ob_lease_expires_at (f r) = ob_lease_expires_at r"
  shows "wf_outbox (snd (settle err p f ob))"
proof (cases err)
  case None
  have "wf_outbox (update_where (holds_claim p) f ob)"
    using assms by (intro wf_update_where) (auto simp: wf_outbox_def holds_claim_def)
  with None show ?thesis by (simp add: settle_def)
qed (simp add: settle_def assms)

lemma MarkSent_wf [invariants]: "wf_outbox ob \<Longrightarrow> wf_outbox (snd (MarkSent err now p ob))"
  unfolding MarkSent_def by (rule settle_wf) simp_all

lemma MarkFailed_wf [invariants]: "wf_outbox ob \<Longrightarrow> wf_outbox (snd (MarkFailed err now p e t ob))"
  unfolding MarkFailed_def by (rule settle_wf) simp_all

lemma settle_keys:
  assumes "\<And>r. ob_dispatch_key (f r) = ob_dispatch_key r" "\<And>r. ob_id (f r) = ob_id r"
  shows "map ob_dispatch_key (snd (settle err p f ob)) = map ob_dispatch_key ob"
    "map ob_id (snd (settle err p f ob)) = map ob_id ob"
  using assms by (simp_all add: settle_def split: option.splits)

lemma Mark_keys [frame_simps]:
  "map ob_dispatch_key (snd (MarkSent err now p ob)) = map ob_dispatch_key ob"
  "map ob_id (snd (MarkSent err now p ob)) = map ob_id ob"
  "map ob_dispatch_key (snd (MarkFailed err now p e t ob)) = map ob_dispatch_key ob"
  "map ob_id (snd (MarkFailed err now p e t ob)) = map ob_id ob"
  by (simp_all add: MarkSent_def MarkFailed_def settle_keys)

text \<open>What a successful claim did, in one place for the proofs below.\<close>

lemma ReadPending_ok:
  assumes "ReadPending re n p ob = (Inr ps, p', ob')" "0 < n"
  obtains owner lease ids where
    "ids = map ob_id (candidates (re_now re) (re_locked re) (nat n) ob)"
    "lease = re_process_now re + (if ri_LeaseTTL p \<le> 0 then default_lease else ri_LeaseTTL p)"
    "owner = ri_OwnerID p'" "owner = (if ri_OwnerID p = [] then re_fresh_owner re else ri_OwnerID p)"
    "ob' = update_where (\<lambda>r. ob_id r \<in> set ids) (claim owner (re_fresh_token re) lease (re_now re)) ob"
    "ps = map (pending_of owner (re_fresh_token re)) (filter (\<lambda>r. ob_id r \<in> set ids) ob')"
  using assms by (auto simp: ReadPending_def Let_def split: option.splits if_splits)

lemma ReadPending_nothing:
  "ReadPending re n p ob = (res, p', ob') \<Longrightarrow> n \<le> 0 \<or> \<not> is_ok res \<Longrightarrow> ob' = ob"
  by (auto simp: ReadPending_def Let_def split: option.splits if_splits)

lemma ReadPending_wf [invariants]:
  assumes "wf_outbox ob" "ReadPending re n p ob = (res, p', ob')"
  shows "wf_outbox ob'"
proof (cases "n \<le> 0 \<or> \<not> is_ok res")
  case True
  then show ?thesis using assms ReadPending_nothing by metis
next
  case False
  then obtain ps where ps: "res = Inr ps" and n: "0 < n" by (auto simp: is_ok_iff)
  have "ReadPending re n p ob = (Inr ps, p', ob')" using assms(2) ps by simp
  then show ?thesis
    by (rule ReadPending_ok [OF _ n]) (simp add: wf_update_where assms(1))
qed

lemma ReadPending_keys [frame_simps]:
  assumes "ReadPending re n p ob = (res, p', ob')"
  shows "map ob_dispatch_key ob' = map ob_dispatch_key ob" "map ob_id ob' = map ob_id ob"
  using assms by (auto simp: ReadPending_def Let_def split: option.splits if_splits)

lemma candidates_eligible:
  assumes "r \<in> set (candidates now locked k ob)"
  shows "r \<in> set ob" "eligible now r" "ob_id r \<notin> set locked"
  using set_take_subset [of k "sort_key ob_created_at (filter (\<lambda>r. eligible now r \<and> ob_id r \<notin> set locked) ob)"]
    assms by (auto simp: candidates_def)

lemma candidates_all:
  "length (filter (\<lambda>r. eligible now r \<and> ob_id r \<notin> set locked) ob) \<le> k \<Longrightarrow>
     set (candidates now locked k ob) = {r \<in> set ob. eligible now r \<and> ob_id r \<notin> set locked}"
  by (simp add: candidates_def)

lemma wf_same_id: "wf_outbox ob \<Longrightarrow> r \<in> set ob \<Longrightarrow> q \<in> set ob \<Longrightarrow> ob_id r = ob_id q \<Longrightarrow> r = q"
  by (auto simp: wf_outbox_def distinct_map inj_on_def)

lemma unclaimed_rows_kept:
  "\<forall>x \<in> set ob. ob_id x \<notin> op_PK ` set (map (pending_of ow tk)
      (filter (\<lambda>r. ob_id r \<in> S) (update_where (\<lambda>r. ob_id r \<in> S) (claim ow tk l now) ob))) \<longrightarrow>
     x \<in> set (update_where (\<lambda>r. ob_id r \<in> S) (claim ow tk l now) ob)"
proof (intro ballI impI)
  fix x
  let ?ob' = "update_where (\<lambda>r. ob_id r \<in> S) (claim ow tk l now) ob"
  assume x: "x \<in> set ob" and out: "ob_id x \<notin> op_PK ` set (map (pending_of ow tk) (filter (\<lambda>r. ob_id r \<in> S) ?ob'))"
  have "ob_id x \<notin> S"
  proof
    assume S: "ob_id x \<in> S"
    then have "claim ow tk l now x \<in> set (filter (\<lambda>r. ob_id r \<in> S) ?ob')"
      using x by (simp add: set_update_where)
    then have "pending_of ow tk (claim ow tk l now x) \<in>
        set (map (pending_of ow tk) (filter (\<lambda>r. ob_id r \<in> S) ?ob'))"
      unfolding set_map by (rule imageI)
    then have "op_PK (pending_of ow tk (claim ow tk l now x)) \<in>
        op_PK ` set (map (pending_of ow tk) (filter (\<lambda>r. ob_id r \<in> S) ?ob'))"
      by (rule imageI)
    with out show False by (simp add: pending_of_def)
  qed
  with x show "x \<in> set ?ob'" by (simp add: set_update_where)
qed

text \<open>C30. A claim is exclusive while its lease runs: every message \<open>ReadPending\<close> hands out
  belongs to a row that was due, is now in processing under this call's token, and that no
  later claim can take before the lease ends; rows it does not hand out are untouched.\<close>

theorem ReadPending_exclusive:
  assumes "wf_outbox ob" "ReadPending re n p ob = (Inr ps, p', ob')" "q \<in> set ps"
  shows "\<exists>r \<in> set ob. \<exists>r' \<in> set ob'. ob_id r = op_PK q \<and> eligible (re_now re) r \<and>
    holds_claim q r' \<and> op_ClaimToken q = re_fresh_token re \<and>
    (\<forall>t. eligible t r' \<longleftrightarrow> re_process_now re +
       (if ri_LeaseTTL p \<le> 0 then default_lease else ri_LeaseTTL p) \<le> t) \<and>
    (\<forall>x \<in> set ob. ob_id x \<notin> op_PK ` set ps \<longrightarrow> x \<in> set ob')"
proof -
  have n: "0 < n" using assms(2,3) by (cases "n \<le> 0") (auto simp: ReadPending_def)
  obtain owner lease ids where
    ids: "ids = map ob_id (candidates (re_now re) (re_locked re) (nat n) ob)" and
    lease: "lease = re_process_now re + (if ri_LeaseTTL p \<le> 0 then default_lease else ri_LeaseTTL p)" and
    ob': "ob' = update_where (\<lambda>r. ob_id r \<in> set ids) (claim owner (re_fresh_token re) lease (re_now re)) ob" and
    ps: "ps = map (pending_of owner (re_fresh_token re)) (filter (\<lambda>r. ob_id r \<in> set ids) ob')"
    by (rule ReadPending_ok [OF assms(2) n])
  obtain r' where r': "r' \<in> set ob'" "ob_id r' \<in> set ids" "q = pending_of owner (re_fresh_token re) r'"
    using assms(3) ps by auto
  obtain r where r: "r \<in> set ob" "ob_id r \<in> set ids"
      "r' = claim owner (re_fresh_token re) lease (re_now re) r"
    using r'(1,2) unfolding ob' by (auto simp: set_update_where)
  obtain r0 where r0: "r0 \<in> set (candidates (re_now re) (re_locked re) (nat n) ob)" "ob_id r0 = ob_id r"
    using r(2) ids by auto
  have "r0 = r"
    using wf_same_id [OF assms(1) candidates_eligible(1) [OF r0(1)] r(1) r0(2)] .
  then have el: "eligible (re_now re) r"
    using candidates_eligible(2) [OF r0(1)] by simp
  have hold: "holds_claim q r'" "op_ClaimToken q = re_fresh_token re" "ob_id r = op_PK q"
    using r r'(3) by (simp_all add: pending_of_def holds_claim_def)
  have lapse: "\<forall>t. eligible t r' \<longleftrightarrow> lease \<le> t"
    using r(3) by (simp add: eligible_def)
  have "\<forall>x \<in> set ob. ob_id x \<notin> op_PK ` set ps \<longrightarrow> x \<in> set ob'"
    unfolding ps ob' by (rule unclaimed_rows_kept)
  with el hold lapse lease r(1) r'(1) show ?thesis by blast
qed

definition sample_row :: outbox_row where
  "sample_row = \<lparr>ob_id = 7, ob_dispatch_key = ''k'', ob_topic = ''t'', ob_event_type = ''model_updated'',
     ob_resource_key = 9, ob_payload = ''p'', ob_headers = [], ob_status = OPending, ob_attempts = 0,
     ob_next_attempt_at = 0, ob_processing_owner = [], ob_claim_token = [], ob_lease_expires_at = None,
     ob_last_error = [], ob_sent_at = None, ob_created_at = 0, ob_updated_at = 0\<rparr>"

definition sample_read :: read_env where
  "sample_read = \<lparr>re_fresh_owner = ''o'', re_fresh_token = ''tok'', re_process_now = 5, re_now = 5,
     re_locked = [], re_begin = None, re_query = None, re_commit = None\<rparr>"

definition sample_identity :: relay_identity where
  "sample_identity = \<lparr>ri_OwnerID = ''relay'', ri_LeaseTTL = 10\<rparr>"

lemmas sample_defs = sample_row_def sample_read_def sample_identity_def

lemma sample_wf: "wf_outbox [sample_row]"
  by (simp add: wf_outbox_def sample_row_def)

lemma sample_claim:
  "ReadPending sample_read 1 sample_identity [sample_row] =
     (Inr [pending_of ''relay'' ''tok'' sample_row], sample_identity,
      [claim ''relay'' ''tok'' 15 5 sample_row])"
  by (simp add: ReadPending_def Let_def sample_defs candidates_def eligible_def claim_def pending_of_def)

theorem ReadPending_exclusive_witness:
  "\<exists>r' \<in> set [claim ''relay'' ''tok'' 15 5 sample_row].
     holds_claim (pending_of ''relay'' ''tok'' sample_row) r' \<and> \<not> eligible 14 r' \<and> eligible 15 r'"
  using ReadPending_exclusive [OF sample_wf sample_claim, of "pending_of ''relay'' ''tok'' sample_row"]
  by (simp add: sample_defs)

text \<open>C40. A claim that was lost settles nothing: when no row is in processing under the
  holder's owner and token (its lease ran out and another relay claimed the row, or it was
  settled), both \<open>MarkSent\<close> and \<open>MarkFailed\<close> report \<open>NotClaimed\<close> and leave the
  table as it is. A row that is sent is in that situation for good: no claim on it holds, and
  at no time is it due again.\<close>

theorem stale_claim_settles_nothing:
  assumes "\<forall>r \<in> set ob. ob_id r = op_PK q \<longrightarrow> ob_status r = OSent \<or>
      ob_processing_owner r \<noteq> op_ProcessingOwner q \<or> ob_claim_token r \<noteq> op_ClaimToken q \<or>
      ob_status r = OPending"
  shows "MarkSent None now q ob = (Inl (NotClaimed (op_PK q)), ob) \<and>
     MarkFailed None now q e t ob = (Inl (NotClaimed (op_PK q)), ob) \<and>
     (\<forall>r \<in> set ob. ob_status r = OSent \<longrightarrow> (\<forall>at. \<not> eligible at r))"
proof -
  have none: "\<not> (\<exists>r \<in> set ob. holds_claim q r)"
    using assms by (auto simp: holds_claim_def)
  then show ?thesis
    by (simp add: MarkSent_def MarkFailed_def settle_def update_where_id eligible_def)
qed

theorem stale_claim_settles_nothing_witness:
  "MarkSent None 20 (pending_of ''relay'' ''tok'' sample_row) [claim ''other'' ''tok2'' 30 16 sample_row] =
     (Inl (NotClaimed 7), [claim ''other'' ''tok2'' 30 16 sample_row])"
  using stale_claim_settles_nothing [of "[claim ''other'' ''tok2'' 30 16 sample_row]"
      "pending_of ''relay'' ''tok'' sample_row" 20]
  by (simp add: pending_of_def sample_row_def claim_def)

section \<open>The transactional handoff\<close>

text \<open>
  A database is business tables beside the outbox. Enqueueing into it meets the contract
  of \<open>OrderedOutbox\<close> that the unit of work asks for.
\<close>

definition EnqueueDB ::
  "outbox_env \<Rightarrow> int \<Rightarrow> uuid \<Rightarrow> 'b \<times> outbox \<Rightarrow> outbound_message \<Rightarrow> outbox_error + ('b \<times> outbox)" where
  "EnqueueDB env now i db msg = (case EnqueueTx env now i (snd db) msg of
     Inl e \<Rightarrow> Inl e | Inr ob \<Rightarrow> Inr (fst db, ob))"

lemma writeMessageTx_keys:
  "writeMessageTx env now i m ob = Inr ob' \<Longrightarrow>
     dispatch_key_of env now m \<in> outbox_keys ob' \<and> outbox_keys ob \<subseteq> outbox_keys ob'"
  by (drule writeMessageTx_ok) (auto simp: outbox_keys_def)

interpretation pg_outbox: ordered_outbox "EnqueueDB env now i" "\<lambda>db. outbox_keys (snd db)"
  "\<lambda>msg. TrimSpace (om_DispatchKey msg)" fst
  for env now i
proof
  fix db :: "'b \<times> outbox" and msg db'
  assume "EnqueueDB env now i db msg = Inr db'"
  then obtain ob' where ob': "EnqueueTx env now i (snd db) msg = Inr ob'" "db' = (fst db, ob')"
    by (auto simp: EnqueueDB_def split: sum.splits)
  then show "TrimSpace (om_DispatchKey msg) \<in> outbox_keys (snd db')"
    and "outbox_keys (snd db) \<subseteq> outbox_keys (snd db')" and "fst db' = fst db"
    using EnqueueTx_ok [OF ob'(1)] writeMessageTx_keys by (metis snd_conv, metis snd_conv, simp)
qed

end
