(* ===== verification/Relay.thy ===== *)
theory Relay
  imports Outbox
begin

text \<open>
  The relay that publishes the outbox: \<open>shared_lib/messaging/outbox_relay.go\<close> and the
  signalling wrapper \<open>signaled_outbox.go\<close>. The first part is one batch and the event loop
  of one relay; the second part lets any number of relays, writers and crashes interleave
  on one table, one database statement or publication at a time.

  A channel of capacity one is a flag, a timer armed by \<open>time.AfterFunc\<close> counts in
  \<open>rs_timers\<close>. The broker is what the model records of it: the list of the messages it
  accepted. Logging and metrics are left out.
\<close>

section \<open>One batch\<close>

record relay_config =
  rc_FailureBackoff :: int
  rc_BatchSize :: int
  rc_Signal :: bool
  rc_InstanceID :: string
  rc_LeaseDuration :: int

text \<open>
  What one item of a batch meets: the publisher's error, the process clock when it fails,
  the server clock of the statement that settles it, and that statement's error.
\<close>

record item_env =
  ie_publish :: "string option"
  ie_clock :: int
  ie_now :: int
  ie_mark :: "string option"

definition relay_item ::
  "relay_config \<Rightarrow> item_env \<Rightarrow> outbox_pending \<Rightarrow> outbox \<Rightarrow> outbox" where
  "relay_item cfg ie q ob = (case ie_publish ie of
     Some e \<Rightarrow> snd (MarkFailed (ie_mark ie) (ie_now ie) q e (ie_clock ie + rc_FailureBackoff cfg) ob)
   | None \<Rightarrow> snd (MarkSent (ie_mark ie) (ie_now ie) q ob))"

text \<open>
  The loop of \<open>processBatch\<close>: the table, the messages the broker accepted, and
  \<open>hadFailure\<close>. A failed settlement is logged and skipped.
\<close>

fun relay_items ::
  "relay_config \<Rightarrow> (nat \<Rightarrow> item_env) \<Rightarrow> nat \<Rightarrow> outbox_pending list \<Rightarrow>
   outbox \<times> outbox_pending list \<times> bool \<Rightarrow> outbox \<times> outbox_pending list \<times> bool" where
  "relay_items cfg ie k [] st = st"
| "relay_items cfg ie k (q # qs) (ob, sent, hadFailure) =
     relay_items cfg ie (Suc k) qs (relay_item cfg (ie k) q ob,
       (if ie_publish (ie k) = None then sent @ [q] else sent),
       hadFailure \<or> ie_publish (ie k) \<noteq> None)"

record batch_env =
  be_read :: read_env
  be_item :: "nat \<Rightarrow> item_env"

text \<open>The state of a relay: its claim identity, its wake-up sources, and what it works on.\<close>

record relay_state =
  rs_identity :: relay_identity
  rs_signal :: bool
  rs_retry :: bool
  rs_timers :: nat
  rs_table :: outbox
  rs_published :: "outbox_pending list"

definition NewOutboxRelay :: "relay_config \<Rightarrow> relay_identity \<Rightarrow> outbox \<Rightarrow> relay_state" where
  "NewOutboxRelay cfg ident ob = \<lparr>rs_identity =
       ConfigureRelayIdentity (rc_InstanceID cfg) (rc_LeaseDuration cfg) ident,
     rs_signal = False, rs_retry = False, rs_timers = 0, rs_table = ob, rs_published = []\<rparr>"

definition processBatch ::
  "relay_config \<Rightarrow> batch_env \<Rightarrow> relay_state \<Rightarrow> (outbox_error + bool) \<times> relay_state" where
  "processBatch cfg be s =
     (case ReadPending (be_read be) (rc_BatchSize cfg) (rs_identity s) (rs_table s) of
        (Inl e, ident, ob) \<Rightarrow> (Inl e, s\<lparr>rs_identity := ident, rs_table := ob\<rparr>)
      | (Inr pending, ident, ob) \<Rightarrow>
          (case relay_items cfg (be_item be) 0 pending (ob, rs_published s, False) of
             (ob', sent, hadFailure) \<Rightarrow>
               (Inr hadFailure, s\<lparr>rs_identity := ident, rs_table := ob', rs_published := sent,
                  rs_timers := rs_timers s + (if hadFailure \<and> rc_Signal cfg then 1 else 0)\<rparr>)))"

section \<open>The event loop\<close>

text \<open>
  \<open>Run\<close> waits for one of its wake-ups: in signal mode the signal or the retry channel, in
  polling mode the ticker. \<open>TimerFires\<close> is the callback of an armed timer, a
  non-blocking send to the retry channel. None means that the wake-up cannot happen.
\<close>

datatype wake = WakeSignal | WakeRetry | WakeTick | TimerFires

fun Run_step :: "relay_config \<Rightarrow> wake \<Rightarrow> batch_env \<Rightarrow> relay_state \<Rightarrow> relay_state option" where
  "Run_step cfg WakeSignal be s = (if rc_Signal cfg \<and> rs_signal s
     then Some (snd (processBatch cfg be (s\<lparr>rs_signal := False\<rparr>))) else None)"
| "Run_step cfg WakeRetry be s = (if rc_Signal cfg \<and> rs_retry s
     then Some (snd (processBatch cfg be (s\<lparr>rs_retry := False\<rparr>))) else None)"
| "Run_step cfg WakeTick be s = (if \<not> rc_Signal cfg
     then Some (snd (processBatch cfg be s)) else None)"
| "Run_step cfg TimerFires be s = (if rs_timers s > 0
     then Some (s\<lparr>rs_timers := rs_timers s - 1, rs_retry := True\<rparr>) else None)"

definition NotifyOutboxSignal :: "relay_state \<Rightarrow> relay_state" where
  "NotifyOutboxSignal s = s\<lparr>rs_signal := True\<rparr>"

text \<open>The wrapper's \<open>Enqueue\<close> over the PostgreSQL outbox: signal only after success.\<close>

definition signaled_Enqueue ::
  "outbox_env \<Rightarrow> string tx_env \<Rightarrow> int \<Rightarrow> uuid \<Rightarrow> outbound_message \<Rightarrow> relay_state \<Rightarrow>
   (outbox_error + unit) \<times> relay_state" where
  "signaled_Enqueue env te now i msg s = (case Enqueue env te now i msg (rs_table s) of
     (Inl e, ob) \<Rightarrow> (Inl e, s\<lparr>rs_table := ob\<rparr>)
   | (Inr (), ob) \<Rightarrow> (Inr (), NotifyOutboxSignal (s\<lparr>rs_table := ob\<rparr>)))"

definition signaled_WriteMessage ::
  "outbox_env \<Rightarrow> string tx_env \<Rightarrow> int \<Rightarrow> uuid \<Rightarrow> outbox_message \<Rightarrow> relay_state \<Rightarrow>
   (outbox_error + unit) \<times> relay_state" where
  "signaled_WriteMessage env te now i m s = (case WriteMessage env te now i m (rs_table s) of
     (Inl e, ob) \<Rightarrow> (Inl e, s\<lparr>rs_table := ob\<rparr>)
   | (Inr (), ob) \<Rightarrow> (Inr (), NotifyOutboxSignal (s\<lparr>rs_table := ob\<rparr>)))"

text \<open>A relay is asleep when none of its wake-ups can happen.\<close>

definition asleep :: "relay_config \<Rightarrow> relay_state \<Rightarrow> bool" where
  "asleep cfg s \<longleftrightarrow> rc_Signal cfg \<and> \<not> rs_signal s \<and> \<not> rs_retry s \<and> rs_timers s = 0"

lemma asleep_iff: "asleep cfg s \<longleftrightarrow> (\<forall>w be. Run_step cfg w be s = None)"
proof
  assume "asleep cfg s"
  then have "Run_step cfg w be s = None" for w be
    by (cases w) (simp_all add: asleep_def)
  then show "\<forall>w be. Run_step cfg w be s = None" by blast
next
  assume *: "\<forall>w be. Run_step cfg w be s = None"
  show "asleep cfg s"
    using *[rule_format, of WakeSignal undefined] *[rule_format, of WakeRetry undefined]
      *[rule_format, of WakeTick undefined] *[rule_format, of TimerFires undefined]
    by (auto simp: asleep_def split: if_splits)
qed

section \<open>What a batch does\<close>

lemma relay_items_published:
  "relay_items cfg ie k qs (ob, sent, hf) = (ob', sent', hf') \<Longrightarrow>
     sent' = sent @ map snd (filter (\<lambda>p. ie_publish (ie (fst p)) = None) (enumerate k qs)) \<and>
     (hf' \<longleftrightarrow> hf \<or> (\<exists>p \<in> set (enumerate k qs). ie_publish (ie (fst p)) \<noteq> None))"
proof (induction qs arbitrary: k ob sent hf)
  case (Cons q qs)
  from Cons.IH [OF Cons.prems [simplified]] show ?case by auto
qed simp

lemma relay_item_frame [frame_simps]:
  "map ob_dispatch_key (relay_item cfg ie q ob) = map ob_dispatch_key ob"
  "map ob_id (relay_item cfg ie q ob) = map ob_id ob"
  by (simp_all add: relay_item_def frame_simps split: option.splits)

lemma relay_item_wf [invariants]: "wf_outbox ob \<Longrightarrow> wf_outbox (relay_item cfg ie q ob)"
  by (simp add: relay_item_def MarkSent_wf MarkFailed_wf split: option.splits)

lemma relay_items_wf:
  "relay_items cfg ie k qs (ob, sent, hf) = (ob', sent', hf') \<Longrightarrow> wf_outbox ob \<Longrightarrow>
     wf_outbox ob' \<and> map ob_dispatch_key ob' = map ob_dispatch_key ob"
proof (induction qs arbitrary: k ob sent hf)
  case (Cons q qs)
  from Cons.IH [OF Cons.prems(1) [simplified] relay_item_wf [OF Cons.prems(2)]]
  show ?case by (simp add: frame_simps)
qed simp

lemma processBatch_wf [invariants]:
  assumes "wf_outbox (rs_table s)" "processBatch cfg be s = (res, s')"
  shows "wf_outbox (rs_table s') \<and>
    map ob_dispatch_key (rs_table s') = map ob_dispatch_key (rs_table s)"
proof -
  obtain rd ident ob where rd: "ReadPending (be_read be) (rc_BatchSize cfg) (rs_identity s) (rs_table s)
      = (rd, ident, ob)" by (metis prod_cases3)
  note wf = ReadPending_wf [OF assms(1) rd] and keys = ReadPending_keys(1) [OF rd]
  show ?thesis
  proof (cases rd)
    case (Inl e)
    then show ?thesis using assms(2) rd wf keys by (auto simp: processBatch_def)
  next
    case (Inr ps)
    obtain ob' sent hf where it: "relay_items cfg (be_item be) 0 ps (ob, rs_published s, False) = (ob', sent, hf)"
      by (metis prod_cases3)
    with relay_items_wf [OF it wf] show ?thesis
      using assms(2) rd keys Inr by (auto simp: processBatch_def)
  qed
qed

lemma relay_item_sent:
  assumes "ie_publish ie = None" "ie_mark ie = None"
  shows "relay_item cfg ie q ob = update_where (holds_claim q) (set_sent (ie_now ie)) ob"
  using assms by (simp add: relay_item_def MarkSent_def settle_def)

text \<open>A batch whose publications and settlements all succeed sends what it holds, and nothing else.\<close>

lemma relay_items_all_sent:
  assumes "relay_items cfg ie k qs (ob, sent, hf) = (ob', sent', hf')"
    "\<And>i. ie_publish (ie i) = None" "\<And>i. ie_mark (ie i) = None" "distinct (map op_PK qs)"
  shows "(\<forall>r \<in> set ob. (\<exists>q \<in> set qs. holds_claim q r) \<longrightarrow>
        (\<exists>r' \<in> set ob'. ob_id r' = ob_id r \<and> ob_status r' = OSent)) \<and>
    (\<forall>r \<in> set ob. (\<forall>q \<in> set qs. \<not> holds_claim q r) \<longrightarrow> r \<in> set ob')"
  using assms(1,4)
proof (induction qs arbitrary: k ob sent hf)
  case (Cons q qs)
  define ob1 where "ob1 = update_where (holds_claim q) (set_sent (ie_now (ie k))) ob"
  have IH: "(\<forall>r \<in> set ob1. (\<exists>q \<in> set qs. holds_claim q r) \<longrightarrow>
        (\<exists>r' \<in> set ob'. ob_id r' = ob_id r \<and> ob_status r' = OSent)) \<and>
    (\<forall>r \<in> set ob1. (\<forall>q \<in> set qs. \<not> holds_claim q r) \<longrightarrow> r \<in> set ob')"
    using Cons.IH [of "Suc k" ob1] Cons.prems assms(2,3) by (simp add: relay_item_sent ob1_def)
  have q: "\<exists>r' \<in> set ob'. ob_id r' = ob_id r \<and> ob_status r' = OSent"
    if "r \<in> set ob" "holds_claim q r" for r
  proof -
    have "set_sent (ie_now (ie k)) r \<in> set ob1"
      using that by (simp add: ob1_def set_update_where)
    moreover have "\<not> holds_claim p (set_sent (ie_now (ie k)) r)" for p
      by (simp add: holds_claim_def)
    ultimately have "set_sent (ie_now (ie k)) r \<in> set ob'" using IH by blast
    then show ?thesis by (rule rev_bexI) simp
  qed
  have "r \<in> set ob1" if "r \<in> set ob" "\<not> holds_claim q r" for r
    using that by (simp add: ob1_def set_update_where)
  with IH q show ?case by (metis set_ConsD list.set_intros)
qed simp

definition clear_batch :: "batch_env \<Rightarrow> bool" where
  "clear_batch be \<longleftrightarrow> re_begin (be_read be) = None \<and> re_query (be_read be) = None \<and>
     re_commit (be_read be) = None \<and> re_locked (be_read be) = [] \<and>
     (\<forall>i. ie_publish (be_item be i) = None \<and> ie_mark (be_item be i) = None)"

definition due_rows :: "int \<Rightarrow> outbox \<Rightarrow> outbox_row list" where
  "due_rows now ob = filter (eligible now) ob"

text \<open>The items a clear read hands out: the claimed rows, each under a claim that holds.\<close>

lemma clear_ReadPending:
  assumes "clear_batch be" "0 < n" "wf_outbox ob"
  obtains owner lease ids ob1 p' ps where
    "ids = map ob_id (take (nat n) (sort_key ob_created_at (due_rows (re_now (be_read be)) ob)))"
    "ReadPending (be_read be) n p ob = (Inr ps, p', ob1)"
    "ob1 = update_where (\<lambda>r. ob_id r \<in> set ids)
       (claim owner (re_fresh_token (be_read be)) lease (re_now (be_read be))) ob"
    "ps = map (pending_of owner (re_fresh_token (be_read be))) (filter (\<lambda>r. ob_id r \<in> set ids) ob1)"
    "distinct (map op_PK ps)" "set (map op_PK ps) = set ids"
    "\<And>r. r \<in> set ob1 \<Longrightarrow> (\<exists>q \<in> set ps. holds_claim q r) \<longleftrightarrow> ob_id r \<in> set ids"
proof -
  define ids where "ids = map ob_id (take (nat n) (sort_key ob_created_at (due_rows (re_now (be_read be)) ob)))"
  define owner where "owner = (if ri_OwnerID p = [] then re_fresh_owner (be_read be) else ri_OwnerID p)"
  define lease where "lease = re_process_now (be_read be) +
    (if ri_LeaseTTL p \<le> 0 then default_lease else ri_LeaseTTL p)"
  define ob1 where "ob1 = update_where (\<lambda>r. ob_id r \<in> set ids)
    (claim owner (re_fresh_token (be_read be)) lease (re_now (be_read be))) ob"
  define ps where "ps = map (pending_of owner (re_fresh_token (be_read be)))
    (filter (\<lambda>r. ob_id r \<in> set ids) ob1)"
  have read: "ReadPending (be_read be) n p ob = (Inr ps, p\<lparr>ri_OwnerID := owner\<rparr>, ob1)"
    using assms(1,2) by (simp add: ReadPending_def Let_def clear_batch_def candidates_def due_rows_def
        ids_def owner_def lease_def ob1_def ps_def)
  have pk: "map op_PK ps = filter (\<lambda>i. i \<in> set ids) (map ob_id ob)"
  proof -
    have "map op_PK ps = filter (\<lambda>i. i \<in> set ids) (map ob_id ob1)"
      by (simp add: ps_def pending_of_def comp_def filter_map)
    also have "map ob_id ob1 = map ob_id ob" by (simp add: ob1_def)
    finally show ?thesis .
  qed
  have sub: "set ids \<subseteq> ob_id ` set ob"
    using set_take_subset [of "nat n" "sort_key ob_created_at (due_rows (re_now (be_read be)) ob)"]
    by (auto simp: ids_def due_rows_def)
  have claimed: "(\<exists>q \<in> set ps. holds_claim q r) \<longleftrightarrow> ob_id r \<in> set ids" if rin: "r \<in> set ob1" for r
  proof
    assume "\<exists>q \<in> set ps. holds_claim q r"
    then show "ob_id r \<in> set ids" by (auto simp: ps_def holds_claim_def pending_of_def)
  next
    assume i: "ob_id r \<in> set ids"
    then obtain r0 where r0: "r = claim owner (re_fresh_token (be_read be)) lease (re_now (be_read be)) r0"
      using rin by (auto simp: ob1_def set_update_where)
    have "holds_claim (pending_of owner (re_fresh_token (be_read be)) r) r"
      by (simp add: r0 holds_claim_def pending_of_def)
    moreover have "pending_of owner (re_fresh_token (be_read be)) r \<in> set ps"
      using rin i by (simp add: ps_def)
    ultimately show "\<exists>q \<in> set ps. holds_claim q r" by blast
  qed
  show ?thesis
    by (rule that [OF ids_def read ob1_def ps_def _ _ claimed])
      (use assms(3) sub in \<open>auto simp: pk wf_outbox_def\<close>)
qed

lemma clear_processBatch:
  assumes "clear_batch be" "0 < rc_BatchSize cfg" "wf_outbox (rs_table s)"
    "ids = map ob_id (take (nat (rc_BatchSize cfg))
        (sort_key ob_created_at (due_rows (re_now (be_read be)) (rs_table s))))"
  shows "\<exists>s' ps. processBatch cfg be s = (Inr False, s') \<and>
    rs_published s' = rs_published s @ ps \<and> distinct (map op_PK ps) \<and> set (map op_PK ps) = set ids \<and>
    (\<forall>r \<in> set (rs_table s). if ob_id r \<in> set ids
       then \<exists>r' \<in> set (rs_table s'). ob_id r' = ob_id r \<and> ob_status r' = OSent
       else r \<in> set (rs_table s')) \<and>
    rs_signal s' = rs_signal s \<and> rs_retry s' = rs_retry s \<and> rs_timers s' = rs_timers s"
proof -
  let ?now = "re_now (be_read be)" and ?token = "re_fresh_token (be_read be)"
  obtain owner lease ids' ob1 p' ps where r: "ids' = map ob_id (take (nat (rc_BatchSize cfg))
        (sort_key ob_created_at (due_rows ?now (rs_table s))))"
    "ReadPending (be_read be) (rc_BatchSize cfg) (rs_identity s) (rs_table s) = (Inr ps, p', ob1)"
    "ob1 = update_where (\<lambda>r. ob_id r \<in> set ids') (claim owner ?token lease ?now) (rs_table s)"
    "ps = map (pending_of owner ?token) (filter (\<lambda>r. ob_id r \<in> set ids') ob1)"
    "distinct (map op_PK ps)" "set (map op_PK ps) = set ids'"
    "\<And>r. r \<in> set ob1 \<Longrightarrow> (\<exists>q \<in> set ps. holds_claim q r) \<longleftrightarrow> ob_id r \<in> set ids'"
    by (rule clear_ReadPending [OF assms(1,2,3), of "rs_identity s"]) (rule that; assumption)
  have ids: "ids' = ids" using r(1) assms(4) by simp
  have ok: "\<And>i. ie_publish (be_item be i) = None" "\<And>i. ie_mark (be_item be i) = None"
    using assms(1) by (simp_all add: clear_batch_def)
  obtain ob2 sent hf where it: "relay_items cfg (be_item be) 0 ps (ob1, rs_published s, False) = (ob2, sent, hf)"
    by (metis prod_cases3)
  from relay_items_published [OF it] ok have sent: "sent = rs_published s @ ps" "hf = False"
    by (simp_all add: enumerate_eq_zip)
  note all = relay_items_all_sent [OF it ok r(5)]
  define s' where "s' = s\<lparr>rs_identity := p', rs_table := ob2, rs_published := rs_published s @ ps\<rparr>"
  have run: "processBatch cfg be s = (Inr False, s')"
    using r(2) it sent by (simp add: processBatch_def s'_def)
  have hit: "\<exists>r' \<in> set (rs_table s'). ob_id r' = ob_id x \<and> ob_status r' = OSent"
    if "x \<in> set (rs_table s)" "ob_id x \<in> set ids" for x
  proof -
    have c: "claim owner ?token lease ?now x \<in> set ob1"
      using that ids by (simp add: r(3) set_update_where)
    then have "\<exists>q \<in> set ps. holds_claim q (claim owner ?token lease ?now x)"
      using r(7) that ids by simp
    with all c show ?thesis by (force simp: s'_def)
  qed
  have miss: "x \<in> set (rs_table s')" if "x \<in> set (rs_table s)" "ob_id x \<notin> set ids" for x
  proof -
    have c: "x \<in> set ob1" using that ids by (simp add: r(3) set_update_where)
    have "\<forall>q \<in> set ps. \<not> holds_claim q x" using r(7) [OF c] that(2) ids by blast
    with all c show ?thesis by (simp add: s'_def)
  qed
  show ?thesis
    by (intro exI [of _ s'] exI [of _ ps] conjI run) (use hit miss r(5,6) ids in \<open>simp_all add: s'_def\<close>)
qed

text \<open>A relay pass that meets no errors delivers everything that is due, as long as it
  fits in one batch: each due message is accepted by the broker exactly once in the pass, in
  addition to what was published before, its row ends up sent, and rows that are not due stay
  as they are.\<close>

theorem processBatch_drains:
  assumes "clear_batch be" "wf_outbox (rs_table s)" "0 < rc_BatchSize cfg"
    "int (length (due_rows (re_now (be_read be)) (rs_table s))) \<le> rc_BatchSize cfg"
  shows "\<exists>s' ps. processBatch cfg be s = (Inr False, s') \<and> rs_published s' = rs_published s @ ps \<and>
     distinct (map op_PK ps) \<and>
     set (map op_PK ps) = ob_id ` set (due_rows (re_now (be_read be)) (rs_table s)) \<and>
     (\<forall>r \<in> set (rs_table s). if eligible (re_now (be_read be)) r
        then \<exists>r' \<in> set (rs_table s'). ob_id r' = ob_id r \<and> ob_status r' = OSent
        else r \<in> set (rs_table s'))"
proof -
  let ?now = "re_now (be_read be)"
  have all: "set (map ob_id (take (nat (rc_BatchSize cfg)) (sort_key ob_created_at (due_rows ?now (rs_table s)))))
      = ob_id ` set (due_rows ?now (rs_table s))"
    using assms(4) by simp
  have due: "ob_id r \<in> ob_id ` set (due_rows ?now (rs_table s)) \<longleftrightarrow> eligible ?now r"
    if "r \<in> set (rs_table s)" for r
    using that wf_same_id [OF assms(2)] by (auto simp: due_rows_def)
  show ?thesis
    using clear_processBatch [OF assms(1,3,2) refl] by (simp only: all due cong: ball_cong) blast
qed

definition sample_batch :: batch_env where
  "sample_batch = \<lparr>be_read = sample_read,
     be_item = (\<lambda>_. \<lparr>ie_publish = None, ie_clock = 6, ie_now = 6, ie_mark = None\<rparr>)\<rparr>"

definition sample_config :: relay_config where
  "sample_config = \<lparr>rc_FailureBackoff = 10, rc_BatchSize = 1, rc_Signal = True,
     rc_InstanceID = ''relay'', rc_LeaseDuration = 10\<rparr>"

definition sample_relay :: "outbox \<Rightarrow> relay_state" where
  "sample_relay ob = NotifyOutboxSignal (NewOutboxRelay sample_config \<lparr>ri_OwnerID = [], ri_LeaseTTL = 0\<rparr> ob)"

lemma sample_clear: "clear_batch sample_batch"
  by (simp add: clear_batch_def sample_batch_def sample_read_def)

lemma sample_relay_table [simp]: "rs_table (sample_relay ob) = ob"
  by (simp add: sample_relay_def NotifyOutboxSignal_def NewOutboxRelay_def)

theorem processBatch_drains_witness:
  "\<exists>s'. processBatch sample_config sample_batch (sample_relay [sample_row]) = (Inr False, s') \<and>
     (\<exists>r' \<in> set (rs_table s'). ob_id r' = 7 \<and> ob_status r' = OSent)"
  using processBatch_drains [OF sample_clear, of "sample_relay [sample_row]" sample_config] sample_wf
  by (auto simp: due_rows_def sample_config_def sample_batch_def sample_row_def sample_read_def eligible_def)

section \<open>A relay that only wakes on signals\<close>

lemma left_over_row:
  assumes "wf_outbox ob" "n < length (due_rows now ob)"
  shows "\<exists>r \<in> set ob. eligible now r \<and>
    ob_id r \<notin> set (map ob_id (take n (sort_key ob_created_at (due_rows now ob))))"
proof -
  let ?L = "sort_key ob_created_at (due_rows now ob)"
  have len: "n < length ?L" using assms(2) by simp
  have "distinct (map ob_id (due_rows now ob))"
    using assms(1) by (simp add: due_rows_def wf_outbox_def distinct_map_filter)
  then have dist: "distinct (map ob_id ?L)"
    by (metis mset_map mset_sort mset_eq_imp_distinct_iff)
  have "ob_id (?L ! n) \<notin> set (take n (map ob_id ?L))"
    using dist len by (auto simp: in_set_conv_nth nth_eq_iff_index_eq distinct_conv_nth)
  moreover have "?L ! n \<in> set (due_rows now ob)"
    using len by (metis nth_mem set_sort)
  ultimately show ?thesis by (auto simp: due_rows_def take_map)
qed

text \<open>C39. In signal mode a backlog larger than one batch is stranded: the channel holds one
  token however many messages were enqueued, the pass it triggers takes one batch, and when
  that pass meets no error the relay goes back to sleep with no wake-up left, while messages
  that are due stay in the table until something else is enqueued.\<close>

theorem signal_relay_strands_backlog:
  assumes "clear_batch be" "wf_outbox (rs_table s)" "rc_Signal cfg" "0 < rc_BatchSize cfg"
    "rc_BatchSize cfg < int (length (due_rows (re_now (be_read be)) (rs_table s)))"
    "rs_signal s" "\<not> rs_retry s" "rs_timers s = 0"
  shows "\<exists>s'. Run_step cfg WakeSignal be s = Some s' \<and>
    (\<forall>w be'. Run_step cfg w be' s' = None) \<and>
    (\<exists>r \<in> set (rs_table s'). eligible (re_now (be_read be)) r)"
proof -
  define s0 where "s0 = s\<lparr>rs_signal := False\<rparr>"
  let ?now = "re_now (be_read be)"
  have tab: "rs_table s0 = rs_table s" and wf: "wf_outbox (rs_table s0)"
    using assms(2) by (simp_all add: s0_def)
  obtain s' where s': "processBatch cfg be s0 = (Inr False, s')" and
    rows: "\<forall>r \<in> set (rs_table s0). if ob_id r \<in> set (map ob_id (take (nat (rc_BatchSize cfg))
          (sort_key ob_created_at (due_rows ?now (rs_table s0)))))
       then \<exists>r' \<in> set (rs_table s'). ob_id r' = ob_id r \<and> ob_status r' = OSent
       else r \<in> set (rs_table s')" and
    fl: "rs_signal s' = rs_signal s0" "rs_retry s' = rs_retry s0" "rs_timers s' = rs_timers s0"
    using clear_processBatch [OF assms(1,4) wf refl] by blast
  have "asleep cfg s'" using fl assms(3,7,8) by (simp add: asleep_def s0_def)
  moreover have "\<exists>r \<in> set (rs_table s'). eligible ?now r"
  proof -
    have "nat (rc_BatchSize cfg) < length (due_rows ?now (rs_table s0))"
      using assms(4,5) tab by simp
    from left_over_row [OF wf this] obtain r where r: "r \<in> set (rs_table s0)" "eligible ?now r"
      "ob_id r \<notin> set (map ob_id (take (nat (rc_BatchSize cfg))
          (sort_key ob_created_at (due_rows ?now (rs_table s0)))))" by blast
    then have "r \<in> set (rs_table s')" using rows by (simp del: set_map)
    with r(2) show ?thesis by blast
  qed
  moreover have "Run_step cfg WakeSignal be s = Some s'"
    using s' assms(3,6) by (simp add: s0_def)
  ultimately show ?thesis by (auto simp: asleep_iff)
qed

definition sample_row2 :: outbox_row where
  "sample_row2 = sample_row\<lparr>ob_id := 8, ob_dispatch_key := ''k2'', ob_payload := ''p2''\<rparr>"

lemma sample_wf2: "wf_outbox [sample_row, sample_row2]"
  by (simp add: wf_outbox_def sample_row2_def sample_row_def)

lemma sample_due2: "due_rows 5 [sample_row, sample_row2] = [sample_row, sample_row2]"
  by (simp add: due_rows_def eligible_def sample_row2_def sample_row_def)

theorem signal_relay_strands_backlog_witness:
  "\<exists>s'. Run_step sample_config WakeSignal sample_batch (sample_relay [sample_row, sample_row2]) = Some s' \<and>
     (\<forall>w be'. Run_step sample_config w be' s' = None) \<and> (\<exists>r \<in> set (rs_table s'). eligible 5 r)"
  using signal_relay_strands_backlog [OF sample_clear, of "sample_relay [sample_row, sample_row2]" sample_config]
    sample_wf2 sample_due2
  by (simp add: sample_config_def sample_batch_def sample_read_def sample_relay_def
      NotifyOutboxSignal_def NewOutboxRelay_def)

text \<open>A publication failure is never forgotten: if the broker refused any message of a pass,
  the pass reports it, and in signal mode a timer is armed, so that the relay is not asleep
  and its timer leads to another pass; what was refused is not in the published list, and the
  messages after it in the batch were still attempted.\<close>

theorem failed_publication_rearms:
  assumes "ReadPending (be_read be) (rc_BatchSize cfg) (rs_identity s) (rs_table s) = (Inr pending, ident, ob)"
    "k < length pending" "ie_publish (be_item be k) \<noteq> None" "rc_Signal cfg"
  shows "\<exists>s' s''. processBatch cfg be s = (Inr True, s') \<and>
    rs_published s' = rs_published s @
      map (nth pending) (filter (\<lambda>i. ie_publish (be_item be i) = None) [0..<length pending]) \<and>
    \<not> asleep cfg s' \<and> Run_step cfg TimerFires be s' = Some s'' \<and> rs_retry s'' \<and>
    (\<forall>be'. Run_step cfg WakeRetry be' s'' \<noteq> None)"
proof -
  obtain ob' sent hf where it: "relay_items cfg (be_item be) 0 pending (ob, rs_published s, False) = (ob', sent, hf)"
    by (metis prod_cases3)
  have en: "enumerate 0 pending = map (\<lambda>i. (i, pending ! i)) [0..<length pending]"
    by (rule nth_equalityI) (simp_all add: nth_enumerate_eq)
  from relay_items_published [OF it] assms(2,3) have hf: "hf"
    by (auto simp: en)
  have sent: "sent = rs_published s @
      map (nth pending) (filter (\<lambda>i. ie_publish (be_item be i) = None) [0..<length pending])"
    using relay_items_published [OF it] by (simp add: en filter_map comp_def)
  define s' where "s' = s\<lparr>rs_identity := ident, rs_table := ob', rs_published := sent,
     rs_timers := rs_timers s + 1\<rparr>"
  have "processBatch cfg be s = (Inr True, s')"
    using assms(1,4) it hf by (simp add: processBatch_def s'_def)
  moreover have "Run_step cfg TimerFires be s' = Some (s'\<lparr>rs_timers := rs_timers s, rs_retry := True\<rparr>)"
    by (simp add: s'_def)
  moreover have "\<not> asleep cfg s'" by (simp add: asleep_def s'_def)
  moreover have "rs_published s' = rs_published s @
      map (nth pending) (filter (\<lambda>i. ie_publish (be_item be i) = None) [0..<length pending])"
    by (simp add: s'_def sent)
  ultimately show ?thesis using assms(4) by auto
qed

definition same_resource_relay :: relay_state where
  "same_resource_relay = sample_relay [sample_row, sample_row2\<lparr>ob_created_at := 1\<rparr>]"

definition two_item_config :: relay_config where
  "two_item_config = sample_config\<lparr>rc_BatchSize := 2\<rparr>"

definition refusing_batch :: batch_env where
  "refusing_batch = sample_batch\<lparr>be_item := (\<lambda>i. \<lparr>ie_publish = (if i = 0 then Some ''down'' else None),
     ie_clock = 6, ie_now = 6, ie_mark = None\<rparr>)\<rparr>"

definition later_batch :: batch_env where
  "later_batch = sample_batch\<lparr>be_read := sample_read\<lparr>re_now := 20, re_process_now := 20\<rparr>\<rparr>"

lemmas scenario_defs = same_resource_relay_def two_item_config_def refusing_batch_def later_batch_def
  sample_batch_def sample_config_def sample_relay_def sample_defs sample_row2_def
  NotifyOutboxSignal_def NewOutboxRelay_def ConfigureRelayIdentity_def

lemma same_resource_claim:
  "ReadPending (be_read refusing_batch) 2 (rs_identity same_resource_relay) (rs_table same_resource_relay) =
     (Inr [pending_of ''relay'' ''tok'' sample_row, pending_of ''relay'' ''tok'' sample_row2],
      rs_identity same_resource_relay,
      [claim ''relay'' ''tok'' 15 5 sample_row,
       claim ''relay'' ''tok'' 15 5 (sample_row2\<lparr>ob_created_at := 1\<rparr>)])"
  by code_simp

theorem failed_publication_rearms_witness:
  "\<exists>s'. processBatch two_item_config refusing_batch same_resource_relay = (Inr True, s') \<and>
     \<not> asleep two_item_config s'"
  using failed_publication_rearms [of refusing_batch two_item_config same_resource_relay,
      OF _ _ _ _, where k = 0] same_resource_claim
  by (auto simp: two_item_config_def sample_config_def refusing_batch_def)

text \<open>The per-resource order that the \<open>OrderedOutbox\<close> port promises is not kept by the
  relay: with two messages of one resource in the table, oldest first, a refused publication
  of the first does not hold back the second, so the broker receives the second one first and
  the first one only on the retry.\<close>

theorem relay_reorders_resource:
  "map ob_resource_key (rs_table same_resource_relay) = [9, 9] \<and>
   map ob_dispatch_key (sort_key ob_created_at (rs_table same_resource_relay)) = [''k'', ''k2''] \<and>
   map op_SK (rs_published (snd (processBatch two_item_config later_batch
       (snd (processBatch two_item_config refusing_batch same_resource_relay))))) = [''k2'', ''k'']"
  by code_simp

end
