(* ===== verification/RelaySystem.thy ===== *)
theory RelaySystem
  imports Relay
begin

text \<open>
  Any number of relays on one outbox table, with writers, refused publications, lost
  acknowledgements and crashes between any two steps. A step is one database transaction or
  one publication of \<open>processBatch\<close> in \<open>shared_lib/messaging/outbox_relay.go\<close>; a relay's
  local state is the rest of its batch and where it is in the loop body.
\<close>

section \<open>Steps\<close>

datatype proc_phase = Publish | SettleSent | SettleFailed string int

record relay_proc =
  pr_identity :: relay_identity
  pr_queue :: "outbox_pending list"
  pr_phase :: proc_phase

record world =
  w_table :: outbox
  w_broker :: "outbox_pending list"
  w_procs :: "nat \<Rightarrow> relay_proc"

definition set_proc :: "nat \<Rightarrow> relay_proc \<Rightarrow> world \<Rightarrow> world" where
  "set_proc p pr w = w\<lparr>w_procs := (w_procs w)(p := pr)\<rparr>"

text \<open>
  \<open>lost_ack\<close> is a publication that the broker accepted although the publisher reported an
  error; \<open>crash\<close> a process that stops and comes back with any identity and no batch.
\<close>

inductive relay_step :: "relay_config \<Rightarrow> world \<Rightarrow> world \<Rightarrow> bool" for cfg where
  enqueue: "EnqueueTx env now i (w_table w) msg = Inr ob \<Longrightarrow> i \<notin> ob_id ` set (w_table w) \<Longrightarrow>
     relay_step cfg w (w\<lparr>w_table := ob\<rparr>)"
| read: "pr_queue (w_procs w p) = [] \<Longrightarrow>
     ReadPending re (rc_BatchSize cfg) (pr_identity (w_procs w p)) (w_table w) = (Inr ps, ident, ob) \<Longrightarrow>
     relay_step cfg w (set_proc p \<lparr>pr_identity = ident, pr_queue = ps, pr_phase = Publish\<rparr> (w\<lparr>w_table := ob\<rparr>))"
| read_error: "pr_queue (w_procs w p) = [] \<Longrightarrow>
     ReadPending re (rc_BatchSize cfg) (pr_identity (w_procs w p)) (w_table w) = (Inl e, ident, ob) \<Longrightarrow>
     relay_step cfg w (set_proc p \<lparr>pr_identity = ident, pr_queue = [], pr_phase = Publish\<rparr> (w\<lparr>w_table := ob\<rparr>))"
| accepted: "pr_queue (w_procs w p) = q # qs \<Longrightarrow> pr_phase (w_procs w p) = Publish \<Longrightarrow>
     relay_step cfg w (set_proc p ((w_procs w p)\<lparr>pr_phase := SettleSent\<rparr>) (w\<lparr>w_broker := w_broker w @ [q]\<rparr>))"
| lost_ack: "pr_queue (w_procs w p) = q # qs \<Longrightarrow> pr_phase (w_procs w p) = Publish \<Longrightarrow>
     relay_step cfg w (set_proc p ((w_procs w p)\<lparr>pr_phase := SettleFailed e (clock + rc_FailureBackoff cfg)\<rparr>)
       (w\<lparr>w_broker := w_broker w @ [q]\<rparr>))"
| refused: "pr_queue (w_procs w p) = q # qs \<Longrightarrow> pr_phase (w_procs w p) = Publish \<Longrightarrow>
     relay_step cfg w (set_proc p ((w_procs w p)\<lparr>pr_phase := SettleFailed e (clock + rc_FailureBackoff cfg)\<rparr>) w)"
| settle_sent: "pr_queue (w_procs w p) = q # qs \<Longrightarrow> pr_phase (w_procs w p) = SettleSent \<Longrightarrow>
     relay_step cfg w (set_proc p ((w_procs w p)\<lparr>pr_queue := qs, pr_phase := Publish\<rparr>)
       (w\<lparr>w_table := snd (MarkSent err now q (w_table w))\<rparr>))"
| settle_failed: "pr_queue (w_procs w p) = q # qs \<Longrightarrow> pr_phase (w_procs w p) = SettleFailed e t \<Longrightarrow>
     relay_step cfg w (set_proc p ((w_procs w p)\<lparr>pr_queue := qs, pr_phase := Publish\<rparr>)
       (w\<lparr>w_table := snd (MarkFailed err now q e t (w_table w))\<rparr>))"
| crash: "relay_step cfg w (set_proc p \<lparr>pr_identity = ident, pr_queue = [], pr_phase = Publish\<rparr> w)"

definition world_init :: world where
  "world_init = \<lparr>w_table = [], w_broker = [],
     w_procs = (\<lambda>_. \<lparr>pr_identity = \<lparr>ri_OwnerID = [], ri_LeaseTTL = 0\<rparr>, pr_queue = [], pr_phase = Publish\<rparr>)\<rparr>"

inductive relay_reach :: "relay_config \<Rightarrow> world \<Rightarrow> bool" for cfg where
  reach_init: "relay_reach cfg world_init"
| reach_step: "relay_reach cfg w \<Longrightarrow> relay_step cfg w w' \<Longrightarrow> relay_reach cfg w'"

inductive_cases relay_stepE: "relay_step cfg w w'"

section \<open>What a message carries\<close>

definition ob_content :: "outbox_row \<Rightarrow> uuid \<times> string \<times> string \<times> string \<times> header list" where
  "ob_content r = (ob_id r, ob_dispatch_key r, ob_topic r, ob_payload r, ob_headers r)"

definition op_content :: "outbox_pending \<Rightarrow> uuid \<times> string \<times> string \<times> string \<times> header list" where
  "op_content q = (op_PK q, op_SK q, op_Topic q, op_Payload q, op_Headers q)"

lemma content_ops [simp]:
  "ob_content (claim ow tk l now r) = ob_content r" "ob_content (set_sent now r) = ob_content r"
  "ob_content (set_failed e t now r) = ob_content r" "op_content (pending_of ow tk r) = ob_content r"
  by (simp_all add: ob_content_def op_content_def claim_def set_sent_def set_failed_def pending_of_def)

lemma Mark_content [frame_simps]:
  "map ob_content (snd (MarkSent err now q ob)) = map ob_content ob"
  "map ob_content (snd (MarkFailed err now q e t ob)) = map ob_content ob"
  by (simp_all add: MarkSent_def MarkFailed_def settle_def split: option.splits)

lemma ReadPending_content:
  assumes "ReadPending re n p ob = (res, p', ob')"
  shows "map ob_content ob' = map ob_content ob"
  using assms by (auto simp: ReadPending_def Let_def split: option.splits if_splits)

lemma ReadPending_items:
  assumes "ReadPending re n p ob = (Inr ps, p', ob')"
  shows "op_content ` set ps \<subseteq> ob_content ` set ob'"
  using assms by (auto simp: ReadPending_def Let_def split: option.splits if_splits)

lemma ReadPending_sent:
  assumes "ReadPending re n p ob = (res, p', ob')" "r \<in> set ob'" "ob_status r = OSent"
  shows "r \<in> set ob"
  using assms by (auto simp: ReadPending_def Let_def set_update_where split: option.splits if_splits)

lemma MarkSent_sent:
  "r \<in> set (snd (MarkSent err now q ob)) \<Longrightarrow> r \<in> set ob \<or> ob_id r = op_PK q"
  by (auto simp: MarkSent_def settle_def set_update_where holds_claim_def split: option.splits)

lemma MarkFailed_sent:
  "r \<in> set (snd (MarkFailed err now q e t ob)) \<Longrightarrow> ob_status r = OSent \<Longrightarrow> r \<in> set ob"
  by (auto simp: MarkFailed_def settle_def set_update_where split: option.splits)

lemma EnqueueTx_rows:
  assumes "EnqueueTx env now i ob msg = Inr ob'"
  shows "set ob \<subseteq> set ob'" "r \<in> set ob' \<Longrightarrow> ob_status r = OSent \<Longrightarrow> r \<in> set ob"
proof -
  obtain m where "writeMessageTx env now i m ob = Inr ob'"
    by (rule EnqueueTx_ok [OF assms])
  from writeMessageTx_ok [OF this]
  show "set ob \<subseteq> set ob'" "r \<in> set ob' \<Longrightarrow> ob_status r = OSent \<Longrightarrow> r \<in> set ob" by auto
qed

section \<open>The invariant\<close>

definition relay_inv :: "world \<Rightarrow> bool" where
  "relay_inv w \<longleftrightarrow> wf_outbox (w_table w) \<and>
     op_content ` set (w_broker w) \<subseteq> ob_content ` set (w_table w) \<and>
     (\<forall>p. op_content ` set (pr_queue (w_procs w p)) \<subseteq> ob_content ` set (w_table w)) \<and>
     (\<forall>p. pr_queue (w_procs w p) \<noteq> [] \<and> pr_phase (w_procs w p) = SettleSent \<longrightarrow>
       hd (pr_queue (w_procs w p)) \<in> set (w_broker w)) \<and>
     (\<forall>r \<in> set (w_table w). ob_status r = OSent \<longrightarrow> ob_id r \<in> op_PK ` set (w_broker w))"

lemma set_proc_simps [simp]:
  "w_table (set_proc p pr w) = w_table w" "w_broker (set_proc p pr w) = w_broker w"
  "w_procs (set_proc p pr w) = (w_procs w)(p := pr)"
  by (simp_all add: set_proc_def)

lemma relay_invD:
  assumes "relay_inv w"
  shows "wf_outbox (w_table w)" "op_content ` set (w_broker w) \<subseteq> ob_content ` set (w_table w)"
    "op_content ` set (pr_queue (w_procs w p)) \<subseteq> ob_content ` set (w_table w)"
    "pr_queue (w_procs w p) = q # qs \<Longrightarrow> pr_phase (w_procs w p) = SettleSent \<Longrightarrow> q \<in> set (w_broker w)"
    "r \<in> set (w_table w) \<Longrightarrow> ob_status r = OSent \<Longrightarrow> ob_id r \<in> op_PK ` set (w_broker w)"
  using assms unfolding relay_inv_def by (simp, simp, simp, metis list.distinct(1) list.sel(1), simp)

text \<open>A change of the table alone, and a change of the broker alone, keep the invariant.\<close>

lemma relay_inv_table:
  assumes "relay_inv w" "wf_outbox ob" "ob_content ` set (w_table w) \<subseteq> ob_content ` set ob"
    "\<And>r. r \<in> set ob \<Longrightarrow> ob_status r = OSent \<Longrightarrow> r \<in> set (w_table w) \<or> ob_id r \<in> op_PK ` set (w_broker w)"
  shows "relay_inv (w\<lparr>w_table := ob\<rparr>)"
  unfolding relay_inv_def
proof (simp, intro conjI allI impI ballI)
  show "wf_outbox ob" by (rule assms(2))
  show "op_content ` set (w_broker w) \<subseteq> ob_content ` set ob"
    using relay_invD(2) [OF assms(1)] assms(3) by (rule subset_trans)
  show "op_content ` set (pr_queue (w_procs w p)) \<subseteq> ob_content ` set ob" for p
    using relay_invD(3) [OF assms(1)] assms(3) by (rule subset_trans)
  show "hd (pr_queue (w_procs w p)) \<in> set (w_broker w)"
    if "pr_queue (w_procs w p) \<noteq> [] \<and> pr_phase (w_procs w p) = SettleSent" for p
    using that assms(1) by (simp add: relay_inv_def)
  show "ob_id r \<in> op_PK ` set (w_broker w)" if "r \<in> set ob" "ob_status r = OSent" for r
    using assms(4) [OF that] relay_invD(5) [OF assms(1) _ that(2)] by blast
qed

lemma relay_inv_broker:
  assumes "relay_inv w" "q \<in> set (pr_queue (w_procs w p))"
  shows "relay_inv (w\<lparr>w_broker := w_broker w @ [q]\<rparr>)"
  using assms unfolding relay_inv_def by simp blast

lemma relay_inv_proc:
  assumes "relay_inv w" "op_content ` set (pr_queue pr) \<subseteq> ob_content ` set (w_table w)"
    "pr_queue pr \<noteq> [] \<Longrightarrow> pr_phase pr = SettleSent \<Longrightarrow> hd (pr_queue pr) \<in> set (w_broker w)"
  shows "relay_inv (set_proc p pr w)"
  using assms unfolding relay_inv_def by simp

lemma relay_step_inv [invariants]:
  assumes "relay_step cfg w w'" "relay_inv w"
  shows "relay_inv w'"
  using assms
proof (induction rule: relay_step.induct)
  case (enqueue env now i w msg ob)
  note inv = relay_invD [OF enqueue.prems]
  show ?case
    by (rule relay_inv_table [OF enqueue.prems EnqueueTx_wf [OF inv(1) enqueue(2,1)]])
      (use EnqueueTx_rows [OF enqueue(1)] in auto)
next
  case (read w p re ps ident ob)
  note inv = relay_invD [OF read.prems]
  have same: "ob_content ` set ob = ob_content ` set (w_table w)"
    using ReadPending_content [OF read(2)] by (metis list.set_map)
  have "relay_inv (w\<lparr>w_table := ob\<rparr>)"
    by (rule relay_inv_table [OF read.prems ReadPending_wf [OF inv(1) read(2)]])
      (use same ReadPending_sent [OF read(2)] in auto)
  then show ?case
    by (rule relay_inv_proc) (use ReadPending_items [OF read(2)] in simp_all)
next
  case (read_error w p re e ident ob)
  have "ob = w_table w" using ReadPending_nothing [OF read_error(2)] by simp
  with read_error.prems show ?case by (intro relay_inv_proc) simp_all
next
  case (accepted w p q qs)
  then have "relay_inv (w\<lparr>w_broker := w_broker w @ [q]\<rparr>)"
    by (intro relay_inv_broker [of w q p]) simp_all
  with accepted relay_invD(3) [OF accepted.prems, of p] show ?case
    by (intro relay_inv_proc) simp_all
next
  case (lost_ack w p q qs e clock)
  then have "relay_inv (w\<lparr>w_broker := w_broker w @ [q]\<rparr>)"
    by (intro relay_inv_broker [of w q p]) simp_all
  with lost_ack relay_invD(3) [OF lost_ack.prems, of p] show ?case
    by (intro relay_inv_proc) simp_all
next
  case (refused w p q qs e clock)
  with relay_invD(3) [OF refused.prems, of p] show ?case
    by (intro relay_inv_proc) simp_all
next
  case (settle_sent w p q qs err now)
  note inv = relay_invD [OF settle_sent.prems]
  let ?ob = "snd (MarkSent err now q (w_table w))"
  have same: "ob_content ` set ?ob = ob_content ` set (w_table w)"
    by (metis Mark_content(1) list.set_map)
  have q: "op_PK q \<in> op_PK ` set (w_broker w)" using inv(4) [OF settle_sent(1,2)] by simp
  have "relay_inv (w\<lparr>w_table := ?ob\<rparr>)"
    by (rule relay_inv_table [OF settle_sent.prems MarkSent_wf [OF inv(1)]])
      (use same MarkSent_sent q in \<open>blast, metis\<close>)
  with inv(3) [of p] settle_sent(1) same show ?case by (intro relay_inv_proc) simp_all
next
  case (settle_failed w p q qs e t err now)
  note inv = relay_invD [OF settle_failed.prems]
  let ?ob = "snd (MarkFailed err now q e t (w_table w))"
  have same: "ob_content ` set ?ob = ob_content ` set (w_table w)"
    by (metis Mark_content(2) list.set_map)
  have "relay_inv (w\<lparr>w_table := ?ob\<rparr>)"
    by (rule relay_inv_table [OF settle_failed.prems MarkFailed_wf [OF inv(1)]])
      (use same MarkFailed_sent in \<open>blast, metis\<close>)
  with inv(3) [of p] settle_failed(1) same show ?case by (intro relay_inv_proc) simp_all
next
  case (crash w p ident)
  then show ?case by (intro relay_inv_proc) simp_all
qed

lemma relay_inv_init: "relay_inv world_init"
  by (simp add: relay_inv_def world_init_def wf_outbox_def)

lemma relay_reach_inv: "relay_reach cfg w \<Longrightarrow> relay_inv w"
  by (induction rule: relay_reach.induct) (simp_all add: relay_inv_init relay_step_inv)

lemma relay_step_content:
  assumes "relay_step cfg w w'"
  shows "ob_content ` set (w_table w) \<subseteq> ob_content ` set (w_table w')" "set (w_broker w) \<subseteq> set (w_broker w')"
  using assms
proof (induction rule: relay_step.induct)
  case (enqueue env now i w msg ob)
  case 1 show ?case using EnqueueTx_rows(1) [OF enqueue(1)] by auto
  case 2 show ?case by simp
next
  case (read w p re ps ident ob)
  case 1 show ?case using ReadPending_content [OF read(2)] by simp (metis list.set_map subset_refl)
  case 2 show ?case by simp
next
  case (read_error w p re e ident ob)
  case 1 show ?case using ReadPending_content [OF read_error(2)] by simp (metis list.set_map subset_refl)
  case 2 show ?case by simp
next
  case (settle_sent w p q qs err now)
  case 1 show ?case by simp (metis Mark_content(1) list.set_map subset_refl)
  case 2 show ?case by simp
next
  case (settle_failed w p q qs e t err now)
  case 1 show ?case by simp (metis Mark_content(2) list.set_map subset_refl)
  case 2 show ?case by simp
qed auto

section \<open>Delivery\<close>

lemma content_image:
  "op_content ` A \<subseteq> ob_content ` B \<Longrightarrow> q \<in> A \<Longrightarrow> \<exists>r \<in> B. op_content q = ob_content r"
proof -
  assume "op_content ` A \<subseteq> ob_content ` B" "q \<in> A"
  then have "op_content q \<in> ob_content ` B" by (meson imageI subsetD)
  then obtain r where "op_content q = ob_content r" "r \<in> B" by (rule imageE)
  then show ?thesis by (intro bexI [of _ r])
qed

text \<open>C2. Delivery is at least once and faithful, under every interleaving of writers, relays,
  refused publications, lost acknowledgements and crashes: a row is marked sent only after
  the broker accepted its message, and every message the broker accepted has the id, key,
  topic, payload and headers of a row that was enqueued.\<close>

theorem relay_at_least_once:
  assumes "relay_reach cfg w"
  shows "(\<forall>r \<in> set (w_table w). ob_status r = OSent \<longrightarrow>
       (\<exists>q \<in> set (w_broker w). op_content q = ob_content r)) \<and>
     (\<forall>q \<in> set (w_broker w). \<exists>r \<in> set (w_table w). op_content q = ob_content r)"
proof (intro conjI ballI impI)
  note inv = relay_invD [OF relay_reach_inv [OF assms]]
  show "\<exists>r \<in> set (w_table w). op_content q = ob_content r" if "q \<in> set (w_broker w)" for q
    by (rule content_image [OF inv(2) that])
  fix r assume r: "r \<in> set (w_table w)" "ob_status r = OSent"
  obtain q where q: "q \<in> set (w_broker w)" "op_PK q = ob_id r"
    using inv(5) [OF r] by (metis imageE)
  obtain r' where r': "r' \<in> set (w_table w)" "op_content q = ob_content r'"
    using content_image [OF inv(2) q(1)] by blast
  then have "ob_id r' = ob_id r" using q(2) by (simp add: op_content_def ob_content_def)
  with r' r(1) q(1) show "\<exists>q \<in> set (w_broker w). op_content q = ob_content r"
    using wf_same_id [OF inv(1)] by metis
qed

lemma unsent_row_becomes_due:
  assumes "wf_outbox ob" "r \<in> set ob" "ob_status r \<noteq> OSent"
  shows "\<exists>t. eligible t r"
proof (cases "ob_status r")
  case OProcessing
  then obtain t where "ob_lease_expires_at r = Some t" using assms by (auto simp: wf_outbox_def)
  with OProcessing have "eligible t r" by (simp add: eligible_def)
  then show ?thesis by blast
next
  case OPending
  then have "eligible (ob_next_attempt_at r) r" by (simp add: eligible_def)
  then show ?thesis by blast
qed (use assms(3) in simp)

definition claim_one :: "int \<Rightarrow> uuid \<Rightarrow> outbox \<Rightarrow> read_env" where
  "claim_one t i ob = \<lparr>re_fresh_owner = ''relay'', re_fresh_token = ''token'', re_process_now = t,
     re_now = t, re_locked = filter (\<lambda>j. j \<noteq> i) (map ob_id ob), re_begin = None, re_query = None,
     re_commit = None\<rparr>"

lemma claim_one_candidates:
  assumes "wf_outbox ob" "r \<in> set ob" "eligible t r" "0 < n"
  shows "candidates t (re_locked (claim_one t (ob_id r) ob)) n ob = [r]"
proof -
  have "filter (\<lambda>x. ob_id x = ob_id r) ob = [r]"
    by (rule filter_key_distinct) (use assms(1,2) in \<open>simp_all add: wf_outbox_def\<close>)
  moreover have "filter (\<lambda>x. eligible t x \<and> ob_id x \<notin> set (re_locked (claim_one t (ob_id r) ob))) ob
      = filter (\<lambda>x. ob_id x = ob_id r) ob"
    by (rule filter_cong) (use wf_same_id [OF assms(1) _ assms(2)] assms(3) in \<open>auto simp: claim_one_def\<close>)
  ultimately show ?thesis using assms(4) by (simp add: candidates_def)
qed

lemma claim_one_read:
  assumes "wf_outbox ob" "r \<in> set ob" "eligible t r" "0 < n"
  obtains q ident ob' where
    "ReadPending (claim_one t (ob_id r) ob) n p ob = (Inr [q], ident, ob')"
    "op_content q = ob_content r" "\<exists>r' \<in> set ob'. holds_claim q r'"
    "map ob_content ob' = map ob_content ob" "wf_outbox ob'"
proof -
  let ?re = "claim_one t (ob_id r) ob"
  define owner where "owner = (if ri_OwnerID p = [] then ''relay'' else ri_OwnerID p)"
  define lease where "lease = t + (if ri_LeaseTTL p \<le> 0 then default_lease else ri_LeaseTTL p)"
  define ob' where "ob' = update_where (\<lambda>x. ob_id x = ob_id r) (claim owner ''token'' lease t) ob"
  define c where "c = claim owner ''token'' lease t r"
  have c: "c \<in> set ob'" "ob_id c = ob_id r"
    using assms(2) by (auto simp: ob'_def c_def set_update_where)
  have wf: "wf_outbox ob'"
    unfolding ob'_def by (rule wf_update_where [OF assms(1)]) simp_all
  have one: "filter (\<lambda>x. ob_id x = ob_id r) ob' = [c]"
    using filter_key_distinct [of ob_id ob' c] wf c by (simp add: wf_outbox_def)
  have cand: "candidates t (re_locked ?re) (nat n) ob = [r]"
    using assms by (intro claim_one_candidates) simp_all
  have "ReadPending ?re n p ob = (Inr [pending_of owner ''token'' c], p\<lparr>ri_OwnerID := owner\<rparr>, ob')"
    using assms(4) one cand
    by (cases "ri_OwnerID p = []"; cases "ri_LeaseTTL p \<le> 0")
      (simp_all add: ReadPending_def Let_def claim_one_def owner_def lease_def ob'_def)
  moreover have "holds_claim (pending_of owner ''token'' c) c"
    by (simp add: holds_claim_def pending_of_def c_def)
  ultimately show ?thesis using c wf
    by (intro that) (auto simp: c_def ob'_def)
qed


section \<open>A run of the system\<close>

definition sample_message :: outbound_message where
  "sample_message = \<lparr>om_Topic = ''model-registry'',
     om_Message = \<lparr>ms_ResourceKey = 9, ms_MsgType = MsgTypeModelUpdated, ms_Payload = ''body''\<rparr>,
     om_Headers = [], om_DispatchKey = ''model_updated:9''\<rparr>"

definition sample_outbox_env :: outbox_env where
  "sample_outbox_env = \<lparr>oe_envelope = ms_Payload, oe_trace_headers = [(''traceparent'', ''t'')],
     oe_derive_key = (\<lambda>_ _ _ _. []), oe_exec_error = None\<rparr>"

definition enqueued_row :: outbox_row where
  "enqueued_row = \<lparr>ob_id = 7, ob_dispatch_key = ''model_updated:9'', ob_topic = ''model-registry'',
     ob_event_type = ''model_updated'', ob_resource_key = 9, ob_payload = ''body'',
     ob_headers = [(''traceparent'', ''t'')], ob_status = OPending, ob_attempts = 0,
     ob_next_attempt_at = 0, ob_processing_owner = [], ob_claim_token = [],
     ob_lease_expires_at = None, ob_last_error = [], ob_sent_at = None, ob_created_at = 0,
     ob_updated_at = 0\<rparr>"

definition sample_item :: outbox_pending where
  "sample_item = pending_of ''o'' ''tok'' enqueued_row"

definition world1 :: world where "world1 = world_init\<lparr>w_table := [enqueued_row]\<rparr>"

definition world2 :: world where
  "world2 = set_proc 0 \<lparr>pr_identity = \<lparr>ri_OwnerID = ''o'', ri_LeaseTTL = 0\<rparr>, pr_queue = [sample_item],
     pr_phase = Publish\<rparr> (world1\<lparr>w_table := [claim ''o'' ''tok'' (5 + default_lease) 5 enqueued_row]\<rparr>)"

definition world3 :: world where
  "world3 = set_proc 0 ((w_procs world2 0)\<lparr>pr_phase := SettleSent\<rparr>)
     (world2\<lparr>w_broker := w_broker world2 @ [sample_item]\<rparr>)"

definition world4 :: world where
  "world4 = set_proc 0 ((w_procs world3 0)\<lparr>pr_queue := [], pr_phase := Publish\<rparr>)
     (world3\<lparr>w_table := snd (MarkSent None 6 sample_item (w_table world3))\<rparr>)"

lemmas world_defs = world1_def world2_def world3_def world4_def world_init_def

lemma world1_reach: "relay_reach sample_config world1"
proof -
  have "EnqueueTx sample_outbox_env 0 7 (w_table world_init) sample_message = Inr [enqueued_row]"
    by code_simp
  then have "relay_step sample_config world_init world1"
    unfolding world1_def by (rule relay_step.enqueue) (simp add: world_init_def)
  then show ?thesis by (rule reach_step [OF reach_init])
qed

lemma world4_reach: "relay_reach sample_config world4"
proof -
  have rd: "ReadPending sample_read 1 \<lparr>ri_OwnerID = [], ri_LeaseTTL = 0\<rparr> [enqueued_row] =
     (Inr [sample_item], \<lparr>ri_OwnerID = ''o'', ri_LeaseTTL = 0\<rparr>,
      [claim ''o'' ''tok'' (5 + default_lease) 5 enqueued_row])"
    by code_simp
  have "relay_step sample_config world1 world2"
    unfolding world2_def
    by (rule relay_step.read) (use rd in \<open>simp_all add: world1_def world_init_def sample_config_def\<close>)
  moreover have "relay_step sample_config world2 world3"
    unfolding world3_def by (rule relay_step.accepted) (simp_all add: world2_def)
  moreover have "relay_step sample_config world3 world4"
    unfolding world4_def by (rule relay_step.settle_sent) (simp_all add: world3_def world2_def)
  ultimately show ?thesis using world1_reach by (blast intro: reach_step)
qed

theorem relay_at_least_once_witness:
  "map ob_status (w_table world4) = [OSent] \<and>
     (\<exists>q \<in> set (w_broker world4). op_content q = ob_content (hd (w_table world4)))"
proof -
  have sent: "map ob_status (w_table world4) = [OSent]" by code_simp
  then have "hd (w_table world4) \<in> set (w_table world4)" "ob_status (hd (w_table world4)) = OSent"
    by (cases "w_table world4"; simp)+
  with sent relay_at_least_once [OF world4_reach] show ?thesis by blast
qed


end
