(* ===== verification/GoFloat64.thy ===== *)
theory GoFloat64
  imports GoStrings
begin

text \<open>
  Finite IEEE 754 binary64 values, Go's \<open>float64\<close>. Every finite double is a whole
  multiple of the least subnormal \<open>2^-1074\<close>, so it is an integer in that unit, and
  comparison of doubles is comparison of integers. Subtraction is exact and then rounded
  to 53 significant bits, ties to even. Negative zero is zero, there are no NaNs (the
  values come from JSON, which has none), and a difference beyond the largest double
  stays above (below) every finite double instead of becoming an infinity, which every
  comparison treats the same way.
\<close>

type_synonym f64 = int

abbreviation f64_unit_bits :: nat where
  "f64_unit_bits \<equiv> 1074"

fun bit_len :: "nat \<Rightarrow> nat" where
  "bit_len n = (if n = 0 then 0 else Suc (bit_len (n div 2)))"

declare bit_len.simps [simp del]

lemma bit_len_bound: "n < 2 ^ bit_len n"
proof (induction n rule: bit_len.induct)
  case (1 n)
  then show ?case by (subst bit_len.simps) (cases "n = 0"; simp)
qed

lemma bit_len_le: "2 ^ k \<le> n \<Longrightarrow> k < bit_len n"
  by (metis bit_len_bound le_less_trans nat_power_less_imp_less zero_less_numeral)

text \<open>Rounding of a natural number to 53 significant bits, ties to even.\<close>

definition round53 :: "nat \<Rightarrow> nat" where
  "round53 a = (if a < 2 ^ 53 then a
     else let u = 2 ^ (bit_len a - 53); q = a div u; r = a mod u
          in (if 2 * r < u \<or> (2 * r = u \<and> even q) then q else q + 1) * u)"

lemma round53_small [simp]: "a < 2 ^ 53 \<Longrightarrow> round53 a = a"
  by (simp add: round53_def)

lemma bit_len_lower: "0 < n \<Longrightarrow> 2 ^ (bit_len n - 1) \<le> n"
proof (induction n rule: bit_len.induct)
  case (1 n)
  show ?case
  proof (cases "n div 2 = 0")
    case True
    with 1(2) have "n = 1" by simp
    then show ?thesis by (simp add: bit_len.simps)
  next
    case False
    with 1 have "2 ^ (bit_len (n div 2) - 1) \<le> n div 2" by simp
    moreover have "bit_len n = Suc (bit_len (n div 2))"
      using 1(2) by (subst bit_len.simps) simp
    moreover have "bit_len (n div 2) = Suc (bit_len (n div 2) - 1)"
      using False by (subst bit_len.simps, subst (2) bit_len.simps) simp
    ultimately have "2 ^ (bit_len n - 1) \<le> 2 * (n div 2)"
      by (metis diff_Suc_1 mult_le_mono2 power_Suc)
    also have "\<dots> \<le> n" by (rule times_div_less_eq_dividend)
    finally show ?thesis .
  qed
qed

lemma round53_pos: "0 < a \<Longrightarrow> 0 < round53 a"
proof -
  assume a: "0 < a"
  let ?u = "2 ^ (bit_len a - 53) :: nat"
  have "?u \<le> 2 ^ (bit_len a - 1)" by (intro power_increasing) auto
  also have "\<dots> \<le> a" by (rule bit_len_lower [OF a])
  finally have "0 < a div ?u" by (simp add: div_greater_zero_iff)
  with a show ?thesis by (auto simp: round53_def Let_def)
qed

lemma round53_0_iff [simp]: "round53 a = 0 \<longleftrightarrow> a = 0"
  using round53_pos by (cases "a = 0") auto

definition f64_round :: "int \<Rightarrow> f64" where
  "f64_round n = sgn n * int (round53 (nat \<bar>n\<bar>))"

lemma sgn_f64_round [simp]: "sgn (f64_round n) = sgn n"
proof (cases "n = 0")
  case False
  then have "0 < round53 (nat \<bar>n\<bar>)" by (intro round53_pos) simp
  then show ?thesis by (simp add: f64_round_def sgn_mult)
qed (simp add: f64_round_def)

text \<open>The subtraction \<open>a - b\<close> of two doubles.\<close>

definition f64_sub :: "f64 \<Rightarrow> f64 \<Rightarrow> f64" where
  "f64_sub a b = f64_round (a - b)"

lemma sgn_eq_neg: "(x < (0::int)) = (sgn x = -1)"
  by (simp add: sgn_if)

text \<open>
  Rounding never hides which of two doubles is larger: with gradual underflow the sign of
  a difference is the sign of the exact difference.
\<close>

lemma f64_sub_neg_iff: "f64_sub a b < 0 \<longleftrightarrow> a < b"
proof -
  have "f64_sub a b < 0 \<longleftrightarrow> sgn (a - b) = -1"
    by (simp add: f64_sub_def sgn_eq_neg)
  then show ?thesis by (simp add: sgn_if)
qed

lemma f64_sub_self [simp]: "f64_sub a a = 0"
  by (simp add: f64_sub_def f64_round_def)

text \<open>The verb \<open>%.4f\<close>: the exact decimal value rounded to four places, ties to even.\<close>

definition fmt4 :: "f64 \<Rightarrow> string" where
  "fmt4 x = (let p = nat \<bar>x\<bar> * 10000; d = 2 ^ f64_unit_bits; q = p div d; r = p mod d;
       m = (if 2 * r < d \<or> (2 * r = d \<and> even q) then q else q + 1);
       frac = nat_text (m mod 10000)
     in (if x < 0 then ''-'' else []) @ nat_text (m div 10000) @ ''.'' @
        replicate (4 - length frac) (CHR ''0'') @ frac)"

text \<open>The double nearest to 0.6, and 0.5 and 1, in units.\<close>

definition f64_0_6 :: f64 where
  "f64_0_6 = 5404319552844595 * 2 ^ 1021"

definition f64_half :: f64 where
  "f64_half = 2 ^ 1073"

definition f64_one :: f64 where
  "f64_one = 2 ^ 1074"

end
