(* ===== verification/PromotionGate.thy ===== *)
theory PromotionGate
  imports GoFloat64 "HOL-Library.AList" "HOL-Library.List_Lexorder" "HOL-Library.Char_ord"
begin

text \<open>
  The promotion gate of the model registry,
  \<open>model_registry_service/pkg/domain/model/promotion_gate.go\<close>, and the text form of a
  promotion decision, \<open>promotion_decision.go\<close> in the same directory.

  A Go \<open>map[string]float64\<close> is an association list read with \<open>map_of\<close> and
  written with \<open>AList.update\<close>; ranging over it in sorted order is sorting its keys
  bytewise. A nil pointer is \<open>None\<close>; an error is \<open>Some\<close> of its message.
\<close>

section \<open>Data\<close>

type_synonym metric_map = "(string \<times> f64) list"

record eval_metrics =
  ev_Passed :: bool
  ev_Metrics :: metric_map
  ev_Thresholds :: metric_map
  ev_ReportURI :: string
  ev_EvaluatorName :: string
  ev_EvaluatorVersion :: string
  ev_MetricSuite :: string
  ev_EvalDatasetURI :: string
  ev_EvalDatasetMode :: string
  ev_DeepchecksPassed :: bool
  ev_DeepchecksURI :: string
  ev_EvidentlyPassed :: bool
  ev_EvidentlyURI :: string

record promotion_report =
  pr_DeepchecksPassed :: bool
  pr_EvidentlyPassed :: bool

record gate_policy =
  gp_AbsoluteFloors :: metric_map
  gp_MinDeltaVsChampion :: metric_map
  gp_NoRegressMetrics :: "string list"
  gp_RequireEvalDataset :: bool
  gp_RequireComparableEvalSet :: bool
  gp_RequireDeepchecks :: bool
  gp_RequireEvidently :: bool
  gp_RejectBuiltinMetrics :: bool

record gate_decision =
  gd_Promote :: bool
  gd_Reason :: string
  gd_Deltas :: metric_map

definition DefaultGatePolicy :: gate_policy where
  "DefaultGatePolicy = \<lparr>
     gp_AbsoluteFloors = [(''faithfulness'', f64_0_6), (''answer_relevancy'', f64_0_6),
       (''context_precision'', f64_0_6)],
     gp_MinDeltaVsChampion = [(''faithfulness'', 0), (''answer_relevancy'', 0),
       (''context_precision'', 0)],
     gp_NoRegressMetrics = [''faithfulness'', ''answer_relevancy'', ''context_precision''],
     gp_RequireEvalDataset = True,
     gp_RequireComparableEvalSet = True,
     gp_RequireDeepchecks = False,
     gp_RequireEvidently = False,
     gp_RejectBuiltinMetrics = True\<rparr>"

section \<open>The gate\<close>

definition reject :: "string \<Rightarrow> metric_map option \<Rightarrow> gate_decision" where
  "reject reason deltas = \<lparr>gd_Promote = False, gd_Reason = reason,
     gd_Deltas = (case deltas of None \<Rightarrow> [] | Some d \<Rightarrow> d)\<rparr>"

definition sortedMetricNames :: "metric_map \<Rightarrow> string list" where
  "sortedMetricNames values = sort (map fst values)"

definition isBuiltinEvaluator :: "string \<Rightarrow> bool" where
  "isBuiltinEvaluator name \<longleftrightarrow>
     ToLower (TrimSpace name) \<in> {''built_in'', ''builtin'', ''builtin_artifact_evaluator''}"

definition deepchecksPassed :: "eval_metrics \<Rightarrow> promotion_report option \<Rightarrow> bool" where
  "deepchecksPassed candidate report = (case report of
     Some r \<Rightarrow> pr_DeepchecksPassed r | None \<Rightarrow> ev_DeepchecksPassed candidate)"

definition evidentlyPassed :: "eval_metrics \<Rightarrow> promotion_report option \<Rightarrow> bool" where
  "evidentlyPassed candidate report = (case report of
     Some r \<Rightarrow> pr_EvidentlyPassed r | None \<Rightarrow> ev_EvidentlyPassed candidate)"

text \<open>A missing key of a Go map reads as the zero value.\<close>

definition metric_at :: "metric_map \<Rightarrow> string \<Rightarrow> f64" where
  "metric_at m name = (case map_of m name of None \<Rightarrow> 0 | Some v \<Rightarrow> v)"

fun floor_errors :: "metric_map \<Rightarrow> metric_map \<Rightarrow> string list \<Rightarrow> string option" where
  "floor_errors metrics floors [] = None"
| "floor_errors metrics floors (name # names) = (case map_of metrics name of
     None \<Rightarrow> Some (''candidate metric '' @ name @ '' is missing'')
   | Some v \<Rightarrow>
       if v < metric_at floors name
       then Some (''candidate metric '' @ name @ '' '' @ fmt4 v @ '' is below floor '' @
                  fmt4 (metric_at floors name))
       else floor_errors metrics floors names)"

definition enforceFloors :: "eval_metrics \<Rightarrow> metric_map \<Rightarrow> string option" where
  "enforceFloors metrics floors =
     floor_errors (ev_Metrics metrics) floors (sortedMetricNames floors)"

definition comparableEvalSets :: "eval_metrics \<Rightarrow> eval_metrics \<Rightarrow> string option" where
  "comparableEvalSets candidate champion =
     (if TrimSpace (ev_EvalDatasetURI candidate) \<noteq> TrimSpace (ev_EvalDatasetURI champion)
      then Some ''candidate and champion eval dataset uri differ''
      else if TrimSpace (ev_MetricSuite candidate) \<noteq> TrimSpace (ev_MetricSuite champion)
      then Some ''candidate and champion metric suite differ''
      else if TrimSpace (ev_EvaluatorVersion candidate) \<noteq> TrimSpace (ev_EvaluatorVersion champion)
      then Some ''candidate and champion evaluator version differ''
      else None)"

text \<open>The loop of \<open>metricDeltas\<close>: the deltas so far and the error, if any.\<close>

fun metric_deltas_from ::
  "metric_map \<Rightarrow> eval_metrics \<Rightarrow> eval_metrics \<Rightarrow> metric_map \<Rightarrow> string list \<Rightarrow> metric_map \<times> string option"
where
  "metric_deltas_from deltas candidate champion minimums [] = (deltas, None)"
| "metric_deltas_from deltas candidate champion minimums (name # names) =
     (case map_of (ev_Metrics candidate) name of
        None \<Rightarrow> (deltas, Some (''candidate metric '' @ name @ '' is missing''))
      | Some candidateValue \<Rightarrow> (case map_of (ev_Metrics champion) name of
          None \<Rightarrow> (deltas, Some (''champion metric '' @ name @ '' is missing''))
        | Some championValue \<Rightarrow>
            let delta = f64_sub candidateValue championValue;
                deltas' = AList.update name delta deltas
            in if delta < metric_at minimums name
               then (deltas', Some (''candidate metric '' @ name @ '' regressed by '' @ fmt4 (- delta)))
               else metric_deltas_from deltas' candidate champion minimums names))"

definition metricDeltas ::
  "eval_metrics \<Rightarrow> eval_metrics \<Rightarrow> string list \<Rightarrow> metric_map \<Rightarrow> metric_map \<times> string option" where
  "metricDeltas candidate champion metrics minimums =
     metric_deltas_from [] candidate champion minimums metrics"

definition compare_with_champion ::
  "eval_metrics \<Rightarrow> eval_metrics \<Rightarrow> promotion_report option \<Rightarrow> gate_policy \<Rightarrow> gate_decision" where
  "compare_with_champion candidate champion report policy =
     (if gp_RequireEvidently policy \<and> \<not> evidentlyPassed candidate report
      then reject ''evidently report did not pass'' None
      else case comparableEvalSets candidate champion of
        Some err \<Rightarrow>
          if gp_RequireComparableEvalSet policy
          then reject (''champion metrics incomparable; '' @ err) None
          else \<lparr>gd_Promote = True,
                gd_Reason = ''champion metrics incomparable; floor-only: '' @ err, gd_Deltas = []\<rparr>
      | None \<Rightarrow> (case metricDeltas candidate champion (gp_NoRegressMetrics policy)
                          (gp_MinDeltaVsChampion policy) of
          (deltas, Some err) \<Rightarrow> reject err (Some deltas)
        | (deltas, None) \<Rightarrow>
            \<lparr>gd_Promote = True, gd_Reason = ''candidate beats champion gate'', gd_Deltas = deltas\<rparr>))"

definition EvaluatePromotion ::
  "eval_metrics option \<Rightarrow> eval_metrics option \<Rightarrow> promotion_report option \<Rightarrow> gate_policy \<Rightarrow> gate_decision"
where
  "EvaluatePromotion candidate champion report policy = (case candidate of
     None \<Rightarrow> reject ''candidate metrics are required'' None
   | Some c \<Rightarrow>
       if gp_RequireEvalDataset policy \<and> TrimSpace (ev_EvalDatasetURI c) = []
       then reject ''candidate eval dataset uri is required'' None
       else if gp_RejectBuiltinMetrics policy \<and> isBuiltinEvaluator (ev_EvaluatorName c)
       then reject ''built-in artifact metrics cannot promote a candidate'' None
       else case enforceFloors c (gp_AbsoluteFloors policy) of
         Some err \<Rightarrow> reject err None
       | None \<Rightarrow>
           if gp_RequireDeepchecks policy \<and> \<not> deepchecksPassed c report
           then reject ''deepchecks report did not pass'' None
           else case champion of
             None \<Rightarrow> \<lparr>gd_Promote = True, gd_Reason = ''first model in lineage'', gd_Deltas = []\<rparr>
           | Some p \<Rightarrow> compare_with_champion c p report policy)"

section \<open>What the gate promises\<close>

text \<open>
  The specification of a promotion, without the order of the checks and without the
  messages: the evidence a policy asks for, every floor, and, against a champion, no
  metric below its minimum delta.
\<close>

definition floors_met :: "eval_metrics \<Rightarrow> metric_map \<Rightarrow> bool" where
  "floors_met c floors \<longleftrightarrow> (\<forall>name \<in> fst ` set floors.
     \<exists>v. map_of (ev_Metrics c) name = Some v \<and> metric_at floors name \<le> v)"

definition deltas_met :: "eval_metrics \<Rightarrow> eval_metrics \<Rightarrow> string list \<Rightarrow> metric_map \<Rightarrow> bool" where
  "deltas_met c p names minimums \<longleftrightarrow> (\<forall>name \<in> set names.
     \<exists>v w. map_of (ev_Metrics c) name = Some v \<and> map_of (ev_Metrics p) name = Some w \<and>
           metric_at minimums name \<le> f64_sub v w)"

definition evidence_met :: "eval_metrics \<Rightarrow> promotion_report option \<Rightarrow> gate_policy \<Rightarrow> bool" where
  "evidence_met c report policy \<longleftrightarrow>
     (gp_RequireEvalDataset policy \<longrightarrow> TrimSpace (ev_EvalDatasetURI c) \<noteq> []) \<and>
     (gp_RejectBuiltinMetrics policy \<longrightarrow> \<not> isBuiltinEvaluator (ev_EvaluatorName c)) \<and>
     (gp_RequireDeepchecks policy \<longrightarrow> deepchecksPassed c report)"

definition champion_met ::
  "eval_metrics \<Rightarrow> eval_metrics \<Rightarrow> promotion_report option \<Rightarrow> gate_policy \<Rightarrow> bool" where
  "champion_met c p report policy \<longleftrightarrow>
     (gp_RequireEvidently policy \<longrightarrow> evidentlyPassed c report) \<and>
     (if comparableEvalSets c p = None
      then deltas_met c p (gp_NoRegressMetrics policy) (gp_MinDeltaVsChampion policy)
      else \<not> gp_RequireComparableEvalSet policy)"

fun promotion_spec ::
  "eval_metrics option \<Rightarrow> eval_metrics option \<Rightarrow> promotion_report option \<Rightarrow> gate_policy \<Rightarrow> bool" where
  "promotion_spec None champion report policy = False"
| "promotion_spec (Some c) champion report policy =
     (evidence_met c report policy \<and> floors_met c (gp_AbsoluteFloors policy) \<and>
      (case champion of None \<Rightarrow> True | Some p \<Rightarrow> champion_met c p report policy))"

lemma floor_errors_None:
  "floor_errors metrics floors names = None \<longleftrightarrow>
     (\<forall>name \<in> set names. \<exists>v. map_of metrics name = Some v \<and> metric_at floors name \<le> v)"
  by (induction names) (auto split: option.splits)

lemma enforceFloors_None [go_simps]: "enforceFloors c floors = None \<longleftrightarrow> floors_met c floors"
  by (simp add: enforceFloors_def sortedMetricNames_def floor_errors_None floors_met_def)

lemma metric_deltas_from_None:
  "snd (metric_deltas_from ds c p mins names) = None \<longleftrightarrow> deltas_met c p names mins"
  by (induction names arbitrary: ds) (auto simp: deltas_met_def Let_def split: option.splits)

lemma reject_no_promote [simp]: "gd_Promote (reject r ds) = False"
  by (simp add: reject_def)

lemma compare_with_champion_promotes:
  "gd_Promote (compare_with_champion c p report policy) \<longleftrightarrow> champion_met c p report policy"
  using metric_deltas_from_None [of "[]" c p "gp_MinDeltaVsChampion policy" "gp_NoRegressMetrics policy"]
  by (auto simp: compare_with_champion_def champion_met_def metricDeltas_def
      split: option.splits prod.splits)

lemma promotes_candidate:
  "gd_Promote (EvaluatePromotion (Some c) champion report policy) \<longleftrightarrow>
     evidence_met c report policy \<and> floors_met c (gp_AbsoluteFloors policy) \<and>
     (case champion of None \<Rightarrow> True | Some p \<Rightarrow> champion_met c p report policy)"
  using enforceFloors_None [of c "gp_AbsoluteFloors policy"]
  by (auto simp: EvaluatePromotion_def evidence_met_def compare_with_champion_promotes
      split: option.splits)

text \<open>C24. The gate promotes exactly the candidates that meet the specification: the
  requested evidence is there, every floor is met, and, when the lineage has a champion,
  the comparison with it is allowed and no metric falls below its minimum delta.\<close>

theorem EvaluatePromotion_correct:
  "gd_Promote (EvaluatePromotion candidate champion report policy) =
     promotion_spec candidate champion report policy"
  by (cases candidate) (simp add: EvaluatePromotion_def, simp add: promotes_candidate)

definition at_least :: "eval_metrics \<Rightarrow> string \<Rightarrow> f64 \<Rightarrow> bool" where
  "at_least c name bound \<longleftrightarrow> (case map_of (ev_Metrics c) name of None \<Rightarrow> False | Some v \<Rightarrow> bound \<le> v)"

definition no_worse :: "eval_metrics \<Rightarrow> eval_metrics \<Rightarrow> string \<Rightarrow> bool" where
  "no_worse c p name \<longleftrightarrow>
     (case map_of (ev_Metrics p) name of None \<Rightarrow> False | Some w \<Rightarrow> at_least c name w)"

lemma delta_nonneg_iff: "0 \<le> f64_sub v w \<longleftrightarrow> w \<le> v"
  using f64_sub_neg_iff [of v w] by linarith

lemma default_floors:
  "floors_met c (gp_AbsoluteFloors DefaultGatePolicy) \<longleftrightarrow>
     at_least c ''faithfulness'' f64_0_6 \<and> at_least c ''answer_relevancy'' f64_0_6 \<and>
     at_least c ''context_precision'' f64_0_6"
  by (auto simp: floors_met_def DefaultGatePolicy_def metric_at_def at_least_def split: option.splits)

lemma default_deltas:
  "deltas_met c p (gp_NoRegressMetrics DefaultGatePolicy) (gp_MinDeltaVsChampion DefaultGatePolicy) \<longleftrightarrow>
     no_worse c p ''faithfulness'' \<and> no_worse c p ''answer_relevancy'' \<and>
     no_worse c p ''context_precision''"
  by (auto simp: deltas_met_def DefaultGatePolicy_def metric_at_def at_least_def no_worse_def
      delta_nonneg_iff split: option.splits)

lemma default_flags [simp]:
  "gp_RequireEvalDataset DefaultGatePolicy" "gp_RequireComparableEvalSet DefaultGatePolicy"
  "\<not> gp_RequireDeepchecks DefaultGatePolicy" "\<not> gp_RequireEvidently DefaultGatePolicy"
  "gp_RejectBuiltinMetrics DefaultGatePolicy"
  by (simp_all add: DefaultGatePolicy_def)

text \<open>With the policy the registry starts with, a candidate replaces a champion it
  can be compared with exactly when it names an evaluation set and an external evaluator,
  has each of the three metrics at 0.6 or more, and is at least as good as the champion in
  each. The comparison is exact although the code compares rounded differences.\<close>

theorem DefaultGate_no_regression:
  "gd_Promote (EvaluatePromotion (Some c) (Some p) report DefaultGatePolicy) =
     (TrimSpace (ev_EvalDatasetURI c) \<noteq> [] \<and> \<not> isBuiltinEvaluator (ev_EvaluatorName c) \<and>
      at_least c ''faithfulness'' f64_0_6 \<and> at_least c ''answer_relevancy'' f64_0_6 \<and>
      at_least c ''context_precision'' f64_0_6 \<and> comparableEvalSets c p = None \<and>
      no_worse c p ''faithfulness'' \<and> no_worse c p ''answer_relevancy'' \<and>
      no_worse c p ''context_precision'')"
  by (auto simp: promotes_candidate evidence_met_def champion_met_def default_floors default_deltas)

section \<open>Decisions as text\<close>

datatype promotion_outcome = PromotionAccepted | PromotionRejected

fun outcome_text :: "promotion_outcome \<Rightarrow> string" where
  "outcome_text PromotionAccepted = ''PROMOTION_ACCEPTED''"
| "outcome_text PromotionRejected = ''PROMOTION_REJECTED''"

definition ToPromotionDecisionOutcome :: "string \<Rightarrow> string + promotion_outcome" where
  "ToPromotionDecisionOutcome value =
     (if TrimSpace value = outcome_text PromotionAccepted then Inr PromotionAccepted
      else if TrimSpace value = outcome_text PromotionRejected then Inr PromotionRejected
      else Inl (''invalid promotion decision outcome '' @ value))"

definition PromotionDecisionReason :: "promotion_outcome \<Rightarrow> string \<Rightarrow> string" where
  "PromotionDecisionReason outcome reason =
     (if TrimSpace reason = [] then outcome_text outcome
      else outcome_text outcome @ '': '' @ TrimSpace reason)"

text \<open>
  The repository stores the outcome and the reason in two columns and takes the text apart
  with \<open>splitPromotionDecision\<close>
  (\<open>model_registry_service/pkg/infra/repo/db/model_repository.go\<close>).
\<close>

definition splitPromotionDecision :: "string \<Rightarrow> string \<times> string" where
  "splitPromotionDecision decision = (case SplitN2 (TrimSpace decision) (CHR '':'') of
     [] \<Rightarrow> ([], [])
   | [p] \<Rightarrow> (TrimSpace p, [])
   | p # q # _ \<Rightarrow> (TrimSpace p, TrimSpace q))"

interpretation promotion_outcome: text_enum "\<lambda>_. True" outcome_text ToPromotionDecisionOutcome
proof
  fix x :: promotion_outcome
  show "ToPromotionDecisionOutcome (outcome_text x) = Inr x"
    by (cases x) (simp_all add: ToPromotionDecisionOutcome_def TrimSpace_def is_space_def)
qed simp

lemma outcome_text_plain:
  "outcome_text x \<noteq> []" "CHR '':'' \<notin> set (outcome_text x)"
  "TrimSpace (outcome_text x) = outcome_text x" "\<not> is_space (hd (outcome_text x))"
  by (cases x; simp add: TrimSpace_def is_space_def)+

lemma TrimSpace_drop_space: "TrimSpace (CHR '' '' # s) = TrimSpace s"
  by (simp add: TrimSpace_def is_space_def)

lemma split_decision [simp]:
  "splitPromotionDecision (PromotionDecisionReason outcome reason) =
     (outcome_text outcome, TrimSpace reason)"
proof (cases "TrimSpace reason = []")
  case True
  then show ?thesis
    by (simp add: splitPromotionDecision_def PromotionDecisionReason_def outcome_text_plain
        SplitN2_no_sep)
next
  case False
  let ?d = "outcome_text outcome @ CHR '':'' # CHR '' '' # TrimSpace reason"
  have "TrimSpace ?d = ?d"
    using outcome_text_plain [of outcome] TrimSpace_last [OF False] False
    by (intro TrimSpace_trimmed) auto
  then have "SplitN2 (TrimSpace ?d) (CHR '':'') = [outcome_text outcome, CHR '' '' # TrimSpace reason]"
    using SplitN2_sep [OF outcome_text_plain(2)] by metis
  then show ?thesis
    using False
    by (simp add: splitPromotionDecision_def PromotionDecisionReason_def outcome_text_plain
        TrimSpace_drop_space)
qed

text \<open>What the gate decided survives storage: taking the text of a decision apart gives
  its outcome, which parses back, and its reason without surrounding white space, whatever
  the reason holds (colons included).\<close>

theorem splitPromotionDecision_roundtrip:
  "ToPromotionDecisionOutcome (fst (splitPromotionDecision (PromotionDecisionReason outcome reason))) =
     Inr outcome \<and>
   snd (splitPromotionDecision (PromotionDecisionReason outcome reason)) = TrimSpace reason"
  by (simp add: promotion_outcome.parse_print)

end
