(* ===== verification/SessionContext.thy ===== *)
theory SessionContext
  imports Prelude
begin

text \<open>
  Who a request acts for: the values \<open>shared_lib/ctxutil/ctxutil.go\<close> keeps in a Go
  context, what \<open>shared_lib/db/session_context.go\<close> makes of them when a connection is
  acquired, and the row security policies of the migrations, which read that session.
  A context key that was never set is \<open>None\<close>.
\<close>

record ctx =
  cx_tenant :: "uuid option"
  cx_org :: "uuid option"
  cx_system :: bool
  cx_transaction :: bool

definition background :: ctx where
  "background = \<lparr>cx_tenant = None, cx_org = None, cx_system = False, cx_transaction = False\<rparr>"

definition WithTenantID :: "ctx \<Rightarrow> uuid \<Rightarrow> ctx" where
  "WithTenantID c tenantID = (if tenantID = uuid_nil then c else c\<lparr>cx_tenant := Some tenantID\<rparr>)"

definition TenantID :: "ctx \<Rightarrow> uuid option" where
  "TenantID c = (case cx_tenant c of None \<Rightarrow> None
     | Some t \<Rightarrow> if t = uuid_nil then None else Some t)"

definition WithOrgID :: "ctx \<Rightarrow> uuid \<Rightarrow> ctx" where
  "WithOrgID c orgID = (if orgID = uuid_nil then c else c\<lparr>cx_org := Some orgID\<rparr>)"

definition WithActorOrg :: "ctx \<Rightarrow> uuid \<Rightarrow> uuid \<Rightarrow> ctx" where
  "WithActorOrg c userID orgID = WithOrgID (WithTenantID c userID) orgID"

definition OrgID :: "ctx \<Rightarrow> uuid option" where
  "OrgID c = (case cx_org c of None \<Rightarrow> None | Some i \<Rightarrow> if i = uuid_nil then None else Some i)"

definition WithSystemContext :: "ctx \<Rightarrow> ctx" where
  "WithSystemContext c = c\<lparr>cx_system := True\<rparr>"

definition IsSystemContext :: "ctx \<Rightarrow> bool" where
  "IsSystemContext c = cx_system c"

definition WithTransactionContext :: "ctx \<Rightarrow> ctx" where
  "WithTransactionContext c = c\<lparr>cx_transaction := True\<rparr>"

definition IsTransactionContext :: "ctx \<Rightarrow> bool" where
  "IsTransactionContext c = cx_transaction c"

section \<open>The database session\<close>

text \<open>
  The three settings \<open>app.current_user_id\<close>, \<open>app.current_org_id\<close> and
  \<open>app.system_context\<close>; an empty setting is \<open>None\<close> (\<open>NULLIF(..., '')\<close> in
  the policies makes it NULL).
\<close>

record session =
  ss_user :: "uuid option"
  ss_org :: "uuid option"
  ss_system :: bool

definition setConnectionSessionContext :: "uuid option \<Rightarrow> uuid option \<Rightarrow> bool \<Rightarrow> session" where
  "setConnectionSessionContext userID orgID systemContext =
     \<lparr>ss_user = userID, ss_org = orgID, ss_system = systemContext\<rparr>"

definition resetConnectionSessionContext :: session where
  "resetConnectionSessionContext = setConnectionSessionContext None None False"

definition applyConnectionSessionContext :: "ctx \<Rightarrow> session" where
  "applyConnectionSessionContext c =
     (if IsSystemContext c then setConnectionSessionContext None None True
      else case TenantID c of
        Some t \<Rightarrow> setConnectionSessionContext (Some t) (OrgID c) False
      | None \<Rightarrow> (case OrgID c of
          Some i \<Rightarrow> setConnectionSessionContext None (Some i) False
        | None \<Rightarrow> resetConnectionSessionContext))"

text \<open>
  The two shapes of policy: a row of an organisation, and a row of the tenant projection.
  A comparison with NULL is not true, so an unset setting sees nothing.
\<close>

definition org_visible :: "session \<Rightarrow> uuid \<Rightarrow> bool" where
  "org_visible s org \<longleftrightarrow> ss_system s \<or> ss_org s = Some org"

definition tenant_visible :: "session \<Rightarrow> uuid \<Rightarrow> bool" where
  "tenant_visible s user \<longleftrightarrow> ss_system s \<or> ss_user s = Some user"

lemmas ctx_defs =
  WithTenantID_def TenantID_def WithOrgID_def WithActorOrg_def OrgID_def WithSystemContext_def
  IsSystemContext_def WithTransactionContext_def IsTransactionContext_def

lemmas session_defs =
  setConnectionSessionContext_def resetConnectionSessionContext_def applyConnectionSessionContext_def

lemma apply_session_fields [simp]:
  "ss_system (applyConnectionSessionContext c) = IsSystemContext c"
  "ss_org (applyConnectionSessionContext c) = (if IsSystemContext c then None else OrgID c)"
  "ss_user (applyConnectionSessionContext c) = (if IsSystemContext c then None else TenantID c)"
  by (auto simp: session_defs split: option.splits)

lemma apply_session_system [simp]:
  "applyConnectionSessionContext (WithSystemContext c) = setConnectionSessionContext None None True"
  by (simp add: session_defs ctx_defs)

lemma TenantID_WithTenantID [simp]:
  "t \<noteq> uuid_nil \<Longrightarrow> TenantID (WithTenantID c t) = Some t"
  "TenantID (WithOrgID c i) = TenantID c"
  by (simp_all add: ctx_defs)

lemma OrgID_WithOrgID [simp]:
  "i \<noteq> uuid_nil \<Longrightarrow> OrgID (WithOrgID c i) = Some i"
  "OrgID (WithTenantID c t) = OrgID c"
  by (simp_all add: ctx_defs)

lemma TenantID_not_nil: "TenantID c \<noteq> Some uuid_nil"
  by (simp add: TenantID_def split: option.splits)

lemma OrgID_not_nil: "OrgID c \<noteq> Some uuid_nil"
  by (simp add: OrgID_def split: option.splits)

text \<open>
  Nothing a service does to a context takes the system flag away, and only
  \<open>WithSystemContext\<close> sets it: a request that starts without it stays confined to one
  organisation however its actor is refined.
\<close>

lemma system_stable [simp]:
  "IsSystemContext (WithTenantID c t) = IsSystemContext c"
  "IsSystemContext (WithOrgID c i) = IsSystemContext c"
  "IsSystemContext (WithActorOrg c t i) = IsSystemContext c"
  "IsSystemContext (WithTransactionContext c) = IsSystemContext c"
  by (simp_all add: ctx_defs)

lemma org_visible_unique:
  "\<not> ss_system s \<Longrightarrow> org_visible s a \<Longrightarrow> org_visible s b \<Longrightarrow> a = b"
  by (simp add: org_visible_def)

lemma unscoped_sees_nothing:
  "\<not> IsSystemContext c \<Longrightarrow> OrgID c = None \<Longrightarrow> \<not> org_visible (applyConnectionSessionContext c) org"
  by (simp add: org_visible_def)

end
