(* ===== verification/ModelTypes.thy ===== *)
theory ModelTypes
  imports PromotionGate SessionContext
begin

text \<open>
  The domain types of the model registry: \<open>model_registry_service/pkg/domain/model\<close> and the
  shared enumerations \<open>shared_lib/modelstatus/model_load_status.go\<close>,
  \<open>shared_lib/domain/model_kind.go\<close> and \<open>model_source.go\<close>. An enumeration is a datatype;
  values outside its range, which only a Go conversion can make, are left out. A kind and a
  source are strings with named constants, as in the code.
\<close>

section \<open>Enumerations\<close>

datatype ModelStatus =
  ModelStatusPending | ModelStatusCandidate | ModelStatusEvaluated | ModelStatusReady | ModelStatusFailed

fun ModelStatus_String :: "ModelStatus \<Rightarrow> string" where
  "ModelStatus_String ModelStatusPending = ''PENDING''"
| "ModelStatus_String ModelStatusCandidate = ''CANDIDATE''"
| "ModelStatus_String ModelStatusEvaluated = ''EVALUATED''"
| "ModelStatus_String ModelStatusReady = ''READY''"
| "ModelStatus_String ModelStatusFailed = ''FAILED''"

definition ToModelStatus :: "string \<Rightarrow> string + ModelStatus" where
  "ToModelStatus v =
     (if v = ''PENDING'' then Inr ModelStatusPending
      else if v = ''CANDIDATE'' then Inr ModelStatusCandidate
      else if v = ''EVALUATED'' then Inr ModelStatusEvaluated
      else if v = ''READY'' then Inr ModelStatusReady
      else if v = ''FAILED'' then Inr ModelStatusFailed
      else Inl (''invalid model status '' @ v))"

datatype ModelLoadStatus = ModelLoadStatusNotLoaded | ModelLoadStatusLoaded | ModelLoadStatusFailed

fun ModelLoadStatus_String :: "ModelLoadStatus \<Rightarrow> string" where
  "ModelLoadStatus_String ModelLoadStatusNotLoaded = ''NOT_LOADED''"
| "ModelLoadStatus_String ModelLoadStatusLoaded = ''LOADED''"
| "ModelLoadStatus_String ModelLoadStatusFailed = ''FAILED''"

definition ToModelLoadStatus :: "string \<Rightarrow> string + ModelLoadStatus" where
  "ToModelLoadStatus value = (let v = ToUpper (TrimSpace value) in
     if v = [] \<or> v = ''NOT_LOADED'' then Inr ModelLoadStatusNotLoaded
     else if v = ''LOADED'' then Inr ModelLoadStatusLoaded
     else if v = ''FAILED'' then Inr ModelLoadStatusFailed
     else Inl (''invalid model load status '' @ value))"

datatype ServingProtocol =
  ServingProtocolUnknown | ServingProtocolOllamaGenerate | ServingProtocolOpenAIChatCompletions

fun ServingProtocol_String :: "ServingProtocol \<Rightarrow> string" where
  "ServingProtocol_String ServingProtocolUnknown = []"
| "ServingProtocol_String ServingProtocolOllamaGenerate = ''OLLAMA_GENERATE''"
| "ServingProtocol_String ServingProtocolOpenAIChatCompletions = ''OPENAI_CHAT_COMPLETIONS''"

definition ToServingProtocol :: "string \<Rightarrow> string + ServingProtocol" where
  "ToServingProtocol value = (let v = ToUpper (TrimSpace value) in
     if v = [] then Inr ServingProtocolUnknown
     else if v = ServingProtocol_String ServingProtocolOllamaGenerate
       then Inr ServingProtocolOllamaGenerate
     else if v = ServingProtocol_String ServingProtocolOpenAIChatCompletions
       then Inr ServingProtocolOpenAIChatCompletions
     else Inl (''invalid serving protocol '' @ value))"

interpretation model_status: text_enum "\<lambda>_. True" ModelStatus_String ToModelStatus
proof
  show "ToModelStatus (ModelStatus_String x) = Inr x" for x by (cases x) (simp_all add: ToModelStatus_def)
qed simp

interpretation model_load_status: text_enum "\<lambda>_. True" ModelLoadStatus_String ToModelLoadStatus
proof
  show "ToModelLoadStatus (ModelLoadStatus_String x) = Inr x" for x by (cases x; hypsubst; code_simp)
qed simp

interpretation serving_protocol: text_enum "\<lambda>_. True" ServingProtocol_String ToServingProtocol
proof
  show "ToServingProtocol (ServingProtocol_String x) = Inr x" for x by (cases x; hypsubst; code_simp)
qed simp

lemmas enum_parse_print [simp] =
  model_status.parse_print [OF TrueI] model_load_status.parse_print [OF TrueI]
  serving_protocol.parse_print [OF TrueI]

type_synonym ModelKind = string
type_synonym ModelSource = string

definition ModelKindFineTuned :: ModelKind where "ModelKindFineTuned = ''FINE_TUNED''"
definition ModelKindBase :: ModelKind where "ModelKindBase = ''BASE''"
definition ModelSourceTraining :: ModelSource where "ModelSourceTraining = ''TRAINING''"
definition ModelSourceUpload :: ModelSource where "ModelSourceUpload = ''UPLOAD''"
definition ModelSourceHuggingFace :: ModelSource where "ModelSourceHuggingFace = ''HUGGING_FACE''"

definition ToModelKind :: "string \<Rightarrow> ModelKind" where
  "ToModelKind value = (let v = ToUpper (TrimSpace value) in
     if v = ModelKindBase then ModelKindBase
     else if v = ModelKindFineTuned then ModelKindFineTuned else v)"

definition IsKnownModelKind :: "ModelKind \<Rightarrow> bool" where
  "IsKnownModelKind k \<longleftrightarrow> k = ModelKindBase \<or> k = ModelKindFineTuned"

definition ToModelSource :: "string \<Rightarrow> ModelSource" where
  "ToModelSource value = (let v = ToUpper (TrimSpace value) in
     if v = ModelSourceTraining then ModelSourceTraining
     else if v = ModelSourceUpload then ModelSourceUpload
     else if v = ModelSourceHuggingFace then ModelSourceHuggingFace else v)"

definition IsKnownModelSource :: "ModelSource \<Rightarrow> bool" where
  "IsKnownModelSource s \<longleftrightarrow> s = ModelSourceTraining \<or> s = ModelSourceUpload \<or> s = ModelSourceHuggingFace"

lemma known_kind_stable [simp]: "IsKnownModelKind k \<Longrightarrow> ToModelKind k = k"
proof -
  have "ToModelKind ModelKindBase = ModelKindBase" "ToModelKind ModelKindFineTuned = ModelKindFineTuned"
    by code_simp+
  then show "IsKnownModelKind k \<Longrightarrow> ToModelKind k = k" by (auto simp: IsKnownModelKind_def)
qed

lemma known_source_stable [simp]: "IsKnownModelSource s \<Longrightarrow> ToModelSource s = s"
proof -
  have "ToModelSource ModelSourceTraining = ModelSourceTraining"
    "ToModelSource ModelSourceUpload = ModelSourceUpload"
    "ToModelSource ModelSourceHuggingFace = ModelSourceHuggingFace"
    by code_simp+
  then show "IsKnownModelSource s \<Longrightarrow> ToModelSource s = s" by (auto simp: IsKnownModelSource_def)
qed

section \<open>Records\<close>

record model =
  mo_ModelID :: uuid
  mo_UserID :: uuid
  mo_OrgID :: uuid
  mo_TrainingRunID :: uuid
  mo_DatasetID :: uuid
  mo_ModelKind :: ModelKind
  mo_Source :: ModelSource
  mo_SourceURI :: string
  mo_SourceMetadata :: string
  mo_Name :: string
  mo_LineageName :: string
  mo_ModelVersion :: int
  mo_BaseModel :: string
  mo_ArtifactLocation :: string
  mo_ArtifactFormat :: string
  mo_ArtifactChecksum :: string
  mo_ArtifactSizeBytes :: int
  mo_AdapterURI :: string
  mo_AdapterRank :: int
  mo_ServingTarget :: string
  mo_ServingModel :: string
  mo_ServingProtocol :: ServingProtocol
  mo_ServingLoadStatus :: ModelLoadStatus
  mo_EffectiveBaseID :: string
  mo_MetricsMetadata :: string
  mo_PromotionReportURI :: string
  mo_PromotionDeltas :: string
  mo_PromotionDecision :: string
  mo_PromotionReason :: string
  mo_Status :: ModelStatus
  mo_FailureReason :: string

record lineage =
  ln_UserID :: uuid
  ln_OrgID :: uuid
  ln_Name :: string

definition LineageForModel :: "model \<Rightarrow> lineage" where
  "LineageForModel m = (let name = TrimSpace (mo_LineageName m);
       name' = (if name = [] then TrimSpace (mo_Name m) else name)
     in \<lparr>ln_UserID = mo_UserID m, ln_OrgID = mo_OrgID m, ln_Name = name'\<rparr>)"

record promotion_report_result =
  rp_UserID :: uuid
  rp_OrgID :: uuid
  rp_ModelID :: uuid
  rp_TrainingRunID :: uuid
  rp_PromotionReportURI :: string
  rp_DeepchecksPassed :: bool
  rp_EvidentlyPassed :: bool
  rp_Deltas :: metric_map
  rp_FailureReason :: string

record served_model_status =
  sm_ModelID :: uuid
  sm_ServingTarget :: string
  sm_ServingModel :: string
  sm_ServingProtocol :: ServingProtocol
  sm_ServingLoadStatus :: ModelLoadStatus
  sm_FailureReason :: string

datatype PublishedEndpointStatus = PublishedEndpointStatusReady | PublishedEndpointStatusDisabled

record published_endpoint =
  pe_OrgID :: uuid
  pe_ModelID :: uuid
  pe_DatasetID :: uuid
  pe_Status :: PublishedEndpointStatus
  pe_DisplayName :: string
  pe_CreatedByUserID :: uuid

record effective_base_version =
  eb_EffectiveBaseID :: string
  eb_FoundationModelID :: uuid
  eb_DescriptorSchemaVersion :: int
  eb_FoundationChecksum :: string
  eb_Descriptor :: string

record effective_base_descriptor =
  ed_DescriptorSchemaVersion :: int
  ed_FoundationModelID :: string
  ed_ArtifactURI :: string
  ed_ArtifactFormat :: string
  ed_FoundationChecksum :: string
  ed_ServingProtocol :: string
  ed_ServingModel :: string

record list_filter =
  lf_Kind :: "ModelKind option"
  lf_Source :: "ModelSource option"
  lf_Status :: "ModelStatus option"
  lf_Trainable :: bool

end
