(* ===== verification/GoInt.thy ===== *)
theory GoInt
  imports GoStrings
begin

text \<open>
  Go's \<open>int\<close> on a 64 bit platform and \<open>strconv.Atoi\<close>. An \<open>int\<close> is an HOL
  integer kept in range by \<open>wrap64\<close> after each operation that can leave the range, which
  is what two's complement arithmetic does.
\<close>

definition min_i64 :: int where "min_i64 = - 9223372036854775808"
definition max_i64 :: int where "max_i64 = 9223372036854775807"

definition in_i64 :: "int \<Rightarrow> bool" where
  "in_i64 n \<longleftrightarrow> min_i64 \<le> n \<and> n \<le> max_i64"

definition in_i32 :: "int \<Rightarrow> bool" where
  "in_i32 n \<longleftrightarrow> - 2147483648 \<le> n \<and> n \<le> 2147483647"

definition wrap64 :: "int \<Rightarrow> int" where
  "wrap64 n = (n + 9223372036854775808) mod 18446744073709551616 - 9223372036854775808"

lemma wrap64_in_i64 [simp]: "in_i64 (wrap64 n)"
proof -
  have "0 \<le> (n + 9223372036854775808) mod 18446744073709551616"
    "(n + 9223372036854775808) mod 18446744073709551616 < 18446744073709551616"
    by simp_all
  then show ?thesis by (simp add: in_i64_def wrap64_def min_i64_def max_i64_def)
qed

lemma wrap64_id: "in_i64 n \<Longrightarrow> wrap64 n = n"
  by (simp add: in_i64_def wrap64_def min_i64_def max_i64_def mod_pos_pos_trivial)

lemma wrap64_sint: "wrap64 n = sint (word_of_int n :: 64 word)"
  by (simp add: wrap64_def sint_sbintrunc' signed_take_bit_eq_take_bit_shift take_bit_eq_mod)

text \<open>An optional sign and at least one digit, and the value fits.\<close>

definition is_digit :: "char \<Rightarrow> bool" where
  "is_digit c \<longleftrightarrow> c \<in> set ''0123456789''"

definition Atoi :: "string \<Rightarrow> int option" where
  "Atoi s = (let neg = (s \<noteq> [] \<and> hd s = CHR ''-'');
                 ds = (if s \<noteq> [] \<and> (hd s = CHR ''-'' \<or> hd s = CHR ''+'') then tl s else s);
                 v = (if neg then - int (text_nat ds) else int (text_nat ds))
             in if ds \<noteq> [] \<and> list_all is_digit ds \<and> in_i64 v then Some v else None)"

lemma Atoi_in_range: "Atoi s = Some v \<Longrightarrow> in_i64 v"
  by (auto simp: Atoi_def Let_def split: if_splits)

lemma digit_char_is_digit: "d < 10 \<Longrightarrow> is_digit (digit_char d)"
proof -
  assume "d < 10"
  then have "d \<in> set [0,1,2,3,4,5,6,7,8,9]" by auto
  moreover have "list_all (\<lambda>d. is_digit (digit_char d)) [0,1,2,3,4,5,6,7,8,9]" by code_simp
  ultimately show ?thesis by (simp only: list_all_iff)
qed

lemma nat_text_digits: "list_all is_digit (nat_text n)"
proof (induction n rule: nat_text.induct)
  case (1 n)
  then show ?case by (subst nat_text.simps) (simp add: digit_char_is_digit)
qed

text \<open>What \<open>strconv.Itoa\<close> prints, \<open>Atoi\<close> reads back.\<close>

lemma Atoi_nat_text: "int n \<le> max_i64 \<Longrightarrow> Atoi (nat_text n) = Some (int n)"
proof -
  assume n: "int n \<le> max_i64"
  have d: "is_digit (hd (nat_text n))"
    using nat_text_digits [of n] nat_text_not_Nil [of n] by (cases "nat_text n") auto
  then have "hd (nat_text n) \<noteq> CHR ''-''" "hd (nat_text n) \<noteq> CHR ''+''"
    by (auto simp: is_digit_def)
  then show ?thesis
    using n nat_text_digits [of n] by (simp add: Atoi_def in_i64_def min_i64_def)
qed

end
