(* ===== verification/Pagination.thy ===== *)
theory Pagination
  imports GoInt
begin

text \<open>
  Page arithmetic of the list endpoints, \<open>shared_lib/transport/pagination.go\<close>. The query
  string is parsed by \<open>net/url\<close>; a parameter that is absent reads as the empty string.
\<close>

record url_query =
  uq_limit :: string
  uq_offset :: string
  uq_page :: string

record pagination =
  pg_Limit :: int
  pg_Page :: int

definition MaximumPageSize :: int where "MaximumPageSize = 1000"
definition DefaultPageSize :: int where "DefaultPageSize = 25"
definition DefaultPage :: int where "DefaultPage = 1"

datatype pagination_error =
  InvalidLimit | LimitNotPositive | LimitTooLarge | OffsetAndPage | InvalidOffset
| OffsetNegative | InvalidPage | PageNegative

definition page_limit :: "url_query \<Rightarrow> pagination_error + int" where
  "page_limit q = (let l = (if uq_limit q = [] then Some DefaultPageSize else Atoi (uq_limit q))
     in case l of None \<Rightarrow> Inl InvalidLimit
        | Some v \<Rightarrow> if v \<le> 0 then Inl LimitNotPositive
            else if v > MaximumPageSize then Inl LimitTooLarge else Inr v)"

text \<open>Go's integer division truncates; both operands are nonnegative here.\<close>

definition PaginationFromURL :: "url_query \<Rightarrow> pagination_error + pagination" where
  "PaginationFromURL q = (case page_limit q of
     Inl e \<Rightarrow> Inl e
   | Inr limit \<Rightarrow>
       if uq_offset q \<noteq> [] \<and> uq_page q \<noteq> [] then Inl OffsetAndPage
       else if uq_offset q \<noteq> [] then (case Atoi (uq_offset q) of
           None \<Rightarrow> Inl InvalidOffset
         | Some v \<Rightarrow> if v < 0 then Inl OffsetNegative
             else Inr \<lparr>pg_Limit = limit, pg_Page = wrap64 (v div limit + 1)\<rparr>)
       else if uq_page q = [] then Inr \<lparr>pg_Limit = limit, pg_Page = DefaultPage\<rparr>
       else (case Atoi (uq_page q) of
           None \<Rightarrow> Inl InvalidPage
         | Some v \<Rightarrow> if v < 0 then Inl PageNegative
             else if v = 0 then Inr \<lparr>pg_Limit = limit, pg_Page = DefaultPage\<rparr>
             else Inr \<lparr>pg_Limit = limit, pg_Page = v\<rparr>))"

definition NewPagination :: "int \<Rightarrow> int \<Rightarrow> pagination" where
  "NewPagination page limit =
     (let p = (if page \<le> 0 then DefaultPage else page);
          l = (if limit \<le> 0 then DefaultPageSize else limit);
          l' = (if l > MaximumPageSize then MaximumPageSize else l)
      in \<lparr>pg_Limit = l', pg_Page = p\<rparr>)"

definition GetOffset :: "pagination \<Rightarrow> int" where
  "GetOffset p = (if pg_Page p \<le> 1 then 0 else wrap64 ((pg_Page p - 1) * pg_Limit p))"

definition IsValidForCount :: "pagination \<Rightarrow> int \<Rightarrow> bool" where
  "IsValidForCount p n \<longleftrightarrow> n > GetOffset p"

lemma page_limit_bounds:
  "page_limit q = Inr l \<Longrightarrow> 1 \<le> l \<and> l \<le> MaximumPageSize"
  by (auto simp: page_limit_def Let_def split: option.splits if_splits)

lemma PaginationFromURL_limit:
  "PaginationFromURL q = Inr p \<Longrightarrow> 1 \<le> pg_Limit p \<and> pg_Limit p \<le> MaximumPageSize"
  by (auto simp: PaginationFromURL_def dest!: page_limit_bounds split: sum.splits option.splits if_splits)

lemma offset_page_no_wrap:
  assumes "0 \<le> v" "v < max_i64" "1 \<le> l"
  shows "wrap64 (v div l + 1) = v div l + 1" "wrap64 (v div l * l) = v div l * l"
proof -
  have pos: "0 \<le> v div l" using assms by (simp add: pos_imp_zdiv_nonneg_iff)
  have "v div l \<le> v div 1" using assms by (intro zdiv_mono2) simp_all
  then show "wrap64 (v div l + 1) = v div l + 1"
    using assms pos by (intro wrap64_id) (simp add: in_i64_def min_i64_def)
  have "v div l * l \<le> v" using assms by (simp add: minus_mod_eq_div_mult [symmetric])
  moreover have "0 \<le> v div l * l" using pos assms by simp
  ultimately show "wrap64 (v div l * l) = v div l * l"
    using assms by (intro wrap64_id) (simp add: in_i64_def min_i64_def)
qed

text \<open>An \<open>offset\<close> query parameter is rounded down to a page boundary: the database
  offset a request ends with is the requested one less its remainder by the limit, so it is
  the requested one only when the limit divides it.\<close>

theorem offset_query_rounds_down:
  assumes "PaginationFromURL q = Inr p" "uq_offset q \<noteq> []" "Atoi (uq_offset q) = Some v" "v < max_i64"
  shows "GetOffset p = v - v mod pg_Limit p \<and> (GetOffset p = v \<longleftrightarrow> pg_Limit p dvd v)"
proof -
  have l: "1 \<le> pg_Limit p" using PaginationFromURL_limit [OF assms(1)] by simp
  have v: "0 \<le> v" and p: "pg_Page p = wrap64 (v div pg_Limit p + 1)"
    using assms(1,2,3) by (auto simp: PaginationFromURL_def split: sum.splits if_splits)
  note nw = offset_page_no_wrap [OF v assms(4) l]
  have "GetOffset p = v div pg_Limit p * pg_Limit p"
  proof (cases "v div pg_Limit p = 0")
    case False
    moreover have "0 \<le> v div pg_Limit p" using v l by (simp add: pos_imp_zdiv_nonneg_iff)
    ultimately have "1 < v div pg_Limit p + 1" by simp
    then show ?thesis using p nw by (simp add: GetOffset_def)
  qed (use p nw in \<open>simp add: GetOffset_def\<close>)
  then have "GetOffset p = v - v mod pg_Limit p" by (simp add: minus_mod_eq_div_mult)
  then show ?thesis by (auto simp: dvd_eq_mod_eq_0)
qed

theorem offset_query_rounds_down_witness:
  "\<exists>p. PaginationFromURL \<lparr>uq_limit = ''5'', uq_offset = ''7'', uq_page = []\<rparr> = Inr p \<and> GetOffset p = 5"
proof -
  have p: "PaginationFromURL \<lparr>uq_limit = ''5'', uq_offset = ''7'', uq_page = []\<rparr> =
      Inr \<lparr>pg_Limit = 5, pg_Page = 2\<rparr>" by code_simp
  moreover have "Atoi ''7'' = Some 7" by code_simp
  ultimately have "GetOffset \<lparr>pg_Limit = 5, pg_Page = 2\<rparr> = 7 - 7 mod 5"
    using offset_query_rounds_down [OF p, of 7] by (simp add: max_i64_def)
  with p show ?thesis by simp
qed

text \<open>A page number that \<open>PaginationFromURL\<close> accepts never asks the database for a
  negative offset unless the multiplication wraps: up to page \<open>2 ^ 53\<close> the offset is exact,
  for every limit the parser lets through.\<close>

theorem page_query_exact:
  assumes "PaginationFromURL q = Inr p" "pg_Page p \<le> 9007199254740992"
  shows "GetOffset p = (if pg_Page p \<le> 1 then 0 else (pg_Page p - 1) * pg_Limit p) \<and> 0 \<le> GetOffset p"
proof -
  have l: "1 \<le> pg_Limit p" "pg_Limit p \<le> 1000"
    using PaginationFromURL_limit [OF assms(1)] by (simp_all add: MaximumPageSize_def)
  show ?thesis
  proof (cases "pg_Page p \<le> 1")
    case False
    then have "(pg_Page p - 1) * pg_Limit p \<le> 9007199254740992 * 1000"
      using l assms(2) by (intro mult_mono) simp_all
    moreover have "0 \<le> (pg_Page p - 1) * pg_Limit p" using False l by simp
    ultimately have "wrap64 ((pg_Page p - 1) * pg_Limit p) = (pg_Page p - 1) * pg_Limit p"
      by (intro wrap64_id) (simp add: in_i64_def min_i64_def max_i64_def)
    with False l show ?thesis by (simp add: GetOffset_def)
  qed (simp add: GetOffset_def)
qed

theorem page_query_exact_witness:
  "GetOffset \<lparr>pg_Limit = 25, pg_Page = 3\<rparr> = 50"
proof -
  have p: "PaginationFromURL \<lparr>uq_limit = [], uq_offset = [], uq_page = ''3''\<rparr> =
      Inr \<lparr>pg_Limit = 25, pg_Page = 3\<rparr>" by code_simp
  show ?thesis using page_query_exact [OF p] by simp
qed

end
