(* ===== verification/ModelRepository.thy ===== *)
theory ModelRepository
  imports ModelTypes Pagination Outbox "HOL-Library.Product_Lexorder"
begin

text \<open>
  The tables of the model registry and the statements on them:
  \<open>model_repository.go\<close>, \<open>published_endpoint_repository.go\<close> and
  \<open>effective_base_repository.go\<close> in \<open>model_registry_service/pkg/infra/repo/db\<close>, with the
  constraints and row policies of \<open>model_registry_service/db/migrations\<close>.

  A nullable UUID column is NULL exactly when the Go field is \<open>uuid.Nil\<close>, so both are the
  zero word. An integer column refuses what does not fit 32 bits. \<open>jsonb\<close> is the server's
  normal form of a JSON text, None when the text is not JSON; text columns compare bytewise.
  The errors of the connection and of the server that the schema does not explain are
  fields of \<open>db_env\<close>.
\<close>

section \<open>Tables\<close>

text \<open>
  The errors of \<open>model_registry_service/pkg/domain/errors.go\<close>, those of the database, and
  those of the outbox.
\<close>

datatype registry_error =
  ErrModelExists
| ErrModelNotFound
| ErrValidationFailed string
| ErrModelServe string
| SqlError string
| EnqueueError outbox_error

record model_row =
  mr_model :: model
  mr_idempotency_key :: uuid
  mr_serving_key :: uuid
  mr_created_at :: int
  mr_updated_at :: int

record endpoint_row =
  er_endpoint_id :: uuid
  er_endpoint :: published_endpoint

record base_row =
  br_base :: effective_base_version
  br_created_at :: int
  br_updated_at :: int

record registry_tables =
  rt_tenants :: "(uuid \<times> bool) list"
  rt_models :: "model_row list"
  rt_endpoints :: "endpoint_row list"
  rt_bases :: "base_row list"

record db_env =
  de_now :: int
  de_jsonb :: "string \<Rightarrow> string option"
  de_endpoint_id :: uuid
  de_read_error :: "string option"
  de_model_error :: "string option"
  de_endpoint_error :: "string option"
  de_base_error :: "string option"

section \<open>Rows\<close>

definition withDefaultJSON :: "string \<Rightarrow> string" where
  "withDefaultJSON value = (if value = [] then ''{}'' else value)"

definition lineageNameForRecord :: "model \<Rightarrow> string" where
  "lineageNameForRecord m = (let l = TrimSpace (mo_LineageName m) in
     if l = [] then TrimSpace (mo_Name m) else l)"

definition promotionDecisionOutcome :: "string \<Rightarrow> string" where
  "promotionDecisionOutcome decision = fst (splitPromotionDecision decision)"

text \<open>The casts of a promotion decision and of the three enumerations that are Go strings.\<close>

definition known_decision :: "string \<Rightarrow> bool" where
  "known_decision d \<longleftrightarrow> d = [] \<or> d = outcome_text PromotionAccepted \<or> d = outcome_text PromotionRejected"

text \<open>
  \<open>modelArgs\<close> and the casts of the insert: the row a model becomes, None when a cast
  fails.
\<close>

definition modelArgs :: "db_env \<Rightarrow> model \<Rightarrow> uuid \<Rightarrow> model_row option" where
  "modelArgs env m idempotencyKey =
     (case (de_jsonb env (withDefaultJSON (mo_SourceMetadata m)), de_jsonb env (mo_MetricsMetadata m),
            de_jsonb env (withDefaultJSON (mo_PromotionDeltas m))) of
        (Some source_metadata, Some metrics_metadata, Some promotion_deltas) \<Rightarrow>
          if IsKnownModelKind (mo_ModelKind m) \<and> IsKnownModelSource (mo_Source m) \<and>
             known_decision (promotionDecisionOutcome (mo_PromotionDecision m)) \<and>
             in_i32 (mo_ModelVersion m) \<and> in_i32 (mo_AdapterRank m)
          then Some \<lparr>mr_model = m\<lparr>mo_SourceMetadata := source_metadata,
                 mo_LineageName := lineageNameForRecord m, mo_EffectiveBaseID := [],
                 mo_MetricsMetadata := metrics_metadata, mo_PromotionDeltas := promotion_deltas,
                 mo_PromotionDecision := promotionDecisionOutcome (mo_PromotionDecision m)\<rparr>,
               mr_idempotency_key = idempotencyKey, mr_serving_key = uuid_nil,
               mr_created_at = de_now env, mr_updated_at = de_now env\<rparr>
          else None
      | _ \<Rightarrow> None)"

text \<open>\<open>models_tenant_ownership_ck\<close> and \<open>models_loaded_serving_runtime_ck\<close>.\<close>

definition has_runtime :: "model \<Rightarrow> bool" where
  "has_runtime m \<longleftrightarrow> mo_ServingLoadStatus m \<noteq> ModelLoadStatusLoaded \<or>
     (mo_ServingProtocol m \<noteq> ServingProtocolUnknown \<and> \<not> btrim_blank (mo_ServingTarget m) \<and>
      \<not> btrim_blank (mo_ServingModel m))"

definition models_checks :: "model \<Rightarrow> bool" where
  "models_checks m \<longleftrightarrow> mo_UserID m \<noteq> uuid_nil \<and> mo_OrgID m \<noteq> uuid_nil \<and> has_runtime m"

text \<open>The primary key and the two unique indexes; NULL training runs do not clash.\<close>

definition models_conflict :: "model_row \<Rightarrow> model_row \<Rightarrow> bool" where
  "models_conflict r q \<longleftrightarrow> mo_ModelID (mr_model r) = mo_ModelID (mr_model q) \<or>
     mr_idempotency_key r = mr_idempotency_key q \<or>
     (mo_TrainingRunID (mr_model r) \<noteq> uuid_nil \<and>
      mo_TrainingRunID (mr_model r) = mo_TrainingRunID (mr_model q))"

text \<open>
  \<open>scanModel\<close> of a row printed by \<open>modelColumns\<close>: the enumerations are parsed from their
  text, and there is no column for the effective base.
\<close>

definition scanModel :: "model_row \<Rightarrow> registry_error + model" where
  "scanModel r = (let m = mr_model r in
     case ToModelStatus (ModelStatus_String (mo_Status m)) of Inl e \<Rightarrow> Inl (SqlError e)
     | Inr status \<Rightarrow> (case ToModelLoadStatus (ModelLoadStatus_String (mo_ServingLoadStatus m)) of
         Inl e \<Rightarrow> Inl (SqlError e)
       | Inr servingLoadStatus \<Rightarrow> (case ToServingProtocol (ServingProtocol_String (mo_ServingProtocol m)) of
           Inl e \<Rightarrow> Inl (SqlError e)
         | Inr servingProtocol \<Rightarrow> Inr (m\<lparr>mo_ModelKind := ToModelKind (mo_ModelKind m),
             mo_Source := ToModelSource (mo_Source m), mo_Status := status,
             mo_ServingProtocol := servingProtocol, mo_ServingLoadStatus := servingLoadStatus,
             mo_EffectiveBaseID := []\<rparr>))))"

section \<open>Statements\<close>

definition row_visible :: "session \<Rightarrow> model_row \<Rightarrow> bool" where
  "row_visible s r \<longleftrightarrow> org_visible s (mo_OrgID (mr_model r))"

definition tenant_ready :: "session \<Rightarrow> uuid \<Rightarrow> registry_tables \<Rightarrow> bool" where
  "tenant_ready s user t \<longleftrightarrow>
     (\<exists>p \<in> set (rt_tenants t). fst p = user \<and> \<not> snd p \<and> user \<noteq> uuid_nil \<and> tenant_visible s user)"

definition Create ::
  "db_env \<Rightarrow> session \<Rightarrow> model \<Rightarrow> uuid \<Rightarrow> registry_tables \<Rightarrow> registry_error + (model \<times> registry_tables)" where
  "Create env s m idempotencyKey t = (case de_model_error env of
     Some e \<Rightarrow> Inl (SqlError e)
   | None \<Rightarrow>
       if \<not> tenant_ready s (mo_UserID m) t then Inl (ErrValidationFailed ''tenant projection is not ready'')
       else (case modelArgs env m idempotencyKey of
         None \<Rightarrow> Inl (SqlError ''insert model'')
       | Some row \<Rightarrow>
           if \<not> row_visible s row \<or> \<not> models_checks (mr_model row) then Inl (SqlError ''insert model'')
           else if \<exists>q \<in> set (rt_models t). models_conflict row q then Inl ErrModelExists
           else (case scanModel row of
             Inl e \<Rightarrow> Inl e
           | Inr out \<Rightarrow> Inr (out, t\<lparr>rt_models := rt_models t @ [row]\<rparr>))))"

definition read_row :: "(model_row \<Rightarrow> bool) \<Rightarrow> session \<Rightarrow> registry_tables \<Rightarrow> registry_error + model" where
  "read_row p s t = (case find (\<lambda>r. p r \<and> row_visible s r) (rt_models t) of
     None \<Rightarrow> Inl ErrModelNotFound | Some r \<Rightarrow> scanModel r)"

definition ReadByID :: "db_env \<Rightarrow> session \<Rightarrow> uuid \<Rightarrow> registry_tables \<Rightarrow> registry_error + model" where
  "ReadByID env s modelID t = (case de_read_error env of Some e \<Rightarrow> Inl (SqlError e)
     | None \<Rightarrow> read_row (\<lambda>r. mo_ModelID (mr_model r) = modelID) s t)"

text \<open>A NULL column equals nothing, so the nil training run finds no row.\<close>

definition ReadByTrainingRunID :: "db_env \<Rightarrow> session \<Rightarrow> uuid \<Rightarrow> registry_tables \<Rightarrow> registry_error + model" where
  "ReadByTrainingRunID env s run t = (case de_read_error env of Some e \<Rightarrow> Inl (SqlError e)
     | None \<Rightarrow> read_row (\<lambda>r. mo_TrainingRunID (mr_model r) \<noteq> uuid_nil \<and> mo_TrainingRunID (mr_model r) = run) s t)"

definition champion_of :: "lineage \<Rightarrow> model \<Rightarrow> bool" where
  "champion_of l m \<longleftrightarrow> ln_OrgID l \<noteq> uuid_nil \<and> mo_OrgID m = ln_OrgID l \<and> mo_LineageName m = ln_Name l \<and>
     mo_Status m = ModelStatusReady \<and> mo_ServingLoadStatus m = ModelLoadStatusLoaded"

definition champion_key :: "model_row \<Rightarrow> int \<times> int \<times> uuid" where
  "champion_key r = (mo_ModelVersion (mr_model r), mr_created_at r, mo_ModelID (mr_model r))"

definition ReadChampion :: "db_env \<Rightarrow> session \<Rightarrow> lineage \<Rightarrow> registry_tables \<Rightarrow> registry_error + model" where
  "ReadChampion env s l t = (case de_read_error env of Some e \<Rightarrow> Inl (SqlError e)
     | None \<Rightarrow> (case best_by champion_key
           (filter (\<lambda>r. row_visible s r \<and> champion_of l (mr_model r)) (rt_models t)) of
         None \<Rightarrow> Inl ErrModelNotFound | Some r \<Rightarrow> scanModel r))"

definition list_where :: "list_filter \<Rightarrow> uuid option \<Rightarrow> model \<Rightarrow> bool" where
  "list_where f org m \<longleftrightarrow>
     (case lf_Kind f of None \<Rightarrow> True | Some k \<Rightarrow> k = [] \<or> mo_ModelKind m = k) \<and>
     (case lf_Source f of None \<Rightarrow> True | Some k \<Rightarrow> k = [] \<or> mo_Source m = k) \<and>
     (case lf_Status f of None \<Rightarrow> True | Some st \<Rightarrow> mo_Status m = st) \<and>
     (\<not> lf_Trainable f \<or> mo_Status m = ModelStatusReady \<and>
        (mo_ModelKind m = ModelKindBase \<or> org = Some (mo_OrgID m)))"

definition list_key :: "model_row \<Rightarrow> int \<times> int \<times> string" where
  "list_key r = (- mr_updated_at r, - mo_ModelVersion (mr_model r), mo_Name (mr_model r))"

fun scanModels :: "model_row list \<Rightarrow> registry_error + model list" where
  "scanModels [] = Inr []"
| "scanModels (r # rs) = (case scanModel r of Inl e \<Rightarrow> Inl e
     | Inr m \<Rightarrow> (case scanModels rs of Inl e \<Rightarrow> Inl e | Inr ms \<Rightarrow> Inr (m # ms)))"

definition list_rows :: "ctx \<Rightarrow> list_filter \<Rightarrow> registry_tables \<Rightarrow> model_row list" where
  "list_rows c f t = filter (\<lambda>r. row_visible (applyConnectionSessionContext c) r \<and>
     list_where f (OrgID c) (mr_model r)) (rt_models t)"

definition list_models ::
  "db_env \<Rightarrow> ctx \<Rightarrow> pagination \<Rightarrow> list_filter \<Rightarrow> registry_tables \<Rightarrow> registry_error + (model list \<times> nat)" where
  "list_models env c p f t = (case de_read_error env of Some e \<Rightarrow> Inl (SqlError e)
     | None \<Rightarrow> if pg_Limit p < 0 \<or> GetOffset p < 0 then Inl (SqlError ''list models'')
         else (case scanModels (take (nat (pg_Limit p)) (drop (nat (GetOffset p))
                  (sort_key list_key (list_rows c f t)))) of
                 Inl e \<Rightarrow> Inl e | Inr ms \<Rightarrow> Inr (ms, length (list_rows c f t))))"

text \<open>
  An \<open>UPDATE ... WHERE model_id = @id RETURNING\<close>: it sees the rows the policy shows, its
  result must keep the checks, and the trigger sets \<open>updated_at\<close>.
\<close>

definition update_model ::
  "db_env \<Rightarrow> session \<Rightarrow> (model_row \<Rightarrow> bool) \<Rightarrow> (model_row \<Rightarrow> model_row) \<Rightarrow> registry_tables \<Rightarrow>
   (registry_error + (model \<times> registry_tables)) option" where
  "update_model env s p f t =
     (let q = (\<lambda>r. p r \<and> row_visible s r); g = (\<lambda>r. (f r)\<lparr>mr_updated_at := de_now env\<rparr>)
      in case find q (rt_models t) of
        None \<Rightarrow> None
      | Some r \<Rightarrow> Some (if \<not> models_checks (mr_model (g r)) then Inl (SqlError ''check constraint'')
          else (case scanModel (g r) of Inl e \<Rightarrow> Inl e
            | Inr out \<Rightarrow> Inr (out, t\<lparr>rt_models := update_where q g (rt_models t)\<rparr>))))"

definition set_status :: "ModelStatus \<Rightarrow> string \<Rightarrow> string \<Rightarrow> model_row \<Rightarrow> model_row" where
  "set_status status artifactLocation failureReason r = r\<lparr>mr_model := (mr_model r)\<lparr>
     mo_Status := status,
     mo_ArtifactLocation := (if artifactLocation = [] then mo_ArtifactLocation (mr_model r) else artifactLocation),
     mo_FailureReason := failureReason\<rparr>\<rparr>"

definition UpdateStatus ::
  "db_env \<Rightarrow> session \<Rightarrow> uuid \<Rightarrow> ModelStatus \<Rightarrow> string \<Rightarrow> string \<Rightarrow> registry_tables \<Rightarrow>
   registry_error + (model \<times> registry_tables)" where
  "UpdateStatus env s modelID status artifactLocation failureReason t = (case de_model_error env of
     Some e \<Rightarrow> Inl (SqlError e)
   | None \<Rightarrow> (case update_model env s (\<lambda>r. mo_ModelID (mr_model r) = modelID)
         (set_status status artifactLocation failureReason) t of
       None \<Rightarrow> Inl ErrModelNotFound | Some res \<Rightarrow> res))"

definition set_serving ::
  "ModelStatus \<Rightarrow> served_model_status \<Rightarrow> string \<Rightarrow> uuid \<Rightarrow> model_row \<Rightarrow> model_row" where
  "set_serving status sm failureReason key r = r\<lparr>mr_model := (mr_model r)\<lparr>
       mo_Status := status, mo_ServingLoadStatus := sm_ServingLoadStatus sm,
       mo_ServingTarget := sm_ServingTarget sm, mo_ServingModel := sm_ServingModel sm,
       mo_ServingProtocol := sm_ServingProtocol sm, mo_FailureReason := failureReason\<rparr>,
     mr_serving_key := key\<rparr>"

definition serving_differs :: "ModelStatus \<Rightarrow> served_model_status \<Rightarrow> string \<Rightarrow> model \<Rightarrow> bool" where
  "serving_differs status sm failureReason m \<longleftrightarrow>
     mo_Status m \<noteq> status \<or> mo_ServingLoadStatus m \<noteq> sm_ServingLoadStatus sm \<or>
     mo_ServingTarget m \<noteq> sm_ServingTarget sm \<or> mo_ServingModel m \<noteq> sm_ServingModel sm \<or>
     mo_ServingProtocol m \<noteq> sm_ServingProtocol sm \<or> mo_FailureReason m \<noteq> failureReason"

text \<open>The result says whether the row changed; if not, it is the row as it is.\<close>

definition UpdateServingStatus ::
  "db_env \<Rightarrow> session \<Rightarrow> served_model_status \<Rightarrow> ModelStatus \<Rightarrow> string \<Rightarrow> uuid \<Rightarrow> registry_tables \<Rightarrow>
   registry_error + ((model \<times> bool) \<times> registry_tables)" where
  "UpdateServingStatus env s sm status failureReason key t = (case de_model_error env of
     Some e \<Rightarrow> Inl (SqlError e)
   | None \<Rightarrow> (case update_model env s
         (\<lambda>r. mo_ModelID (mr_model r) = sm_ModelID sm \<and> mr_serving_key r \<noteq> key \<and>
              serving_differs status sm failureReason (mr_model r))
         (set_serving status sm failureReason key) t of
       Some (Inl e) \<Rightarrow> Inl e
     | Some (Inr (m, t')) \<Rightarrow> Inr ((m, True), t')
     | None \<Rightarrow> (case read_row (\<lambda>r. mo_ModelID (mr_model r) = sm_ModelID sm) s t of
         Inl e \<Rightarrow> Inl e | Inr m \<Rightarrow> Inr ((m, False), t))))"

definition set_promotion ::
  "ModelStatus \<Rightarrow> string \<Rightarrow> string \<Rightarrow> string \<Rightarrow> string \<Rightarrow> model_row \<Rightarrow> model_row" where
  "set_promotion status uri deltas decision failureReason r = r\<lparr>mr_model := (mr_model r)\<lparr>
     mo_Status := status, mo_PromotionReportURI := uri, mo_PromotionDeltas := deltas,
     mo_PromotionDecision := fst (splitPromotionDecision decision),
     mo_PromotionReason := snd (splitPromotionDecision decision), mo_FailureReason := failureReason\<rparr>\<rparr>"

definition UpdatePromotionDecision ::
  "db_env \<Rightarrow> session \<Rightarrow> uuid \<Rightarrow> ModelStatus \<Rightarrow> string \<Rightarrow> string \<Rightarrow> string \<Rightarrow> string \<Rightarrow> registry_tables \<Rightarrow>
   registry_error + (model \<times> registry_tables)" where
  "UpdatePromotionDecision env s modelID status uri deltas decision failureReason t = (case de_model_error env of
     Some e \<Rightarrow> Inl (SqlError e)
   | None \<Rightarrow> (case de_jsonb env (withDefaultJSON deltas) of
       None \<Rightarrow> Inl (SqlError ''invalid json'')
     | Some deltas' \<Rightarrow>
         if \<not> known_decision (fst (splitPromotionDecision decision)) then Inl (SqlError ''invalid enum'')
         else (case update_model env s (\<lambda>r. mo_ModelID (mr_model r) = modelID)
             (set_promotion status uri deltas' decision failureReason) t of
           None \<Rightarrow> Inl ErrModelNotFound | Some res \<Rightarrow> res)))"

section \<open>Endpoints and effective bases\<close>

definition endpoint_key :: "published_endpoint \<Rightarrow> uuid \<times> uuid \<times> uuid" where
  "endpoint_key e = (pe_OrgID e, pe_ModelID e, pe_DatasetID e)"

abbreviation row_key :: "endpoint_row \<Rightarrow> uuid \<times> uuid \<times> uuid" where
  "row_key r \<equiv> endpoint_key (er_endpoint r)"

definition UpsertEndpoint ::
  "db_env \<Rightarrow> session \<Rightarrow> published_endpoint \<Rightarrow> registry_tables \<Rightarrow> registry_error + registry_tables" where
  "UpsertEndpoint env s e t = (case de_endpoint_error env of
     Some err \<Rightarrow> Inl (SqlError err)
   | None \<Rightarrow>
       if \<not> org_visible s (pe_OrgID e) then Inl (SqlError ''upsert published endpoint'')
       else if pe_ModelID e \<notin> (\<lambda>r. mo_ModelID (mr_model r)) ` set (rt_models t) \<or>
               pe_CreatedByUserID e \<notin> fst ` set (rt_tenants t)
       then Inl (ErrValidationFailed ''published endpoint reference is not ready'')
       else if \<exists>r \<in> set (rt_endpoints t). row_key r = endpoint_key e
       then Inr (t\<lparr>rt_endpoints := update_where (\<lambda>r. row_key r = endpoint_key e)
                (\<lambda>r. r\<lparr>er_endpoint := e\<rparr>) (rt_endpoints t)\<rparr>)
       else Inr (t\<lparr>rt_endpoints := rt_endpoints t @ [\<lparr>er_endpoint_id = de_endpoint_id env, er_endpoint = e\<rparr>]\<rparr>))"

definition base_checks :: "effective_base_version \<Rightarrow> bool" where
  "base_checks b \<longleftrightarrow> \<not> btrim_blank (eb_EffectiveBaseID b) \<and> eb_DescriptorSchemaVersion b > 0 \<and>
     \<not> btrim_blank (eb_FoundationChecksum b) \<and> eb_Descriptor b \<noteq> ''{}''"

definition find_base :: "string \<Rightarrow> registry_tables \<Rightarrow> registry_error + effective_base_version" where
  "find_base i t = (case find (\<lambda>r. eb_EffectiveBaseID (br_base r) = i) (rt_bases t) of
     None \<Rightarrow> Inl ErrModelNotFound | Some r \<Rightarrow> Inr (br_base r))"

definition RecordEffectiveBase ::
  "db_env \<Rightarrow> effective_base_version \<Rightarrow> registry_tables \<Rightarrow>
   registry_error + (effective_base_version \<times> registry_tables)" where
  "RecordEffectiveBase env b t = (case de_base_error env of
     Some e \<Rightarrow> Inl (SqlError e)
   | None \<Rightarrow> (case de_jsonb env (eb_Descriptor b) of
       None \<Rightarrow> Inl (SqlError ''invalid json'')
     | Some d \<Rightarrow>
         let b' = b\<lparr>eb_Descriptor := d\<rparr> in
         if \<not> base_checks b' then Inl (SqlError ''check constraint'')
         else if \<exists>r \<in> set (rt_bases t). eb_EffectiveBaseID (br_base r) = eb_EffectiveBaseID b
         then (case find_base (eb_EffectiveBaseID b) t of Inl e \<Rightarrow> Inl e | Inr x \<Rightarrow> Inr (x, t))
         else if eb_FoundationModelID b \<notin> (\<lambda>r. mo_ModelID (mr_model r)) ` set (rt_models t)
         then Inl (ErrValidationFailed ''effective base references an unknown model'')
         else Inr (b', t\<lparr>rt_bases := rt_bases t @
                [\<lparr>br_base = b', br_created_at = de_now env, br_updated_at = de_now env\<rparr>]\<rparr>)))"

definition ReadBaseByID :: "db_env \<Rightarrow> string \<Rightarrow> registry_tables \<Rightarrow> registry_error + effective_base_version" where
  "ReadBaseByID env i t = (case de_read_error env of Some e \<Rightarrow> Inl (SqlError e) | None \<Rightarrow> find_base i t)"

definition base_key :: "base_row \<Rightarrow> int \<times> int \<times> string" where
  "base_key r = (br_updated_at r, br_created_at r, eb_EffectiveBaseID (br_base r))"

definition ReadLatestByFoundationModelID ::
  "db_env \<Rightarrow> uuid \<Rightarrow> registry_tables \<Rightarrow> registry_error + effective_base_version" where
  "ReadLatestByFoundationModelID env modelID t = (case de_read_error env of Some e \<Rightarrow> Inl (SqlError e)
     | None \<Rightarrow> (case best_by base_key
           (filter (\<lambda>r. eb_FoundationModelID (br_base r) = modelID) (rt_bases t)) of
         None \<Rightarrow> Inl ErrModelNotFound | Some r \<Rightarrow> Inr (br_base r)))"

section \<open>What the tables keep\<close>

text \<open>The columns no update writes.\<close>

definition row_ids :: "model_row \<Rightarrow> (uuid \<times> uuid \<times> uuid) \<times> (uuid \<times> uuid \<times> uuid) \<times> string \<times> string \<times> string \<times> int" where
  "row_ids r = ((mo_ModelID (mr_model r), mr_idempotency_key r, mo_TrainingRunID (mr_model r)),
     (mo_OrgID (mr_model r), mo_UserID (mr_model r), mo_DatasetID (mr_model r)),
     mo_ModelKind (mr_model r), mo_Source (mr_model r), mo_EffectiveBaseID (mr_model r), mr_created_at r)"

definition row_ok :: "model_row \<Rightarrow> bool" where
  "row_ok r \<longleftrightarrow> models_checks (mr_model r) \<and> IsKnownModelKind (mo_ModelKind (mr_model r)) \<and>
     IsKnownModelSource (mo_Source (mr_model r)) \<and> mo_EffectiveBaseID (mr_model r) = []"

fun pairwise_free :: "('a \<Rightarrow> 'a \<Rightarrow> bool) \<Rightarrow> 'a list \<Rightarrow> bool" where
  "pairwise_free conflict [] = True"
| "pairwise_free conflict (x # xs) \<longleftrightarrow> (\<forall>y \<in> set xs. \<not> conflict x y) \<and> pairwise_free conflict xs"

lemma pairwise_free_snoc:
  assumes "\<And>a b. conflict a b = conflict b a"
  shows "pairwise_free conflict (xs @ [x]) \<longleftrightarrow> pairwise_free conflict xs \<and> (\<forall>y \<in> set xs. \<not> conflict x y)"
  using assms by (induction xs) auto

lemma pairwise_free_update_where:
  assumes "\<And>a b. conflict (f a) b = conflict a b" "\<And>a b. conflict a (f b) = conflict a b"
  shows "pairwise_free conflict (update_where p f xs) = pairwise_free conflict xs"
proof -
  have "(\<forall>y \<in> set (update_where p f ys). \<not> conflict x y) \<longleftrightarrow> (\<forall>y \<in> set ys. \<not> conflict x y)" for x ys
    by (induction ys) (simp_all add: assms)
  then show ?thesis using assms(1) by (induction xs) auto
qed

lemma pairwise_free_same:
  "pairwise_free conflict xs \<Longrightarrow> x \<in> set xs \<Longrightarrow> y \<in> set xs \<Longrightarrow> conflict x y \<Longrightarrow> conflict y x \<Longrightarrow> x = y"
  by (induction xs) auto

definition wf_registry :: "registry_tables \<Rightarrow> bool" where
  "wf_registry t \<longleftrightarrow> list_all row_ok (rt_models t) \<and> pairwise_free models_conflict (rt_models t) \<and>
     distinct (map row_key (rt_endpoints t))"

lemma models_conflict_sym: "models_conflict a b = models_conflict b a"
  by (auto simp: models_conflict_def)

lemma models_conflict_ids:
  "row_ids (f a) = row_ids a \<Longrightarrow> models_conflict (f a) b = models_conflict a b"
  "row_ids (f b) = row_ids b \<Longrightarrow> models_conflict a (f b) = models_conflict a b"
  by (simp_all add: models_conflict_def row_ids_def)

lemma scanModel_eq:
  "scanModel r = Inr ((mr_model r)\<lparr>mo_ModelKind := ToModelKind (mo_ModelKind (mr_model r)),
     mo_Source := ToModelSource (mo_Source (mr_model r)), mo_EffectiveBaseID := []\<rparr>)"
  by (simp add: scanModel_def Let_def)

lemma scanModel_ok: "row_ok r \<Longrightarrow> scanModel r = Inr (mr_model r)"
  by (simp add: scanModel_eq row_ok_def)

lemma set_ids [simp]:
  "row_ids (set_status st l e r) = row_ids r" "row_ids (set_serving st sm e k r) = row_ids r"
  "row_ids (set_promotion st u d dec e r) = row_ids r" "row_ids (r\<lparr>mr_updated_at := n\<rparr>) = row_ids r"
  by (simp_all add: row_ids_def set_status_def set_serving_def set_promotion_def)

lemma row_ids_eqD:
  assumes "row_ids a = row_ids b"
  shows "mo_ModelID (mr_model a) = mo_ModelID (mr_model b)" "mo_OrgID (mr_model a) = mo_OrgID (mr_model b)"
    "mo_UserID (mr_model a) = mo_UserID (mr_model b)" "mo_DatasetID (mr_model a) = mo_DatasetID (mr_model b)"
    "mo_TrainingRunID (mr_model a) = mo_TrainingRunID (mr_model b)"
    "mo_ModelKind (mr_model a) = mo_ModelKind (mr_model b)" "mo_Source (mr_model a) = mo_Source (mr_model b)"
    "mo_EffectiveBaseID (mr_model a) = mo_EffectiveBaseID (mr_model b)"
    "mr_idempotency_key a = mr_idempotency_key b" "row_visible s a = row_visible s b"
  using assms by (simp_all add: row_ids_def row_visible_def)

text \<open>What a successful update did: one visible row was rewritten, in place.\<close>

lemma update_model_ok:
  assumes "update_model env s p f t = Some (Inr (m, t'))" "\<And>r. row_ids (f r) = row_ids r"
    "wf_registry t"
  obtains r r' where "r \<in> set (rt_models t)" "p r" "row_visible s r"
    "r' = (f r)\<lparr>mr_updated_at := de_now env\<rparr>" "m = mr_model r'" "row_ok r'"
    "t' = t\<lparr>rt_models := update_where (\<lambda>r. p r \<and> row_visible s r) (\<lambda>r. (f r)\<lparr>mr_updated_at := de_now env\<rparr>) (rt_models t)\<rparr>"
proof -
  let ?g = "\<lambda>r. (f r)\<lparr>mr_updated_at := de_now env\<rparr>"
  obtain r where r: "find (\<lambda>r. p r \<and> row_visible s r) (rt_models t) = Some r"
    "models_checks (mr_model (?g r))" "scanModel (?g r) = Inr m"
    "t' = t\<lparr>rt_models := update_where (\<lambda>r. p r \<and> row_visible s r) ?g (rt_models t)\<rparr>"
    using assms(1) by (auto simp: update_model_def Let_def split: option.splits if_splits sum.splits)
  have in_t: "r \<in> set (rt_models t)" "p r" "row_visible s r" using find_SomeD [OF r(1)] by auto
  then have "row_ok r" using assms(3) by (auto simp: wf_registry_def list_all_iff)
  moreover have "row_ids (?g r) = row_ids r" using assms(2) by simp
  note row_ids_eqD [OF this]
  ultimately have ok: "row_ok (?g r)" using r(2) by (simp add: row_ok_def)
  then have "m = mr_model (?g r)" using r(3) scanModel_ok by (metis sum.inject(2))
  with in_t ok r(4) show ?thesis using that by blast
qed

lemma wf_same_model:
  assumes "wf_registry t" "a \<in> set (rt_models t)" "b \<in> set (rt_models t)"
    "mo_ModelID (mr_model a) = mo_ModelID (mr_model b)"
  shows "a = b"
  by (rule pairwise_free_same [of models_conflict "rt_models t"])
    (use assms in \<open>simp_all add: wf_registry_def models_conflict_def\<close>)

lemma update_model_wf [invariants]:
  assumes "wf_registry t" "update_model env s p f t = Some (Inr (m, t'))"
    "\<And>r. row_ids (f r) = row_ids r" "\<And>r. p r \<Longrightarrow> mo_ModelID (mr_model r) = i"
  shows "wf_registry t'"
proof -
  let ?g = "\<lambda>r. (f r)\<lparr>mr_updated_at := de_now env\<rparr>" and ?q = "\<lambda>r. p r \<and> row_visible s r"
  obtain r r' where r: "r \<in> set (rt_models t)" "p r" "r' = ?g r" "row_ok r'"
    and t': "t' = t\<lparr>rt_models := update_where ?q ?g (rt_models t)\<rparr>"
    by (rule update_model_ok [OF assms(2,3,1)])
  have ids: "row_ids (?g x) = row_ids x" for x using assms(3) by simp
  have "row_ok x" if "x \<in> set (update_where ?q ?g (rt_models t))" for x
  proof -
    from that consider y where "y \<in> set (rt_models t)" "?q y" "x = ?g y" | "x \<in> set (rt_models t)"
      by (auto simp: set_update_where)
    then show ?thesis
    proof cases
      case 1
      then have "y = r" using wf_same_model [OF assms(1) _ r(1)] assms(4) r(2) by auto
      with 1 r show ?thesis by simp
    next
      case 2
      then show ?thesis using assms(1) by (simp add: wf_registry_def list_all_iff)
    qed
  qed
  moreover have "pairwise_free models_conflict (update_where ?q ?g (rt_models t))"
  proof -
    have "models_conflict (?g a) b = models_conflict a b" "models_conflict a (?g b) = models_conflict a b" for a b
      by (rule models_conflict_ids [OF ids])+
    then show ?thesis using assms(1) by (subst pairwise_free_update_where) (simp_all add: wf_registry_def)
  qed
  ultimately show ?thesis using assms(1) t' by (simp add: wf_registry_def list_all_iff)
qed

text \<open>Rows the session cannot see are left alone, and nothing the session gets back is theirs.\<close>

definition hidden_rows :: "session \<Rightarrow> registry_tables \<Rightarrow> model_row list" where
  "hidden_rows s t = filter (\<lambda>r. \<not> row_visible s r) (rt_models t)"

lemma update_model_hidden:
  assumes "update_model env s p f t = Some (Inr (m, t'))" "\<And>r. row_ids (f r) = row_ids r" "wf_registry t"
  shows "hidden_rows s t' = hidden_rows s t" "org_visible s (mo_OrgID m)"
    "rt_endpoints t' = rt_endpoints t" "rt_tenants t' = rt_tenants t" "rt_bases t' = rt_bases t"
proof -
  let ?g = "\<lambda>r. (f r)\<lparr>mr_updated_at := de_now env\<rparr>"
  obtain r r' where r: "row_visible s r" "r' = ?g r" "m = mr_model r'"
    and t': "t' = t\<lparr>rt_models := update_where (\<lambda>r. p r \<and> row_visible s r) ?g (rt_models t)\<rparr>"
    by (rule update_model_ok [OF assms])
  have vis: "row_visible s (?g x) = row_visible s x" for x
    by (rule row_ids_eqD(10)) (simp add: assms(2))
  show "org_visible s (mo_OrgID m)" using r vis by (simp add: row_visible_def)
  have "filter (\<lambda>r. \<not> row_visible s r) (update_where (\<lambda>r. p r \<and> row_visible s r) ?g xs) =
      filter (\<lambda>r. \<not> row_visible s r) xs" for xs
    by (induction xs) (simp_all add: vis)
  then show "hidden_rows s t' = hidden_rows s t" by (simp add: hidden_rows_def t')
  show "rt_endpoints t' = rt_endpoints t" "rt_tenants t' = rt_tenants t" "rt_bases t' = rt_bases t"
    by (simp_all add: t')
qed

lemma modelArgs_ok:
  assumes "modelArgs env m key = Some row"
  shows "mo_ModelID (mr_model row) = mo_ModelID m" "mo_OrgID (mr_model row) = mo_OrgID m"
    "mo_UserID (mr_model row) = mo_UserID m" "mo_DatasetID (mr_model row) = mo_DatasetID m"
    "mo_TrainingRunID (mr_model row) = mo_TrainingRunID m" "mr_idempotency_key row = key"
    "mo_Status (mr_model row) = mo_Status m" "mo_ServingLoadStatus (mr_model row) = mo_ServingLoadStatus m"
    "mo_Name (mr_model row) = mo_Name m" "mo_ModelVersion (mr_model row) = mo_ModelVersion m"
    "models_checks (mr_model row) = models_checks m" "models_checks m \<Longrightarrow> row_ok row"
  using assms by (auto simp: modelArgs_def models_checks_def has_runtime_def row_ok_def
      split: option.splits if_splits)

lemma Create_ok:
  assumes "Create env s m key t = Inr (out, t')"
  obtains row where "modelArgs env m key = Some row" "out = mr_model row" "row_ok row" "row_visible s row"
    "t' = t\<lparr>rt_models := rt_models t @ [row]\<rparr>" "tenant_ready s (mo_UserID m) t"
    "\<forall>q \<in> set (rt_models t). \<not> models_conflict row q"
proof -
  obtain row where r: "modelArgs env m key = Some row" "row_visible s row" "models_checks (mr_model row)"
    "\<forall>q \<in> set (rt_models t). \<not> models_conflict row q" "tenant_ready s (mo_UserID m) t"
    "scanModel row = Inr out" "t' = t\<lparr>rt_models := rt_models t @ [row]\<rparr>"
    using assms by (auto simp: Create_def split: option.splits if_splits sum.splits)
  have ok: "row_ok row" using modelArgs_ok(11,12) [OF r(1)] r(3) by simp
  then have "out = mr_model row" using scanModel_ok r(6) by (metis sum.inject(2))
  with r ok show ?thesis by (intro that)
qed

lemma Create_wf [invariants]:
  assumes "wf_registry t" "Create env s m key t = Inr (out, t')"
  shows "wf_registry t'" "hidden_rows s t' = hidden_rows s t" "org_visible s (mo_OrgID out)"
proof -
  obtain row where r: "out = mr_model row" "row_ok row" "row_visible s row"
    "t' = t\<lparr>rt_models := rt_models t @ [row]\<rparr>" "\<forall>q \<in> set (rt_models t). \<not> models_conflict row q"
    by (rule Create_ok [OF assms(2)])
  then show "wf_registry t'"
    using assms(1) pairwise_free_snoc [of models_conflict, OF models_conflict_sym]
    by (simp add: wf_registry_def)
  show "hidden_rows s t' = hidden_rows s t" using r by (simp add: hidden_rows_def)
  show "org_visible s (mo_OrgID out)" using r by (simp add: row_visible_def)
qed

lemma UpdateStatus_ok:
  "UpdateStatus env s i st l e t = Inr (m, t') \<Longrightarrow>
     update_model env s (\<lambda>r. mo_ModelID (mr_model r) = i) (set_status st l e) t = Some (Inr (m, t'))"
  by (auto simp: UpdateStatus_def split: option.splits)

lemma UpdatePromotionDecision_ok:
  assumes "UpdatePromotionDecision env s i st u d dec e t = Inr (m, t')"
  obtains d' where "update_model env s (\<lambda>r. mo_ModelID (mr_model r) = i) (set_promotion st u d' dec e) t = Some (Inr (m, t'))"
  using assms by (auto simp: UpdatePromotionDecision_def split: option.splits if_splits)

lemma read_row_ok:
  assumes "read_row p s t = Inr m" "wf_registry t"
  obtains r where "r \<in> set (rt_models t)" "p r" "row_visible s r" "m = mr_model r"
proof -
  obtain r where r: "find (\<lambda>r. p r \<and> row_visible s r) (rt_models t) = Some r" "scanModel r = Inr m"
    using assms(1) by (auto simp: read_row_def split: option.splits)
  then have in_t: "r \<in> set (rt_models t)" "p r" "row_visible s r" using find_SomeD [OF r(1)] by auto
  then have "row_ok r" using assms(2) by (auto simp: wf_registry_def list_all_iff)
  then have "m = mr_model r" using r(2) scanModel_ok by (metis sum.inject(2))
  with in_t show ?thesis by (intro that)
qed

lemma UpdateServingStatus_cases:
  assumes "UpdateServingStatus env s sm st e key t = Inr ((m, changed), t')"
  shows "(changed \<and> update_model env s (\<lambda>r. mo_ModelID (mr_model r) = sm_ModelID sm \<and> mr_serving_key r \<noteq> key \<and>
            serving_differs st sm e (mr_model r)) (set_serving st sm e key) t = Some (Inr (m, t'))) \<or>
    (\<not> changed \<and> t' = t \<and> read_row (\<lambda>r. mo_ModelID (mr_model r) = sm_ModelID sm) s t = Inr m)"
  using assms by (auto simp: UpdateServingStatus_def split: option.splits sum.splits)

lemma UpsertEndpoint_rows:
  assumes "UpsertEndpoint env s e t = Inr t'"
  shows "(\<exists>r \<in> set (rt_endpoints t). row_key r = endpoint_key e) \<and>
      t' = t\<lparr>rt_endpoints := update_where (\<lambda>r. row_key r = endpoint_key e) (\<lambda>r. r\<lparr>er_endpoint := e\<rparr>) (rt_endpoints t)\<rparr>
    \<or> endpoint_key e \<notin> row_key ` set (rt_endpoints t) \<and>
      t' = t\<lparr>rt_endpoints := rt_endpoints t @ [\<lparr>er_endpoint_id = de_endpoint_id env, er_endpoint = e\<rparr>]\<rparr>"
  using assms by (auto simp: UpsertEndpoint_def split: option.splits if_splits)

lemma UpsertEndpoint_ok:
  assumes "UpsertEndpoint env s e t = Inr t'"
  shows "rt_models t' = rt_models t" "rt_tenants t' = rt_tenants t" "rt_bases t' = rt_bases t"
    "\<exists>r \<in> set (rt_endpoints t'). er_endpoint r = e"
    "x \<in> set (rt_endpoints t) \<Longrightarrow> row_key x \<noteq> endpoint_key e \<Longrightarrow> x \<in> set (rt_endpoints t')"
    "wf_registry t \<Longrightarrow> wf_registry t'"
proof -
  note rows = UpsertEndpoint_rows [OF assms]
  then show "rt_models t' = rt_models t" "rt_tenants t' = rt_tenants t" "rt_bases t' = rt_bases t" by auto
  show "\<exists>r \<in> set (rt_endpoints t'). er_endpoint r = e"
    using rows
  proof (elim disjE conjE bexE)
    fix r assume "r \<in> set (rt_endpoints t)" "row_key r = endpoint_key e"
      and t': "t' = t\<lparr>rt_endpoints := update_where (\<lambda>r. row_key r = endpoint_key e)
        (\<lambda>r. r\<lparr>er_endpoint := e\<rparr>) (rt_endpoints t)\<rparr>"
    then have "r\<lparr>er_endpoint := e\<rparr> \<in> set (rt_endpoints t')" by (simp add: set_update_where)
    then show ?thesis by (rule rev_bexI) simp
  qed simp
  show "x \<in> set (rt_endpoints t')" if "x \<in> set (rt_endpoints t)" "row_key x \<noteq> endpoint_key e"
    using rows that by (auto simp: set_update_where)
  show "wf_registry t'" if "wf_registry t"
    using rows
  proof (elim disjE conjE)
    assume t': "t' = t\<lparr>rt_endpoints := update_where (\<lambda>r. row_key r = endpoint_key e)
      (\<lambda>r. r\<lparr>er_endpoint := e\<rparr>) (rt_endpoints t)\<rparr>"
    have "map row_key (rt_endpoints t') = map row_key (rt_endpoints t)" by (simp add: t')
    with that t' show ?thesis by (simp add: wf_registry_def)
  next
    assume "endpoint_key e \<notin> row_key ` set (rt_endpoints t)"
      "t' = t\<lparr>rt_endpoints := rt_endpoints t @ [\<lparr>er_endpoint_id = de_endpoint_id env, er_endpoint = e\<rparr>]\<rparr>"
    with that show ?thesis by (simp add: wf_registry_def)
  qed
qed

lemma RecordEffectiveBase_ok:
  assumes "RecordEffectiveBase env b t = Inr (x, t')"
  shows "rt_models t' = rt_models t" "rt_tenants t' = rt_tenants t" "rt_endpoints t' = rt_endpoints t"
    "wf_registry t \<Longrightarrow> wf_registry t'"
  using assms by (auto simp: RecordEffectiveBase_def Let_def wf_registry_def split: option.splits if_splits sum.splits)

section \<open>Queries\<close>

text \<open>The champion a candidate is compared with is the right one: a ready and loaded model
  of the same organisation and lineage that the session may see, and no other such model has
  a higher version (or, at the same version, is newer).\<close>

theorem ReadChampion_best:
  assumes "wf_registry t" "ReadChampion env s l t = Inr m"
  shows "\<exists>r \<in> set (rt_models t). m = mr_model r \<and> row_visible s r \<and> champion_of l m \<and>
    (\<forall>q \<in> set (rt_models t). row_visible s q \<and> champion_of l (mr_model q) \<longrightarrow>
       champion_key q \<le> champion_key r \<and> mo_ModelVersion (mr_model q) \<le> mo_ModelVersion m)"
proof -
  let ?rows = "filter (\<lambda>r. row_visible s r \<and> champion_of l (mr_model r)) (rt_models t)"
  obtain r where r: "best_by champion_key ?rows = Some r" "scanModel r = Inr m"
    using assms(2) by (auto simp: ReadChampion_def split: option.splits)
  have in_t: "r \<in> set (rt_models t)" "row_visible s r" "champion_of l (mr_model r)"
    using best_by_in [OF r(1)] by auto
  then have "row_ok r" using assms(1) by (auto simp: wf_registry_def list_all_iff)
  then have m: "m = mr_model r" using r(2) scanModel_ok by (metis sum.inject(2))
  have "champion_key q \<le> champion_key r \<and> mo_ModelVersion (mr_model q) \<le> mo_ModelVersion m"
    if "q \<in> set (rt_models t)" "row_visible s q" "champion_of l (mr_model q)" for q
    using best_by_max [OF r(1), of q] that m by (auto simp: champion_key_def less_eq_prod_def)
  with in_t m show ?thesis by blast
qed

lemma scanModels_ok:
  "list_all row_ok rs \<Longrightarrow> scanModels rs = Inr (map mr_model rs)"
  by (induction rs) (simp_all add: scanModel_ok)

text \<open>Listing keeps to the tenant: under a context that is not a system context every
  model of the page belongs to the organisation of the context, the page is no longer than
  its limit, the total counts all rows the filter selects, and the page is the slice at the
  requested offset of those rows in the listing order.\<close>

theorem list_models_isolated:
  assumes "wf_registry t" "list_models env c p f t = Inr (ms, n)" "\<not> IsSystemContext c"
  shows "(\<forall>m \<in> set ms. OrgID c = Some (mo_OrgID m)) \<and> int (length ms) \<le> pg_Limit p \<and>
    list_rows c f t = filter (\<lambda>r. OrgID c = Some (mo_OrgID (mr_model r)) \<and>
       list_where f (OrgID c) (mr_model r)) (rt_models t) \<and> n = length (list_rows c f t) \<and>
    ms = take (nat (pg_Limit p)) (drop (nat (GetOffset p)) (map mr_model (sort_key list_key (list_rows c f t))))"
proof -
  have vis: "row_visible (applyConnectionSessionContext c) r \<longleftrightarrow> OrgID c = Some (mo_OrgID (mr_model r))" for r
    using assms(3) by (simp add: row_visible_def org_visible_def)
  let ?page = "take (nat (pg_Limit p)) (drop (nat (GetOffset p)) (sort_key list_key (list_rows c f t)))"
  have page: "set ?page \<subseteq> set (list_rows c f t)"
    by (rule subset_trans [OF set_take_subset subset_trans [OF set_drop_subset]]) simp
  have "list_all row_ok (list_rows c f t)"
    using assms(1) by (auto simp: wf_registry_def list_rows_def list_all_iff)
  then have ok: "list_all row_ok ?page" using page by (auto simp: list_all_iff)
  have res: "0 \<le> pg_Limit p" "ms = map mr_model ?page" "n = length (list_rows c f t)"
    using assms(2) by (auto simp: list_models_def scanModels_ok [OF ok] split: option.splits if_splits)
  have "\<forall>m \<in> set ms. OrgID c = Some (mo_OrgID m)"
    unfolding res(2) using page vis by (auto simp: list_rows_def)
  moreover have "int (length ms) \<le> pg_Limit p" using res(1,2) by simp
  moreover have "list_rows c f t = filter (\<lambda>r. OrgID c = Some (mo_OrgID (mr_model r)) \<and>
       list_where f (OrgID c) (mr_model r)) (rt_models t)" by (simp only: list_rows_def vis)
  moreover have "ms = take (nat (pg_Limit p)) (drop (nat (GetOffset p))
      (map mr_model (sort_key list_key (list_rows c f t))))" by (simp only: res(2) take_map drop_map)
  ultimately show ?thesis using res(3) by (intro conjI)
qed

end
