(* ===== verification/ModelRegistry.thy ===== *)
theory ModelRegistry
  imports ModelRepository
begin

text \<open>
  The use cases of the model registry,
  \<open>model_registry_service/pkg/app/model_registry_usecase.go\<close>, and the messages they enqueue,
  \<open>pkg/infra/network/messaging/model_event_builder.go\<close>. A use case runs on
  \<open>registry_state\<close>: the database (tables and outbox), how often the relay was signalled, and
  the calls made to the serving backend and to the user event publisher.

  Protobuf and JSON encoders, hashes, the text of a UUID and the serving backend are
  libraries or services: fields of \<open>event_builder\<close> and \<open>usecase\<close>. Spans and logging are
  left out.
\<close>

section \<open>Messages\<close>

record model_updated_event =
  mu_ModelId :: string
  mu_OrgId :: string
  mu_TrainingRunId :: string
  mu_DatasetId :: string
  mu_ModelKind :: string
  mu_Source :: string
  mu_SourceUri :: string
  mu_SourceMetadata :: string
  mu_PromotionReportUri :: string
  mu_PromotionDeltas :: string
  mu_Name :: string
  mu_LineageName :: string
  mu_ModelVersion :: int
  mu_BaseModel :: string
  mu_ArtifactLocation :: string
  mu_ArtifactFormat :: string
  mu_ArtifactChecksum :: string
  mu_ArtifactSizeBytes :: int
  mu_AdapterUri :: string
  mu_ServingTarget :: string
  mu_ServingModel :: string
  mu_ServingProtocol :: string
  mu_ServingLoadStatus :: string
  mu_EffectiveBaseId :: string
  mu_MetricsMetadata :: string
  mu_Status :: string
  mu_FailureReason :: string
  mu_UserId :: string

record promotion_requested_event =
  pq_UserId :: string
  pq_OrgId :: string
  pq_ModelId :: string
  pq_TrainingRunId :: string
  pq_DatasetId :: string
  pq_ModelName :: string
  pq_ModelVersion :: int
  pq_CandidateReportUri :: string
  pq_CandidateMetricsMetadata :: string
  pq_ChampionModelId :: string
  pq_ChampionReportUri :: string
  pq_ChampionMetricsMetadata :: string

record event_builder =
  bu_topic :: string
  bu_uuid :: "uuid \<Rightarrow> string"
  bu_marshal_updated :: "model_updated_event \<Rightarrow> string"
  bu_marshal_promotion :: "promotion_requested_event \<Rightarrow> string"
  bu_payloadHash :: "string \<Rightarrow> string"
  bu_report_uri :: "string \<Rightarrow> string option"

definition StringOrEmpty :: "event_builder \<Rightarrow> uuid \<Rightarrow> string" where
  "StringOrEmpty b i = (if i = uuid_nil then [] else bu_uuid b i)"

definition int32_of :: "int \<Rightarrow> int" where
  "int32_of n = sint (word_of_int n :: 32 word)"

definition lineageName :: "model \<Rightarrow> string" where
  "lineageName m = (if mo_LineageName m \<noteq> [] then mo_LineageName m else mo_Name m)"

definition model_updated_event_of :: "event_builder \<Rightarrow> model \<Rightarrow> model_updated_event" where
  "model_updated_event_of b m = \<lparr>mu_ModelId = bu_uuid b (mo_ModelID m),
     mu_OrgId = StringOrEmpty b (mo_OrgID m), mu_TrainingRunId = StringOrEmpty b (mo_TrainingRunID m),
     mu_DatasetId = StringOrEmpty b (mo_DatasetID m), mu_ModelKind = mo_ModelKind m,
     mu_Source = mo_Source m, mu_SourceUri = mo_SourceURI m,
     mu_SourceMetadata = withDefaultJSON (mo_SourceMetadata m),
     mu_PromotionReportUri = mo_PromotionReportURI m,
     mu_PromotionDeltas = withDefaultJSON (mo_PromotionDeltas m), mu_Name = mo_Name m,
     mu_LineageName = lineageName m, mu_ModelVersion = int32_of (mo_ModelVersion m),
     mu_BaseModel = mo_BaseModel m, mu_ArtifactLocation = mo_ArtifactLocation m,
     mu_ArtifactFormat = mo_ArtifactFormat m, mu_ArtifactChecksum = mo_ArtifactChecksum m,
     mu_ArtifactSizeBytes = mo_ArtifactSizeBytes m, mu_AdapterUri = mo_AdapterURI m,
     mu_ServingTarget = mo_ServingTarget m, mu_ServingModel = mo_ServingModel m,
     mu_ServingProtocol = ServingProtocol_String (mo_ServingProtocol m),
     mu_ServingLoadStatus = ModelLoadStatus_String (mo_ServingLoadStatus m),
     mu_EffectiveBaseId = mo_EffectiveBaseID m, mu_MetricsMetadata = mo_MetricsMetadata m,
     mu_Status = ModelStatus_String (mo_Status m), mu_FailureReason = mo_FailureReason m,
     mu_UserId = StringOrEmpty b (mo_UserID m)\<rparr>"

definition ModelUpdatedMessage :: "event_builder \<Rightarrow> model \<Rightarrow> outbound_message" where
  "ModelUpdatedMessage b m = (let payload = bu_marshal_updated b (model_updated_event_of b m) in
     \<lparr>om_Topic = bu_topic b,
      om_Message = \<lparr>ms_ResourceKey = mo_ModelID m, ms_MsgType = MsgTypeModelUpdated, ms_Payload = payload\<rparr>,
      om_Headers = [],
      om_DispatchKey = ''model_updated:'' @ bu_uuid b (mo_ModelID m) @ '':'' @
        ModelStatus_String (mo_Status m) @ '':'' @ int_text (mo_ModelVersion m) @ '':'' @
        bu_payloadHash b payload\<rparr>)"

definition candidateMetricsReportURI :: "event_builder \<Rightarrow> model \<Rightarrow> string" where
  "candidateMetricsReportURI b m = (case bu_report_uri b (withDefaultJSON (mo_MetricsMetadata m)) of
     None \<Rightarrow> [] | Some uri \<Rightarrow> uri)"

definition PromotionRequestedMessage :: "event_builder \<Rightarrow> model option \<Rightarrow> model \<Rightarrow> outbound_message" where
  "PromotionRequestedMessage b champion candidate =
     (let event = \<lparr>pq_UserId = StringOrEmpty b (mo_UserID candidate),
        pq_OrgId = StringOrEmpty b (mo_OrgID candidate), pq_ModelId = bu_uuid b (mo_ModelID candidate),
        pq_TrainingRunId = StringOrEmpty b (mo_TrainingRunID candidate),
        pq_DatasetId = StringOrEmpty b (mo_DatasetID candidate), pq_ModelName = mo_Name candidate,
        pq_ModelVersion = int32_of (mo_ModelVersion candidate),
        pq_CandidateReportUri = candidateMetricsReportURI b candidate,
        pq_CandidateMetricsMetadata = withDefaultJSON (mo_MetricsMetadata candidate),
        pq_ChampionModelId = (case champion of None \<Rightarrow> [] | Some ch \<Rightarrow> bu_uuid b (mo_ModelID ch)),
        pq_ChampionReportUri = (case champion of None \<Rightarrow> [] | Some ch \<Rightarrow> candidateMetricsReportURI b ch),
        pq_ChampionMetricsMetadata = (case champion of None \<Rightarrow> []
          | Some ch \<Rightarrow> withDefaultJSON (mo_MetricsMetadata ch))\<rparr>
      in \<lparr>om_Topic = bu_topic b,
          om_Message = \<lparr>ms_ResourceKey = mo_ModelID candidate, ms_MsgType = MsgTypePromotionRequested,
            ms_Payload = bu_marshal_promotion b event\<rparr>,
          om_Headers = [],
          om_DispatchKey = ''promotion_requested:'' @ bu_uuid b (mo_ModelID candidate) @ '':'' @
            int_text (mo_ModelVersion candidate)\<rparr>)"

section \<open>The use case object and its state\<close>

record usecase =
  uc_builder :: event_builder
  uc_endpointRepository :: bool
  uc_effectiveBases :: bool
  uc_servingDeployer :: "(model \<Rightarrow> string option) option"
  uc_gatePolicy :: gate_policy
  uc_metrics_json :: "string \<Rightarrow> string + eval_metrics"
  uc_deltas_json :: "metric_map \<Rightarrow> string + string"
  uc_descriptor_json :: "effective_base_descriptor \<Rightarrow> string + string"
  uc_SHA256String :: "string \<Rightarrow> string"
  uc_classify :: "string \<Rightarrow> string"

type_synonym registry_db = "registry_tables \<times> outbox"

record call_env =
  ce_db :: db_env
  ce_tx :: "registry_error tx_env"
  ce_outbox :: outbox_env
  ce_now :: int
  ce_outbox_id :: "outbox \<Rightarrow> uuid"

record user_event =
  uv_EventType :: string
  uv_Severity :: string
  uv_UserID :: uuid
  uv_OrgID :: uuid
  uv_ModelID :: uuid
  uv_State :: string
  uv_PreviousState :: string
  uv_Title :: string
  uv_Message :: string

record registry_state =
  rg_db :: registry_db
  rg_signals :: nat
  rg_deployed :: "model list"
  rg_user_events :: "user_event list"

type_synonym outcome = "model option \<times> registry_error option"

definition contextForModel :: "ctx \<Rightarrow> model \<Rightarrow> ctx" where
  "contextForModel c m = (if mo_UserID m = uuid_nil \<and> mo_OrgID m = uuid_nil then c
     else WithActorOrg c (mo_UserID m) (mo_OrgID m))"

definition ensureActorContext :: "ctx \<Rightarrow> uuid \<Rightarrow> ctx" where
  "ensureActorContext c userID = (case TenantID c of Some _ \<Rightarrow> c | None \<Rightarrow> WithTenantID c userID)"

definition registry_enqueue :: "call_env \<Rightarrow> registry_db \<Rightarrow> outbound_message \<Rightarrow> registry_error + registry_db" where
  "registry_enqueue ce db msg =
     (case EnqueueDB (ce_outbox ce) (ce_now ce) (ce_outbox_id ce (snd db)) db msg of
        Inl e \<Rightarrow> Inl (EnqueueError e) | Inr db' \<Rightarrow> Inr db')"

text \<open>The error a transaction reports, as \<open>errors.Is\<close> finds it in the wrapped error.\<close>

fun tx_cause :: "registry_error tx_error \<Rightarrow> registry_error" where
  "tx_cause (BeginTx e) = e"
| "tx_cause (FnError e rb) = e"
| "tx_cause (Panicked p rb) = SqlError p"
| "tx_cause (CommitTx e rb) = e"

text \<open>
  A transaction of the registry: a change of the tables, then its messages. It also says
  whether the relay is signalled.
\<close>

definition registry_tx ::
  "call_env \<Rightarrow> (registry_tables \<Rightarrow> registry_error + ('a \<times> registry_tables)) \<Rightarrow> ('a \<Rightarrow> outbound_message list) \<Rightarrow>
   registry_db \<Rightarrow> (registry_error + 'a) \<times> registry_db \<times> bool" where
  "registry_tx ce change msgs db =
     (case uow_Do (ce_tx ce) (registry_enqueue ce)
         (change_then_enqueue (\<lambda>d. case change (fst d) of Inl e \<Rightarrow> Inl e | Inr (a, t) \<Rightarrow> Inr (a, (t, snd d))) msgs) db of
        (Inl e, r) \<Rightarrow> (Inl (tx_cause e), r)
      | (Inr a, r) \<Rightarrow> (Inr a, r))"

section \<open>Inside the transactions\<close>

definition endpoint_status :: "model \<Rightarrow> PublishedEndpointStatus" where
  "endpoint_status m = (if mo_Status m = ModelStatusReady \<and> mo_ServingLoadStatus m = ModelLoadStatusLoaded
     then PublishedEndpointStatusReady else PublishedEndpointStatusDisabled)"

definition endpoint_of :: "model \<Rightarrow> published_endpoint" where
  "endpoint_of m = \<lparr>pe_OrgID = mo_OrgID m, pe_ModelID = mo_ModelID m, pe_DatasetID = mo_DatasetID m,
     pe_Status = endpoint_status m, pe_DisplayName = mo_Name m, pe_CreatedByUserID = mo_UserID m\<rparr>"

definition upsertPublishedEndpoint ::
  "usecase \<Rightarrow> db_env \<Rightarrow> session \<Rightarrow> model \<Rightarrow> registry_tables \<Rightarrow> registry_error + registry_tables" where
  "upsertPublishedEndpoint uc env s m t =
     (if \<not> uc_endpointRepository uc then Inr t
      else if mo_OrgID m = uuid_nil \<or> mo_UserID m = uuid_nil
      then Inl (ErrValidationFailed ''published endpoint requires org_id and user_id'')
      else if mo_DatasetID m = uuid_nil then Inr t
      else UpsertEndpoint env s (endpoint_of m) t)"

definition recordEffectiveBaseVersion ::
  "usecase \<Rightarrow> db_env \<Rightarrow> model \<Rightarrow> registry_tables \<Rightarrow> registry_error + (model \<times> registry_tables)" where
  "recordEffectiveBaseVersion uc env m t =
     (if \<not> uc_effectiveBases uc \<or> mo_ServingLoadStatus m \<noteq> ModelLoadStatusLoaded \<or>
         mo_ModelKind m \<noteq> ModelKindBase \<or> TrimSpace (mo_AdapterURI m) \<noteq> [] \<or>
         TrimSpace (mo_ArtifactLocation m) = [] \<or> TrimSpace (mo_ArtifactFormat m) = [] \<or>
         TrimSpace (mo_ArtifactChecksum m) = [] \<or> TrimSpace (mo_ServingTarget m) = [] \<or>
         TrimSpace (mo_ServingModel m) = [] \<or>
         TrimSpace (ServingProtocol_String (mo_ServingProtocol m)) = []
      then Inr (m, t)
      else case uc_descriptor_json uc \<lparr>ed_DescriptorSchemaVersion = 1,
            ed_FoundationModelID = bu_uuid (uc_builder uc) (mo_ModelID m),
            ed_ArtifactURI = TrimSpace (mo_ArtifactLocation m),
            ed_ArtifactFormat = TrimSpace (mo_ArtifactFormat m),
            ed_FoundationChecksum = TrimSpace (mo_ArtifactChecksum m),
            ed_ServingProtocol = ServingProtocol_String (mo_ServingProtocol m),
            ed_ServingModel = TrimSpace (mo_ServingModel m)\<rparr> of
          Inl e \<Rightarrow> Inl (ErrValidationFailed e)
        | Inr json \<Rightarrow> (case RecordEffectiveBase env \<lparr>eb_EffectiveBaseID = uc_SHA256String uc json,
              eb_FoundationModelID = mo_ModelID m, eb_DescriptorSchemaVersion = 1,
              eb_FoundationChecksum = TrimSpace (mo_ArtifactChecksum m), eb_Descriptor = json\<rparr> t of
            Inl e \<Rightarrow> Inl e
          | Inr (b, t') \<Rightarrow> Inr (m\<lparr>mo_EffectiveBaseID := eb_EffectiveBaseID b\<rparr>, t')))"

definition with_endpoint ::
  "usecase \<Rightarrow> db_env \<Rightarrow> session \<Rightarrow> registry_error + (model \<times> registry_tables) \<Rightarrow> registry_error + (model \<times> registry_tables)" where
  "with_endpoint uc env s res = (case res of Inl e \<Rightarrow> Inl e
     | Inr (m, t) \<Rightarrow> (case upsertPublishedEndpoint uc env s m t of Inl e \<Rightarrow> Inl e | Inr t' \<Rightarrow> Inr (m, t')))"

definition createModel ::
  "usecase \<Rightarrow> call_env \<Rightarrow> session \<Rightarrow> model \<Rightarrow> uuid \<Rightarrow> registry_db \<Rightarrow> (registry_error + model) \<times> registry_db \<times> bool" where
  "createModel uc ce s m key = registry_tx ce
     (\<lambda>t. with_endpoint uc (ce_db ce) s (Create (ce_db ce) s m key t))
     (\<lambda>created. [ModelUpdatedMessage (uc_builder uc) created])"

definition createCandidateModel ::
  "usecase \<Rightarrow> call_env \<Rightarrow> session \<Rightarrow> model \<Rightarrow> model option \<Rightarrow> uuid \<Rightarrow> registry_db \<Rightarrow>
   (registry_error + model) \<times> registry_db \<times> bool" where
  "createCandidateModel uc ce s m champion key = registry_tx ce
     (\<lambda>t. with_endpoint uc (ce_db ce) s (Create (ce_db ce) s m key t))
     (\<lambda>created. [ModelUpdatedMessage (uc_builder uc) created,
        PromotionRequestedMessage (uc_builder uc) champion created])"

definition updateModelStatus ::
  "usecase \<Rightarrow> call_env \<Rightarrow> session \<Rightarrow> uuid \<Rightarrow> ModelStatus \<Rightarrow> string \<Rightarrow> string \<Rightarrow> registry_db \<Rightarrow>
   (registry_error + model) \<times> registry_db \<times> bool" where
  "updateModelStatus uc ce s modelID status artifactLocation failureReason = registry_tx ce
     (\<lambda>t. with_endpoint uc (ce_db ce) s (UpdateStatus (ce_db ce) s modelID status artifactLocation failureReason t))
     (\<lambda>updated. [ModelUpdatedMessage (uc_builder uc) updated])"

definition promotionDeltasJSON :: "usecase \<Rightarrow> metric_map \<Rightarrow> registry_error + string" where
  "promotionDeltasJSON uc deltas = (if deltas = [] then Inr ''{}''
     else case uc_deltas_json uc deltas of Inl e \<Rightarrow> Inl (ErrValidationFailed e) | Inr raw \<Rightarrow> Inr raw)"

definition recordPromotionDecision ::
  "usecase \<Rightarrow> call_env \<Rightarrow> session \<Rightarrow> model \<Rightarrow> ModelStatus \<Rightarrow> string \<Rightarrow> metric_map \<Rightarrow> string \<Rightarrow> string \<Rightarrow> registry_db \<Rightarrow>
   (registry_error + model) \<times> registry_db \<times> bool" where
  "recordPromotionDecision uc ce s candidate status uri deltas decision failureReason db =
     (case promotionDeltasJSON uc deltas of
        Inl e \<Rightarrow> (Inl e, db, False)
      | Inr deltas' \<Rightarrow> registry_tx ce
          (\<lambda>t. with_endpoint uc (ce_db ce) s (UpdatePromotionDecision (ce_db ce) s (mo_ModelID candidate)
             status uri deltas' decision failureReason t))
          (\<lambda>updated. [ModelUpdatedMessage (uc_builder uc) updated]) db)"

definition serving_change ::
  "usecase \<Rightarrow> db_env \<Rightarrow> session \<Rightarrow> served_model_status \<Rightarrow> ModelStatus \<Rightarrow> string \<Rightarrow> uuid \<Rightarrow> registry_tables \<Rightarrow>
   registry_error + ((model \<times> bool) \<times> registry_tables)" where
  "serving_change uc env s sm status failureReason key t =
     (case UpdateServingStatus env s sm status failureReason key t of
        Inl e \<Rightarrow> Inl e
      | Inr ((m, changed), t1) \<Rightarrow> (case upsertPublishedEndpoint uc env s m t1 of
          Inl e \<Rightarrow> Inl e
        | Inr t2 \<Rightarrow> (case recordEffectiveBaseVersion uc env m t2 of
            Inl e \<Rightarrow> Inl e | Inr (m', t3) \<Rightarrow> Inr ((m', changed), t3))))"

definition updateServingStatus ::
  "usecase \<Rightarrow> call_env \<Rightarrow> session \<Rightarrow> served_model_status \<Rightarrow> ModelStatus \<Rightarrow> string \<Rightarrow> uuid \<Rightarrow> registry_db \<Rightarrow>
   (registry_error + (model \<times> bool)) \<times> registry_db \<times> bool" where
  "updateServingStatus uc ce s sm status failureReason key = registry_tx ce
     (serving_change uc (ce_db ce) s sm status failureReason key)
     (\<lambda>(m, changed). if changed \<or> TrimSpace (mo_EffectiveBaseID m) \<noteq> []
        then [ModelUpdatedMessage (uc_builder uc) m] else [])"

section \<open>The operations\<close>

definition commit :: "registry_db \<times> bool \<Rightarrow> registry_state \<Rightarrow> registry_state" where
  "commit r st = st\<lparr>rg_db := fst r, rg_signals := rg_signals st + (if snd r then 1 else 0)\<rparr>"

definition tables :: "registry_state \<Rightarrow> registry_tables" where
  "tables st = fst (rg_db st)"

fun returning :: "registry_error + model \<Rightarrow> outcome" where
  "returning (Inl e) = (None, Some e)"
| "returning (Inr m) = (Some m, None)"

definition ensureServedModel :: "usecase \<Rightarrow> model \<Rightarrow> registry_state \<Rightarrow> registry_error option \<times> registry_state" where
  "ensureServedModel uc m st = (case uc_servingDeployer uc of
     None \<Rightarrow> (None, st)
   | Some deploy \<Rightarrow>
       if mo_ServingLoadStatus m = ModelLoadStatusLoaded \<or> mo_Status m = ModelStatusFailed then (None, st)
       else (map_option ErrModelServe (deploy m), st\<lparr>rg_deployed := rg_deployed st @ [m]\<rparr>))"

text \<open>\<open>return out, u.ensureServedModel(...)\<close>\<close>

definition serve_and_return :: "usecase \<Rightarrow> model \<Rightarrow> registry_state \<Rightarrow> outcome \<times> registry_state" where
  "serve_and_return uc m st = (case ensureServedModel uc m st of (err, st') \<Rightarrow> ((Some m, err), st'))"

definition RegisterModel ::
  "usecase \<Rightarrow> call_env \<Rightarrow> ctx \<Rightarrow> model \<Rightarrow> uuid \<Rightarrow> registry_state \<Rightarrow> outcome \<times> registry_state" where
  "RegisterModel uc ce c m key st =
     (case createModel uc ce (applyConnectionSessionContext (contextForModel c m)) m key (rg_db st) of
        (res, r) \<Rightarrow> (returning res, commit r st))"

definition ReadModelSystem :: "call_env \<Rightarrow> ctx \<Rightarrow> uuid \<Rightarrow> registry_state \<Rightarrow> registry_error + model" where
  "ReadModelSystem ce c modelID st =
     ReadByID (ce_db ce) (applyConnectionSessionContext (WithSystemContext c)) modelID (tables st)"

definition ReadModelForUser :: "call_env \<Rightarrow> ctx \<Rightarrow> uuid \<Rightarrow> uuid \<Rightarrow> registry_state \<Rightarrow> registry_error + model" where
  "ReadModelForUser ce c userID modelID st =
     ReadByID (ce_db ce) (applyConnectionSessionContext (ensureActorContext c userID)) modelID (tables st)"

definition ReadEffectiveBase ::
  "usecase \<Rightarrow> call_env \<Rightarrow> string \<Rightarrow> registry_state \<Rightarrow> registry_error + effective_base_version" where
  "ReadEffectiveBase uc ce effectiveBaseID st = (if \<not> uc_effectiveBases uc
     then Inl (ErrValidationFailed ''effective base repository is not configured'')
     else ReadBaseByID (ce_db ce) (TrimSpace effectiveBaseID) (tables st))"

definition ReadLatestEffectiveBaseForModel ::
  "usecase \<Rightarrow> call_env \<Rightarrow> uuid \<Rightarrow> registry_state \<Rightarrow> registry_error + effective_base_version" where
  "ReadLatestEffectiveBaseForModel uc ce modelID st = (if \<not> uc_effectiveBases uc
     then Inl (ErrValidationFailed ''effective base repository is not configured'')
     else ReadLatestByFoundationModelID (ce_db ce) modelID (tables st))"

definition ListModels ::
  "call_env \<Rightarrow> ctx \<Rightarrow> uuid \<Rightarrow> pagination \<Rightarrow> list_filter \<Rightarrow> registry_state \<Rightarrow> registry_error + (model list \<times> nat)" where
  "ListModels ce c userID p f st = list_models (ce_db ce) (ensureActorContext c userID) p f (tables st)"

definition MarkModelReady ::
  "usecase \<Rightarrow> call_env \<Rightarrow> ctx \<Rightarrow> uuid \<Rightarrow> string \<Rightarrow> registry_state \<Rightarrow> outcome \<times> registry_state" where
  "MarkModelReady uc ce c modelID artifactLocation st =
     (case updateModelStatus uc ce (applyConnectionSessionContext (WithSystemContext c)) modelID
         ModelStatusReady artifactLocation [] (rg_db st) of
        (res, r) \<Rightarrow> (returning res, commit r st))"

definition MarkModelFailed ::
  "usecase \<Rightarrow> call_env \<Rightarrow> ctx \<Rightarrow> uuid \<Rightarrow> string \<Rightarrow> registry_state \<Rightarrow> outcome \<times> registry_state" where
  "MarkModelFailed uc ce c modelID failureReason st =
     (case updateModelStatus uc ce (applyConnectionSessionContext (WithSystemContext c)) modelID
         ModelStatusFailed [] failureReason (rg_db st) of
        (res, r) \<Rightarrow> (returning res, commit r st))"

definition trained_model :: "ModelStatus \<Rightarrow> model \<Rightarrow> model" where
  "trained_model status m = m\<lparr>mo_Status := status, mo_ModelKind := ModelKindFineTuned,
     mo_Source := ModelSourceTraining, mo_ServingLoadStatus := ModelLoadStatusNotLoaded\<rparr>"

text \<open>The second half of \<open>RecordModelTrainingCompleted\<close>, once the champion is known.\<close>

definition record_candidate ::
  "usecase \<Rightarrow> call_env \<Rightarrow> session \<Rightarrow> model \<Rightarrow> uuid \<Rightarrow> registry_state \<Rightarrow> model option \<Rightarrow> outcome \<times> registry_state" where
  "record_candidate uc ce s m key st champion =
     (case createCandidateModel uc ce s m champion key (rg_db st) of
        (Inl e, r) \<Rightarrow> if e = ErrModelExists
          then (returning (ReadByTrainingRunID (ce_db ce) s (mo_TrainingRunID m) (fst (fst r))), commit r st)
          else ((None, Some e), commit r st)
      | (Inr out, r) \<Rightarrow> ((Some out, None), commit r st))"

definition RecordModelTrainingCompleted ::
  "usecase \<Rightarrow> call_env \<Rightarrow> ctx \<Rightarrow> model \<Rightarrow> uuid \<Rightarrow> registry_state \<Rightarrow> outcome \<times> registry_state" where
  "RecordModelTrainingCompleted uc ce c trainedModel key st =
     (let m = trained_model ModelStatusCandidate trainedModel;
          s = applyConnectionSessionContext (contextForModel c m)
      in case ReadChampion (ce_db ce) s (LineageForModel m) (tables st) of
           Inr champion \<Rightarrow> record_candidate uc ce s m key st (Some champion)
         | Inl e \<Rightarrow> if e = ErrModelNotFound then record_candidate uc ce s m key st None
             else ((None, Some e), st))"

definition RecordModelTrainingFailed ::
  "usecase \<Rightarrow> call_env \<Rightarrow> ctx \<Rightarrow> model \<Rightarrow> uuid \<Rightarrow> registry_state \<Rightarrow> outcome \<times> registry_state" where
  "RecordModelTrainingFailed uc ce c failedModel key st =
     (let m = trained_model ModelStatusFailed failedModel;
          s = applyConnectionSessionContext (contextForModel c m)
      in case createModel uc ce s m key (rg_db st) of
           (Inl e, r) \<Rightarrow> if e = ErrModelExists
             then (returning (ReadByTrainingRunID (ce_db ce) s (mo_TrainingRunID m) (fst (fst r))), commit r st)
             else ((None, Some e), commit r st)
         | (Inr out, r) \<Rightarrow> ((Some out, None), commit r st))"

definition ingested_model :: "model \<Rightarrow> model" where
  "ingested_model m = m\<lparr>
     mo_Status := (if mo_ServingLoadStatus m = ModelLoadStatusLoaded then ModelStatusReady else ModelStatusEvaluated),
     mo_MetricsMetadata := (if mo_MetricsMetadata m = [] then ''{}'' else mo_MetricsMetadata m)\<rparr>"

definition RecordModelArtifactIngested ::
  "usecase \<Rightarrow> call_env \<Rightarrow> ctx \<Rightarrow> model \<Rightarrow> uuid \<Rightarrow> registry_state \<Rightarrow> outcome \<times> registry_state" where
  "RecordModelArtifactIngested uc ce c ingestedModel key st =
     (let m = ingested_model ingestedModel;
          s = applyConnectionSessionContext (contextForModel c m)
      in case createModel uc ce s m key (rg_db st) of
           (Inl e, r) \<Rightarrow> if e = ErrModelExists
             then (case ReadByID (ce_db ce) s (mo_ModelID m) (fst (fst r)) of
                     Inl e' \<Rightarrow> ((None, Some e'), commit r st)
                   | Inr out \<Rightarrow> serve_and_return uc out (commit r st))
             else ((None, Some e), commit r st)
         | (Inr out, r) \<Rightarrow> serve_and_return uc out (commit r st))"

definition model_user_event :: "usecase \<Rightarrow> model \<Rightarrow> ModelLoadStatus \<Rightarrow> user_event" where
  "model_user_event uc m previous =
     (let (etype, severity, title, message) = (case mo_ServingLoadStatus m of
          ModelLoadStatusLoaded \<Rightarrow> (''model.serving.loaded'', ''SUCCESS'', ''Model ready'',
            ''The model is ready for inference.'')
        | ModelLoadStatusFailed \<Rightarrow> (''model.serving.failed'', ''ERROR'', ''Model serving failed'',
            uc_classify uc (mo_FailureReason m))
        | ModelLoadStatusNotLoaded \<Rightarrow> (''model.status.updated'', ''INFO'', ''Model status updated'',
            ''The model serving status changed.''))
      in \<lparr>uv_EventType = etype, uv_Severity = severity, uv_UserID = mo_UserID m, uv_OrgID = mo_OrgID m,
          uv_ModelID = mo_ModelID m, uv_State = ModelLoadStatus_String (mo_ServingLoadStatus m),
          uv_PreviousState = ModelLoadStatus_String previous, uv_Title = title, uv_Message = message\<rparr>)"

text \<open>The status a serving report asks for: \<open>existing\<close> is what was read before the update.\<close>

definition serving_target_status :: "served_model_status \<Rightarrow> model option \<Rightarrow> ModelStatus \<times> string" where
  "serving_target_status sm existing =
     (let (status, failureReason) = (case sm_ServingLoadStatus sm of
          ModelLoadStatusLoaded \<Rightarrow> (ModelStatusReady, [])
        | ModelLoadStatusFailed \<Rightarrow> (ModelStatusFailed, sm_FailureReason sm)
        | ModelLoadStatusNotLoaded \<Rightarrow> (ModelStatusEvaluated, []))
      in (if (case existing of None \<Rightarrow> False | Some e \<Rightarrow> mo_Status e = ModelStatusCandidate) \<and>
             status \<noteq> ModelStatusFailed then ModelStatusCandidate else status, failureReason))"

definition RecordModelServingStatus ::
  "usecase \<Rightarrow> call_env \<Rightarrow> ctx \<Rightarrow> served_model_status \<Rightarrow> uuid \<Rightarrow> registry_state \<Rightarrow> outcome \<times> registry_state" where
  "RecordModelServingStatus uc ce c sm key st =
     (let s = applyConnectionSessionContext (WithSystemContext c);
          proceed = (\<lambda>existing. case serving_target_status sm existing of (status, failureReason) \<Rightarrow>
            (case updateServingStatus uc ce s sm status failureReason key (rg_db st) of
               (Inl e, r) \<Rightarrow> ((None, Some e), commit r st)
             | (Inr (out, changed), r) \<Rightarrow>
                 let st' = commit r st;
                     previous = (case existing of None \<Rightarrow> ModelLoadStatusNotLoaded | Some e \<Rightarrow> mo_ServingLoadStatus e)
                 in ((Some out, None), if changed
                      then st'\<lparr>rg_user_events := rg_user_events st' @ [model_user_event uc out previous]\<rparr>
                      else st')))
      in case ReadByID (ce_db ce) s (sm_ModelID sm) (tables st) of
           Inr existing \<Rightarrow> proceed (Some existing)
         | Inl e \<Rightarrow> if e = ErrModelNotFound then proceed None else ((None, Some e), st))"

definition parseEvalMetrics :: "usecase \<Rightarrow> string \<Rightarrow> string + eval_metrics" where
  "parseEvalMetrics uc metricsMetadata = (let metadata = TrimSpace metricsMetadata in
     if metadata = [] then Inl ''metrics metadata is required''
     else case uc_metrics_json uc metadata of
       Inl e \<Rightarrow> Inl (''parse metrics metadata: '' @ e)
     | Inr record \<Rightarrow> if ev_Metrics record = [] then Inl ''metrics metadata must include metrics'' else Inr record)"

definition evaluateCandidatePromotion ::
  "usecase \<Rightarrow> call_env \<Rightarrow> ctx \<Rightarrow> model \<Rightarrow> promotion_report_result option \<Rightarrow> registry_tables \<Rightarrow>
   registry_error + gate_decision" where
  "evaluateCandidatePromotion uc ce c candidate report t =
     (case parseEvalMetrics uc (mo_MetricsMetadata candidate) of
        Inl e \<Rightarrow> Inr (reject e None)
      | Inr candidateMetrics \<Rightarrow>
          let evidence = map_option (\<lambda>r. \<lparr>pr_DeepchecksPassed = rp_DeepchecksPassed r,
                pr_EvidentlyPassed = rp_EvidentlyPassed r\<rparr>) report
          in case ReadChampion (ce_db ce) (applyConnectionSessionContext c) (LineageForModel candidate) t of
               Inl e \<Rightarrow> if e = ErrModelNotFound
                 then Inr (EvaluatePromotion (Some candidateMetrics) None evidence (uc_gatePolicy uc))
                 else Inl e
             | Inr champion \<Rightarrow> (case parseEvalMetrics uc (mo_MetricsMetadata champion) of
                   Inl e \<Rightarrow> Inr (reject (''champion metrics invalid: '' @ e) None)
                 | Inr championMetrics \<Rightarrow> Inr (EvaluatePromotion (Some candidateMetrics) (Some championMetrics)
                     evidence (uc_gatePolicy uc))))"

text \<open>
  The part \<open>RecordPromotionReportReady\<close> and \<open>PromoteCandidate\<close> share once the candidate is
  read and its identity checked: \<open>uri\<close> and \<open>deltas\<close> are those of the report.
\<close>

definition settle_candidate ::
  "usecase \<Rightarrow> call_env \<Rightarrow> ctx \<Rightarrow> model \<Rightarrow> promotion_report_result option \<Rightarrow> string \<Rightarrow> metric_map \<Rightarrow>
   registry_state \<Rightarrow> outcome \<times> registry_state" where
  "settle_candidate uc ce c candidate report uri deltas st =
     (let s = applyConnectionSessionContext (contextForModel c candidate) in
      case evaluateCandidatePromotion uc ce (contextForModel c candidate) candidate report (tables st) of
        Inl e \<Rightarrow> ((None, Some e), st)
      | Inr decision \<Rightarrow>
          if \<not> gd_Promote decision
          then (case recordPromotionDecision uc ce s candidate ModelStatusFailed uri deltas
                  (PromotionDecisionReason PromotionRejected (gd_Reason decision)) (gd_Reason decision) (rg_db st) of
                  (res, r) \<Rightarrow> (returning res, commit r st))
          else (case recordPromotionDecision uc ce s candidate ModelStatusEvaluated uri (gd_Deltas decision)
                  (PromotionDecisionReason PromotionAccepted (gd_Reason decision)) [] (rg_db st) of
                  (Inl e, r) \<Rightarrow> ((None, Some e), commit r st)
                | (Inr out, r) \<Rightarrow> serve_and_return uc out (commit r st)))"

definition RecordPromotionReportReady ::
  "usecase \<Rightarrow> call_env \<Rightarrow> ctx \<Rightarrow> promotion_report_result \<Rightarrow> registry_state \<Rightarrow> outcome \<times> registry_state" where
  "RecordPromotionReportReady uc ce c0 report st =
     (let c = WithSystemContext c0 in
      case ReadByID (ce_db ce) (applyConnectionSessionContext c) (rp_ModelID report) (tables st) of
        Inl e \<Rightarrow> ((None, Some e), st)
      | Inr candidate \<Rightarrow>
          if rp_UserID report \<noteq> uuid_nil \<and> mo_UserID candidate \<noteq> rp_UserID report
          then ((None, Some (ErrValidationFailed ''promotion report user id does not match candidate'')), st)
          else if rp_OrgID report \<noteq> uuid_nil \<and> mo_OrgID candidate \<noteq> rp_OrgID report
          then ((None, Some (ErrValidationFailed ''promotion report org id does not match candidate'')), st)
          else if rp_TrainingRunID report \<noteq> uuid_nil \<and> mo_TrainingRunID candidate \<noteq> rp_TrainingRunID report
          then ((None, Some (ErrValidationFailed ''promotion report training run id does not match candidate'')), st)
          else if mo_Status candidate = ModelStatusEvaluated \<or> mo_Status candidate = ModelStatusReady
          then serve_and_return uc candidate st
          else if mo_Status candidate = ModelStatusFailed then ((Some candidate, None), st)
          else if mo_Status candidate \<noteq> ModelStatusCandidate
          then ((None, Some (ErrValidationFailed ''model is not a candidate'')), st)
          else if rp_FailureReason report \<noteq> []
          then (case recordPromotionDecision uc ce (applyConnectionSessionContext (contextForModel c candidate))
                  candidate ModelStatusFailed (rp_PromotionReportURI report) (rp_Deltas report)
                  (PromotionDecisionReason PromotionRejected (rp_FailureReason report))
                  (rp_FailureReason report) (rg_db st) of
                  (res, r) \<Rightarrow> (returning res, commit r st))
          else settle_candidate uc ce c candidate (Some report) (rp_PromotionReportURI report) (rp_Deltas report) st)"

definition PromoteCandidate ::
  "usecase \<Rightarrow> call_env \<Rightarrow> ctx \<Rightarrow> uuid \<Rightarrow> registry_state \<Rightarrow> outcome \<times> registry_state" where
  "PromoteCandidate uc ce c0 modelID st =
     (let c = WithSystemContext c0 in
      case ReadByID (ce_db ce) (applyConnectionSessionContext c) modelID (tables st) of
        Inl e \<Rightarrow> ((None, Some e), st)
      | Inr candidate \<Rightarrow>
          if mo_Status candidate = ModelStatusEvaluated \<or> mo_Status candidate = ModelStatusReady
          then serve_and_return uc candidate st
          else if mo_Status candidate = ModelStatusFailed then ((Some candidate, None), st)
          else if mo_Status candidate \<noteq> ModelStatusCandidate
          then ((None, Some (ErrValidationFailed ''model is not a candidate'')), st)
          else settle_candidate uc ce c candidate None [] [] st)"

section \<open>Transactions\<close>

interpretation registry_outbox: ordered_outbox "registry_enqueue ce" "\<lambda>db. outbox_keys (snd db)"
  "\<lambda>msg. TrimSpace (om_DispatchKey msg)" fst
  for ce
proof
  fix db msg db'
  assume "registry_enqueue ce db msg = Inr db'"
  then have "EnqueueDB (ce_outbox ce) (ce_now ce) (ce_outbox_id ce (snd db)) db msg = Inr db'"
    by (auto simp: registry_enqueue_def split: sum.splits)
  from pg_outbox.enqueued [OF this] pg_outbox.keeps [OF this] pg_outbox.frame [OF this]
  show "TrimSpace (om_DispatchKey msg) \<in> outbox_keys (snd db')"
    and "outbox_keys (snd db) \<subseteq> outbox_keys (snd db')" and "fst db' = fst db" by simp_all
qed

text \<open>
  The meaning of a registry transaction: on an error nothing happened; otherwise the tables
  are the changed ones and every message of the change is in the outbox.
\<close>

lemma registry_tx_ok:
  assumes "registry_tx ce change msgs db = (res, db', sig)"
  shows "case res of
      Inl e \<Rightarrow> db' = db \<and> \<not> sig
    | Inr a \<Rightarrow> change (fst db) = Inr (a, fst db') \<and> (sig \<longleftrightarrow> msgs a \<noteq> []) \<and>
        (\<forall>m \<in> set (msgs a). TrimSpace (om_DispatchKey m) \<in> outbox_keys (snd db')) \<and>
        outbox_keys (snd db) \<subseteq> outbox_keys (snd db')"
proof -
  let ?change = "\<lambda>d. case change (fst d) of Inl e \<Rightarrow> Inl e | Inr (a, t) \<Rightarrow> Inr (a, (t, snd d))"
  obtain res0 where run: "uow_Do (ce_tx ce) (registry_enqueue ce) (change_then_enqueue ?change msgs) db = (res0, db', sig)"
    and res: "res = (case res0 of Inl e \<Rightarrow> Inl (tx_cause e) | Inr a \<Rightarrow> Inr a)"
    using assms by (auto simp: registry_tx_def split: prod.splits sum.splits)
  from registry_outbox.change_and_enqueue [OF run] show ?thesis
    using res by (auto split: sum.splits)
qed

lemma registry_tx_error: "registry_tx ce change msgs db = (Inl e, db', sig) \<Longrightarrow> db' = db \<and> \<not> sig"
  using registry_tx_ok by fastforce

lemma registry_tx_Inr:
  assumes "registry_tx ce change msgs db = (Inr a, db', sig)"
  shows "change (fst db) = Inr (a, fst db')" "sig \<longleftrightarrow> msgs a \<noteq> []"
    "\<forall>m \<in> set (msgs a). TrimSpace (om_DispatchKey m) \<in> outbox_keys (snd db')"
    "outbox_keys (snd db) \<subseteq> outbox_keys (snd db')"
  using registry_tx_ok [OF assms] by auto

section \<open>The invariant of the tables\<close>

text \<open>
  Every model with a dataset has its endpoint, and the endpoint says ready exactly when the
  model is ready and loaded.
\<close>

definition endpoints_in_sync :: "registry_tables \<Rightarrow> bool" where
  "endpoints_in_sync t \<longleftrightarrow> (\<forall>r \<in> set (rt_models t). mo_DatasetID (mr_model r) \<noteq> uuid_nil \<longrightarrow>
     (\<exists>e \<in> set (rt_endpoints t). er_endpoint e = endpoint_of (mr_model r)))"

definition registry_inv :: "usecase \<Rightarrow> registry_tables \<Rightarrow> bool" where
  "registry_inv uc t \<longleftrightarrow> wf_registry t \<and> (uc_endpointRepository uc \<longrightarrow> endpoints_in_sync t)"

text \<open>An operation touches one model: it wrote its row, and no other row and no endpoint.\<close>

definition touches :: "registry_tables \<Rightarrow> model \<Rightarrow> registry_tables \<Rightarrow> bool" where
  "touches t m t' \<longleftrightarrow> wf_registry t' \<and> rt_endpoints t' = rt_endpoints t \<and>
     (\<exists>r \<in> set (rt_models t'). mr_model r = m) \<and>
     (\<forall>r \<in> set (rt_models t'). mr_model r = m \<or> r \<in> set (rt_models t))"

lemma Create_touches:
  assumes "wf_registry t" "Create env s m key t = Inr (out, t')"
  shows "touches t out t'"
proof -
  have wf: "wf_registry t'" by (rule Create_wf(1) [OF assms])
  obtain row where r: "out = mr_model row" "t' = t\<lparr>rt_models := rt_models t @ [row]\<rparr>"
    by (rule Create_ok [OF assms(2)])
  show ?thesis using wf by (simp add: touches_def r)
qed

lemma update_model_touches:
  assumes "wf_registry t" "update_model env s p f t = Some (Inr (m, t'))"
    "\<And>r. row_ids (f r) = row_ids r" "\<And>r. p r \<Longrightarrow> mo_ModelID (mr_model r) = i"
  shows "touches t m t'"
proof -
  have wf: "wf_registry t'" by (rule update_model_wf [OF assms])
  let ?g = "\<lambda>r. (f r)\<lparr>mr_updated_at := de_now env\<rparr>" and ?q = "\<lambda>r. p r \<and> row_visible s r"
  obtain r r' where r: "r \<in> set (rt_models t)" "p r" "row_visible s r" "r' = ?g r" "m = mr_model r'"
    and t': "t' = t\<lparr>rt_models := update_where ?q ?g (rt_models t)\<rparr>"
    by (rule update_model_ok [OF assms(2,3,1)])
  have "r' \<in> set (rt_models t')" using r by (auto simp: t' set_update_where)
  moreover have "mr_model x = m \<or> x \<in> set (rt_models t)" if "x \<in> set (rt_models t')" for x
  proof -
    from that consider y where "y \<in> set (rt_models t)" "?q y" "x = ?g y" | "x \<in> set (rt_models t)"
      by (auto simp: t' set_update_where)
    then show ?thesis
    proof cases
      case 1
      then have "y = r" using wf_same_model [OF assms(1) _ r(1)] assms(4) r(2) by auto
      with 1 r show ?thesis by simp
    qed simp
  qed
  ultimately show ?thesis using wf r(5) by (auto simp: touches_def t')
qed

lemma UpdateServingStatus_touches:
  assumes "wf_registry t" "UpdateServingStatus env s sm st e key t = Inr ((m, changed), t')"
  shows "touches t m t'"
  using UpdateServingStatus_cases [OF assms(2)]
proof (elim disjE conjE)
  assume "update_model env s (\<lambda>r. mo_ModelID (mr_model r) = sm_ModelID sm \<and> mr_serving_key r \<noteq> key \<and>
     serving_differs st sm e (mr_model r)) (set_serving st sm e key) t = Some (Inr (m, t'))"
  then show ?thesis by (rule update_model_touches [OF assms(1)]) simp_all
next
  assume "t' = t" and read: "read_row (\<lambda>r. mo_ModelID (mr_model r) = sm_ModelID sm) s t = Inr m"
  obtain r where "r \<in> set (rt_models t)" "m = mr_model r" by (rule read_row_ok [OF read assms(1)])
  with \<open>t' = t\<close> assms(1) show ?thesis by (auto simp: touches_def)
qed

lemma upsert_inv:
  assumes "registry_inv uc t" "touches t m t1" "upsertPublishedEndpoint uc env s m t1 = Inr t2"
  shows "registry_inv uc t2 \<and> rt_models t2 = rt_models t1"
proof (cases "uc_endpointRepository uc \<and> mo_DatasetID m \<noteq> uuid_nil")
  case False
  then have t2: "t2 = t1" using assms(3) by (auto simp: upsertPublishedEndpoint_def split: if_splits)
  have "endpoints_in_sync t1" if rep: "uc_endpointRepository uc"
    unfolding endpoints_in_sync_def
  proof (intro ballI impI)
    fix r assume "r \<in> set (rt_models t1)" "mo_DatasetID (mr_model r) \<noteq> uuid_nil"
    with False rep assms(1,2) show "\<exists>e \<in> set (rt_endpoints t1). er_endpoint e = endpoint_of (mr_model r)"
      by (auto simp: touches_def registry_inv_def endpoints_in_sync_def)
  qed
  then show ?thesis using t2 assms(2) by (simp add: registry_inv_def touches_def)
next
  case True
  then have up: "UpsertEndpoint env s (endpoint_of m) t1 = Inr t2"
    using assms(3) by (auto simp: upsertPublishedEndpoint_def split: if_splits)
  note ok = UpsertEndpoint_ok [OF up]
  have "endpoints_in_sync t2"
    unfolding endpoints_in_sync_def ok(1)
  proof (intro ballI impI)
    fix r assume r: "r \<in> set (rt_models t1)" "mo_DatasetID (mr_model r) \<noteq> uuid_nil"
    show "\<exists>e \<in> set (rt_endpoints t2). er_endpoint e = endpoint_of (mr_model r)"
    proof (cases "mr_model r = m")
      case False
      then have "r \<in> set (rt_models t)" using assms(2) r(1) by (auto simp: touches_def)
      then obtain e where e: "e \<in> set (rt_endpoints t1)" "er_endpoint e = endpoint_of (mr_model r)"
        using assms(1,2) True r(2) by (auto simp: registry_inv_def endpoints_in_sync_def touches_def)
      obtain rm where rm: "rm \<in> set (rt_models t1)" "mr_model rm = m" using assms(2) by (auto simp: touches_def)
      have "mo_ModelID (mr_model r) \<noteq> mo_ModelID m"
        using wf_same_model [of t1 r rm] assms(2) r(1) rm False by (auto simp: touches_def)
      then have "row_key e \<noteq> endpoint_key (endpoint_of m)"
        using e(2) by (simp add: endpoint_key_def endpoint_of_def)
      with ok(5) e show ?thesis by blast
    qed (use ok(4) in simp)
  qed
  then show ?thesis using ok(1,6) assms(2) by (simp add: registry_inv_def touches_def)
qed

lemma with_endpoint_inv:
  assumes "registry_inv uc t" "with_endpoint uc env s res = Inr (m, t')"
    "\<And>m t1. res = Inr (m, t1) \<Longrightarrow> touches t m t1"
  shows "registry_inv uc t'"
proof -
  obtain t1 where "res = Inr (m, t1)" "upsertPublishedEndpoint uc env s m t1 = Inr t'"
    using assms(2) by (auto simp: with_endpoint_def split: sum.splits prod.splits)
  then show ?thesis using upsert_inv [OF assms(1)] assms(3) by blast
qed

lemma registry_tx_inv:
  assumes "registry_tx ce change msgs db = (res, db', sig)" "registry_inv uc (fst db)"
    "\<And>a t'. change (fst db) = Inr (a, t') \<Longrightarrow> registry_inv uc t'"
  shows "registry_inv uc (fst db')"
proof (cases res)
  case (Inl e)
  then show ?thesis using registry_tx_error assms(1,2) by metis
next
  case (Inr a)
  show ?thesis by (rule assms(3) [OF registry_tx_Inr(1) [OF assms(1) [unfolded Inr]]])
qed

lemma registry_inv_wf: "registry_inv uc t \<Longrightarrow> wf_registry t"
  by (simp add: registry_inv_def)

lemma createModel_inv [invariants]:
  assumes "createModel uc ce s m key db = (res, db', sig)" "registry_inv uc (fst db)"
  shows "registry_inv uc (fst db')"
  using assms(1) unfolding createModel_def
  by (rule registry_tx_inv [OF _ assms(2)])
    (rule with_endpoint_inv [OF assms(2)], assumption, rule Create_touches [OF registry_inv_wf [OF assms(2)]])

lemma createCandidateModel_inv [invariants]:
  assumes "createCandidateModel uc ce s m ch key db = (res, db', sig)" "registry_inv uc (fst db)"
  shows "registry_inv uc (fst db')"
  using assms(1) unfolding createCandidateModel_def
  by (rule registry_tx_inv [OF _ assms(2)])
    (rule with_endpoint_inv [OF assms(2)], assumption, rule Create_touches [OF registry_inv_wf [OF assms(2)]])

lemma updateModelStatus_inv [invariants]:
  assumes "updateModelStatus uc ce s i st l e db = (res, db', sig)" "registry_inv uc (fst db)"
  shows "registry_inv uc (fst db')"
  using assms(1) unfolding updateModelStatus_def
  by (rule registry_tx_inv [OF _ assms(2)])
    (rule with_endpoint_inv [OF assms(2)], assumption,
      rule update_model_touches [OF registry_inv_wf [OF assms(2)] UpdateStatus_ok], assumption, simp_all)

lemma recordPromotionDecision_inv [invariants]:
  assumes "recordPromotionDecision uc ce s cand st u d dec e db = (res, db', sig)" "registry_inv uc (fst db)"
  shows "registry_inv uc (fst db')"
proof (cases "promotionDeltasJSON uc d")
  case (Inr d')
  have "registry_tx ce (\<lambda>t. with_endpoint uc (ce_db ce) s (UpdatePromotionDecision (ce_db ce) s (mo_ModelID cand) st u d' dec e t))
     (\<lambda>updated. [ModelUpdatedMessage (uc_builder uc) updated]) db = (res, db', sig)"
    using assms(1) Inr by (simp add: recordPromotionDecision_def)
  then show ?thesis
  proof (rule registry_tx_inv [OF _ assms(2)])
    fix a t' assume "with_endpoint uc (ce_db ce) s (UpdatePromotionDecision (ce_db ce) s (mo_ModelID cand) st u d' dec e (fst db)) = Inr (a, t')"
    then show "registry_inv uc t'"
    proof (rule with_endpoint_inv [OF assms(2)])
      fix m t1 assume "UpdatePromotionDecision (ce_db ce) s (mo_ModelID cand) st u d' dec e (fst db) = Inr (m, t1)"
      then obtain d'' where "update_model (ce_db ce) s (\<lambda>r. mo_ModelID (mr_model r) = mo_ModelID cand)
          (set_promotion st u d'' dec e) (fst db) = Some (Inr (m, t1))"
        by (rule UpdatePromotionDecision_ok)
      then show "touches (fst db) m t1"
        by (rule update_model_touches [OF registry_inv_wf [OF assms(2)]]) simp_all
    qed
  qed
qed (use assms in \<open>simp add: recordPromotionDecision_def\<close>)

lemma recordEffectiveBaseVersion_frame:
  assumes "recordEffectiveBaseVersion uc env m t = Inr (m', t')"
  shows "rt_models t' = rt_models t" "rt_endpoints t' = rt_endpoints t" "wf_registry t \<Longrightarrow> wf_registry t'"
    "m' = m\<lparr>mo_EffectiveBaseID := mo_EffectiveBaseID m'\<rparr>"
  using assms by (auto simp: recordEffectiveBaseVersion_def dest: RecordEffectiveBase_ok split: if_splits sum.splits)

lemma serving_change_ok:
  assumes "serving_change uc env s sm st e key t = Inr ((m', changed), t')"
  obtains m t1 t2 where "UpdateServingStatus env s sm st e key t = Inr ((m, changed), t1)"
    "upsertPublishedEndpoint uc env s m t1 = Inr t2" "recordEffectiveBaseVersion uc env m t2 = Inr (m', t')"
  using assms by (auto simp: serving_change_def split: sum.splits prod.splits)

lemma updateServingStatus_inv [invariants]:
  assumes "updateServingStatus uc ce s sm st e key db = (res, db', sig)" "registry_inv uc (fst db)"
  shows "registry_inv uc (fst db')"
  using assms(1) unfolding updateServingStatus_def
proof (rule registry_tx_inv [OF _ assms(2)])
  fix a t' assume "serving_change uc (ce_db ce) s sm st e key (fst db) = Inr (a, t')"
  moreover obtain m' changed where "a = (m', changed)" by (cases a)
  ultimately obtain m t1 t2 where c: "UpdateServingStatus (ce_db ce) s sm st e key (fst db) = Inr ((m, changed), t1)"
    "upsertPublishedEndpoint uc (ce_db ce) s m t1 = Inr t2"
    "recordEffectiveBaseVersion uc (ce_db ce) m t2 = Inr (m', t')"
    using serving_change_ok by blast
  from upsert_inv [OF assms(2) UpdateServingStatus_touches [OF registry_inv_wf [OF assms(2)] c(1)] c(2)]
    recordEffectiveBaseVersion_frame [OF c(3)]
  show "registry_inv uc t'" by (auto simp: registry_inv_def endpoints_in_sync_def)
qed

end
