(* ===== verification/RegistryProperties.thy ===== *)
theory RegistryProperties
  imports ModelRegistry
begin

text \<open>
  What the use cases of the model registry guarantee: the invariant of the tables over every
  sequence of operations, atomicity of a change and its messages, the promotion gate as the
  only way out of candidacy, idempotent redelivery, tenant isolation, and where the updates
  that other services see fall behind.
\<close>

section \<open>Every operation keeps the invariant\<close>

lemma commit_tables [simp]: "tables (commit r st) = fst (fst r)" "rg_db (commit r st) = fst r"
  by (simp_all add: commit_def tables_def)

lemma serve_frame [simp]:
  "tables (snd (serve_and_return uc m st)) = tables st" "rg_db (snd (serve_and_return uc m st)) = rg_db st"
  "fst (fst (serve_and_return uc m st)) = Some m" "rg_signals (snd (serve_and_return uc m st)) = rg_signals st"
  by (auto simp: serve_and_return_def ensureServedModel_def tables_def split: option.splits if_splits)

lemma ensure_frame: "ensureServedModel uc m st = (e, st') \<Longrightarrow> rg_db st' = rg_db st"
  by (auto simp: ensureServedModel_def split: option.splits if_splits)

text \<open>The database each operation leaves is that of one transaction, or the one it found.\<close>

lemma create_db:
  "rg_db (snd (RegisterModel uc ce c m key st)) =
     fst (snd (createModel uc ce (applyConnectionSessionContext (contextForModel c m)) m key (rg_db st)))"
  "rg_db (snd (RecordModelTrainingFailed uc ce c m key st)) =
     fst (snd (createModel uc ce (applyConnectionSessionContext (contextForModel c (trained_model ModelStatusFailed m)))
       (trained_model ModelStatusFailed m) key (rg_db st)))"
  "rg_db (snd (RecordModelArtifactIngested uc ce c m key st)) =
     fst (snd (createModel uc ce (applyConnectionSessionContext (contextForModel c (ingested_model m)))
       (ingested_model m) key (rg_db st)))"
  by (auto simp: RegisterModel_def RecordModelTrainingFailed_def RecordModelArtifactIngested_def Let_def
      split: prod.splits sum.splits)

lemma status_db:
  "rg_db (snd (MarkModelReady uc ce c i l st)) =
     fst (snd (updateModelStatus uc ce (applyConnectionSessionContext (WithSystemContext c)) i
       ModelStatusReady l [] (rg_db st)))"
  "rg_db (snd (MarkModelFailed uc ce c i e st)) =
     fst (snd (updateModelStatus uc ce (applyConnectionSessionContext (WithSystemContext c)) i
       ModelStatusFailed [] e (rg_db st)))"
  by (simp_all add: MarkModelReady_def MarkModelFailed_def split: prod.splits)

lemma record_candidate_db:
  "rg_db (snd (record_candidate uc ce s m key st ch)) = fst (snd (createCandidateModel uc ce s m ch key (rg_db st)))"
  by (auto simp: record_candidate_def split: prod.splits sum.splits)

lemma completed_db:
  "rg_db (snd (RecordModelTrainingCompleted uc ce c m0 key st)) = rg_db st \<or>
   (\<exists>s m ch. rg_db (snd (RecordModelTrainingCompleted uc ce c m0 key st)) =
     fst (snd (createCandidateModel uc ce s m ch key (rg_db st))))"
proof (cases "ReadChampion (ce_db ce) (applyConnectionSessionContext (contextForModel c
    (trained_model ModelStatusCandidate m0))) (LineageForModel (trained_model ModelStatusCandidate m0)) (tables st)")
  case (Inl e)
  then show ?thesis by (simp add: RecordModelTrainingCompleted_def Let_def record_candidate_db) blast
next
  case (Inr ch)
  then show ?thesis by (simp add: RecordModelTrainingCompleted_def Let_def record_candidate_db) blast
qed

lemma serving_db:
  "rg_db (snd (RecordModelServingStatus uc ce c sm key st)) = rg_db st \<or>
   (\<exists>s status e. rg_db (snd (RecordModelServingStatus uc ce c sm key st)) =
     fst (snd (updateServingStatus uc ce s sm status e key (rg_db st))))"
proof -
  let ?s = "applyConnectionSessionContext (WithSystemContext c)"
  let ?r = "ReadByID (ce_db ce) ?s (sm_ModelID sm) (tables st)"
  let ?tx = "\<lambda>ex. fst (snd (updateServingStatus uc ce ?s sm (fst (serving_target_status sm ex))
      (snd (serving_target_status sm ex)) key (rg_db st)))"
  have "rg_db (snd (RecordModelServingStatus uc ce c sm key st)) \<in>
    {rg_db st, ?tx None, case ?r of Inl _ \<Rightarrow> rg_db st | Inr ex \<Rightarrow> ?tx (Some ex)}"
    by (auto simp: RecordModelServingStatus_def Let_def commit_def split: prod.splits sum.splits)
  then show ?thesis by (auto split: sum.splits)
qed

text \<open>A promotion that was refused or granted is one decision transaction.\<close>

definition reject_tx where
  "reject_tx uc ce c cand uri ds reason db = recordPromotionDecision uc ce
     (applyConnectionSessionContext (contextForModel c cand)) cand ModelStatusFailed uri ds
     (PromotionDecisionReason PromotionRejected reason) reason db"

definition accept_tx where
  "accept_tx uc ce c cand uri d db = recordPromotionDecision uc ce
     (applyConnectionSessionContext (contextForModel c cand)) cand ModelStatusEvaluated uri (gd_Deltas d)
     (PromotionDecisionReason PromotionAccepted (gd_Reason d)) [] db"

lemma settle_db:
  "rg_db (snd (settle_candidate uc ce c cand rep uri ds st)) =
     (case evaluateCandidatePromotion uc ce (contextForModel c cand) cand rep (tables st) of
        Inl e \<Rightarrow> rg_db st
      | Inr d \<Rightarrow> if gd_Promote d then fst (snd (accept_tx uc ce c cand uri d (rg_db st)))
          else fst (snd (reject_tx uc ce c cand uri ds (gd_Reason d) (rg_db st))))"
  by (auto simp: settle_candidate_def Let_def accept_tx_def reject_tx_def split: prod.splits sum.splits)

lemma decision_inv:
  assumes "registry_inv uc (fst db)"
  shows "registry_inv uc (fst (fst (snd (accept_tx uc ce c cand uri d db))))"
    "registry_inv uc (fst (fst (snd (reject_tx uc ce c cand uri ds r db))))"
proof -
  obtain r1 d1 s1 r2 d2 s2 where "accept_tx uc ce c cand uri d db = (r1, d1, s1)"
    "reject_tx uc ce c cand uri ds r db = (r2, d2, s2)" by (metis prod_cases3)
  then show "registry_inv uc (fst (fst (snd (accept_tx uc ce c cand uri d db))))"
    "registry_inv uc (fst (fst (snd (reject_tx uc ce c cand uri ds r db))))"
    using recordPromotionDecision_inv [OF _ assms] by (auto simp: accept_tx_def reject_tx_def)
qed

lemma settle_inv:
  "registry_inv uc (fst (rg_db st)) \<Longrightarrow>
   registry_inv uc (fst (rg_db (snd (settle_candidate uc ce c cand rep uri ds st))))"
  unfolding settle_db by (auto split: sum.splits intro: decision_inv)

definition report_matches :: "promotion_report_result \<Rightarrow> model \<Rightarrow> bool" where
  "report_matches rep m \<longleftrightarrow> rp_UserID rep \<in> {uuid_nil, mo_UserID m} \<and> rp_OrgID rep \<in> {uuid_nil, mo_OrgID m} \<and>
     rp_TrainingRunID rep \<in> {uuid_nil, mo_TrainingRunID m}"

lemma report_db:
  "rg_db (snd (RecordPromotionReportReady uc ce c rep st)) =
     (case ReadByID (ce_db ce) (applyConnectionSessionContext (WithSystemContext c)) (rp_ModelID rep) (tables st) of
        Inl e \<Rightarrow> rg_db st
      | Inr cand \<Rightarrow> if \<not> report_matches rep cand \<or> mo_Status cand \<noteq> ModelStatusCandidate then rg_db st
          else if rp_FailureReason rep \<noteq> []
          then fst (snd (reject_tx uc ce (WithSystemContext c) cand (rp_PromotionReportURI rep) (rp_Deltas rep)
                 (rp_FailureReason rep) (rg_db st)))
          else rg_db (snd (settle_candidate uc ce (WithSystemContext c) cand (Some rep)
                 (rp_PromotionReportURI rep) (rp_Deltas rep) st)))"
proof (cases "ReadByID (ce_db ce) (applyConnectionSessionContext (WithSystemContext c)) (rp_ModelID rep) (tables st)")
  case (Inr cand)
  show ?thesis
  proof (cases "report_matches rep cand")
    case True
    then show ?thesis using Inr
      by (cases "mo_Status cand")
        (auto simp: RecordPromotionReportReady_def Let_def reject_tx_def report_matches_def split: prod.splits)
  next
    case False
    then show ?thesis using Inr
      by (auto simp: RecordPromotionReportReady_def Let_def report_matches_def)
  qed
qed (simp add: RecordPromotionReportReady_def Let_def)

lemma promote_db:
  "rg_db (snd (PromoteCandidate uc ce c i st)) =
     (case ReadByID (ce_db ce) (applyConnectionSessionContext (WithSystemContext c)) i (tables st) of
        Inl e \<Rightarrow> rg_db st
      | Inr cand \<Rightarrow> if mo_Status cand \<noteq> ModelStatusCandidate then rg_db st
          else rg_db (snd (settle_candidate uc ce (WithSystemContext c) cand None [] [] st)))"
  by (auto simp: PromoteCandidate_def Let_def split: sum.splits)

lemma tx_inv:
  assumes "registry_inv uc (fst db)"
  shows "registry_inv uc (fst (fst (snd (createModel uc ce s m key db))))"
    "registry_inv uc (fst (fst (snd (createCandidateModel uc ce s m ch key db))))"
    "registry_inv uc (fst (fst (snd (updateModelStatus uc ce s i status l e db))))"
    "registry_inv uc (fst (fst (snd (updateServingStatus uc ce s sm status e key db))))"
proof -
  show "registry_inv uc (fst (fst (snd (createModel uc ce s m key db))))"
    by (cases "createModel uc ce s m key db") (auto dest: createModel_inv simp: assms)
  show "registry_inv uc (fst (fst (snd (createCandidateModel uc ce s m ch key db))))"
    by (cases "createCandidateModel uc ce s m ch key db") (auto dest: createCandidateModel_inv simp: assms)
  show "registry_inv uc (fst (fst (snd (updateModelStatus uc ce s i status l e db))))"
    by (cases "updateModelStatus uc ce s i status l e db") (auto dest: updateModelStatus_inv simp: assms)
  show "registry_inv uc (fst (fst (snd (updateServingStatus uc ce s sm status e key db))))"
    by (cases "updateServingStatus uc ce s sm status e key db") (auto dest: updateServingStatus_inv simp: assms)
qed

text \<open>
  Any sequence of operations, of the tenant projection moving on, and of relays working on
  the outbox.
\<close>

datatype registry_op =
  OpRegister | OpReady | OpFailed | OpCompleted | OpTrainingFailed | OpIngested | OpServing | OpReport
| OpPromote | OpProjection | OpRelayed

inductive registry_step :: "usecase \<Rightarrow> registry_op \<Rightarrow> registry_state \<Rightarrow> registry_state \<Rightarrow> bool" for uc where
  register: "registry_step uc OpRegister st (snd (RegisterModel uc ce c m key st))"
| ready: "registry_step uc OpReady st (snd (MarkModelReady uc ce c i l st))"
| failed: "registry_step uc OpFailed st (snd (MarkModelFailed uc ce c i e st))"
| completed: "registry_step uc OpCompleted st (snd (RecordModelTrainingCompleted uc ce c m key st))"
| training_failed: "registry_step uc OpTrainingFailed st (snd (RecordModelTrainingFailed uc ce c m key st))"
| ingested: "registry_step uc OpIngested st (snd (RecordModelArtifactIngested uc ce c m key st))"
| serving: "registry_step uc OpServing st (snd (RecordModelServingStatus uc ce c sm key st))"
| report: "registry_step uc OpReport st (snd (RecordPromotionReportReady uc ce c rep st))"
| promote: "registry_step uc OpPromote st (snd (PromoteCandidate uc ce c i st))"
| projection: "registry_step uc OpProjection st (st\<lparr>rg_db := (fst (rg_db st)\<lparr>rt_tenants := ts\<rparr>, snd (rg_db st))\<rparr>)"
| relayed: "map ob_dispatch_key ob = map ob_dispatch_key (snd (rg_db st)) \<Longrightarrow>
     registry_step uc OpRelayed st (st\<lparr>rg_db := (fst (rg_db st), ob)\<rparr>)"

definition registry_init :: registry_state where
  "registry_init = \<lparr>rg_db = (\<lparr>rt_tenants = [], rt_models = [], rt_endpoints = [], rt_bases = []\<rparr>, []),
     rg_signals = 0, rg_deployed = [], rg_user_events = []\<rparr>"

inductive registry_reach :: "usecase \<Rightarrow> registry_state \<Rightarrow> bool" for uc where
  registry_start: "registry_reach uc registry_init"
| registry_next: "registry_reach uc st \<Longrightarrow> registry_step uc op st st' \<Longrightarrow> registry_reach uc st'"

inductive_cases registry_stepE: "registry_step uc op st st'"

lemma registry_step_inv [invariants]:
  assumes "registry_step uc op st st'" "registry_inv uc (tables st)"
  shows "registry_inv uc (tables st')"
  using assms
proof (induction rule: registry_step.induct)
  case (completed st ce c m key)
  then show ?case using completed_db [of uc ce c m key st] tx_inv(2) [OF completed [unfolded tables_def]]
    by (auto simp: tables_def)
next
  case (serving st ce c sm key)
  then show ?case using serving_db [of uc ce c sm key st] tx_inv(4) [OF serving [unfolded tables_def]]
    by (auto simp: tables_def)
next
  case (report st ce c rep)
  then show ?case by (auto simp: report_db tables_def decision_inv settle_inv split: sum.splits)
next
  case (promote st ce c i)
  then show ?case by (auto simp: promote_db tables_def settle_inv split: sum.splits)
next
  case (projection st ts)
  then show ?case by (simp add: tables_def registry_inv_def wf_registry_def endpoints_in_sync_def)
qed (simp_all add: tables_def create_db status_db tx_inv)

lemma registry_reach_inv: "registry_reach uc st \<Longrightarrow> registry_inv uc (tables st)"
  by (induction rule: registry_reach.induct)
    (auto simp: registry_init_def tables_def registry_inv_def wf_registry_def endpoints_in_sync_def
      dest: registry_step_inv)

section \<open>The life of a model\<close>

definition rows_evolve :: "(model \<Rightarrow> model \<Rightarrow> bool) \<Rightarrow> registry_tables \<Rightarrow> registry_tables \<Rightarrow> bool" where
  "rows_evolve P t t' \<longleftrightarrow> (\<forall>r \<in> set (rt_models t). \<exists>r' \<in> set (rt_models t'). row_ids r' = row_ids r \<and>
     (r' = r \<or> P (mr_model r) (mr_model r')))"

lemma rows_evolve_refl [simp]: "rows_evolve P t t"
  by (auto simp: rows_evolve_def)

lemma rows_evolve_same: "rt_models t' = rt_models t1 \<Longrightarrow> rows_evolve P t t' = rows_evolve P t t1"
  by (simp add: rows_evolve_def)

lemma set_status_fields [simp]:
  "mo_Status (mr_model (set_status st l e r)) = st" "mo_Status (mr_model (set_serving st sm e key r)) = st"
  "mo_Status (mr_model (set_promotion st u d dec e r)) = st"
  by (simp_all add: set_status_def set_serving_def set_promotion_def)

lemma Create_evolve: "Create env s m key t = Inr (out, t') \<Longrightarrow> rows_evolve P t t'"
  by (erule Create_ok) (auto simp: rows_evolve_def)

lemma update_model_evolve:
  assumes "wf_registry t" "update_model env s p f t = Some (Inr (m, t'))" "\<And>r. row_ids (f r) = row_ids r"
    "\<And>r. r \<in> set (rt_models t) \<Longrightarrow> p r \<Longrightarrow> P (mr_model r) (mr_model (f r))"
  shows "rows_evolve P t t'"
proof -
  let ?g = "\<lambda>r. (f r)\<lparr>mr_updated_at := de_now env\<rparr>" and ?q = "\<lambda>r. p r \<and> row_visible s r"
  have t': "t' = t\<lparr>rt_models := update_where ?q ?g (rt_models t)\<rparr>"
    by (rule update_model_ok [OF assms(2,3,1)])
  show ?thesis
    unfolding rows_evolve_def
  proof
    fix r assume r: "r \<in> set (rt_models t)"
    show "\<exists>r' \<in> set (rt_models t'). row_ids r' = row_ids r \<and> (r' = r \<or> P (mr_model r) (mr_model r'))"
    proof (cases "?q r")
      case True
      then have "?g r \<in> set (rt_models t')" using r by (simp add: t' set_update_where)
      then show ?thesis by (rule rev_bexI) (use assms(3,4) r True in simp)
    next
      case False
      then have "r \<in> set (rt_models t')" using r by (auto simp: t' set_update_where)
      then show ?thesis by blast
    qed
  qed
qed

lemma upsert_models:
  "upsertPublishedEndpoint uc env s m t = Inr t' \<Longrightarrow> rt_models t' = rt_models t"
  by (auto simp: upsertPublishedEndpoint_def dest: UpsertEndpoint_ok(1) split: if_splits)

lemma with_endpoint_evolve:
  assumes "with_endpoint uc env s res = Inr (m, t')" "\<And>t1. res = Inr (m, t1) \<Longrightarrow> rows_evolve P t t1"
  shows "rows_evolve P t t'"
proof -
  obtain t1 where "res = Inr (m, t1)" "upsertPublishedEndpoint uc env s m t1 = Inr t'"
    using assms(1) by (auto simp: with_endpoint_def split: sum.splits prod.splits)
  then show ?thesis using rows_evolve_same [OF upsert_models] assms(2) by blast
qed

lemma registry_tx_evolve:
  assumes "\<And>a t'. change (fst db) = Inr (a, t') \<Longrightarrow> rows_evolve P (fst db) t'"
  shows "rows_evolve P (fst db) (fst (fst (snd (registry_tx ce change msgs db))))"
proof -
  obtain res db' sig where run: "registry_tx ce change msgs db = (res, db', sig)" by (metis prod_cases3)
  show ?thesis
  proof (cases res)
    case (Inl e)
    then show ?thesis using registry_tx_error run by fastforce
  next
    case (Inr a)
    from assms [OF registry_tx_Inr(1) [OF run [unfolded Inr]]] run show ?thesis by simp
  qed
qed

lemma create_tx_evolve:
  "rows_evolve P (fst db) (fst (fst (snd (createModel uc ce s m key db))))"
  "rows_evolve P (fst db) (fst (fst (snd (createCandidateModel uc ce s m ch key db))))"
  unfolding createModel_def createCandidateModel_def
  by (rule registry_tx_evolve, erule with_endpoint_evolve, erule Create_evolve)+

lemma status_tx_evolve:
  assumes "wf_registry (fst db)" "\<And>m m'. mo_Status m' = st \<Longrightarrow> P m m'"
  shows "rows_evolve P (fst db) (fst (fst (snd (updateModelStatus uc ce s i st l e db))))"
  unfolding updateModelStatus_def
  by (rule registry_tx_evolve, erule with_endpoint_evolve, rule update_model_evolve [OF assms(1) UpdateStatus_ok],
      assumption) (simp_all add: assms(2))

lemma decision_tx_evolve:
  assumes "wf_registry (fst db)" "\<And>r. r \<in> set (rt_models (fst db)) \<Longrightarrow>
     mo_ModelID (mr_model r) = mo_ModelID cand \<Longrightarrow> mo_Status (mr_model r) = ModelStatusCandidate"
    "\<And>m m'. mo_Status m = ModelStatusCandidate \<Longrightarrow> mo_Status m' = st \<Longrightarrow> P m m'"
  shows "rows_evolve P (fst db) (fst (fst (snd (recordPromotionDecision uc ce s cand st u d dec e db))))"
proof (cases "promotionDeltasJSON uc d")
  case (Inr d')
  show ?thesis
    unfolding recordPromotionDecision_def Inr sum.case
  proof (rule registry_tx_evolve, erule with_endpoint_evolve)
    fix m t1 assume "UpdatePromotionDecision (ce_db ce) s (mo_ModelID cand) st u d' dec e (fst db) = Inr (m, t1)"
    then obtain d'' where "update_model (ce_db ce) s (\<lambda>r. mo_ModelID (mr_model r) = mo_ModelID cand)
        (set_promotion st u d'' dec e) (fst db) = Some (Inr (m, t1))" by (rule UpdatePromotionDecision_ok)
    then show "rows_evolve P (fst db) t1"
      by (rule update_model_evolve [OF assms(1)]) (auto simp: assms(2) intro!: assms(3))
  qed
qed (simp add: recordPromotionDecision_def)

lemma serving_tx_evolve:
  assumes "wf_registry (fst db)" "\<And>r m'. r \<in> set (rt_models (fst db)) \<Longrightarrow>
     mo_ModelID (mr_model r) = sm_ModelID sm \<Longrightarrow> mo_Status m' = st \<Longrightarrow> P (mr_model r) m'"
  shows "rows_evolve P (fst db) (fst (fst (snd (updateServingStatus uc ce s sm st e key db))))"
  unfolding updateServingStatus_def
proof (rule registry_tx_evolve)
  fix a t' assume "serving_change uc (ce_db ce) s sm st e key (fst db) = Inr (a, t')"
  moreover obtain m' changed where "a = (m', changed)" by (cases a)
  ultimately obtain m t1 t2 where c: "UpdateServingStatus (ce_db ce) s sm st e key (fst db) = Inr ((m, changed), t1)"
    "upsertPublishedEndpoint uc (ce_db ce) s m t1 = Inr t2"
    "recordEffectiveBaseVersion uc (ce_db ce) m t2 = Inr (m', t')"
    using serving_change_ok by blast
  have "rt_models t' = rt_models t1"
    using upsert_models [OF c(2)] recordEffectiveBaseVersion_frame(1) [OF c(3)] by simp
  moreover have "rows_evolve P (fst db) t1"
    using UpdateServingStatus_cases [OF c(1)]
  proof (elim disjE conjE)
    assume "update_model (ce_db ce) s (\<lambda>r. mo_ModelID (mr_model r) = sm_ModelID sm \<and> mr_serving_key r \<noteq> key \<and>
       serving_differs st sm e (mr_model r)) (set_serving st sm e key) (fst db) = Some (Inr (m, t1))"
    then show ?thesis by (rule update_model_evolve [OF assms(1)]) (simp_all add: assms(2))
  qed simp
  ultimately show "rows_evolve P (fst db) t'" using rows_evolve_same by blast
qed

text \<open>
  How an operation may change the status of a model: training, upload and registration never
  change an existing model, a candidate only becomes evaluated or failed, and only a
  promotion decision makes it evaluated.
\<close>

fun status_step :: "registry_op \<Rightarrow> ModelStatus \<Rightarrow> ModelStatus \<Rightarrow> bool" where
  "status_step OpReady a b \<longleftrightarrow> b = ModelStatusReady"
| "status_step OpFailed a b \<longleftrightarrow> b = ModelStatusFailed"
| "status_step OpServing a b \<longleftrightarrow> (if a = ModelStatusCandidate
     then b \<in> {ModelStatusCandidate, ModelStatusFailed}
     else b \<in> {ModelStatusReady, ModelStatusEvaluated, ModelStatusFailed})"
| "status_step OpReport a b \<longleftrightarrow> a = ModelStatusCandidate \<and> b \<in> {ModelStatusEvaluated, ModelStatusFailed}"
| "status_step OpPromote a b \<longleftrightarrow> a = ModelStatusCandidate \<and> b \<in> {ModelStatusEvaluated, ModelStatusFailed}"
| "status_step _ a b \<longleftrightarrow> False"

abbreviation evolves :: "registry_op \<Rightarrow> registry_tables \<Rightarrow> registry_tables \<Rightarrow> bool" where
  "evolves op \<equiv> rows_evolve (\<lambda>m m'. status_step op (mo_Status m) (mo_Status m'))"

lemma ReadByID_row:
  assumes "wf_registry t" "ReadByID env s i t = Inr m"
  shows "mo_ModelID m = i" "r \<in> set (rt_models t) \<Longrightarrow> mo_ModelID (mr_model r) = i \<Longrightarrow> mr_model r = m"
    "\<exists>r \<in> set (rt_models t). mr_model r = m \<and> row_visible s r"
proof -
  have "read_row (\<lambda>r. mo_ModelID (mr_model r) = i) s t = Inr m"
    using assms(2) by (auto simp: ReadByID_def split: option.splits)
  then obtain x where x: "x \<in> set (rt_models t)" "mo_ModelID (mr_model x) = i" "row_visible s x" "m = mr_model x"
    by (rule read_row_ok [OF _ assms(1)])
  then show "mo_ModelID m = i" "\<exists>r \<in> set (rt_models t). mr_model r = m \<and> row_visible s r" by auto
  show "mr_model r = m" if "r \<in> set (rt_models t)" "mo_ModelID (mr_model r) = i"
    using wf_same_model [OF assms(1) that(1) x(1)] x that by simp
qed

lemma ReadByID_missing:
  assumes "wf_registry t" "ReadByID env s i t = Inl ErrModelNotFound" "ss_system s" "r \<in> set (rt_models t)"
  shows "mo_ModelID (mr_model r) \<noteq> i"
proof
  assume i: "mo_ModelID (mr_model r) = i"
  have "find (\<lambda>r. mo_ModelID (mr_model r) = i \<and> row_visible s r) (rt_models t) \<noteq> None"
    using assms(3,4) i by (auto simp: find_None_iff row_visible_def org_visible_def)
  moreover have "scanModel x \<noteq> Inl ErrModelNotFound" for x by (simp add: scanModel_eq)
  ultimately show False using assms(2) by (auto simp: ReadByID_def read_row_def split: option.splits)
qed

lemma accept_reject_evolve:
  assumes "wf_registry (fst db)" "ReadByID env s (mo_ModelID cand) (fst db) = Inr cand"
    "mo_Status cand = ModelStatusCandidate" "op = OpReport \<or> op = OpPromote"
  shows "evolves op (fst db) (fst (fst (snd (accept_tx uc ce c cand uri d db))))"
    "evolves op (fst db) (fst (fst (snd (reject_tx uc ce c cand uri ds rs db))))"
  unfolding accept_tx_def reject_tx_def
  by (rule decision_tx_evolve [OF assms(1)]; use ReadByID_row(2) [OF assms(1,2)] assms(3,4) in auto)+

lemma settle_evolve:
  assumes "wf_registry (tables st)" "ReadByID env s (mo_ModelID cand) (tables st) = Inr cand"
    "mo_Status cand = ModelStatusCandidate" "op = OpReport \<or> op = OpPromote"
  shows "evolves op (tables st) (fst (rg_db (snd (settle_candidate uc ce c cand rep uri ds st))))"
  using accept_reject_evolve [OF assms [unfolded tables_def]]
  by (auto simp: settle_db tables_def split: sum.splits)

lemma serving_target_candidate:
  "serving_target_status sm ex = (st, e) \<Longrightarrow> (case ex of None \<Rightarrow> True | Some m \<Rightarrow> status_step OpServing (mo_Status m) st)"
  by (auto simp: serving_target_status_def split: ModelLoadStatus.splits option.splits if_splits)

lemma serving_evolve:
  assumes "wf_registry (tables st)"
  shows "evolves OpServing (tables st) (tables (snd (RecordModelServingStatus uc ce c sm key st)))"
proof -
  let ?s = "applyConnectionSessionContext (WithSystemContext c)"
  let ?tx = "\<lambda>ex. updateServingStatus uc ce ?s sm (fst (serving_target_status sm ex))
      (snd (serving_target_status sm ex)) key (rg_db st)"
  have wf: "wf_registry (fst (rg_db st))" using assms by (simp add: tables_def)
  have sys: "ss_system ?s" by (simp add: setConnectionSessionContext_def)
  consider (none) "ReadByID (ce_db ce) ?s (sm_ModelID sm) (tables st) = Inl ErrModelNotFound"
    | (err) e where "ReadByID (ce_db ce) ?s (sm_ModelID sm) (tables st) = Inl e" "e \<noteq> ErrModelNotFound"
    | (found) m where "ReadByID (ce_db ce) ?s (sm_ModelID sm) (tables st) = Inr m"
    by (cases "ReadByID (ce_db ce) ?s (sm_ModelID sm) (tables st)") auto
  then show ?thesis
  proof cases
    case none
    have "rows_evolve (\<lambda>m m'. status_step OpServing (mo_Status m) (mo_Status m')) (fst (rg_db st)) (fst (fst (snd (?tx None))))"
      by (rule serving_tx_evolve [OF wf]) (use ReadByID_missing [OF assms none sys] in \<open>auto simp: tables_def\<close>)
    moreover have "tables (snd (RecordModelServingStatus uc ce c sm key st)) = fst (fst (snd (?tx None)))"
      using none by (auto simp: RecordModelServingStatus_def Let_def commit_def tables_def split: prod.splits sum.splits)
    ultimately show ?thesis by (simp add: tables_def)
  next
    case (found m)
    have target: "status_step OpServing (mo_Status m) (fst (serving_target_status sm (Some m)))"
      using serving_target_candidate [of sm "Some m"] by (cases "serving_target_status sm (Some m)") simp
    have "rows_evolve (\<lambda>m m'. status_step OpServing (mo_Status m) (mo_Status m')) (fst (rg_db st)) (fst (fst (snd (?tx (Some m)))))"
      by (rule serving_tx_evolve [OF wf])
        (use ReadByID_row(2) [OF assms found] target in \<open>auto simp: tables_def\<close>)
    moreover have "tables (snd (RecordModelServingStatus uc ce c sm key st)) = fst (fst (snd (?tx (Some m))))"
      using found by (auto simp: RecordModelServingStatus_def Let_def commit_def tables_def split: prod.splits sum.splits)
    ultimately show ?thesis by (simp add: tables_def)
  qed (simp add: RecordModelServingStatus_def Let_def)
qed

lemma registry_step_evolves:
  assumes "registry_step uc op st st'" "wf_registry (tables st)"
  shows "evolves op (tables st) (tables st')"
  using assms
proof (induction rule: registry_step.induct)
  case (ready st ce c i l)
  then show ?case by (simp add: tables_def status_db) (rule status_tx_evolve; simp)
next
  case (failed st ce c i e)
  then show ?case by (simp add: tables_def status_db) (rule status_tx_evolve; simp)
next
  case (completed st ce c m key)
  then show ?case using completed_db [of uc ce c m key st] create_tx_evolve(2)
    by (metis rows_evolve_refl tables_def)
next
  case (serving st ce c sm key)
  then show ?case by (rule serving_evolve)
next
  case (report st ce c rep)
  let ?s = "applyConnectionSessionContext (WithSystemContext c)"
  show ?case
  proof (cases "ReadByID (ce_db ce) ?s (rp_ModelID rep) (tables st)")
    case (Inr cand)
    have "mo_ModelID cand = rp_ModelID rep" using ReadByID_row(1) [OF report Inr] .
    then have read: "ReadByID (ce_db ce) ?s (mo_ModelID cand) (tables st) = Inr cand" using Inr by simp
    show ?thesis
      using Inr accept_reject_evolve(2) [OF report [unfolded tables_def] read [unfolded tables_def], of OpReport]
        settle_evolve [OF report read, of OpReport]
      by (auto simp: tables_def report_db)
  qed (simp add: tables_def report_db)
next
  case (promote st ce c i)
  let ?s = "applyConnectionSessionContext (WithSystemContext c)"
  show ?case
  proof (cases "ReadByID (ce_db ce) ?s i (tables st)")
    case (Inr cand)
    have "mo_ModelID cand = i" using ReadByID_row(1) [OF promote Inr] .
    then have read: "ReadByID (ce_db ce) ?s (mo_ModelID cand) (tables st) = Inr cand" using Inr by simp
    show ?thesis
      using Inr settle_evolve [OF promote read, of OpPromote] by (auto simp: tables_def promote_db)
  qed (simp add: tables_def promote_db)
next
  case (projection st ts)
  then show ?case by (auto simp: tables_def rows_evolve_def)
qed (simp_all add: tables_def create_db create_tx_evolve)

text \<open>C22. The endpoints a tenant is offered follow its models: in every state that any sequence
  of operations, projections and relay steps can reach, with the endpoint repository
  configured, each model with a dataset has exactly one endpoint row, and that row says
  ready if and only if the model is ready and loaded.\<close>

theorem endpoints_follow_models:
  assumes "registry_reach uc st" "uc_endpointRepository uc" "r \<in> set (rt_models (tables st))"
    "mo_DatasetID (mr_model r) \<noteq> uuid_nil"
  shows "\<exists>e. {x \<in> set (rt_endpoints (tables st)). row_key x =
        (mo_OrgID (mr_model r), mo_ModelID (mr_model r), mo_DatasetID (mr_model r))} = {e} \<and>
     (pe_Status (er_endpoint e) = PublishedEndpointStatusReady \<longleftrightarrow>
        mo_Status (mr_model r) = ModelStatusReady \<and> mo_ServingLoadStatus (mr_model r) = ModelLoadStatusLoaded)"
proof -
  have inv: "registry_inv uc (tables st)" by (rule registry_reach_inv [OF assms(1)])
  then obtain e where e: "e \<in> set (rt_endpoints (tables st))" "er_endpoint e = endpoint_of (mr_model r)"
    using assms(2-4) by (auto simp: registry_inv_def endpoints_in_sync_def)
  let ?k = "(mo_OrgID (mr_model r), mo_ModelID (mr_model r), mo_DatasetID (mr_model r))"
  have k: "row_key e = ?k" by (simp add: e(2) endpoint_key_def endpoint_of_def)
  have "inj_on row_key (set (rt_endpoints (tables st)))"
    using inv by (simp add: registry_inv_def wf_registry_def distinct_map)
  then have "x = e" if "x \<in> set (rt_endpoints (tables st))" "row_key x = ?k" for x
    using that e(1) k by (metis inj_onD)
  then have one: "{x \<in> set (rt_endpoints (tables st)). row_key x = ?k} = {e}" using e(1) k by blast
  show ?thesis
    by (rule exI [of _ e]) (use one in \<open>simp add: e(2) endpoint_of_def endpoint_status_def\<close>)
qed

text \<open>C4. The life of a model: an operation never removes a model nor changes its identity,
  owner, dataset, kind or source, and changes its status only as the operation is meant to:
  reports on serving never take a candidate to ready, and only a promotion decision takes
  one to evaluated.\<close>

theorem model_status_machine:
  assumes "registry_reach uc st" "registry_step uc op st st'" "r \<in> set (rt_models (tables st))"
  shows "\<exists>r' \<in> set (rt_models (tables st')). row_ids r' = row_ids r \<and>
     (r' = r \<or> status_step op (mo_Status (mr_model r)) (mo_Status (mr_model r')))"
  using registry_step_evolves [OF assms(2) registry_inv_wf [OF registry_reach_inv [OF assms(1)]]] assms(3)
  by (auto simp: rows_evolve_def)

section \<open>Changes and their messages\<close>

lemma decision_tx_out:
  assumes "recordPromotionDecision uc ce s cand st u d dec e db = (Inr out, db', sig)" "wf_registry (fst db)"
  shows "mo_Status out = st \<and> mo_ModelID out = mo_ModelID cand \<and> mo_FailureReason out = e \<and>
    mo_PromotionDecision out = fst (splitPromotionDecision dec) \<and>
    mo_PromotionReason out = snd (splitPromotionDecision dec) \<and>
    (\<exists>r \<in> set (rt_models (fst db')). mr_model r = out) \<and> sig \<and>
    TrimSpace (om_DispatchKey (ModelUpdatedMessage (uc_builder uc) out)) \<in> outbox_keys (snd db')"
proof -
  obtain d' where tx: "registry_tx ce (\<lambda>t. with_endpoint uc (ce_db ce) s
        (UpdatePromotionDecision (ce_db ce) s (mo_ModelID cand) st u d' dec e t))
      (\<lambda>updated. [ModelUpdatedMessage (uc_builder uc) updated]) db = (Inr out, db', sig)"
    using assms(1) by (auto simp: recordPromotionDecision_def split: sum.splits)
  note ok = registry_tx_Inr [OF tx]
  obtain t1 where up: "UpdatePromotionDecision (ce_db ce) s (mo_ModelID cand) st u d' dec e (fst db) = Inr (out, t1)"
    and ep: "upsertPublishedEndpoint uc (ce_db ce) s out t1 = Inr (fst db')"
    using ok(1) by (auto simp: with_endpoint_def split: sum.splits)
  obtain d'' where "update_model (ce_db ce) s (\<lambda>r. mo_ModelID (mr_model r) = mo_ModelID cand)
      (set_promotion st u d'' dec e) (fst db) = Some (Inr (out, t1))"
    using up by (rule UpdatePromotionDecision_ok)
  then obtain r r' where r: "r \<in> set (rt_models (fst db))" "mo_ModelID (mr_model r) = mo_ModelID cand"
    "row_visible s r" "r' = (set_promotion st u d'' dec e r)\<lparr>mr_updated_at := de_now (ce_db ce)\<rparr>" "out = mr_model r'"
    "t1 = (fst db)\<lparr>rt_models := update_where (\<lambda>r. mo_ModelID (mr_model r) = mo_ModelID cand \<and> row_visible s r)
       (\<lambda>r. (set_promotion st u d'' dec e r)\<lparr>mr_updated_at := de_now (ce_db ce)\<rparr>) (rt_models (fst db))\<rparr>"
    by (rule update_model_ok [OF _ set_ids(3) assms(2)])
  have "r' \<in> set (rt_models (fst db'))"
    unfolding upsert_models [OF ep] r(6) using r(1-4) by (auto simp: set_update_where)
  then have "\<exists>x \<in> set (rt_models (fst db')). mr_model x = out" using r(5) by blast
  moreover have "mo_Status out = st" "mo_ModelID out = mo_ModelID cand" "mo_FailureReason out = e"
    "mo_PromotionDecision out = fst (splitPromotionDecision dec)"
    "mo_PromotionReason out = snd (splitPromotionDecision dec)"
    using r(2) by (simp_all add: r(4,5) set_promotion_def)
  ultimately show ?thesis using ok(2,3) by simp
qed

text \<open>C1. The registry promotes through the gate and nothing else: when the report on a
  candidate is settled, the model that results is evaluated exactly if the report carries no
  failure and the gate accepts the candidate's metrics against the current champion of its
  lineage; otherwise it is failed with the reason. The decision is stored as text, and the
  message about it is in the outbox of the same transaction.\<close>

theorem promotion_needs_gate:
  assumes "registry_reach uc st" "RecordPromotionReportReady uc ce c rep st = ((Some out, err), st')"
    "r \<in> set (rt_models (tables st))" "mo_ModelID (mr_model r) = rp_ModelID rep"
    "mo_Status (mr_model r) = ModelStatusCandidate"
  shows "(mo_Status out = ModelStatusEvaluated \<longleftrightarrow> rp_FailureReason rep = [] \<and>
       (\<exists>d. evaluateCandidatePromotion uc ce (contextForModel (WithSystemContext c) (mr_model r)) (mr_model r)
          (Some rep) (tables st) = Inr d \<and> gd_Promote d)) \<and>
     mo_Status out \<in> {ModelStatusEvaluated, ModelStatusFailed} \<and>
     ToPromotionDecisionOutcome (mo_PromotionDecision out) =
       Inr (if mo_Status out = ModelStatusEvaluated then PromotionAccepted else PromotionRejected) \<and>
     (\<exists>r' \<in> set (rt_models (tables st')). mr_model r' = out) \<and>
     TrimSpace (om_DispatchKey (ModelUpdatedMessage (uc_builder uc) out)) \<in> outbox_keys (snd (rg_db st'))"
proof -
  have wf: "wf_registry (tables st)" by (rule registry_inv_wf [OF registry_reach_inv [OF assms(1)]])
  then have wf': "wf_registry (fst (rg_db st))" by (simp add: tables_def)
  let ?c = "WithSystemContext c" and ?m = "mr_model r"
  obtain cand where read: "ReadByID (ce_db ce) (applyConnectionSessionContext ?c) (rp_ModelID rep) (tables st) = Inr cand"
    using assms(2) by (auto simp: RecordPromotionReportReady_def Let_def split: sum.splits)
  have cand: "cand = ?m" using ReadByID_row(2) [OF wf read assms(3,4)] by simp
  let ?ev = "evaluateCandidatePromotion uc ce (contextForModel ?c ?m) ?m (Some rep) (tables st)"
  let ?uri = "rp_PromotionReportURI rep"
  consider (reject) rs db' sig where "reject_tx uc ce ?c ?m ?uri (rp_Deltas rep) rs (rg_db st) = (Inr out, db', sig)"
      "st' = commit (db', sig) st" "\<not> (rp_FailureReason rep = [] \<and> (\<exists>d. ?ev = Inr d \<and> gd_Promote d))"
    | (accept) d db' sig where "accept_tx uc ce ?c ?m ?uri d (rg_db st) = (Inr out, db', sig)"
      "rg_db st' = db'" "rp_FailureReason rep = []" "?ev = Inr d" "gd_Promote d"
  proof (cases "rp_FailureReason rep = []")
    case False
    then show thesis
      using assms(2) read assms(5) that(1)
      by (auto simp: cand RecordPromotionReportReady_def Let_def reject_tx_def elim!: returning.elims
          split: if_splits prod.splits)
  next
    case True
    then have s: "settle_candidate uc ce ?c ?m (Some rep) ?uri (rp_Deltas rep) st = ((Some out, err), st')"
      using assms(2) read assms(5) by (auto simp: cand RecordPromotionReportReady_def Let_def split: if_splits)
    show thesis
    proof (cases ?ev)
      case (Inl e)
      then show thesis using s by (simp add: settle_candidate_def Let_def)
    next
      case (Inr d)
      show thesis
      proof (cases "gd_Promote d")
        case True
        then show thesis
          using s Inr \<open>rp_FailureReason rep = []\<close> that(2) [of d]
          by (auto simp: settle_candidate_def Let_def accept_tx_def serve_and_return_def
              dest: ensure_frame split: prod.splits sum.splits)
      next
        case False
        then show thesis
          using s Inr that(1) [of "gd_Reason d"]
          by (auto simp: settle_candidate_def Let_def reject_tx_def elim!: returning.elims split: prod.splits)
      qed
    qed
  qed
  then show ?thesis
  proof cases
    case reject
    from decision_tx_out [OF reject(1) [unfolded reject_tx_def] wf'] reject(2,3) show ?thesis
      using promotion_outcome.parse_print [of PromotionRejected] by (auto simp: tables_def commit_def)
  next
    case accept
    from decision_tx_out [OF accept(1) [unfolded accept_tx_def] wf'] accept(2-5) show ?thesis
      using promotion_outcome.parse_print [of PromotionAccepted] by (auto simp: tables_def)
  qed
qed

text \<open>What a creation transaction leaves: the new row, and its messages.\<close>

lemma create_tx_out:
  assumes "registry_tx ce (\<lambda>t. with_endpoint uc (ce_db ce) s (Create (ce_db ce) s m key t)) msgs db = (Inr out, db', sig)"
    "msgs out \<noteq> []"
  shows "\<exists>row. rt_models (fst db') = rt_models (fst db) @ [row] \<and> mr_model row = out \<and>
    mo_Status out = mo_Status m \<and> mo_ModelID out = mo_ModelID m \<and> mo_OrgID out = mo_OrgID m \<and>
    mo_TrainingRunID out = mo_TrainingRunID m \<and> mr_idempotency_key row = key \<and> sig \<and>
    (\<forall>x \<in> set (msgs out). TrimSpace (om_DispatchKey x) \<in> outbox_keys (snd db'))"
proof -
  note ok = registry_tx_Inr [OF assms(1)]
  obtain t1 where cr: "Create (ce_db ce) s m key (fst db) = Inr (out, t1)"
    and ep: "upsertPublishedEndpoint uc (ce_db ce) s out t1 = Inr (fst db')"
    using ok(1) by (auto simp: with_endpoint_def split: sum.splits)
  obtain row where row: "modelArgs (ce_db ce) m key = Some row" "out = mr_model row"
    "t1 = (fst db)\<lparr>rt_models := rt_models (fst db) @ [row]\<rparr>"
    by (rule Create_ok [OF cr])
  have "rt_models (fst db') = rt_models (fst db) @ [row]" using upsert_models [OF ep] row(3) by simp
  with row(2) modelArgs_ok [OF row(1)] ok(2,3) assms(2) show ?thesis by auto
qed

text \<open>C31. Recording a finished training run is all or nothing: either the database and the
  signal are as before (on an error, and on a redelivery), or one candidate row was added and
  both messages about it, the update and the request for a promotion report, are in the
  outbox of the same transaction and the relay is signalled.\<close>

theorem training_completed_atomic:
  assumes "RecordModelTrainingCompleted uc ce c m key st = ((res, err), st')"
  shows "(rg_db st' = rg_db st \<and> rg_signals st' = rg_signals st) \<or>
    (\<exists>out row champion. res = Some out \<and> err = None \<and> mr_model row = out \<and>
       rt_models (tables st') = rt_models (tables st) @ [row] \<and> mo_Status out = ModelStatusCandidate \<and>
       mo_TrainingRunID out = mo_TrainingRunID m \<and> rg_signals st' = rg_signals st + 1 \<and>
       {TrimSpace (om_DispatchKey (ModelUpdatedMessage (uc_builder uc) out)),
        TrimSpace (om_DispatchKey (PromotionRequestedMessage (uc_builder uc) champion out))}
         \<subseteq> outbox_keys (snd (rg_db st')))"
proof -
  let ?m = "trained_model ModelStatusCandidate m"
  let ?s = "applyConnectionSessionContext (contextForModel c ?m)"
  consider "st' = st" | (tx) ch where "record_candidate uc ce ?s ?m key st ch = ((res, err), st')"
    using assms by (auto simp: RecordModelTrainingCompleted_def Let_def split: sum.splits if_splits)
  then show ?thesis
  proof cases
    case (tx ch)
    obtain r0 db' sig where r: "createCandidateModel uc ce ?s ?m ch key (rg_db st) = (r0, db', sig)"
      by (metis surj_pair)
    show ?thesis
    proof (cases r0)
      case (Inl e)
      have "db' = rg_db st \<and> \<not> sig"
        using r [unfolded Inl createCandidateModel_def] by (rule registry_tx_error)
      then show ?thesis using tx r Inl by (auto simp: record_candidate_def commit_def split: if_splits)
    next
      case (Inr out)
      let ?msgs = "\<lambda>created. [ModelUpdatedMessage (uc_builder uc) created,
        PromotionRequestedMessage (uc_builder uc) ch created]"
      have "registry_tx ce (\<lambda>t. with_endpoint uc (ce_db ce) ?s (Create (ce_db ce) ?s ?m key t)) ?msgs (rg_db st)
          = (Inr out, db', sig)"
        using r Inr by (simp add: createCandidateModel_def)
      from create_tx_out [OF this] obtain row where "rt_models (fst db') = rt_models (fst (rg_db st)) @ [row]"
        "mr_model row = out" "mo_Status out = mo_Status ?m" "mo_TrainingRunID out = mo_TrainingRunID ?m" "sig"
        "\<forall>x \<in> set (?msgs out). TrimSpace (om_DispatchKey x) \<in> outbox_keys (snd db')" by auto
      moreover have "res = Some out" "err = None" "st' = commit (db', sig) st"
        using tx r Inr by (simp_all add: record_candidate_def)
      ultimately show ?thesis
        by (intro disjI2 exI [of _ out] exI [of _ row] exI [of _ ch])
          (simp add: commit_def tables_def trained_model_def)
    qed
  qed simp
qed

definition insertable :: "db_env \<Rightarrow> session \<Rightarrow> model \<Rightarrow> uuid \<Rightarrow> registry_tables \<Rightarrow> bool" where
  "insertable env s m key t \<longleftrightarrow> de_model_error env = None \<and> de_read_error env = None \<and>
     tenant_ready s (mo_UserID m) t \<and> modelArgs env m key \<noteq> None \<and> models_checks m \<and> org_visible s (mo_OrgID m)"

lemma Create_conflict:
  assumes "insertable env s m key t" "r \<in> set (rt_models t)" "mo_TrainingRunID m \<noteq> uuid_nil"
    "mo_TrainingRunID (mr_model r) = mo_TrainingRunID m"
  shows "Create env s m key t = Inl ErrModelExists"
proof -
  obtain row where row: "modelArgs env m key = Some row" using assms(1) by (auto simp: insertable_def)
  note a = modelArgs_ok [OF row]
  have "\<exists>q \<in> set (rt_models t). models_conflict row q"
    by (rule bexI [of _ r]) (use assms(2-4) a(5) in \<open>auto simp: models_conflict_def\<close>)
  then show ?thesis
    using assms(1) row a(2,11) by (auto simp: Create_def insertable_def row_visible_def)
qed

text \<open>Redelivery is harmless: once a training run has its model, recording the run again in
  the context of its organisation, with whatever key and payload, changes nothing and returns
  the stored model, provided the statement gets as far as the unique index.\<close>

theorem training_completed_idempotent:
  assumes "registry_reach uc st" "m' = trained_model ModelStatusCandidate m"
    "s = applyConnectionSessionContext (contextForModel c m')"
    "insertable (ce_db ce) s m' key (tables st)" "te_begin (ce_tx ce) = None"
    "r \<in> set (rt_models (tables st))" "row_visible s r" "mo_TrainingRunID m \<noteq> uuid_nil"
    "mo_TrainingRunID (mr_model r) = mo_TrainingRunID m"
  shows "\<exists>st'. RecordModelTrainingCompleted uc ce c m key st = ((Some (mr_model r), None), st') \<and>
    rg_db st' = rg_db st \<and> rg_signals st' = rg_signals st"
proof -
  have wf: "wf_registry (tables st)" by (rule registry_inv_wf [OF registry_reach_inv [OF assms(1)]])
  have run: "mo_TrainingRunID m' = mo_TrainingRunID m" by (simp add: assms(2) trained_model_def)
  have cr: "Create (ce_db ce) s m' key (fst (rg_db st)) = Inl ErrModelExists"
    using Create_conflict [OF assms(4,6)] assms(8,9) run by (simp add: tables_def)
  have tx: "createCandidateModel uc ce s m' ch key (rg_db st) = (Inl ErrModelExists, rg_db st, False)" for ch
    using assms(5) cr
    by (simp add: createCandidateModel_def registry_tx_def uow_Do_def doOnce_def change_then_enqueue_def with_endpoint_def)
  have read: "ReadByTrainingRunID (ce_db ce) s (mo_TrainingRunID m') (fst (rg_db st)) = Inr (mr_model r)"
  proof -
    let ?p = "\<lambda>x. (mo_TrainingRunID (mr_model x) \<noteq> uuid_nil \<and> mo_TrainingRunID (mr_model x) = mo_TrainingRunID m') \<and> row_visible s x"
    obtain x where x: "find ?p (rt_models (tables st)) = Some x"
      using assms(6-9) run by (cases "find ?p (rt_models (tables st))") (auto simp: find_None_iff)
    have "x \<in> set (rt_models (tables st))" "mo_TrainingRunID (mr_model x) = mo_TrainingRunID (mr_model r)"
      using find_SomeD [OF x] assms(9) run by auto
    then have "x = r"
      using pairwise_free_same [of models_conflict "rt_models (tables st)" x r] wf assms(6,8,9)
      by (auto simp: wf_registry_def models_conflict_def)
    moreover have "row_ok r" using wf assms(6) by (auto simp: wf_registry_def list_all_iff)
    ultimately show ?thesis
      using assms(4) x by (simp add: ReadByTrainingRunID_def read_row_def insertable_def tables_def scanModel_ok)
  qed
  have ch: "ReadChampion (ce_db ce) s l (tables st) \<noteq> Inl e" if "e \<noteq> ErrModelNotFound" for l e
    using assms(4) that by (auto simp: ReadChampion_def insertable_def scanModel_eq split: option.splits)
  define st' where "st' = commit (rg_db st, False) st"
  have "record_candidate uc ce s m' key st ch = ((Some (mr_model r), None), st')" for ch
    by (simp add: record_candidate_def tx read st'_def)
  then have "RecordModelTrainingCompleted uc ce c m key st = ((Some (mr_model r), None), st')"
    unfolding RecordModelTrainingCompleted_def Let_def assms(2) [symmetric] assms(3) [symmetric]
    using ch [of _ "LineageForModel m'"]
    by (cases "ReadChampion (ce_db ce) s (LineageForModel m') (tables st)") auto
  then show ?thesis by (auto simp: st'_def commit_def)
qed

lemma create_candidate_Inr:
  assumes "createCandidateModel uc ce s m ch key db = (Inr out, r)"
  shows "mo_OrgID out = mo_OrgID m"
proof -
  obtain db' sig where "r = (db', sig)" by (cases r)
  with assms show ?thesis
    using create_tx_out [of ce uc s m key "\<lambda>created. [ModelUpdatedMessage (uc_builder uc) created,
        PromotionRequestedMessage (uc_builder uc) ch created]" db out db' sig]
    by (auto simp: createCandidateModel_def)
qed

text \<open>No event of another organisation leads to one of its models: for a request without
  system rights that names an organisation, the model that recording a finished run returns
  belongs to that organisation, also when the run or the key already exists elsewhere.\<close>

theorem training_completed_isolated:
  assumes "registry_reach uc st" "RecordModelTrainingCompleted uc ce c m key st = ((Some out, err), st')"
    "\<not> IsSystemContext c" "mo_OrgID m \<noteq> uuid_nil"
  shows "mo_OrgID out = mo_OrgID m"
proof -
  let ?m = "trained_model ModelStatusCandidate m"
  let ?s = "applyConnectionSessionContext (contextForModel c ?m)"
  have org: "mo_OrgID ?m = mo_OrgID m" by (simp add: trained_model_def)
  have vis: "org_visible ?s i \<Longrightarrow> i = mo_OrgID m" for i
    using assms(3,4) org by (simp add: contextForModel_def org_visible_def WithActorOrg_def)
  obtain ch where rc: "record_candidate uc ce ?s ?m key st ch = ((Some out, err), st')"
    using assms(2) by (auto simp: RecordModelTrainingCompleted_def Let_def split: sum.splits if_splits)
  obtain r0 r where tx: "createCandidateModel uc ce ?s ?m ch key (rg_db st) = (r0, r)" by (metis surj_pair)
  show ?thesis
  proof (cases r0)
    case (Inr x)
    then have "x = out" using rc tx by (simp add: record_candidate_def)
    then show ?thesis using create_candidate_Inr [OF tx [unfolded Inr]] org by simp
  next
    case (Inl e)
    then have "ReadByTrainingRunID (ce_db ce) ?s (mo_TrainingRunID ?m) (fst (fst r)) = Inr out"
      using rc tx by (auto simp: record_candidate_def elim!: returning.elims split: if_splits)
    moreover have "fst r = rg_db st"
    proof (cases r)
      case (Pair d g)
      from registry_tx_error [OF tx [unfolded Inl Pair createCandidateModel_def]] Pair show ?thesis by simp
    qed
    ultimately have "read_row (\<lambda>r. mo_TrainingRunID (mr_model r) \<noteq> uuid_nil \<and>
        mo_TrainingRunID (mr_model r) = mo_TrainingRunID ?m) ?s (tables st) = Inr out"
      by (auto simp: ReadByTrainingRunID_def tables_def split: option.splits)
    then obtain x where "row_visible ?s x" "out = mr_model x"
      by (rule read_row_ok [OF _ registry_inv_wf [OF registry_reach_inv [OF assms(1)]]])
    then show ?thesis using vis by (simp add: row_visible_def)
  qed
qed

section \<open>What other services see\<close>

lemma writeMessageTx_known:
  "writeMessageTx env now i m ob = Inr ob' \<Longrightarrow> dispatch_key_of env now m \<in> outbox_keys ob \<Longrightarrow> ob' = ob"
  using writeMessageTx_ok by metis

lemma registry_enqueue_known:
  assumes "registry_enqueue ce db msg = Inr db'" "TrimSpace (om_DispatchKey msg) \<in> outbox_keys (snd db)"
  shows "db' = db"
proof -
  obtain ob' where ob': "EnqueueTx (ce_outbox ce) (ce_now ce) (ce_outbox_id ce (snd db)) (snd db) msg = Inr ob'"
    "db' = (fst db, ob')"
    using assms(1) by (auto simp: registry_enqueue_def EnqueueDB_def split: sum.splits)
  obtain m where "writeMessageTx (ce_outbox ce) (ce_now ce) (ce_outbox_id ce (snd db)) m (snd db) = Inr ob'"
    "dispatch_key_of (ce_outbox ce) (ce_now ce) m = TrimSpace (om_DispatchKey msg)"
    by (rule EnqueueTx_ok [OF ob'(1)])
  then have "ob' = snd db" using writeMessageTx_known assms(2) by metis
  then show ?thesis using ob'(2) by simp
qed

text \<open>A change can go unannounced: the key of the update message is made of the model's
  identity, status, version and content, and the outbox drops a message whose key it has ever
  seen. When a serving report takes a model back to a state it was announced in before, the
  tables change, the call succeeds and even signals the relay, but no message is added.\<close>

theorem return_to_announced_state_is_silent:
  assumes "updateServingStatus uc ce s sm status e key db = (Inr (m, True), db', sig)"
    "TrimSpace (om_DispatchKey (ModelUpdatedMessage (uc_builder uc) m)) \<in> outbox_keys (snd db)"
  shows "snd db' = snd db \<and> sig \<and> serving_change uc (ce_db ce) s sm status e key (fst db) = Inr ((m, True), fst db')"
proof -
  let ?msgs = "\<lambda>(m, changed). if changed \<or> TrimSpace (mo_EffectiveBaseID m) \<noteq> []
     then [ModelUpdatedMessage (uc_builder uc) m] else []"
  let ?change = "serving_change uc (ce_db ce) s sm status e key"
  let ?lift = "\<lambda>d. case ?change (fst d) of Inl e \<Rightarrow> Inl e | Inr (a, t) \<Rightarrow> Inr (a, (t, snd d))"
  have tx: "registry_tx ce ?change ?msgs db = (Inr (m, True), db', sig)"
    using assms(1) by (simp add: updateServingStatus_def)
  note ok = registry_tx_Inr [OF tx]
  have "uow_Do (ce_tx ce) (registry_enqueue ce) (change_then_enqueue ?lift ?msgs) db = (Inr (m, True), db', sig)"
    using tx by (auto simp: registry_tx_def split: prod.splits sum.splits)
  from uow_Do_ok [OF this] obtain t1 where t1: "?change (fst db) = Inr ((m, True), t1)"
    "uow_enqueue (registry_enqueue ce) ((t1, snd db), False) (ModelUpdatedMessage (uc_builder uc) m) = Inr (db', sig)"
    by (auto simp: change_then_enqueue_def split: sum.splits)
  then have "registry_enqueue ce (t1, snd db) (ModelUpdatedMessage (uc_builder uc) m) = Inr db'"
    by (auto simp: uow_enqueue_def split: sum.splits)
  then have "db' = (t1, snd db)" by (rule registry_enqueue_known) (simp add: assms(2))
  then show ?thesis using ok(1,2) by simp
qed

end
