(* ===== verification/RegistryScenario.thy ===== *)
theory RegistryScenario
  imports RegistryProperties
begin

text \<open>
  A run of the model registry on concrete values: a training run is recorded, its promotion
  report accepted, and the model then reported as loaded, failed and loaded again. The
  properties of \<open>RegistryProperties\<close> are applied to its states.
\<close>

section \<open>The run\<close>

definition demo_metrics :: eval_metrics where
  "demo_metrics = \<lparr>ev_Passed = True, ev_Metrics = [(''faithfulness'', f64_one), (''answer_relevancy'', f64_one),
       (''context_precision'', f64_one)], ev_Thresholds = [], ev_ReportURI = ''s3://report'',
     ev_EvaluatorName = ''ragas'', ev_EvaluatorVersion = ''1'', ev_MetricSuite = ''rag'',
     ev_EvalDatasetURI = ''s3://eval'', ev_EvalDatasetMode = ''fixed'', ev_DeepchecksPassed = True,
     ev_DeepchecksURI = [], ev_EvidentlyPassed = True, ev_EvidentlyURI = []\<rparr>"

definition demo_builder :: event_builder where
  "demo_builder = \<lparr>bu_topic = ''model-registry'', bu_uuid = (\<lambda>i. nat_text (unat i)),
     bu_marshal_updated = (\<lambda>e. mu_Status e @ ''/'' @ mu_ServingLoadStatus e @ ''/'' @ mu_FailureReason e),
     bu_marshal_promotion = (\<lambda>e. ''promotion'' @ pq_ModelId e), bu_payloadHash = (\<lambda>s. s),
     bu_report_uri = (\<lambda>_. None)\<rparr>"

definition demo :: usecase where
  "demo = \<lparr>uc_builder = demo_builder, uc_endpointRepository = True, uc_effectiveBases = True,
     uc_servingDeployer = Some (\<lambda>_. None), uc_gatePolicy = DefaultGatePolicy,
     uc_metrics_json = (\<lambda>s. if s = ''good'' then Inr demo_metrics else Inl ''unexpected''),
     uc_deltas_json = (\<lambda>_. Inr ''{}''), uc_descriptor_json = (\<lambda>d. Inr (ed_ArtifactURI d)),
     uc_SHA256String = (\<lambda>s. s), uc_classify = (\<lambda>_. ''failed'')\<rparr>"

definition demo_env :: "int \<Rightarrow> call_env" where
  "demo_env now = \<lparr>ce_db = \<lparr>de_now = now, de_jsonb = (\<lambda>s. if s = [] then None else Some s),
       de_endpoint_id = 77, de_read_error = None, de_model_error = None, de_endpoint_error = None,
       de_base_error = None\<rparr>,
     ce_tx = \<lparr>te_begin = None, te_commit = None, te_rollback = None\<rparr>,
     ce_outbox = \<lparr>oe_envelope = ms_Payload, oe_trace_headers = [], oe_derive_key = (\<lambda>_ _ _ _. []),
       oe_exec_error = None\<rparr>,
     ce_now = now, ce_outbox_id = (\<lambda>ob. of_nat (length ob + 100))\<rparr>"

definition trained :: model where
  "trained = \<lparr>mo_ModelID = 10, mo_UserID = 3, mo_OrgID = 4, mo_TrainingRunID = 20, mo_DatasetID = 5,
     mo_ModelKind = [], mo_Source = [], mo_SourceURI = [], mo_SourceMetadata = [], mo_Name = ''m'',
     mo_LineageName = [], mo_ModelVersion = 1, mo_BaseModel = ''b'', mo_ArtifactLocation = ''s3://a'',
     mo_ArtifactFormat = ''f'', mo_ArtifactChecksum = ''c'', mo_ArtifactSizeBytes = 1, mo_AdapterURI = [],
     mo_AdapterRank = 0, mo_ServingTarget = [], mo_ServingModel = [],
     mo_ServingProtocol = ServingProtocolUnknown, mo_ServingLoadStatus = ModelLoadStatusNotLoaded,
     mo_EffectiveBaseID = [], mo_MetricsMetadata = ''good'', mo_PromotionReportURI = [],
     mo_PromotionDeltas = [], mo_PromotionDecision = [], mo_PromotionReason = [],
     mo_Status = ModelStatusPending, mo_FailureReason = []\<rparr>"

definition demo_report :: promotion_report_result where
  "demo_report = \<lparr>rp_UserID = 3, rp_OrgID = 4, rp_ModelID = 10, rp_TrainingRunID = 20,
     rp_PromotionReportURI = ''s3://p'', rp_DeepchecksPassed = True, rp_EvidentlyPassed = True,
     rp_Deltas = [], rp_FailureReason = []\<rparr>"

definition served :: "ModelLoadStatus \<Rightarrow> served_model_status" where
  "served ls = \<lparr>sm_ModelID = 10, sm_ServingTarget = ''http'', sm_ServingModel = ''m'',
     sm_ServingProtocol = ServingProtocolOllamaGenerate, sm_ServingLoadStatus = ls,
     sm_FailureReason = (if ls = ModelLoadStatusFailed then ''oom'' else [])\<rparr>"

definition demo0 :: registry_state where
  "demo0 = registry_init\<lparr>rg_db := (fst (rg_db registry_init)\<lparr>rt_tenants := [(3, False)]\<rparr>, snd (rg_db registry_init))\<rparr>"

definition demo1 :: registry_state where
  "demo1 = snd (RecordModelTrainingCompleted demo (demo_env 1) background trained 30 demo0)"

definition demo2 :: registry_state where
  "demo2 = snd (RecordPromotionReportReady demo (demo_env 2) background demo_report demo1)"

definition demo3 :: registry_state where
  "demo3 = snd (RecordModelServingStatus demo (demo_env 3) background (served ModelLoadStatusLoaded) 31 demo2)"

definition demo4 :: registry_state where
  "demo4 = snd (RecordModelServingStatus demo (demo_env 4) background (served ModelLoadStatusFailed) 32 demo3)"

definition demo5 :: registry_state where
  "demo5 = snd (RecordModelServingStatus demo (demo_env 5) background (served ModelLoadStatusLoaded) 33 demo4)"

lemma demo_reach0: "registry_reach demo demo0"
  unfolding demo0_def by (rule registry_next [OF registry_start projection])

lemma demo_reach1: "registry_reach demo demo1"
  unfolding demo1_def by (rule registry_next [OF demo_reach0 completed])

lemma demo_reach2: "registry_reach demo demo2"
  unfolding demo2_def by (rule registry_next [OF demo_reach1 report])

lemma demo_reach3: "registry_reach demo demo3"
  unfolding demo3_def by (rule registry_next [OF demo_reach2 serving])

lemma demo_reach4: "registry_reach demo demo4"
  unfolding demo4_def by (rule registry_next [OF demo_reach3 serving])

text \<open>
  The states of the run written out, so that each is evaluated once.
\<close>

definition model1 :: model where
  "model1 = trained\<lparr>mo_ModelKind := ''FINE_TUNED'', mo_Source := ''TRAINING'', mo_SourceMetadata := ''{}'',
     mo_LineageName := ''m'', mo_PromotionDeltas := ''{}'', mo_Status := ModelStatusCandidate\<rparr>"

definition model2 :: model where
  "model2 = model1\<lparr>mo_PromotionReportURI := ''s3://p'', mo_PromotionDecision := ''PROMOTION_ACCEPTED'',
     mo_PromotionReason := ''first model in lineage'', mo_Status := ModelStatusEvaluated\<rparr>"

definition model3 :: model where
  "model3 = model2\<lparr>mo_ServingTarget := ''http'', mo_ServingModel := ''m'',
     mo_ServingProtocol := ServingProtocolOllamaGenerate, mo_ServingLoadStatus := ModelLoadStatusLoaded,
     mo_Status := ModelStatusReady\<rparr>"

definition model4 :: model where
  "model4 = model3\<lparr>mo_ServingLoadStatus := ModelLoadStatusFailed, mo_Status := ModelStatusFailed,
     mo_FailureReason := ''oom''\<rparr>"

definition demo_model_row :: "model \<Rightarrow> uuid \<Rightarrow> int \<Rightarrow> model_row" where
  "demo_model_row m key now = \<lparr>mr_model = m, mr_idempotency_key = 30, mr_serving_key = key,
     mr_created_at = 1, mr_updated_at = now\<rparr>"

definition demo_endpoint :: "PublishedEndpointStatus \<Rightarrow> endpoint_row" where
  "demo_endpoint s = \<lparr>er_endpoint_id = 77, er_endpoint = \<lparr>pe_OrgID = 4, pe_ModelID = 10, pe_DatasetID = 5,
     pe_Status = s, pe_DisplayName = ''m'', pe_CreatedByUserID = 3\<rparr>\<rparr>"

definition demo_out :: "uuid \<Rightarrow> string \<Rightarrow> string \<Rightarrow> string \<Rightarrow> int \<Rightarrow> outbox_row" where
  "demo_out i key type payload now = \<lparr>ob_id = i, ob_dispatch_key = key, ob_topic = ''model-registry'',
     ob_event_type = type, ob_resource_key = 10, ob_payload = payload, ob_headers = [],
     ob_status = OPending, ob_attempts = 0, ob_next_attempt_at = now, ob_processing_owner = [],
     ob_claim_token = [], ob_lease_expires_at = None, ob_last_error = [], ob_sent_at = None,
     ob_created_at = now, ob_updated_at = now\<rparr>"

definition updated_out :: "uuid \<Rightarrow> string \<Rightarrow> string \<Rightarrow> int \<Rightarrow> outbox_row" where
  "updated_out i status payload now =
     demo_out i (''model_updated:10:'' @ status @ '':1:'' @ payload) ''model_updated'' payload now"

definition out1 :: outbox where
  "out1 = [updated_out 100 ''CANDIDATE'' ''CANDIDATE/NOT_LOADED/'' 1,
     demo_out 101 ''promotion_requested:10:1'' ''promotion_requested'' ''promotion10'' 1]"

definition out2 :: outbox where
  "out2 = out1 @ [updated_out 102 ''EVALUATED'' ''EVALUATED/NOT_LOADED/'' 2]"

definition out3 :: outbox where
  "out3 = out2 @ [updated_out 103 ''READY'' ''READY/LOADED/'' 3]"

definition out4 :: outbox where
  "out4 = out3 @ [updated_out 104 ''FAILED'' ''FAILED/FAILED/oom'' 4]"

definition loaded_event :: user_event where
  "loaded_event = \<lparr>uv_EventType = ''model.serving.loaded'', uv_Severity = ''SUCCESS'', uv_UserID = 3,
     uv_OrgID = 4, uv_ModelID = 10, uv_State = ''LOADED'', uv_PreviousState = ''NOT_LOADED'',
     uv_Title = ''Model ready'', uv_Message = ''The model is ready for inference.''\<rparr>"

definition failed_event :: user_event where
  "failed_event = \<lparr>uv_EventType = ''model.serving.failed'', uv_Severity = ''ERROR'', uv_UserID = 3,
     uv_OrgID = 4, uv_ModelID = 10, uv_State = ''FAILED'', uv_PreviousState = ''LOADED'',
     uv_Title = ''Model serving failed'', uv_Message = ''failed''\<rparr>"

definition reloaded_event :: user_event where
  "reloaded_event = loaded_event\<lparr>uv_PreviousState := ''FAILED''\<rparr>"

definition demo_state :: "model_row list \<Rightarrow> endpoint_row list \<Rightarrow> outbox \<Rightarrow> nat \<Rightarrow> model list \<Rightarrow>
    user_event list \<Rightarrow> registry_state" where
  "demo_state ms es ob sig dep ev = \<lparr>rg_db = (\<lparr>rt_tenants = [(3, False)], rt_models = ms, rt_endpoints = es,
     rt_bases = []\<rparr>, ob), rg_signals = sig, rg_deployed = dep, rg_user_events = ev\<rparr>"

lemma demo1_value: "demo1 = demo_state [demo_model_row model1 uuid_nil 1] [demo_endpoint PublishedEndpointStatusDisabled]
     out1 1 [] []"
  by code_simp

lemma demo2_value: "demo2 = demo_state [demo_model_row model2 uuid_nil 2] [demo_endpoint PublishedEndpointStatusDisabled]
     out2 2 [model2] []"
  unfolding demo2_def demo1_value by code_simp

lemma demo3_value: "demo3 = demo_state [demo_model_row model3 31 3] [demo_endpoint PublishedEndpointStatusReady]
    out3 3 [model2] [loaded_event]"
  unfolding demo3_def demo2_value by code_simp

lemma demo4_value: "demo4 = demo_state [demo_model_row model4 32 4] [demo_endpoint PublishedEndpointStatusDisabled]
    out4 4 [model2] [loaded_event, failed_event]"
  unfolding demo4_def demo3_value by code_simp

lemma demo5_value: "demo5 = demo_state [demo_model_row (model3) 33 5]
    [demo_endpoint PublishedEndpointStatusReady] out4 5 [model2] [loaded_event, failed_event, reloaded_event]"
  unfolding demo5_def demo4_value by code_simp

section \<open>The properties on the run\<close>

definition demo_session :: session where
  "demo_session = \<lparr>ss_user = Some 3, ss_org = Some 4, ss_system = False\<rparr>"

definition demo_lineage :: lineage where
  "demo_lineage = \<lparr>ln_UserID = 3, ln_OrgID = 4, ln_Name = ''m''\<rparr>"

lemma demo_wf3: "wf_registry (tables demo3)"
  by (rule registry_inv_wf [OF registry_reach_inv [OF demo_reach3]])

theorem ReadChampion_best_witness:
  "\<exists>r \<in> set (rt_models (tables demo3)). model3 = mr_model r \<and> row_visible demo_session r \<and>
     champion_of demo_lineage model3"
proof -
  have "ReadChampion (ce_db (demo_env 3)) demo_session demo_lineage (tables demo3) = Inr model3"
    unfolding demo3_value by code_simp
  from ReadChampion_best [OF demo_wf3 this] show ?thesis by blast
qed

definition demo_page :: pagination where
  "demo_page = \<lparr>pg_Limit = 5, pg_Page = 1\<rparr>"

definition demo_filter :: list_filter where
  "demo_filter = \<lparr>lf_Kind = None, lf_Source = None, lf_Status = None, lf_Trainable = True\<rparr>"

theorem list_models_isolated_witness:
  "OrgID (WithActorOrg background 3 4) = Some (mo_OrgID model3)"
proof -
  have "list_models (ce_db (demo_env 3)) (WithActorOrg background 3 4) demo_page demo_filter (tables demo3)
      = Inr ([model3], 1)" unfolding demo3_value by code_simp
  moreover have "\<not> IsSystemContext (WithActorOrg background 3 4)" by (simp add: background_def ctx_defs)
  ultimately show ?thesis using list_models_isolated [OF demo_wf3, of "ce_db (demo_env 3)"] by fastforce
qed

definition demo_row :: "registry_state \<Rightarrow> model_row" where
  "demo_row st = hd (rt_models (tables st))"

lemma demo_rows: "demo_row demo1 = demo_model_row model1 uuid_nil 1"
  "demo_row demo2 = demo_model_row model2 uuid_nil 2" "demo_row demo3 = demo_model_row model3 31 3"
  "demo_row demo5 = demo_model_row model3 33 5"
  by (simp_all add: demo_row_def demo1_value demo2_value demo3_value demo5_value demo_state_def tables_def)

lemma demo_row_model [simp]: "mr_model (demo_model_row m k n) = m"
  by (simp add: demo_model_row_def)

lemmas demo_models = model1_def model2_def model3_def trained_def

lemma demo_row_in:
  "demo_row demo1 \<in> set (rt_models (tables demo1))" "demo_row demo2 \<in> set (rt_models (tables demo2))"
  "demo_row demo3 \<in> set (rt_models (tables demo3))"
  by (simp_all add: demo_row_def demo1_value demo2_value demo3_value demo_state_def tables_def)

theorem endpoints_follow_models_witness:
  "\<exists>e. e \<in> set (rt_endpoints (tables demo3)) \<and> pe_Status (er_endpoint e) = PublishedEndpointStatusReady"
proof -
  have "mo_DatasetID (mr_model (demo_row demo3)) \<noteq> uuid_nil" by (simp add: demo_rows demo_models)
  moreover have "uc_endpointRepository demo" by (simp add: demo_def)
  moreover have "mo_Status (mr_model (demo_row demo3)) = ModelStatusReady" by (simp add: demo_rows demo_models)
  moreover have "mo_ServingLoadStatus (mr_model (demo_row demo3)) = ModelLoadStatusLoaded" by (simp add: demo_rows demo_models)
  ultimately show ?thesis using endpoints_follow_models [OF demo_reach3 _ demo_row_in(3)] by blast
qed

theorem model_status_machine_witness:
  "\<exists>r' \<in> set (rt_models (tables demo2)). row_ids r' = row_ids (demo_row demo1) \<and>
     mo_Status (mr_model r') \<in> {ModelStatusCandidate, ModelStatusEvaluated, ModelStatusFailed}"
proof -
  have step: "registry_step demo OpReport demo1 demo2" unfolding demo2_def by (rule report)
  have "mo_Status (mr_model (demo_row demo1)) = ModelStatusCandidate" by (simp add: demo_rows demo_models)
  with model_status_machine [OF demo_reach1 step demo_row_in(1)] show ?thesis by auto
qed

theorem promotion_needs_gate_witness:
  "\<exists>d. evaluateCandidatePromotion demo (demo_env 2) (contextForModel (WithSystemContext background)
       (mr_model (demo_row demo1))) (mr_model (demo_row demo1)) (Some demo_report) (tables demo1) = Inr d \<and>
     gd_Promote d"
proof -
  define out where "out = mr_model (demo_row demo2)"
  have run: "RecordPromotionReportReady demo (demo_env 2) background demo_report demo1 =
      ((Some out, None), demo2)" unfolding out_def demo2_def
  proof -
    have "fst (RecordPromotionReportReady demo (demo_env 2) background demo_report demo1) =
        (Some (mr_model (demo_row demo2)), None)" unfolding demo_rows demo_row_model demo1_value by code_simp
    then show "RecordPromotionReportReady demo (demo_env 2) background demo_report demo1 =
        ((Some (mr_model (demo_row (snd (RecordPromotionReportReady demo (demo_env 2) background demo_report demo1)))), None),
         snd (RecordPromotionReportReady demo (demo_env 2) background demo_report demo1))"
      unfolding demo2_def by (simp add: prod_eq_iff)
  qed
  have "mo_ModelID (mr_model (demo_row demo1)) = rp_ModelID demo_report"
    "mo_Status (mr_model (demo_row demo1)) = ModelStatusCandidate"
    "mo_Status (mr_model (demo_row demo2)) = ModelStatusEvaluated" by (simp_all add: demo_rows demo_models demo_report_def)
  with promotion_needs_gate [OF demo_reach1 run demo_row_in(1)] show ?thesis by (simp add: out_def)
qed

theorem training_completed_atomic_witness:
  "rg_signals demo1 = 1 \<and> length (rt_models (tables demo1)) = 1"
proof -
  obtain res err where run: "RecordModelTrainingCompleted demo (demo_env 1) background trained 30 demo0 = ((res, err), demo1)"
    unfolding demo1_def by (metis surj_pair snd_conv)
  have "rg_signals demo1 = 1" "length (rt_models (tables demo1)) = 1" "rg_signals demo0 = 0"
    by (simp_all add: demo1_value demo_state_def tables_def demo0_def registry_init_def)
  then have "rg_signals demo1 \<noteq> rg_signals demo0" by simp
  with training_completed_atomic [OF run] \<open>rg_signals demo1 = 1\<close> \<open>length (rt_models (tables demo1)) = 1\<close>
  show ?thesis by auto
qed

definition demo_candidate :: model where
  "demo_candidate = trained_model ModelStatusCandidate trained"

theorem training_completed_idempotent_witness:
  "rg_db (snd (RecordModelTrainingCompleted demo (demo_env 2) background trained 99 demo1)) = rg_db demo1"
proof -
  let ?s = "applyConnectionSessionContext (contextForModel background demo_candidate)"
  have "de_model_error (ce_db (demo_env 2)) = None" "de_read_error (ce_db (demo_env 2)) = None"
    "te_begin (ce_tx (demo_env 2)) = None" by (simp_all add: demo_env_def)
  moreover have "tenant_ready ?s (mo_UserID demo_candidate) (tables demo1)" unfolding demo1_value by code_simp
  moreover have "modelArgs (ce_db (demo_env 2)) demo_candidate 99 \<noteq> None" by code_simp
  moreover have "models_checks demo_candidate" by code_simp
  moreover have "org_visible ?s (mo_OrgID demo_candidate)" by code_simp
  moreover have "row_visible ?s (demo_row demo1)" unfolding demo_rows by code_simp
  moreover have "mo_TrainingRunID (mr_model (demo_row demo1)) = mo_TrainingRunID trained" by (simp add: demo_rows demo_models)
  moreover have "mo_TrainingRunID trained \<noteq> uuid_nil" by (simp add: trained_def)
  ultimately show ?thesis
    using training_completed_idempotent [OF demo_reach1 demo_candidate_def refl, where key = 99 and ce = "demo_env 2"
        and r = "demo_row demo1" and c = background] demo_row_in(1)
    by (auto simp: insertable_def)
qed

theorem training_completed_isolated_witness:
  "\<exists>out err st'. RecordModelTrainingCompleted demo (demo_env 1) background trained 30 demo0 = ((Some out, err), st') \<and>
     mo_OrgID out = 4"
proof -
  have "fst (fst (RecordModelTrainingCompleted demo (demo_env 1) background trained 30 demo0)) =
      Some (mr_model (demo_row demo1))" unfolding demo_rows demo_row_model by code_simp
  then obtain err st' where run: "RecordModelTrainingCompleted demo (demo_env 1) background trained 30 demo0
      = ((Some (mr_model (demo_row demo1)), err), st')" by (metis prod.collapse)
  have "\<not> IsSystemContext background" by (simp add: background_def ctx_defs)
  moreover have "mo_OrgID trained = 4" by (simp add: trained_def)
  ultimately have "mo_OrgID (mr_model (demo_row demo1)) = 4"
    using training_completed_isolated [OF demo_reach0 run] by simp
  with run show ?thesis by blast
qed

theorem return_to_announced_state_is_silent_witness:
  "snd (rg_db demo5) = snd (rg_db demo4) \<and> mo_Status (mr_model (demo_row demo5)) = ModelStatusReady \<and>
     ob_payload (last (snd (rg_db demo5))) = ''FAILED/FAILED/oom''"
proof -
  define m where "m = (mr_model (demo_row demo5))"
  let ?s = "applyConnectionSessionContext (WithSystemContext background)"
  let ?tx = "updateServingStatus demo (demo_env 5) ?s (served ModelLoadStatusLoaded) ModelStatusReady [] 33 (rg_db demo4)"
  have "fst ?tx = Inr (mr_model (demo_row demo5), True)" unfolding demo_rows demo_row_model demo4_value by code_simp
  moreover have "fst (snd ?tx) = rg_db demo5" unfolding demo5_value demo4_value by code_simp
  moreover have "snd (snd ?tx)" unfolding demo4_value by code_simp
  ultimately have run: "?tx = (Inr (m, True), rg_db demo5, True)" by (simp add: prod_eq_iff m_def)
  have "TrimSpace (om_DispatchKey (ModelUpdatedMessage (uc_builder demo) (mr_model (demo_row demo5))))
      \<in> outbox_keys (snd (rg_db demo4))" unfolding demo_rows demo_row_model demo4_value by code_simp
  with return_to_announced_state_is_silent [OF run] have "snd (rg_db demo5) = snd (rg_db demo4)" by (simp add: m_def)
  moreover have "mo_Status (mr_model (demo_row demo5)) = ModelStatusReady" by (simp add: demo_rows demo_models)
  moreover have "ob_payload (last (snd (rg_db demo5))) = ''FAILED/FAILED/oom''"
    by (simp add: demo5_value demo_state_def out4_def updated_out_def demo_out_def)
  ultimately show ?thesis by simp
qed

end
