(* ===== verification/GoRunes.thy ===== *)
theory GoRunes
  imports GoStrings
begin

text \<open>
  Decoding a Go string as UTF-8, as ranging over it or converting it to \<open>[]rune\<close> does: a
  valid sequence of two to four bytes is one rune, every other byte is a rune of its own
  (the replacement character).
\<close>

definition byte_in :: "nat \<Rightarrow> nat \<Rightarrow> char \<Rightarrow> bool" where
  "byte_in lo hi c \<longleftrightarrow> lo \<le> (of_char c :: nat) \<and> (of_char c :: nat) \<le> hi"

abbreviation continuation :: "char \<Rightarrow> bool" where
  "continuation \<equiv> byte_in 0x80 0xBF"

text \<open>The bytes the next rune takes.\<close>

fun rune_width :: "string \<Rightarrow> nat" where
  "rune_width (a # b # c # d # _) =
     (if byte_in 0xC2 0xDF a \<and> continuation b then 2
      else if byte_in 0xE0 0xE0 a \<and> byte_in 0xA0 0xBF b \<and> continuation c then 3
      else if byte_in 0xED 0xED a \<and> byte_in 0x80 0x9F b \<and> continuation c then 3
      else if byte_in 0xE1 0xEF a \<and> \<not> byte_in 0xED 0xED a \<and> continuation b \<and> continuation c then 3
      else if byte_in 0xF0 0xF0 a \<and> byte_in 0x90 0xBF b \<and> continuation c \<and> continuation d then 4
      else if byte_in 0xF1 0xF3 a \<and> continuation b \<and> continuation c \<and> continuation d then 4
      else if byte_in 0xF4 0xF4 a \<and> byte_in 0x80 0x8F b \<and> continuation c \<and> continuation d then 4
      else 1)"
| "rune_width [a, b, c] =
     (if byte_in 0xC2 0xDF a \<and> continuation b then 2
      else if byte_in 0xE0 0xE0 a \<and> byte_in 0xA0 0xBF b \<and> continuation c then 3
      else if byte_in 0xED 0xED a \<and> byte_in 0x80 0x9F b \<and> continuation c then 3
      else if byte_in 0xE1 0xEF a \<and> \<not> byte_in 0xED 0xED a \<and> continuation b \<and> continuation c then 3
      else 1)"
| "rune_width [a, b] = (if byte_in 0xC2 0xDF a \<and> continuation b then 2 else 1)"
| "rune_width _ = 1"

lemma rune_width_pos [simp]: "0 < rune_width s"
  by (cases s rule: rune_width.cases) auto

lemma rune_width_le: "s \<noteq> [] \<Longrightarrow> rune_width s \<le> length s"
  by (cases s rule: rune_width.cases) auto

function rune_count :: "string \<Rightarrow> nat" where
  "rune_count s = (if s = [] then 0 else Suc (rune_count (drop (rune_width s) s)))"
  by pat_completeness auto

termination
  by (relation "measure length") auto

declare rune_count.simps [simp del]

lemma rune_count_Nil [simp]: "rune_count [] = 0"
  by (simp add: rune_count.simps)

lemma rune_count_0 [simp]: "rune_count s = 0 \<longleftrightarrow> s = []"
  by (subst rune_count.simps) simp

lemma rune_count_le: "rune_count s \<le> length s"
proof (induction s rule: rune_count.induct)
  case (1 s)
  show ?case
  proof (cases "s = []")
    case False
    have "rune_count (drop (rune_width s) s) \<le> length s - rune_width s" using 1 False by simp
    moreover have "rune_count s = Suc (rune_count (drop (rune_width s) s))"
      using False by (subst rune_count.simps) simp
    ultimately show ?thesis using rune_width_le [OF False] rune_width_pos [of s] by linarith
  qed simp
qed

text \<open>ASCII text has as many runes as bytes.\<close>

lemma rune_width_ascii: "byte_in 0 0x7F a \<Longrightarrow> rune_width (a # s) = 1"
  by (cases "a # s" rule: rune_width.cases) (auto simp: byte_in_def)

lemma rune_count_ascii: "list_all (byte_in 0 0x7F) s \<Longrightarrow> rune_count s = length s"
  by (induction s) (simp_all add: rune_count.simps rune_width_ascii)

end
