(* ===== verification/AgentTypes.thy ===== *)
theory AgentTypes
  imports ModelTypes GoRunes GoInt GoFloat64
begin

text \<open>
  The domain of the agent runtime: \<open>inference_service/pkg/domain/errors.go\<close> and the types of
  \<open>inference_service/pkg/domain/model\<close> that agent runs use. \<open>json.RawMessage\<close> and \<open>[]byte\<close>
  are byte strings, a pointer to a struct that is never nil where it is used is the struct.
  Model status, load status, kind and serving protocol are those of \<open>ModelTypes\<close>, which the
  service's own copies repeat.
\<close>

section \<open>Errors\<close>

text \<open>
  What the code observes of a Go \<open>error\<close>: its text, the codes of the service errors it
  wraps, whether it wraps \<open>context.DeadlineExceeded\<close>, and whether the first
  \<open>net.Error\<close> it wraps is a timeout or temporary.
\<close>

record go_error =
  er_Text :: string
  er_Codes :: "string list"
  er_Deadline :: bool
  er_Net :: "bool option"

record service_error =
  se_Code :: string
  se_Message :: string

definition err_of :: "service_error \<Rightarrow> go_error" where
  "err_of e = \<lparr>er_Text = se_Message e, er_Codes = [se_Code e], er_Deadline = False, er_Net = None\<rparr>"

definition Extend :: "service_error \<Rightarrow> string \<Rightarrow> go_error" where
  "Extend e message = err_of (e\<lparr>se_Message := se_Message e @ '': '' @ message\<rparr>)"

definition errorf :: "string \<Rightarrow> go_error" where
  "errorf text = \<lparr>er_Text = text, er_Codes = [], er_Deadline = False, er_Net = None\<rparr>"

text \<open>\<open>fmt.Errorf("prefix: %w", err)\<close> and \<open>errors.Join\<close>, where nil errors are left out.\<close>

definition wrapf :: "string \<Rightarrow> go_error \<Rightarrow> go_error" where
  "wrapf prefix e = e\<lparr>er_Text := prefix @ er_Text e\<rparr>"

definition join_errors :: "go_error \<Rightarrow> go_error option \<Rightarrow> go_error" where
  "join_errors e other = (case other of None \<Rightarrow> e
     | Some f \<Rightarrow> \<lparr>er_Text = er_Text e @ CHR 0x0A # er_Text f, er_Codes = er_Codes e @ er_Codes f,
         er_Deadline = (er_Deadline e \<or> er_Deadline f),
         er_Net = (case er_Net e of None \<Rightarrow> er_Net f | Some t \<Rightarrow> Some t)\<rparr>)"

definition errors_Is :: "go_error \<Rightarrow> service_error \<Rightarrow> bool" where
  "errors_Is e target \<longleftrightarrow> se_Code target \<in> set (er_Codes e)"

definition ErrInferenceValidation :: service_error where
  "ErrInferenceValidation = \<lparr>se_Code = ''validation_failed'', se_Message = ''validation failed''\<rparr>"
definition ErrModelNotReady :: service_error where
  "ErrModelNotReady = \<lparr>se_Code = ''model_not_ready'', se_Message = ''model not ready''\<rparr>"
definition ErrDatasetNotReady :: service_error where
  "ErrDatasetNotReady = \<lparr>se_Code = ''dataset_not_ready'', se_Message = ''dataset not ready''\<rparr>"
definition ErrAgentRunNotFound :: service_error where
  "ErrAgentRunNotFound = \<lparr>se_Code = ''agent_run_not_found'', se_Message = ''agent run not found''\<rparr>"
definition ErrRetrievalFailed :: service_error where
  "ErrRetrievalFailed = \<lparr>se_Code = ''retrieval_failed'', se_Message = ''retrieval failed''\<rparr>"
definition ErrGenerationFailed :: service_error where
  "ErrGenerationFailed = \<lparr>se_Code = ''generation_failed'', se_Message = ''generation failed''\<rparr>"

lemmas service_errors = ErrInferenceValidation_def ErrModelNotReady_def ErrDatasetNotReady_def
  ErrAgentRunNotFound_def ErrRetrievalFailed_def ErrGenerationFailed_def

text \<open>\<open>%q\<close> of a text without characters that need an escape.\<close>

definition Quoted :: "string \<Rightarrow> string" where
  "Quoted s = CHR 0x22 # s @ [CHR 0x22]"

section \<open>Enumerations\<close>

datatype AgentRunStatus =
  AgentRunStatusUnknown | AgentRunStatusRunning | AgentRunStatusCompleted | AgentRunStatusFailed

fun AgentRunStatus_String :: "AgentRunStatus \<Rightarrow> string" where
  "AgentRunStatus_String AgentRunStatusRunning = ''RUNNING''"
| "AgentRunStatus_String AgentRunStatusCompleted = ''COMPLETED''"
| "AgentRunStatus_String AgentRunStatusFailed = ''FAILED''"
| "AgentRunStatus_String AgentRunStatusUnknown = ''UNKNOWN''"

definition ToAgentRunStatus :: "string \<Rightarrow> go_error + AgentRunStatus" where
  "ToAgentRunStatus value = (let v = ToUpper (TrimSpace value) in
     if v = ''RUNNING'' then Inr AgentRunStatusRunning
     else if v = ''COMPLETED'' then Inr AgentRunStatusCompleted
     else if v = ''FAILED'' then Inr AgentRunStatusFailed
     else Inl (errorf (''invalid agent run status '' @ Quoted value)))"

datatype AgentStopReason =
  AgentStopReasonUnknown | AgentStopReasonFinalAnswer | AgentStopReasonMaxSteps
| AgentStopReasonBudget | AgentStopReasonToolError | AgentStopReasonRuntimeError
| AgentStopReasonLoopDetected | AgentStopReasonDeadline | AgentStopReasonAbandoned

fun AgentStopReason_String :: "AgentStopReason \<Rightarrow> string" where
  "AgentStopReason_String AgentStopReasonFinalAnswer = ''FINAL_ANSWER''"
| "AgentStopReason_String AgentStopReasonMaxSteps = ''MAX_STEPS''"
| "AgentStopReason_String AgentStopReasonBudget = ''BUDGET_EXCEEDED''"
| "AgentStopReason_String AgentStopReasonToolError = ''TOOL_ERROR''"
| "AgentStopReason_String AgentStopReasonRuntimeError = ''RUNTIME_ERROR''"
| "AgentStopReason_String AgentStopReasonLoopDetected = ''LOOP_DETECTED''"
| "AgentStopReason_String AgentStopReasonDeadline = ''DEADLINE_EXCEEDED''"
| "AgentStopReason_String AgentStopReasonAbandoned = ''ABANDONED''"
| "AgentStopReason_String AgentStopReasonUnknown = ''UNKNOWN''"

definition ToAgentStopReason :: "string \<Rightarrow> go_error + AgentStopReason" where
  "ToAgentStopReason value = (let v = ToUpper (TrimSpace value) in
     if v = ''FINAL_ANSWER'' then Inr AgentStopReasonFinalAnswer
     else if v = ''MAX_STEPS'' then Inr AgentStopReasonMaxSteps
     else if v = ''BUDGET_EXCEEDED'' then Inr AgentStopReasonBudget
     else if v = ''TOOL_ERROR'' then Inr AgentStopReasonToolError
     else if v = ''RUNTIME_ERROR'' then Inr AgentStopReasonRuntimeError
     else if v = ''LOOP_DETECTED'' then Inr AgentStopReasonLoopDetected
     else if v = ''DEADLINE_EXCEEDED'' then Inr AgentStopReasonDeadline
     else if v = ''ABANDONED'' then Inr AgentStopReasonAbandoned
     else Inl (errorf (''invalid agent stop reason '' @ Quoted value)))"

datatype ToolErrorType =
  ToolErrorTypeUnknown | ToolErrorTypeTransient | ToolErrorTypePermanent | ToolErrorTypePolicyDenied

fun ToolErrorType_String :: "ToolErrorType \<Rightarrow> string" where
  "ToolErrorType_String ToolErrorTypeTransient = ''TRANSIENT''"
| "ToolErrorType_String ToolErrorTypePermanent = ''PERMANENT''"
| "ToolErrorType_String ToolErrorTypePolicyDenied = ''POLICY_DENIED''"
| "ToolErrorType_String ToolErrorTypeUnknown = ''UNKNOWN''"

definition ToToolErrorType :: "string \<Rightarrow> go_error + ToolErrorType" where
  "ToToolErrorType value = (let v = ToUpper (TrimSpace value) in
     if v = ''TRANSIENT'' then Inr ToolErrorTypeTransient
     else if v = ''PERMANENT'' then Inr ToolErrorTypePermanent
     else if v = ''POLICY_DENIED'' then Inr ToolErrorTypePolicyDenied
     else Inl (errorf (''invalid tool error type '' @ Quoted value)))"

datatype AgentSpecStatus =
  AgentSpecStatusUnknown | AgentSpecStatusDraft | AgentSpecStatusValidated | AgentSpecStatusPromoted
| AgentSpecStatusFailed

fun AgentSpecStatus_String :: "AgentSpecStatus \<Rightarrow> string" where
  "AgentSpecStatus_String AgentSpecStatusDraft = ''DRAFT''"
| "AgentSpecStatus_String AgentSpecStatusValidated = ''VALIDATED''"
| "AgentSpecStatus_String AgentSpecStatusPromoted = ''PROMOTED''"
| "AgentSpecStatus_String AgentSpecStatusFailed = ''FAILED''"
| "AgentSpecStatus_String AgentSpecStatusUnknown = ''UNKNOWN''"

definition ToAgentSpecStatus :: "string \<Rightarrow> go_error + AgentSpecStatus" where
  "ToAgentSpecStatus value = (let v = ToUpper (TrimSpace value) in
     if v = ''DRAFT'' then Inr AgentSpecStatusDraft
     else if v = ''VALIDATED'' then Inr AgentSpecStatusValidated
     else if v = ''PROMOTED'' then Inr AgentSpecStatusPromoted
     else if v = ''FAILED'' then Inr AgentSpecStatusFailed
     else Inl (errorf (''invalid agent spec status '' @ Quoted value)))"

datatype AgentEndpointMode = AgentEndpointModeUnknown | AgentEndpointModeRAG | AgentEndpointModeAgent

fun AgentEndpointMode_String :: "AgentEndpointMode \<Rightarrow> string" where
  "AgentEndpointMode_String AgentEndpointModeRAG = ''rag''"
| "AgentEndpointMode_String AgentEndpointModeAgent = ''agent''"
| "AgentEndpointMode_String AgentEndpointModeUnknown = ''unknown''"

definition ToAgentEndpointMode :: "string \<Rightarrow> go_error + AgentEndpointMode" where
  "ToAgentEndpointMode value = (let v = ToLower (TrimSpace value) in
     if v = ''rag'' then Inr AgentEndpointModeRAG
     else if v = ''agent'' then Inr AgentEndpointModeAgent
     else Inl (errorf (''invalid endpoint mode '' @ Quoted value)))"

datatype InferenceRequestStatus = InferenceRequestStatusCompleted | InferenceRequestStatusFailed

datatype DatasetProcessingState =
  DatasetProcessingPending | DatasetProcessingRawMaterialized | DatasetProcessingFeatureMaterialized
| DatasetProcessingEmbeddingsMaterialized | DatasetProcessingGraphMaterialized | DatasetProcessingFailed

interpretation run_status: text_enum "\<lambda>x. x \<noteq> AgentRunStatusUnknown" AgentRunStatus_String ToAgentRunStatus
proof
  show "ToAgentRunStatus (AgentRunStatus_String x) = Inr x" if "x \<noteq> AgentRunStatusUnknown" for x
    using that by (cases x; hypsubst; code_simp)
qed (auto simp: ToAgentRunStatus_def Let_def split: if_splits)

interpretation stop_reason: text_enum "\<lambda>x. x \<noteq> AgentStopReasonUnknown" AgentStopReason_String ToAgentStopReason
proof
  show "ToAgentStopReason (AgentStopReason_String x) = Inr x" if "x \<noteq> AgentStopReasonUnknown" for x
    using that by (cases x; hypsubst; code_simp)
qed (auto simp: ToAgentStopReason_def Let_def split: if_splits)

interpretation tool_error: text_enum "\<lambda>x. x \<noteq> ToolErrorTypeUnknown" ToolErrorType_String ToToolErrorType
proof
  show "ToToolErrorType (ToolErrorType_String x) = Inr x" if "x \<noteq> ToolErrorTypeUnknown" for x
    using that by (cases x; hypsubst; code_simp)
qed (auto simp: ToToolErrorType_def Let_def split: if_splits)

interpretation spec_status: text_enum "\<lambda>x. x \<noteq> AgentSpecStatusUnknown" AgentSpecStatus_String ToAgentSpecStatus
proof
  show "ToAgentSpecStatus (AgentSpecStatus_String x) = Inr x" if "x \<noteq> AgentSpecStatusUnknown" for x
    using that by (cases x; hypsubst; code_simp)
qed (auto simp: ToAgentSpecStatus_def Let_def split: if_splits)

interpretation endpoint_mode: text_enum "\<lambda>x. x \<noteq> AgentEndpointModeUnknown" AgentEndpointMode_String ToAgentEndpointMode
proof
  show "ToAgentEndpointMode (AgentEndpointMode_String x) = Inr x" if "x \<noteq> AgentEndpointModeUnknown" for x
    using that by (cases x; hypsubst; code_simp)
qed (auto simp: ToAgentEndpointMode_def Let_def split: if_splits)

section \<open>Messages to and from a model\<close>

record retrieved_context =
  rx_EmbeddingRecordID :: uuid
  rx_EmbeddingSnapshotID :: uuid
  rx_DatasetID :: uuid
  rx_ChunkIndex :: int
  rx_SourceText :: string
  rx_Distance :: f64
  rx_Similarity :: f64
  rx_RerankScore :: f64

record tool_call =
  tc_ID :: string
  tc_Name :: string
  tc_Arguments :: string

type_synonym ChatMessageRole = string

definition ChatMessageRoleSystem :: ChatMessageRole where "ChatMessageRoleSystem = ''system''"
definition ChatMessageRoleUser :: ChatMessageRole where "ChatMessageRoleUser = ''user''"
definition ChatMessageRoleAssistant :: ChatMessageRole where "ChatMessageRoleAssistant = ''assistant''"
definition ChatMessageRoleTool :: ChatMessageRole where "ChatMessageRoleTool = ''tool''"

record chat_message =
  cm_Role :: ChatMessageRole
  cm_Content :: string
  cm_ToolCallID :: string
  cm_Name :: string
  cm_ToolCalls :: "tool_call list"

record tool_spec =
  ts_Name :: string
  ts_Description :: string
  ts_Parameters :: string
  ts_ImplementationVersion :: string
  ts_Locality :: string

record token_usage =
  tu_PromptTokens :: int
  tu_CompletionTokens :: int
  tu_TotalTokens :: int

record generation_options =
  go_Temperature :: f64
  go_TopP :: f64
  go_Seed :: int
  go_MaxOutputTokens :: int

record generation_result =
  gn_Content :: string
  gn_ToolCalls :: "tool_call list"
  gn_FinishReason :: string
  gn_Usage :: token_usage
  gn_Options :: generation_options

definition empty_generation :: generation_result where
  "empty_generation = \<lparr>gn_Content = [], gn_ToolCalls = [], gn_FinishReason = [],
     gn_Usage = \<lparr>tu_PromptTokens = 0, tu_CompletionTokens = 0, tu_TotalTokens = 0\<rparr>,
     gn_Options = \<lparr>go_Temperature = 0, go_TopP = 0, go_Seed = 0, go_MaxOutputTokens = 0\<rparr>\<rparr>"

section \<open>Requests, models, datasets and endpoints\<close>

record generate_request =
  gq_RequestID :: uuid
  gq_AgentRunID :: uuid
  gq_UserID :: uuid
  gq_OrgID :: uuid
  gq_DatasetID :: uuid
  gq_ModelID :: uuid
  gq_ServingModelID :: uuid
  gq_LoraName :: string
  gq_AdapterURI :: string
  gq_QueryText :: string
  gq_TopK :: int
  gq_MetadataFilters :: "(string \<times> string) list"

record inference_model =
  im_ModelID :: uuid
  im_UserID :: uuid
  im_OrgID :: uuid
  im_TrainingRunID :: uuid
  im_DatasetID :: uuid
  im_ModelKind :: ModelKind
  im_Source :: ModelSource
  im_SourceURI :: string
  im_SourceMetadata :: string
  im_Name :: string
  im_LineageName :: string
  im_ModelVersion :: int
  im_BaseModel :: string
  im_ArtifactLocation :: string
  im_ArtifactFormat :: string
  im_ArtifactChecksum :: string
  im_ArtifactSizeBytes :: int
  im_AdapterURI :: string
  im_ServingTarget :: string
  im_ServingModel :: string
  im_ServingProtocol :: ServingProtocol
  im_ServingLoadStatus :: ModelLoadStatus
  im_EffectiveBaseID :: string
  im_MetricsMetadata :: string
  im_Status :: ModelStatus
  im_FailureReason :: string

definition empty_model :: inference_model where
  "empty_model = \<lparr>im_ModelID = uuid_nil, im_UserID = uuid_nil, im_OrgID = uuid_nil,
     im_TrainingRunID = uuid_nil, im_DatasetID = uuid_nil, im_ModelKind = [], im_Source = [],
     im_SourceURI = [], im_SourceMetadata = [], im_Name = [], im_LineageName = [], im_ModelVersion = 0,
     im_BaseModel = [], im_ArtifactLocation = [], im_ArtifactFormat = [], im_ArtifactChecksum = [],
     im_ArtifactSizeBytes = 0, im_AdapterURI = [], im_ServingTarget = [], im_ServingModel = [],
     im_ServingProtocol = ServingProtocolUnknown, im_ServingLoadStatus = ModelLoadStatusNotLoaded,
     im_EffectiveBaseID = [], im_MetricsMetadata = [], im_Status = ModelStatusPending,
     im_FailureReason = []\<rparr>"

record inference_dataset =
  id_DatasetID :: uuid
  id_UserID :: uuid
  id_OrgID :: uuid
  id_DatasetVersion :: int
  id_ProcessingState :: DatasetProcessingState
  id_StorageLocation :: string
  id_TableNamespace :: string
  id_TableName :: string
  id_TableFormat :: string
  id_CatalogProvider :: string
  id_ProcessingProfile :: string
  id_SchemaVersion :: int
  id_SchemaMetadata :: string
  id_RawSnapshotID :: uuid
  id_FeatureSnapshotID :: uuid
  id_EmbeddingSnapshotID :: uuid
  id_VectorStore :: string
  id_CollectionName :: string
  id_EmbeddingDimensions :: int
  id_EmbeddingCount :: int
  id_EmbeddingStrategyVersion :: string
  id_EmbeddingChunkerName :: string
  id_EmbeddingChunkerVersion :: string
  id_EmbeddingChunkSize :: int
  id_EmbeddingChunkOverlap :: int
  id_EmbeddingProvider :: string
  id_EmbeddingModel :: string
  id_GraphSnapshotID :: uuid
  id_GraphProvenanceHash :: string
  id_GraphNodeCount :: int
  id_GraphEdgeCount :: int

definition IsRAGReady :: "inference_dataset \<Rightarrow> bool" where
  "IsRAGReady d \<longleftrightarrow> (id_ProcessingState d = DatasetProcessingEmbeddingsMaterialized \<or>
       id_ProcessingState d = DatasetProcessingGraphMaterialized) \<and>
     id_EmbeddingSnapshotID d \<noteq> uuid_nil \<and> id_EmbeddingDimensions d > 0 \<and> id_EmbeddingCount d > 0"

definition IsGraphReady :: "inference_dataset \<Rightarrow> bool" where
  "IsGraphReady d \<longleftrightarrow> id_ProcessingState d = DatasetProcessingGraphMaterialized \<and>
     id_GraphSnapshotID d \<noteq> uuid_nil \<and> TrimSpace (id_GraphProvenanceHash d) \<noteq> []"

definition HasSupportedEmbeddingProvider :: "inference_dataset \<Rightarrow> bool" where
  "HasSupportedEmbeddingProvider d \<longleftrightarrow>
     ToLower (TrimSpace (id_EmbeddingProvider d)) \<in> {''ollama'', ''tei''}"

record inference_endpoint =
  en_EndpointID :: uuid
  en_OrgID :: uuid
  en_ModelID :: uuid
  en_ServingModelID :: uuid
  en_Mode :: AgentEndpointMode
  en_AgentSpecID :: uuid
  en_AgentSpecHash :: string
  en_DatasetIDs :: "uuid list"
  en_MergeStrategy :: string
  en_Status :: string
  en_DisplayName :: string
  en_CreatedByUserID :: uuid
  en_ChampionDecisionID :: uuid
  en_ChampionDecidedAt :: int

definition endpoint_IsReady :: "inference_endpoint \<Rightarrow> bool" where
  "endpoint_IsReady e \<longleftrightarrow> en_Status e = ''ready''"

section \<open>Agents and their runs\<close>

record agent_budgets =
  bg_MaxSteps :: int
  bg_Token :: int
  bg_WallMs :: int

record tool_binding =
  tb_Name :: string
  tb_Required :: bool
  tb_ToolChoice :: string
  tb_Config :: string

record agent_spec =
  as_AgentSpecID :: uuid
  as_OrgID :: uuid
  as_AgentLineage :: string
  as_SystemPrompt :: string
  as_SourceYAML :: string
  as_CanonicalJSON :: string
  as_SchemaVersion :: string
  as_ContentHash :: string
  as_ValidationReport :: string
  as_ModelID :: uuid
  as_ToolBindings :: "tool_binding list"
  as_RetrievalConfig :: string
  as_Budgets :: agent_budgets
  as_StopConditions :: string
  as_Guardrails :: string
  as_Status :: AgentSpecStatus
  as_CreatedAt :: int

record dataset_snapshot_ref =
  sr_DatasetID :: uuid
  sr_EmbeddingSnapshotID :: uuid
  sr_GraphSnapshotID :: uuid

record agent_run =
  ar_RunID :: uuid
  ar_OrgID :: uuid
  ar_UserID :: uuid
  ar_EndpointID :: uuid
  ar_AgentSpecHash :: string
  ar_ToolsetHash :: string
  ar_EffectiveBaseID :: string
  ar_DataSnapshotSet :: "dataset_snapshot_ref list"
  ar_DataSnapshotHash :: string
  ar_TrajectorySchemaVersion :: string
  ar_DecodingParams :: string
  ar_Status :: AgentRunStatus
  ar_StopReason :: AgentStopReason
  ar_StartedAt :: int
  ar_DeadlineAt :: int
  ar_FinishedAt :: int
  ar_TotalTokens :: int
  ar_WallMs :: int

record agent_step =
  ag_StepID :: uuid
  ag_RunID :: uuid
  ag_OrgID :: uuid
  ag_StepIndex :: int
  ag_PresentedToolSchemas :: string
  ag_GenerationResult :: string
  ag_FinishReason :: string
  ag_PromptTokens :: int
  ag_CompletionTokens :: int
  ag_CreatedAt :: int

record tool_invocation =
  ti_InvocationID :: uuid
  ti_StepID :: uuid
  ti_RunID :: uuid
  ti_OrgID :: uuid
  ti_ToolName :: string
  ti_ToolImplVersion :: string
  ti_Arguments :: string
  ti_Result :: string
  ti_ErrorType :: ToolErrorType
  ti_LatencyMs :: int
  ti_CreatedAt :: int

record agent_trajectory =
  tj_Run :: agent_run
  tj_Steps :: "agent_step list"
  tj_ToolInvocations :: "tool_invocation list"

record tool_result =
  tr_InvocationID :: uuid
  tr_CallID :: string
  tr_Name :: string
  tr_Content :: string
  tr_Contexts :: "retrieved_context list"
  tr_IsError :: bool
  tr_ErrorType :: ToolErrorType
  tr_ToolImplVersion :: string
  tr_TokenEstimate :: int

definition empty_tool_result :: tool_result where
  "empty_tool_result = \<lparr>tr_InvocationID = uuid_nil, tr_CallID = [], tr_Name = [], tr_Content = [],
     tr_Contexts = [], tr_IsError = False, tr_ErrorType = ToolErrorTypeUnknown, tr_ToolImplVersion = [],
     tr_TokenEstimate = 0\<rparr>"

record agent_session =
  sn_RunID :: uuid
  sn_OrgID :: uuid
  sn_UserID :: uuid
  sn_Endpoint :: inference_endpoint
  sn_Spec :: agent_spec
  sn_Model :: inference_model
  sn_Datasets :: "inference_dataset list"
  sn_DataSnapshotSet :: "dataset_snapshot_ref list"
  sn_LoraName :: string
  sn_AdapterURI :: string
  sn_Messages :: "chat_message list"
  sn_ResolvedToolSpecs :: "tool_spec list"
  sn_ToolsetHash :: string
  sn_DecodingOptions :: generation_options
  sn_TotalTokens :: int

record agent_result =
  al_RequestID :: uuid
  al_RunID :: uuid
  al_Answer :: string
  al_Contexts :: "retrieved_context list"
  al_StopReason :: AgentStopReason
  al_Steps :: int

text \<open>The requests to the ports of \<open>inference_service/pkg/app/ports.go\<close> and to a generator.\<close>

record generation_request =
  gr_RequestID :: uuid
  gr_Model :: inference_model
  gr_Query :: string
  gr_Messages :: "chat_message list"
  gr_Tools :: "tool_spec list"
  gr_ToolChoice :: string
  gr_Options :: generation_options
  gr_LoraName :: string
  gr_AdapterURI :: string

record tool_resolution =
  tq_OrgID :: uuid
  tq_UserID :: uuid
  tq_Spec :: agent_spec
  tq_Datasets :: "inference_dataset list"

record tool_invocation_context =
  tv_OrgID :: uuid
  tv_UserID :: uuid
  tv_RunID :: uuid
  tv_InvocationID :: uuid
  tv_Datasets :: "inference_dataset list"

end
