(* ===== verification/AgentTrajectory.thy ===== *)
theory AgentTrajectory
  imports AgentTypes
begin

text \<open>
  The tables of agent runs and the statements on them:
  \<open>inference_service/pkg/infra/repo/db/agent_trajectory_repository.go\<close>, with the constraints
  and row policies of \<open>inference_service/db/migrations\<close>.

  Times are microseconds since the epoch, and a NULL \<open>finished_at\<close> reads as the epoch. A
  nullable UUID is NULL exactly when the Go field is \<open>uuid.Nil\<close>. \<open>jsonb\<close> is the
  server's reading of a JSON text: what it is and its normal form. The list of dataset
  snapshots is stored as the list its JSON encodes. What the clock, the server's random ids
  and the connection decide is in \<open>traj_env\<close>. Rows with equal sort keys keep the order of
  insertion.
\<close>

section \<open>Tables\<close>

datatype json_kind = JsonObject | JsonArray | JsonScalar

record traj_env =
  tn_now :: int
  tn_fresh :: uuid
  tn_error :: "go_error option"
  tn_refused :: string
  tn_valid :: "string \<Rightarrow> bool"
  tn_jsonb :: "string \<Rightarrow> (json_kind \<times> string) option"

record trajectory_tables =
  tt_tenants :: "uuid list"
  tt_endpoints :: "uuid list"
  tt_runs :: "agent_run list"
  tt_steps :: "agent_step list"
  tt_invocations :: "tool_invocation list"

definition btrim :: "string \<Rightarrow> string" where
  "btrim s = rev (dropWhile (\<lambda>c. c = CHR '' '') (rev (dropWhile (\<lambda>c. c = CHR '' '') s)))"

definition payload_ok :: "traj_env \<Rightarrow> json_kind \<Rightarrow> string \<Rightarrow> bool" where
  "payload_ok env kind text = (case tn_jsonb env text of None \<Rightarrow> False
     | Some (k, v) \<Rightarrow> k = kind \<and> (kind = JsonObject \<longrightarrow> v \<noteq> ''{}''))"

definition jsonb_text :: "traj_env \<Rightarrow> string \<Rightarrow> string" where
  "jsonb_text env text = (case tn_jsonb env text of None \<Rightarrow> [] | Some (_, v) \<Rightarrow> v)"

section \<open>Arguments of the statements\<close>

definition requiredJSONRawMessage :: "traj_env \<Rightarrow> string \<Rightarrow> string \<Rightarrow> go_error + string" where
  "requiredJSONRawMessage env value field = (let trimmed = TrimSpace value in
     if trimmed = [] then Inl (Extend ErrInferenceValidation (field @ '' is required''))
     else if \<not> tn_valid env trimmed
     then Inl (Extend ErrInferenceValidation (field @ '' must contain valid JSON''))
     else Inr trimmed)"

definition requiredAgentString :: "string \<Rightarrow> string \<Rightarrow> go_error + string" where
  "requiredAgentString value field = (let trimmed = TrimSpace value in
     if trimmed = [] then Inl (Extend ErrInferenceValidation (field @ '' is required'')) else Inr trimmed)"

text \<open>A UUID's text sorts as its 128 bits do.\<close>

definition agentDataSnapshotSetJSON :: "dataset_snapshot_ref list \<Rightarrow> go_error + dataset_snapshot_ref list" where
  "agentDataSnapshotSetJSON refs =
     (if refs = [] then Inl (Extend ErrInferenceValidation ''data_snapshot_set is required'')
      else case find (\<lambda>r. sr_DatasetID r = uuid_nil \<or> sr_EmbeddingSnapshotID r = uuid_nil) refs of
        Some r \<Rightarrow> Inl (Extend ErrInferenceValidation (if sr_DatasetID r = uuid_nil
          then ''data_snapshot_set dataset_id is required''
          else ''data_snapshot_set embedding_snapshot_id is required''))
      | None \<Rightarrow> Inr (sort_key sr_DatasetID refs))"

definition agentRunArgs :: "traj_env \<Rightarrow> agent_run \<Rightarrow> go_error + agent_run" where
  "agentRunArgs env run =
     (case requiredJSONRawMessage env (ar_DecodingParams run) ''decoding_params'' of Inl e \<Rightarrow> Inl e
      | Inr params \<Rightarrow> (case requiredAgentString (ar_EffectiveBaseID run) ''effective_base_id'' of Inl e \<Rightarrow> Inl e
      | Inr base \<Rightarrow> (case agentDataSnapshotSetJSON (ar_DataSnapshotSet run) of Inl e \<Rightarrow> Inl e
      | Inr snapshots \<Rightarrow> (case requiredAgentString (ar_DataSnapshotHash run) ''data_snapshot_hash'' of Inl e \<Rightarrow> Inl e
      | Inr hash \<Rightarrow> Inr (run\<lparr>ar_DecodingParams := params, ar_EffectiveBaseID := base,
          ar_DataSnapshotSet := snapshots, ar_DataSnapshotHash := hash\<rparr>)))))"

definition agentStepArgs :: "traj_env \<Rightarrow> agent_step \<Rightarrow> go_error + agent_step" where
  "agentStepArgs env st =
     (case requiredJSONRawMessage env (ag_PresentedToolSchemas st) ''presented_tool_schemas'' of Inl e \<Rightarrow> Inl e
      | Inr schemas \<Rightarrow> (case requiredJSONRawMessage env (ag_GenerationResult st) ''generation_result'' of Inl e \<Rightarrow> Inl e
      | Inr result \<Rightarrow> Inr (st\<lparr>ag_PresentedToolSchemas := schemas, ag_GenerationResult := result\<rparr>)))"

definition agentToolInvocationArgs :: "traj_env \<Rightarrow> tool_invocation \<Rightarrow> go_error + tool_invocation" where
  "agentToolInvocationArgs env v =
     (case requiredJSONRawMessage env (ti_Arguments v) ''arguments'' of Inl e \<Rightarrow> Inl e
      | Inr arguments \<Rightarrow> (case requiredJSONRawMessage env (ti_Result v) ''result'' of Inl e \<Rightarrow> Inl e
      | Inr result \<Rightarrow> Inr (v\<lparr>ti_Arguments := arguments, ti_Result := result\<rparr>)))"

section \<open>Runs\<close>

text \<open>The constraint \<open>agent_runs_tuple_ck\<close>, the NOT NULL columns, the enumerations and the column widths.\<close>

definition run_checks :: "traj_env \<Rightarrow> agent_run \<Rightarrow> bool" where
  "run_checks env run \<longleftrightarrow> ar_OrgID run \<noteq> uuid_nil \<and> ar_UserID run \<noteq> uuid_nil \<and>
     btrim (ar_AgentSpecHash run) \<noteq> [] \<and> btrim (ar_ToolsetHash run) \<noteq> [] \<and>
     btrim (ar_EffectiveBaseID run) \<noteq> [] \<and> btrim (ar_DataSnapshotHash run) \<noteq> [] \<and>
     btrim (ar_TrajectorySchemaVersion run) \<noteq> [] \<and>
     payload_ok env JsonObject (ar_DecodingParams run) \<and> ar_Status run \<noteq> AgentRunStatusUnknown \<and>
     1000 \<le> ar_WallMs run \<and> in_i32 (ar_WallMs run) \<and> in_i32 (ar_TotalTokens run)"

definition refused :: "traj_env \<Rightarrow> string \<Rightarrow> go_error" where
  "refused env what = wrapf (what @ '': '') (errorf (tn_refused env))"

definition run_foreign_keys :: "agent_run \<Rightarrow> trajectory_tables \<Rightarrow> bool" where
  "run_foreign_keys run t \<longleftrightarrow> ar_UserID run \<in> set (tt_tenants t) \<and>
     (ar_EndpointID run = uuid_nil \<or> ar_EndpointID run \<in> set (tt_endpoints t))"

definition inserted_run :: "traj_env \<Rightarrow> agent_run \<Rightarrow> agent_run" where
  "inserted_run env run = run\<lparr>ar_RunID := (if ar_RunID run = uuid_nil then tn_fresh env else ar_RunID run),
     ar_DecodingParams := jsonb_text env (ar_DecodingParams run), ar_StartedAt := tn_now env,
     ar_DeadlineAt := tn_now env + ar_WallMs run * 1000, ar_FinishedAt := 0\<rparr>"

definition set_run_outcome :: "traj_env \<Rightarrow> agent_run \<Rightarrow> agent_run \<Rightarrow> agent_run" where
  "set_run_outcome env run r = r\<lparr>ar_Status := ar_Status run, ar_StopReason := ar_StopReason run,
     ar_FinishedAt := (if ar_Status run = AgentRunStatusRunning then 0 else tn_now env),
     ar_TotalTokens := ar_TotalTokens run, ar_ToolsetHash := ar_ToolsetHash run,
     ar_EffectiveBaseID := ar_EffectiveBaseID run, ar_DataSnapshotSet := ar_DataSnapshotSet run,
     ar_DataSnapshotHash := ar_DataSnapshotHash run\<rparr>"

definition scanReturnedAgentRunIdentity :: "agent_run \<Rightarrow> agent_run \<Rightarrow> agent_run" where
  "scanReturnedAgentRunIdentity row target = target\<lparr>ar_RunID := ar_RunID row,
     ar_StartedAt := ar_StartedAt row, ar_DeadlineAt := ar_DeadlineAt row\<rparr>"

definition updateAgentRun ::
  "traj_env \<Rightarrow> session \<Rightarrow> agent_run \<Rightarrow> trajectory_tables \<Rightarrow> (go_error + agent_run) \<times> trajectory_tables" where
  "updateAgentRun env s run t = (case agentRunArgs env run of Inl e \<Rightarrow> (Inl e, t)
     | Inr args \<Rightarrow> (case tn_error env of Some e \<Rightarrow> (Inl (wrapf ''record agent run: '' e), t)
     | None \<Rightarrow>
        (if ar_Status run = AgentRunStatusUnknown \<or> \<not> in_i32 (ar_TotalTokens run)
         then (Inl (refused env ''record agent run''), t)
         else case find (\<lambda>r. ar_RunID r = ar_RunID run) (tt_runs t) of
           None \<Rightarrow> (Inl (refused env ''record agent run''), t)
         | Some old \<Rightarrow>
             if ar_OrgID old \<noteq> ar_OrgID run \<or> \<not> org_visible s (ar_OrgID old) \<or>
                btrim (ar_ToolsetHash run) = []
             then (Inl (refused env ''record agent run''), t)
             else (Inr (scanReturnedAgentRunIdentity old run),
               t\<lparr>tt_runs := update_where (\<lambda>r. ar_RunID r = ar_RunID run) (set_run_outcome env args) (tt_runs t)\<rparr>))))"

definition RecordAgentRun ::
  "traj_env \<Rightarrow> session \<Rightarrow> agent_run \<Rightarrow> trajectory_tables \<Rightarrow> (go_error + agent_run) \<times> trajectory_tables" where
  "RecordAgentRun env s run t =
     (if ar_RunID run \<noteq> uuid_nil \<and> ar_Status run \<noteq> AgentRunStatusRunning then updateAgentRun env s run t
      else case agentRunArgs env run of Inl e \<Rightarrow> (Inl e, t)
      | Inr args \<Rightarrow> (case tn_error env of Some e \<Rightarrow> (Inl (wrapf ''record agent run: '' e), t)
      | None \<Rightarrow>
          (let row = inserted_run env args in
           if \<not> run_checks env args \<or> \<not> org_visible s (ar_OrgID args)
           then (Inl (refused env ''record agent run''), t)
           else case find (\<lambda>r. ar_RunID r = ar_RunID row) (tt_runs t) of
             Some old \<Rightarrow> if org_visible s (ar_OrgID old) then (Inr (scanReturnedAgentRunIdentity old run), t)
               else (Inl (refused env ''record agent run''), t)
           | None \<Rightarrow> if run_foreign_keys args t
               then (Inr (scanReturnedAgentRunIdentity row run), t\<lparr>tt_runs := tt_runs t @ [row]\<rparr>)
               else (Inl (Extend ErrModelNotReady ''tenant or endpoint projection is not ready''), t))))"

definition FailExpiredAgentRuns ::
  "traj_env \<Rightarrow> int \<Rightarrow> trajectory_tables \<Rightarrow> (go_error + int) \<times> trajectory_tables" where
  "FailExpiredAgentRuns env graceMs t = (case tn_error env of
     Some e \<Rightarrow> (Inl (wrapf ''fail expired agent runs: '' e), t)
   | None \<Rightarrow> (let expired = (\<lambda>r. ar_Status r = AgentRunStatusRunning \<and> ar_DeadlineAt r < tn_now env - graceMs * 1000)
       in (Inr (int (length (filter expired (tt_runs t)))),
           t\<lparr>tt_runs := update_where expired (\<lambda>r. r\<lparr>ar_Status := AgentRunStatusFailed,
             ar_StopReason := AgentStopReasonAbandoned, ar_FinishedAt := tn_now env\<rparr>) (tt_runs t)\<rparr>)))"

section \<open>Steps and tool invocations\<close>

definition step_checks :: "traj_env \<Rightarrow> agent_step \<Rightarrow> bool" where
  "step_checks env st \<longleftrightarrow> ag_RunID st \<noteq> uuid_nil \<and> ag_OrgID st \<noteq> uuid_nil \<and>
     payload_ok env JsonArray (ag_PresentedToolSchemas st) \<and> payload_ok env JsonObject (ag_GenerationResult st) \<and>
     in_i32 (ag_StepIndex st) \<and> in_i32 (ag_PromptTokens st) \<and> in_i32 (ag_CompletionTokens st)"

definition inserted_step :: "traj_env \<Rightarrow> agent_step \<Rightarrow> agent_step" where
  "inserted_step env st = st\<lparr>ag_StepID := tn_fresh env,
     ag_PresentedToolSchemas := jsonb_text env (ag_PresentedToolSchemas st),
     ag_GenerationResult := jsonb_text env (ag_GenerationResult st), ag_CreatedAt := tn_now env\<rparr>"

definition set_step_content :: "traj_env \<Rightarrow> agent_step \<Rightarrow> agent_step \<Rightarrow> agent_step" where
  "set_step_content env st r = r\<lparr>
     ag_PresentedToolSchemas := jsonb_text env (ag_PresentedToolSchemas st),
     ag_GenerationResult := jsonb_text env (ag_GenerationResult st), ag_FinishReason := ag_FinishReason st,
     ag_PromptTokens := ag_PromptTokens st, ag_CompletionTokens := ag_CompletionTokens st\<rparr>"

definition same_step :: "agent_step \<Rightarrow> agent_step \<Rightarrow> bool" where
  "same_step st r \<longleftrightarrow> ag_RunID r = ag_RunID st \<and> ag_StepIndex r = ag_StepIndex st"

definition scanReturnedAgentStepIdentity :: "agent_step \<Rightarrow> agent_step \<Rightarrow> agent_step" where
  "scanReturnedAgentStepIdentity row target = target\<lparr>ag_StepID := ag_StepID row, ag_CreatedAt := ag_CreatedAt row\<rparr>"

definition RecordAgentStep ::
  "traj_env \<Rightarrow> session \<Rightarrow> agent_step \<Rightarrow> trajectory_tables \<Rightarrow> (go_error + agent_step) \<times> trajectory_tables" where
  "RecordAgentStep env s st t = (case agentStepArgs env st of Inl e \<Rightarrow> (Inl e, t)
     | Inr args \<Rightarrow> (case tn_error env of Some e \<Rightarrow> (Inl (wrapf ''record agent step: '' e), t)
     | None \<Rightarrow>
         if \<not> step_checks env args \<or> \<not> org_visible s (ag_OrgID args)
         then (Inl (refused env ''record agent step''), t)
         else (case find (same_step st) (tt_steps t) of
           Some old \<Rightarrow> if org_visible s (ag_OrgID old)
             then (Inr (scanReturnedAgentStepIdentity old st),
               t\<lparr>tt_steps := update_where (same_step st) (set_step_content env args) (tt_steps t)\<rparr>)
             else (Inl (refused env ''record agent step''), t)
         | None \<Rightarrow> if ag_RunID args \<in> set (map ar_RunID (tt_runs t)) \<and>
               tn_fresh env \<notin> set (map ag_StepID (tt_steps t))
             then (Inr (scanReturnedAgentStepIdentity (inserted_step env args) st),
               t\<lparr>tt_steps := tt_steps t @ [inserted_step env args]\<rparr>)
             else (Inl (refused env ''record agent step''), t))))"

definition invocation_checks :: "traj_env \<Rightarrow> tool_invocation \<Rightarrow> bool" where
  "invocation_checks env v \<longleftrightarrow> ti_StepID v \<noteq> uuid_nil \<and> ti_RunID v \<noteq> uuid_nil \<and> ti_OrgID v \<noteq> uuid_nil \<and>
     payload_ok env JsonObject (ti_Arguments v) \<and> payload_ok env JsonObject (ti_Result v)"

definition inserted_invocation :: "traj_env \<Rightarrow> tool_invocation \<Rightarrow> tool_invocation" where
  "inserted_invocation env v = v\<lparr>
     ti_InvocationID := (if ti_InvocationID v = uuid_nil then tn_fresh env else ti_InvocationID v),
     ti_Arguments := jsonb_text env (ti_Arguments v), ti_Result := jsonb_text env (ti_Result v),
     ti_CreatedAt := tn_now env\<rparr>"

definition set_invocation :: "traj_env \<Rightarrow> tool_invocation \<Rightarrow> tool_invocation \<Rightarrow> tool_invocation" where
  "set_invocation env v r = (inserted_invocation env v)\<lparr>ti_InvocationID := ti_InvocationID r,
     ti_CreatedAt := ti_CreatedAt r\<rparr>"

definition scanReturnedAgentToolInvocationIdentity :: "tool_invocation \<Rightarrow> tool_invocation \<Rightarrow> tool_invocation" where
  "scanReturnedAgentToolInvocationIdentity row target = target\<lparr>ti_InvocationID := ti_InvocationID row,
     ti_CreatedAt := ti_CreatedAt row\<rparr>"

definition RecordToolInvocation ::
  "traj_env \<Rightarrow> session \<Rightarrow> tool_invocation \<Rightarrow> trajectory_tables \<Rightarrow>
   (go_error + tool_invocation) \<times> trajectory_tables" where
  "RecordToolInvocation env s v t = (case agentToolInvocationArgs env v of Inl e \<Rightarrow> (Inl e, t)
     | Inr args \<Rightarrow> (case tn_error env of Some e \<Rightarrow> (Inl (wrapf ''record agent tool invocation: '' e), t)
     | None \<Rightarrow>
         let row = inserted_invocation env args in
         if \<not> invocation_checks env args \<or> \<not> org_visible s (ti_OrgID args) \<or>
            ti_StepID args \<notin> set (map ag_StepID (tt_steps t)) \<or> ti_RunID args \<notin> set (map ar_RunID (tt_runs t))
         then (Inl (refused env ''record agent tool invocation''), t)
         else (case find (\<lambda>r. ti_InvocationID r = ti_InvocationID row) (tt_invocations t) of
           Some old \<Rightarrow> if org_visible s (ti_OrgID old)
             then (Inr (scanReturnedAgentToolInvocationIdentity old v),
               t\<lparr>tt_invocations := update_where (\<lambda>r. ti_InvocationID r = ti_InvocationID row)
                 (set_invocation env args) (tt_invocations t)\<rparr>)
             else (Inl (refused env ''record agent tool invocation''), t)
         | None \<Rightarrow> (Inr (scanReturnedAgentToolInvocationIdentity row v),
             t\<lparr>tt_invocations := tt_invocations t @ [row]\<rparr>))))"

section \<open>Reading\<close>

definition parseAgentUUID :: "uuid \<Rightarrow> string \<Rightarrow> go_error + uuid" where
  "parseAgentUUID v field = (if v = uuid_nil then Inl (errorf (''parse '' @ field @ '': nil uuid'')) else Inr v)"

definition parseOptionalAgentUUID :: "uuid \<Rightarrow> string \<Rightarrow> go_error + uuid" where
  "parseOptionalAgentUUID v field = Inr v"

fun parseAgentDataSnapshotSet :: "dataset_snapshot_ref list \<Rightarrow> go_error + dataset_snapshot_ref list" where
  "parseAgentDataSnapshotSet [] = Inr []"
| "parseAgentDataSnapshotSet (r # rs) =
     (case parseAgentUUID (sr_DatasetID r) ''data_snapshot_set.dataset_id'' of Inl e \<Rightarrow> Inl e
      | Inr d \<Rightarrow> (case parseAgentUUID (sr_EmbeddingSnapshotID r) ''data_snapshot_set.embedding_snapshot_id'' of
          Inl e \<Rightarrow> Inl e
        | Inr m \<Rightarrow> (case parseAgentDataSnapshotSet rs of Inl e \<Rightarrow> Inl e
            | Inr refs \<Rightarrow> Inr (\<lparr>sr_DatasetID = d, sr_EmbeddingSnapshotID = m,
                sr_GraphSnapshotID = sr_GraphSnapshotID r\<rparr> # refs))))"

text \<open>
  A scan of a row: ids must not be nil, and the text of an enumeration must parse. The stop
  reason of a running agent is NULL, which reads as the empty text.
\<close>

definition stop_reason_column :: "AgentStopReason \<Rightarrow> string" where
  "stop_reason_column r = (if r = AgentStopReasonUnknown then [] else AgentStopReason_String r)"

definition error_type_column :: "ToolErrorType \<Rightarrow> string" where
  "error_type_column e = (if e = ToolErrorTypeUnknown then [] else ToolErrorType_String e)"

definition scanAgentRun :: "agent_run \<Rightarrow> go_error + agent_run" where
  "scanAgentRun row =
     (case parseAgentUUID (ar_RunID row) ''run_id'' of Inl e \<Rightarrow> Inl e | Inr run \<Rightarrow>
     (case parseAgentUUID (ar_OrgID row) ''org_id'' of Inl e \<Rightarrow> Inl e | Inr org \<Rightarrow>
     (case parseAgentUUID (ar_UserID row) ''user_id'' of Inl e \<Rightarrow> Inl e | Inr user \<Rightarrow>
     (case parseOptionalAgentUUID (ar_EndpointID row) ''endpoint_id'' of Inl e \<Rightarrow> Inl e | Inr endpoint \<Rightarrow>
     (case ToAgentRunStatus (AgentRunStatus_String (ar_Status row)) of Inl e \<Rightarrow> Inl e | Inr status \<Rightarrow>
     (case (if stop_reason_column (ar_StopReason row) = [] then Inr AgentStopReasonUnknown
            else ToAgentStopReason (stop_reason_column (ar_StopReason row))) of Inl e \<Rightarrow> Inl e | Inr reason \<Rightarrow>
     (case parseAgentDataSnapshotSet (ar_DataSnapshotSet row) of Inl e \<Rightarrow> Inl e | Inr snapshots \<Rightarrow>
       Inr (row\<lparr>ar_RunID := run, ar_OrgID := org, ar_UserID := user, ar_EndpointID := endpoint,
         ar_Status := status, ar_StopReason := reason, ar_DataSnapshotSet := snapshots\<rparr>))))))))"

definition scanAgentStep :: "agent_step \<Rightarrow> go_error + agent_step" where
  "scanAgentStep row =
     (case parseAgentUUID (ag_StepID row) ''step_id'' of Inl e \<Rightarrow> Inl e | Inr st \<Rightarrow>
     (case parseAgentUUID (ag_RunID row) ''run_id'' of Inl e \<Rightarrow> Inl e | Inr run \<Rightarrow>
     (case parseAgentUUID (ag_OrgID row) ''org_id'' of Inl e \<Rightarrow> Inl e | Inr org \<Rightarrow>
       Inr (row\<lparr>ag_StepID := st, ag_RunID := run, ag_OrgID := org\<rparr>))))"

definition scanAgentToolInvocation :: "tool_invocation \<Rightarrow> go_error + tool_invocation" where
  "scanAgentToolInvocation row =
     (case parseAgentUUID (ti_InvocationID row) ''invocation_id'' of Inl e \<Rightarrow> Inl e | Inr i \<Rightarrow>
     (case parseAgentUUID (ti_StepID row) ''step_id'' of Inl e \<Rightarrow> Inl e | Inr st \<Rightarrow>
     (case parseAgentUUID (ti_RunID row) ''run_id'' of Inl e \<Rightarrow> Inl e | Inr run \<Rightarrow>
     (case parseAgentUUID (ti_OrgID row) ''org_id'' of Inl e \<Rightarrow> Inl e | Inr org \<Rightarrow>
     (case (if error_type_column (ti_ErrorType row) = [] then Inr ToolErrorTypeUnknown
            else ToToolErrorType (error_type_column (ti_ErrorType row))) of Inl e \<Rightarrow> Inl e | Inr type \<Rightarrow>
       Inr (row\<lparr>ti_InvocationID := i, ti_StepID := st, ti_RunID := run, ti_OrgID := org,
         ti_ErrorType := type\<rparr>))))))"

text \<open>The loop over the rows of a result.\<close>

fun scan_rows :: "string \<Rightarrow> ('a \<Rightarrow> go_error + 'a) \<Rightarrow> 'a list \<Rightarrow> go_error + 'a list" where
  "scan_rows what scan [] = Inr []"
| "scan_rows what scan (r # rs) = (case scan r of Inl e \<Rightarrow> Inl (wrapf what e)
     | Inr x \<Rightarrow> (case scan_rows what scan rs of Inl e \<Rightarrow> Inl e | Inr xs \<Rightarrow> Inr (x # xs)))"

definition readAgentRun ::
  "traj_env \<Rightarrow> session \<Rightarrow> uuid \<Rightarrow> uuid \<Rightarrow> trajectory_tables \<Rightarrow> go_error + agent_run" where
  "readAgentRun env s org runID t = (case tn_error env of Some e \<Rightarrow> Inl (wrapf ''read agent run: '' e)
     | None \<Rightarrow> (case find (\<lambda>r. ar_RunID r = runID \<and> ar_OrgID r = org \<and> org_visible s org) (tt_runs t) of
         None \<Rightarrow> Inl (err_of ErrAgentRunNotFound)
       | Some row \<Rightarrow> (case scanAgentRun row of Inl e \<Rightarrow> Inl (wrapf ''read agent run: '' e) | Inr run \<Rightarrow> Inr run)))"

definition readAgentSteps ::
  "traj_env \<Rightarrow> session \<Rightarrow> uuid \<Rightarrow> uuid \<Rightarrow> trajectory_tables \<Rightarrow> go_error + agent_step list" where
  "readAgentSteps env s org runID t = (case tn_error env of Some e \<Rightarrow> Inl (wrapf ''read agent steps: '' e)
     | None \<Rightarrow> scan_rows ''scan agent step: '' scanAgentStep (sort_key ag_StepIndex
         (filter (\<lambda>r. ag_RunID r = runID \<and> ag_OrgID r = org \<and> org_visible s org) (tt_steps t))))"

definition readAgentToolInvocations ::
  "traj_env \<Rightarrow> session \<Rightarrow> uuid \<Rightarrow> uuid \<Rightarrow> trajectory_tables \<Rightarrow> go_error + tool_invocation list" where
  "readAgentToolInvocations env s org runID t = (case tn_error env of
       Some e \<Rightarrow> Inl (wrapf ''read agent tool invocations: '' e)
     | None \<Rightarrow> scan_rows ''scan agent tool invocation: '' scanAgentToolInvocation (sort_key ti_CreatedAt
         (filter (\<lambda>r. ti_RunID r = runID \<and> ti_OrgID r = org \<and> org_visible s org) (tt_invocations t))))"

definition ReadAgentTrajectory ::
  "traj_env \<Rightarrow> session \<Rightarrow> uuid \<Rightarrow> uuid \<Rightarrow> trajectory_tables \<Rightarrow> go_error + agent_trajectory" where
  "ReadAgentTrajectory env s org runID t = (case readAgentRun env s org runID t of Inl e \<Rightarrow> Inl e
     | Inr run \<Rightarrow> (case readAgentSteps env s org runID t of Inl e \<Rightarrow> Inl e
     | Inr steps \<Rightarrow> (case readAgentToolInvocations env s org runID t of Inl e \<Rightarrow> Inl e
     | Inr invocations \<Rightarrow> Inr \<lparr>tj_Run = run, tj_Steps = steps, tj_ToolInvocations = invocations\<rparr>)))"

end
