(* ===== verification/AgentRecording.thy ===== *)
theory AgentRecording
  imports AgentTrajectory "HOL-Library.List_Lexorder" "HOL-Library.Char_ord" "HOL-Library.Product_Lexorder"
begin

text \<open>
  What an agent run leaves behind: \<open>inference_service/pkg/app/agent_trajectory.go\<close>. A run acts
  on \<open>agent_world\<close>: the trajectory tables, the user events it published, and the requests it
  made to the model, to the tools and for a new workflow.

  \<open>agent_usecase\<close> holds what the process is built with. Everything outside the process (the
  database, the model, the tools, the clock) answers as a function of \<open>aw_tick\<close>, the number
  of interactions so far, so a theorem over all \<open>agent_usecase\<close> holds for every behaviour of
  the outside. JSON, hashes and the text of a UUID are libraries, in \<open>agent_codec\<close>.
  Publishing a user event cannot fail a run: an error is logged.
\<close>

section \<open>Encodings\<close>

record hashed_tool =
  ht_Name :: string
  ht_Description :: string
  ht_Parameters :: string
  ht_Locality :: string
  ht_ImplementationVersion :: string

record tool_result_dto =
  td_Result :: tool_result
  td_ErrorType :: string

record agent_codec =
  ac_options :: "generation_options \<Rightarrow> go_error + string"
  ac_generation :: "generation_result \<Rightarrow> go_error + string"
  ac_parse_generation :: "string \<Rightarrow> go_error + generation_result"
  ac_tool_result :: "tool_result_dto \<Rightarrow> go_error + string"
  ac_parse_tool_result :: "string \<Rightarrow> go_error + tool_result_dto"
  ac_schemas :: "(string \<times> string \<times> string) list \<Rightarrow> go_error + string"
  ac_parameters :: "string \<Rightarrow> go_error + string"
  ac_tools :: "hashed_tool list \<Rightarrow> go_error + string"
  ac_snapshots :: "dataset_snapshot_ref list \<Rightarrow> go_error + string"
  ac_filters :: "(string \<times> string) list \<Rightarrow> go_error + string"
  ac_ids :: "string list \<Rightarrow> go_error + string"
  ac_contexts :: "retrieved_context list \<Rightarrow> go_error + string"
  ac_SHA256String :: "string \<Rightarrow> string"
  ac_NewSHA1 :: "string \<Rightarrow> uuid"
  ac_uuid :: "uuid \<Rightarrow> string"

definition agentDecodingOptionsJSON :: "agent_codec \<Rightarrow> generation_options \<Rightarrow> go_error + string" where
  "agentDecodingOptionsJSON cd options = ac_options cd \<lparr>go_Temperature = go_Temperature options,
     go_TopP = go_TopP options, go_Seed = go_Seed options, go_MaxOutputTokens = go_MaxOutputTokens options\<rparr>"

definition agentGenerationResultJSON :: "agent_codec \<Rightarrow> generation_result \<Rightarrow> go_error + string" where
  "agentGenerationResultJSON cd r = ac_generation cd \<lparr>gn_Content = gn_Content r,
     gn_ToolCalls = map (\<lambda>c. \<lparr>tc_ID = tc_ID c, tc_Name = tc_Name c, tc_Arguments = tc_Arguments c\<rparr>) (gn_ToolCalls r),
     gn_FinishReason = gn_FinishReason r, gn_Usage = gn_Usage r, gn_Options = gn_Options r\<rparr>"

definition agentGenerationResultFromJSON :: "agent_codec \<Rightarrow> string \<Rightarrow> go_error + generation_result" where
  "agentGenerationResultFromJSON cd text = ac_parse_generation cd text"

definition agentToolResultJSON :: "agent_codec \<Rightarrow> tool_result \<Rightarrow> go_error + string" where
  "agentToolResultJSON cd r = ac_tool_result cd \<lparr>td_Result = r\<lparr>tr_ErrorType := ToolErrorTypeUnknown\<rparr>,
     td_ErrorType = ToolErrorType_String (tr_ErrorType r)\<rparr>"

definition agentToolResultFromJSON :: "agent_codec \<Rightarrow> string \<Rightarrow> go_error + tool_result" where
  "agentToolResultFromJSON cd text = (case ac_parse_tool_result cd text of Inl e \<Rightarrow> Inl e
     | Inr dto \<Rightarrow>
        (if TrimSpace (td_ErrorType dto) \<noteq> [] \<and>
            TrimSpace (td_ErrorType dto) \<noteq> ToolErrorType_String ToolErrorTypeUnknown
         then (case ToToolErrorType (td_ErrorType dto) of Inl e \<Rightarrow> Inl e
           | Inr type \<Rightarrow> Inr ((td_Result dto)\<lparr>tr_ErrorType := type\<rparr>))
         else Inr ((td_Result dto)\<lparr>tr_ErrorType := ToolErrorTypeUnknown\<rparr>)))"

definition agentPresentedToolSchemas :: "agent_codec \<Rightarrow> tool_spec list \<Rightarrow> go_error + string" where
  "agentPresentedToolSchemas cd tools = ac_schemas cd (map (\<lambda>t. (ts_Name t, ts_Description t,
     if ts_Parameters t = [] then ''{}'' else ts_Parameters t)) tools)"

fun hashed_tools :: "agent_codec \<Rightarrow> tool_spec list \<Rightarrow> go_error + hashed_tool list" where
  "hashed_tools cd [] = Inr []"
| "hashed_tools cd (t # ts) =
     (case (if ts_Parameters t = [] then Inr ''{}'' else ac_parameters cd (ts_Parameters t)) of
        Inl e \<Rightarrow> Inl (wrapf (''canonicalize tool parameters for '' @ ts_Name t @ '': '') e)
      | Inr parameters \<Rightarrow> (case hashed_tools cd ts of Inl e \<Rightarrow> Inl e
          | Inr rest \<Rightarrow> Inr (\<lparr>ht_Name = TrimSpace (ts_Name t), ht_Description = TrimSpace (ts_Description t),
              ht_Parameters = parameters, ht_Locality = TrimSpace (ts_Locality t),
              ht_ImplementationVersion = TrimSpace (ts_ImplementationVersion t)\<rparr> # rest)))"

definition hashed_key :: "hashed_tool \<Rightarrow> string \<times> string \<times> string" where
  "hashed_key h = (ht_Name h, ht_Locality h, ht_ImplementationVersion h)"

definition agentToolsetHash :: "agent_codec \<Rightarrow> tool_spec list \<Rightarrow> go_error + string" where
  "agentToolsetHash cd tools = (case hashed_tools cd tools of Inl e \<Rightarrow> Inl e
     | Inr resolved \<Rightarrow> (case ac_tools cd (sort_key hashed_key resolved) of
         Inl e \<Rightarrow> Inl (wrapf ''canonicalize resolved toolset: '' e)
       | Inr canonical \<Rightarrow> Inr (ac_SHA256String cd canonical)))"

definition agentDataSnapshotSet :: "inference_dataset list \<Rightarrow> dataset_snapshot_ref list" where
  "agentDataSnapshotSet datasets = sort_key sr_DatasetID (map (\<lambda>d. \<lparr>sr_DatasetID = id_DatasetID d,
     sr_EmbeddingSnapshotID = id_EmbeddingSnapshotID d, sr_GraphSnapshotID = id_GraphSnapshotID d\<rparr>) datasets)"

definition agentDataSnapshotHash :: "agent_codec \<Rightarrow> dataset_snapshot_ref list \<Rightarrow> go_error + string" where
  "agentDataSnapshotHash cd refs = (case ac_snapshots cd (sort_key sr_DatasetID refs) of
     Inl e \<Rightarrow> Inl (wrapf ''canonicalize data snapshot set: '' e)
   | Inr canonical \<Rightarrow> Inr (ac_SHA256String cd canonical))"

definition deterministicAgentToolInvocationID :: "agent_codec \<Rightarrow> uuid \<Rightarrow> uuid \<Rightarrow> string \<Rightarrow> uuid" where
  "deterministicAgentToolInvocationID cd runID stepID toolCallKey = ac_NewSHA1 cd
     (''agent_tool_invocation:'' @ ac_uuid cd runID @ '':'' @ ac_uuid cd stepID @ '':'' @ TrimSpace toolCallKey)"

section \<open>User events\<close>

record agent_event =
  av_EventID :: string
  av_SourceService :: string
  av_EventType :: string
  av_Severity :: string
  av_RequiredPermission :: string
  av_UserID :: string
  av_ResourceID :: uuid
  av_ResourceHref :: string
  av_State :: string
  av_Phase :: string
  av_Title :: string
  av_Message :: string
  av_ActionLabel :: string
  av_ActionHref :: string
  av_Metadata :: "(string \<times> string) list"

definition DeterministicEventID :: "agent_codec \<Rightarrow> string list \<Rightarrow> string" where
  "DeterministicEventID cd parts =
     take 32 (ac_SHA256String cd (Join (filter (\<lambda>p. p \<noteq> []) (map TrimSpace parts)) '':''))"

definition optionalAgentEventUUID :: "agent_codec \<Rightarrow> uuid \<Rightarrow> string" where
  "optionalAgentEventUUID cd v = (if v = uuid_nil then [] else ac_uuid cd v)"

definition agentRunAPIHref :: "agent_codec \<Rightarrow> uuid \<Rightarrow> string" where
  "agentRunAPIHref cd runID = ''/v1/inference/agent-runs/'' @ ac_uuid cd runID"

definition agentRunUIHref :: "agent_codec \<Rightarrow> uuid \<Rightarrow> string" where
  "agentRunUIHref cd runID = ''/agent-runs/'' @ ac_uuid cd runID"

fun run_event_kind :: "AgentRunStatus \<Rightarrow> string \<times> string \<times> string \<times> string" where
  "run_event_kind AgentRunStatusCompleted =
     (''agent.run.completed'', ''SUCCESS'', ''Agent run completed'', ''The agent run completed.'')"
| "run_event_kind AgentRunStatusFailed =
     (''agent.run.failed'', ''ERROR'', ''Agent run failed'', ''The agent run failed.'')"
| "run_event_kind _ = (''agent.run.started'', ''INFO'', ''Agent run started'', ''The agent run has started.'')"

definition publishAgentRunUserEvent :: "agent_codec \<Rightarrow> agent_run \<Rightarrow> agent_event" where
  "publishAgentRunUserEvent cd run = (case run_event_kind (ar_Status run) of (type, severity, title, message) \<Rightarrow>
     \<lparr>av_EventID = DeterministicEventID cd [''agent_run'', ac_uuid cd (ar_RunID run),
        AgentRunStatus_String (ar_Status run), AgentStopReason_String (ar_StopReason run)],
      av_SourceService = ''inference_service'', av_EventType = type, av_Severity = severity,
      av_RequiredPermission = ''inference:agent-runs:read'',
      av_UserID = optionalAgentEventUUID cd (ar_UserID run), av_ResourceID = ar_RunID run,
      av_ResourceHref = agentRunAPIHref cd (ar_RunID run), av_State = AgentRunStatus_String (ar_Status run),
      av_Phase = ''AGENT'', av_Title = title, av_Message = message, av_ActionLabel = ''View run'',
      av_ActionHref = agentRunUIHref cd (ar_RunID run),
      av_Metadata = [(''endpoint_id'', ac_uuid cd (ar_EndpointID run))]\<rparr>)"

definition publishAgentStepUserEvent :: "agent_codec \<Rightarrow> agent_session \<Rightarrow> agent_step \<Rightarrow> agent_event" where
  "publishAgentStepUserEvent cd session st =
     \<lparr>av_EventID = DeterministicEventID cd [''agent_run'', ac_uuid cd (ag_RunID st), ''step'',
        int_text (ag_StepIndex st)],
      av_SourceService = ''inference_service'', av_EventType = ''agent.step.completed'', av_Severity = ''INFO'',
      av_RequiredPermission = ''inference:agent-runs:read'',
      av_UserID = optionalAgentEventUUID cd (sn_UserID session), av_ResourceID = ag_RunID st,
      av_ResourceHref = agentRunAPIHref cd (ag_RunID st), av_State = ag_FinishReason st,
      av_Phase = ''AGENT'', av_Title = ''Agent step completed'',
      av_Message = ''The agent completed a reasoning step.'', av_ActionLabel = ''View run'',
      av_ActionHref = agentRunUIHref cd (ag_RunID st),
      av_Metadata = [(''step_id'', ac_uuid cd (ag_StepID st)), (''step_index'', int_text (ag_StepIndex st))]\<rparr>"

fun agentToolResultSeverity :: "ToolErrorType \<Rightarrow> string" where
  "agentToolResultSeverity ToolErrorTypeUnknown = ''INFO''"
| "agentToolResultSeverity ToolErrorTypeTransient = ''WARNING''"
| "agentToolResultSeverity ToolErrorTypePermanent = ''ERROR''"
| "agentToolResultSeverity ToolErrorTypePolicyDenied = ''ERROR''"

definition publishAgentToolResultUserEvent ::
  "agent_codec \<Rightarrow> agent_session \<Rightarrow> tool_invocation \<Rightarrow> agent_event" where
  "publishAgentToolResultUserEvent cd session v =
     \<lparr>av_EventID = DeterministicEventID cd [''agent_run'', ac_uuid cd (ti_RunID v), ''tool'',
        ac_uuid cd (ti_InvocationID v)],
      av_SourceService = ''inference_service'', av_EventType = ''agent.tool.result'',
      av_Severity = agentToolResultSeverity (ti_ErrorType v),
      av_RequiredPermission = ''inference:agent-runs:read'',
      av_UserID = optionalAgentEventUUID cd (sn_UserID session), av_ResourceID = ti_RunID v,
      av_ResourceHref = agentRunAPIHref cd (ti_RunID v),
      av_State = (if ti_ErrorType v = ToolErrorTypeUnknown then ''COMPLETED'' else ''FAILED''),
      av_Phase = ''AGENT'', av_Title = ''Agent tool result recorded'',
      av_Message = ''The agent recorded a tool result.'', av_ActionLabel = ''View run'',
      av_ActionHref = agentRunUIHref cd (ti_RunID v),
      av_Metadata = [(''step_id'', ac_uuid cd (ti_StepID v)), (''invocation_id'', ac_uuid cd (ti_InvocationID v)),
        (''tool_name'', ti_ToolName v), (''error_type'', ToolErrorType_String (ti_ErrorType v))]\<rparr>"

section \<open>The world of a run\<close>

record inference_request =
  ir_RequestID :: uuid
  ir_UserID :: uuid
  ir_OrgID :: uuid
  ir_DatasetID :: uuid
  ir_ModelID :: uuid
  ir_EmbeddingSnapshotID :: uuid
  ir_QueryText :: string
  ir_TopK :: int
  ir_MetadataFilters :: string
  ir_RetrievedContextIDs :: string
  ir_RetrievedContexts :: string
  ir_PromptText :: string
  ir_AnswerText :: string
  ir_PromptStrategyVersion :: string
  ir_GenerationProtocol :: string
  ir_GenerationModel :: string
  ir_LatencyMs :: int
  ir_Status :: InferenceRequestStatus
  ir_ErrorMessage :: string

record agent_world =
  aw_tick :: nat
  aw_tables :: trajectory_tables
  aw_events :: "agent_event list"
  aw_generated :: "generation_request list"
  aw_invoked :: "(tool_invocation_context \<times> tool_call) list"
  aw_requests :: "inference_request list"
  aw_started :: "(uuid \<times> string \<times> generate_request \<times> int) list"

type_synonym generation_adapter = "nat \<Rightarrow> generation_request \<Rightarrow> go_error + generation_result"

datatype poll = PollCancelled go_error | PollDeadline | PollTick

datatype attempt = Delivered | ResultLost | NeverRan

record agent_usecase =
  au_codec :: agent_codec
  au_session :: session
  au_db :: "nat \<Rightarrow> traj_env"
  au_available :: "nat \<Rightarrow> tool_resolution \<Rightarrow> tool_binding list \<Rightarrow> go_error + tool_spec list"
  au_adapters :: "string \<Rightarrow> generation_adapter option"
  au_invoke :: "nat \<Rightarrow> tool_invocation_context \<Rightarrow> tool_call \<Rightarrow> tool_result \<times> go_error option"
  au_deadline :: "nat \<Rightarrow> go_error option"
  au_models :: "nat \<Rightarrow> uuid \<Rightarrow> uuid \<Rightarrow> go_error + inference_model"
  au_datasets :: "nat \<Rightarrow> uuid \<Rightarrow> uuid \<Rightarrow> go_error + inference_dataset"
  au_endpoints :: "nat \<Rightarrow> uuid \<Rightarrow> uuid \<Rightarrow> go_error + inference_endpoint"
  au_specs :: "nat \<Rightarrow> uuid \<Rightarrow> string \<Rightarrow> go_error + agent_spec"
  au_load_trigger :: "(nat \<Rightarrow> uuid \<Rightarrow> uuid \<Rightarrow> go_error option) option"
  au_load_timing :: bool
  au_polls :: "nat \<Rightarrow> poll list"
  au_requests :: "nat \<Rightarrow> inference_request \<Rightarrow> go_error option"
  au_starter :: "(nat \<Rightarrow> go_error option) option"
  au_strategy_version :: string
  au_latency :: "nat \<Rightarrow> int"
  au_attempt :: "nat \<Rightarrow> attempt"
  au_activity_error :: "go_error \<Rightarrow> go_error"
  au_activity_timeout :: go_error

text \<open>A statement on the tables, and what it publishes when it succeeds.\<close>

definition store ::
  "agent_usecase \<Rightarrow> (traj_env \<Rightarrow> session \<Rightarrow> trajectory_tables \<Rightarrow> (go_error + 'a) \<times> trajectory_tables) \<Rightarrow>
   ('a \<Rightarrow> agent_event) \<Rightarrow> agent_world \<Rightarrow> (go_error + 'a) \<times> agent_world" where
  "store uc op event w = (case op (au_db uc (aw_tick w)) (au_session uc) (aw_tables w) of
     (Inl e, t) \<Rightarrow> (Inl e, w\<lparr>aw_tick := Suc (aw_tick w), aw_tables := t\<rparr>)
   | (Inr x, t) \<Rightarrow> (Inr x, w\<lparr>aw_tick := Suc (aw_tick w), aw_tables := t, aw_events := aw_events w @ [event x]\<rparr>))"

section \<open>Recording\<close>

definition agentTrajectorySchemaVersion :: string where
  "agentTrajectorySchemaVersion = ''agent_trajectory_v1''"

definition run_of_session ::
  "agent_codec \<Rightarrow> agent_session \<Rightarrow> AgentRunStatus \<Rightarrow> AgentStopReason \<Rightarrow> go_error + agent_run" where
  "run_of_session cd session status stopReason =
     (case agentDecodingOptionsJSON cd (sn_DecodingOptions session) of
        Inl e \<Rightarrow> Inl (wrapf ''marshal decoding params: '' e)
      | Inr params \<Rightarrow>
     (case (if TrimSpace (sn_ToolsetHash session) = [] then agentToolsetHash cd (sn_ResolvedToolSpecs session)
            else Inr (TrimSpace (sn_ToolsetHash session))) of Inl e \<Rightarrow> Inl e
      | Inr toolsetHash \<Rightarrow>
     (let snapshots = (if sn_DataSnapshotSet session = [] then agentDataSnapshotSet (sn_Datasets session)
            else sn_DataSnapshotSet session) in
      case agentDataSnapshotHash cd snapshots of Inl e \<Rightarrow> Inl e
      | Inr snapshotHash \<Rightarrow> Inr \<lparr>ar_RunID = sn_RunID session, ar_OrgID = sn_OrgID session,
          ar_UserID = sn_UserID session, ar_EndpointID = en_EndpointID (sn_Endpoint session),
          ar_AgentSpecHash = as_ContentHash (sn_Spec session), ar_ToolsetHash = toolsetHash,
          ar_EffectiveBaseID = TrimSpace (im_EffectiveBaseID (sn_Model session)),
          ar_DataSnapshotSet = snapshots, ar_DataSnapshotHash = snapshotHash,
          ar_TrajectorySchemaVersion = agentTrajectorySchemaVersion, ar_DecodingParams = params,
          ar_Status = status, ar_StopReason = stopReason, ar_StartedAt = 0, ar_DeadlineAt = 0,
          ar_FinishedAt = 0, ar_TotalTokens = sn_TotalTokens session,
          ar_WallMs = bg_WallMs (as_Budgets (sn_Spec session))\<rparr>)))"

definition recordAgentRun ::
  "agent_usecase \<Rightarrow> agent_session \<Rightarrow> AgentRunStatus \<Rightarrow> AgentStopReason \<Rightarrow> agent_world \<Rightarrow>
   (go_error + agent_run) \<times> agent_world" where
  "recordAgentRun uc session status stopReason w =
     (case run_of_session (au_codec uc) session status stopReason of Inl e \<Rightarrow> (Inl e, w)
      | Inr run \<Rightarrow> store uc (\<lambda>env s t. RecordAgentRun env s run t) (publishAgentRunUserEvent (au_codec uc)) w)"

definition recordAgentStep ::
  "agent_usecase \<Rightarrow> agent_session \<Rightarrow> int \<Rightarrow> tool_spec list \<Rightarrow> generation_result \<Rightarrow> agent_world \<Rightarrow>
   (go_error + uuid) \<times> agent_world" where
  "recordAgentStep uc session stepIndex toolSpecs gen w =
     (case agentPresentedToolSchemas (au_codec uc) toolSpecs of
        Inl e \<Rightarrow> (Inl (wrapf ''marshal presented tool schemas: '' e), w)
      | Inr schemas \<Rightarrow> (case agentGenerationResultJSON (au_codec uc) gen of
          Inl e \<Rightarrow> (Inl (wrapf ''marshal generation result: '' e), w)
        | Inr json \<Rightarrow> (case store uc (\<lambda>env s t. RecordAgentStep env s
              \<lparr>ag_StepID = uuid_nil, ag_RunID = sn_RunID session, ag_OrgID = sn_OrgID session,
               ag_StepIndex = stepIndex, ag_PresentedToolSchemas = schemas, ag_GenerationResult = json,
               ag_FinishReason = gn_FinishReason gen, ag_PromptTokens = tu_PromptTokens (gn_Usage gen),
               ag_CompletionTokens = tu_CompletionTokens (gn_Usage gen), ag_CreatedAt = 0\<rparr> t)
              (publishAgentStepUserEvent (au_codec uc) session) w of
            (Inl e, w') \<Rightarrow> (Inl e, w')
          | (Inr st, w') \<Rightarrow> (Inr (ag_StepID st), w'))))"

definition recordAgentToolInvocation ::
  "agent_usecase \<Rightarrow> agent_session \<Rightarrow> uuid \<Rightarrow> string \<Rightarrow> tool_call \<Rightarrow> tool_result \<Rightarrow> agent_world \<Rightarrow>
   go_error option \<times> agent_world" where
  "recordAgentToolInvocation uc session stepID callKey call result w =
     (case agentToolResultJSON (au_codec uc) result of
        Inl e \<Rightarrow> (Some (wrapf ''marshal tool result: '' e), w)
      | Inr json \<Rightarrow> (case store uc (\<lambda>env s t. RecordToolInvocation env s
            \<lparr>ti_InvocationID = (if tr_InvocationID result = uuid_nil
               then deterministicAgentToolInvocationID (au_codec uc) (sn_RunID session) stepID callKey
               else tr_InvocationID result),
             ti_StepID = stepID, ti_RunID = sn_RunID session, ti_OrgID = sn_OrgID session,
             ti_ToolName = tc_Name call, ti_ToolImplVersion = tr_ToolImplVersion result,
             ti_Arguments = tc_Arguments call, ti_Result = json, ti_ErrorType = tr_ErrorType result,
             ti_LatencyMs = 0, ti_CreatedAt = 0\<rparr> t)
            (publishAgentToolResultUserEvent (au_codec uc) session) w of
          (Inl e, w') \<Rightarrow> (Some e, w')
        | (Inr v, w') \<Rightarrow> (None, w')))"

definition ReapExpiredAgentRuns :: "agent_usecase \<Rightarrow> int \<Rightarrow> agent_world \<Rightarrow> (go_error + int) \<times> agent_world" where
  "ReapExpiredAgentRuns uc graceMs w = (case FailExpiredAgentRuns (au_db uc (aw_tick w)) graceMs (aw_tables w) of
     (r, t) \<Rightarrow> (r, w\<lparr>aw_tick := Suc (aw_tick w), aw_tables := t\<rparr>))"

end
