(* ===== verification/AgentLoop.thy ===== *)
theory AgentLoop
  imports AgentRecording
begin

text \<open>
  The agent loop that runs inside the service, \<open>inference_service/pkg/app/agent_loop.go\<close>: the
  helpers on budgets, signatures and failures, one tool call, one step, and the bounded loop
  over steps. A session's texts fit in memory, so the sum of their token estimates does not
  overflow; the sums with numbers a model or a tool reports wrap as Go's do.
\<close>

section \<open>Token budget\<close>

definition estimateTextTokens :: "string \<Rightarrow> int" where
  "estimateTextTokens value = (let v = TrimSpace value in
     if v = [] then 0 else (int (rune_count v) + 3) div 4)"

definition estimate_calls :: "tool_call list \<Rightarrow> int" where
  "estimate_calls calls = (\<Sum>c \<leftarrow> calls. estimateTextTokens (tc_ID c) + estimateTextTokens (tc_Name c) +
     estimateTextTokens (tc_Arguments c))"

definition estimateAgentGenerationTokens ::
  "chat_message list \<Rightarrow> tool_spec list \<Rightarrow> generation_result \<Rightarrow> int" where
  "estimateAgentGenerationTokens messages tools result =
     (let sum = (\<Sum>m \<leftarrow> messages. estimateTextTokens (cm_Role m) + estimateTextTokens (cm_Content m) +
            estimateTextTokens (cm_ToolCallID m) + estimateTextTokens (cm_Name m) + estimate_calls (cm_ToolCalls m)) +
          (\<Sum>t \<leftarrow> tools. estimateTextTokens (ts_Name t) + estimateTextTokens (ts_Description t) +
            estimateTextTokens (ts_Parameters t)) +
          estimateTextTokens (gn_Content result) + estimate_calls (gn_ToolCalls result)
      in if sum \<le> 0 then 1 else sum)"

definition estimateAgentPromptTokens :: "chat_message list \<Rightarrow> tool_spec list \<Rightarrow> int" where
  "estimateAgentPromptTokens messages tools = estimateAgentGenerationTokens messages tools empty_generation"

definition generationTokenUsage :: "token_usage \<Rightarrow> int" where
  "generationTokenUsage u = (if tu_TotalTokens u > 0 then tu_TotalTokens u
     else wrap64 (tu_PromptTokens u + tu_CompletionTokens u))"

definition agentGenerationTokenUsage ::
  "token_usage \<Rightarrow> chat_message list \<Rightarrow> tool_spec list \<Rightarrow> generation_result \<Rightarrow> int" where
  "agentGenerationTokenUsage u messages tools result =
     (if generationTokenUsage u > 0 then generationTokenUsage u
      else estimateAgentGenerationTokens messages tools result)"

definition agentTokenBudgetExceeded :: "agent_session \<Rightarrow> bool" where
  "agentTokenBudgetExceeded session \<longleftrightarrow> bg_Token (as_Budgets (sn_Spec session)) > 0 \<and>
     sn_TotalTokens session \<ge> bg_Token (as_Budgets (sn_Spec session))"

definition agentTokenBudgetWouldExceed :: "agent_session \<Rightarrow> int \<Rightarrow> bool" where
  "agentTokenBudgetWouldExceed session additionalTokens \<longleftrightarrow> bg_Token (as_Budgets (sn_Spec session)) > 0 \<and>
     wrap64 (sn_TotalTokens session + additionalTokens) \<ge> bg_Token (as_Budgets (sn_Spec session))"

definition limit_output :: "int \<Rightarrow> int \<Rightarrow> generation_options \<Rightarrow> generation_options" where
  "limit_output budget used options = (if budget > 0
     then let remaining = wrap64 (budget - used) in
       if remaining < go_MaxOutputTokens options \<or> go_MaxOutputTokens options \<le> 0
       then options\<lparr>go_MaxOutputTokens := remaining\<rparr> else options
     else options)"

definition agentStepGenerationOptions :: "agent_session \<Rightarrow> generation_options" where
  "agentStepGenerationOptions session = limit_output (bg_Token (as_Budgets (sn_Spec session)))
     (sn_TotalTokens session) (sn_DecodingOptions session)"

section \<open>The start of a run\<close>

text \<open>The bytes of a UUID, most significant first.\<close>

definition uuid_bytes :: "uuid \<Rightarrow> int list" where
  "uuid_bytes u = map (\<lambda>i. uint u div 256 ^ (15 - i) mod 256) [0..<16]"

definition agentSeed :: "uuid \<Rightarrow> int" where
  "agentSeed requestID =
     (let seed = foldl (\<lambda>seed b. wrap64 (wrap64 (wrap64 (seed * 32) - seed) + b)) 0 (uuid_bytes requestID)
      in if seed < 0 then wrap64 (- seed) else seed)"

definition agentDecodingOptions :: "agent_spec \<Rightarrow> generate_request \<Rightarrow> generation_options" where
  "agentDecodingOptions spec request = \<lparr>go_Temperature = 0, go_TopP = f64_one,
     go_Seed = agentSeed (gq_RequestID request), go_MaxOutputTokens = bg_Token (as_Budgets spec)\<rparr>"

definition chat :: "ChatMessageRole \<Rightarrow> string \<Rightarrow> chat_message" where
  "chat role content = \<lparr>cm_Role = role, cm_Content = content, cm_ToolCallID = [], cm_Name = [], cm_ToolCalls = []\<rparr>"

definition agentInitialMessages :: "agent_spec \<Rightarrow> string \<Rightarrow> chat_message list" where
  "agentInitialMessages spec queryText =
     (if TrimSpace (as_SystemPrompt spec) \<noteq> [] then [chat ChatMessageRoleSystem (TrimSpace (as_SystemPrompt spec))]
      else []) @ [chat ChatMessageRoleUser queryText]"

fun first_tool_choice :: "tool_binding list \<Rightarrow> string" where
  "first_tool_choice [] = []"
| "first_tool_choice (b # bs) = (if tb_ToolChoice b \<noteq> [] then tb_ToolChoice b
     else if tb_Required b then ''required'' else first_tool_choice bs)"

definition agentToolChoice :: "tool_binding list \<Rightarrow> int \<Rightarrow> string" where
  "agentToolChoice bindings step = (if step > 0 then [] else first_tool_choice bindings)"

definition appToolResolutionContext :: "agent_session \<Rightarrow> tool_resolution" where
  "appToolResolutionContext session = \<lparr>tq_OrgID = sn_OrgID session, tq_UserID = sn_UserID session,
     tq_Spec = sn_Spec session, tq_Datasets = sn_Datasets session\<rparr>"

definition appToolInvocationContext ::
  "agent_codec \<Rightarrow> agent_session \<Rightarrow> uuid \<Rightarrow> string \<Rightarrow> tool_invocation_context" where
  "appToolInvocationContext cd session stepID callKey = \<lparr>tv_OrgID = sn_OrgID session,
     tv_UserID = sn_UserID session, tv_RunID = sn_RunID session,
     tv_InvocationID = deterministicAgentToolInvocationID cd (sn_RunID session) stepID callKey,
     tv_Datasets = sn_Datasets session\<rparr>"

section \<open>Failures\<close>

definition agentRuntimeStopReason :: "go_error \<Rightarrow> AgentStopReason" where
  "agentRuntimeStopReason e = (if er_Deadline e then AgentStopReasonDeadline else AgentStopReasonRuntimeError)"

definition agentToolStopReason :: "go_error \<Rightarrow> AgentStopReason" where
  "agentToolStopReason e = (if er_Deadline e then AgentStopReasonDeadline else AgentStopReasonToolError)"

definition agentToolErrorType :: "go_error option \<Rightarrow> ToolErrorType" where
  "agentToolErrorType err = (case err of None \<Rightarrow> ToolErrorTypeUnknown
     | Some e \<Rightarrow>
        if errors_Is e ErrInferenceValidation then ToolErrorTypePolicyDenied
        else if errors_Is e ErrModelNotReady \<or> errors_Is e ErrRetrievalFailed \<or> er_Deadline e
        then ToolErrorTypeTransient
        else if er_Net e = Some True then ToolErrorTypeTransient
        else ToolErrorTypePermanent)"

fun agentToolFailureClass :: "bool \<Rightarrow> ToolErrorType \<Rightarrow> ToolErrorType" where
  "agentToolFailureClass isError ToolErrorTypeTransient = ToolErrorTypeTransient"
| "agentToolFailureClass isError ToolErrorTypePermanent = ToolErrorTypePermanent"
| "agentToolFailureClass isError ToolErrorTypePolicyDenied = ToolErrorTypePolicyDenied"
| "agentToolFailureClass isError ToolErrorTypeUnknown =
     (if isError then ToolErrorTypePermanent else ToolErrorTypeUnknown)"

definition agentToolResultErrorType :: "tool_result \<Rightarrow> ToolErrorType" where
  "agentToolResultErrorType r = agentToolFailureClass (tr_IsError r) (tr_ErrorType r)"

definition failAgentRun ::
  "agent_usecase \<Rightarrow> agent_session \<Rightarrow> AgentStopReason \<Rightarrow> go_error \<Rightarrow> agent_world \<Rightarrow> go_error \<times> agent_world" where
  "failAgentRun uc session reason err w =
     (case recordAgentRun uc session AgentRunStatusFailed reason w of
        (Inl recordErr, w') \<Rightarrow> (join_errors err (Some recordErr), w')
      | (Inr _, w') \<Rightarrow> (join_errors err None, w'))"

definition agentToolCallSignature :: "tool_call \<Rightarrow> string" where
  "agentToolCallSignature call = Join [TrimSpace (tc_Name call), TrimSpace (tc_Arguments call)] [CHR 0x00]"

definition agentToolCallKey :: "tool_call \<Rightarrow> nat \<Rightarrow> string" where
  "agentToolCallKey call index = (if TrimSpace (tc_ID call) \<noteq> [] then TrimSpace (tc_ID call) else nat_text index)"

text \<open>What the loop makes of a tool's result and error before it looks at the error type.\<close>

definition classified_result :: "tool_call \<Rightarrow> tool_result \<Rightarrow> go_error option \<Rightarrow> tool_result" where
  "classified_result call r err =
     (let r1 = (case err of None \<Rightarrow> r
            | Some e \<Rightarrow> if tr_CallID r = []
                then empty_tool_result\<lparr>tr_CallID := tc_ID call, tr_Name := tc_Name call, tr_Content := er_Text e,
                  tr_IsError := True, tr_ErrorType := agentToolErrorType err\<rparr>
                else r);
          r2 = (case err of None \<Rightarrow> r1
            | Some e \<Rightarrow> if tr_ErrorType r1 = ToolErrorTypeUnknown
                then r1\<lparr>tr_IsError := True, tr_ErrorType := agentToolErrorType err,
                  tr_Content := (if TrimSpace (tr_Content r1) = [] then er_Text e else tr_Content r1)\<rparr>
                else r1)
      in if tr_IsError r2 \<and> tr_ErrorType r2 = ToolErrorTypeUnknown
         then r2\<lparr>tr_ErrorType := ToolErrorTypePermanent\<rparr> else r2)"

section \<open>One tool call\<close>

text \<open>
  What the loop carries from call to call and from step to step, and the two ways a part of
  it ends. \<open>result_with\<close> is the result of a run that ends in the middle.
\<close>

record loop_state =
  ls_session :: agent_session
  ls_contexts :: "retrieved_context list"
  ls_lastSignature :: string
  ls_repeated :: nat
  ls_transient :: "string \<Rightarrow> nat"

datatype loop_outcome = Continue loop_state | Return agent_result "go_error option"

definition result_with :: "uuid \<Rightarrow> loop_state \<Rightarrow> AgentStopReason \<Rightarrow> int \<Rightarrow> agent_result" where
  "result_with requestID ls reason steps = \<lparr>al_RequestID = requestID, al_RunID = sn_RunID (ls_session ls),
     al_Answer = [], al_Contexts = ls_contexts ls, al_StopReason = reason, al_Steps = steps\<rparr>"

definition end_run ::
  "agent_usecase \<Rightarrow> uuid \<Rightarrow> loop_state \<Rightarrow> AgentStopReason \<Rightarrow> AgentStopReason \<Rightarrow> int \<Rightarrow> go_error \<Rightarrow> agent_world \<Rightarrow>
   (agent_result \<times> go_error option) \<times> agent_world" where
  "end_run uc requestID ls reported reason steps err w =
     (case failAgentRun uc (ls_session ls) reason err w of
        (e, w') \<Rightarrow> ((result_with requestID ls reported steps, Some e), w'))"

definition stop_run ::
  "agent_usecase \<Rightarrow> uuid \<Rightarrow> loop_state \<Rightarrow> AgentStopReason \<Rightarrow> AgentStopReason \<Rightarrow> int \<Rightarrow> go_error \<Rightarrow> agent_world \<Rightarrow>
   loop_outcome \<times> agent_world" where
  "stop_run uc requestID ls reported reason steps err w =
     (case end_run uc requestID ls reported reason steps err w of ((r, e), w') \<Rightarrow> (Return r e, w'))"

definition add_tokens :: "int \<Rightarrow> loop_state \<Rightarrow> loop_state" where
  "add_tokens n ls = ls\<lparr>ls_session := (ls_session ls)\<lparr>sn_TotalTokens := wrap64 (sn_TotalTokens (ls_session ls) + n)\<rparr>\<rparr>"

definition add_message :: "chat_message \<Rightarrow> loop_state \<Rightarrow> loop_state" where
  "add_message m ls = ls\<lparr>ls_session := (ls_session ls)\<lparr>sn_Messages := sn_Messages (ls_session ls) @ [m]\<rparr>\<rparr>"

definition note_signature :: "string \<Rightarrow> loop_state \<Rightarrow> loop_state" where
  "note_signature signature ls = (if signature = ls_lastSignature ls then ls\<lparr>ls_repeated := Suc (ls_repeated ls)\<rparr>
     else ls\<lparr>ls_lastSignature := signature, ls_repeated := 0\<rparr>)"

definition assistant_message :: "generation_result \<Rightarrow> chat_message" where
  "assistant_message gen = \<lparr>cm_Role = ChatMessageRoleAssistant, cm_Content = gn_Content gen, cm_ToolCallID = [],
     cm_Name = [], cm_ToolCalls = gn_ToolCalls gen\<rparr>"

definition tool_message :: "tool_call \<Rightarrow> tool_result \<Rightarrow> chat_message" where
  "tool_message call r = \<lparr>cm_Role = ChatMessageRoleTool, cm_Content = tr_Content r, cm_ToolCallID = tc_ID call,
     cm_Name = tc_Name call, cm_ToolCalls = []\<rparr>"

definition invoke_tool ::
  "agent_usecase \<Rightarrow> tool_invocation_context \<Rightarrow> tool_call \<Rightarrow> agent_world \<Rightarrow>
   (tool_result \<times> go_error option) \<times> agent_world" where
  "invoke_tool uc ctxt call w = (au_invoke uc (aw_tick w) ctxt call,
     w\<lparr>aw_tick := Suc (aw_tick w), aw_invoked := aw_invoked w @ [(ctxt, call)]\<rparr>)"

text \<open>
  The part of the loop body after the invocation was recorded: \<open>err\<close> is the error of the
  tool, \<open>result\<close> its classified result.
\<close>

definition after_tool ::
  "agent_usecase \<Rightarrow> uuid \<Rightarrow> int \<Rightarrow> tool_call \<Rightarrow> string \<Rightarrow> tool_result \<Rightarrow> go_error option \<Rightarrow> loop_state \<Rightarrow>
   agent_world \<Rightarrow> loop_outcome \<times> agent_world" where
  "after_tool uc requestID step call signature result err ls w =
     (let failed = (\<lambda>ls message. let e = (case err of Some e \<Rightarrow> e | None \<Rightarrow> Extend ErrGenerationFailed message);
            reason = agentToolStopReason e in stop_run uc requestID ls reason reason (step + 1) e w);
          proceed = (\<lambda>ls. if agentTokenBudgetExceeded (ls_session ls)
            then stop_run uc requestID ls AgentStopReasonBudget AgentStopReasonBudget (step + 1)
              (Extend ErrGenerationFailed ''agent reached its token budget before producing a final answer'') w
            else (Continue (add_message (tool_message call result) ls), w))
      in case agentToolResultErrorType result of
           ToolErrorTypeTransient \<Rightarrow>
             let n = Suc (ls_transient ls signature);
                 ls' = ls\<lparr>ls_transient := (ls_transient ls)(signature := n)\<rparr>
             in if 1 < n then failed ls' ''agent transient tool failure retry limit exceeded'' else proceed ls'
         | ToolErrorTypePermanent \<Rightarrow> failed ls ''agent tool call failed''
         | ToolErrorTypePolicyDenied \<Rightarrow> failed ls ''agent tool call failed''
         | ToolErrorTypeUnknown \<Rightarrow> (case err of Some e \<Rightarrow> failed ls [] | None \<Rightarrow> proceed ls))"

definition tool_call_step ::
  "agent_usecase \<Rightarrow> uuid \<Rightarrow> int \<Rightarrow> uuid \<Rightarrow> nat \<Rightarrow> tool_call \<Rightarrow> loop_state \<Rightarrow> agent_world \<Rightarrow>
   loop_outcome \<times> agent_world" where
  "tool_call_step uc requestID step stepID index call ls w =
     (let callKey = agentToolCallKey call index;
          signature = agentToolCallSignature call;
          ls1 = note_signature signature ls
      in if ls_repeated ls1 \<ge> 2
         then stop_run uc requestID ls1 AgentStopReasonLoopDetected AgentStopReasonLoopDetected (step + 1)
           (Extend ErrGenerationFailed ''agent repeated the same tool call'') w
         else (case invoke_tool uc (appToolInvocationContext (au_codec uc) (ls_session ls1) stepID callKey) call w of
           ((r, err), w1) \<Rightarrow>
             let result = classified_result call r err;
                 ls2 = add_tokens (tr_TokenEstimate result) (ls1\<lparr>ls_contexts := ls_contexts ls1 @ tr_Contexts result\<rparr>)
             in (case recordAgentToolInvocation uc (ls_session ls2) stepID callKey call result w1 of
               (Some e, w2) \<Rightarrow> stop_run uc uuid_nil ls2 AgentStopReasonUnknown AgentStopReasonRuntimeError (step + 1) e w2
             | (None, w2) \<Rightarrow> after_tool uc requestID step call signature result err ls2 w2)))"

fun tool_calls_loop ::
  "agent_usecase \<Rightarrow> uuid \<Rightarrow> int \<Rightarrow> uuid \<Rightarrow> nat \<Rightarrow> tool_call list \<Rightarrow> loop_state \<Rightarrow> agent_world \<Rightarrow>
   loop_outcome \<times> agent_world" where
  "tool_calls_loop uc requestID step stepID index [] ls w = (Continue ls, w)"
| "tool_calls_loop uc requestID step stepID index (call # calls) ls w =
     (case tool_call_step uc requestID step stepID index call ls w of
        (Return r e, w') \<Rightarrow> (Return r e, w')
      | (Continue ls', w') \<Rightarrow> tool_calls_loop uc requestID step stepID (Suc index) calls ls' w')"

section \<open>One step\<close>

definition final_answer :: "generation_result \<Rightarrow> string" where
  "final_answer gen = (if TrimSpace (gn_Content gen) = [] then ''The agent completed without a final answer.''
     else TrimSpace (gn_Content gen))"

definition generate_with ::
  "generation_adapter \<Rightarrow> generation_request \<Rightarrow> agent_world \<Rightarrow> (go_error + generation_result) \<times> agent_world" where
  "generate_with generator q w = (generator (aw_tick w) q,
     w\<lparr>aw_tick := Suc (aw_tick w), aw_generated := aw_generated w @ [q]\<rparr>)"

definition step_request :: "generate_request \<Rightarrow> int \<Rightarrow> agent_session \<Rightarrow> generation_request" where
  "step_request request step session = \<lparr>gr_RequestID = gq_RequestID request, gr_Model = sn_Model session,
     gr_Query = gq_QueryText request, gr_Messages = sn_Messages session, gr_Tools = sn_ResolvedToolSpecs session,
     gr_ToolChoice = agentToolChoice (as_ToolBindings (sn_Spec session)) step,
     gr_Options = agentStepGenerationOptions session, gr_LoraName = sn_LoraName session,
     gr_AdapterURI = sn_AdapterURI session\<rparr>"

text \<open>The rest of a step once the model has answered.\<close>

definition after_generation ::
  "agent_usecase \<Rightarrow> uuid \<Rightarrow> int \<Rightarrow> generation_result \<Rightarrow> loop_state \<Rightarrow> agent_world \<Rightarrow> loop_outcome \<times> agent_world" where
  "after_generation uc requestID step gen ls w =
     (let session = ls_session ls;
          ls1 = add_tokens (agentGenerationTokenUsage (gn_Usage gen) (sn_Messages session)
            (sn_ResolvedToolSpecs session) gen) ls
      in case recordAgentStep uc (ls_session ls1) step (sn_ResolvedToolSpecs session) gen w of
           (Inl e, w1) \<Rightarrow> stop_run uc uuid_nil ls1 AgentStopReasonUnknown AgentStopReasonRuntimeError (step + 1) e w1
         | (Inr stepID, w1) \<Rightarrow>
             if agentTokenBudgetExceeded (ls_session ls1)
             then stop_run uc requestID ls1 AgentStopReasonBudget AgentStopReasonBudget (step + 1)
               (Extend ErrGenerationFailed ''agent reached its token budget before producing a final answer'') w1
             else if gn_ToolCalls gen = []
             then (case recordAgentRun uc (ls_session ls1) AgentRunStatusCompleted AgentStopReasonFinalAnswer w1 of
                 (Inl e, w2) \<Rightarrow> (Return (result_with uuid_nil ls1 AgentStopReasonUnknown (step + 1)) (Some e), w2)
               | (Inr _, w2) \<Rightarrow> (Return ((result_with requestID ls1 AgentStopReasonFinalAnswer (step + 1))
                     \<lparr>al_Answer := final_answer gen\<rparr>) None, w2))
             else tool_calls_loop uc requestID step stepID 0 (gn_ToolCalls gen)
               (add_message (assistant_message gen) ls1) w1)"

definition agent_step_body ::
  "agent_usecase \<Rightarrow> generation_adapter \<Rightarrow> generate_request \<Rightarrow> int \<Rightarrow> loop_state \<Rightarrow> agent_world \<Rightarrow>
   loop_outcome \<times> agent_world" where
  "agent_step_body uc generator request step ls w =
     (let requestID = gq_RequestID request; session = ls_session ls in
      case au_deadline uc (aw_tick w) of
        Some e \<Rightarrow> stop_run uc requestID ls AgentStopReasonDeadline AgentStopReasonDeadline step e w
      | None \<Rightarrow>
          if agentTokenBudgetWouldExceed session
               (estimateAgentPromptTokens (sn_Messages session) (sn_ResolvedToolSpecs session))
          then stop_run uc requestID ls AgentStopReasonBudget AgentStopReasonBudget step
            (Extend ErrGenerationFailed ''agent reached its token budget before generation'') w
          else (case generate_with generator (step_request request step session) w of
            (Inl e, w1) \<Rightarrow> (let reason = agentRuntimeStopReason e in
               stop_run uc uuid_nil ls reason reason (step + 1) e w1)
          | (Inr gen, w1) \<Rightarrow> after_generation uc requestID step gen ls w1))"

section \<open>The loop over steps\<close>

text \<open>\<open>left\<close> counts the steps up to the limit, so the loop ends after at most that many.\<close>

fun agent_steps ::
  "agent_usecase \<Rightarrow> generation_adapter \<Rightarrow> generate_request \<Rightarrow> nat \<Rightarrow> int \<Rightarrow> loop_state \<Rightarrow> agent_world \<Rightarrow>
   (agent_result \<times> go_error option) \<times> agent_world" where
  "agent_steps uc generator request 0 step ls w =
     end_run uc (gq_RequestID request) ls AgentStopReasonMaxSteps AgentStopReasonMaxSteps
        (bg_MaxSteps (as_Budgets (sn_Spec (ls_session ls))))
        (Extend ErrGenerationFailed ''agent reached its step limit before producing a final answer'') w"
| "agent_steps uc generator request (Suc left) step ls w =
     (case agent_step_body uc generator request step ls w of
        (Return r e, w') \<Rightarrow> ((r, e), w')
      | (Continue ls', w') \<Rightarrow> agent_steps uc generator request left (step + 1) ls' w')"

definition new_session ::
  "generate_request \<Rightarrow> inference_endpoint \<Rightarrow> agent_spec \<Rightarrow> inference_model \<Rightarrow> inference_dataset list \<Rightarrow> agent_session" where
  "new_session request endpoint spec m datasets = \<lparr>sn_RunID = gq_AgentRunID request,
     sn_OrgID = gq_OrgID request, sn_UserID = gq_UserID request, sn_Endpoint = endpoint, sn_Spec = spec,
     sn_Model = m, sn_Datasets = datasets, sn_DataSnapshotSet = agentDataSnapshotSet datasets,
     sn_LoraName = gq_LoraName request, sn_AdapterURI = gq_AdapterURI request,
     sn_Messages = agentInitialMessages spec (gq_QueryText request), sn_ResolvedToolSpecs = [],
     sn_ToolsetHash = [], sn_DecodingOptions = agentDecodingOptions spec request, sn_TotalTokens = 0\<rparr>"

definition available_tools ::
  "agent_usecase \<Rightarrow> tool_resolution \<Rightarrow> tool_binding list \<Rightarrow> agent_world \<Rightarrow> (go_error + tool_spec list) \<times> agent_world" where
  "available_tools uc q bindings w = (au_available uc (aw_tick w) q bindings, w\<lparr>aw_tick := Suc (aw_tick w)\<rparr>)"

definition empty_agent_result :: agent_result where
  "empty_agent_result = \<lparr>al_RequestID = uuid_nil, al_RunID = uuid_nil, al_Answer = [], al_Contexts = [],
     al_StopReason = AgentStopReasonUnknown, al_Steps = 0\<rparr>"

definition start_loop :: "agent_session \<Rightarrow> loop_state" where
  "start_loop session = \<lparr>ls_session = session, ls_contexts = [], ls_lastSignature = [], ls_repeated = 0,
     ls_transient = (\<lambda>_. 0)\<rparr>"

definition runAgentLoop ::
  "agent_usecase \<Rightarrow> generate_request \<Rightarrow> inference_endpoint \<Rightarrow> agent_spec \<Rightarrow> inference_model \<Rightarrow>
   inference_dataset list \<Rightarrow> generation_adapter \<Rightarrow> agent_world \<Rightarrow> (agent_result \<times> go_error option) \<times> agent_world" where
  "runAgentLoop uc request endpoint spec m datasets generator w =
     (let session = new_session request endpoint spec m datasets in
      case available_tools uc (appToolResolutionContext session) (as_ToolBindings spec) w of
        (Inl e, w1) \<Rightarrow> ((empty_agent_result, Some e), w1)
      | (Inr tools, w1) \<Rightarrow>
      (case agentToolsetHash (au_codec uc) tools of Inl e \<Rightarrow> ((empty_agent_result, Some e), w1)
      | Inr hash \<Rightarrow>
          let session1 = session\<lparr>sn_ResolvedToolSpecs := tools, sn_ToolsetHash := hash\<rparr>;
              loop = (\<lambda>session w. agent_steps uc generator request (nat (bg_MaxSteps (as_Budgets spec))) 0
                (start_loop session) w)
          in if sn_RunID session1 = uuid_nil
             then (case recordAgentRun uc session1 AgentRunStatusRunning AgentStopReasonUnknown w1 of
                 (Inl e, w2) \<Rightarrow> ((empty_agent_result, Some e), w2)
               | (Inr run, w2) \<Rightarrow> loop (session1\<lparr>sn_RunID := ar_RunID run\<rparr>) w2)
             else loop session1 w1))"

end
