(* ===== verification/AgentServing.thy ===== *)
theory AgentServing
  imports AgentLoop
begin

text \<open>
  How a request reaches an agent: the choice of the base model and adapter, the datasets, the
  run inside the service and the start of a workflow, in
  \<open>inference_service/pkg/app/agent_loop.go\<close>, and the helpers it uses of
  \<open>inference_usecase.go\<close>. The repositories of models, datasets, endpoints and specs, the
  serving layer and the workflow server are parameters of \<open>agent_usecase\<close>.
\<close>

section \<open>Models and datasets\<close>

definition tick :: "agent_world \<Rightarrow> agent_world" where
  "tick w = w\<lparr>aw_tick := Suc (aw_tick w)\<rparr>"

definition read_model :: "agent_usecase \<Rightarrow> uuid \<Rightarrow> uuid \<Rightarrow> agent_world \<Rightarrow> (go_error + inference_model) \<times> agent_world" where
  "read_model uc org modelID w = (au_models uc (aw_tick w) org modelID, tick w)"

text \<open>
  The wait for the serving layer: each wake-up of the select is a tick that reads the model
  again, the deadline or the cancellation of the request. The deadline fires after the
  listed ticks at the latest.
\<close>

fun poll_loaded ::
  "agent_usecase \<Rightarrow> uuid \<Rightarrow> poll list \<Rightarrow> inference_model \<Rightarrow> agent_world \<Rightarrow> (go_error + inference_model) \<times> agent_world" where
  "poll_loaded uc org [] m w = (Inl (Extend ErrModelNotReady ''model serving load timed out''), w)"
| "poll_loaded uc org (PollCancelled e # ps) m w = (Inl e, w)"
| "poll_loaded uc org (PollDeadline # ps) m w = (Inl (Extend ErrModelNotReady ''model serving load timed out''), w)"
| "poll_loaded uc org (PollTick # ps) m w = (case read_model uc org (im_ModelID m) w of
       (Inl e, w') \<Rightarrow> (Inl e, w')
     | (Inr latest, w') \<Rightarrow> (case im_ServingLoadStatus latest of
           ModelLoadStatusLoaded \<Rightarrow> (Inr latest, w')
         | ModelLoadStatusFailed \<Rightarrow> (Inl (Extend ErrModelNotReady ''model serving load failed''), w')
         | ModelLoadStatusNotLoaded \<Rightarrow> poll_loaded uc org ps latest w'))"

definition ensureServingModelLoaded ::
  "agent_usecase \<Rightarrow> uuid \<Rightarrow> inference_model \<Rightarrow> agent_world \<Rightarrow> (go_error + inference_model) \<times> agent_world" where
  "ensureServingModelLoaded uc org m w =
     (if im_ServingLoadStatus m = ModelLoadStatusLoaded then (Inr m, w)
      else case (if im_ServingLoadStatus m = ModelLoadStatusNotLoaded then au_load_trigger uc else None) of
        None \<Rightarrow> (Inl (Extend ErrModelNotReady ''model is not loaded by serving layer''), w)
      | Some trigger \<Rightarrow> (case trigger (aw_tick w) org (im_ModelID m) of
          Some e \<Rightarrow> (Inl (Extend ErrModelNotReady (''model serving load trigger failed: '' @ er_Text e)), tick w)
        | None \<Rightarrow>
            if \<not> au_load_timing uc
            then (Inl (Extend ErrModelNotReady ''model serving load timing is not configured''), tick w)
            else poll_loaded uc org (au_polls uc (aw_tick w)) m (tick w)))"

fun readGenerateDatasets ::
  "agent_usecase \<Rightarrow> uuid \<Rightarrow> uuid list \<Rightarrow> agent_world \<Rightarrow> (go_error + inference_dataset list) \<times> agent_world" where
  "readGenerateDatasets uc org [] w = (Inr [], w)"
| "readGenerateDatasets uc org (i # is) w = (case au_datasets uc (aw_tick w) org i of
       Inl e \<Rightarrow> (Inl e, tick w)
     | Inr d \<Rightarrow> (case readGenerateDatasets uc org is (tick w) of
           (Inl e, w') \<Rightarrow> (Inl e, w')
         | (Inr ds, w') \<Rightarrow> (Inr (d # ds), w')))"

definition filterReadyRAGDatasets :: "inference_dataset list \<Rightarrow> inference_dataset list" where
  "filterReadyRAGDatasets ds = filter (\<lambda>d. IsRAGReady d \<and> HasSupportedEmbeddingProvider d) ds"

section \<open>The model that answers\<close>

record serving_selection =
  sv_BaseModel :: inference_model
  sv_AdapterModel :: "inference_model option"
  sv_ServingModelID :: uuid
  sv_Protocol :: string
  sv_BaseModelName :: string
  sv_Target :: string
  sv_LoraName :: string
  sv_AdapterURI :: string
  sv_EffectiveBaseID :: string

definition generationModelName :: "serving_selection \<Rightarrow> string" where
  "generationModelName s = (if TrimSpace (sv_LoraName s) \<noteq> [] then TrimSpace (sv_LoraName s)
     else TrimSpace (sv_BaseModelName s))"

definition base_selection :: "inference_model \<Rightarrow> serving_selection" where
  "base_selection m = \<lparr>sv_BaseModel = m, sv_AdapterModel = None, sv_ServingModelID = uuid_nil,
     sv_Protocol = TrimSpace (ServingProtocol_String (im_ServingProtocol m)),
     sv_BaseModelName = TrimSpace (im_ServingModel m), sv_Target = TrimSpace (im_ServingTarget m),
     sv_LoraName = [], sv_AdapterURI = [], sv_EffectiveBaseID = TrimSpace (im_EffectiveBaseID m)\<rparr>"

definition chosen_adapter :: "generate_request \<Rightarrow> inference_endpoint \<Rightarrow> uuid" where
  "chosen_adapter request endpoint = (let base = en_ModelID endpoint in
     if gq_ServingModelID request \<noteq> uuid_nil \<and> gq_ServingModelID request \<noteq> base then gq_ServingModelID request
     else if en_ServingModelID endpoint \<noteq> uuid_nil \<and> en_ServingModelID endpoint \<noteq> base
     then en_ServingModelID endpoint else uuid_nil)"

definition resolve_adapter ::
  "agent_usecase \<Rightarrow> generate_request \<Rightarrow> serving_selection \<Rightarrow> uuid \<Rightarrow> agent_world \<Rightarrow>
   (go_error + serving_selection \<times> generate_request) \<times> agent_world" where
  "resolve_adapter uc request selection servingModelID w =
     (case read_model uc (gq_OrgID request) servingModelID w of (Inl e, w1) \<Rightarrow> (Inl e, w1)
      | (Inr adapter, w1) \<Rightarrow>
          if im_ModelKind adapter \<noteq> ModelKindFineTuned
          then (Inl (Extend ErrInferenceValidation ''agent serving model must be a fine-tuned adapter''), w1)
          else if im_Status adapter \<noteq> ModelStatusReady
          then (Inl (Extend ErrModelNotReady ''adapter model is not ready''), w1)
          else if TrimSpace (im_EffectiveBaseID adapter) = []
          then (Inl (Extend ErrModelNotReady ''adapter effective base is not available''), w1)
          else if TrimSpace (im_EffectiveBaseID adapter) \<noteq> sv_EffectiveBaseID selection
          then (Inl (Extend ErrInferenceValidation ''adapter effective base does not match endpoint model''), w1)
          else if TrimSpace (im_AdapterURI adapter) = []
          then (Inl (Extend ErrModelNotReady ''adapter uri is not available''), w1)
          else (case ensureServingModelLoaded uc (gq_OrgID request) adapter w1 of (Inl e, w2) \<Rightarrow> (Inl e, w2)
            | (Inr adapter', w2) \<Rightarrow>
                if TrimSpace (im_ServingModel adapter') = []
                then (Inl (Extend ErrModelNotReady ''adapter serving name is not available''), w2)
                else (Inr (selection\<lparr>sv_AdapterModel := Some adapter', sv_ServingModelID := servingModelID,
                      sv_LoraName := TrimSpace (im_ServingModel adapter'),
                      sv_AdapterURI := TrimSpace (im_AdapterURI adapter')\<rparr>,
                    request\<lparr>gq_LoraName := TrimSpace (im_ServingModel adapter'),
                      gq_AdapterURI := TrimSpace (im_AdapterURI adapter')\<rparr>), w2)))"

definition resolveAgentServing ::
  "agent_usecase \<Rightarrow> generate_request \<Rightarrow> inference_endpoint \<Rightarrow> agent_spec \<Rightarrow> agent_world \<Rightarrow>
   (go_error + serving_selection \<times> generate_request) \<times> agent_world" where
  "resolveAgentServing uc request endpoint spec w =
     (let base = en_ModelID endpoint in
      if base = uuid_nil then (Inl (Extend ErrInferenceValidation ''agent endpoint model is required''), w)
      else if as_ModelID spec \<noteq> uuid_nil \<and> as_ModelID spec \<noteq> base
      then (Inl (Extend ErrInferenceValidation ''agent spec model does not match endpoint model''), w)
      else case read_model uc (gq_OrgID request) base w of (Inl e, w1) \<Rightarrow> (Inl e, w1)
      | (Inr m, w1) \<Rightarrow>
          if im_Status m \<noteq> ModelStatusReady then (Inl (Extend ErrModelNotReady ''model is not ready''), w1)
          else (case ensureServingModelLoaded uc (gq_OrgID request) m w1 of (Inl e, w2) \<Rightarrow> (Inl e, w2)
            | (Inr m', w2) \<Rightarrow>
                if TrimSpace (im_EffectiveBaseID m') = []
                then (Inl (Extend ErrModelNotReady ''model effective base is not available''), w2)
                else (let adapter = chosen_adapter request endpoint;
                    request' = request\<lparr>gq_ModelID := base, gq_ServingModelID := adapter\<rparr>
                  in if adapter = uuid_nil then (Inr (base_selection m', request'), w2)
                     else resolve_adapter uc request' (base_selection m') adapter w2)))"

definition agentEndpointWithAdapter :: "inference_endpoint \<Rightarrow> uuid \<Rightarrow> inference_endpoint" where
  "agentEndpointWithAdapter endpoint servingModelID = endpoint\<lparr>en_ServingModelID := servingModelID\<rparr>"

definition agentSelectedModelID :: "serving_selection \<Rightarrow> uuid" where
  "agentSelectedModelID s = (if sv_ServingModelID s \<noteq> uuid_nil then sv_ServingModelID s
     else im_ModelID (sv_BaseModel s))"

section \<open>The audit record of a request\<close>

fun missing_record_id :: "nat \<Rightarrow> retrieved_context list \<Rightarrow> go_error option" where
  "missing_record_id i [] = None"
| "missing_record_id i (c # cs) = (if rx_EmbeddingRecordID c = uuid_nil
     then Some (errorf (''retrieved context '' @ nat_text i @ '' has empty embedding record id''))
     else missing_record_id (Suc i) cs)"

definition marshalRetrievedContextIDs :: "agent_codec \<Rightarrow> retrieved_context list \<Rightarrow> go_error + string" where
  "marshalRetrievedContextIDs cd cs = (case missing_record_id 0 cs of Some e \<Rightarrow> Inl e
     | None \<Rightarrow> (case ac_ids cd (map (\<lambda>c. ac_uuid cd (rx_EmbeddingRecordID c)) cs) of
         Inl e \<Rightarrow> Inl (wrapf ''marshal retrieved context ids: '' e) | Inr text \<Rightarrow> Inr text))"

fun missing_context_id :: "nat \<Rightarrow> retrieved_context list \<Rightarrow> go_error option" where
  "missing_context_id i [] = None"
| "missing_context_id i (c # cs) = (if rx_EmbeddingRecordID c = uuid_nil
     then Some (errorf (''retrieved context '' @ nat_text i @ '' has empty embedding record id''))
     else if rx_EmbeddingSnapshotID c = uuid_nil
     then Some (errorf (''retrieved context '' @ nat_text i @ '' has empty embedding snapshot id''))
     else missing_context_id (Suc i) cs)"

definition marshalRetrievedContexts :: "agent_codec \<Rightarrow> retrieved_context list \<Rightarrow> go_error + string" where
  "marshalRetrievedContexts cd cs = (case missing_context_id 0 cs of Some e \<Rightarrow> Inl e
     | None \<Rightarrow> (case ac_contexts cd cs of
         Inl e \<Rightarrow> Inl (wrapf ''marshal retrieved contexts: '' e) | Inr text \<Rightarrow> Inr text))"

definition marshalMetadataFilters :: "agent_codec \<Rightarrow> (string \<times> string) list \<Rightarrow> go_error + string" where
  "marshalMetadataFilters cd filters = (case ac_filters cd filters of
     Inl e \<Rightarrow> Inl (wrapf ''marshal metadata filters: '' e) | Inr text \<Rightarrow> Inr text)"

definition inferenceRequestRecord ::
  "agent_codec \<Rightarrow> generate_request \<Rightarrow> inference_dataset \<Rightarrow> inference_model \<Rightarrow> retrieved_context list \<Rightarrow> string \<Rightarrow>
   string \<Rightarrow> string \<Rightarrow> int \<Rightarrow> string \<Rightarrow> string \<Rightarrow> InferenceRequestStatus \<Rightarrow> string \<Rightarrow> go_error + inference_request" where
  "inferenceRequestRecord cd request dataset m contexts promptText answerText strategyVersion latency
       generationProtocol generationModel status errorMessage =
     (case marshalMetadataFilters cd (gq_MetadataFilters request) of Inl e \<Rightarrow> Inl e
      | Inr filters \<Rightarrow> (case marshalRetrievedContextIDs cd contexts of Inl e \<Rightarrow> Inl e
      | Inr ids \<Rightarrow> (case marshalRetrievedContexts cd contexts of Inl e \<Rightarrow> Inl e
      | Inr texts \<Rightarrow> Inr \<lparr>ir_RequestID = gq_RequestID request, ir_UserID = gq_UserID request,
          ir_OrgID = gq_OrgID request, ir_DatasetID = id_DatasetID dataset, ir_ModelID = im_ModelID m,
          ir_EmbeddingSnapshotID = id_EmbeddingSnapshotID dataset, ir_QueryText = gq_QueryText request,
          ir_TopK = gq_TopK request, ir_MetadataFilters = filters, ir_RetrievedContextIDs = ids,
          ir_RetrievedContexts = texts, ir_PromptText = promptText, ir_AnswerText = answerText,
          ir_PromptStrategyVersion = strategyVersion, ir_GenerationProtocol = generationProtocol,
          ir_GenerationModel = generationModel, ir_LatencyMs = latency, ir_Status = status,
          ir_ErrorMessage = errorMessage\<rparr>)))"

definition recordInferenceRequest ::
  "agent_usecase \<Rightarrow> generate_request \<Rightarrow> inference_dataset \<Rightarrow> inference_model \<Rightarrow> retrieved_context list \<Rightarrow>
   string \<Rightarrow> string \<Rightarrow> string \<Rightarrow> InferenceRequestStatus \<Rightarrow> string \<Rightarrow> agent_world \<Rightarrow> go_error option \<times> agent_world" where
  "recordInferenceRequest uc request dataset m contexts answerText generationProtocol generationModel status
       errorMessage w =
     (case inferenceRequestRecord (au_codec uc) request dataset m contexts [] answerText (au_strategy_version uc)
         (au_latency uc (aw_tick w)) generationProtocol generationModel status errorMessage of
        Inl e \<Rightarrow> (Some e, w)
      | Inr record \<Rightarrow> (case au_requests uc (aw_tick w) record of
          Some e \<Rightarrow> (Some (wrapf ''record inference request: '' e), tick w)
        | None \<Rightarrow> (None, (tick w)\<lparr>aw_requests := aw_requests w @ [record]\<rparr>)))"

section \<open>Running an agent inside the service\<close>

record generate_response =
  gp_RequestID :: uuid
  gp_AgentRunID :: uuid
  gp_Accepted :: bool
  gp_OrgID :: uuid
  gp_DatasetID :: uuid
  gp_DatasetIDs :: "uuid list"
  gp_ModelID :: uuid
  gp_QueryText :: string
  gp_Answer :: string
  gp_Contexts :: "retrieved_context list"
  gp_PromptStrategyVersion :: string
  gp_GenerationProtocol :: string
  gp_GenerationModel :: string
  gp_RAGMergeStrategy :: string

definition datasetIDsFromModels :: "inference_dataset list \<Rightarrow> uuid list" where
  "datasetIDsFromModels ds = filter (\<lambda>i. i \<noteq> uuid_nil) (map id_DatasetID ds)"

definition read_spec :: "agent_usecase \<Rightarrow> uuid \<Rightarrow> string \<Rightarrow> agent_world \<Rightarrow> (go_error + agent_spec) \<times> agent_world" where
  "read_spec uc org hash w = (au_specs uc (aw_tick w) org hash, tick w)"

definition ready_datasets ::
  "agent_usecase \<Rightarrow> uuid \<Rightarrow> uuid list \<Rightarrow> agent_world \<Rightarrow> (go_error + inference_dataset list) \<times> agent_world" where
  "ready_datasets uc org ids w = (case readGenerateDatasets uc org ids w of (Inl e, w') \<Rightarrow> (Inl e, w')
     | (Inr ds, w') \<Rightarrow> if filterReadyRAGDatasets ds = []
         then (Inl (Extend ErrDatasetNotReady ''no endpoint datasets have materialized embeddings''), w')
         else (Inr (filterReadyRAGDatasets ds), w'))"

text \<open>Spec, model and datasets of a request, which the two ways to run an agent read alike.\<close>

definition prepare_run ::
  "agent_usecase \<Rightarrow> generate_request \<Rightarrow> inference_endpoint \<Rightarrow> string \<Rightarrow> agent_world \<Rightarrow>
   (go_error + agent_spec \<times> serving_selection \<times> generate_request \<times> inference_dataset list) \<times> agent_world" where
  "prepare_run uc request endpoint specHash w =
     (case read_spec uc (gq_OrgID request) specHash w of (Inl e, w1) \<Rightarrow> (Inl e, w1)
      | (Inr spec, w1) \<Rightarrow> (case resolveAgentServing uc request endpoint spec w1 of (Inl e, w2) \<Rightarrow> (Inl e, w2)
      | (Inr (serving, request'), w2) \<Rightarrow>
          (case ready_datasets uc (gq_OrgID request') (en_DatasetIDs endpoint) w2 of (Inl e, w3) \<Rightarrow> (Inl e, w3)
           | (Inr ds, w3) \<Rightarrow> (Inr (spec, serving, request', ds), w3))))"

definition unsupported_protocol :: "string \<Rightarrow> go_error" where
  "unsupported_protocol protocol =
     Extend ErrModelNotReady (''serving protocol '' @ Quoted protocol @ '' is not supported'')"

definition generateAgent ::
  "agent_usecase \<Rightarrow> generate_request \<Rightarrow> inference_endpoint \<Rightarrow> agent_world \<Rightarrow>
   (go_error + generate_response) \<times> agent_world" where
  "generateAgent uc request0 endpoint w =
     (case prepare_run uc request0 endpoint (en_AgentSpecHash endpoint) w of (Inl e, w1) \<Rightarrow> (Inl e, w1)
      | (Inr (spec, serving, request1, ds), w1) \<Rightarrow>
          (let dataset = hd ds; request = request1\<lparr>gq_DatasetID := id_DatasetID dataset\<rparr>;
               protocol = sv_Protocol serving; name = generationModelName serving; m = sv_BaseModel serving
           in case au_adapters uc protocol of
             None \<Rightarrow> (let err = unsupported_protocol protocol in
               case recordInferenceRequest uc request dataset m [] [] protocol name
                   InferenceRequestStatusFailed (er_Text err) w1 of
                 (recorded, w2) \<Rightarrow> (Inl (join_errors err recorded), w2))
           | Some generator \<Rightarrow>
               (case runAgentLoop uc request endpoint spec m ds generator w1 of
                 ((result, Some err), w2) \<Rightarrow>
                   (case recordInferenceRequest uc request dataset m (al_Contexts result) (al_Answer result) protocol
                       name InferenceRequestStatusFailed (er_Text err) w2 of
                     (recorded, w3) \<Rightarrow> (Inl (join_errors err recorded), w3))
               | ((result, None), w2) \<Rightarrow>
                   (case recordInferenceRequest uc request dataset m (al_Contexts result) (al_Answer result) protocol
                       name InferenceRequestStatusCompleted [] w2 of
                     (Some e, w3) \<Rightarrow> (Inl e, w3)
                   | (None, w3) \<Rightarrow> (Inr \<lparr>gp_RequestID = gq_RequestID request, gp_AgentRunID = al_RunID result,
                       gp_Accepted = False, gp_OrgID = gq_OrgID request, gp_DatasetID = id_DatasetID dataset,
                       gp_DatasetIDs = datasetIDsFromModels ds,
                       gp_ModelID = (if sv_ServingModelID serving \<noteq> uuid_nil then sv_ServingModelID serving
                         else im_ModelID m),
                       gp_QueryText = gq_QueryText request, gp_Answer = al_Answer result,
                       gp_Contexts = al_Contexts result, gp_PromptStrategyVersion = as_ContentHash spec,
                       gp_GenerationProtocol = protocol, gp_GenerationModel = name,
                       gp_RAGMergeStrategy = en_MergeStrategy endpoint\<rparr>, w3)))))"

section \<open>Starting a workflow\<close>

definition workflow_session ::
  "generate_request \<Rightarrow> inference_endpoint \<Rightarrow> agent_spec \<Rightarrow> serving_selection \<Rightarrow> inference_dataset list \<Rightarrow> agent_session" where
  "workflow_session request endpoint spec serving ds =
     (new_session request (agentEndpointWithAdapter endpoint (sv_ServingModelID serving)) spec (sv_BaseModel serving) ds)
       \<lparr>sn_LoraName := sv_LoraName serving, sn_AdapterURI := sv_AdapterURI serving\<rparr>"

definition startAgentRunWorkflowWithSpec ::
  "agent_usecase \<Rightarrow> (nat \<Rightarrow> go_error option) \<Rightarrow> generate_request \<Rightarrow> inference_endpoint \<Rightarrow> string \<Rightarrow> agent_world \<Rightarrow>
   (go_error + generate_response) \<times> agent_world" where
  "startAgentRunWorkflowWithSpec uc starter request0 endpoint specHash w =
     (case prepare_run uc (request0\<lparr>gq_AgentRunID := gq_RequestID request0\<rparr>) endpoint specHash w of
        (Inl e, w1) \<Rightarrow> (Inl e, w1)
      | (Inr (spec, serving, request, ds), w1) \<Rightarrow>
      (let session = workflow_session request endpoint spec serving ds in
       case available_tools uc (appToolResolutionContext session) (as_ToolBindings spec) w1 of
         (Inl e, w2) \<Rightarrow> (Inl e, w2)
       | (Inr tools, w2) \<Rightarrow>
       (case agentToolsetHash (au_codec uc) tools of Inl e \<Rightarrow> (Inl e, w2)
       | Inr hash \<Rightarrow>
       (let session1 = session\<lparr>sn_ResolvedToolSpecs := tools, sn_ToolsetHash := hash\<rparr> in
        case recordAgentRun uc session1 AgentRunStatusRunning AgentStopReasonUnknown w2 of (Inl e, w3) \<Rightarrow> (Inl e, w3)
        | (Inr _, w3) \<Rightarrow>
            (case starter (aw_tick w3) of
               Some e \<Rightarrow> (Inl e, snd (recordAgentRun uc session1 AgentRunStatusFailed AgentStopReasonRuntimeError (tick w3)))
             | None \<Rightarrow> (Inr \<lparr>gp_RequestID = gq_RequestID request, gp_AgentRunID = gq_AgentRunID request,
                 gp_Accepted = True, gp_OrgID = gq_OrgID request, gp_DatasetID = id_DatasetID (hd ds),
                 gp_DatasetIDs = datasetIDsFromModels ds, gp_ModelID = agentSelectedModelID serving,
                 gp_QueryText = gq_QueryText request, gp_Answer = [], gp_Contexts = [],
                 gp_PromptStrategyVersion = as_ContentHash spec, gp_GenerationProtocol = [], gp_GenerationModel = [],
                 gp_RAGMergeStrategy = en_MergeStrategy endpoint\<rparr>,
               (tick w3)\<lparr>aw_started := aw_started w3 @
                 [(en_EndpointID endpoint, as_ContentHash spec, request, bg_WallMs (as_Budgets spec))]\<rparr>))))))"

definition startAgentRunWorkflow ::
  "agent_usecase \<Rightarrow> (nat \<Rightarrow> go_error option) \<Rightarrow> generate_request \<Rightarrow> inference_endpoint \<Rightarrow> agent_world \<Rightarrow>
   (go_error + generate_response) \<times> agent_world" where
  "startAgentRunWorkflow uc starter request endpoint w =
     startAgentRunWorkflowWithSpec uc starter request endpoint (en_AgentSpecHash endpoint) w"

definition read_endpoint ::
  "agent_usecase \<Rightarrow> uuid \<Rightarrow> uuid \<Rightarrow> agent_world \<Rightarrow> (go_error + inference_endpoint) \<times> agent_world" where
  "read_endpoint uc org i w = (au_endpoints uc (aw_tick w) org i, tick w)"

definition StartAgentEvalRun ::
  "agent_usecase \<Rightarrow> (nat \<Rightarrow> go_error option) \<Rightarrow> uuid \<Rightarrow> string \<Rightarrow> generate_request \<Rightarrow> agent_world \<Rightarrow>
   (go_error + generate_response) \<times> agent_world" where
  "StartAgentEvalRun uc starter endpointID specHash request w =
     (case read_endpoint uc (gq_OrgID request) endpointID w of (Inl e, w1) \<Rightarrow> (Inl e, w1)
      | (Inr endpoint, w1) \<Rightarrow>
          if en_Mode endpoint \<noteq> AgentEndpointModeAgent
          then (Inl (Extend ErrInferenceValidation ''agent eval requires an agent endpoint''), w1)
          else startAgentRunWorkflowWithSpec uc starter request endpoint specHash w1)"

text \<open>The dispatch of a request to an endpoint; \<open>rag\<close> answers for an endpoint without an agent.\<close>

definition GenerateForEndpoint ::
  "agent_usecase \<Rightarrow> (generate_request \<Rightarrow> inference_endpoint \<Rightarrow> agent_world \<Rightarrow> (go_error + generate_response) \<times> agent_world) \<Rightarrow>
   uuid \<Rightarrow> generate_request \<Rightarrow> agent_world \<Rightarrow> (go_error + generate_response) \<times> agent_world" where
  "GenerateForEndpoint uc rag endpointID request0 w =
     (case read_endpoint uc (gq_OrgID request0) endpointID w of (Inl e, w1) \<Rightarrow> (Inl e, w1)
      | (Inr endpoint, w1) \<Rightarrow>
          if \<not> endpoint_IsReady endpoint
          then (Inl (Extend ErrModelNotReady ''inference endpoint is not ready''), w1)
          else (let request = request0\<lparr>gq_ModelID := en_ModelID endpoint\<rparr> in
            if en_Mode endpoint = AgentEndpointModeAgent
            then (case au_starter uc of Some starter \<Rightarrow> startAgentRunWorkflow uc starter request endpoint w1
                  | None \<Rightarrow> generateAgent uc request endpoint w1)
            else rag request endpoint w1))"

end
