(* ===== verification/AgentWorkflow.thy ===== *)
theory AgentWorkflow
  imports AgentServing
begin

text \<open>
  The agent loop as a Temporal workflow: \<open>inference_service/pkg/app/agent_run_workflow.go\<close>
  and its activities, \<open>agent_run_activities.go\<close>. The workflow keeps its state in
  \<open>workflow_state\<close> and reaches the outside through activities only, each with a number of
  attempts. An attempt is delivered, or runs and its result is lost, or never runs
  (\<open>au_attempt\<close>); Temporal tries again until the attempts are used up. The state survives the
  trip through the server's JSON. Logging is left out.
\<close>

section \<open>State and messages\<close>

record workflow_state =
  ws_Request :: generate_request
  ws_EndpointID :: uuid
  ws_ModelID :: uuid
  ws_AgentSpecHash :: string
  ws_DatasetIDs :: "uuid list"
  ws_ToolsetHash :: string
  ws_EffectiveBaseID :: string
  ws_DataSnapshotSet :: "dataset_snapshot_ref list"
  ws_DataSnapshotHash :: string
  ws_MergeStrategy :: string
  ws_Budgets :: agent_budgets
  ws_ToolBindings :: "tool_binding list"
  ws_ServingProtocol :: string
  ws_ServingModel :: string
  ws_ServingTarget :: string
  ws_LoraName :: string
  ws_AdapterURI :: string
  ws_DecodingOptions :: generation_options
  ws_TotalTokens :: int
  ws_LastToolCallSignature :: string
  ws_RepeatedToolCallCount :: nat
  ws_TransientToolFailureCount :: "string \<Rightarrow> nat"

record workflow_input =
  wi_EndpointID :: uuid
  wi_AgentSpecHash :: string
  wi_Request :: generate_request
  wi_WallMs :: int

record step_output =
  so_Result :: generation_result
  so_PromptTokenEstimate :: int
  so_TokenUsage :: int
  so_StopReason :: string
  so_ErrorMessage :: string

record tool_output =
  to_IsError :: bool
  to_ErrorType :: string
  to_TokenEstimate :: int

section \<open>Helpers of the workflow\<close>

definition agentWorkflowToolErrorType :: "string \<Rightarrow> ToolErrorType" where
  "agentWorkflowToolErrorType v =
     (if TrimSpace v = [] \<or> EqualFold (TrimSpace v) (ToolErrorType_String ToolErrorTypeUnknown) then ToolErrorTypeUnknown
      else case ToToolErrorType v of Inl _ \<Rightarrow> ToolErrorTypePermanent | Inr t \<Rightarrow> t)"

definition agentWorkflowStopReason :: "string \<Rightarrow> AgentStopReason" where
  "agentWorkflowStopReason v =
     (if TrimSpace v = [] \<or> EqualFold (TrimSpace v) (AgentStopReason_String AgentStopReasonUnknown)
      then AgentStopReasonUnknown
      else case ToAgentStopReason v of Inl _ \<Rightarrow> AgentStopReasonRuntimeError | Inr r \<Rightarrow> r)"

definition agentWorkflowStepGenerationOptions :: "workflow_state \<Rightarrow> generation_options" where
  "agentWorkflowStepGenerationOptions st =
     limit_output (bg_Token (ws_Budgets st)) (ws_TotalTokens st) (ws_DecodingOptions st)"

definition agentWorkflowTokenBudgetExceeded :: "workflow_state \<Rightarrow> bool" where
  "agentWorkflowTokenBudgetExceeded st \<longleftrightarrow> bg_Token (ws_Budgets st) > 0 \<and> ws_TotalTokens st \<ge> bg_Token (ws_Budgets st)"

definition agentWorkflowTokenBudgetWouldExceed :: "workflow_state \<Rightarrow> int \<Rightarrow> bool" where
  "agentWorkflowTokenBudgetWouldExceed st additionalTokens \<longleftrightarrow> bg_Token (ws_Budgets st) > 0 \<and>
     wrap64 (ws_TotalTokens st + additionalTokens) \<ge> bg_Token (ws_Budgets st)"

definition agentWorkflowToolChoice :: "tool_binding list \<Rightarrow> int \<Rightarrow> string" where
  "agentWorkflowToolChoice bindings step = (if step > 0 then [] else first_tool_choice bindings)"

definition agentWorkflowToolCallSignature :: "tool_call \<Rightarrow> string" where
  "agentWorkflowToolCallSignature call = Join [TrimSpace (tc_Name call), TrimSpace (tc_Arguments call)] [CHR 0x00]"

section \<open>The session of an activity\<close>

definition agentWorkflowEndpoint :: "workflow_state \<Rightarrow> inference_endpoint" where
  "agentWorkflowEndpoint st = \<lparr>en_EndpointID = ws_EndpointID st, en_OrgID = gq_OrgID (ws_Request st),
     en_ModelID = ws_ModelID st, en_ServingModelID = gq_ServingModelID (ws_Request st),
     en_Mode = AgentEndpointModeAgent, en_AgentSpecID = uuid_nil, en_AgentSpecHash = ws_AgentSpecHash st,
     en_DatasetIDs = ws_DatasetIDs st, en_MergeStrategy = ws_MergeStrategy st, en_Status = ''ready'',
     en_DisplayName = [], en_CreatedByUserID = uuid_nil, en_ChampionDecisionID = uuid_nil,
     en_ChampionDecidedAt = 0\<rparr>"

definition agentWorkflowSpec :: "workflow_state \<Rightarrow> agent_spec" where
  "agentWorkflowSpec st = \<lparr>as_AgentSpecID = uuid_nil, as_OrgID = gq_OrgID (ws_Request st), as_AgentLineage = [],
     as_SystemPrompt = [], as_SourceYAML = [], as_CanonicalJSON = [], as_SchemaVersion = [],
     as_ContentHash = ws_AgentSpecHash st, as_ValidationReport = [], as_ModelID = uuid_nil,
     as_ToolBindings = ws_ToolBindings st, as_RetrievalConfig = [], as_Budgets = ws_Budgets st,
     as_StopConditions = [], as_Guardrails = [], as_Status = AgentSpecStatusUnknown, as_CreatedAt = 0\<rparr>"

definition agentWorkflowGenerationModelName :: "workflow_state \<Rightarrow> string" where
  "agentWorkflowGenerationModelName st = (if TrimSpace (ws_LoraName st) \<noteq> [] then TrimSpace (ws_LoraName st)
     else TrimSpace (ws_ServingModel st))"

definition agentWorkflowModel :: "workflow_state \<Rightarrow> inference_model" where
  "agentWorkflowModel st = empty_model\<lparr>im_ModelID := ws_ModelID st, im_UserID := gq_UserID (ws_Request st),
     im_OrgID := gq_OrgID (ws_Request st),
     im_ServingProtocol := (case ToServingProtocol (ws_ServingProtocol st) of Inl _ \<Rightarrow> ServingProtocolUnknown | Inr p \<Rightarrow> p),
     im_ServingModel := ws_ServingModel st, im_ServingTarget := ws_ServingTarget st,
     im_EffectiveBaseID := ws_EffectiveBaseID st\<rparr>"

definition agentWorkflowDatasets ::
  "agent_usecase \<Rightarrow> workflow_state \<Rightarrow> agent_world \<Rightarrow> (go_error + inference_dataset list) \<times> agent_world" where
  "agentWorkflowDatasets uc st w =
     (case readGenerateDatasets uc (gq_OrgID (ws_Request st)) (ws_DatasetIDs st) w of
        (Inl e, w') \<Rightarrow> (Inl e, w') | (Inr ds, w') \<Rightarrow> (Inr (filterReadyRAGDatasets ds), w'))"

definition agentWorkflowSession ::
  "agent_usecase \<Rightarrow> workflow_state \<Rightarrow> agent_world \<Rightarrow> (go_error + agent_session) \<times> agent_world" where
  "agentWorkflowSession uc st w = (case agentWorkflowDatasets uc st w of (Inl e, w') \<Rightarrow> (Inl e, w')
     | (Inr ds, w') \<Rightarrow> (Inr \<lparr>sn_RunID = gq_AgentRunID (ws_Request st), sn_OrgID = gq_OrgID (ws_Request st),
         sn_UserID = gq_UserID (ws_Request st), sn_Endpoint = agentWorkflowEndpoint st,
         sn_Spec = agentWorkflowSpec st, sn_Model = agentWorkflowModel st, sn_Datasets = ds,
         sn_DataSnapshotSet = ws_DataSnapshotSet st, sn_LoraName = ws_LoraName st,
         sn_AdapterURI = ws_AdapterURI st, sn_Messages = [], sn_ResolvedToolSpecs = [],
         sn_ToolsetHash = ws_ToolsetHash st, sn_DecodingOptions = ws_DecodingOptions st,
         sn_TotalTokens = ws_TotalTokens st\<rparr>, w'))"

definition agentWorkflowToolSpecs ::
  "agent_usecase \<Rightarrow> workflow_state \<Rightarrow> agent_world \<Rightarrow> (go_error + tool_spec list) \<times> agent_world" where
  "agentWorkflowToolSpecs uc st w = (case agentWorkflowSession uc st w of (Inl e, w') \<Rightarrow> (Inl e, w')
     | (Inr session, w') \<Rightarrow> available_tools uc (appToolResolutionContext session) (ws_ToolBindings st) w')"

text \<open>The messages of the steps so far, read back from the trajectory.\<close>

definition read_trajectory :: "agent_usecase \<Rightarrow> uuid \<Rightarrow> uuid \<Rightarrow> agent_world \<Rightarrow> (go_error + agent_trajectory) \<times> agent_world" where
  "read_trajectory uc org runID w =
     (ReadAgentTrajectory (au_db uc (aw_tick w)) (au_session uc) org runID (aw_tables w), tick w)"

definition agentWorkflowInvocationsByStep :: "tool_invocation list \<Rightarrow> uuid \<Rightarrow> tool_invocation list" where
  "agentWorkflowInvocationsByStep invocations stepID = filter (\<lambda>v. ti_StepID v = stepID) invocations"

definition parse_error :: "string \<Rightarrow> int \<Rightarrow> go_error \<Rightarrow> go_error" where
  "parse_error what index e = wrapf (''parse '' @ what @ '' for step '' @ int_text index @ '': '') e"

fun invocation_messages :: "agent_codec \<Rightarrow> int \<Rightarrow> tool_invocation list \<Rightarrow> go_error + chat_message list" where
  "invocation_messages cd index [] = Inr []"
| "invocation_messages cd index (v # vs) = (case agentToolResultFromJSON cd (ti_Result v) of
       Inl e \<Rightarrow> Inl (parse_error ''tool result'' index e)
     | Inr r \<Rightarrow> (case invocation_messages cd index vs of Inl e \<Rightarrow> Inl e
         | Inr ms \<Rightarrow> Inr (\<lparr>cm_Role = ChatMessageRoleTool, cm_Content = tr_Content r, cm_ToolCallID = tr_CallID r,
             cm_Name = ti_ToolName v, cm_ToolCalls = []\<rparr> # ms)))"

fun step_messages ::
  "agent_codec \<Rightarrow> int \<Rightarrow> tool_invocation list \<Rightarrow> agent_step list \<Rightarrow> go_error + chat_message list" where
  "step_messages cd stepIndex invocations [] = Inr []"
| "step_messages cd stepIndex invocations (st # sts) =
     (if ag_StepIndex st \<ge> stepIndex then step_messages cd stepIndex invocations sts
      else case agentGenerationResultFromJSON cd (ag_GenerationResult st) of
        Inl e \<Rightarrow> Inl (parse_error ''generation result'' (ag_StepIndex st) e)
      | Inr gen \<Rightarrow> (case invocation_messages cd (ag_StepIndex st)
            (agentWorkflowInvocationsByStep invocations (ag_StepID st)) of Inl e \<Rightarrow> Inl e
        | Inr tools \<Rightarrow> (case step_messages cd stepIndex invocations sts of Inl e \<Rightarrow> Inl e
            | Inr rest \<Rightarrow> Inr (assistant_message gen # tools @ rest))))"

definition agentWorkflowMessages ::
  "agent_usecase \<Rightarrow> workflow_state \<Rightarrow> int \<Rightarrow> agent_world \<Rightarrow> (go_error + chat_message list) \<times> agent_world" where
  "agentWorkflowMessages uc st stepIndex w =
     (let request = ws_Request st in
      case read_spec uc (gq_OrgID request) (ws_AgentSpecHash st) w of (Inl e, w1) \<Rightarrow> (Inl e, w1)
      | (Inr spec, w1) \<Rightarrow>
        (case read_trajectory uc (gq_OrgID request) (gq_AgentRunID request) w1 of (Inl e, w2) \<Rightarrow> (Inl e, w2)
         | (Inr trajectory, w2) \<Rightarrow>
            (case step_messages (au_codec uc) stepIndex (tj_ToolInvocations trajectory) (tj_Steps trajectory) of
               Inl e \<Rightarrow> (Inl e, w2)
             | Inr ms \<Rightarrow> (Inr (agentInitialMessages spec (gq_QueryText request) @ ms), w2))))"

fun invocation_contexts :: "agent_codec \<Rightarrow> tool_invocation list \<Rightarrow> go_error + retrieved_context list" where
  "invocation_contexts cd [] = Inr []"
| "invocation_contexts cd (v # vs) = (case agentToolResultFromJSON cd (ti_Result v) of
       Inl e \<Rightarrow> Inl (wrapf ''parse tool result contexts: '' e)
     | Inr r \<Rightarrow> (case invocation_contexts cd vs of Inl e \<Rightarrow> Inl e | Inr cs \<Rightarrow> Inr (tr_Contexts r @ cs)))"

definition agentWorkflowContexts ::
  "agent_usecase \<Rightarrow> workflow_state \<Rightarrow> agent_world \<Rightarrow> (go_error + retrieved_context list) \<times> agent_world" where
  "agentWorkflowContexts uc st w =
     (case read_trajectory uc (gq_OrgID (ws_Request st)) (gq_AgentRunID (ws_Request st)) w of (Inl e, w1) \<Rightarrow> (Inl e, w1)
      | (Inr trajectory, w1) \<Rightarrow> (invocation_contexts (au_codec uc) (tj_ToolInvocations trajectory), w1))"

section \<open>Activities\<close>

definition PrepareAgentRunActivity ::
  "agent_usecase \<Rightarrow> uuid \<Rightarrow> string \<Rightarrow> generate_request \<Rightarrow> agent_world \<Rightarrow> (go_error + workflow_state) \<times> agent_world" where
  "PrepareAgentRunActivity uc endpointID specHash request0 w =
     (let request1 = (if gq_AgentRunID request0 = uuid_nil then request0\<lparr>gq_AgentRunID := gq_RequestID request0\<rparr> else request0) in
      case read_endpoint uc (gq_OrgID request1) endpointID w of (Inl e, w1) \<Rightarrow> (Inl e, w1)
      | (Inr endpoint, w1) \<Rightarrow>
      if \<not> endpoint_IsReady endpoint then (Inl (Extend ErrModelNotReady ''inference endpoint is not ready''), w1)
      else if en_Mode endpoint \<noteq> AgentEndpointModeAgent
      then (Inl (Extend ErrInferenceValidation ''agent workflow requires an agent endpoint''), w1)
      else (case prepare_run uc request1 endpoint
          (if TrimSpace specHash = [] then en_AgentSpecHash endpoint else TrimSpace specHash) w1 of (Inl e, w2) \<Rightarrow> (Inl e, w2)
        | (Inr (spec, serving, request2, ds), w2) \<Rightarrow>
        (let request = request2\<lparr>gq_DatasetID := id_DatasetID (hd ds)\<rparr>; m = sv_BaseModel serving in
         if au_adapters uc (sv_Protocol serving) = None then (Inl (unsupported_protocol (sv_Protocol serving)), w2)
         else if TrimSpace (im_EffectiveBaseID m) = []
         then (Inl (Extend ErrModelNotReady ''model effective base is not available''), w2)
         else (case agentDataSnapshotHash (au_codec uc) (agentDataSnapshotSet ds) of Inl e \<Rightarrow> (Inl e, w2)
         | Inr snapshotHash \<Rightarrow>
         (let session = workflow_session request endpoint spec serving ds in
          case available_tools uc (appToolResolutionContext session) (as_ToolBindings spec) w2 of (Inl e, w3) \<Rightarrow> (Inl e, w3)
          | (Inr tools, w3) \<Rightarrow> (case agentToolsetHash (au_codec uc) tools of Inl e \<Rightarrow> (Inl e, w3)
          | Inr hash \<Rightarrow> (Inr \<lparr>ws_Request = request, ws_EndpointID = en_EndpointID endpoint,
              ws_ModelID = im_ModelID m, ws_AgentSpecHash = as_ContentHash spec,
              ws_DatasetIDs = datasetIDsFromModels ds, ws_ToolsetHash = hash,
              ws_EffectiveBaseID = TrimSpace (im_EffectiveBaseID m), ws_DataSnapshotSet = agentDataSnapshotSet ds,
              ws_DataSnapshotHash = snapshotHash, ws_MergeStrategy = en_MergeStrategy endpoint,
              ws_Budgets = as_Budgets spec, ws_ToolBindings = as_ToolBindings spec,
              ws_ServingProtocol = sv_Protocol serving, ws_ServingModel = sv_BaseModelName serving,
              ws_ServingTarget = TrimSpace (im_ServingTarget m), ws_LoraName = sv_LoraName serving,
              ws_AdapterURI = sv_AdapterURI serving, ws_DecodingOptions = sn_DecodingOptions session,
              ws_TotalTokens = 0, ws_LastToolCallSignature = [], ws_RepeatedToolCallCount = 0,
              ws_TransientToolFailureCount = (\<lambda>_. 0)\<rparr>, w3)))))))"

definition activity_request ::
  "workflow_state \<Rightarrow> chat_message list \<Rightarrow> tool_spec list \<Rightarrow> string \<Rightarrow> generation_options \<Rightarrow> generation_request" where
  "activity_request st messages tools toolChoice options = \<lparr>gr_RequestID = gq_RequestID (ws_Request st),
     gr_Model = agentWorkflowModel st, gr_Query = gq_QueryText (ws_Request st), gr_Messages = messages,
     gr_Tools = tools, gr_ToolChoice = toolChoice, gr_Options = options, gr_LoraName = ws_LoraName st,
     gr_AdapterURI = ws_AdapterURI st\<rparr>"

definition GenerateAgentStepActivity ::
  "agent_usecase \<Rightarrow> workflow_state \<Rightarrow> int \<Rightarrow> string \<Rightarrow> generation_options \<Rightarrow> agent_world \<Rightarrow>
   (go_error + step_output) \<times> agent_world" where
  "GenerateAgentStepActivity uc st stepIndex toolChoice options w =
     (case au_adapters uc (TrimSpace (ws_ServingProtocol st)) of
        None \<Rightarrow> (Inl (unsupported_protocol (TrimSpace (ws_ServingProtocol st))), w)
      | Some generator \<Rightarrow>
      (case agentWorkflowMessages uc st stepIndex w of (Inl e, w1) \<Rightarrow> (Inl e, w1)
      | (Inr messages, w1) \<Rightarrow> (case agentWorkflowToolSpecs uc st w1 of (Inl e, w2) \<Rightarrow> (Inl e, w2)
      | (Inr tools, w2) \<Rightarrow>
          (let promptEstimate = estimateAgentPromptTokens messages tools in
           if agentWorkflowTokenBudgetWouldExceed st promptEstimate
           then (Inr \<lparr>so_Result = empty_generation, so_PromptTokenEstimate = promptEstimate, so_TokenUsage = 0,
             so_StopReason = AgentStopReason_String AgentStopReasonBudget,
             so_ErrorMessage = ''agent reached its token budget before generation''\<rparr>, w2)
           else (case generate_with generator (activity_request st messages tools toolChoice options) w2 of
               (Inl e, w3) \<Rightarrow> (Inl e, w3)
             | (Inr result0, w3) \<Rightarrow> (let result = result0\<lparr>gn_Options := options\<rparr> in
                 (Inr \<lparr>so_Result = result, so_PromptTokenEstimate = promptEstimate,
                   so_TokenUsage = agentGenerationTokenUsage (gn_Usage result) messages tools result,
                   so_StopReason = [], so_ErrorMessage = []\<rparr>, w3)))))))"

definition RecordAgentStepActivity ::
  "agent_usecase \<Rightarrow> workflow_state \<Rightarrow> int \<Rightarrow> generation_result \<Rightarrow> agent_world \<Rightarrow> (go_error + uuid) \<times> agent_world" where
  "RecordAgentStepActivity uc st stepIndex gen w =
     (case agentWorkflowSession uc st w of (Inl e, w1) \<Rightarrow> (Inl e, w1)
      | (Inr session, w1) \<Rightarrow> (case agentWorkflowToolSpecs uc st w1 of (Inl e, w2) \<Rightarrow> (Inl e, w2)
      | (Inr tools, w2) \<Rightarrow> recordAgentStep uc session stepIndex tools gen w2))"

definition InvokeAgentToolActivity ::
  "agent_usecase \<Rightarrow> workflow_state \<Rightarrow> uuid \<Rightarrow> tool_call \<Rightarrow> string \<Rightarrow> agent_world \<Rightarrow> (go_error + tool_output) \<times> agent_world" where
  "InvokeAgentToolActivity uc st stepID call callKey w =
     (case agentWorkflowSession uc st w of (Inl e, w1) \<Rightarrow> (Inl e, w1)
      | (Inr session, w1) \<Rightarrow>
      (case invoke_tool uc (appToolInvocationContext (au_codec uc) session stepID callKey) call w1 of
        ((r, err), w2) \<Rightarrow>
          let result = classified_result call r err in
          (case recordAgentToolInvocation uc session stepID callKey call result w2 of
             (Some e, w3) \<Rightarrow> (Inl e, w3)
           | (None, w3) \<Rightarrow> (Inr \<lparr>to_IsError = tr_IsError result,
               to_ErrorType = ToolErrorType_String (tr_ErrorType result), to_TokenEstimate = tr_TokenEstimate result\<rparr>, w3))))"

definition recordAgentWorkflowInferenceRequest ::
  "agent_usecase \<Rightarrow> workflow_state \<Rightarrow> string \<Rightarrow> InferenceRequestStatus \<Rightarrow> string \<Rightarrow> agent_world \<Rightarrow>
   (go_error + unit) \<times> agent_world" where
  "recordAgentWorkflowInferenceRequest uc st answer status errorMessage w =
     (case agentWorkflowDatasets uc st w of (Inl e, w1) \<Rightarrow> (Inl e, w1)
      | (Inr ds, w1) \<Rightarrow>
          if ds = [] then (Inl (Extend ErrInferenceValidation ''agent workflow state missing dataset or model''), w1)
          else (case agentWorkflowContexts uc st w1 of (Inl e, w2) \<Rightarrow> (Inl e, w2)
            | (Inr contexts, w2) \<Rightarrow>
                (case recordInferenceRequest uc (ws_Request st) (hd ds) (agentWorkflowModel st) contexts answer
                    (ws_ServingProtocol st) (agentWorkflowGenerationModelName st) status errorMessage w2 of
                   (Some e, w3) \<Rightarrow> (Inl e, w3) | (None, w3) \<Rightarrow> (Inr (), w3))))"

definition CompleteAgentRunActivity ::
  "agent_usecase \<Rightarrow> workflow_state \<Rightarrow> string \<Rightarrow> agent_world \<Rightarrow> (go_error + unit) \<times> agent_world" where
  "CompleteAgentRunActivity uc st answer w =
     (case agentWorkflowSession uc st w of (Inl e, w1) \<Rightarrow> (Inl e, w1)
      | (Inr session, w1) \<Rightarrow>
      (case recordAgentRun uc session AgentRunStatusCompleted AgentStopReasonFinalAnswer w1 of (Inl e, w2) \<Rightarrow> (Inl e, w2)
       | (Inr _, w2) \<Rightarrow> recordAgentWorkflowInferenceRequest uc st answer InferenceRequestStatusCompleted [] w2))"

definition parsed_stop_reason :: "string \<Rightarrow> go_error + AgentStopReason" where
  "parsed_stop_reason text = (if TrimSpace text = [] then Inr AgentStopReasonRuntimeError
     else case ToAgentStopReason text of Inl e \<Rightarrow> Inl e
       | Inr r \<Rightarrow> Inr (if r = AgentStopReasonUnknown then AgentStopReasonRuntimeError else r))"

definition FailAgentRunActivity ::
  "agent_usecase \<Rightarrow> workflow_state \<Rightarrow> string \<Rightarrow> string \<Rightarrow> agent_world \<Rightarrow> (go_error + unit) \<times> agent_world" where
  "FailAgentRunActivity uc st stopReason errorMessage w =
     (case agentWorkflowSession uc st w of (Inl e, w1) \<Rightarrow> (Inl e, w1)
      | (Inr session, w1) \<Rightarrow> (case parsed_stop_reason stopReason of Inl e \<Rightarrow> (Inl e, w1)
      | Inr reason \<Rightarrow>
          (case recordAgentRun uc session AgentRunStatusFailed reason w1 of (Inl e, w2) \<Rightarrow> (Inl e, w2)
           | (Inr _, w2) \<Rightarrow> recordAgentWorkflowInferenceRequest uc st [] InferenceRequestStatusFailed
               (if TrimSpace errorMessage = [] then AgentStopReason_String reason else TrimSpace errorMessage) w2)))"

section \<open>The workflow\<close>

text \<open>\<open>workflow.ExecuteActivity\<close> with \<open>MaximumAttempts\<close>; a lost result counts as a timeout.\<close>

fun run_activity ::
  "agent_usecase \<Rightarrow> nat \<Rightarrow> (agent_world \<Rightarrow> (go_error + 'a) \<times> agent_world) \<Rightarrow> agent_world \<Rightarrow> (go_error + 'a) \<times> agent_world" where
  "run_activity uc 0 act w = (Inl (au_activity_error uc (au_activity_timeout uc)), w)"
| "run_activity uc (Suc attempts) act w =
     (case au_attempt uc (aw_tick w) of
        Delivered \<Rightarrow> (case act (tick w) of (Inr x, w') \<Rightarrow> (Inr x, w')
          | (Inl e, w') \<Rightarrow> if attempts = 0 then (Inl (au_activity_error uc e), w') else run_activity uc attempts act w')
      | ResultLost \<Rightarrow> run_activity uc attempts act (snd (act (tick w)))
      | NeverRan \<Rightarrow> run_activity uc attempts act (tick w))"

definition effect_attempts :: nat where "effect_attempts = 1"
definition record_attempts :: nat where "record_attempts = 3"

definition agentWorkflowFail ::
  "agent_usecase \<Rightarrow> workflow_state \<Rightarrow> AgentStopReason \<Rightarrow> string \<Rightarrow> agent_world \<Rightarrow> go_error option \<times> agent_world" where
  "agentWorkflowFail uc st reason message w =
     (case run_activity uc record_attempts (FailAgentRunActivity uc st (AgentStopReason_String reason) message) w of
        (Inl e, w') \<Rightarrow> (Some e, w')
      | (Inr _, w') \<Rightarrow> (Some (errorf message), w'))"

text \<open>\<open>failErr\<close> is never nil, so an activity's own error is not what the workflow returns.\<close>

definition fail_activity ::
  "agent_usecase \<Rightarrow> workflow_state \<Rightarrow> AgentStopReason \<Rightarrow> go_error \<Rightarrow> agent_world \<Rightarrow> go_error option \<times> agent_world" where
  "fail_activity uc st reason e w = (case agentWorkflowFail uc st reason (er_Text e) w of
     (Some f, w') \<Rightarrow> (Some f, w') | (None, w') \<Rightarrow> (Some e, w'))"

datatype workflow_outcome = Going workflow_state | Ended "go_error option"

definition ended :: "go_error option \<times> agent_world \<Rightarrow> workflow_outcome \<times> agent_world" where
  "ended r = (Ended (fst r), snd r)"

definition workflow_note_signature :: "string \<Rightarrow> workflow_state \<Rightarrow> workflow_state" where
  "workflow_note_signature signature st = (if signature = ws_LastToolCallSignature st
     then st\<lparr>ws_RepeatedToolCallCount := Suc (ws_RepeatedToolCallCount st)\<rparr>
     else st\<lparr>ws_LastToolCallSignature := signature, ws_RepeatedToolCallCount := 0\<rparr>)"

definition workflow_add_tokens :: "int \<Rightarrow> workflow_state \<Rightarrow> workflow_state" where
  "workflow_add_tokens n st = st\<lparr>ws_TotalTokens := wrap64 (ws_TotalTokens st + n)\<rparr>"

definition workflow_after_tool ::
  "agent_usecase \<Rightarrow> string \<Rightarrow> tool_output \<Rightarrow> workflow_state \<Rightarrow> agent_world \<Rightarrow> workflow_outcome \<times> agent_world" where
  "workflow_after_tool uc signature out st w =
     (let proceed = (\<lambda>st. if agentWorkflowTokenBudgetExceeded st
            then ended (agentWorkflowFail uc st AgentStopReasonBudget
              ''agent reached its token budget before producing a final answer'' w)
            else (Going st, w))
      in case agentToolFailureClass (to_IsError out) (agentWorkflowToolErrorType (to_ErrorType out)) of
           ToolErrorTypeTransient \<Rightarrow>
             let n = Suc (ws_TransientToolFailureCount st signature);
                 st' = st\<lparr>ws_TransientToolFailureCount := (ws_TransientToolFailureCount st)(signature := n)\<rparr>
             in if 1 < n then ended (agentWorkflowFail uc st' AgentStopReasonToolError
                 ''agent transient tool failure retry limit exceeded'' w) else proceed st'
         | ToolErrorTypePermanent \<Rightarrow> ended (agentWorkflowFail uc st AgentStopReasonToolError ''agent tool call failed'' w)
         | ToolErrorTypePolicyDenied \<Rightarrow> ended (agentWorkflowFail uc st AgentStopReasonToolError ''agent tool call failed'' w)
         | ToolErrorTypeUnknown \<Rightarrow> proceed st)"

definition workflow_tool_call ::
  "agent_usecase \<Rightarrow> uuid \<Rightarrow> nat \<Rightarrow> tool_call \<Rightarrow> workflow_state \<Rightarrow> agent_world \<Rightarrow> workflow_outcome \<times> agent_world" where
  "workflow_tool_call uc stepID index call st w =
     (let signature = agentWorkflowToolCallSignature call; st1 = workflow_note_signature signature st in
      if ws_RepeatedToolCallCount st1 \<ge> 2
      then ended (agentWorkflowFail uc st1 AgentStopReasonLoopDetected ''agent repeated the same tool call'' w)
      else (case run_activity uc effect_attempts
              (InvokeAgentToolActivity uc st1 stepID call (agentToolCallKey call index)) w of
          (Inl e, w1) \<Rightarrow> ended (fail_activity uc st1 AgentStopReasonToolError e w1)
        | (Inr out, w1) \<Rightarrow> workflow_after_tool uc signature out (workflow_add_tokens (to_TokenEstimate out) st1) w1))"

fun workflow_tool_calls ::
  "agent_usecase \<Rightarrow> uuid \<Rightarrow> nat \<Rightarrow> tool_call list \<Rightarrow> workflow_state \<Rightarrow> agent_world \<Rightarrow> workflow_outcome \<times> agent_world" where
  "workflow_tool_calls uc stepID index [] st w = (Going st, w)"
| "workflow_tool_calls uc stepID index (call # calls) st w =
     (case workflow_tool_call uc stepID index call st w of
        (Ended e, w') \<Rightarrow> (Ended e, w')
      | (Going st', w') \<Rightarrow> workflow_tool_calls uc stepID (Suc index) calls st' w')"

definition workflow_after_generation ::
  "agent_usecase \<Rightarrow> int \<Rightarrow> step_output \<Rightarrow> workflow_state \<Rightarrow> agent_world \<Rightarrow> workflow_outcome \<times> agent_world" where
  "workflow_after_generation uc step out st0 w =
     (let st = workflow_add_tokens (so_TokenUsage out) st0; gen = so_Result out in
      case run_activity uc record_attempts (RecordAgentStepActivity uc st step gen) w of
        (Inl e, w1) \<Rightarrow> ended (fail_activity uc st AgentStopReasonRuntimeError e w1)
      | (Inr stepID, w1) \<Rightarrow>
          if agentWorkflowTokenBudgetExceeded st
          then ended (agentWorkflowFail uc st AgentStopReasonBudget
            ''agent reached its token budget before producing a final answer'' w1)
          else if gn_ToolCalls gen = []
          then (case run_activity uc record_attempts (CompleteAgentRunActivity uc st (final_answer gen)) w1 of
              (Inl e, w2) \<Rightarrow> (Ended (Some e), w2) | (Inr _, w2) \<Rightarrow> (Ended None, w2))
          else workflow_tool_calls uc stepID 0 (gn_ToolCalls gen) st w1)"

definition workflow_step ::
  "agent_usecase \<Rightarrow> int \<Rightarrow> workflow_state \<Rightarrow> agent_world \<Rightarrow> workflow_outcome \<times> agent_world" where
  "workflow_step uc step st w =
     (case run_activity uc effect_attempts (GenerateAgentStepActivity uc st step
          (agentWorkflowToolChoice (ws_ToolBindings st) step) (agentWorkflowStepGenerationOptions st)) w of
        (Inl e, w1) \<Rightarrow> ended (fail_activity uc st AgentStopReasonRuntimeError e w1)
      | (Inr out, w1) \<Rightarrow>
          if TrimSpace (so_StopReason out) \<noteq> []
          then ended (agentWorkflowFail uc st (agentWorkflowStopReason (so_StopReason out)) (so_ErrorMessage out) w1)
          else workflow_after_generation uc step out st w1)"

fun workflow_steps :: "agent_usecase \<Rightarrow> nat \<Rightarrow> int \<Rightarrow> workflow_state \<Rightarrow> agent_world \<Rightarrow> go_error option \<times> agent_world" where
  "workflow_steps uc 0 step st w = agentWorkflowFail uc st AgentStopReasonMaxSteps
     ''agent reached its step limit before producing a final answer'' w"
| "workflow_steps uc (Suc left) step st w = (case workflow_step uc step st w of
       (Ended e, w') \<Rightarrow> (e, w') | (Going st', w') \<Rightarrow> workflow_steps uc left (step + 1) st' w')"

definition AgentRunWorkflow :: "agent_usecase \<Rightarrow> workflow_input \<Rightarrow> agent_world \<Rightarrow> go_error option \<times> agent_world" where
  "AgentRunWorkflow uc input w =
     (case run_activity uc record_attempts
          (PrepareAgentRunActivity uc (wi_EndpointID input) (wi_AgentSpecHash input) (wi_Request input)) w of
        (Inl e, w1) \<Rightarrow> (Some e, w1)
      | (Inr st, w1) \<Rightarrow> workflow_steps uc (nat (bg_MaxSteps (ws_Budgets st))) 0 st w1)"

end
