(* ===== verification/AgentScenario.thy ===== *)
theory AgentScenario
  imports AgentWorkflow
begin

text \<open>
  A small concrete agent: one organisation, one endpoint whose agent has one tool, a model
  that calls the tool and then answers, and a database that accepts what its constraints
  accept. The properties of the agent runtime are applied to it.
\<close>

definition sample_jsonb :: "string \<Rightarrow> (json_kind \<times> string) option" where
  "sample_jsonb s = (case s of [] \<Rightarrow> None | c # _ \<Rightarrow>
     if c = CHR ''{'' then Some (JsonObject, s) else if c = CHR ''['' then Some (JsonArray, s) else Some (JsonScalar, s))"

definition sample_env :: "nat \<Rightarrow> traj_env" where
  "sample_env n = \<lparr>tn_now = 5000000 + int n, tn_fresh = (let u = word_of_int (100 + int n) in if u = 0 then 1 else u), tn_error = None,
     tn_refused = ''refused'', tn_valid = (\<lambda>s. s \<noteq> []), tn_jsonb = sample_jsonb\<rparr>"

definition sample_tables :: trajectory_tables where
  "sample_tables = \<lparr>tt_tenants = [2], tt_endpoints = [3], tt_runs = [], tt_steps = [], tt_invocations = []\<rparr>"

definition sample_codec :: agent_codec where
  "sample_codec = \<lparr>ac_options = (\<lambda>_. Inr ''{seed:1}''),
     ac_generation = (\<lambda>g. Inr (''{content:'' @ gn_Content g @ ''}'')),
     ac_parse_generation = (\<lambda>_. Inr empty_generation), ac_tool_result = (\<lambda>_. Inr ''{result:1}''),
     ac_parse_tool_result = (\<lambda>_. Inr \<lparr>td_Result = empty_tool_result, td_ErrorType = ''UNKNOWN''\<rparr>),
     ac_schemas = (\<lambda>_. Inr ''[1]''), ac_parameters = Inr, ac_tools = (\<lambda>_. Inr ''tools''),
     ac_snapshots = (\<lambda>_. Inr ''snapshots''), ac_filters = (\<lambda>_. Inr ''{}''), ac_ids = (\<lambda>_. Inr ''[]''),
     ac_contexts = (\<lambda>_. Inr ''[]''), ac_SHA256String = (\<lambda>s. ''sha-'' @ s),
     ac_NewSHA1 = (\<lambda>_. 1000), ac_uuid = (\<lambda>_. ''id'')\<rparr>"

definition sample_dataset :: inference_dataset where
  "sample_dataset = \<lparr>id_DatasetID = 4, id_UserID = 2, id_OrgID = 1, id_DatasetVersion = 1,
     id_ProcessingState = DatasetProcessingEmbeddingsMaterialized, id_StorageLocation = [], id_TableNamespace = [],
     id_TableName = [], id_TableFormat = [], id_CatalogProvider = [], id_ProcessingProfile = [],
     id_SchemaVersion = 1, id_SchemaMetadata = [], id_RawSnapshotID = 0, id_FeatureSnapshotID = 0,
     id_EmbeddingSnapshotID = 5, id_VectorStore = [], id_CollectionName = [], id_EmbeddingDimensions = 8,
     id_EmbeddingCount = 9, id_EmbeddingStrategyVersion = [], id_EmbeddingChunkerName = [],
     id_EmbeddingChunkerVersion = [], id_EmbeddingChunkSize = 0, id_EmbeddingChunkOverlap = 0,
     id_EmbeddingProvider = ''tei'', id_EmbeddingModel = [], id_GraphSnapshotID = 0,
     id_GraphProvenanceHash = [], id_GraphNodeCount = 0, id_GraphEdgeCount = 0\<rparr>"

definition sample_model :: inference_model where
  "sample_model = empty_model\<lparr>im_ModelID := 6, im_OrgID := 1, im_ServingTarget := ''target'',
     im_ServingModel := ''base'', im_ServingProtocol := ServingProtocolOpenAIChatCompletions,
     im_ServingLoadStatus := ModelLoadStatusLoaded, im_EffectiveBaseID := ''sha256:base'', im_Status := ModelStatusReady\<rparr>"

definition sample_endpoint :: inference_endpoint where
  "sample_endpoint = \<lparr>en_EndpointID = 3, en_OrgID = 1, en_ModelID = 6, en_ServingModelID = 0,
     en_Mode = AgentEndpointModeAgent, en_AgentSpecID = 7, en_AgentSpecHash = ''spec'', en_DatasetIDs = [4],
     en_MergeStrategy = ''score'', en_Status = ''ready'', en_DisplayName = [], en_CreatedByUserID = 2,
     en_ChampionDecisionID = 0, en_ChampionDecidedAt = 0\<rparr>"

definition sample_spec :: agent_spec where
  "sample_spec = \<lparr>as_AgentSpecID = 7, as_OrgID = 1, as_AgentLineage = [], as_SystemPrompt = ''Help'',
     as_SourceYAML = [], as_CanonicalJSON = [], as_SchemaVersion = [], as_ContentHash = ''spec'',
     as_ValidationReport = [], as_ModelID = 6,
     as_ToolBindings = [\<lparr>tb_Name = ''search'', tb_Required = True, tb_ToolChoice = [], tb_Config = []\<rparr>],
     as_RetrievalConfig = [], as_Budgets = \<lparr>bg_MaxSteps = 3, bg_Token = 500, bg_WallMs = 60000\<rparr>,
     as_StopConditions = [], as_Guardrails = [], as_Status = AgentSpecStatusPromoted, as_CreatedAt = 0\<rparr>"

definition sample_tool :: tool_spec where
  "sample_tool = \<lparr>ts_Name = ''search'', ts_Description = ''find'', ts_Parameters = ''{}'',
     ts_ImplementationVersion = ''v1'', ts_Locality = ''local''\<rparr>"

definition sample_request :: generate_request where
  "sample_request = \<lparr>gq_RequestID = 8, gq_AgentRunID = 0, gq_UserID = 2, gq_OrgID = 1, gq_DatasetID = 0,
     gq_ModelID = 0, gq_ServingModelID = 0, gq_LoraName = [], gq_AdapterURI = [], gq_QueryText = ''why'',
     gq_TopK = 3, gq_MetadataFilters = []\<rparr>"

definition sample_call :: tool_call where
  "sample_call = \<lparr>tc_ID = ''c1'', tc_Name = ''search'', tc_Arguments = ''{q:1}''\<rparr>"

definition sample_usage :: token_usage where
  "sample_usage = \<lparr>tu_PromptTokens = 20, tu_CompletionTokens = 10, tu_TotalTokens = 30\<rparr>"

text \<open>The model asks for the tool at the first request and answers at the second.\<close>

definition sample_generator :: generation_adapter where
  "sample_generator n q = Inr (if length (gr_Messages q) \<le> 2
     then empty_generation\<lparr>gn_ToolCalls := [sample_call], gn_FinishReason := ''tool_calls'', gn_Usage := sample_usage\<rparr>
     else empty_generation\<lparr>gn_Content := ''because'', gn_FinishReason := ''stop'', gn_Usage := sample_usage\<rparr>)"

definition sample_tool_answer :: "nat \<Rightarrow> tool_invocation_context \<Rightarrow> tool_call \<Rightarrow> tool_result \<times> go_error option" where
  "sample_tool_answer n ctxt call = (empty_tool_result\<lparr>tr_CallID := tc_ID call, tr_Name := tc_Name call,
     tr_Content := ''found'', tr_TokenEstimate := 5\<rparr>, None)"

definition sample_usecase :: agent_usecase where
  "sample_usecase = \<lparr>au_codec = sample_codec,
     au_session = \<lparr>ss_user = Some 2, ss_org = Some 1, ss_system = False\<rparr>, au_db = sample_env, au_available = (\<lambda>_ _ _. Inr [sample_tool]),
     au_adapters = (\<lambda>p. if p = ''OPENAI_CHAT_COMPLETIONS'' then Some sample_generator else None),
     au_invoke = sample_tool_answer, au_deadline = (\<lambda>_. None), au_models = (\<lambda>_ _ _. Inr sample_model),
     au_datasets = (\<lambda>_ _ _. Inr sample_dataset), au_endpoints = (\<lambda>_ _ _. Inr sample_endpoint),
     au_specs = (\<lambda>_ _ _. Inr sample_spec), au_load_trigger = None, au_load_timing = True,
     au_polls = (\<lambda>_. []), au_requests = (\<lambda>_ _. None), au_starter = None, au_strategy_version = ''v1'',
     au_latency = (\<lambda>_. 1), au_attempt = (\<lambda>_. Delivered), au_activity_error = (\<lambda>e. e),
     au_activity_timeout = errorf ''timeout''\<rparr>"

definition sample_world :: agent_world where
  "sample_world = \<lparr>aw_tick = 0, aw_tables = sample_tables, aw_events = [], aw_generated = [], aw_invoked = [],
     aw_requests = [], aw_started = []\<rparr>"

text \<open>A model that never stops asking for the same tool.\<close>

definition sample_stubborn :: generation_adapter where
  "sample_stubborn n q = Inr (empty_generation\<lparr>gn_ToolCalls := [sample_call], gn_FinishReason := ''tool_calls'',
     gn_Usage := sample_usage\<rparr>)"

text \<open>A run that is under way: its row and its first step are stored.\<close>

definition sample_run_row :: agent_run where
  "sample_run_row = \<lparr>ar_RunID = 50, ar_OrgID = 1, ar_UserID = 2, ar_EndpointID = 3, ar_AgentSpecHash = ''spec'',
     ar_ToolsetHash = ''tools'', ar_EffectiveBaseID = ''sha256:base'',
     ar_DataSnapshotSet = [\<lparr>sr_DatasetID = 4, sr_EmbeddingSnapshotID = 5, sr_GraphSnapshotID = 0\<rparr>],
     ar_DataSnapshotHash = ''snapshots'', ar_TrajectorySchemaVersion = ''agent_trajectory_v1'',
     ar_DecodingParams = ''{seed:1}'', ar_Status = AgentRunStatusRunning, ar_StopReason = AgentStopReasonUnknown,
     ar_StartedAt = 5000000, ar_DeadlineAt = 65000000, ar_FinishedAt = 0, ar_TotalTokens = 0, ar_WallMs = 60000\<rparr>"

definition sample_step_row :: agent_step where
  "sample_step_row = \<lparr>ag_StepID = 51, ag_RunID = 50, ag_OrgID = 1, ag_StepIndex = 0,
     ag_PresentedToolSchemas = ''[1]'', ag_GenerationResult = ''{content:}'', ag_FinishReason = ''tool_calls'',
     ag_PromptTokens = 20, ag_CompletionTokens = 10, ag_CreatedAt = 5000001\<rparr>"

definition sample_running :: trajectory_tables where
  "sample_running = sample_tables\<lparr>tt_runs := [sample_run_row], tt_steps := [sample_step_row]\<rparr>"

definition sample_session :: agent_session where
  "sample_session = (new_session (sample_request\<lparr>gq_AgentRunID := 50\<rparr>) sample_endpoint sample_spec sample_model [sample_dataset])
     \<lparr>sn_ResolvedToolSpecs := [sample_tool], sn_ToolsetHash := ''tools''\<rparr>"

definition sample_midway :: agent_world where
  "sample_midway = sample_world\<lparr>aw_tables := sample_running\<rparr>"

definition sample_workflow_input :: workflow_input where
  "sample_workflow_input = \<lparr>wi_EndpointID = 3, wi_AgentSpecHash = ''spec'',
     wi_Request = sample_request\<lparr>gq_AgentRunID := 50\<rparr>, wi_WallMs = 60000\<rparr>"

text \<open>A model that answers at once, and the use case built with it.\<close>

definition sample_direct :: generation_adapter where
  "sample_direct n q = Inr (empty_generation\<lparr>gn_Content := ''because'', gn_FinishReason := ''stop'',
     gn_Usage := sample_usage\<rparr>)"

definition sample_quick :: agent_usecase where
  "sample_quick = sample_usecase\<lparr>au_adapters := \<lambda>_. Some sample_direct\<rparr>"

text \<open>The workflow's state after its preparation.\<close>

definition sample_state :: workflow_state where
  "sample_state = \<lparr>ws_Request = sample_request\<lparr>gq_AgentRunID := 50\<rparr>, ws_EndpointID = 3, ws_ModelID = 6,
     ws_AgentSpecHash = ''spec'', ws_DatasetIDs = [4], ws_ToolsetHash = ''tools'', ws_EffectiveBaseID = ''sha256:base'',
     ws_DataSnapshotSet = ar_DataSnapshotSet sample_run_row, ws_DataSnapshotHash = ''snapshots'',
     ws_MergeStrategy = ''score'', ws_Budgets = as_Budgets sample_spec, ws_ToolBindings = as_ToolBindings sample_spec,
     ws_ServingProtocol = ''OPENAI_CHAT_COMPLETIONS'', ws_ServingModel = ''base'', ws_ServingTarget = ''target'',
     ws_LoraName = [], ws_AdapterURI = [], ws_DecodingOptions = agentDecodingOptions sample_spec sample_request,
     ws_TotalTokens = 0, ws_LastToolCallSignature = [], ws_RepeatedToolCallCount = 0,
     ws_TransientToolFailureCount = (\<lambda>_. 0)\<rparr>"

end
