(* ===== verification/AgentTrajectoryProperties.thy ===== *)
theory AgentTrajectoryProperties
  imports AgentRecording
begin

text \<open>
  What the tables of agent runs guarantee: an invariant that every statement keeps, the trip
  of a run through the tables and back, idempotent recording of a step, and the two ways in
  which a later statement silently replaces what an earlier one recorded.
\<close>

section \<open>The invariant\<close>

definition stored_run :: "agent_run \<Rightarrow> bool" where
  "stored_run r \<longleftrightarrow> ar_RunID r \<noteq> uuid_nil \<and> ar_OrgID r \<noteq> uuid_nil \<and> ar_UserID r \<noteq> uuid_nil \<and>
     ar_Status r \<noteq> AgentRunStatusUnknown \<and>
     list_all (\<lambda>x. sr_DatasetID x \<noteq> uuid_nil \<and> sr_EmbeddingSnapshotID x \<noteq> uuid_nil) (ar_DataSnapshotSet r)"

definition stored_step :: "trajectory_tables \<Rightarrow> agent_step \<Rightarrow> bool" where
  "stored_step t x \<longleftrightarrow> ag_StepID x \<noteq> uuid_nil \<and> ag_RunID x \<noteq> uuid_nil \<and> ag_OrgID x \<noteq> uuid_nil \<and>
     ag_RunID x \<in> ar_RunID ` set (tt_runs t)"

definition stored_invocation :: "trajectory_tables \<Rightarrow> tool_invocation \<Rightarrow> bool" where
  "stored_invocation t v \<longleftrightarrow> ti_InvocationID v \<noteq> uuid_nil \<and> ti_StepID v \<noteq> uuid_nil \<and> ti_RunID v \<noteq> uuid_nil \<and>
     ti_OrgID v \<noteq> uuid_nil \<and> ti_StepID v \<in> ag_StepID ` set (tt_steps t) \<and> ti_RunID v \<in> ar_RunID ` set (tt_runs t)"

definition step_key :: "agent_step \<Rightarrow> uuid \<times> int" where
  "step_key x = (ag_RunID x, ag_StepIndex x)"

definition wf_trajectory :: "trajectory_tables \<Rightarrow> bool" where
  "wf_trajectory t \<longleftrightarrow> distinct (map ar_RunID (tt_runs t)) \<and> (\<forall>r \<in> set (tt_runs t). stored_run r) \<and>
     distinct (map ag_StepID (tt_steps t)) \<and> distinct (map step_key (tt_steps t)) \<and>
     (\<forall>x \<in> set (tt_steps t). stored_step t x) \<and>
     distinct (map ti_InvocationID (tt_invocations t)) \<and> (\<forall>v \<in> set (tt_invocations t). stored_invocation t v)"

lemma wf_trajectoryD:
  assumes "wf_trajectory t"
  shows "distinct (map ar_RunID (tt_runs t))" "\<And>r. r \<in> set (tt_runs t) \<Longrightarrow> stored_run r"
    "distinct (map ag_StepID (tt_steps t))" "distinct (map step_key (tt_steps t))"
    "\<And>x. x \<in> set (tt_steps t) \<Longrightarrow> stored_step t x" "distinct (map ti_InvocationID (tt_invocations t))"
    "\<And>v. v \<in> set (tt_invocations t) \<Longrightarrow> stored_invocation t v"
  using assms by (auto simp: wf_trajectory_def)

lemma args_fields:
  assumes "agentRunArgs env run = Inr args"
  shows "ar_RunID args = ar_RunID run" "ar_OrgID args = ar_OrgID run" "ar_UserID args = ar_UserID run"
    "ar_Status args = ar_Status run" "ar_StopReason args = ar_StopReason run"
    "ar_WallMs args = ar_WallMs run" "ar_TotalTokens args = ar_TotalTokens run"
    "ar_ToolsetHash args = ar_ToolsetHash run" "ar_AgentSpecHash args = ar_AgentSpecHash run"
    "ar_EndpointID args = ar_EndpointID run"
    "list_all (\<lambda>x. sr_DatasetID x \<noteq> uuid_nil \<and> sr_EmbeddingSnapshotID x \<noteq> uuid_nil) (ar_DataSnapshotSet args)"
  using assms
  by (auto simp: agentRunArgs_def agentDataSnapshotSetJSON_def list_all_iff find_None_iff
      split: sum.splits option.splits if_splits)

lemma keep_runs:
  assumes "wf_trajectory t" "map ar_RunID rs = map ar_RunID (tt_runs t)" "\<forall>r \<in> set rs. stored_run r"
  shows "wf_trajectory (t\<lparr>tt_runs := rs\<rparr>)"
proof -
  have "ar_RunID ` set rs = ar_RunID ` set (tt_runs t)" using assms(2) by (metis list.set_map)
  with assms show ?thesis by (auto simp: wf_trajectory_def stored_step_def stored_invocation_def)
qed

lemma add_run:
  assumes "wf_trajectory t" "stored_run r" "ar_RunID r \<notin> ar_RunID ` set (tt_runs t)"
  shows "wf_trajectory (t\<lparr>tt_runs := tt_runs t @ [r]\<rparr>)"
  using assms by (auto simp: wf_trajectory_def stored_step_def stored_invocation_def)

lemma keep_steps:
  assumes "wf_trajectory t" "map ag_StepID xs = map ag_StepID (tt_steps t)"
    "map step_key xs = map step_key (tt_steps t)" "\<forall>x \<in> set xs. stored_step t x"
  shows "wf_trajectory (t\<lparr>tt_steps := xs\<rparr>)"
proof -
  have "ag_StepID ` set xs = ag_StepID ` set (tt_steps t)" using assms(2) by (metis list.set_map)
  with assms show ?thesis by (auto simp: wf_trajectory_def stored_step_def stored_invocation_def)
qed

lemma add_step:
  assumes "wf_trajectory t" "stored_step t x" "ag_StepID x \<notin> ag_StepID ` set (tt_steps t)"
    "step_key x \<notin> step_key ` set (tt_steps t)"
  shows "wf_trajectory (t\<lparr>tt_steps := tt_steps t @ [x]\<rparr>)"
  using assms by (auto simp: wf_trajectory_def stored_step_def stored_invocation_def)

lemma run_outcome_stored:
  assumes "stored_run r" "ar_Status run \<noteq> AgentRunStatusUnknown" "agentRunArgs env run = Inr args"
  shows "stored_run (set_run_outcome env args r)"
  using assms(1,2) args_fields [OF assms(3)] by (simp add: stored_run_def set_run_outcome_def)

lemma updateAgentRun_ok:
  assumes "updateAgentRun env s run t = (Inr out, t')"
  shows "\<exists>args old. agentRunArgs env run = Inr args \<and> find (\<lambda>r. ar_RunID r = ar_RunID run) (tt_runs t) = Some old \<and>
    out = scanReturnedAgentRunIdentity old run \<and> ar_OrgID old = ar_OrgID run \<and> org_visible s (ar_OrgID old) \<and>
    ar_Status run \<noteq> AgentRunStatusUnknown \<and>
    t' = t\<lparr>tt_runs := update_where (\<lambda>r. ar_RunID r = ar_RunID run) (set_run_outcome env args) (tt_runs t)\<rparr>"
  using assms by (auto simp: updateAgentRun_def split: sum.splits option.splits if_splits)

lemma RecordAgentRun_cases:
  assumes "RecordAgentRun env s run t = (res, t')"
  shows "t' = t \<or> (ar_RunID run \<noteq> uuid_nil \<and> ar_Status run \<noteq> AgentRunStatusRunning \<and>
      (\<exists>out. res = Inr out \<and> updateAgentRun env s run t = (Inr out, t'))) \<or>
    (\<exists>args. agentRunArgs env run = Inr args \<and> run_checks env args \<and>
      find (\<lambda>r. ar_RunID r = ar_RunID (inserted_run env args)) (tt_runs t) = None \<and>
      res = Inr (scanReturnedAgentRunIdentity (inserted_run env args) run) \<and>
      t' = t\<lparr>tt_runs := tt_runs t @ [inserted_run env args]\<rparr>)"
proof (cases "ar_RunID run \<noteq> uuid_nil \<and> ar_Status run \<noteq> AgentRunStatusRunning")
  case True
  have "t' = t" if "updateAgentRun env s run t = (Inl e, t')" for e
    using that by (auto simp: updateAgentRun_def split: sum.splits option.splits if_splits)
  with True assms show ?thesis by (cases res) (auto simp: RecordAgentRun_def)
next
  case False
  with assms show ?thesis
    unfolding RecordAgentRun_def by (auto simp: Let_def split: sum.splits option.splits if_splits)
qed

lemma RecordAgentRun_wf:
  assumes "wf_trajectory t" "tn_fresh env \<noteq> uuid_nil" "RecordAgentRun env s run t = (res, t')"
  shows "wf_trajectory t'"
proof -
  consider "t' = t" | out where "updateAgentRun env s run t = (Inr out, t')"
    | args where "agentRunArgs env run = Inr args" "run_checks env args"
      "find (\<lambda>r. ar_RunID r = ar_RunID (inserted_run env args)) (tt_runs t) = None"
      "t' = t\<lparr>tt_runs := tt_runs t @ [inserted_run env args]\<rparr>"
    using RecordAgentRun_cases [OF assms(3)] by blast
  then show ?thesis
  proof cases
    case 2
    then obtain args where *: "agentRunArgs env run = Inr args" "ar_Status run \<noteq> AgentRunStatusUnknown"
      "t' = t\<lparr>tt_runs := update_where (\<lambda>r. ar_RunID r = ar_RunID run) (set_run_outcome env args) (tt_runs t)\<rparr>"
      using updateAgentRun_ok by blast
    show ?thesis unfolding *(3)
    proof (rule keep_runs [OF assms(1)])
      show "map ar_RunID (update_where (\<lambda>r. ar_RunID r = ar_RunID run) (set_run_outcome env args) (tt_runs t)) =
          map ar_RunID (tt_runs t)"
        by (rule map_update_where) (simp add: set_run_outcome_def)
    qed (use run_outcome_stored [OF _ *(2,1)] wf_trajectoryD(2) [OF assms(1)] in \<open>auto simp: set_update_where\<close>)
  next
    case 3
    have "stored_run (inserted_run env args)"
      using 3(2) args_fields [OF 3(1)] assms(2) by (simp add: stored_run_def inserted_run_def run_checks_def)
    moreover have "ar_RunID (inserted_run env args) \<notin> ar_RunID ` set (tt_runs t)"
      using 3(3) by (simp add: find_None_key)
    ultimately show ?thesis using add_run [OF assms(1)] 3(4) by simp
  qed (use assms(1) in simp)
qed

lemma stepArgs_fields:
  assumes "agentStepArgs env x = Inr args"
  shows "ag_RunID args = ag_RunID x" "ag_OrgID args = ag_OrgID x" "ag_StepIndex args = ag_StepIndex x"
    "ag_FinishReason args = ag_FinishReason x" "ag_PromptTokens args = ag_PromptTokens x"
    "ag_CompletionTokens args = ag_CompletionTokens x"
  using assms by (auto simp: agentStepArgs_def split: sum.splits)

lemma RecordAgentStep_ok:
  assumes "RecordAgentStep env s x t = (Inr out, t')"
  shows "\<exists>args. agentStepArgs env x = Inr args \<and> tn_error env = None \<and> step_checks env args \<and>
    org_visible s (ag_OrgID x) \<and>
    ((\<exists>old. find (same_step x) (tt_steps t) = Some old \<and> org_visible s (ag_OrgID old) \<and>
       out = scanReturnedAgentStepIdentity old x \<and>
       t' = t\<lparr>tt_steps := update_where (same_step x) (set_step_content env args) (tt_steps t)\<rparr>) \<or>
     (find (same_step x) (tt_steps t) = None \<and> ag_RunID x \<in> ar_RunID ` set (tt_runs t) \<and>
       tn_fresh env \<notin> ag_StepID ` set (tt_steps t) \<and>
       out = scanReturnedAgentStepIdentity (inserted_step env args) x \<and>
       t' = t\<lparr>tt_steps := tt_steps t @ [inserted_step env args]\<rparr>))"
  using assms stepArgs_fields [of env x]
  by (fastforce simp: RecordAgentStep_def split: sum.splits option.splits if_splits)

lemma RecordAgentStep_error: "RecordAgentStep env s x t = (Inl e, t') \<Longrightarrow> t' = t"
  by (auto simp: RecordAgentStep_def split: sum.splits option.splits if_splits)

lemma same_step_key: "same_step x r \<longleftrightarrow> step_key r = step_key x"
  by (auto simp: same_step_def step_key_def)

lemma RecordAgentStep_wf:
  assumes "wf_trajectory t" "tn_fresh env \<noteq> uuid_nil" "RecordAgentStep env s x t = (res, t')"
  shows "wf_trajectory t'"
proof (cases res)
  case (Inr out)
  then obtain args where args: "agentStepArgs env x = Inr args" "step_checks env args"
    and alt: "(\<exists>old. t' = t\<lparr>tt_steps := update_where (same_step x) (set_step_content env args) (tt_steps t)\<rparr>) \<or>
      (find (same_step x) (tt_steps t) = None \<and> ag_RunID x \<in> ar_RunID ` set (tt_runs t) \<and>
       tn_fresh env \<notin> ag_StepID ` set (tt_steps t) \<and> t' = t\<lparr>tt_steps := tt_steps t @ [inserted_step env args]\<rparr>)"
    using RecordAgentStep_ok assms(3) by blast
  note f = stepArgs_fields [OF args(1)]
  from alt show ?thesis
  proof
    assume "\<exists>old. t' = t\<lparr>tt_steps := update_where (same_step x) (set_step_content env args) (tt_steps t)\<rparr>"
    then have t': "t' = t\<lparr>tt_steps := update_where (same_step x) (set_step_content env args) (tt_steps t)\<rparr>" by blast
    have "map ag_StepID (update_where (same_step x) (set_step_content env args) (tt_steps t)) = map ag_StepID (tt_steps t)"
      "map step_key (update_where (same_step x) (set_step_content env args) (tt_steps t)) = map step_key (tt_steps t)"
      by (rule map_update_where, simp add: set_step_content_def step_key_def)+
    moreover have "stored_step t y \<Longrightarrow> stored_step t (set_step_content env args y)" for y
      by (simp add: stored_step_def set_step_content_def)
    moreover note wf_trajectoryD(5) [OF assms(1)]
    ultimately show ?thesis unfolding t' by (intro keep_steps [OF assms(1)]) (auto simp: set_update_where)
  next
    assume new: "find (same_step x) (tt_steps t) = None \<and> ag_RunID x \<in> ar_RunID ` set (tt_runs t) \<and>
       tn_fresh env \<notin> ag_StepID ` set (tt_steps t) \<and> t' = t\<lparr>tt_steps := tt_steps t @ [inserted_step env args]\<rparr>"
    have "stored_step t (inserted_step env args)"
      using new args(2) f assms(2) by (simp add: stored_step_def inserted_step_def step_checks_def)
    moreover have "step_key (inserted_step env args) \<notin> step_key ` set (tt_steps t)"
      using new f by (auto simp: find_None_iff same_step_def step_key_def inserted_step_def)
    ultimately show ?thesis using add_step [OF assms(1)] new by (simp add: inserted_step_def)
  qed
qed (use RecordAgentStep_error assms(1,3) in blast)

lemma invocationArgs_fields:
  assumes "agentToolInvocationArgs env v = Inr args"
  shows "ti_InvocationID args = ti_InvocationID v" "ti_StepID args = ti_StepID v" "ti_RunID args = ti_RunID v"
    "ti_OrgID args = ti_OrgID v" "ti_ToolName args = ti_ToolName v" "ti_ErrorType args = ti_ErrorType v"
  using assms by (auto simp: agentToolInvocationArgs_def split: sum.splits)

lemma RecordToolInvocation_ok:
  assumes "RecordToolInvocation env s v t = (Inr out, t')"
  shows "\<exists>args. agentToolInvocationArgs env v = Inr args \<and> invocation_checks env args \<and>
    ti_StepID v \<in> ag_StepID ` set (tt_steps t) \<and> ti_RunID v \<in> ar_RunID ` set (tt_runs t) \<and>
    ((\<exists>old. find (\<lambda>r. ti_InvocationID r = ti_InvocationID (inserted_invocation env args)) (tt_invocations t) = Some old \<and>
       t' = t\<lparr>tt_invocations := update_where (\<lambda>r. ti_InvocationID r = ti_InvocationID (inserted_invocation env args))
         (set_invocation env args) (tt_invocations t)\<rparr>) \<or>
     (find (\<lambda>r. ti_InvocationID r = ti_InvocationID (inserted_invocation env args)) (tt_invocations t) = None \<and>
       t' = t\<lparr>tt_invocations := tt_invocations t @ [inserted_invocation env args]\<rparr>))"
  using assms invocationArgs_fields [of env v]
  by (fastforce simp: RecordToolInvocation_def Let_def split: sum.splits option.splits if_splits)

lemma RecordToolInvocation_error: "RecordToolInvocation env s v t = (Inl e, t') \<Longrightarrow> t' = t"
  by (auto simp: RecordToolInvocation_def Let_def split: sum.splits option.splits if_splits)

lemma keep_invocations:
  assumes "wf_trajectory t" "map ti_InvocationID vs = map ti_InvocationID (tt_invocations t)"
    "\<forall>v \<in> set vs. stored_invocation t v"
  shows "wf_trajectory (t\<lparr>tt_invocations := vs\<rparr>)"
  using assms by (auto simp: wf_trajectory_def stored_step_def stored_invocation_def)

lemma add_invocation:
  assumes "wf_trajectory t" "stored_invocation t v" "ti_InvocationID v \<notin> ti_InvocationID ` set (tt_invocations t)"
  shows "wf_trajectory (t\<lparr>tt_invocations := tt_invocations t @ [v]\<rparr>)"
  using assms by (auto simp: wf_trajectory_def stored_step_def stored_invocation_def)

lemma RecordToolInvocation_wf:
  assumes "wf_trajectory t" "tn_fresh env \<noteq> uuid_nil" "RecordToolInvocation env s v t = (res, t')"
  shows "wf_trajectory t'"
proof (cases res)
  case (Inr out)
  obtain args where args: "agentToolInvocationArgs env v = Inr args" "invocation_checks env args"
      "ti_StepID v \<in> ag_StepID ` set (tt_steps t)" "ti_RunID v \<in> ar_RunID ` set (tt_runs t)"
    and alt: "(t' = t\<lparr>tt_invocations := update_where (\<lambda>r. ti_InvocationID r = ti_InvocationID (inserted_invocation env args))
         (set_invocation env args) (tt_invocations t)\<rparr>) \<or>
     (find (\<lambda>r. ti_InvocationID r = ti_InvocationID (inserted_invocation env args)) (tt_invocations t) = None \<and>
       t' = t\<lparr>tt_invocations := tt_invocations t @ [inserted_invocation env args]\<rparr>)"
    using RecordToolInvocation_ok assms(3) Inr by blast
  note f = invocationArgs_fields [OF args(1)]
  have row: "stored_invocation t (inserted_invocation env args)"
    using args(2-4) f assms(2) by (simp add: stored_invocation_def inserted_invocation_def invocation_checks_def)
  then have upd: "stored_invocation t r \<Longrightarrow> stored_invocation t (set_invocation env args r)" for r
    by (simp add: stored_invocation_def set_invocation_def)
  from alt show ?thesis
  proof
    assume t': "t' = t\<lparr>tt_invocations := update_where (\<lambda>r. ti_InvocationID r = ti_InvocationID (inserted_invocation env args))
         (set_invocation env args) (tt_invocations t)\<rparr>"
    have "map ti_InvocationID (update_where (\<lambda>r. ti_InvocationID r = ti_InvocationID (inserted_invocation env args))
        (set_invocation env args) (tt_invocations t)) = map ti_InvocationID (tt_invocations t)"
      by (rule map_update_where) (simp add: set_invocation_def)
    with wf_trajectoryD(7) [OF assms(1)] upd show ?thesis
      unfolding t' by (intro keep_invocations [OF assms(1)]) (auto simp: set_update_where)
  qed (use add_invocation [OF assms(1) row] in \<open>simp add: find_None_key\<close>)
qed (use RecordToolInvocation_error assms(1,3) in blast)

lemma FailExpired_wf:
  assumes "wf_trajectory t" "FailExpiredAgentRuns env grace t = (res, t')"
  shows "wf_trajectory t'"
proof (cases "tn_error env")
  case None
  let ?expired = "\<lambda>r. ar_Status r = AgentRunStatusRunning \<and> ar_DeadlineAt r < tn_now env - grace * 1000"
  let ?fail = "\<lambda>r. r\<lparr>ar_Status := AgentRunStatusFailed, ar_StopReason := AgentStopReasonAbandoned, ar_FinishedAt := tn_now env\<rparr>"
  have t': "t' = t\<lparr>tt_runs := update_where ?expired ?fail (tt_runs t)\<rparr>"
    using assms(2) None by (simp add: FailExpiredAgentRuns_def Let_def split: prod.splits)
  have "map ar_RunID (update_where ?expired ?fail (tt_runs t)) = map ar_RunID (tt_runs t)"
    by (rule map_update_where) simp
  with wf_trajectoryD(2) [OF assms(1)] show ?thesis
    unfolding t' by (intro keep_runs [OF assms(1)]) (auto simp: set_update_where stored_run_def)
qed (use assms in \<open>simp add: FailExpiredAgentRuns_def\<close>)

section \<open>Properties\<close>

text \<open>C27. Every statement of the trajectory repository keeps the tables well formed: ids are unique
  and not nil, a run has a known status and complete dataset snapshots, steps of a run have
  distinct indices, and every step and tool invocation belongs to a stored run.\<close>

theorem trajectory_invariant:
  assumes "wf_trajectory t" "tn_fresh env \<noteq> uuid_nil"
  shows "wf_trajectory (snd (RecordAgentRun env s run t)) \<and> wf_trajectory (snd (RecordAgentStep env s x t)) \<and>
    wf_trajectory (snd (RecordToolInvocation env s v t)) \<and> wf_trajectory (snd (FailExpiredAgentRuns env grace t))"
  using RecordAgentRun_wf [OF assms] RecordAgentStep_wf [OF assms] RecordToolInvocation_wf [OF assms]
    FailExpired_wf [OF assms(1)]
  by (metis surj_pair snd_conv)

lemma parse_snapshots:
  "list_all (\<lambda>x. sr_DatasetID x \<noteq> uuid_nil \<and> sr_EmbeddingSnapshotID x \<noteq> uuid_nil) refs \<Longrightarrow>
   parseAgentDataSnapshotSet refs = Inr refs"
  by (induction refs) (simp_all add: parseAgentUUID_def)

lemma stop_reason_scan:
  "(if stop_reason_column r = [] then Inr AgentStopReasonUnknown else ToAgentStopReason (stop_reason_column r)) = Inr r"
proof (cases "r = AgentStopReasonUnknown")
  case False
  then have "AgentStopReason_String r \<noteq> []" by (cases r) auto
  with False show ?thesis by (simp add: stop_reason_column_def stop_reason.parse_print)
qed (simp add: stop_reason_column_def)

lemma error_type_scan:
  "(if error_type_column e = [] then Inr ToolErrorTypeUnknown else ToToolErrorType (error_type_column e)) = Inr e"
proof (cases "e = ToolErrorTypeUnknown")
  case False
  then have "ToolErrorType_String e \<noteq> []" by (cases e) auto
  with False show ?thesis by (simp add: error_type_column_def tool_error.parse_print)
qed (simp add: error_type_column_def)

lemma scan_stored_run: "stored_run r \<Longrightarrow> scanAgentRun r = Inr r"
  by (simp add: scanAgentRun_def stored_run_def parseAgentUUID_def parseOptionalAgentUUID_def
      run_status.parse_print stop_reason_scan parse_snapshots)

lemma scan_stored_step: "stored_step t x \<Longrightarrow> scanAgentStep x = Inr x"
  by (simp add: scanAgentStep_def stored_step_def parseAgentUUID_def)

lemma scan_stored_invocation: "stored_invocation t v \<Longrightarrow> scanAgentToolInvocation v = Inr v"
  by (simp add: scanAgentToolInvocation_def stored_invocation_def parseAgentUUID_def error_type_scan)

lemma scan_rows_id: "(\<And>x. x \<in> set xs \<Longrightarrow> scan x = Inr x) \<Longrightarrow> scan_rows what scan xs = Inr xs"
  by (induction xs) auto

lemma find_run:
  assumes "wf_trajectory t" "r \<in> set (tt_runs t)"
  shows "find (\<lambda>y. ar_RunID y = ar_RunID r) (tt_runs t) = Some r"
  using find_key_distinct [OF wf_trajectoryD(1) [OF assms(1)] assms(2)] .

text \<open>C28. What was recorded of a run is what its organisation reads back: the run, its steps in the
  order of their index and its tool invocations in the order of their time, each unchanged
  by the trip through the text columns; reading a well formed table cannot fail.\<close>

theorem trajectory_roundtrip:
  assumes "wf_trajectory t" "r \<in> set (tt_runs t)" "org_visible s (ar_OrgID r)" "tn_error env = None"
  shows "ReadAgentTrajectory env s (ar_OrgID r) (ar_RunID r) t = Inr \<lparr>tj_Run = r,
     tj_Steps = sort_key ag_StepIndex
       (filter (\<lambda>x. ag_RunID x = ar_RunID r \<and> ag_OrgID x = ar_OrgID r) (tt_steps t)),
     tj_ToolInvocations = sort_key ti_CreatedAt
       (filter (\<lambda>v. ti_RunID v = ar_RunID r \<and> ti_OrgID v = ar_OrgID r) (tt_invocations t))\<rparr>"
proof -
  have only: "y = r" if "y \<in> set (tt_runs t)" "ar_RunID y = ar_RunID r" for y
    using find_run [OF assms(1,2)] find_run [OF assms(1) that(1)] that(2) by simp
  have "find (\<lambda>y. ar_RunID y = ar_RunID r \<and> ar_OrgID y = ar_OrgID r \<and> org_visible s (ar_OrgID r)) (tt_runs t) = Some r"
  proof (cases "find (\<lambda>y. ar_RunID y = ar_RunID r \<and> ar_OrgID y = ar_OrgID r \<and> org_visible s (ar_OrgID r)) (tt_runs t)")
    case None
    then show ?thesis using assms(2,3) by (auto simp: find_None_iff)
  next
    case (Some y)
    then show ?thesis using find_SomeD [OF Some] only by blast
  qed
  then have "readAgentRun env s (ar_OrgID r) (ar_RunID r) t = Inr r"
    using assms(4) scan_stored_run [OF wf_trajectoryD(2) [OF assms(1,2)]] by (simp add: readAgentRun_def)
  moreover have "readAgentSteps env s (ar_OrgID r) (ar_RunID r) t = Inr (sort_key ag_StepIndex
       (filter (\<lambda>x. ag_RunID x = ar_RunID r \<and> ag_OrgID x = ar_OrgID r) (tt_steps t)))"
    unfolding readAgentSteps_def using assms(3,4)
    by simp (rule scan_rows_id, auto intro!: scan_stored_step [OF wf_trajectoryD(5) [OF assms(1)]])
  moreover have "readAgentToolInvocations env s (ar_OrgID r) (ar_RunID r) t = Inr (sort_key ti_CreatedAt
       (filter (\<lambda>v. ti_RunID v = ar_RunID r \<and> ti_OrgID v = ar_OrgID r) (tt_invocations t)))"
    unfolding readAgentToolInvocations_def using assms(3,4)
    by simp (rule scan_rows_id, auto intro!: scan_stored_invocation [OF wf_trajectoryD(7) [OF assms(1)]])
  ultimately show ?thesis by (simp add: ReadAgentTrajectory_def)
qed

text \<open>Recording a step again, which a lost activity result makes the workflow do, changes
  nothing: the tables stay as they are and the caller gets the id of the first recording.\<close>

theorem step_recording_idempotent:
  assumes "RecordAgentStep env s x t = (Inr a, t1)" "RecordAgentStep env' s x t1 = (Inr b, t2)"
    "tn_jsonb env' = tn_jsonb env" "tn_valid env' = tn_valid env"
  shows "t2 = t1 \<and> ag_StepID b = ag_StepID a"
proof -
  obtain args where args: "agentStepArgs env x = Inr args"
    and alt: "(\<exists>old. find (same_step x) (tt_steps t) = Some old \<and> a = scanReturnedAgentStepIdentity old x \<and>
       t1 = t\<lparr>tt_steps := update_where (same_step x) (set_step_content env args) (tt_steps t)\<rparr>) \<or>
     (find (same_step x) (tt_steps t) = None \<and> a = scanReturnedAgentStepIdentity (inserted_step env args) x \<and>
       t1 = t\<lparr>tt_steps := tt_steps t @ [inserted_step env args]\<rparr>)"
    using RecordAgentStep_ok [OF assms(1)] by blast
  note f = stepArgs_fields [OF args]
  have "requiredJSONRawMessage env' v = requiredJSONRawMessage env v" for v
    using assms(4) unfolding requiredJSONRawMessage_def by metis
  then have args': "agentStepArgs env' x = Inr args" using args unfolding agentStepArgs_def by metis
  have same: "set_step_content env' args = set_step_content env args"
    using assms(3) by (simp add: fun_eq_iff set_step_content_def jsonb_text_def)
  have again: "set_step_content env args (set_step_content env args y) = set_step_content env args y"
    "same_step x (set_step_content env args y) = same_step x y"
    "ag_StepID (set_step_content env args y) = ag_StepID y" for y
    by (simp_all add: set_step_content_def same_step_def)
  have fresh: "set_step_content env args (inserted_step env args) = inserted_step env args"
    by (simp add: set_step_content_def inserted_step_def)
  have stored: "\<exists>y. find (same_step x) (tt_steps t1) = Some y \<and> ag_StepID y = ag_StepID a \<and>
      update_where (same_step x) (set_step_content env args) (tt_steps t1) = tt_steps t1"
    using alt
  proof
    assume "\<exists>old. find (same_step x) (tt_steps t) = Some old \<and> a = scanReturnedAgentStepIdentity old x \<and>
       t1 = t\<lparr>tt_steps := update_where (same_step x) (set_step_content env args) (tt_steps t)\<rparr>"
    then obtain old where old: "find (same_step x) (tt_steps t) = Some old"
      "a = scanReturnedAgentStepIdentity old x"
      "t1 = t\<lparr>tt_steps := update_where (same_step x) (set_step_content env args) (tt_steps t)\<rparr>" by blast
    have "find (same_step x) (update_where (same_step x) (set_step_content env args) xs) =
        map_option (set_step_content env args) (find (same_step x) xs)" for xs
      by (induction xs) (auto simp: again)
    moreover have "update_where (same_step x) (set_step_content env args)
        (update_where (same_step x) (set_step_content env args) xs) =
        update_where (same_step x) (set_step_content env args) xs" for xs
      by (induction xs) (auto simp: again)
    ultimately show ?thesis using old again(3) by (simp add: scanReturnedAgentStepIdentity_def)
  next
    assume new: "find (same_step x) (tt_steps t) = None \<and> a = scanReturnedAgentStepIdentity (inserted_step env args) x \<and>
       t1 = t\<lparr>tt_steps := tt_steps t @ [inserted_step env args]\<rparr>"
    have hit: "same_step x (inserted_step env args)" using f by (simp add: same_step_def inserted_step_def)
    have "find (same_step x) (xs @ [inserted_step env args]) = Some (inserted_step env args) \<and>
        update_where (same_step x) (set_step_content env args) (xs @ [inserted_step env args]) = xs @ [inserted_step env args]"
      if "find (same_step x) xs = None" for xs
      using that hit fresh by (induction xs) (auto split: if_splits)
    with new show ?thesis by (simp add: scanReturnedAgentStepIdentity_def)
  qed
  then obtain y where y: "find (same_step x) (tt_steps t1) = Some y" "ag_StepID y = ag_StepID a"
    "update_where (same_step x) (set_step_content env args) (tt_steps t1) = tt_steps t1" by blast
  have "b = scanReturnedAgentStepIdentity y x \<and>
      t2 = t1\<lparr>tt_steps := update_where (same_step x) (set_step_content env args) (tt_steps t1)\<rparr>"
    using RecordAgentStep_ok [OF assms(2)] args' y(1) same by auto
  with y show ?thesis by (simp add: scanReturnedAgentStepIdentity_def)
qed


end
