(* ===== verification/AgentLoopProperties.thy ===== *)
theory AgentLoopProperties
  imports AgentLoop AgentTrajectoryProperties
begin

text \<open>
  What a run of the agent loop guarantees, for every behaviour of the model, the tools and the
  database: how often it calls the model, how it spends its token budget, that it stops
  repeating itself, and what it leaves in the trajectory.
\<close>

section \<open>What the parts of a step leave alone\<close>

text \<open>Recording touches neither the calls to the model and the tools nor the audit records.\<close>

definition same_calls :: "agent_world \<Rightarrow> agent_world \<Rightarrow> bool" where
  "same_calls w w' \<longleftrightarrow> aw_generated w' = aw_generated w \<and> aw_invoked w' = aw_invoked w \<and>
     aw_requests w' = aw_requests w"

lemma same_calls_refl: "same_calls w w"
  by (simp add: same_calls_def)

lemma same_calls_trans: "same_calls a b \<Longrightarrow> same_calls b c \<Longrightarrow> same_calls a c"
  by (simp add: same_calls_def)

lemma store_calls: "store uc op event w = (r, w') \<Longrightarrow> same_calls w w'"
  by (auto simp: store_def same_calls_def split: prod.splits sum.splits)

lemma recordAgentRun_calls: "recordAgentRun uc session status reason w = (r, w') \<Longrightarrow> same_calls w w'"
  by (auto simp: recordAgentRun_def same_calls_refl dest: store_calls split: sum.splits)

lemma recordAgentStep_calls: "recordAgentStep uc session i tools gen w = (r, w') \<Longrightarrow> same_calls w w'"
  by (auto simp: recordAgentStep_def same_calls_refl dest!: store_calls split: sum.splits prod.splits)

lemma recordAgentToolInvocation_calls:
  "recordAgentToolInvocation uc session st key call result w = (r, w') \<Longrightarrow> same_calls w w'"
  by (auto simp: recordAgentToolInvocation_def same_calls_refl dest!: store_calls split: sum.splits prod.splits)

lemma failAgentRun_calls: "failAgentRun uc session reason e w = (r, w') \<Longrightarrow> same_calls w w'"
  by (auto simp: failAgentRun_def dest!: recordAgentRun_calls split: sum.splits prod.splits)

text \<open>How a run that is stopped reports itself.\<close>

lemma end_run_cases:
  assumes "end_run uc q ls reported reason steps e w = (out, w')"
  shows "same_calls w w'" "fst out = result_with q ls reported steps" "\<exists>f. snd out = Some f"
  using assms by (auto simp: end_run_def dest: failAgentRun_calls split: prod.splits)

lemma stop_run_cases:
  assumes "stop_run uc q ls reported reason steps e w = (out, w')"
  shows "same_calls w w' \<and> (\<exists>f. out = Return (result_with q ls reported steps) (Some f))"
proof -
  obtain r f where "end_run uc q ls reported reason steps e w = ((r, f), w')" "out = Return r f"
    using assms by (auto simp: stop_run_def split: prod.splits)
  with end_run_cases [OF this(1)] show ?thesis by auto
qed

text \<open>
  The end of a run in the middle, and the way a part of a step can change what the loop
  carries: the session keeps everything but its messages and its token count.
\<close>

definition stopped :: "int \<Rightarrow> loop_outcome \<Rightarrow> bool" where
  "stopped steps out \<longleftrightarrow> (\<exists>r e. out = Return r (Some e) \<and> al_Steps r = steps \<and>
     al_StopReason r \<noteq> AgentStopReasonFinalAnswer)"

lemma stop_run_stopped:
  assumes "stop_run uc q ls reported reason steps e w = (out, w')" "reported \<noteq> AgentStopReasonFinalAnswer"
  shows "same_calls w w' \<and> stopped steps out"
  using stop_run_cases [OF assms(1)] assms(2) by (auto simp: stopped_def result_with_def)

definition fixed_part :: "loop_state \<Rightarrow> agent_session" where
  "fixed_part ls = (ls_session ls)\<lparr>sn_TotalTokens := 0, sn_Messages := []\<rparr>"

lemma fixed_part_eq:
  assumes "fixed_part b = fixed_part a"
  shows "sn_Spec (ls_session b) = sn_Spec (ls_session a)" "sn_RunID (ls_session b) = sn_RunID (ls_session a)"
    "sn_OrgID (ls_session b) = sn_OrgID (ls_session a)"
    "sn_DecodingOptions (ls_session b) = sn_DecodingOptions (ls_session a)"
    "sn_ResolvedToolSpecs (ls_session b) = sn_ResolvedToolSpecs (ls_session a)"
  using assms by (cases "ls_session a"; cases "ls_session b"; simp add: fixed_part_def)+

lemma fixed_part_simps [simp]:
  "fixed_part (add_tokens n b) = fixed_part b" "fixed_part (add_message m b) = fixed_part b"
  "fixed_part (note_signature x b) = fixed_part b" "fixed_part (b\<lparr>ls_transient := f\<rparr>) = fixed_part b"
  "fixed_part (b\<lparr>ls_contexts := cs\<rparr>) = fixed_part b"
  by (simp_all add: fixed_part_def note_signature_def add_tokens_def add_message_def)

section \<open>What each part of a step can do\<close>

text \<open>A run that answered, and the token budget of the loop's state.\<close>

definition answered :: "int \<Rightarrow> loop_outcome \<Rightarrow> bool" where
  "answered steps out \<longleftrightarrow> (\<exists>r. out = Return r None \<and> al_Steps r = steps \<and> al_StopReason r = AgentStopReasonFinalAnswer)"

abbreviation used_tokens :: "loop_state \<Rightarrow> int" where
  "used_tokens ls \<equiv> sn_TotalTokens (ls_session ls)"

abbreviation over_budget :: "loop_state \<Rightarrow> bool" where
  "over_budget ls \<equiv> agentTokenBudgetExceeded (ls_session ls)"

definition keeps_guards :: "loop_state \<Rightarrow> loop_state \<Rightarrow> bool" where
  "keeps_guards a b \<longleftrightarrow> fixed_part b = fixed_part a \<and> ls_lastSignature b = ls_lastSignature a \<and>
     ls_repeated b = ls_repeated a"

lemma exceeded_simps [simp]:
  "over_budget (ls\<lparr>ls_transient := f\<rparr>) = over_budget ls" "over_budget (add_message m ls) = over_budget ls"
  "used_tokens (add_message m ls) = used_tokens ls"
  by (simp_all add: agentTokenBudgetExceeded_def add_message_def)

lemma after_tool_cases:
  assumes "after_tool uc q step call signature r err ls w = (out, w')"
  shows "(stopped (step + 1) out \<and> same_calls w w') \<or>
    (w' = w \<and> (\<exists>ls'. out = Continue ls' \<and> keeps_guards ls ls' \<and> used_tokens ls' = used_tokens ls \<and> \<not> over_budget ls'))"
proof -
  have reason: "agentToolStopReason e \<noteq> AgentStopReasonFinalAnswer" for e by (simp add: agentToolStopReason_def)
  have stop: "stopped (step + 1) out \<and> same_calls w w'"
    if "stop_run uc q l reason reason (step + 1) e w = (out, w')" "reason \<noteq> AgentStopReasonFinalAnswer" for l reason e
    using stop_run_stopped [OF that] by blast
  show ?thesis
    using assms unfolding after_tool_def Let_def
    by (auto split: ToolErrorType.splits option.splits if_splits dest!: stop simp: reason keeps_guards_def add_message_def
        agentTokenBudgetExceeded_def fixed_part_def)
qed

lemma classified_tokens: "tr_TokenEstimate (classified_result call r err) \<in> {0, tr_TokenEstimate r}"
  by (auto simp: classified_result_def empty_tool_result_def Let_def split: option.splits)

lemma tool_call_step_cases:
  assumes "tool_call_step uc q step st index call ls w = (out, w')"
  shows "(2 \<le> ls_repeated (note_signature (agentToolCallSignature call) ls) \<and> stopped (step + 1) out \<and> same_calls w w') \<or>
    (ls_repeated (note_signature (agentToolCallSignature call) ls) < 2 \<and> aw_generated w' = aw_generated w \<and>
     aw_invoked w' = aw_invoked w @ [(appToolInvocationContext (au_codec uc) (ls_session ls) st (agentToolCallKey call index), call)] \<and>
     (stopped (step + 1) out \<or> (\<exists>ls' n. out = Continue ls' \<and>
        keeps_guards (note_signature (agentToolCallSignature call) ls) ls' \<and>
        n \<in> {0, tr_TokenEstimate (fst (au_invoke uc (aw_tick w)
          (appToolInvocationContext (au_codec uc) (ls_session ls) st (agentToolCallKey call index)) call))} \<and>
        used_tokens ls' = wrap64 (used_tokens ls + n) \<and> \<not> over_budget ls')))"
proof -
  define ls1 where "ls1 = note_signature (agentToolCallSignature call) ls"
  have session: "ls_session ls1 = ls_session ls" by (simp add: ls1_def note_signature_def)
  define ctxt where "ctxt = appToolInvocationContext (au_codec uc) (ls_session ls) st (agentToolCallKey call index)"
  obtain r err where ans: "au_invoke uc (aw_tick w) ctxt call = (r, err)" by (cases "au_invoke uc (aw_tick w) ctxt call")
  define res where "res = classified_result call r err"
  define w1 where "w1 = w\<lparr>aw_tick := Suc (aw_tick w), aw_invoked := aw_invoked w @ [(ctxt, call)]\<rparr>"
  define ls2 where "ls2 = add_tokens (tr_TokenEstimate res) (ls1\<lparr>ls_contexts := ls_contexts ls1 @ tr_Contexts res\<rparr>)"
  have g2: "keeps_guards ls1 ls2" by (simp add: ls2_def keeps_guards_def) (simp add: add_tokens_def)
  have n2: "used_tokens ls2 = wrap64 (used_tokens ls + tr_TokenEstimate res)"
    by (simp add: ls2_def add_tokens_def session)
  show ?thesis
  proof (cases "2 \<le> ls_repeated ls1")
    case True
    then have "stop_run uc q ls1 AgentStopReasonLoopDetected AgentStopReasonLoopDetected (step + 1)
        (Extend ErrGenerationFailed ''agent repeated the same tool call'') w = (out, w')"
      using assms by (simp add: tool_call_step_def Let_def ls1_def)
    from stop_run_stopped [OF this] True show ?thesis by (simp add: ls1_def)
  next
    case False
    obtain rec w2 where rec: "recordAgentToolInvocation uc (ls_session ls2) st (agentToolCallKey call index) call res w1 = (rec, w2)"
      by (cases "recordAgentToolInvocation uc (ls_session ls2) st (agentToolCallKey call index) call res w1")
    have calls: "aw_generated w2 = aw_generated w" "aw_invoked w2 = aw_invoked w @ [(ctxt, call)]"
      using recordAgentToolInvocation_calls [OF rec] by (simp_all add: same_calls_def w1_def)
    have run: "(out, w') = (case rec of
        Some e \<Rightarrow> stop_run uc uuid_nil ls2 AgentStopReasonUnknown AgentStopReasonRuntimeError (step + 1) e w2
      | None \<Rightarrow> after_tool uc q step call (agentToolCallSignature call) res err ls2 w2)"
      using assms False rec ans session unfolding res_def ls2_def
      by (cases rec) (simp_all add: tool_call_step_def Let_def ls1_def [symmetric] invoke_tool_def ctxt_def [symmetric]
          w1_def [symmetric])
    have end_cases: "(stopped (step + 1) out \<and> same_calls w2 w') \<or> (w' = w2 \<and> (\<exists>ls'. out = Continue ls' \<and>
        keeps_guards ls2 ls' \<and> used_tokens ls' = used_tokens ls2 \<and> \<not> over_budget ls'))"
    proof (cases rec)
      case None
      with run show ?thesis using after_tool_cases [of uc q step call _ res err ls2 w2 out w'] by simp
    next
      case (Some e)
      with run have "stop_run uc uuid_nil ls2 AgentStopReasonUnknown AgentStopReasonRuntimeError (step + 1) e w2 = (out, w')" by simp
      from stop_run_stopped [OF this] show ?thesis by simp
    qed
    have "tr_TokenEstimate res \<in> {0, tr_TokenEstimate (fst (au_invoke uc (aw_tick w) ctxt call))}"
      using classified_tokens ans by (simp add: res_def)
    with end_cases calls g2 n2 False show ?thesis
      unfolding ls1_def [symmetric] ctxt_def [symmetric] by (auto simp: same_calls_def keeps_guards_def)
  qed
qed

lemma tool_call_step_outcome:
  assumes "tool_call_step uc q step st index call ls w = (out, w')"
  shows "aw_generated w' = aw_generated w \<and>
    (stopped (step + 1) out \<or> (\<exists>ls'. out = Continue ls' \<and> fixed_part ls' = fixed_part ls \<and> \<not> over_budget ls'))"
  using tool_call_step_cases [OF assms] by (auto simp: same_calls_def keeps_guards_def)

lemma tool_calls_loop_outcome:
  assumes "tool_calls_loop uc q step st index calls ls w = (out, w')"
  shows "aw_generated w' = aw_generated w \<and>
    (stopped (step + 1) out \<or> (\<exists>ls'. out = Continue ls' \<and> fixed_part ls' = fixed_part ls))"
  using assms
proof (induction calls arbitrary: index ls w)
  case (Cons call calls)
  obtain o1 w1 where one: "tool_call_step uc q step st index call ls w = (o1, w1)"
    by (cases "tool_call_step uc q step st index call ls w")
  show ?case
  proof (cases o1)
    case (Continue ls1)
    with Cons.prems one have "tool_calls_loop uc q step st (Suc index) calls ls1 w1 = (out, w')" by simp
    from Cons.IH [OF this] tool_call_step_outcome [OF one] Continue show ?thesis by (auto simp: stopped_def)
  next
    case (Return r e)
    with Cons.prems one have "o1 = out" "w1 = w'" by auto
    with tool_call_step_outcome [OF one] show ?thesis by auto
  qed
qed auto

text \<open>The state in which the tool calls of a step start.\<close>

definition generated_state :: "generation_result \<Rightarrow> loop_state \<Rightarrow> loop_state" where
  "generated_state gen ls = add_tokens (agentGenerationTokenUsage (gn_Usage gen) (sn_Messages (ls_session ls))
     (sn_ResolvedToolSpecs (ls_session ls)) gen) ls"

lemma after_generation_cases:
  assumes "after_generation uc q step gen ls w = (out, w')"
  shows "(same_calls w w' \<and> (stopped (step + 1) out \<or> (answered (step + 1) out \<and> \<not> over_budget (generated_state gen ls)))) \<or>
    (\<exists>st w1. same_calls w w1 \<and> \<not> over_budget (generated_state gen ls) \<and>
      tool_calls_loop uc q step st 0 (gn_ToolCalls gen) (add_message (assistant_message gen) (generated_state gen ls)) w1 = (out, w'))"
proof -
  define ls1 where "ls1 = generated_state gen ls"
  obtain rec w1 where rec: "recordAgentStep uc (ls_session ls1) step (sn_ResolvedToolSpecs (ls_session ls)) gen w = (rec, w1)"
    by (cases "recordAgentStep uc (ls_session ls1) step (sn_ResolvedToolSpecs (ls_session ls)) gen w")
  note calls = recordAgentStep_calls [OF rec]
  note run = assms [unfolded after_generation_def Let_def generated_state_def [symmetric] ls1_def [symmetric] rec]
  show ?thesis
  proof (cases rec)
    case (Inl e)
    with run have "stop_run uc uuid_nil ls1 AgentStopReasonUnknown AgentStopReasonRuntimeError (step + 1) e w1 = (out, w')" by simp
    from stop_run_stopped [OF this] calls show ?thesis by (auto intro: same_calls_trans)
  next
    case (Inr st)
    consider "over_budget ls1" | "\<not> over_budget ls1" "gn_ToolCalls gen = []" | "\<not> over_budget ls1" "gn_ToolCalls gen \<noteq> []" by blast
    then show ?thesis
    proof cases
      case 1
      with run Inr have "stop_run uc q ls1 AgentStopReasonBudget AgentStopReasonBudget (step + 1)
          (Extend ErrGenerationFailed ''agent reached its token budget before producing a final answer'') w1 = (out, w')" by simp
      from stop_run_stopped [OF this] calls show ?thesis by (auto intro: same_calls_trans)
    next
      case 2
      obtain f w2 where f: "recordAgentRun uc (ls_session ls1) AgentRunStatusCompleted AgentStopReasonFinalAnswer w1 = (f, w2)"
        by (cases "recordAgentRun uc (ls_session ls1) AgentRunStatusCompleted AgentStopReasonFinalAnswer w1")
      have "same_calls w w'" "stopped (step + 1) out \<or> answered (step + 1) out"
        using run Inr 2 f same_calls_trans [OF calls recordAgentRun_calls [OF f]]
        by (cases f; auto simp: stopped_def answered_def result_with_def)+
      with 2 show ?thesis by (auto simp: ls1_def)
    next
      case 3
      with run Inr calls show ?thesis by (auto simp: ls1_def)
    qed
  qed
qed

lemma agent_step_body_cases:
  assumes "agent_step_body uc generator request step ls w = (out, w')"
  shows "(same_calls w w' \<and> stopped step out) \<or>
    (\<exists>w1. w1 = w\<lparr>aw_tick := Suc (aw_tick w), aw_generated := aw_generated w @ [step_request request step (ls_session ls)]\<rparr> \<and>
      ((same_calls w1 w' \<and> stopped (step + 1) out) \<or>
       (\<exists>gen. generator (aw_tick w) (step_request request step (ls_session ls)) = Inr gen \<and>
          after_generation uc (gq_RequestID request) step gen ls w1 = (out, w'))))"
proof -
  have reason: "agentRuntimeStopReason e \<noteq> AgentStopReasonFinalAnswer" for e by (simp add: agentRuntimeStopReason_def)
  show ?thesis
    using assms reason unfolding agent_step_body_def generate_with_def Let_def
    by (auto split: option.splits if_splits sum.splits prod.splits dest!: stop_run_stopped)
qed

lemma agent_step_body_outcome:
  assumes "agent_step_body uc generator request step ls w = (out, w')"
  shows "(aw_generated w' = aw_generated w \<and> stopped step out) \<or>
    (aw_generated w' = aw_generated w @ [step_request request step (ls_session ls)] \<and>
     (stopped (step + 1) out \<or> answered (step + 1) out \<or> (\<exists>ls'. out = Continue ls' \<and> fixed_part ls' = fixed_part ls)))"
  using agent_step_body_cases [OF assms]
  by (auto simp: same_calls_def generated_state_def dest!: after_generation_cases tool_calls_loop_outcome)

section \<open>The bound on the calls to the model\<close>

lemma agent_steps_outcome:
  assumes "agent_steps uc generator request left step ls w = ((r, e), w')"
    "step + int left = max 0 (bg_MaxSteps (as_Budgets (sn_Spec (ls_session ls))))" "0 \<le> step"
  shows "(\<exists>qs. aw_generated w' = aw_generated w @ qs \<and> length qs \<le> left \<and> step + int (length qs) = max 0 (al_Steps r)) \<and>
    ((e = None) \<longleftrightarrow> al_StopReason r = AgentStopReasonFinalAnswer)"
  using assms
proof (induction left arbitrary: step ls w)
  case 0
  then have fin: "end_run uc (gq_RequestID request) ls AgentStopReasonMaxSteps AgentStopReasonMaxSteps
      (bg_MaxSteps (as_Budgets (sn_Spec (ls_session ls))))
      (Extend ErrGenerationFailed ''agent reached its step limit before producing a final answer'') w = ((r, e), w')" by simp
  from end_run_cases [OF fin] 0 show ?case by (auto simp: same_calls_def result_with_def)
next
  case (Suc left)
  obtain o1 w1 where one: "agent_step_body uc generator request step ls w = (o1, w1)"
    by (cases "agent_step_body uc generator request step ls w")
  note outcome = agent_step_body_outcome [OF one]
  show ?case
  proof (cases o1)
    case (Return r1 e1)
    with Suc.prems(1) one have "o1 = Return r e" "w1 = w'" by auto
    with outcome Suc.prems(3) show ?thesis by (auto simp: stopped_def answered_def)
  next
    case (Continue ls1)
    with outcome have gen: "aw_generated w1 = aw_generated w @ [step_request request step (ls_session ls)]"
      and same: "fixed_part ls1 = fixed_part ls" by (auto simp: stopped_def answered_def)
    note spec = fixed_part_eq(1) [OF same]
    have "agent_steps uc generator request left (step + 1) ls1 w1 = ((r, e), w')"
      using Suc.prems(1) one Continue by simp
    moreover have "step + 1 + int left = max 0 (bg_MaxSteps (as_Budgets (sn_Spec (ls_session ls1))))" "0 \<le> step + 1"
      using Suc.prems(2,3) spec by simp_all
    ultimately have ih: "(\<exists>qs. aw_generated w' = aw_generated w1 @ qs \<and> length qs \<le> left \<and>
        step + 1 + int (length qs) = max 0 (al_Steps r)) \<and> ((e = None) \<longleftrightarrow> al_StopReason r = AgentStopReasonFinalAnswer)"
      by (rule Suc.IH)
    then obtain qs where qs: "aw_generated w' = aw_generated w1 @ qs" "length qs \<le> left"
      "step + 1 + int (length qs) = max 0 (al_Steps r)" by blast
    with gen have "aw_generated w' = aw_generated w @ (step_request request step (ls_session ls) # qs) \<and>
        length (step_request request step (ls_session ls) # qs) \<le> Suc left \<and>
        step + int (length (step_request request step (ls_session ls) # qs)) = max 0 (al_Steps r)" by simp
    with ih show ?thesis by blast
  qed
qed

text \<open>How a run starts: either it ends before the loop, or the loop runs from the first state.\<close>

definition loop_start ::
  "agent_usecase \<Rightarrow> generate_request \<Rightarrow> agent_spec \<Rightarrow> agent_world \<Rightarrow> agent_session \<Rightarrow> agent_world \<Rightarrow> bool" where
  "loop_start uc request spec w session w1 \<longleftrightarrow> same_calls w w1 \<and> sn_Spec session = spec \<and>
     sn_TotalTokens session = 0 \<and> sn_DecodingOptions session = agentDecodingOptions spec request \<and>
     sn_OrgID session = gq_OrgID request \<and>
     (sn_RunID session = gq_AgentRunID request \<and> gq_AgentRunID request \<noteq> uuid_nil \<or>
      (\<exists>run w0. sn_RunID session = ar_RunID run \<and> recordAgentRun uc (session\<lparr>sn_RunID := uuid_nil\<rparr>)
         AgentRunStatusRunning AgentStopReasonUnknown w0 = (Inr run, w1)))"

lemma runAgentLoop_cases:
  assumes "runAgentLoop uc request endpoint spec m ds generator w = ((r, e), w')"
  shows "(same_calls w w' \<and> r = empty_agent_result \<and> e \<noteq> None) \<or>
    (\<exists>session w1. loop_start uc request spec w session w1 \<and>
      agent_steps uc generator request (nat (bg_MaxSteps (as_Budgets spec))) 0 (start_loop session) w1 = ((r, e), w'))"
proof -
  define session0 where "session0 = new_session request endpoint spec m ds"
  define w0 where "w0 = w\<lparr>aw_tick := Suc (aw_tick w)\<rparr>"
  have w0: "same_calls w w0" by (simp add: same_calls_def w0_def)
  note run = assms [unfolded runAgentLoop_def Let_def available_tools_def session0_def [symmetric] w0_def [symmetric]]
  show ?thesis
  proof (cases "au_available uc (aw_tick w) (appToolResolutionContext session0) (as_ToolBindings spec)")
    case (Inl x)
    with run have "r = empty_agent_result" "e = Some x" "w' = w0" by auto
    with w0 show ?thesis by simp
  next
    case (Inr tools)
    note run1 = run [unfolded Inr prod.case sum.case]
    show ?thesis
    proof (cases "agentToolsetHash (au_codec uc) tools")
      case (Inl x)
      with run1 have "r = empty_agent_result" "e = Some x" "w' = w0" by auto
      with w0 show ?thesis by simp
    next
      case hash: (Inr hash)
      define session1 where "session1 = session0\<lparr>sn_ResolvedToolSpecs := tools, sn_ToolsetHash := hash\<rparr>"
      have s1: "sn_Spec session1 = spec" "sn_TotalTokens session1 = 0" "sn_RunID session1 = gq_AgentRunID request"
        "sn_DecodingOptions session1 = agentDecodingOptions spec request" "sn_OrgID session1 = gq_OrgID request"
        by (simp_all add: session1_def session0_def new_session_def)
      note run2 = run1 [unfolded hash sum.case session1_def [symmetric] s1(3)]
      show ?thesis
      proof (cases "gq_AgentRunID request = uuid_nil")
        case False
        then have "loop_start uc request spec w session1 w0" using w0 s1 by (simp add: loop_start_def)
        with run2 False show ?thesis by auto
      next
        case True
        obtain rec w1 where rec: "recordAgentRun uc session1 AgentRunStatusRunning AgentStopReasonUnknown w0 = (rec, w1)"
          by (cases "recordAgentRun uc session1 AgentRunStatusRunning AgentStopReasonUnknown w0")
        note frame = same_calls_trans [OF w0 recordAgentRun_calls [OF rec]]
        show ?thesis
        proof (cases rec)
          case (Inl x)
          with run2 True rec have "r = empty_agent_result" "e = Some x" "w' = w1" by auto
          with frame show ?thesis by simp
        next
          case (Inr started)
          have nil_run: "session1\<lparr>sn_RunID := uuid_nil\<rparr> = session1" using True s1(3) by (cases session1) simp
          have "loop_start uc request spec w (session1\<lparr>sn_RunID := ar_RunID started\<rparr>) w1"
            using frame s1 rec Inr nil_run by (auto simp: loop_start_def)
          with run2 True rec Inr show ?thesis by auto
        qed
      qed
    qed
  qed
qed

text \<open>C20. A run of the agent loop always ends, whatever the model, the tools and the database do: it
  calls the model at most as often as the spec's step limit allows, reports exactly the number
  of calls it made, and returns without an error exactly when it reports a final answer.\<close>

theorem agent_run_bounded:
  assumes "runAgentLoop uc request endpoint spec m ds generator w = ((result, err), w')"
  shows "\<exists>qs. aw_generated w' = aw_generated w @ qs \<and> length qs \<le> nat (bg_MaxSteps (as_Budgets spec)) \<and>
    int (length qs) = max 0 (al_Steps result) \<and> ((err = None) \<longleftrightarrow> al_StopReason result = AgentStopReasonFinalAnswer)"
  using runAgentLoop_cases [OF assms]
proof
  assume "same_calls w w' \<and> result = empty_agent_result \<and> err \<noteq> None"
  then show ?thesis by (auto simp: same_calls_def empty_agent_result_def)
next
  assume "\<exists>session w1. loop_start uc request spec w session w1 \<and>
    agent_steps uc generator request (nat (bg_MaxSteps (as_Budgets spec))) 0 (start_loop session) w1 = ((result, err), w')"
  then obtain session w1 where s: "loop_start uc request spec w session w1"
    "agent_steps uc generator request (nat (bg_MaxSteps (as_Budgets spec))) 0 (start_loop session) w1 = ((result, err), w')"
    by blast
  from agent_steps_outcome [OF s(2)] s(1) show ?thesis by (auto simp: start_loop_def loop_start_def same_calls_def)
qed

section \<open>Repeated tool calls\<close>

text \<open>
  \<open>noted\<close> relates the signatures of the calls so far, the last one first, to what the loop
  remembers of them; the loop remembers enough to keep out three equal calls in a row.
\<close>

fun no_triple :: "'a list \<Rightarrow> bool" where
  "no_triple (a # b # c # xs) \<longleftrightarrow> \<not> (a = b \<and> b = c) \<and> no_triple (b # c # xs)"
| "no_triple _ = True"

lemma no_triple_Cons:
  "no_triple (a # xs) \<longleftrightarrow> no_triple xs \<and> \<not> (\<exists>ys. xs = a # a # ys)"
  by (cases xs; cases "tl xs") auto

lemma no_triple_infix: "no_triple (us @ [a, a, a] @ vs) \<Longrightarrow> False"
  by (induction us) (auto simp: no_triple_Cons)

definition noted :: "string list \<Rightarrow> loop_state \<Rightarrow> bool" where
  "noted rs ls \<longleftrightarrow> no_triple rs \<and> (case rs of [] \<Rightarrow> ls_lastSignature ls = [] \<and> ls_repeated ls = 0
     | a # ss \<Rightarrow> ls_lastSignature ls = a \<and> ls_repeated ls \<le> 1 \<and> (ls_repeated ls = 0 \<longrightarrow> \<not> (\<exists>ys. ss = a # ys)))"

lemma signature_not_empty: "agentToolCallSignature call \<noteq> []"
  by (simp add: agentToolCallSignature_def)

lemma noted_next:
  assumes "noted rs ls" "ls_repeated (note_signature (agentToolCallSignature call) ls) < 2"
  shows "noted (agentToolCallSignature call # rs) (note_signature (agentToolCallSignature call) ls)"
  using assms signature_not_empty [of call]
  by (auto simp: noted_def note_signature_def no_triple_Cons split: list.splits if_splits)

lemma noted_keeps: "keeps_guards a b \<Longrightarrow> noted rs b = noted rs a"
  by (simp add: noted_def keeps_guards_def cong: list.case_cong)

lemma noted_add: "noted rs (add_tokens n ls) = noted rs ls" "noted rs (add_message m ls) = noted rs ls"
  by (simp_all add: noted_def add_tokens_def add_message_def cong: list.case_cong)

lemma noted_generated: "noted rs (generated_state gen ls) = noted rs ls"
  by (simp add: generated_state_def noted_add)

abbreviation signatures :: "(tool_invocation_context \<times> tool_call) list \<Rightarrow> string list" where
  "signatures calls \<equiv> map (agentToolCallSignature \<circ> snd) calls"

definition noted_after :: "string list \<Rightarrow> agent_world \<Rightarrow> loop_outcome \<Rightarrow> agent_world \<Rightarrow> bool" where
  "noted_after rs w out w' \<longleftrightarrow> (\<exists>calls. aw_invoked w' = aw_invoked w @ calls \<and>
     no_triple (rev (signatures calls) @ rs) \<and> (\<forall>ls'. out = Continue ls' \<longrightarrow> noted (rev (signatures calls) @ rs) ls'))"

lemma noted_no_triple: "noted rs ls \<Longrightarrow> no_triple rs"
  by (simp add: noted_def)

lemma noted_after_none:
  assumes "noted rs ls" "aw_invoked w' = aw_invoked w" "\<And>ls'. out = Continue ls' \<Longrightarrow> noted rs ls'"
  shows "noted_after rs w out w'"
  unfolding noted_after_def using assms noted_no_triple by (intro exI [of _ "[]"]) auto

lemma noted_after_trans:
  assumes "noted_after rs w (Continue ls1) w1"
    "\<And>rs. noted rs ls1 \<Longrightarrow> noted_after rs w1 out w'"
  shows "noted_after rs w out w'"
proof -
  obtain calls where c: "aw_invoked w1 = aw_invoked w @ calls" "noted (rev (signatures calls) @ rs) ls1"
    using assms(1) by (auto simp: noted_after_def)
  obtain more where "aw_invoked w' = aw_invoked w1 @ more" "no_triple (rev (signatures more) @ rev (signatures calls) @ rs)"
    "\<forall>ls'. out = Continue ls' \<longrightarrow> noted (rev (signatures more) @ rev (signatures calls) @ rs) ls'"
    using assms(2) [OF c(2)] by (auto simp: noted_after_def)
  with c(1) show ?thesis unfolding noted_after_def by (intro exI [of _ "calls @ more"]) simp
qed

lemma tool_call_step_noted:
  assumes "noted rs ls" "tool_call_step uc q step st index call ls w = (out, w')"
  shows "noted_after rs w out w'"
  using tool_call_step_cases [OF assms(2)]
proof
  assume "2 \<le> ls_repeated (note_signature (agentToolCallSignature call) ls) \<and> stopped (step + 1) out \<and> same_calls w w'"
  with assms(1) show ?thesis by (intro noted_after_none) (auto simp: same_calls_def stopped_def)
next
  assume *: "ls_repeated (note_signature (agentToolCallSignature call) ls) < 2 \<and> aw_generated w' = aw_generated w \<and>
     aw_invoked w' = aw_invoked w @ [(appToolInvocationContext (au_codec uc) (ls_session ls) st (agentToolCallKey call index), call)] \<and>
     (stopped (step + 1) out \<or> (\<exists>ls' n. out = Continue ls' \<and>
        keeps_guards (note_signature (agentToolCallSignature call) ls) ls' \<and>
        n \<in> {0, tr_TokenEstimate (fst (au_invoke uc (aw_tick w)
          (appToolInvocationContext (au_codec uc) (ls_session ls) st (agentToolCallKey call index)) call))} \<and>
        used_tokens ls' = wrap64 (used_tokens ls + n) \<and> \<not> over_budget ls'))"
  with noted_next [OF assms(1)] have noted: "noted (agentToolCallSignature call # rs) (note_signature (agentToolCallSignature call) ls)"
    by blast
  have "noted (agentToolCallSignature call # rs) ls'" if "out = Continue ls'" for ls'
    using * that noted noted_keeps by (auto simp: stopped_def)
  with * noted_no_triple [OF noted] show ?thesis unfolding noted_after_def
    by (intro exI [of _ "[(appToolInvocationContext (au_codec uc) (ls_session ls) st (agentToolCallKey call index), call)]"]) auto
qed

lemma tool_calls_loop_noted:
  assumes "noted rs ls" "tool_calls_loop uc q step st index calls ls w = (out, w')"
  shows "noted_after rs w out w'"
  using assms
proof (induction calls arbitrary: rs index ls w)
  case Nil
  then show ?case by (intro noted_after_none [of rs ls]) auto
next
  case (Cons call calls)
  obtain o1 w1 where one: "tool_call_step uc q step st index call ls w = (o1, w1)"
    by (cases "tool_call_step uc q step st index call ls w")
  note first = tool_call_step_noted [OF Cons.prems(1) one]
  show ?case
  proof (cases o1)
    case (Continue ls1)
    with Cons.prems one have rest: "tool_calls_loop uc q step st (Suc index) calls ls1 w1 = (out, w')" by simp
    show ?thesis using first unfolding Continue by (rule noted_after_trans) (rule Cons.IH [OF _ rest])
  next
    case (Return r e)
    with Cons.prems(2) one have "o1 = out" "w1 = w'" by auto
    with first show ?thesis by simp
  qed
qed

lemma agent_step_body_noted:
  assumes "noted rs ls" "agent_step_body uc generator request step ls w = (out, w')"
  shows "noted_after rs w out w'"
proof -
  have none: "noted_after rs w out w'" if "aw_invoked w' = aw_invoked w" "stopped s out \<or> answered s out" for s
    using that assms(1) by (intro noted_after_none [of rs ls]) (auto simp: stopped_def answered_def)
  show ?thesis using agent_step_body_cases [OF assms(2)]
  proof (elim disjE exE conjE)
    fix w1 gen
    assume w1: "w1 = w\<lparr>aw_tick := Suc (aw_tick w), aw_generated := aw_generated w @ [step_request request step (ls_session ls)]\<rparr>"
      and run: "after_generation uc (gq_RequestID request) step gen ls w1 = (out, w')"
    show ?thesis using after_generation_cases [OF run]
    proof (elim disjE exE conjE)
      fix st w2
      assume w2: "same_calls w1 w2" and run: "tool_calls_loop uc (gq_RequestID request) step st 0 (gn_ToolCalls gen)
          (add_message (assistant_message gen) (generated_state gen ls)) w2 = (out, w')"
      have "noted_after rs w2 out w'"
        by (rule tool_calls_loop_noted [OF _ run]) (simp add: noted_add noted_generated assms(1))
      then show ?thesis using w1 w2 by (simp add: noted_after_def same_calls_def)
    qed (use w1 none in \<open>auto simp: same_calls_def\<close>)
  qed (use none in \<open>auto simp: same_calls_def\<close>)
qed

lemma agent_steps_noted:
  assumes "noted rs ls" "agent_steps uc generator request left step ls w = ((r, e), w')"
  shows "noted_after rs w (Return r e) w'"
  using assms
proof (induction left arbitrary: rs step ls w)
  case 0
  then have "same_calls w w'" by (auto dest: end_run_cases(1))
  with 0 show ?case by (intro noted_after_none [of rs ls]) (auto simp: same_calls_def)
next
  case (Suc left)
  obtain o1 w1 where one: "agent_step_body uc generator request step ls w = (o1, w1)"
    by (cases "agent_step_body uc generator request step ls w")
  note first = agent_step_body_noted [OF Suc.prems(1) one]
  show ?case
  proof (cases o1)
    case (Continue ls1)
    with Suc.prems one have rest: "agent_steps uc generator request left (step + 1) ls1 w1 = ((r, e), w')" by simp
    show ?thesis using first unfolding Continue by (rule noted_after_trans) (rule Suc.IH [OF _ rest])
  next
    case (Return r1 e1)
    with Suc.prems(2) one have "o1 = Return r e" "w1 = w'" by auto
    with first show ?thesis by simp
  qed
qed

text \<open>C21. A run never makes the same tool call three times in a row, counting the calls of all its
  steps: the same name and arguments up to white space at the ends stop the run instead.\<close>

theorem no_triple_tool_call:
  assumes "runAgentLoop uc request endpoint spec m ds generator w = ((result, err), w')"
  shows "\<exists>calls. aw_invoked w' = aw_invoked w @ calls \<and>
    \<not> (\<exists>us a vs. map (\<lambda>(ctxt, call). agentToolCallSignature call) calls = us @ [a, a, a] @ vs)"
proof -
  have main: ?thesis if after: "noted_after [] w (Return result err) w'"
  proof -
    obtain calls where c: "aw_invoked w' = aw_invoked w @ calls" "no_triple (rev (signatures calls))"
      using after by (auto simp: noted_after_def)
    have "signatures calls \<noteq> us @ [a, a, a] @ vs" for us a vs
    proof
      assume "signatures calls = us @ [a, a, a] @ vs"
      then have "rev (signatures calls) = rev vs @ [a, a, a] @ rev us" by simp
      with c(2) no_triple_infix show False by metis
    qed
    moreover have "signatures calls = map (\<lambda>(ctxt, call). agentToolCallSignature call) calls" by (simp add: case_prod_beta comp_def)
    ultimately show ?thesis using c(1) by (metis (no_types, lifting))
  qed
  show ?thesis using runAgentLoop_cases [OF assms]
  proof
    assume "same_calls w w' \<and> result = empty_agent_result \<and> err \<noteq> None"
    then show ?thesis by (intro main) (simp add: noted_after_def same_calls_def)
  next
    assume "\<exists>session w1. loop_start uc request spec w session w1 \<and>
      agent_steps uc generator request (nat (bg_MaxSteps (as_Budgets spec))) 0 (start_loop session) w1 = ((result, err), w')"
    then obtain session w1 where s: "loop_start uc request spec w session w1"
      "agent_steps uc generator request (nat (bg_MaxSteps (as_Budgets spec))) 0 (start_loop session) w1 = ((result, err), w')"
      by blast
    have "noted [] (start_loop session)" by (simp add: noted_def start_loop_def)
    from agent_steps_noted [OF this s(2)] s(1) show ?thesis
      by (intro main) (simp add: noted_after_def loop_start_def same_calls_def)
  qed
qed

section \<open>The token budget\<close>

text \<open>Reported and estimated token counts far below the range of 64 bits, so that sums are exact.\<close>

definition plausible_model :: "generation_adapter \<Rightarrow> bool" where
  "plausible_model generator \<longleftrightarrow> (\<forall>n q gen. generator n q = Inr gen \<longrightarrow>
     agentGenerationTokenUsage (gn_Usage gen) (gr_Messages q) (gr_Tools q) gen \<le> 2 ^ 61)"

definition plausible_tools :: "agent_usecase \<Rightarrow> bool" where
  "plausible_tools uc \<longleftrightarrow> (\<forall>n ctxt call. 0 \<le> tr_TokenEstimate (fst (au_invoke uc n ctxt call)) \<and>
     tr_TokenEstimate (fst (au_invoke uc n ctxt call)) \<le> 2 ^ 61)"

text \<open>The state of a run with budget \<open>b\<close> that has tokens left.\<close>

definition within :: "int \<Rightarrow> loop_state \<Rightarrow> bool" where
  "within b ls \<longleftrightarrow> bg_Token (as_Budgets (sn_Spec (ls_session ls))) = b \<and>
     go_MaxOutputTokens (sn_DecodingOptions (ls_session ls)) = b \<and> 0 < b \<and> b \<le> 2 ^ 61 \<and>
     0 \<le> used_tokens ls \<and> used_tokens ls < b"

abbreviation output_limit :: "generation_request \<Rightarrow> int" where
  "output_limit q \<equiv> go_MaxOutputTokens (gr_Options q)"

lemma usage_positive: "0 < agentGenerationTokenUsage u ms ts r"
  by (simp add: agentGenerationTokenUsage_def estimateAgentGenerationTokens_def Let_def)

lemma within_same:
  assumes "within b ls" "fixed_part ls' = fixed_part ls" "used_tokens ls' = used_tokens ls"
  shows "within b ls'"
  using assms(1,3) fixed_part_eq [OF assms(2)] by (simp add: within_def)

lemma within_next:
  assumes "within b ls" "fixed_part ls' = fixed_part ls" "\<not> over_budget ls'"
    "used_tokens ls' = wrap64 (used_tokens ls + n)" "0 \<le> n" "n \<le> 2 ^ 61"
  shows "within b ls'" "used_tokens ls' = used_tokens ls + n"
proof -
  have "wrap64 (used_tokens ls + n) = used_tokens ls + n"
    using assms(1,5,6) by (intro wrap64_id) (auto simp: within_def in_i64_def min_i64_def max_i64_def)
  with assms fixed_part_eq [OF assms(2)] show "within b ls'" "used_tokens ls' = used_tokens ls + n"
    by (auto simp: within_def agentTokenBudgetExceeded_def)
qed

lemma tool_calls_loop_tokens:
  assumes "within b ls" "plausible_tools uc" "tool_calls_loop uc q step st index calls ls w = (Continue ls', w')"
  shows "within b ls' \<and> used_tokens ls \<le> used_tokens ls'"
  using assms(1,3)
proof (induction calls arbitrary: index ls w)
  case (Cons call calls)
  obtain o1 w1 where one: "tool_call_step uc q step st index call ls w = (o1, w1)"
    by (cases "tool_call_step uc q step st index call ls w")
  obtain ls1 where o1: "o1 = Continue ls1" and rest: "tool_calls_loop uc q step st (Suc index) calls ls1 w1 = (Continue ls', w')"
    using Cons.prems(2) one by (cases o1) auto
  obtain n where n: "n \<in> {0, tr_TokenEstimate (fst (au_invoke uc (aw_tick w)
          (appToolInvocationContext (au_codec uc) (ls_session ls) st (agentToolCallKey call index)) call))}"
    and ls1: "used_tokens ls1 = wrap64 (used_tokens ls + n)" "\<not> over_budget ls1" "fixed_part ls1 = fixed_part ls"
    using tool_call_step_cases [OF one] o1 by (auto simp: stopped_def keeps_guards_def)
  have "0 \<le> n" "n \<le> 2 ^ 61" using n assms(2) by (auto simp: plausible_tools_def)
  from within_next [OF Cons.prems(1) ls1(3,2,1) this] Cons.IH [OF _ rest] \<open>0 \<le> n\<close> show ?case by auto
qed auto

lemma agent_step_body_tokens:
  assumes "within b ls" "plausible_tools uc" "plausible_model generator"
    "agent_step_body uc generator request step ls w = (Continue ls', w')"
  shows "within b ls' \<and> used_tokens ls < used_tokens ls'"
proof -
  have no: "\<not> stopped n (Continue ls')" "\<not> answered n (Continue ls')" for n by (simp_all add: stopped_def answered_def)
  obtain w1 gen where gen: "generator (aw_tick w) (step_request request step (ls_session ls)) = Inr gen"
    and run: "after_generation uc (gq_RequestID request) step gen ls w1 = (Continue ls', w')"
    using agent_step_body_cases [OF assms(4)] no by blast
  obtain st w2 where budget: "\<not> over_budget (generated_state gen ls)"
    and rest: "tool_calls_loop uc (gq_RequestID request) step st 0 (gn_ToolCalls gen)
       (add_message (assistant_message gen) (generated_state gen ls)) w2 = (Continue ls', w')"
    using after_generation_cases [OF run] no by blast
  define n where "n = agentGenerationTokenUsage (gn_Usage gen) (sn_Messages (ls_session ls))
     (sn_ResolvedToolSpecs (ls_session ls)) gen"
  have n: "0 \<le> n" "0 < n" "n \<le> 2 ^ 61"
  proof -
    have "agentGenerationTokenUsage (gn_Usage gen) (gr_Messages (step_request request step (ls_session ls)))
        (gr_Tools (step_request request step (ls_session ls))) gen \<le> 2 ^ 61"
      using assms(3) gen unfolding plausible_model_def by blast
    then show "n \<le> 2 ^ 61" by (simp add: n_def step_request_def)
    show "0 \<le> n" "0 < n" using usage_positive by (simp_all add: n_def less_imp_le)
  qed
  have used: "used_tokens (generated_state gen ls) = wrap64 (used_tokens ls + n)" "fixed_part (generated_state gen ls) = fixed_part ls"
    by (simp_all add: generated_state_def n_def) (simp add: add_tokens_def)
  note next_state = within_next [OF assms(1) used(2) budget used(1) n(1,3)]
  have "within b (add_message (assistant_message gen) (generated_state gen ls))"
    by (rule within_same [OF next_state(1)]) simp_all
  from tool_calls_loop_tokens [OF this assms(2) rest] next_state(2) n(2) show ?thesis by simp
qed

lemma step_request_limit:
  assumes "within b ls"
  shows "output_limit (step_request request step (ls_session ls)) = b - used_tokens ls"
proof -
  have "wrap64 (b - used_tokens ls) = b - used_tokens ls"
    using assms by (intro wrap64_id) (auto simp: within_def in_i64_def min_i64_def max_i64_def)
  with assms show ?thesis
    by (auto simp: step_request_def agentStepGenerationOptions_def limit_output_def within_def Let_def)
qed

lemma agent_steps_tokens:
  assumes "within b ls" "plausible_tools uc" "plausible_model generator"
    "agent_steps uc generator request left step ls w = ((r, e), w')"
  shows "\<exists>qs. aw_generated w' = aw_generated w @ qs \<and> sorted_wrt (>) (map output_limit qs) \<and>
    (\<forall>q \<in> set qs. 1 \<le> output_limit q \<and> output_limit q \<le> b - used_tokens ls)"
  using assms(1,4)
proof (induction left arbitrary: step ls w)
  case 0
  then have "same_calls w w'" by (auto dest: end_run_cases(1))
  then show ?case by (simp add: same_calls_def)
next
  case (Suc left)
  define q where "q = step_request request step (ls_session ls)"
  have q: "output_limit q = b - used_tokens ls" "1 \<le> b - used_tokens ls"
    using step_request_limit [OF Suc.prems(1)] Suc.prems(1) by (simp_all add: q_def within_def)
  obtain o1 w1 where one: "agent_step_body uc generator request step ls w = (o1, w1)"
    by (cases "agent_step_body uc generator request step ls w")
  note outcome = agent_step_body_outcome [OF one, folded q_def]
  show ?case
  proof (cases o1)
    case (Return r1 e1)
    with Suc.prems(2) one have "w1 = w'" by simp
    with outcome Return have "aw_generated w' = aw_generated w @ [] \<or> aw_generated w' = aw_generated w @ [q]" by auto
    then show ?thesis
    proof
      assume "aw_generated w' = aw_generated w @ []"
      then show ?thesis by (intro exI [of _ "[]"]) simp
    next
      assume "aw_generated w' = aw_generated w @ [q]"
      with q show ?thesis by (intro exI [of _ "[q]"]) simp
    qed
  next
    case (Continue ls1)
    have tokens: "within b ls1" "used_tokens ls < used_tokens ls1"
      using agent_step_body_tokens [OF Suc.prems(1) assms(2,3) one [unfolded Continue]] by auto
    have "agent_steps uc generator request left (step + 1) ls1 w1 = ((r, e), w')" using Suc.prems(2) one Continue by simp
    from Suc.IH [OF tokens(1) this] obtain qs where qs: "aw_generated w' = aw_generated w1 @ qs"
      "sorted_wrt (>) (map output_limit qs)"
      "\<forall>p \<in> set qs. 1 \<le> output_limit p \<and> output_limit p \<le> b - used_tokens ls1" by blast
    have "aw_generated w1 = aw_generated w @ [q]" using outcome Continue by (auto simp: stopped_def answered_def)
    with qs q tokens(2) show ?thesis by (intro exI [of _ "q # qs"]) force
  qed
qed

text \<open>C25. Under a positive token budget each request of a run allows the model at least one token and
  fewer than the request before it, so the budget alone bounds the number of requests, and
  none allows more than the budget.\<close>

theorem token_budget_respected:
  assumes "runAgentLoop uc request endpoint spec m ds generator w = ((result, err), w')"
    "0 < bg_Token (as_Budgets spec)" "bg_Token (as_Budgets spec) \<le> 2 ^ 61" "plausible_tools uc" "plausible_model generator"
  shows "\<exists>qs. aw_generated w' = aw_generated w @ qs \<and> sorted_wrt (>) (map output_limit qs) \<and>
    (\<forall>q \<in> set qs. 1 \<le> output_limit q \<and> output_limit q \<le> bg_Token (as_Budgets spec)) \<and>
    int (length qs) \<le> bg_Token (as_Budgets spec)"
proof -
  define b where "b = bg_Token (as_Budgets spec)"
  have len: "int (length qs) \<le> n" if "sorted_wrt (>) (map output_limit qs)" "\<forall>q \<in> set qs. 1 \<le> output_limit q \<and> output_limit q \<le> n" "0 \<le> n"
    for qs :: "generation_request list" and n
  proof -
    have "distinct xs" if "sorted_wrt (>) xs" for xs :: "int list" using that by (induction xs) auto
    then have "distinct (map output_limit qs)" using that(1) by blast
    moreover have "set (map output_limit qs) \<subseteq> {1..n}" using that(2) by auto
    ultimately have "length (map output_limit qs) \<le> card {1..n}" by (metis card_mono distinct_card finite_atLeastAtMost_int)
    with that(3) show ?thesis by simp
  qed
  show ?thesis using runAgentLoop_cases [OF assms(1)]
  proof
    assume "same_calls w w' \<and> result = empty_agent_result \<and> err \<noteq> None"
    then show ?thesis using assms(2) by (simp add: same_calls_def)
  next
    assume "\<exists>session w1. loop_start uc request spec w session w1 \<and>
      agent_steps uc generator request (nat (bg_MaxSteps (as_Budgets spec))) 0 (start_loop session) w1 = ((result, err), w')"
    then obtain session w1 where s: "loop_start uc request spec w session w1"
      "agent_steps uc generator request (nat (bg_MaxSteps (as_Budgets spec))) 0 (start_loop session) w1 = ((result, err), w')"
      by blast
    have start: "within b (start_loop session)" "used_tokens (start_loop session) = 0"
      using s(1) assms(2,3) by (simp_all add: within_def start_loop_def loop_start_def agentDecodingOptions_def b_def)
    from agent_steps_tokens [OF start(1) assms(4,5) s(2)] obtain qs where qs: "aw_generated w' = aw_generated w1 @ qs"
      "sorted_wrt (>) (map output_limit qs)" "\<forall>q \<in> set qs. 1 \<le> output_limit q \<and> output_limit q \<le> b"
      unfolding start(2) by auto
    moreover have "aw_generated w1 = aw_generated w" using s(1) by (simp add: loop_start_def same_calls_def)
    ultimately show ?thesis using len [OF qs(2,3)] assms(2) by (auto simp: b_def)
  qed
qed

end
