(* ===== verification/AgentRunProperties.thy ===== *)
theory AgentRunProperties
  imports AgentServing AgentLoopProperties
begin

text \<open>
  What an agent's run leaves behind: the run, its steps, and the audit record of the request
  that started it. The first part shows which facts about the tables survive whatever comes
  later in the run.
\<close>

section \<open>What grows\<close>

definition run_ids :: "trajectory_tables \<Rightarrow> uuid set" where
  "run_ids t = set (map ar_RunID (tt_runs t))"

definition step_keys :: "trajectory_tables \<Rightarrow> (uuid \<times> int) set" where
  "step_keys t = set (map step_key (tt_steps t))"

definition grown :: "trajectory_tables \<Rightarrow> trajectory_tables \<Rightarrow> bool" where
  "grown t t' \<longleftrightarrow> step_keys t \<subseteq> step_keys t' \<and> run_ids t \<subseteq> run_ids t'"

definition grows :: "agent_world \<Rightarrow> agent_world \<Rightarrow> bool" where
  "grows w w' \<longleftrightarrow> grown (aw_tables w) (aw_tables w') \<and> aw_requests w' = aw_requests w"

lemma grown_refl [simp]: "grown t t"
  by (simp add: grown_def)

lemma grows_refl [simp]: "grows w w"
  by (simp add: grows_def)

lemma grows_trans: "grows a b \<Longrightarrow> grows b c \<Longrightarrow> grows a c"
  unfolding grows_def grown_def by (metis subset_trans)

lemma grows_log [simp]:
  "grows w (w'\<lparr>aw_tick := n\<rparr>) \<longleftrightarrow> grows w w'" "grows w (w'\<lparr>aw_generated := qs\<rparr>) \<longleftrightarrow> grows w w'"
  "grows w (w'\<lparr>aw_invoked := cs\<rparr>) \<longleftrightarrow> grows w w'" "grows (w\<lparr>aw_tick := n\<rparr>) w' \<longleftrightarrow> grows w w'"
  "grows (w\<lparr>aw_generated := qs\<rparr>) w' \<longleftrightarrow> grows w w'" "grows (w\<lparr>aw_invoked := cs\<rparr>) w' \<longleftrightarrow> grows w w'"
  by (simp_all add: grows_def)

lemma grown_runs_append: "grown t (t\<lparr>tt_runs := tt_runs t @ [r]\<rparr>)"
  by (auto simp: grown_def run_ids_def step_keys_def)

lemma grown_steps_append: "grown t (t\<lparr>tt_steps := tt_steps t @ [x]\<rparr>)"
  by (auto simp: grown_def run_ids_def step_keys_def)

lemma grown_runs_update: "(\<And>r. p r \<Longrightarrow> ar_RunID (f r) = ar_RunID r) \<Longrightarrow> grown t (t\<lparr>tt_runs := update_where p f (tt_runs t)\<rparr>)"
  by (simp add: grown_def run_ids_def step_keys_def del: set_map)

lemma grown_steps_update: "(\<And>x. p x \<Longrightarrow> step_key (f x) = step_key x) \<Longrightarrow> grown t (t\<lparr>tt_steps := update_where p f (tt_steps t)\<rparr>)"
  by (simp add: grown_def run_ids_def step_keys_def del: set_map)

lemma grown_invocations: "grown t (t\<lparr>tt_invocations := vs\<rparr>)"
  by (simp add: grown_def run_ids_def step_keys_def)

lemmas growth = grown_runs_append grown_steps_append grown_runs_update grown_steps_update grown_invocations

lemma updateAgentRun_grown: "updateAgentRun env s run t = (r, t') \<Longrightarrow> grown t t'"
  by (auto simp: updateAgentRun_def set_run_outcome_def intro!: growth split: sum.splits option.splits if_splits)

lemma RecordAgentRun_grown:
  assumes "RecordAgentRun env s run t = (r, t')"
  shows "grown t t'"
  using RecordAgentRun_cases [OF assms] updateAgentRun_grown by (elim disjE exE conjE) (auto intro: growth)

lemma RecordAgentStep_grown:
  assumes "RecordAgentStep env s x t = (r, t')"
  shows "grown t t'"
  using assms by (auto simp: RecordAgentStep_def step_key_def set_step_content_def intro!: growth
      split: sum.splits option.splits if_splits)

lemma RecordToolInvocation_grown: "RecordToolInvocation env s v t = (r, t') \<Longrightarrow> grown t t'"
  by (auto simp: RecordToolInvocation_def Let_def intro!: growth split: sum.splits option.splits if_splits)

lemma RecordAgentStep_stored:
  assumes "RecordAgentStep env s x t = (Inr out, t')"
  shows "step_key x \<in> step_keys t'"
proof -
  obtain args where args: "agentStepArgs env x = Inr args" and
    alt: "(\<exists>old. find (same_step x) (tt_steps t) = Some old \<and>
       t' = t\<lparr>tt_steps := update_where (same_step x) (set_step_content env args) (tt_steps t)\<rparr>) \<or>
     t' = t\<lparr>tt_steps := tt_steps t @ [inserted_step env args]\<rparr>"
    using RecordAgentStep_ok [OF assms] by blast
  from alt show ?thesis
  proof
    assume "\<exists>old. find (same_step x) (tt_steps t) = Some old \<and>
       t' = t\<lparr>tt_steps := update_where (same_step x) (set_step_content env args) (tt_steps t)\<rparr>"
    then obtain old where old: "find (same_step x) (tt_steps t) = Some old"
      and t': "t' = t\<lparr>tt_steps := update_where (same_step x) (set_step_content env args) (tt_steps t)\<rparr>" by blast
    have "step_key x \<in> step_keys t" using find_SomeD [OF old] by (auto simp: step_keys_def same_step_key image_iff intro: bexI [of _ old])
    moreover have "grown t t'"
      unfolding t' by (rule grown_steps_update) (simp add: step_key_def set_step_content_def)
    ultimately show ?thesis by (auto simp: grown_def)
  next
    assume "t' = t\<lparr>tt_steps := tt_steps t @ [inserted_step env args]\<rparr>"
    with stepArgs_fields [OF args] show ?thesis by (simp add: step_keys_def step_key_def inserted_step_def)
  qed
qed

lemma store_grows:
  assumes "store uc op event w = (r, w')" "\<And>env s t x t'. op env s t = (x, t') \<Longrightarrow> grown t t'"
  shows "grows w w'"
proof -
  have "grown t (snd (op env s t))" for env s t using assms(2) by (metis surj_pair snd_conv)
  from this [of "aw_tables w" "au_db uc (aw_tick w)" "au_session uc"] show ?thesis
    using assms(1) by (auto simp: store_def grows_def split: prod.splits sum.splits)
qed

lemma recordAgentRun_grows: "recordAgentRun uc session status reason w = (r, w') \<Longrightarrow> grows w w'"
  by (auto simp: recordAgentRun_def split: sum.splits elim!: store_grows intro: RecordAgentRun_grown)

lemma recordAgentStep_grows: "recordAgentStep uc session i tools gen w = (r, w') \<Longrightarrow> grows w w'"
  by (auto simp: recordAgentStep_def split: sum.splits prod.splits elim!: store_grows intro: RecordAgentStep_grown)

lemma recordAgentStep_stored:
  assumes "recordAgentStep uc session i tools gen w = (Inr st, w')"
  shows "(sn_RunID session, i) \<in> step_keys (aw_tables w')"
  using assms
  by (auto simp: recordAgentStep_def store_def step_key_def split: sum.splits prod.splits dest!: RecordAgentStep_stored)

lemma recordAgentToolInvocation_grows:
  "recordAgentToolInvocation uc session st key call result w = (r, w') \<Longrightarrow> grows w w'"
  by (auto simp: recordAgentToolInvocation_def split: sum.splits prod.splits elim!: store_grows
      intro: RecordToolInvocation_grown)

lemma failAgentRun_grows: "failAgentRun uc session reason e w = (r, w') \<Longrightarrow> grows w w'"
  by (auto simp: failAgentRun_def dest!: recordAgentRun_grows split: sum.splits prod.splits)

lemma stop_run_grows: "stop_run uc q ls reported reason steps e w = (out, w') \<Longrightarrow> grows w w'"
  by (auto simp: stop_run_def end_run_def dest: failAgentRun_grows split: prod.splits)


lemma after_tool_grows: "after_tool uc q step call signature r err ls w = (out, w') \<Longrightarrow> grows w w'"
  unfolding after_tool_def Let_def
  by (auto split: ToolErrorType.splits option.splits if_splits dest: stop_run_grows)

lemma tool_call_step_grows:
  assumes "tool_call_step uc q step st index call ls w = (out, w')"
  shows "grows w w'"
  using assms unfolding tool_call_step_def Let_def invoke_tool_def
  by (auto split: if_splits prod.splits option.splits intro: grows_trans
      dest!: stop_run_grows recordAgentToolInvocation_grows after_tool_grows)

lemma tool_calls_loop_grows: "tool_calls_loop uc q step st index calls ls w = (out, w') \<Longrightarrow> grows w w'"
  by (induction calls arbitrary: index ls w)
    (auto split: prod.splits loop_outcome.splits dest!: tool_call_step_grows intro: grows_trans)

text \<open>A step that goes on has stored itself; one that answers has also completed the run.\<close>

lemma after_generation_continues:
  assumes "after_generation uc q step gen ls w = (Continue ls', w')"
  shows "grows w w' \<and> (sn_RunID (ls_session ls), step) \<in> step_keys (aw_tables w') \<and> fixed_part ls' = fixed_part ls"
proof -
  define ls1 where "ls1 = generated_state gen ls"
  obtain st w1 where rec: "recordAgentStep uc (ls_session ls1) step (sn_ResolvedToolSpecs (ls_session ls)) gen w = (Inr st, w1)"
    and rest: "tool_calls_loop uc q step st 0 (gn_ToolCalls gen) (add_message (assistant_message gen) ls1) w1 = (Continue ls', w')"
    using assms unfolding after_generation_def Let_def generated_state_def [symmetric] ls1_def [symmetric]
    by (auto split: prod.splits sum.splits if_splits dest!: stop_run_cases)
  have id: "sn_RunID (ls_session ls1) = sn_RunID (ls_session ls)"
    by (rule fixed_part_eq(2)) (simp add: ls1_def generated_state_def)
  have "grows w1 w'" by (rule tool_calls_loop_grows [OF rest])
  moreover have "(sn_RunID (ls_session ls), step) \<in> step_keys (aw_tables w1)" using recordAgentStep_stored [OF rec] id by simp
  moreover have "fixed_part ls' = fixed_part ls"
    using tool_calls_loop_outcome [OF rest] by (auto simp: stopped_def ls1_def generated_state_def)
  ultimately show ?thesis using grows_trans [OF recordAgentStep_grows [OF rec]] by (auto simp: grows_def grown_def)
qed

lemma after_generation_answers:
  assumes "after_generation uc q step gen ls w = (Return r None, w')"
  shows "grows w w' \<and> (sn_RunID (ls_session ls), step) \<in> step_keys (aw_tables w') \<and>
    (\<exists>w1 session run. recordAgentRun uc session AgentRunStatusCompleted AgentStopReasonFinalAnswer w1 = (Inr run, w') \<and>
       sn_RunID session = sn_RunID (ls_session ls)) \<and>
    al_RunID r = sn_RunID (ls_session ls) \<and> al_Steps r = step + 1 \<and> al_Answer r = final_answer gen"
proof -
  define ls1 where "ls1 = generated_state gen ls"
  have no: "\<not> stopped n (Return r None)" for n by (simp add: stopped_def)
  obtain st w1 run where rec: "recordAgentStep uc (ls_session ls1) step (sn_ResolvedToolSpecs (ls_session ls)) gen w = (Inr st, w1)"
    and fin: "recordAgentRun uc (ls_session ls1) AgentRunStatusCompleted AgentStopReasonFinalAnswer w1 = (Inr run, w')"
    and r: "r = (result_with q ls1 AgentStopReasonFinalAnswer (step + 1))\<lparr>al_Answer := final_answer gen\<rparr>"
    using assms unfolding after_generation_def Let_def generated_state_def [symmetric] ls1_def [symmetric]
    by (auto split: prod.splits sum.splits if_splits dest!: stop_run_cases tool_calls_loop_outcome simp: no)
  have id: "sn_RunID (ls_session ls1) = sn_RunID (ls_session ls)"
    by (rule fixed_part_eq(2)) (simp add: ls1_def generated_state_def)
  have "grows w1 w'" by (rule recordAgentRun_grows [OF fin])
  moreover have "(sn_RunID (ls_session ls), step) \<in> step_keys (aw_tables w1)" using recordAgentStep_stored [OF rec] id by simp
  ultimately show ?thesis
    using grows_trans [OF recordAgentStep_grows [OF rec]] fin r id by (auto simp: grows_def grown_def result_with_def)
qed

lemma agent_step_body_continues:
  assumes "agent_step_body uc generator request step ls w = (Continue ls', w')"
  shows "grows w w' \<and> (sn_RunID (ls_session ls), step) \<in> step_keys (aw_tables w') \<and> fixed_part ls' = fixed_part ls"
  using agent_step_body_cases [OF assms]
  by (auto simp: stopped_def dest!: after_generation_continues)

lemma agent_step_body_answers:
  assumes "agent_step_body uc generator request step ls w = (Return r None, w')"
  shows "\<exists>gen w1. grows w w1 \<and> after_generation uc (gq_RequestID request) step gen ls w1 = (Return r None, w')"
  using agent_step_body_cases [OF assms] by (auto simp: stopped_def) (metis grows_log(4,5) grows_refl)

lemma agent_step_body_grows:
  assumes "agent_step_body uc generator request step ls w = (out, w')"
  shows "grows w w'"
  using assms unfolding agent_step_body_def generate_with_def Let_def after_generation_def
  by (auto split: option.splits if_splits sum.splits prod.splits intro: grows_trans
      dest!: stop_run_grows recordAgentStep_grows recordAgentRun_grows tool_calls_loop_grows)

lemma completed_run_stored:
  assumes "recordAgentRun uc session AgentRunStatusCompleted AgentStopReasonFinalAnswer w = (Inr run, w')"
    "sn_RunID session \<noteq> uuid_nil"
  shows "\<exists>r \<in> set (tt_runs (aw_tables w')). ar_RunID r = sn_RunID session \<and> ar_Status r = AgentRunStatusCompleted \<and>
    ar_StopReason r = AgentStopReasonFinalAnswer"
proof -
  define env where "env = au_db uc (aw_tick w)"
  obtain x t' where x: "run_of_session (au_codec uc) session AgentRunStatusCompleted AgentStopReasonFinalAnswer = Inr x"
    and rec: "RecordAgentRun env (au_session uc) x (aw_tables w) = (Inr run, t')" and t': "aw_tables w' = t'"
    using assms(1) by (auto simp: recordAgentRun_def store_def env_def split: sum.splits prod.splits)
  have xf: "ar_RunID x = sn_RunID session" "ar_Status x = AgentRunStatusCompleted" "ar_StopReason x = AgentStopReasonFinalAnswer"
    using x by (auto simp: run_of_session_def Let_def split: sum.splits if_splits)
  have "updateAgentRun env (au_session uc) x (aw_tables w) = (Inr run, t')"
    using rec xf assms(2) by (simp add: RecordAgentRun_def)
  then obtain args old where args: "agentRunArgs env x = Inr args"
    and old: "find (\<lambda>r. ar_RunID r = ar_RunID x) (tt_runs (aw_tables w)) = Some old"
    and upd: "t' = (aw_tables w)\<lparr>tt_runs := update_where (\<lambda>r. ar_RunID r = ar_RunID x) (set_run_outcome env args) (tt_runs (aw_tables w))\<rparr>"
    using updateAgentRun_ok by blast
  have "set_run_outcome env args old \<in> set (tt_runs t')" using find_SomeD [OF old] upd by (auto simp: set_update_where)
  with find_SomeD [OF old] args_fields [OF args] xf t' show ?thesis
    by (intro bexI [of _ "set_run_outcome env args old"]) (auto simp: set_run_outcome_def)
qed

lemma started_run_id:
  assumes "recordAgentRun uc session AgentRunStatusRunning reason w = (Inr run, w')" "sn_RunID session = uuid_nil"
  shows "ar_RunID run = tn_fresh (au_db uc (aw_tick w))"
proof -
  define env where "env = au_db uc (aw_tick w)"
  obtain x t' where x: "run_of_session (au_codec uc) session AgentRunStatusRunning reason = Inr x"
    and rec: "RecordAgentRun env (au_session uc) x (aw_tables w) = (Inr run, t')"
    using assms(1) by (auto simp: recordAgentRun_def store_def env_def split: sum.splits prod.splits)
  have xf: "ar_RunID x = uuid_nil" "ar_Status x = AgentRunStatusRunning"
    using x assms(2) by (auto simp: run_of_session_def Let_def split: sum.splits if_splits)
  have ins: "agentRunArgs env x = Inr args \<Longrightarrow> ar_RunID (inserted_run env args) = tn_fresh env" for args
    using args_fields(1) [of env x args] xf by (simp add: inserted_run_def)
  have "ar_RunID run = tn_fresh env"
    using rec xf by (auto simp: RecordAgentRun_def Let_def scanReturnedAgentRunIdentity_def ins split: sum.splits option.splits if_splits
        dest!: find_SomeD)
  then show ?thesis by (simp add: env_def)
qed

lemma agent_steps_answers:
  assumes "agent_steps uc generator request left step ls w = ((r, None), w')"
    "\<And>i. 0 \<le> i \<Longrightarrow> i < step \<Longrightarrow> (sn_RunID (ls_session ls), i) \<in> step_keys (aw_tables w)" "0 \<le> step"
  shows "grows w w' \<and> al_RunID r = sn_RunID (ls_session ls) \<and> 0 < al_Steps r \<and> al_Answer r \<noteq> [] \<and>
    (\<forall>i. 0 \<le> i \<longrightarrow> i < al_Steps r \<longrightarrow> (sn_RunID (ls_session ls), i) \<in> step_keys (aw_tables w')) \<and>
    (\<exists>w1 session run. recordAgentRun uc session AgentRunStatusCompleted AgentStopReasonFinalAnswer w1 = (Inr run, w') \<and>
       sn_RunID session = sn_RunID (ls_session ls))"
  using assms
proof (induction left arbitrary: step ls w)
  case 0
  then show ?case by (auto dest: end_run_cases(3))
next
  case (Suc left)
  obtain o1 w1 where one: "agent_step_body uc generator request step ls w = (o1, w1)"
    by (cases "agent_step_body uc generator request step ls w")
  show ?case
  proof (cases o1)
    case (Continue ls1)
    note c = agent_step_body_continues [OF one [unfolded Continue]]
    then have id: "sn_RunID (ls_session ls1) = sn_RunID (ls_session ls)" using fixed_part_eq(2) by blast
    have rest: "agent_steps uc generator request left (step + 1) ls1 w1 = ((r, None), w')" using Suc.prems(1) one Continue by simp
    have "(sn_RunID (ls_session ls1), i) \<in> step_keys (aw_tables w1)" if "0 \<le> i" "i < step + 1" for i
    proof (cases "i = step")
      case False
      with that Suc.prems(2) c id show ?thesis by (auto simp: grows_def grown_def)
    qed (use c id in simp)
    from Suc.IH [OF rest this] Suc.prems(3) id grows_trans c show ?thesis by auto
  next
    case (Return r1 e1)
    with Suc.prems(1) one have "agent_step_body uc generator request step ls w = (Return r None, w')" by auto
    then obtain gen w2 where g: "grows w w2" and run: "after_generation uc (gq_RequestID request) step gen ls w2 = (Return r None, w')"
      using agent_step_body_answers by blast
    note a = after_generation_answers [OF run]
    then have grow: "grows w w'" using grows_trans [OF g] by blast
    have "(sn_RunID (ls_session ls), i) \<in> step_keys (aw_tables w')" if "0 \<le> i" "i < al_Steps r" for i
    proof (cases "i = step")
      case False
      with that Suc.prems(2) a grow show ?thesis by (auto simp: grows_def grown_def)
    qed (use a in simp)
    moreover have "final_answer gen \<noteq> []" by (simp add: final_answer_def)
    ultimately show ?thesis using a grow Suc.prems(3) by auto
  qed
qed

lemma runAgentLoop_answers:
  assumes "runAgentLoop uc request endpoint spec m ds generator w = ((r, None), w')" "\<And>n. tn_fresh (au_db uc n) \<noteq> uuid_nil"
  shows "aw_requests w' = aw_requests w \<and> 0 < al_Steps r \<and> al_Answer r \<noteq> [] \<and>
    (\<forall>i. 0 \<le> i \<longrightarrow> i < al_Steps r \<longrightarrow> (al_RunID r, i) \<in> step_keys (aw_tables w')) \<and>
    (\<exists>run \<in> set (tt_runs (aw_tables w')). ar_RunID run = al_RunID r \<and> ar_Status run = AgentRunStatusCompleted \<and>
       ar_StopReason run = AgentStopReasonFinalAnswer)"
proof -
  obtain session w1 where start: "loop_start uc request spec w session w1"
    and run: "agent_steps uc generator request (nat (bg_MaxSteps (as_Budgets spec))) 0 (start_loop session) w1 = ((r, None), w')"
    using runAgentLoop_cases [OF assms(1)] by auto
  have id: "sn_RunID session \<noteq> uuid_nil"
    using start assms(2) started_run_id by (fastforce simp: loop_start_def)
  have a: "grows w1 w' \<and> al_RunID r = sn_RunID session \<and> 0 < al_Steps r \<and> al_Answer r \<noteq> [] \<and>
    (\<forall>i. 0 \<le> i \<longrightarrow> i < al_Steps r \<longrightarrow> (sn_RunID session, i) \<in> step_keys (aw_tables w')) \<and>
    (\<exists>w1 s run. recordAgentRun uc s AgentRunStatusCompleted AgentStopReasonFinalAnswer w1 = (Inr run, w') \<and>
       sn_RunID s = sn_RunID session)"
    using agent_steps_answers [OF run] by (simp add: start_loop_def)
  then obtain s run w2 where "recordAgentRun uc s AgentRunStatusCompleted AgentStopReasonFinalAnswer w2 = (Inr run, w')"
    "sn_RunID s = sn_RunID session" by blast
  from completed_run_stored [OF this(1)] this(2) id a start show ?thesis
    by (auto simp: loop_start_def same_calls_def grows_def)
qed

section \<open>Requests to an agent\<close>

text \<open>Reading only lets time pass.\<close>

definition only_ticks :: "agent_world \<Rightarrow> agent_world \<Rightarrow> bool" where
  "only_ticks w w' \<longleftrightarrow> (\<exists>n. w' = w\<lparr>aw_tick := n\<rparr>)"

lemma only_ticks_refl [simp]: "only_ticks w w"
  unfolding only_ticks_def by (rule exI [of _ "aw_tick w"]) simp

lemma only_ticks_trans: "only_ticks a b \<Longrightarrow> only_ticks b c \<Longrightarrow> only_ticks a c"
  by (auto simp: only_ticks_def)

lemma only_ticks_tick [simp]: "only_ticks w (tick w')  \<longleftrightarrow> only_ticks w w'"
  by (auto simp: only_ticks_def tick_def) (metis agent_world.surjective agent_world.update_convs(1))

lemma only_ticksD:
  "only_ticks w w' \<Longrightarrow> aw_tables w' = aw_tables w \<and> aw_requests w' = aw_requests w \<and> aw_generated w' = aw_generated w \<and>
     aw_invoked w' = aw_invoked w \<and> aw_events w' = aw_events w \<and> aw_started w' = aw_started w"
  by (auto simp: only_ticks_def)

lemma poll_loaded_ticks: "poll_loaded uc org ps m w = (r, w') \<Longrightarrow> only_ticks w w'"
proof (induction ps arbitrary: m w)
  case (Cons p ps)
  show ?case
  proof (cases p)
    case PollTick
    have "only_ticks (tick w) w' \<Longrightarrow> only_ticks w w'"
      by (rule only_ticks_trans [of _ "tick w"]) simp_all
    with Cons PollTick show ?thesis
      by (auto simp: read_model_def split: sum.splits ModelLoadStatus.splits)
  qed (use Cons.prems in auto)
qed auto

lemma ensureServingModelLoaded_ticks:
  assumes "ensureServingModelLoaded uc org m w = (r, w')"
  shows "only_ticks w w'"
proof -
  have *: "only_ticks (tick w) w' \<Longrightarrow> only_ticks w w'"
    by (rule only_ticks_trans [of _ "tick w"]) simp_all
  show ?thesis using assms
    by (auto simp: ensureServingModelLoaded_def dest!: poll_loaded_ticks * split: if_splits option.splits)
qed

lemma readGenerateDatasets_ticks: "readGenerateDatasets uc org ids w = (r, w') \<Longrightarrow> only_ticks w w'"
proof (induction ids arbitrary: w r)
  case (Cons i ids)
  have *: "only_ticks (tick w) w' \<Longrightarrow> only_ticks w w'"
    by (rule only_ticks_trans [of _ "tick w"]) simp_all
  from Cons show ?case by (auto dest!: * split: sum.splits prod.splits)
qed auto

lemma read_model_ticks: "read_model uc org i w = (r, w') \<Longrightarrow> only_ticks w w'"
  by (auto simp: read_model_def)

lemma resolve_adapter_ticks: "resolve_adapter uc request s i w = (r, w') \<Longrightarrow> only_ticks w w'"
  by (auto simp: resolve_adapter_def split: prod.splits sum.splits if_splits
      dest!: read_model_ticks ensureServingModelLoaded_ticks intro: only_ticks_trans)

lemma resolveAgentServing_ticks: "resolveAgentServing uc request endpoint spec w = (r, w') \<Longrightarrow> only_ticks w w'"
  by (auto simp: resolveAgentServing_def Let_def split: prod.splits sum.splits if_splits
      dest!: read_model_ticks ensureServingModelLoaded_ticks resolve_adapter_ticks intro: only_ticks_trans)

lemma prepare_run_ticks: "prepare_run uc request endpoint hash w = (r, w') \<Longrightarrow> only_ticks w w'"
proof -
  have *: "only_ticks (tick w) w' \<Longrightarrow> only_ticks w w'"
    by (rule only_ticks_trans [of _ "tick w"]) simp_all
  assume "prepare_run uc request endpoint hash w = (r, w')"
  then show ?thesis
    by (auto simp: prepare_run_def read_spec_def ready_datasets_def split: prod.splits sum.splits if_splits
      dest!: resolveAgentServing_ticks readGenerateDatasets_ticks intro: only_ticks_trans intro!: *)
qed

lemma poll_loaded_loaded: "poll_loaded uc org ps m w = (Inr m', w') \<Longrightarrow> im_ServingLoadStatus m' = ModelLoadStatusLoaded"
proof (induction ps arbitrary: m w)
  case (Cons p ps)
  then show ?case by (cases p) (auto split: sum.splits prod.splits ModelLoadStatus.splits)
qed simp

lemma ensureServingModelLoaded_loaded:
  "ensureServingModelLoaded uc org m w = (Inr m', w') \<Longrightarrow> im_ServingLoadStatus m' = ModelLoadStatusLoaded"
  by (auto simp: ensureServingModelLoaded_def dest: poll_loaded_loaded split: if_splits option.splits)

lemma resolve_adapter_ok:
  assumes "resolve_adapter uc q s i w = (Inr (s', q'), w')"
  shows "\<exists>a. sv_AdapterModel s' = Some a \<and> im_ServingLoadStatus a = ModelLoadStatusLoaded \<and>
    sv_ServingModelID s' = i \<and> sv_LoraName s' = TrimSpace (im_ServingModel a) \<and> sv_LoraName s' \<noteq> [] \<and>
    gq_LoraName q' = sv_LoraName s' \<and> gq_AdapterURI q' = sv_AdapterURI s' \<and>
    sv_BaseModel s' = sv_BaseModel s \<and> sv_EffectiveBaseID s' = sv_EffectiveBaseID s \<and>
    gq_RequestID q' = gq_RequestID q \<and> gq_AgentRunID q' = gq_AgentRunID q \<and> gq_OrgID q' = gq_OrgID q \<and>
    gq_ModelID q' = gq_ModelID q \<and> gq_ServingModelID q' = gq_ServingModelID q"
  using assms
  by (auto simp: resolve_adapter_def split: prod.splits sum.splits if_splits dest!: ensureServingModelLoaded_loaded)

lemma resolveAgentServing_ok:
  assumes "resolveAgentServing uc q endpoint spec w = (Inr (s, q'), w')"
  shows "im_ServingLoadStatus (sv_BaseModel s) = ModelLoadStatusLoaded"
    "sv_EffectiveBaseID s = TrimSpace (im_EffectiveBaseID (sv_BaseModel s))" "sv_EffectiveBaseID s \<noteq> []"
    "gq_ModelID q' = en_ModelID endpoint" "en_ModelID endpoint \<noteq> uuid_nil"
    "as_ModelID spec \<in> {uuid_nil, en_ModelID endpoint}" "sv_ServingModelID s = chosen_adapter q endpoint"
    "gq_ServingModelID q' = chosen_adapter q endpoint"
    "if chosen_adapter q endpoint = uuid_nil then sv_AdapterModel s = None \<and> sv_LoraName s = []
     else \<exists>a. sv_AdapterModel s = Some a \<and> im_ServingLoadStatus a = ModelLoadStatusLoaded \<and>
       sv_LoraName s = TrimSpace (im_ServingModel a) \<and> sv_LoraName s \<noteq> [] \<and> gq_LoraName q' = sv_LoraName s"
    "gq_RequestID q' = gq_RequestID q" "gq_AgentRunID q' = gq_AgentRunID q" "gq_OrgID q' = gq_OrgID q"
  using assms
  by (auto simp: resolveAgentServing_def Let_def base_selection_def split: prod.splits sum.splits if_splits
      dest!: ensureServingModelLoaded_loaded resolve_adapter_ok)

lemma resolved_request:
  assumes "resolveAgentServing uc q endpoint spec w = (Inr (s, q'), w')"
  shows "gq_RequestID q' = gq_RequestID q \<and> gq_AgentRunID q' = gq_AgentRunID q \<and> gq_OrgID q' = gq_OrgID q"
  using resolveAgentServing_ok [OF assms] by blast

lemma prepare_run_ok:
  assumes "prepare_run uc q endpoint hash w = (Inr (spec, s, q', ds), w')"
  shows "gq_RequestID q' = gq_RequestID q \<and> gq_AgentRunID q' = gq_AgentRunID q \<and> gq_OrgID q' = gq_OrgID q \<and>
    ds \<noteq> [] \<and> (\<forall>d \<in> set ds. IsRAGReady d \<and> HasSupportedEmbeddingProvider d)"
  using assms
  by (auto simp: prepare_run_def ready_datasets_def filterReadyRAGDatasets_def split: prod.splits sum.splits if_splits
      dest!: resolved_request)



section \<open>Tools without parameters\<close>

lemma recordAgentRun_invocations:
  "recordAgentRun uc session status reason w = (r, w') \<Longrightarrow> tt_invocations (aw_tables w') = tt_invocations (aw_tables w)"
  by (auto simp: recordAgentRun_def store_def updateAgentRun_def dest!: RecordAgentRun_cases split: sum.splits prod.splits
      option.splits if_splits)

lemma stop_run_invocations:
  "stop_run uc q ls reported reason steps e w = (out, w') \<Longrightarrow> tt_invocations (aw_tables w') = tt_invocations (aw_tables w)"
  by (auto simp: stop_run_def end_run_def failAgentRun_def dest!: recordAgentRun_invocations split: prod.splits sum.splits)

lemma empty_arguments_refused:
  assumes "tn_jsonb env (TrimSpace (ti_Arguments v)) = Some (JsonObject, ''{}'')"
  shows "\<exists>e. RecordToolInvocation env s v t = (Inl e, t)"
proof -
  have "\<not> invocation_checks env args" if "agentToolInvocationArgs env v = Inr args" for args
  proof -
    have "ti_Arguments args = TrimSpace (ti_Arguments v)"
      using that by (auto simp: agentToolInvocationArgs_def requiredJSONRawMessage_def Let_def split: sum.splits if_splits)
    with assms show ?thesis by (simp add: invocation_checks_def payload_ok_def)
  qed
  then show ?thesis by (auto simp: RecordToolInvocation_def Let_def split: sum.splits option.splits)
qed

text \<open>C34. A tool call whose arguments are the empty object, which is how a model calls a tool without
  parameters, ends the run: the tool has run, but the table refuses its record, and the caller
  gets an error without a stop reason.\<close>

theorem empty_arguments_fail_run:
  assumes "\<And>n. tn_jsonb (au_db uc n) (TrimSpace (tc_Arguments call)) = Some (JsonObject, ''{}'')"
    "ls_repeated (note_signature (agentToolCallSignature call) ls) < 2"
    "tool_call_step uc requestID step stepID index call ls w = (out, w')"
  shows "(\<exists>r e. out = Return r (Some e) \<and> al_StopReason r = AgentStopReasonUnknown) \<and>
    (\<exists>ctxt. aw_invoked w' = aw_invoked w @ [(ctxt, call)]) \<and>
    tt_invocations (aw_tables w') = tt_invocations (aw_tables w)"
proof -
  have refused: "\<exists>e. fst (recordAgentToolInvocation uc session st key call result x) = Some e \<and>
      aw_tables (snd (recordAgentToolInvocation uc session st key call result x)) = aw_tables x"
    for session st key result x
  proof (cases "agentToolResultJSON (au_codec uc) result")
    case (Inr json)
    define v where "v = \<lparr>ti_InvocationID = (if tr_InvocationID result = uuid_nil
        then deterministicAgentToolInvocationID (au_codec uc) (sn_RunID session) st key else tr_InvocationID result),
      ti_StepID = st, ti_RunID = sn_RunID session, ti_OrgID = sn_OrgID session, ti_ToolName = tc_Name call,
      ti_ToolImplVersion = tr_ToolImplVersion result, ti_Arguments = tc_Arguments call, ti_Result = json,
      ti_ErrorType = tr_ErrorType result, ti_LatencyMs = 0, ti_CreatedAt = 0\<rparr>"
    have "ti_Arguments v = tc_Arguments call" by (simp add: v_def)
    with empty_arguments_refused assms(1) obtain e where
      "RecordToolInvocation (au_db uc (aw_tick x)) (au_session uc) v (aw_tables x) = (Inl e, aw_tables x)" by metis
    with Inr show ?thesis by (simp add: recordAgentToolInvocation_def store_def v_def [symmetric])
  qed (simp add: recordAgentToolInvocation_def)
  have stop: "\<exists>r e. out = Return r (Some e) \<and> al_StopReason r = AgentStopReasonUnknown \<and>
      tt_invocations (aw_tables w') = tt_invocations (aw_tables x) \<and> same_calls x w'"
    if "stop_run uc uuid_nil l AgentStopReasonUnknown AgentStopReasonRuntimeError (step + 1) e x = (out, w')" for l e x
    using stop_run_cases [OF that] stop_run_invocations [OF that] by (auto simp: result_with_def)
  define ctxt where "ctxt = appToolInvocationContext (au_codec uc)
    (ls_session (note_signature (agentToolCallSignature call) ls)) stepID (agentToolCallKey call index)"
  define w1 where "w1 = w\<lparr>aw_tick := Suc (aw_tick w), aw_invoked := aw_invoked w @ [(ctxt, call)]\<rparr>"
  obtain l res e w2 where rec: "recordAgentToolInvocation uc (ls_session l) stepID (agentToolCallKey call index) call res w1 = (Some e, w2)"
    and run: "stop_run uc uuid_nil l AgentStopReasonUnknown AgentStopReasonRuntimeError (step + 1) e w2 = (out, w')"
    using assms(2,3) refused [of _ stepID "agentToolCallKey call index" _ w1]
    unfolding tool_call_step_def Let_def invoke_tool_def ctxt_def [symmetric] w1_def [symmetric]
    by (auto split: prod.splits option.splits) (metis fst_conv option.distinct(1))+
  have "aw_tables w2 = aw_tables w1" using refused rec by (metis snd_conv)
  moreover have "same_calls w1 w2" using recordAgentToolInvocation_calls [OF rec] .
  ultimately show ?thesis using stop [OF run] by (auto simp: same_calls_def w1_def)
qed

end
