(* ===== verification/AgentRefinement.thy ===== *)
theory AgentRefinement
  imports AgentWorkflow AgentRunProperties
begin

text \<open>
  The rule that decides whether an agent may go on after a tool call, stated once, and the
  proof that both implementations of the agent, the loop inside the service and the workflow,
  follow it; and the bound on the calls to the model that the workflow keeps even when
  results of activities are lost.
\<close>

section \<open>The rule\<close>

text \<open>
  What has to be remembered between tool calls: the last signature and how often it was
  repeated, how often each signature failed for a passing reason, and the tokens used.
\<close>

record guard_state =
  gd_last :: string
  gd_repeated :: nat
  gd_transient :: "string \<Rightarrow> nat"
  gd_tokens :: int

datatype verdict = Allowed guard_state | Halted AgentStopReason

definition guard_call :: "string \<Rightarrow> guard_state \<Rightarrow> verdict" where
  "guard_call signature g = (if signature \<noteq> gd_last g then Allowed (g\<lparr>gd_last := signature, gd_repeated := 0\<rparr>)
     else if gd_repeated g = 0 then Allowed (g\<lparr>gd_repeated := 1\<rparr>) else Halted AgentStopReasonLoopDetected)"

definition guard_budget :: "int \<Rightarrow> guard_state \<Rightarrow> verdict" where
  "guard_budget budget g = (if 0 < budget \<and> budget \<le> gd_tokens g then Halted AgentStopReasonBudget else Allowed g)"

fun guard_answer :: "int \<Rightarrow> string \<Rightarrow> ToolErrorType \<Rightarrow> guard_state \<Rightarrow> verdict" where
  "guard_answer budget signature ToolErrorTypeUnknown g = guard_budget budget g"
| "guard_answer budget signature ToolErrorTypeTransient g = (if gd_transient g signature = 0
     then guard_budget budget (g\<lparr>gd_transient := (gd_transient g)(signature := 1)\<rparr>) else Halted AgentStopReasonToolError)"
| "guard_answer budget signature _ g = Halted AgentStopReasonToolError"

definition guard_step :: "int \<Rightarrow> string \<Rightarrow> ToolErrorType \<times> int \<Rightarrow> guard_state \<Rightarrow> verdict" where
  "guard_step budget signature answer g = (case guard_call signature g of Halted r \<Rightarrow> Halted r
     | Allowed g1 \<Rightarrow> guard_answer budget signature (fst answer) (g1\<lparr>gd_tokens := wrap64 (gd_tokens g1 + snd answer)\<rparr>))"

fun guard_run :: "int \<Rightarrow> (string \<times> ToolErrorType \<times> int) list \<Rightarrow> guard_state \<Rightarrow> verdict" where
  "guard_run budget [] g = Allowed g"
| "guard_run budget ((signature, answer) # rest) g = (case guard_step budget signature answer g of
     Halted r \<Rightarrow> Halted r | Allowed g' \<Rightarrow> guard_run budget rest g')"

text \<open>Some answers of the tools lead to the verdict; those after a halt do not matter.\<close>

definition guarded :: "int \<Rightarrow> string list \<Rightarrow> guard_state \<Rightarrow> verdict \<Rightarrow> bool" where
  "guarded budget sigs g v \<longleftrightarrow>
     (\<exists>answers. length answers = length sigs \<and> guard_run budget (zip sigs answers) g = v)"

lemma guarded_Nil: "guarded budget [] g (Allowed g)"
  by (simp add: guarded_def)

lemma guarded_next:
  "guard_step budget s a g = Allowed g' \<Longrightarrow> guarded budget ss g' v \<Longrightarrow> guarded budget (s # ss) g v"
  unfolding guarded_def by (elim exE conjE, rule_tac x = "a # answers" in exI) simp

lemma guarded_halt: "guard_step budget s a g = Halted r \<Longrightarrow> guarded budget (s # ss) g (Halted r)"
  unfolding guarded_def by (rule exI [of _ "replicate (Suc (length ss)) a"]) simp

section \<open>The loop inside the service\<close>

definition loop_guard :: "loop_state \<Rightarrow> guard_state" where
  "loop_guard ls = \<lparr>gd_last = ls_lastSignature ls, gd_repeated = ls_repeated ls, gd_transient = ls_transient ls,
     gd_tokens = sn_TotalTokens (ls_session ls)\<rparr>"

definition loop_budget :: "loop_state \<Rightarrow> int" where
  "loop_budget ls = bg_Token (as_Budgets (sn_Spec (ls_session ls)))"

text \<open>The remembered repetitions of a run stay below two.\<close>

definition at_most_one_repeat :: "guard_state \<Rightarrow> bool" where
  "at_most_one_repeat g \<longleftrightarrow> gd_repeated g \<le> 1"

text \<open>How a run ends; the loop reports a tool that ran out of time as a deadline.\<close>

definition ends_with :: "loop_outcome \<Rightarrow> AgentStopReason \<Rightarrow> bool" where
  "ends_with out reason \<longleftrightarrow> (\<exists>res e. out = Return res (Some e) \<and> al_StopReason res = reason)"

definition halts_with :: "loop_outcome \<Rightarrow> AgentStopReason \<Rightarrow> bool" where
  "halts_with out reason \<longleftrightarrow> ends_with out reason \<or>
     (reason = AgentStopReasonToolError \<and> ends_with out AgentStopReasonDeadline)"

lemma stop_run_ends:
  "stop_run uc q ls reported reason steps e w = (out, w') \<Longrightarrow> ends_with out reported"
  by (drule stop_run_cases) (auto simp: ends_with_def result_with_def)

lemma ends_with_Continue [simp]: "\<not> ends_with (Continue ls) r"
  by (simp add: ends_with_def)

lemma loop_guard_call:
  assumes "at_most_one_repeat (loop_guard ls)"
  shows "guard_call signature (loop_guard ls) = (if ls_repeated (note_signature signature ls) \<ge> 2
     then Halted AgentStopReasonLoopDetected else Allowed (loop_guard (note_signature signature ls)))"
  using assms by (auto simp: guard_call_def loop_guard_def note_signature_def at_most_one_repeat_def)

lemma after_tool_guard:
  assumes "after_tool uc q step call signature r err ls w = (out, w')"
    "err \<noteq> None \<longrightarrow> agentToolResultErrorType r \<noteq> ToolErrorTypeUnknown"
  shows "case guard_answer (loop_budget ls) signature (agentToolResultErrorType r) (loop_guard ls) of
      Allowed g' \<Rightarrow> (\<exists>ls'. out = Continue ls' \<and> loop_guard ls' = g' \<and> loop_budget ls' = loop_budget ls)
    | Halted reason \<Rightarrow> halts_with out reason"
proof -
  have tool: "halts_with out AgentStopReasonToolError"
    if "stop_run uc q l (agentToolStopReason e) (agentToolStopReason e) (step + 1) e w = (out, w')" for l e
    using stop_run_ends [OF that] by (auto simp: halts_with_def agentToolStopReason_def split: if_splits)
  have proceed: "case guard_budget (loop_budget l) (loop_guard l) of
      Allowed g' \<Rightarrow> (\<exists>ls'. out = Continue ls' \<and> loop_guard ls' = g' \<and> loop_budget ls' = loop_budget l)
    | Halted reason \<Rightarrow> halts_with out reason"
    if "(if agentTokenBudgetExceeded (ls_session l)
         then stop_run uc q l AgentStopReasonBudget AgentStopReasonBudget (step + 1) e w
         else (Continue (add_message m l), w)) = (out, w')" for l e m
    using that stop_run_ends [of uc q l AgentStopReasonBudget AgentStopReasonBudget "step + 1" e w out w']
    by (auto simp: guard_budget_def agentTokenBudgetExceeded_def loop_guard_def loop_budget_def add_message_def halts_with_def
        split: if_splits)
  show ?thesis
  proof (cases "agentToolResultErrorType r")
    case ToolErrorTypeUnknown
    with assms have "err = None" by auto
    with assms(1) ToolErrorTypeUnknown show ?thesis
      unfolding after_tool_def Let_def by (simp add: proceed)
  next
    case ToolErrorTypeTransient
    define l where "l = ls\<lparr>ls_transient := (ls_transient ls)(signature := Suc (ls_transient ls signature))\<rparr>"
    have l: "loop_budget l = loop_budget ls"
      "ls_transient ls signature = 0 \<Longrightarrow> loop_guard l = (loop_guard ls)\<lparr>gd_transient := (gd_transient (loop_guard ls))(signature := 1)\<rparr>"
      by (simp_all add: l_def loop_budget_def loop_guard_def)
    note run = assms(1) [unfolded after_tool_def Let_def ToolErrorTypeTransient ToolErrorType.case l_def [symmetric]]
    show ?thesis
    proof (cases "ls_transient ls signature = 0")
      case True
      have "gd_transient (loop_guard ls) signature = 0" using True by (simp add: loop_guard_def)
      then have "guard_answer (loop_budget ls) signature ToolErrorTypeTransient (loop_guard ls) =
          guard_budget (loop_budget l) (loop_guard l)" using l True by simp
      moreover have "(if agentTokenBudgetExceeded (ls_session l)
         then stop_run uc q l AgentStopReasonBudget AgentStopReasonBudget (step + 1)
           (Extend ErrGenerationFailed ''agent reached its token budget before producing a final answer'') w
         else (Continue (add_message (tool_message call r) l), w)) = (out, w')"
        using run True by (simp only: less_irrefl if_False One_nat_def)
      from proceed [OF this] have "case guard_budget (loop_budget l) (loop_guard l) of
          Allowed g' \<Rightarrow> (\<exists>ls'. out = Continue ls' \<and> loop_guard ls' = g' \<and> loop_budget ls' = loop_budget ls)
        | Halted reason \<Rightarrow> halts_with out reason" by (simp only: l(1))
      ultimately show ?thesis using ToolErrorTypeTransient by (simp only:)
    next
      case False
      with run have "halts_with out AgentStopReasonToolError" by (intro tool [of l]) (simp split: option.splits)
      with False ToolErrorTypeTransient show ?thesis by (simp add: loop_guard_def)
    qed
  next
    case ToolErrorTypePermanent
    with assms(1) tool show ?thesis unfolding after_tool_def Let_def by simp
  next
    case ToolErrorTypePolicyDenied
    with assms(1) tool show ?thesis unfolding after_tool_def Let_def by simp
  qed
qed

lemma known_class: "t \<noteq> ToolErrorTypeUnknown \<Longrightarrow> agentToolFailureClass b t = t"
  by (cases t) simp_all

lemma classified_error_known:
  "err \<noteq> None \<longrightarrow> agentToolResultErrorType (classified_result call r err) \<noteq> ToolErrorTypeUnknown"
proof (cases err)
  case (Some e)
  have "agentToolErrorType (Some e) \<noteq> ToolErrorTypeUnknown" by (simp add: agentToolErrorType_def)
  then have "tr_ErrorType (classified_result call r (Some e)) \<noteq> ToolErrorTypeUnknown"
    by (simp add: classified_result_def Let_def empty_tool_result_def)
  with Some show ?thesis by (simp add: agentToolResultErrorType_def known_class)
qed simp

lemma tool_call_step_guard:
  assumes "tool_call_step uc q step st index call ls w = (out, w')" "at_most_one_repeat (loop_guard ls)"
  shows "\<exists>a. ends_with out AgentStopReasonUnknown \<or>
    (case guard_step (loop_budget ls) (agentToolCallSignature call) a (loop_guard ls) of
      Allowed g' \<Rightarrow> \<exists>ls'. out = Continue ls' \<and> loop_guard ls' = g' \<and> loop_budget ls' = loop_budget ls
    | Halted reason \<Rightarrow> halts_with out reason)"
proof -
  define sg where "sg = agentToolCallSignature call"
  define ls1 where "ls1 = note_signature sg ls"
  note call = loop_guard_call [OF assms(2), of sg, folded ls1_def]
  show ?thesis
  proof (cases "2 \<le> ls_repeated ls1")
    case True
    then have "stop_run uc q ls1 AgentStopReasonLoopDetected AgentStopReasonLoopDetected (step + 1)
        (Extend ErrGenerationFailed ''agent repeated the same tool call'') w = (out, w')"
      using assms(1) by (simp add: tool_call_step_def Let_def ls1_def sg_def)
    from stop_run_ends [OF this] True call show ?thesis by (simp add: guard_step_def sg_def halts_with_def)
  next
    case False
    define ctxt where "ctxt = appToolInvocationContext (au_codec uc) (ls_session ls1) st (agentToolCallKey call index)"
    obtain r err where ans: "au_invoke uc (aw_tick w) ctxt call = (r, err)" by (cases "au_invoke uc (aw_tick w) ctxt call")
    define res where "res = classified_result call r err"
    define ls2 where "ls2 = add_tokens (tr_TokenEstimate res) (ls1\<lparr>ls_contexts := ls_contexts ls1 @ tr_Contexts res\<rparr>)"
    define w1 where "w1 = w\<lparr>aw_tick := Suc (aw_tick w), aw_invoked := aw_invoked w @ [(ctxt, call)]\<rparr>"
    obtain rec w2 where rec: "recordAgentToolInvocation uc (ls_session ls2) st (agentToolCallKey call index) call res w1 = (rec, w2)"
      by (cases "recordAgentToolInvocation uc (ls_session ls2) st (agentToolCallKey call index) call res w1")
    have run: "(out, w') = (case rec of
        Some e \<Rightarrow> stop_run uc uuid_nil ls2 AgentStopReasonUnknown AgentStopReasonRuntimeError (step + 1) e w2
      | None \<Rightarrow> after_tool uc q step call sg res err ls2 w2)"
      using assms(1) False rec ans unfolding res_def ls2_def
      by (cases rec) (simp_all add: tool_call_step_def Let_def sg_def [symmetric] ls1_def [symmetric] invoke_tool_def
          ctxt_def [symmetric] w1_def [symmetric])
    have guard2: "loop_guard ls2 = (loop_guard ls1)\<lparr>gd_tokens := wrap64 (gd_tokens (loop_guard ls1) + tr_TokenEstimate res)\<rparr>"
      and budget: "loop_budget ls2 = loop_budget ls"
      by (simp_all add: ls2_def ls1_def loop_guard_def loop_budget_def add_tokens_def note_signature_def)
    define a where "a = (agentToolResultErrorType res, tr_TokenEstimate res)"
    have step: "guard_step (loop_budget ls) sg a (loop_guard ls) =
        guard_answer (loop_budget ls2) sg (agentToolResultErrorType res) (loop_guard ls2)"
      using call False by (simp add: guard_step_def a_def guard2 budget)
    show ?thesis
    proof (cases rec)
      case (Some e)
      with run have "stop_run uc uuid_nil ls2 AgentStopReasonUnknown AgentStopReasonRuntimeError (step + 1) e w2 = (out, w')" by simp
      from stop_run_ends [OF this] show ?thesis by simp
    next
      case None
      with run have after: "after_tool uc q step call sg res err ls2 w2 = (out, w')" by simp
      have "err \<noteq> None \<longrightarrow> agentToolResultErrorType res \<noteq> ToolErrorTypeUnknown" using classified_error_known by (simp add: res_def)
      from after_tool_guard [OF after this, unfolded budget, folded step [unfolded budget]] show ?thesis
        unfolding sg_def by blast
    qed
  qed
qed

lemma guard_step_repeats:
  assumes "guard_step budget s a g = Allowed g'"
  shows "at_most_one_repeat g'"
proof -
  obtain g1 where g1: "guard_call s g = Allowed g1" using assms by (auto simp: guard_step_def split: verdict.splits)
  then have "gd_repeated g1 \<le> 1" by (auto simp: guard_call_def split: if_splits)
  moreover have "guard_answer budget s c h = Allowed g' \<Longrightarrow> gd_repeated g' = gd_repeated h" for c h
    by (cases c) (auto simp: guard_budget_def split: if_splits)
  ultimately show ?thesis using assms g1 by (auto simp: guard_step_def at_most_one_repeat_def)
qed


section \<open>The workflow\<close>

definition workflow_guard :: "workflow_state \<Rightarrow> guard_state" where
  "workflow_guard st = \<lparr>gd_last = ws_LastToolCallSignature st, gd_repeated = ws_RepeatedToolCallCount st,
     gd_transient = ws_TransientToolFailureCount st, gd_tokens = ws_TotalTokens st\<rparr>"

definition workflow_budget :: "workflow_state \<Rightarrow> int" where
  "workflow_budget st = bg_Token (ws_Budgets st)"

text \<open>The error a workflow ends with: an activity's own, or the text of the halt.\<close>

definition activity_failure :: "agent_usecase \<Rightarrow> go_error \<Rightarrow> bool" where
  "activity_failure uc e \<longleftrightarrow> (\<exists>x. e = au_activity_error uc x \<or> e = errorf (er_Text (au_activity_error uc x)))"

fun halt_texts :: "AgentStopReason \<Rightarrow> string list" where
  "halt_texts AgentStopReasonLoopDetected = [''agent repeated the same tool call'']"
| "halt_texts AgentStopReasonBudget = [''agent reached its token budget before producing a final answer'']"
| "halt_texts AgentStopReasonToolError =
     [''agent transient tool failure retry limit exceeded'', ''agent tool call failed'']"
| "halt_texts _ = []"

definition workflow_ends :: "agent_usecase \<Rightarrow> workflow_outcome \<Rightarrow> AgentStopReason \<Rightarrow> bool" where
  "workflow_ends uc out reason \<longleftrightarrow> (\<exists>e. out = Ended (Some e) \<and>
     (activity_failure uc e \<or> (\<exists>text \<in> set (halt_texts reason). e = errorf text)))"

lemma run_activity_error:
  "run_activity uc n act w = (Inl e, w') \<Longrightarrow> \<exists>x. e = au_activity_error uc x"
  by (induction n arbitrary: w) (auto split: attempt.splits sum.splits prod.splits if_splits)

lemma agentWorkflowFail_error:
  assumes "agentWorkflowFail uc st reason text w = (r, w')"
  shows "\<exists>e. r = Some e \<and> (activity_failure uc e \<or> e = errorf text)"
  using assms by (auto simp: agentWorkflowFail_def activity_failure_def dest: run_activity_error split: prod.splits sum.splits)

lemma fail_activity_error:
  assumes "fail_activity uc st reason (au_activity_error uc x) w = (r, w')"
  shows "\<exists>e. r = Some e \<and> activity_failure uc e"
  using assms agentWorkflowFail_error [of uc st reason "er_Text (au_activity_error uc x)" w]
  by (auto simp: fail_activity_def activity_failure_def split: prod.splits option.splits)

lemma halt_ends:
  assumes "ended (agentWorkflowFail uc st r text w) = (out, w')" "text \<in> set (halt_texts reason)"
  shows "workflow_ends uc out reason"
proof -
  obtain x w1 where x: "agentWorkflowFail uc st r text w = (x, w1)" by (cases "agentWorkflowFail uc st r text w")
  with assms show ?thesis using agentWorkflowFail_error [OF x] by (auto simp: ended_def workflow_ends_def)
qed

lemma workflow_guard_call:
  assumes "at_most_one_repeat (workflow_guard st)"
  shows "guard_call signature (workflow_guard st) = (if ws_RepeatedToolCallCount (workflow_note_signature signature st) \<ge> 2
     then Halted AgentStopReasonLoopDetected else Allowed (workflow_guard (workflow_note_signature signature st)))"
  using assms by (auto simp: guard_call_def workflow_guard_def workflow_note_signature_def at_most_one_repeat_def)

lemma workflow_after_tool_guard:
  assumes "workflow_after_tool uc signature out st w = (res, w')"
  shows "case guard_answer (workflow_budget st) signature
        (agentToolFailureClass (to_IsError out) (agentWorkflowToolErrorType (to_ErrorType out))) (workflow_guard st) of
      Allowed g' \<Rightarrow> (\<exists>st'. res = Going st' \<and> workflow_guard st' = g' \<and> workflow_budget st' = workflow_budget st)
    | Halted reason \<Rightarrow> workflow_ends uc res reason"
proof -
  let ?kind_of = "agentToolFailureClass (to_IsError out) (agentWorkflowToolErrorType (to_ErrorType out))"
  have proceed: "case guard_budget (workflow_budget l) (workflow_guard l) of
      Allowed g' \<Rightarrow> (\<exists>st'. res = Going st' \<and> workflow_guard st' = g' \<and> workflow_budget st' = workflow_budget l)
    | Halted reason \<Rightarrow> workflow_ends uc res reason"
    if "(if agentWorkflowTokenBudgetExceeded l then ended (agentWorkflowFail uc l AgentStopReasonBudget
           ''agent reached its token budget before producing a final answer'' w) else (Going l, w)) = (res, w')" for l
    using that halt_ends [of uc l AgentStopReasonBudget "''agent reached its token budget before producing a final answer''" w res w'
      AgentStopReasonBudget]
    by (auto simp: guard_budget_def agentWorkflowTokenBudgetExceeded_def workflow_guard_def workflow_budget_def split: if_splits)
  show ?thesis
  proof (cases ?kind_of)
    case ToolErrorTypeUnknown
    with assms show ?thesis unfolding workflow_after_tool_def Let_def by (simp add: proceed)
  next
    case ToolErrorTypeTransient
    define l where "l = st\<lparr>ws_TransientToolFailureCount := (ws_TransientToolFailureCount st)
        (signature := Suc (ws_TransientToolFailureCount st signature))\<rparr>"
    have l: "workflow_budget l = workflow_budget st"
      "ws_TransientToolFailureCount st signature = 0 \<Longrightarrow>
       workflow_guard l = (workflow_guard st)\<lparr>gd_transient := (gd_transient (workflow_guard st))(signature := 1)\<rparr>"
      by (simp_all add: l_def workflow_budget_def workflow_guard_def)
    note run = assms [unfolded workflow_after_tool_def Let_def ToolErrorTypeTransient ToolErrorType.case l_def [symmetric]]
    show ?thesis
    proof (cases "ws_TransientToolFailureCount st signature = 0")
      case True
      have "gd_transient (workflow_guard st) signature = 0" using True by (simp add: workflow_guard_def)
      then have "guard_answer (workflow_budget st) signature ToolErrorTypeTransient (workflow_guard st) =
          guard_budget (workflow_budget l) (workflow_guard l)" using l True by simp
      moreover have "(if agentWorkflowTokenBudgetExceeded l then ended (agentWorkflowFail uc l AgentStopReasonBudget
           ''agent reached its token budget before producing a final answer'' w) else (Going l, w)) = (res, w')"
        using run True by (simp only: less_irrefl if_False One_nat_def)
      from proceed [OF this] have "case guard_budget (workflow_budget l) (workflow_guard l) of
          Allowed g' \<Rightarrow> (\<exists>st'. res = Going st' \<and> workflow_guard st' = g' \<and> workflow_budget st' = workflow_budget st)
        | Halted reason \<Rightarrow> workflow_ends uc res reason" by (simp only: l(1))
      ultimately show ?thesis using ToolErrorTypeTransient by (simp only:)
    next
      case False
      with run have "ended (agentWorkflowFail uc l AgentStopReasonToolError
          ''agent transient tool failure retry limit exceeded'' w) = (res, w')" by simp
      from halt_ends [OF this, of AgentStopReasonToolError] False ToolErrorTypeTransient show ?thesis
        by (simp add: workflow_guard_def)
    qed
  next
    case ToolErrorTypePermanent
    with assms halt_ends [of uc st AgentStopReasonToolError "''agent tool call failed''" w res w' AgentStopReasonToolError]
    show ?thesis unfolding workflow_after_tool_def Let_def by simp
  next
    case ToolErrorTypePolicyDenied
    with assms halt_ends [of uc st AgentStopReasonToolError "''agent tool call failed''" w res w' AgentStopReasonToolError]
    show ?thesis unfolding workflow_after_tool_def Let_def by simp
  qed
qed

lemma workflow_tool_call_guard:
  assumes "workflow_tool_call uc st index call ws w = (out, w')" "at_most_one_repeat (workflow_guard ws)"
  shows "\<exists>a. (\<exists>e. out = Ended (Some e) \<and> activity_failure uc e) \<or>
    (case guard_step (workflow_budget ws) (agentToolCallSignature call) a (workflow_guard ws) of
      Allowed g' \<Rightarrow> \<exists>ws'. out = Going ws' \<and> workflow_guard ws' = g' \<and> workflow_budget ws' = workflow_budget ws
    | Halted reason \<Rightarrow> workflow_ends uc out reason)"
proof -
  define sg where "sg = agentToolCallSignature call"
  have sg: "agentWorkflowToolCallSignature call = sg" by (simp add: sg_def agentToolCallSignature_def agentWorkflowToolCallSignature_def)
  define ws1 where "ws1 = workflow_note_signature sg ws"
  note call = workflow_guard_call [OF assms(2), of sg, folded ws1_def]
  note run = assms(1) [unfolded workflow_tool_call_def Let_def sg ws1_def [symmetric]]
  show ?thesis
  proof (cases "2 \<le> ws_RepeatedToolCallCount ws1")
    case True
    with run have "ended (agentWorkflowFail uc ws1 AgentStopReasonLoopDetected ''agent repeated the same tool call'' w) = (out, w')" by simp
    from halt_ends [OF this, of AgentStopReasonLoopDetected] True call show ?thesis by (simp add: guard_step_def sg_def)
  next
    case False
    obtain r w1 where act: "run_activity uc effect_attempts (InvokeAgentToolActivity uc ws1 st call (agentToolCallKey call index)) w = (r, w1)"
      by (cases "run_activity uc effect_attempts (InvokeAgentToolActivity uc ws1 st call (agentToolCallKey call index)) w")
    show ?thesis
    proof (cases r)
      case (Inl e)
      then obtain x where e: "e = au_activity_error uc x" using run_activity_error act by blast
      obtain y w2 where y: "fail_activity uc ws1 AgentStopReasonToolError e w1 = (y, w2)"
        by (cases "fail_activity uc ws1 AgentStopReasonToolError e w1")
      with run False act Inl have "out = Ended y" by (simp add: ended_def)
      with fail_activity_error [OF y [unfolded e]] show ?thesis by auto
    next
      case (Inr answer)
      define ws2 where "ws2 = workflow_add_tokens (to_TokenEstimate answer) ws1"
      define a where "a = (agentToolFailureClass (to_IsError answer) (agentWorkflowToolErrorType (to_ErrorType answer)), to_TokenEstimate answer)"
      have guard2: "workflow_guard ws2 = (workflow_guard ws1)\<lparr>gd_tokens := wrap64 (gd_tokens (workflow_guard ws1) + snd a)\<rparr>"
        and budget: "workflow_budget ws2 = workflow_budget ws"
        by (simp_all add: ws2_def ws1_def a_def workflow_guard_def workflow_budget_def workflow_add_tokens_def workflow_note_signature_def)
      have step: "guard_step (workflow_budget ws) sg a (workflow_guard ws) =
          guard_answer (workflow_budget ws) sg (fst a) (workflow_guard ws2)"
        using call False by (simp add: guard_step_def guard2)
      have "workflow_after_tool uc sg answer ws2 w1 = (out, w')" using run False act Inr by (simp add: ws2_def)
      from workflow_after_tool_guard [OF this, unfolded budget] have
        "case guard_answer (workflow_budget ws) sg (fst a) (workflow_guard ws2) of
          Allowed g' \<Rightarrow> \<exists>ws'. out = Going ws' \<and> workflow_guard ws' = g' \<and> workflow_budget ws' = workflow_budget ws
        | Halted reason \<Rightarrow> workflow_ends uc out reason" by (simp add: a_def)
      then show ?thesis unfolding sg_def [symmetric] step [symmetric] by blast
    qed
  qed
qed


section \<open>The bound on the workflow's calls to the model\<close>

text \<open>What an activity or a part of the workflow does not ask the model.\<close>

abbreviation silent :: "agent_world \<Rightarrow> agent_world \<Rightarrow> bool" where
  "silent w w' \<equiv> aw_generated w' = aw_generated w"

lemma ticks_silent: "only_ticks w w' \<Longrightarrow> silent w w'"
  by (simp add: only_ticksD)

lemma calls_silent: "same_calls w w' \<Longrightarrow> silent w w'"
  by (simp add: same_calls_def)

lemma agentWorkflowDatasets_ticks: "agentWorkflowDatasets uc st w = (r, w') \<Longrightarrow> only_ticks w w'"
  by (auto simp: agentWorkflowDatasets_def dest: readGenerateDatasets_ticks split: prod.splits sum.splits)

lemma agentWorkflowSession_ticks: "agentWorkflowSession uc st w = (r, w') \<Longrightarrow> only_ticks w w'"
  by (auto simp: agentWorkflowSession_def dest: agentWorkflowDatasets_ticks split: prod.splits sum.splits)

lemma agentWorkflowToolSpecs_silent: "agentWorkflowToolSpecs uc st w = (r, w') \<Longrightarrow> silent w w'"
  by (auto simp: agentWorkflowToolSpecs_def available_tools_def dest!: agentWorkflowSession_ticks ticks_silent
      split: prod.splits sum.splits)

lemma agentWorkflowMessages_silent: "agentWorkflowMessages uc st i w = (r, w') \<Longrightarrow> silent w w'"
  by (auto simp: agentWorkflowMessages_def read_spec_def read_trajectory_def tick_def Let_def split: prod.splits sum.splits)

lemma recordInferenceRequest_silent:
  "recordInferenceRequest uc q d m cs a p n s e w = (r, w') \<Longrightarrow> silent w w'"
  by (auto simp: recordInferenceRequest_def tick_def split: sum.splits option.splits)

lemma workflow_audit_silent:
  "recordAgentWorkflowInferenceRequest uc st answer status text w = (r, w') \<Longrightarrow> silent w w'"
  by (auto simp: recordAgentWorkflowInferenceRequest_def agentWorkflowContexts_def read_trajectory_def tick_def
      dest!: agentWorkflowDatasets_ticks ticks_silent recordInferenceRequest_silent
      split: prod.splits sum.splits if_splits option.splits)

lemma record_step_silent: "RecordAgentStepActivity uc st i gen w = (r, w') \<Longrightarrow> silent w w'"
  by (auto simp: RecordAgentStepActivity_def dest!: agentWorkflowSession_ticks ticks_silent agentWorkflowToolSpecs_silent
      recordAgentStep_calls calls_silent split: prod.splits sum.splits)

lemma complete_silent: "CompleteAgentRunActivity uc st answer w = (r, w') \<Longrightarrow> silent w w'"
  by (auto simp: CompleteAgentRunActivity_def dest!: agentWorkflowSession_ticks ticks_silent workflow_audit_silent
      recordAgentRun_calls calls_silent split: prod.splits sum.splits)

lemma fail_silent: "FailAgentRunActivity uc st reason text w = (r, w') \<Longrightarrow> silent w w'"
  by (auto simp: FailAgentRunActivity_def dest!: agentWorkflowSession_ticks ticks_silent workflow_audit_silent
      recordAgentRun_calls calls_silent split: prod.splits sum.splits)

lemma invoke_silent: "InvokeAgentToolActivity uc st x call key w = (r, w') \<Longrightarrow> silent w w'"
  by (auto simp: InvokeAgentToolActivity_def invoke_tool_def Let_def dest!: agentWorkflowSession_ticks ticks_silent
      recordAgentToolInvocation_calls calls_silent split: prod.splits sum.splits option.splits)

lemma prepare_silent: "PrepareAgentRunActivity uc i hash q w = (r, w') \<Longrightarrow> silent w w'"
  by (auto simp: PrepareAgentRunActivity_def read_endpoint_def available_tools_def tick_def Let_def
      dest!: prepare_run_ticks ticks_silent split: prod.splits sum.splits if_splits)

lemma generate_once:
  "GenerateAgentStepActivity uc st i choice options w = (r, w') \<Longrightarrow>
   \<exists>qs. aw_generated w' = aw_generated w @ qs \<and> length qs \<le> 1"
  by (auto simp: GenerateAgentStepActivity_def generate_with_def Let_def
      dest!: agentWorkflowMessages_silent agentWorkflowToolSpecs_silent split: option.splits prod.splits sum.splits if_splits)

lemma run_activity_silent:
  assumes "run_activity uc n act w = (r, w')" "\<And>v x v'. act v = (x, v') \<Longrightarrow> silent v v'"
  shows "silent w w'"
proof -
  have quiet: "silent v (snd (act v))" for v using assms(2) by (metis prod.collapse)
  show ?thesis using assms(1)
  proof (induction n arbitrary: w)
    case (Suc n)
    have t: "silent w (snd (act (tick w)))" using quiet [of "tick w"] by (simp add: tick_def)
    with Suc show ?case
      by (cases "act (tick w)") (auto simp: tick_def split: attempt.splits sum.splits if_splits)
  qed simp
qed

lemma run_activity_once:
  assumes "run_activity uc effect_attempts act w = (r, w')"
    "\<And>v x v'. act v = (x, v') \<Longrightarrow> \<exists>qs. aw_generated v' = aw_generated v @ qs \<and> length qs \<le> 1"
  shows "\<exists>qs. aw_generated w' = aw_generated w @ qs \<and> length qs \<le> 1"
proof -
  have "\<exists>qs. aw_generated (snd (act (tick w))) = aw_generated (tick w) @ qs \<and> length qs \<le> 1"
    using assms(2) by (metis prod.collapse)
  moreover have "w' = tick w \<or> w' = snd (act (tick w))"
    using assms(1) by (auto simp: effect_attempts_def split: attempt.splits prod.splits sum.splits)
  ultimately show ?thesis by (auto simp: tick_def intro: exI [of _ "[]"])
qed

lemma agentWorkflowFail_silent: "agentWorkflowFail uc st reason text w = (r, w') \<Longrightarrow> silent w w'"
  by (auto simp: agentWorkflowFail_def split: prod.splits sum.splits elim!: run_activity_silent dest: fail_silent)

lemma fail_activity_silent: "fail_activity uc st reason e w = (r, w') \<Longrightarrow> silent w w'"
  by (auto simp: fail_activity_def split: prod.splits option.splits dest: agentWorkflowFail_silent)

lemma ended_silent: "(\<And>r v. x = (r, v) \<Longrightarrow> silent w v) \<Longrightarrow> ended x = (out, w') \<Longrightarrow> silent w w'"
  by (cases x) (auto simp: ended_def)

lemma workflow_after_tool_silent:
  assumes "workflow_after_tool uc sg out st w = (res, w')"
  shows "silent w w'"
proof -
  have *: "silent w w'" if "ended (agentWorkflowFail uc l r msg w) = (res, w')" for l r msg
    by (rule ended_silent [OF _ that]) (rule agentWorkflowFail_silent)
  show ?thesis using assms unfolding workflow_after_tool_def Let_def
    by (auto split: ToolErrorType.splits if_splits dest: *)
qed

lemma workflow_tool_call_silent:
  assumes "workflow_tool_call uc st index call ws w = (out, w')"
  shows "silent w w'"
proof -
  have fail: "silent v w'" if "ended (agentWorkflowFail uc l r msg v) = (out, w')" for l r msg v
    by (rule ended_silent [OF _ that]) (rule agentWorkflowFail_silent)
  have act: "silent v w'" if "ended (fail_activity uc l r e v) = (out, w')" for l r e v
    by (rule ended_silent [OF _ that]) (rule fail_activity_silent)
  have invoke: "silent w v" if "run_activity uc effect_attempts (InvokeAgentToolActivity uc s st call k) w = (r, v)" for r v s k
    by (rule run_activity_silent [OF that]) (rule invoke_silent)
  show ?thesis using assms unfolding workflow_tool_call_def Let_def
    by (auto split: if_splits prod.splits sum.splits dest!: fail act invoke workflow_after_tool_silent)
qed

lemma workflow_tool_calls_silent: "workflow_tool_calls uc st index calls ws w = (out, w') \<Longrightarrow> silent w w'"
  by (induction calls arbitrary: index ws w)
    (fastforce split: prod.splits workflow_outcome.splits dest: workflow_tool_call_silent)+

lemma workflow_after_generation_silent:
  assumes "workflow_after_generation uc step out st w = (res, w')"
  shows "silent w w'"
proof -
  have fail: "silent v w'" if "ended (agentWorkflowFail uc l r msg v) = (res, w')" for l r msg v
    by (rule ended_silent [OF _ that]) (rule agentWorkflowFail_silent)
  have act: "silent v w'" if "ended (fail_activity uc l r e v) = (res, w')" for l r e v
    by (rule ended_silent [OF _ that]) (rule fail_activity_silent)
  have rec: "silent v v'" if "run_activity uc n (RecordAgentStepActivity uc s i gen) v = (r, v')" for r v v' s i gen n
    by (rule run_activity_silent [OF that]) (rule record_step_silent)
  have complete: "silent v v'" if "run_activity uc n (CompleteAgentRunActivity uc s a) v = (r, v')" for r v v' s a n
    by (rule run_activity_silent [OF that]) (rule complete_silent)
  show ?thesis using assms unfolding workflow_after_generation_def Let_def
    by (auto split: if_splits prod.splits sum.splits dest!: fail act rec complete workflow_tool_calls_silent)
qed

lemma workflow_step_once:
  assumes "workflow_step uc step st w = (out, w')"
  shows "\<exists>qs. aw_generated w' = aw_generated w @ qs \<and> length qs \<le> 1"
proof -
  have fail: "silent v w'" if "ended (agentWorkflowFail uc l r msg v) = (out, w')" for l r msg v
    by (rule ended_silent [OF _ that]) (rule agentWorkflowFail_silent)
  have act: "silent v w'" if "ended (fail_activity uc l r e v) = (out, w')" for l r e v
    by (rule ended_silent [OF _ that]) (rule fail_activity_silent)
  obtain r w1 where gen: "run_activity uc effect_attempts (GenerateAgentStepActivity uc st step
      (agentWorkflowToolChoice (ws_ToolBindings st) step) (agentWorkflowStepGenerationOptions st)) w = (r, w1)"
    by (cases "run_activity uc effect_attempts (GenerateAgentStepActivity uc st step
      (agentWorkflowToolChoice (ws_ToolBindings st) step) (agentWorkflowStepGenerationOptions st)) w")
  have "\<exists>qs. aw_generated w1 = aw_generated w @ qs \<and> length qs \<le> 1"
    by (rule run_activity_once [OF gen]) (rule generate_once)
  moreover have "silent w1 w'" using assms gen unfolding workflow_step_def
    by (auto split: sum.splits if_splits dest!: fail act workflow_after_generation_silent)
  ultimately show ?thesis by simp
qed

lemma workflow_steps_bounded:
  "workflow_steps uc left step st w = (e, w') \<Longrightarrow> \<exists>qs. aw_generated w' = aw_generated w @ qs \<and> length qs \<le> left"
proof (induction left arbitrary: step st w)
  case 0
  then show ?case by (auto dest: agentWorkflowFail_silent)
next
  case (Suc left)
  obtain out w1 where one: "workflow_step uc step st w = (out, w1)" by (cases "workflow_step uc step st w")
  obtain ps where ps: "aw_generated w1 = aw_generated w @ ps" "length ps \<le> 1" using workflow_step_once [OF one] by blast
  show ?case
  proof (cases out)
    case (Ended x)
    with Suc.prems one have "w1 = w'" by simp
    with ps show ?thesis by (intro exI [of _ ps]) auto
  next
    case (Going st')
    with Suc.prems one have "workflow_steps uc left (step + 1) st' w1 = (e, w')" by simp
    from Suc.IH [OF this] obtain qs where "aw_generated w' = aw_generated w1 @ qs" "length qs \<le> left" by blast
    with ps show ?thesis by (intro exI [of _ "ps @ qs"]) auto
  qed
qed

lemma run_activity_delivers:
  assumes "run_activity uc n act w = (Inr x, w')"
  shows "\<exists>v v'. act v = (Inr x, v')"
  using assms by (induction n arbitrary: w) (auto split: attempt.splits sum.splits prod.splits if_splits)

text \<open>C26. The workflow always ends, and calls the model at most as often as the step limit of the spec
  that its preparation read, in whatever way attempts of activities fail, run without their
  result arriving, or never run: a call to the model is never repeated.\<close>

theorem workflow_calls_bounded:
  assumes "AgentRunWorkflow uc input w = (err, w')"
    "\<And>n org hash spec. au_specs uc n org hash = Inr spec \<Longrightarrow> bg_MaxSteps (as_Budgets spec) \<le> int limit"
  shows "\<exists>qs. aw_generated w' = aw_generated w @ qs \<and> length qs \<le> limit"
proof -
  let ?prepare = "PrepareAgentRunActivity uc (wi_EndpointID input) (wi_AgentSpecHash input) (wi_Request input)"
  obtain r w1 where prep: "run_activity uc record_attempts ?prepare w = (r, w1)"
    by (cases "run_activity uc record_attempts ?prepare w")
  have quiet: "silent w w1" by (rule run_activity_silent [OF prep]) (rule prepare_silent)
  show ?thesis
  proof (cases r)
    case (Inl e)
    with assms(1) prep have "w1 = w'" by (simp add: AgentRunWorkflow_def)
    with quiet show ?thesis by (intro exI [of _ "[]"]) simp
  next
    case (Inr st)
    obtain v v' where "?prepare v = (Inr st, v')" using run_activity_delivers [OF prep [unfolded Inr]] by blast
    then have limit: "bg_MaxSteps (ws_Budgets st) \<le> int limit"
      using assms(2) by (auto simp: PrepareAgentRunActivity_def prepare_run_def read_spec_def Let_def
          split: prod.splits sum.splits if_splits)
    have "workflow_steps uc (nat (bg_MaxSteps (ws_Budgets st))) 0 st w1 = (err, w')"
      using assms(1) prep Inr by (simp add: AgentRunWorkflow_def)
    from workflow_steps_bounded [OF this] quiet limit show ?thesis by auto
  qed
qed

end
