(* ===== verification/AgentExamples.thy ===== *)
theory AgentExamples
  imports AgentScenario AgentRefinement
begin

text \<open>
  The properties of the agent runtime applied to the small agent of \<open>AgentScenario\<close>: a run
  that calls its tool once and answers, one that never stops asking for the tool, and a run
  under way in the tables.
\<close>

section \<open>Concrete runs\<close>

definition sample_loop :: "(agent_result \<times> go_error option) \<times> agent_world" where
  "sample_loop = runAgentLoop sample_usecase sample_request sample_endpoint sample_spec sample_model [sample_dataset]
     sample_generator sample_world"

definition sample_endless :: "(agent_result \<times> go_error option) \<times> agent_world" where
  "sample_endless = runAgentLoop sample_usecase sample_request sample_endpoint sample_spec sample_model [sample_dataset]
     sample_stubborn sample_world"

definition sample_answered :: "(go_error + generate_response) \<times> agent_world" where
  "sample_answered = generateAgent sample_quick sample_request sample_endpoint sample_world"

definition sample_quick_run :: "(agent_result \<times> go_error option) \<times> agent_world" where
  "sample_quick_run = runAgentLoop sample_quick (sample_request\<lparr>gq_ModelID := 6, gq_DatasetID := 4\<rparr>) sample_endpoint
     sample_spec sample_model [sample_dataset] sample_direct (sample_world\<lparr>aw_tick := 3\<rparr>)"

lemma sample_loop_run:
  "runAgentLoop sample_usecase sample_request sample_endpoint sample_spec sample_model [sample_dataset]
     sample_generator sample_world = ((fst (fst sample_loop), snd (fst sample_loop)), snd sample_loop)"
  by (simp add: sample_loop_def)

lemma sample_endless_run:
  "runAgentLoop sample_usecase sample_request sample_endpoint sample_spec sample_model [sample_dataset]
     sample_stubborn sample_world = ((fst (fst sample_endless), snd (fst sample_endless)), snd sample_endless)"
  by (simp add: sample_endless_def)

lemma sample_loop_steps: "al_Steps (fst (fst sample_loop)) = 2"
  by code_simp

lemma sample_fresh: "tn_fresh (sample_env n) \<noteq> uuid_nil"
  by (simp add: sample_env_def Let_def)

lemma sample_uc [simp]: "au_db sample_usecase = sample_env" "au_invoke sample_usecase = sample_tool_answer"
  "au_specs sample_usecase = (\<lambda>_ _ _. Inr sample_spec)"
  by (simp_all add: sample_usecase_def)

lemma sample_tables_wf: "wf_trajectory sample_running"
  by (simp add: wf_trajectory_def sample_running_def sample_tables_def sample_run_row_def sample_step_row_def
      stored_run_def stored_step_def)

section \<open>The trajectory tables\<close>

definition sample_invocation :: tool_invocation where
  "sample_invocation = \<lparr>ti_InvocationID = 60, ti_StepID = 51, ti_RunID = 50, ti_OrgID = 1, ti_ToolName = ''search'',
     ti_ToolImplVersion = ''v1'', ti_Arguments = ''{q:1}'', ti_Result = ''{result:1}'', ti_ErrorType = ToolErrorTypeUnknown,
     ti_LatencyMs = 0, ti_CreatedAt = 0\<rparr>"

abbreviation "sample_org \<equiv> \<lparr>ss_user = Some 2, ss_org = Some 1, ss_system = False\<rparr>"

definition sample_recorded :: "(go_error + tool_invocation) \<times> trajectory_tables" where
  "sample_recorded = RecordToolInvocation (sample_env 7) sample_org sample_invocation sample_running"

lemma sample_recorded_ok: "is_ok (fst sample_recorded)"
  by code_simp

lemma trajectory_invariant_witness:
  "is_ok (fst sample_recorded) \<and> wf_trajectory (snd sample_recorded)"
  using trajectory_invariant [OF sample_tables_wf sample_fresh] sample_recorded_ok unfolding sample_recorded_def by blast

lemma trajectory_roundtrip_witness:
  "ReadAgentTrajectory (sample_env 7) sample_org 1 50 sample_running =
     Inr \<lparr>tj_Run = sample_run_row, tj_Steps = [sample_step_row], tj_ToolInvocations = []\<rparr>"
  using trajectory_roundtrip [OF sample_tables_wf, of sample_run_row sample_org "sample_env 7"]
  by (simp add: sample_running_def sample_tables_def sample_run_row_def sample_step_row_def org_visible_def sample_env_def)

definition sample_again :: "(go_error + agent_step) \<times> trajectory_tables" where
  "sample_again = RecordAgentStep (sample_env 7) sample_org sample_step_row sample_running"

definition sample_retry :: "(go_error + agent_step) \<times> trajectory_tables" where
  "sample_retry = RecordAgentStep (sample_env 8) sample_org sample_step_row (snd sample_again)"

lemma sample_again_ok: "is_ok (fst sample_again)" and sample_retry_ok: "is_ok (fst sample_retry)"
  by code_simp+

lemma step_recording_idempotent_witness:
  "snd sample_retry = snd sample_again \<and> is_ok (fst sample_again) \<and> is_ok (fst sample_retry)"
proof -
  obtain a b where "sample_again = (Inr a, snd sample_again)" "sample_retry = (Inr b, snd sample_retry)"
    using sample_again_ok sample_retry_ok by (metis is_ok_iff prod.collapse)
  then have "RecordAgentStep (sample_env 7) sample_org sample_step_row sample_running = (Inr a, snd sample_again)"
    "RecordAgentStep (sample_env 8) sample_org sample_step_row (snd sample_again) = (Inr b, snd sample_retry)"
    by (simp_all add: sample_again_def sample_retry_def)
  from step_recording_idempotent [OF this] sample_again_ok sample_retry_ok show ?thesis by (simp add: sample_env_def)
qed

definition sample_reaped :: trajectory_tables where
  "sample_reaped = snd (FailExpiredAgentRuns ((sample_env 0)\<lparr>tn_now := 70000000\<rparr>) 0 sample_running)"

definition sample_failed_row :: agent_run where
  "sample_failed_row = sample_run_row\<lparr>ar_Status := AgentRunStatusFailed, ar_StopReason := AgentStopReasonAbandoned,
     ar_FinishedAt := 70000000\<rparr>"

definition sample_late :: "(go_error + agent_run) \<times> trajectory_tables" where
  "sample_late = RecordAgentRun (sample_env 9) sample_org
     (sample_run_row\<lparr>ar_Status := AgentRunStatusCompleted, ar_StopReason := AgentStopReasonFinalAnswer\<rparr>) sample_reaped"

lemma sample_late_ok: "is_ok (fst sample_late)"
  by code_simp

lemma sample_reaped_row: "sample_failed_row \<in> set (tt_runs sample_reaped)"
  by code_simp


section \<open>Runs\<close>

lemma agent_run_bounded_witness:
  "\<exists>qs. aw_generated (snd sample_loop) = aw_generated sample_world @ qs \<and> length qs = 2"
  using agent_run_bounded [OF sample_loop_run] sample_loop_steps by auto

lemma sample_endless_stop: "al_StopReason (fst (fst sample_endless)) = AgentStopReasonLoopDetected"
  by code_simp

lemma no_triple_tool_call_witness:
  "al_StopReason (fst (fst sample_endless)) = AgentStopReasonLoopDetected \<and>
   (\<exists>calls. aw_invoked (snd sample_endless) = aw_invoked sample_world @ calls \<and>
     \<not> (\<exists>us a vs. map (\<lambda>(ctxt, call). agentToolCallSignature call) calls = us @ [a, a, a] @ vs))"
  using no_triple_tool_call [OF sample_endless_run] sample_endless_stop by blast

lemma sample_plausible: "plausible_tools sample_usecase" "plausible_model sample_generator"
  by (simp_all add: plausible_tools_def plausible_model_def sample_tool_answer_def sample_generator_def empty_tool_result_def
      empty_generation_def sample_usage_def agentGenerationTokenUsage_def generationTokenUsage_def)

lemma token_budget_respected_witness:
  "\<exists>qs. aw_generated (snd sample_loop) = aw_generated sample_world @ qs \<and> sorted_wrt (>) (map output_limit qs) \<and>
     int (length qs) \<le> 500"
  using token_budget_respected [OF sample_loop_run _ _ sample_plausible] by (auto simp: sample_spec_def)

lemma sample_prepared:
  "prepare_run sample_quick sample_request sample_endpoint ''spec'' sample_world =
     (Inr (sample_spec, base_selection sample_model, sample_request\<lparr>gq_ModelID := 6\<rparr>, [sample_dataset]),
      sample_world\<lparr>aw_tick := 3\<rparr>)"
  by code_simp

lemma sample_quick_run_ok: "snd (fst sample_quick_run) = None \<and> al_Contexts (fst (fst sample_quick_run)) = []"
  by code_simp

lemma sample_audit: "is_ok (inferenceRequestRecord sample_codec (sample_request\<lparr>gq_ModelID := 6, gq_DatasetID := 4\<rparr>)
    sample_dataset m [] [] answer version latency protocol name status message)"
  by (simp add: inferenceRequestRecord_def marshalMetadataFilters_def marshalRetrievedContextIDs_def
      marshalRetrievedContexts_def sample_codec_def)

lemma sample_answered_ok: "is_ok (fst sample_answered)"
proof -
  obtain r w where run: "sample_quick_run = ((r, None), w)" "al_Contexts r = []"
    using sample_quick_run_ok by (metis prod.collapse)
  have q: "(sample_request\<lparr>gq_ModelID := 6\<rparr>)\<lparr>gq_DatasetID := id_DatasetID sample_dataset\<rparr> =
      sample_request\<lparr>gq_ModelID := 6, gq_DatasetID := 4\<rparr>" by (simp add: sample_dataset_def)
  have uc: "au_adapters sample_quick p = Some sample_direct" "au_codec sample_quick = sample_codec" "au_requests sample_quick = (\<lambda>_ _. None)"
    for p by (simp_all add: sample_quick_def sample_usecase_def)
  have hash: "en_AgentSpecHash sample_endpoint = ''spec''" by (simp add: sample_endpoint_def)
  have base: "sv_BaseModel (base_selection sample_model) = sample_model" by (simp add: base_selection_def)
  have "\<exists>x. inferenceRequestRecord sample_codec (sample_request\<lparr>gq_ModelID := 6, gq_DatasetID := 4\<rparr>)
      sample_dataset m [] [] answer version latency protocol name status message = Inr x"
    for m answer version latency protocol name status message
    using sample_audit by (simp add: is_ok_iff)
  then have "fst (recordInferenceRequest sample_quick (sample_request\<lparr>gq_ModelID := 6, gq_DatasetID := 4\<rparr>)
      sample_dataset m [] answer protocol name status message v) = None" for m answer protocol name status message v
    unfolding recordInferenceRequest_def uc by (metis fst_conv option.case(1) sum.case(2))
  with run show ?thesis
    unfolding sample_answered_def generateAgent_def Let_def hash sample_prepared prod.case sum.case list.sel q uc option.case base
      sample_quick_run_def by (auto split: prod.splits option.splits) (metis fst_conv option.distinct(1))
qed


definition sample_resolved :: "(go_error + serving_selection \<times> generate_request) \<times> agent_world" where
  "sample_resolved = resolveAgentServing sample_usecase sample_request sample_endpoint sample_spec sample_world"

lemma sample_resolved_ok: "is_ok (fst sample_resolved)"
  by code_simp


definition sample_bare_call :: tool_call where
  "sample_bare_call = \<lparr>tc_ID = ''c2'', tc_Name = ''search'', tc_Arguments = ''{}''\<rparr>"

definition sample_bare :: "loop_outcome \<times> agent_world" where
  "sample_bare = tool_call_step sample_usecase 8 0 51 0 sample_bare_call (start_loop sample_session) sample_midway"

lemma empty_arguments_fail_run_witness:
  "\<exists>r e ctxt. fst sample_bare = Return r (Some e) \<and>
     aw_invoked (snd sample_bare) = aw_invoked sample_midway @ [(ctxt, sample_bare_call)]"
proof -
  have json: "tn_jsonb (au_db sample_usecase n) (TrimSpace (tc_Arguments sample_bare_call)) = Some (JsonObject, ''{}'')" for n
  proof -
    have "TrimSpace (tc_Arguments sample_bare_call) = ''{}''" by code_simp
    then show ?thesis by (simp add: sample_env_def sample_jsonb_def)
  qed
  have "ls_repeated (note_signature (agentToolCallSignature sample_bare_call) (start_loop sample_session)) < 2" by code_simp
  from empty_arguments_fail_run [OF json this, of 8 0 51 0 sample_midway "fst sample_bare" "snd sample_bare"]
  show ?thesis by (auto simp: sample_bare_def)
qed

section \<open>The rule of the tool calls\<close>

definition sample_calls :: "loop_outcome \<times> agent_world" where
  "sample_calls = tool_calls_loop sample_usecase 8 0 51 0 [sample_call] (start_loop sample_session) sample_midway"

fun continues :: "loop_outcome \<Rightarrow> bool" where
  "continues (Continue _) = True"
| "continues (Return _ _) = False"

lemma sample_calls_continue: "continues (fst sample_calls)"
  by code_simp


definition sample_workflow_calls :: "workflow_outcome \<times> agent_world" where
  "sample_workflow_calls = workflow_tool_calls sample_usecase 51 0 [sample_call] sample_state sample_midway"

fun goes_on :: "workflow_outcome \<Rightarrow> bool" where
  "goes_on (Going _) = True"
| "goes_on (Ended _) = False"

lemma sample_workflow_goes_on: "goes_on (fst sample_workflow_calls)"
  by code_simp

lemma sample_state_repeats: "ws_RepeatedToolCallCount sample_state \<le> 1"
  by (simp add: sample_state_def)


definition sample_workflow :: "go_error option \<times> agent_world" where
  "sample_workflow = AgentRunWorkflow sample_usecase sample_workflow_input sample_midway"

lemma workflow_calls_bounded_witness:
  "\<exists>qs. aw_generated (snd sample_workflow) = aw_generated sample_midway @ qs \<and> length qs \<le> 3"
proof -
  have "AgentRunWorkflow sample_usecase sample_workflow_input sample_midway = (fst sample_workflow, snd sample_workflow)"
    by (simp add: sample_workflow_def)
  from workflow_calls_bounded [OF this, of 3] show ?thesis by (simp add: sample_spec_def)
qed

end
