(* ===== verification/SubscriberErrors.thy ===== *)
theory SubscriberErrors
  imports Messages SessionContext
begin

text \<open>
  The errors a message handler returns and what the subscriber makes of them:
  \<open>shared_lib/messaging/subscriber_errors.go\<close>, the field parsers of \<open>parse.go\<close> and the typed
  listener of \<open>event_listener.go\<close>. A Go error is the chain \<open>errors.As\<close> walks: a text, a
  cancelled context, the wrapping of other errors by \<open>fmt.Errorf\<close>, or one of the two marks.
  The parse of a UUID and the decoding of a payload are parameters.
\<close>

section \<open>Marked errors\<close>

datatype marked_error =
  TextError string
| ContextCanceled
| WrapError string "marked_error list"
| nonRetryableError marked_error
| alreadyProcessedError marked_error

fun Error_text :: "marked_error \<Rightarrow> string" where
  "Error_text (TextError s) = s"
| "Error_text ContextCanceled = ''context canceled''"
| "Error_text (WrapError s _) = s"
| "Error_text (nonRetryableError e) = Error_text e"
| "Error_text (alreadyProcessedError e) = Error_text e"

text \<open>The errors \<open>errors.Is\<close> and \<open>errors.As\<close> look at, in their order.\<close>

fun error_chain :: "marked_error \<Rightarrow> marked_error list" where
  "error_chain (TextError s) = [TextError s]"
| "error_chain ContextCanceled = [ContextCanceled]"
| "error_chain (WrapError s es) = WrapError s es # concat (map error_chain es)"
| "error_chain (nonRetryableError e) = nonRetryableError e # error_chain e"
| "error_chain (alreadyProcessedError e) = alreadyProcessedError e # error_chain e"

fun nonRetryable_mark :: "marked_error \<Rightarrow> bool" where
  "nonRetryable_mark (nonRetryableError _) = True"
| "nonRetryable_mark _ = False"

fun alreadyProcessed_mark :: "marked_error \<Rightarrow> bool" where
  "alreadyProcessed_mark (alreadyProcessedError _) = True"
| "alreadyProcessed_mark _ = False"

definition IsNonRetryable :: "marked_error \<Rightarrow> bool" where
  "IsNonRetryable e \<longleftrightarrow> list_ex nonRetryable_mark (error_chain e)"

definition IsAlreadyProcessed :: "marked_error \<Rightarrow> bool" where
  "IsAlreadyProcessed e \<longleftrightarrow> list_ex alreadyProcessed_mark (error_chain e)"

definition is_canceled :: "marked_error \<Rightarrow> bool" where
  "is_canceled e \<longleftrightarrow> ContextCanceled \<in> set (error_chain e)"

definition NonRetryable :: "marked_error option \<Rightarrow> marked_error option" where
  "NonRetryable err = (case err of None \<Rightarrow> None
     | Some e \<Rightarrow> if IsNonRetryable e then Some e else Some (nonRetryableError e))"

definition AlreadyProcessed :: "marked_error option \<Rightarrow> marked_error option" where
  "AlreadyProcessed err = (case err of None \<Rightarrow> None
     | Some e \<Rightarrow> if IsAlreadyProcessed e then Some e else Some (alreadyProcessedError e))"

lemma chain_head: "e \<in> set (error_chain e)"
  by (cases e) auto

lemma mark_chain [simp]:
  "IsNonRetryable (nonRetryableError e)" "IsAlreadyProcessed (alreadyProcessedError e)"
  "IsNonRetryable (alreadyProcessedError e) = IsNonRetryable e"
  "IsAlreadyProcessed (nonRetryableError e) = IsAlreadyProcessed e"
  "IsNonRetryable (TextError s) = False" "IsAlreadyProcessed (TextError s) = False"
  "IsNonRetryable (WrapError s es) \<longleftrightarrow> (\<exists>e \<in> set es. IsNonRetryable e)"
  "IsAlreadyProcessed (WrapError s es) \<longleftrightarrow> (\<exists>e \<in> set es. IsAlreadyProcessed e)"
  by (auto simp: IsNonRetryable_def IsAlreadyProcessed_def list_ex_iff)

text \<open>A mark survives any wrapping, is set once, and leaves the text alone.\<close>

lemma NonRetryable_marks: "NonRetryable (Some e) = Some e' \<Longrightarrow> IsNonRetryable e' \<and> Error_text e' = Error_text e"
  by (auto simp: NonRetryable_def split: if_splits)

lemma NonRetryable_again: "NonRetryable (NonRetryable err) = NonRetryable err"
  by (auto simp: NonRetryable_def split: option.splits)

lemma AlreadyProcessed_again: "AlreadyProcessed (AlreadyProcessed err) = AlreadyProcessed err"
  by (auto simp: AlreadyProcessed_def split: option.splits)

section \<open>Fields of a payload\<close>

definition ParseUUID :: "(string \<Rightarrow> marked_error + uuid) \<Rightarrow> string \<Rightarrow> string \<Rightarrow> marked_error option \<times> uuid" where
  "ParseUUID parse field raw =
     (if raw = [] then (NonRetryable (Some (TextError (field @ '' required''))), uuid_nil)
      else case parse raw of
        Inl e \<Rightarrow> (NonRetryable (Some (WrapError (''invalid '' @ field @ '' uuid '' @ raw @ '': '' @ Error_text e) [e])), uuid_nil)
      | Inr i \<Rightarrow> if i = uuid_nil then (NonRetryable (Some (TextError (field @ '' must not be the nil UUID''))), uuid_nil)
          else (None, i))"

definition ParseOptionalUUID :: "(string \<Rightarrow> marked_error + uuid) \<Rightarrow> string \<Rightarrow> string \<Rightarrow> marked_error option \<times> uuid" where
  "ParseOptionalUUID parse field raw =
     (if raw = [] then (None, uuid_nil) else ParseUUID parse field raw)"

text \<open>A malformed field is always marked, so it is never replayed; an accepted one is not nil.\<close>

lemma ParseUUID_cases:
  assumes "ParseUUID parse field raw = (err, i)"
  shows "(err = None \<and> i \<noteq> uuid_nil \<and> parse raw = Inr i) \<or>
    (\<exists>e. err = Some e \<and> IsNonRetryable e \<and> i = uuid_nil)"
  using assms by (auto simp: ParseUUID_def NonRetryable_def split: if_splits sum.splits)

section \<open>Listeners\<close>

text \<open>
  A registered listener is a function of the context, the message and the instant it runs at;
  it returns an error or nil, or panics.
\<close>

datatype listener_outcome = Returned "marked_error option" | Panicked string

record listener_ctx =
  lc_ctx :: ctx
  lc_resource_key :: "uuid option"
  lc_msg_type :: "string option"

type_synonym listener = "ctx \<Rightarrow> message \<Rightarrow> nat \<Rightarrow> listener_outcome"

text \<open>
  \<open>el_Unmarshal\<close> is \<open>NewMessage\<close> with the decoding into it; the getters are \<open>None\<close>
  when the payload's type does not have the method.
\<close>

record 'p event_listener =
  el_MsgType :: MsgType
  el_Unmarshal :: "string \<Rightarrow> marked_error + 'p"
  el_GetUserId :: "('p \<Rightarrow> string) option"
  el_GetOrgId :: "('p \<Rightarrow> string) option"
  el_Handle :: "listener_ctx \<Rightarrow> uuid \<Rightarrow> 'p \<Rightarrow> nat \<Rightarrow> listener_outcome"

definition payload_uuid :: "(string \<Rightarrow> marked_error + uuid) \<Rightarrow> ('p \<Rightarrow> string) option \<Rightarrow> 'p \<Rightarrow> uuid option" where
  "payload_uuid parse getter payload = (case getter of None \<Rightarrow> None
     | Some get \<Rightarrow> let raw = TrimSpace (get payload) in
         if raw = [] then None
         else case parse raw of Inl _ \<Rightarrow> None | Inr i \<Rightarrow> if i = uuid_nil then None else Some i)"

definition tenantIDFromPayload :: "(string \<Rightarrow> marked_error + uuid) \<Rightarrow> 'p event_listener \<Rightarrow> 'p \<Rightarrow> uuid option" where
  "tenantIDFromPayload parse handler = payload_uuid parse (el_GetUserId handler)"

definition orgIDFromPayload :: "(string \<Rightarrow> marked_error + uuid) \<Rightarrow> 'p event_listener \<Rightarrow> 'p \<Rightarrow> uuid option" where
  "orgIDFromPayload parse handler = payload_uuid parse (el_GetOrgId handler)"

definition payload_ctx :: "(string \<Rightarrow> marked_error + uuid) \<Rightarrow> 'p event_listener \<Rightarrow> ctx \<Rightarrow> 'p \<Rightarrow> ctx" where
  "payload_ctx parse handler ctx payload =
     (let ctx1 = (case tenantIDFromPayload parse handler payload of None \<Rightarrow> ctx | Some i \<Rightarrow> WithTenantID ctx i)
      in case orgIDFromPayload parse handler payload of None \<Rightarrow> ctx1 | Some i \<Rightarrow> WithOrgID ctx1 i)"

definition typed_listener :: "(string \<Rightarrow> marked_error + uuid) \<Rightarrow> 'p event_listener \<Rightarrow> listener" where
  "typed_listener parse handler ctx msg t =
     (let name = MsgType_String (el_MsgType handler) in
      case el_Unmarshal handler (ms_Payload msg) of
        Inl derr \<Rightarrow> Returned (NonRetryable (Some (WrapError (''deserialize '' @ name @ '': '' @ Error_text derr) [derr])))
      | Inr payload \<Rightarrow>
          (case el_Handle handler
                  \<lparr>lc_ctx = payload_ctx parse handler ctx payload,
                   lc_resource_key = Some (ms_ResourceKey msg), lc_msg_type = Some name\<rparr>
                  (ms_ResourceKey msg) payload t of
             Returned err \<Rightarrow> Returned err
           | Panicked r \<Rightarrow> Returned (NonRetryable (Some (TextError (''listener panic for msg_type='' @ name @ '': '' @ r))))))"

text \<open>The two promises of \<open>AddListener\<close>: no panic leaves it, and what cannot be decoded is marked.\<close>

lemma typed_listener_returns: "\<exists>err. typed_listener parse handler ctx msg t = Returned err"
  by (auto simp: typed_listener_def Let_def split: sum.splits listener_outcome.splits)

lemma typed_listener_marks:
  "el_Unmarshal handler (ms_Payload msg) = Inl derr \<Longrightarrow>
     \<exists>e. typed_listener parse handler ctx msg t = Returned (Some e) \<and> IsNonRetryable e"
  by (auto simp: typed_listener_def NonRetryable_def Let_def)

end
