(* ===== verification/SubscriberHealth.thy ===== *)
theory SubscriberHealth
  imports GoStrings
begin

text \<open>
  What a subscriber reports of itself and how a health check judges it:
  \<open>shared_lib/messaging/subscriber_health.go\<close>. Times are nanoseconds and the zero
  \<open>time.Time\<close> is \<open>None\<close>; a duration of the configuration that is not positive switches
  its check off. Counters are natural numbers.
\<close>

record subscriber_health =
  sh_GroupID :: string
  sh_Topics :: "string list"
  sh_Started :: bool
  sh_Closed :: bool
  sh_AssignedPartitions :: nat
  sh_PausedPartitions :: nat
  sh_QueueDepth :: nat
  sh_QueueCapacity :: nat
  sh_BacklogDepth :: nat
  sh_PollAttempts :: nat
  sh_MessagesCommitted :: nat
  sh_MessagesDLQ :: nat
  sh_RetryCount :: nat
  sh_BackpressurePauses :: nat
  sh_MaxReplayDLQ :: nat
  sh_LastPollAt :: "int option"
  sh_LastMessageAt :: "int option"
  sh_LastCommitAt :: "int option"
  sh_LastProgressAt :: "int option"
  sh_LastErrorAt :: "int option"
  sh_LastError :: string
  sh_LastTransientErrorAt :: "int option"
  sh_LastTransientError :: string
  sh_MaxLag :: int
  sh_LagByTopic :: "(string \<times> int) list"
  sh_NonRetryableFailures :: nat

record health_check_config =
  hc_RequireAssignment :: bool
  hc_MaxPollSilence :: int
  hc_MaxProgressSilence :: int
  hc_MaxLag :: int

datatype health_error =
  HealthContext string
| HealthNotExposed
| HealthNotStarted string
| HealthClosed string
| HealthUnassigned string "string list"
| HealthNeverPolled string
| HealthPollSilence string int
| HealthLag string int int
| HealthNoProgress string int int

definition health_label :: "subscriber_health \<Rightarrow> string" where
  "health_label h = (if sh_GroupID h = [] then Join (sh_Topics h) '','' else sh_GroupID h)"

text \<open>
  \<open>ctx_err\<close> is what \<open>ctx.Err()\<close> returns, \<open>now\<close> the clock. The texts carry a silence
  cut to seconds; the error keeps the silence.
\<close>

definition progress_check :: "int \<Rightarrow> health_check_config \<Rightarrow> subscriber_health \<Rightarrow> int \<Rightarrow> health_error option" where
  "progress_check now cfg h polled =
     (if 0 < hc_MaxLag cfg \<and> hc_MaxLag cfg < sh_MaxLag h
      then Some (HealthLag (health_label h) (sh_MaxLag h) (hc_MaxLag cfg))
      else if 0 < sh_MaxLag h \<and> 0 < hc_MaxProgressSilence cfg then
        (let silence = now - (case sh_LastProgressAt h of None \<Rightarrow> polled | Some t \<Rightarrow> t) in
         if hc_MaxProgressSilence cfg < silence then Some (HealthNoProgress (health_label h) (sh_MaxLag h) silence)
         else None)
      else None)"

definition Health_Check :: "string option \<Rightarrow> int \<Rightarrow> health_check_config \<Rightarrow> subscriber_health \<Rightarrow> health_error option" where
  "Health_Check ctx_err now cfg h = (case ctx_err of Some e \<Rightarrow> Some (HealthContext e)
     | None \<Rightarrow>
       if \<not> sh_Started h then Some (HealthNotStarted (health_label h))
       else if sh_Closed h then Some (HealthClosed (health_label h))
       else if hc_RequireAssignment cfg \<and> sh_AssignedPartitions h = 0
         then Some (HealthUnassigned (health_label h) (sh_Topics h))
       else case sh_LastPollAt h of None \<Rightarrow> Some (HealthNeverPolled (health_label h))
         | Some polled \<Rightarrow>
             if 0 < hc_MaxPollSilence cfg \<and> hc_MaxPollSilence cfg < now - polled
             then Some (HealthPollSilence (health_label h) (now - polled))
             else progress_check now cfg h polled)"

text \<open>
  \<open>reporter\<close> is the subscriber's \<open>Health\<close> method, when it has one; the context is read
  before and after the report, and again by the check.
\<close>

definition CheckSubscriberHealth :: "string option \<Rightarrow> string option \<Rightarrow> string option \<Rightarrow> int \<Rightarrow>
    subscriber_health option \<Rightarrow> health_check_config \<Rightarrow> health_error option" where
  "CheckSubscriberHealth err1 err2 err3 now reporter cfg =
     (case err1 of Some e \<Rightarrow> Some (HealthContext e)
      | None \<Rightarrow> (case reporter of None \<Rightarrow> Some HealthNotExposed
          | Some h \<Rightarrow> (case err2 of Some e \<Rightarrow> Some (HealthContext e)
              | None \<Rightarrow> Health_Check err3 now cfg h)))"

record healthcheck_config =
  MessageBrokerSubscriberMaxPollSilenceSec :: int
  MessageBrokerSubscriberMaxProgressSilenceSec :: int
  MessageBrokerSubscriberMaxLag :: int

definition SubscriberHealthCheck_config :: "healthcheck_config \<Rightarrow> health_check_config" where
  "SubscriberHealthCheck_config c =
     \<lparr>hc_RequireAssignment = True,
      hc_MaxPollSilence = MessageBrokerSubscriberMaxPollSilenceSec c,
      hc_MaxProgressSilence = MessageBrokerSubscriberMaxProgressSilenceSec c,
      hc_MaxLag = MessageBrokerSubscriberMaxLag c\<rparr>"

text \<open>The checks a monitor gets, as the list of names and subscribers it is asked to register.\<close>

fun RegisterSubscriberHealthChecks :: "(string \<times> 's option) list \<Rightarrow> (string \<times> 's) list" where
  "RegisterSubscriberHealthChecks [] = []"
| "RegisterSubscriberHealthChecks ((n, None) # regs) = RegisterSubscriberHealthChecks regs"
| "RegisterSubscriberHealthChecks ((n, Some sub) # regs) =
     (let name = TrimSpace n in
      if name = [] then RegisterSubscriberHealthChecks regs
      else (if HasPrefix name ''message_broker_subscriber_'' then name
            else ''message_broker_subscriber_'' @ name, sub) # RegisterSubscriberHealthChecks regs)"

lemma registered_names:
  "(n, sub) \<in> set (RegisterSubscriberHealthChecks regs) \<Longrightarrow> HasPrefix n ''message_broker_subscriber_''"
  by (induction regs rule: RegisterSubscriberHealthChecks.induct)
    (auto simp: Let_def HasPrefix_append split: if_splits)

text \<open>A subscriber that passes has polled recently enough, and is not behind without progress.\<close>

lemma Health_Check_passes:
  assumes "Health_Check ctx_err now cfg h = None"
  shows "sh_Started h \<and> \<not> sh_Closed h \<and> (\<exists>polled. sh_LastPollAt h = Some polled \<and>
    (0 < hc_MaxPollSilence cfg \<longrightarrow> now - polled \<le> hc_MaxPollSilence cfg)) \<and>
    (hc_RequireAssignment cfg \<longrightarrow> 0 < sh_AssignedPartitions h) \<and>
    (0 < hc_MaxLag cfg \<longrightarrow> sh_MaxLag h \<le> hc_MaxLag cfg)"
  using assms
  by (auto simp: Health_Check_def progress_check_def Let_def not_less split: option.splits if_splits)

end
