(* ===== verification/Subscriber.thy ===== *)
theory Subscriber
  imports GoInt SubscriberErrors SubscriberHealth "HOL-Library.AList"
begin

text \<open>
  The consumer of the message broker, \<open>shared_lib/messaging/subscriber.go\<close>: its data, the
  assignment of partitions, the offsets that may be committed, the shards, the dead letter
  queue and one operation per method. The goroutines that call these operations are composed
  in \<open>SubscriberSystem\<close>.

  A Go map that is only looked up is a partial function, one that is iterated or counted an
  association list. An offset is an integer: the broker's offsets stay below \<open>2^63\<close>, so
  \<open>nextOffset++\<close> does not wrap. Spans, log lines and metrics are left out.
\<close>

section \<open>Data\<close>

record topic_partition =
  tp_Topic :: "string option"
  tp_Partition :: int
  tp_Offset :: int

record kafka_message =
  km_TopicPartition :: topic_partition
  km_Value :: string

record topic_partition_key =
  tk_topic :: string
  tk_partition :: int

record assignment_entry =
  ae_partition :: topic_partition
  ae_generation :: nat

record assignment_token =
  at_key :: topic_partition_key
  at_generation :: nat
  at_valid :: bool

record partition_assignment =
  pa_generation :: nat
  pa_assigned :: "(topic_partition_key \<times> assignment_entry) list"

record sharded_message =
  sm_ctx :: ctx
  sm_msg :: kafka_message
  sm_message :: message
  sm_assignment :: assignment_token

record commit_request =
  cr_msg :: kafka_message
  cr_assignment :: assignment_token
  cr_messageType :: string

record partition_commit_state =
  cs_nextOffset :: int
  cs_ready :: "(int \<times> commit_request) list"

definition MaxReplayAttempts :: nat where "MaxReplayAttempts = 3"
definition MaxCommitAttempts :: nat where "MaxCommitAttempts = 3"
definition DefaultNumShards :: nat where "DefaultNumShards = 16"
definition DefaultChannelBuffer :: nat where "DefaultChannelBuffer = 100"

definition topicName :: "topic_partition \<Rightarrow> string" where
  "topicName tp = (case tp_Topic tp of None \<Rightarrow> [] | Some t \<Rightarrow> t)"

definition newTopicPartitionKey :: "topic_partition \<Rightarrow> topic_partition_key" where
  "newTopicPartitionKey tp =
     \<lparr>tk_topic = (case tp_Topic tp of None \<Rightarrow> [] | Some t \<Rightarrow> t), tk_partition = tp_Partition tp\<rparr>"

abbreviation msg_key :: "kafka_message \<Rightarrow> topic_partition_key" where
  "msg_key m \<equiv> newTopicPartitionKey (km_TopicPartition m)"

abbreviation msg_offset :: "kafka_message \<Rightarrow> int" where
  "msg_offset m \<equiv> tp_Offset (km_TopicPartition m)"

section \<open>Assignment of partitions\<close>

definition newPartitionAssignment :: partition_assignment where
  "newPartitionAssignment = \<lparr>pa_generation = 0, pa_assigned = []\<rparr>"

definition Assign :: "topic_partition list \<Rightarrow> partition_assignment \<Rightarrow> partition_assignment" where
  "Assign partitions a =
     (let g = pa_generation a + 1 in
      \<lparr>pa_generation = g,
       pa_assigned = foldl (\<lambda>m p. AList.update (newTopicPartitionKey p) \<lparr>ae_partition = p, ae_generation = g\<rparr> m)
         [] partitions\<rparr>)"

definition Current :: "partition_assignment \<Rightarrow> topic_partition list" where
  "Current a = map (ae_partition \<circ> snd) (pa_assigned a)"

definition RevokeAll :: "partition_assignment \<Rightarrow> topic_partition list \<times> partition_assignment" where
  "RevokeAll a = (map (ae_partition \<circ> snd) (pa_assigned a),
     \<lparr>pa_generation = pa_generation a + 1, pa_assigned = []\<rparr>)"

definition Token :: "topic_partition \<Rightarrow> partition_assignment \<Rightarrow> assignment_token" where
  "Token tp a =
     (let key = newTopicPartitionKey tp in
      case map_of (pa_assigned a) key of
        None \<Rightarrow> \<lparr>at_key = key, at_generation = 0, at_valid = False\<rparr>
      | Some entry \<Rightarrow> \<lparr>at_key = key, at_generation = ae_generation entry, at_valid = True\<rparr>)"

definition IsCurrent :: "partition_assignment \<Rightarrow> assignment_token \<Rightarrow> bool" where
  "IsCurrent a token \<longleftrightarrow> at_valid token \<and>
     (case map_of (pa_assigned a) (at_key token) of None \<Rightarrow> False
      | Some entry \<Rightarrow> ae_generation entry = at_generation token)"

section \<open>Offsets that may be committed\<close>

type_synonym commit_states = "topic_partition_key \<Rightarrow> partition_commit_state option"

definition registerInFlight :: "kafka_message \<Rightarrow> commit_states \<Rightarrow> commit_states" where
  "registerInFlight msg states =
     (let key = msg_key msg in
      case states key of Some _ \<Rightarrow> states
      | None \<Rightarrow> states(key \<mapsto> \<lparr>cs_nextOffset = msg_offset msg, cs_ready = []\<rparr>))"

text \<open>
  The loop of \<open>readyToCommit\<close> takes the requests of consecutive offsets out of the ready
  map; each round removes one, so it ends.
\<close>

function take_ready :: "int \<Rightarrow> (int \<times> commit_request) list \<Rightarrow>
    commit_request list \<times> int \<times> (int \<times> commit_request) list" where
  "take_ready next ready = (case map_of ready next of
     None \<Rightarrow> ([], next, ready)
   | Some req \<Rightarrow> (let (reqs, n, rest) = take_ready (next + 1) (AList.delete next ready)
                in (req # reqs, n, rest)))"
  by pat_completeness auto
termination
proof (relation "measure (\<lambda>(n, ready). length ready)")
  fix n :: int and ready and req :: commit_request
  assume "map_of ready n = Some req"
  then have "(n, req) \<in> set ready" by (rule map_of_SomeD)
  then have "length (AList.delete n ready) < length ready"
    unfolding AList.delete_eq by (rule length_filter_less) simp
  then show "((n + 1, AList.delete n ready), n, ready) \<in> measure (\<lambda>(n, ready). length ready)"
    by simp
qed simp

declare take_ready.simps [simp del]

text \<open>The part of \<open>readyToCommit\<close> under the commit mutex.\<close>

definition mark_ready :: "commit_request \<Rightarrow> commit_states \<Rightarrow> commit_request list \<times> commit_states" where
  "mark_ready req states =
     (let key = msg_key (cr_msg req);
          state = (case states key of Some st \<Rightarrow> st
            | None \<Rightarrow> \<lparr>cs_nextOffset = msg_offset (cr_msg req), cs_ready = []\<rparr>);
          (reqs, next, rest) = take_ready (cs_nextOffset state)
            (AList.update (msg_offset (cr_msg req)) req (cs_ready state))
      in (reqs, if rest = [] then states(key := None)
                else states(key \<mapsto> \<lparr>cs_nextOffset = next, cs_ready = rest\<rparr>)))"

definition readyToCommit :: "partition_assignment \<Rightarrow> commit_request \<Rightarrow> commit_states \<Rightarrow>
    commit_request list \<times> commit_states" where
  "readyToCommit a req states =
     (if IsCurrent a (cr_assignment req) then mark_ready req states else ([], states))"

definition clearCommitStateForPartitions :: "topic_partition list \<Rightarrow> commit_states \<Rightarrow> commit_states" where
  "clearCommitStateForPartitions partitions states =
     foldl (\<lambda>m p. m(newTopicPartitionKey p := None)) states partitions"

section \<open>Shards\<close>

text \<open>FNV-1a with 32 bits over the sixteen bytes of the key; \<open>int\<close> has 64 bits, so it is not negative.\<close>

definition uuid_octets :: "uuid \<Rightarrow> 8 word list" where
  "uuid_octets u = map (\<lambda>i. ucast (drop_bit (120 - 8 * i) u)) [0..<16]"

definition fnv32a :: "8 word list \<Rightarrow> 32 word" where
  "fnv32a bs = foldl (\<lambda>h b. xor h (ucast b) * 16777619) 2166136261 bs"

definition getShardID :: "nat \<Rightarrow> uuid \<Rightarrow> nat" where
  "getShardID numShards resourceKey = unat (fnv32a (uuid_octets resourceKey)) mod numShards"

lemma getShardID_less: "0 < n \<Longrightarrow> getShardID n key < n"
  by (simp add: getShardID_def)

section \<open>The subscriber\<close>

text \<open>
  The world outside as functions of the instant it is asked: the dead letter queue and the
  commits of the broker answer with an error or nil, a backoff is not worth waiting for, was
  waited for or was interrupted by the context. \<open>se_Pause\<close>, \<open>se_Resume\<close> and the lag
  queries are \<open>None\<close> for a consumer without them. \<open>se_Unmarshal\<close> is the JSON decoding.
\<close>

datatype backoff_answer = BackoffStop | Waited | Interrupted marked_error

record subscriber_env =
  se_Unmarshal :: "string \<Rightarrow> marked_error + message"
  se_MsgContext :: "kafka_message \<Rightarrow> ctx"
  se_WriteMessage :: "nat \<Rightarrow> string \<Rightarrow> marked_error option"
  se_CommitMessage :: "nat \<Rightarrow> kafka_message \<Rightarrow> marked_error option"
  se_Backoff :: "nat \<Rightarrow> backoff_answer"
  se_CtxErr :: "nat \<Rightarrow> marked_error option"
  se_Now :: "nat \<Rightarrow> int"
  se_Pause :: "(nat \<Rightarrow> topic_partition list \<Rightarrow> marked_error option) option"
  se_Resume :: "(nat \<Rightarrow> topic_partition list \<Rightarrow> marked_error option) option"
  se_Position :: "(nat \<Rightarrow> topic_partition list \<Rightarrow> marked_error + topic_partition list) option"
  se_HighWatermark :: "nat \<Rightarrow> string \<Rightarrow> int \<Rightarrow> marked_error + int"
  se_SubscribeTopics :: "nat \<Rightarrow> string list \<Rightarrow> marked_error option"

text \<open>What the outside has seen of a subscriber, in order.\<close>

datatype sub_event =
  ListenerReturned sharded_message listener_outcome
| NoListener sharded_message
| DlqWritten kafka_message
| CommitSent commit_request

record subscriber =
  sc_tick :: nat
  sc_events :: "sub_event list"
  sc_ReplayMap :: "string \<Rightarrow> nat option"
  sc_EventListeners :: "MsgType \<Rightarrow> listener option"
  sc_closed :: bool
  sc_numShards :: nat
  sc_channelBuffer :: nat
  sc_shardChannels :: "sharded_message list list"
  sc_commitCh :: "commit_request list"
  sc_commitStates :: commit_states
  sc_processingWg :: int
  sc_subscribedTopics :: "string list"
  sc_assignments :: partition_assignment
  sc_lastLagRefreshNano :: int
  sc_health :: subscriber_health
  sc_errorPolicy :: "(marked_error \<Rightarrow> bool) option"

definition new_health :: "string \<Rightarrow> nat \<Rightarrow> subscriber_health" where
  "new_health groupID capacity =
     \<lparr>sh_GroupID = groupID, sh_Topics = [], sh_Started = False, sh_Closed = False,
      sh_AssignedPartitions = 0, sh_PausedPartitions = 0, sh_QueueDepth = 0, sh_QueueCapacity = capacity,
      sh_BacklogDepth = 0, sh_PollAttempts = 0, sh_MessagesCommitted = 0, sh_MessagesDLQ = 0,
      sh_RetryCount = 0, sh_BackpressurePauses = 0, sh_MaxReplayDLQ = 0, sh_LastPollAt = None,
      sh_LastMessageAt = None, sh_LastCommitAt = None, sh_LastProgressAt = None, sh_LastErrorAt = None,
      sh_LastError = [], sh_LastTransientErrorAt = None, sh_LastTransientError = [], sh_MaxLag = 0,
      sh_LagByTopic = [], sh_NonRetryableFailures = 0\<rparr>"

text \<open>\<open>NewSubscriber\<close>, once the broker has given a consumer; the two counts are Go integers.\<close>

definition NewSubscriber :: "string \<Rightarrow> int \<Rightarrow> int \<Rightarrow> subscriber" where
  "NewSubscriber groupID shards buffer =
     (let n = (if shards \<le> 0 then DefaultNumShards else nat shards);
          b = (if buffer \<le> 0 then DefaultChannelBuffer else nat buffer)
      in \<lparr>sc_tick = 0, sc_events = [], sc_ReplayMap = Map.empty, sc_EventListeners = Map.empty,
          sc_closed = False, sc_numShards = n, sc_channelBuffer = b,
          sc_shardChannels = replicate n [], sc_commitCh = [], sc_commitStates = Map.empty,
          sc_processingWg = 0, sc_subscribedTopics = [], sc_assignments = newPartitionAssignment,
          sc_lastLagRefreshNano = 0, sc_health = new_health groupID (n * b), sc_errorPolicy = None\<rparr>)"

text \<open>Ask the outside, and write down what it saw.\<close>

definition ask :: "(nat \<Rightarrow> 'a) \<Rightarrow> subscriber \<Rightarrow> 'a \<times> subscriber" where
  "ask f sc = (f (sc_tick sc), sc\<lparr>sc_tick := sc_tick sc + 1\<rparr>)"

definition seen :: "sub_event \<Rightarrow> subscriber \<Rightarrow> subscriber" where
  "seen e sc = sc\<lparr>sc_events := sc_events sc @ [e]\<rparr>"

definition RegisterListener :: "MsgType \<Rightarrow> listener \<Rightarrow> subscriber \<Rightarrow> subscriber" where
  "RegisterListener mt l sc = sc\<lparr>sc_EventListeners := (sc_EventListeners sc)(mt \<mapsto> l)\<rparr>"

definition AddListener :: "(string \<Rightarrow> marked_error + uuid) \<Rightarrow> 'p event_listener \<Rightarrow> subscriber \<Rightarrow> subscriber" where
  "AddListener parse handler sc = RegisterListener (el_MsgType handler) (typed_listener parse handler) sc"

definition ConfigureErrorPolicy :: "(marked_error \<Rightarrow> bool) option \<Rightarrow> subscriber \<Rightarrow> subscriber" where
  "ConfigureErrorPolicy policy sc = sc\<lparr>sc_errorPolicy := policy\<rparr>"

definition isNonRetryableError :: "marked_error \<Rightarrow> subscriber \<Rightarrow> bool" where
  "isNonRetryableError err sc \<longleftrightarrow> IsNonRetryable err \<or>
     (case sc_errorPolicy sc of None \<Rightarrow> False | Some policy \<Rightarrow> policy err)"

section \<open>Health counters\<close>

abbreviation on_health :: "(subscriber_health \<Rightarrow> subscriber_health) \<Rightarrow> subscriber \<Rightarrow> subscriber" where
  "on_health f sc \<equiv> sc\<lparr>sc_health := f (sc_health sc)\<rparr>"

definition setAssignedPartitionCount :: "nat \<Rightarrow> subscriber \<Rightarrow> subscriber" where
  "setAssignedPartitionCount n = on_health (\<lambda>h.
     let h1 = h\<lparr>sh_AssignedPartitions := n\<rparr> in
     if n = 0 then h1\<lparr>sh_PausedPartitions := 0, sh_MaxLag := 0, sh_LagByTopic := []\<rparr> else h1)"

definition setPausedPartitions :: "nat \<Rightarrow> subscriber \<Rightarrow> subscriber" where
  "setPausedPartitions n = on_health (\<lambda>h. h\<lparr>sh_PausedPartitions := n\<rparr>)"

definition markStarted :: "int \<Rightarrow> string list \<Rightarrow> subscriber \<Rightarrow> subscriber" where
  "markStarted now topics = on_health (\<lambda>h.
     h\<lparr>sh_Started := True, sh_Closed := False, sh_Topics := topics, sh_LastProgressAt := Some now\<rparr>)"

definition updateHealthTopics :: "string list \<Rightarrow> subscriber \<Rightarrow> subscriber" where
  "updateHealthTopics topics = on_health (\<lambda>h. h\<lparr>sh_Topics := topics\<rparr>)"

definition markClosed :: "subscriber \<Rightarrow> subscriber" where
  "markClosed = on_health (\<lambda>h. h\<lparr>sh_Closed := True\<rparr>)"

definition recordPollAttempt :: "int \<Rightarrow> subscriber \<Rightarrow> subscriber" where
  "recordPollAttempt now = on_health (\<lambda>h. h\<lparr>sh_LastPollAt := Some now, sh_PollAttempts := sh_PollAttempts h + 1\<rparr>)"

definition recordMessage :: "int \<Rightarrow> subscriber \<Rightarrow> subscriber" where
  "recordMessage now = on_health (\<lambda>h. h\<lparr>sh_LastMessageAt := Some now\<rparr>)"

definition recordCommit :: "int \<Rightarrow> subscriber \<Rightarrow> subscriber" where
  "recordCommit now = on_health (\<lambda>h. h\<lparr>sh_LastCommitAt := Some now, sh_LastProgressAt := Some now,
     sh_MessagesCommitted := sh_MessagesCommitted h + 1\<rparr>)"

definition recordDLQ :: "subscriber \<Rightarrow> subscriber" where
  "recordDLQ = on_health (\<lambda>h. h\<lparr>sh_MessagesDLQ := sh_MessagesDLQ h + 1\<rparr>)"

definition recordRetry :: "subscriber \<Rightarrow> subscriber" where
  "recordRetry = on_health (\<lambda>h. h\<lparr>sh_RetryCount := sh_RetryCount h + 1\<rparr>)"

definition recordNonRetryableFailure :: "subscriber \<Rightarrow> subscriber" where
  "recordNonRetryableFailure = on_health (\<lambda>h. h\<lparr>sh_NonRetryableFailures := sh_NonRetryableFailures h + 1\<rparr>)"

definition recordBackpressurePause :: "subscriber \<Rightarrow> subscriber" where
  "recordBackpressurePause = on_health (\<lambda>h. h\<lparr>sh_BackpressurePauses := sh_BackpressurePauses h + 1\<rparr>)"

definition recordMaxReplayDLQ :: "subscriber \<Rightarrow> subscriber" where
  "recordMaxReplayDLQ = on_health (\<lambda>h. h\<lparr>sh_MaxReplayDLQ := sh_MaxReplayDLQ h + 1\<rparr>)"

definition recordSubscriberError :: "subscriber_env \<Rightarrow> marked_error \<Rightarrow> subscriber \<Rightarrow> subscriber" where
  "recordSubscriberError env err sc = on_health (\<lambda>h.
     h\<lparr>sh_LastErrorAt := Some (se_Now env (sc_tick sc)), sh_LastError := Error_text err\<rparr>) sc"

definition recordTransientSubscriberError :: "subscriber_env \<Rightarrow> marked_error \<Rightarrow> subscriber \<Rightarrow> subscriber" where
  "recordTransientSubscriberError env err sc = on_health (\<lambda>h.
     h\<lparr>sh_LastTransientErrorAt := Some (se_Now env (sc_tick sc)), sh_LastTransientError := Error_text err\<rparr>) sc"

definition setBacklogDepth :: "nat \<Rightarrow> subscriber \<Rightarrow> subscriber" where
  "setBacklogDepth depth = on_health (\<lambda>h. h\<lparr>sh_BacklogDepth := depth\<rparr>)"

definition Health :: "subscriber \<Rightarrow> subscriber_health" where
  "Health sc = (sc_health sc)\<lparr>sh_QueueDepth := sh_BacklogDepth (sc_health sc)
     + sum_list (map length (sc_shardChannels sc))\<rparr>"

end
