(* ===== verification/SubscriberHandling.thy ===== *)
theory SubscriberHandling
  imports Subscriber
begin

text \<open>
  The methods of the subscriber that handle a message, commit an offset or follow a
  rebalance, in the order of \<open>shared_lib/messaging/subscriber.go\<close>. An operation asks the
  outside through \<open>ask\<close>; its result is the Go result with the changed subscriber.
\<close>

section \<open>Admission and the count of messages in flight\<close>

definition wg_add :: "subscriber \<Rightarrow> subscriber" where
  "wg_add sc = sc\<lparr>sc_processingWg := sc_processingWg sc + 1\<rparr>"

definition wg_done :: "subscriber \<Rightarrow> subscriber" where
  "wg_done sc = sc\<lparr>sc_processingWg := sc_processingWg sc - 1\<rparr>"

definition startProcessing :: "subscriber \<Rightarrow> bool \<times> subscriber" where
  "startProcessing sc = (if sc_closed sc then (False, sc) else (True, wg_add sc))"

definition stopProcessingAdmission :: "subscriber \<Rightarrow> subscriber" where
  "stopProcessingAdmission sc = sc\<lparr>sc_closed := True\<rparr>"

definition releaseBacklog :: "sharded_message list \<Rightarrow> subscriber \<Rightarrow> subscriber" where
  "releaseBacklog backlog sc = setBacklogDepth 0 (fold (\<lambda>_. wg_done) backlog sc)"

section \<open>The dead letter queue and the broker\<close>

definition sub_backoff :: "subscriber_env \<Rightarrow> subscriber \<Rightarrow> marked_error option \<times> subscriber" where
  "sub_backoff env sc = (let (answer, sc1) = ask (se_Backoff env) sc in
     (case answer of BackoffStop \<Rightarrow> None | Waited \<Rightarrow> None | Interrupted e \<Rightarrow> Some e, sc1))"

fun dlq_attempts :: "subscriber_env \<Rightarrow> nat \<Rightarrow> marked_error option \<Rightarrow> kafka_message \<Rightarrow> subscriber \<Rightarrow>
    marked_error option \<times> subscriber" where
  "dlq_attempts env 0 err msg sc =
     (Some (WrapError ''failed to send message to DLQ after 3 attempts'' (case err of None \<Rightarrow> [] | Some e \<Rightarrow> [e])), sc)"
| "dlq_attempts env (Suc n) err msg sc =
     (let (answer, sc1) = ask (\<lambda>t. se_WriteMessage env t (km_Value msg)) sc in
      case answer of
        None \<Rightarrow> (None, recordDLQ (seen (DlqWritten msg) sc1))
      | Some e \<Rightarrow> (let (interrupted, sc2) = sub_backoff env sc1 in
          case interrupted of
            Some be \<Rightarrow> (Some (WrapError ''backoff while DLQ write'' [be]), sc2)
          | None \<Rightarrow> dlq_attempts env n (Some e) msg sc2))"

definition sendToDlq :: "subscriber_env \<Rightarrow> kafka_message \<Rightarrow> subscriber \<Rightarrow> marked_error option \<times> subscriber" where
  "sendToDlq env msg sc = dlq_attempts env MaxCommitAttempts None msg sc"

text \<open>\<open>se_CtxErr\<close> is the state of the context the coordinator runs under.\<close>

fun commit_attempts :: "subscriber_env \<Rightarrow> nat \<Rightarrow> marked_error option \<Rightarrow> commit_request \<Rightarrow> subscriber \<Rightarrow>
    marked_error option \<times> subscriber" where
  "commit_attempts env 0 err req sc =
     (Some (WrapError ''failed to commit message after 3 attempts'' (case err of None \<Rightarrow> [] | Some e \<Rightarrow> [e])), sc)"
| "commit_attempts env (Suc n) err req sc =
     (let (answer, sc1) = ask (\<lambda>t. se_CommitMessage env t (cr_msg req)) sc in
      case answer of
        None \<Rightarrow> (None, recordCommit (se_Now env (sc_tick sc1)) (seen (CommitSent req) sc1))
      | Some e \<Rightarrow> (let (cancelled, sc2) = ask (se_CtxErr env) sc1 in
          case cancelled of
            Some ce \<Rightarrow> (Some ce, sc2)
          | None \<Rightarrow> (let (interrupted, sc3) = sub_backoff env sc2 in
              case interrupted of
                Some be \<Rightarrow> (Some be, sc3)
              | None \<Rightarrow> commit_attempts env n (Some e) req sc3)))"

definition commitMessageWithRetry :: "subscriber_env \<Rightarrow> commit_request \<Rightarrow> subscriber \<Rightarrow> marked_error option \<times> subscriber" where
  "commitMessageWithRetry env req sc = commit_attempts env MaxCommitAttempts None req sc"

section \<open>Commits\<close>

definition commitRequestFor :: "sharded_message \<Rightarrow> commit_request" where
  "commitRequestFor sm = \<lparr>cr_msg = sm_msg sm, cr_assignment = sm_assignment sm,
     cr_messageType = MsgType_String (ms_MsgType (sm_message sm))\<rparr>"

text \<open>
  The send on the commit channel waits for room; the steps of \<open>SubscriberSystem\<close> that
  request a commit are not enabled before there is some.
\<close>

definition requestCommit :: "commit_request \<Rightarrow> subscriber \<Rightarrow> subscriber" where
  "requestCommit req sc =
     (if IsCurrent (sc_assignments sc) (cr_assignment req) then sc\<lparr>sc_commitCh := sc_commitCh sc @ [req]\<rparr>
      else sc)"

text \<open>\<open>commitReadyMessages\<close> in one go; the errors of a commit are only logged.\<close>

fun commit_each :: "subscriber_env \<Rightarrow> commit_request list \<Rightarrow> subscriber \<Rightarrow> subscriber" where
  "commit_each env [] sc = sc"
| "commit_each env (req # reqs) sc =
     commit_each env reqs
       (if IsCurrent (sc_assignments sc) (cr_assignment req) then snd (commitMessageWithRetry env req sc) else sc)"

definition commitReadyMessages :: "subscriber_env \<Rightarrow> commit_request \<Rightarrow> subscriber \<Rightarrow> subscriber" where
  "commitReadyMessages env completed sc =
     (let (reqs, states) = readyToCommit (sc_assignments sc) completed (sc_commitStates sc)
      in commit_each env reqs (sc\<lparr>sc_commitStates := states\<rparr>))"

section \<open>Rebalances\<close>

definition recordAssignedPartitions :: "topic_partition list \<Rightarrow> subscriber \<Rightarrow> subscriber" where
  "recordAssignedPartitions partitions sc =
     setAssignedPartitionCount (length partitions)
       (sc\<lparr>sc_assignments := Assign partitions (sc_assignments sc)\<rparr>)"

definition recordRevokedPartitions :: "topic_partition list \<Rightarrow> subscriber \<Rightarrow> topic_partition list \<times> subscriber" where
  "recordRevokedPartitions partitions sc =
     (let (held, a) = RevokeAll (sc_assignments sc);
          revoked = (if held = [] then partitions else held)
      in (revoked, setAssignedPartitionCount 0
           (sc\<lparr>sc_assignments := a,
               sc_commitStates := clearCommitStateForPartitions revoked (sc_commitStates sc)\<rparr>)))"

definition releaseBacklogForPartitions :: "sharded_message list \<Rightarrow> topic_partition list \<Rightarrow> subscriber \<Rightarrow>
    sharded_message list \<times> subscriber" where
  "releaseBacklogForPartitions backlog partitions sc =
     (if backlog = [] \<or> partitions = [] then (backlog, sc)
      else let revoked = map newTopicPartitionKey partitions;
               gone = filter (\<lambda>sm. msg_key (sm_msg sm) \<in> set revoked) backlog
           in (filter (\<lambda>sm. msg_key (sm_msg sm) \<notin> set revoked) backlog, fold (\<lambda>_. wg_done) gone sc))"

definition releaseShardQueuesForRevokedAssignments :: "subscriber \<Rightarrow> subscriber" where
  "releaseShardQueuesForRevokedAssignments sc =
     (fold (\<lambda>_. wg_done) (concat (sc_shardChannels sc)) sc)
       \<lparr>sc_shardChannels := map (\<lambda>_. []) (sc_shardChannels sc)\<rparr>"

section \<open>Backpressure\<close>

fun remove_counted :: "topic_partition_key list \<Rightarrow> topic_partition_key list \<Rightarrow> bool" where
  "remove_counted counts [] = (counts = [])"
| "remove_counted counts (k # ks) = (if k \<in> set counts then remove_counted (remove1 k counts) ks else False)"

text \<open>The counters of \<open>sameTopicPartitions\<close> as the list of keys still to be found.\<close>

definition sameTopicPartitions :: "topic_partition list \<Rightarrow> topic_partition list \<Rightarrow> bool" where
  "sameTopicPartitions left right =
     (if length left \<noteq> length right then False
      else remove_counted (map newTopicPartitionKey left) (map newTopicPartitionKey right))"

text \<open>
  A rebalance runs on the goroutine that polls, as these two do, so the assignment read after
  a refused request is the one read before it.
\<close>

definition pauseAssignedPartitions :: "subscriber_env \<Rightarrow> subscriber \<Rightarrow> subscriber" where
  "pauseAssignedPartitions env sc = (case se_Pause env of None \<Rightarrow> sc
     | Some pause \<Rightarrow>
         let partitions = Current (sc_assignments sc) in
         if partitions = [] then sc
         else let (answer, sc1) = ask (\<lambda>t. pause t partitions) sc in
           case answer of
             Some e \<Rightarrow> if \<not> sameTopicPartitions partitions (Current (sc_assignments sc1)) then sc1
                 else recordSubscriberError env e sc1
           | None \<Rightarrow> recordBackpressurePause (setPausedPartitions (length partitions) sc1))"

definition resumeAssignedPartitions :: "subscriber_env \<Rightarrow> subscriber \<Rightarrow> subscriber" where
  "resumeAssignedPartitions env sc = (case se_Resume env of None \<Rightarrow> sc
     | Some resume \<Rightarrow>
         let partitions = Current (sc_assignments sc) in
         if partitions = [] then setPausedPartitions 0 sc
         else let (answer, sc1) = ask (\<lambda>t. resume t partitions) sc in
           case answer of
             Some e \<Rightarrow> if \<not> sameTopicPartitions partitions (Current (sc_assignments sc1))
                 then setPausedPartitions 0 sc1
                 else recordSubscriberError env e sc1
           | None \<Rightarrow> setPausedPartitions 0 sc1)"

section \<open>Lag\<close>

text \<open>
  The lag of one position and what it adds to the report; a position without a topic, without
  an offset or without a known high watermark is passed over.
\<close>

definition lag_of :: "int \<Rightarrow> int \<Rightarrow> int" where
  "lag_of high offset = (if high - offset < 0 then 0 else high - offset)"

fun measure_lag :: "subscriber_env \<Rightarrow> topic_partition list \<Rightarrow> (string \<times> int) list \<Rightarrow> int \<Rightarrow> subscriber \<Rightarrow>
    (string \<times> int) list \<times> int \<times> subscriber" where
  "measure_lag env [] by_topic max_lag sc = (by_topic, max_lag, sc)"
| "measure_lag env (p # ps) by_topic max_lag sc =
     (if tp_Topic p = None \<or> tp_Offset p < 0 then measure_lag env ps by_topic max_lag sc
      else let (answer, sc1) = ask (\<lambda>t. se_HighWatermark env t (topicName p) (tp_Partition p)) sc in
        case answer of
          Inl _ \<Rightarrow> measure_lag env ps by_topic max_lag sc1
        | Inr high \<Rightarrow>
            (let lag = lag_of high (tp_Offset p);
                 old = (case map_of by_topic (topicName p) of None \<Rightarrow> 0 | Some l \<Rightarrow> l)
             in measure_lag env ps
                  (if old < lag then AList.update (topicName p) lag by_topic else by_topic)
                  (if max_lag < lag then lag else max_lag) sc1))"

text \<open>
  The clock is in nanoseconds since 1970 and \<open>time.Unix(0, 0)\<close> is not the zero time, so the
  five seconds are measured from 1970 before the first report.
\<close>

definition refreshLag :: "subscriber_env \<Rightarrow> subscriber \<Rightarrow> subscriber" where
  "refreshLag env sc = (case se_Position env of None \<Rightarrow> sc
     | Some position \<Rightarrow>
         let (now, sc1) = ask (se_Now env) sc in
         if now - sc_lastLagRefreshNano sc1 < 5000000000 then sc1
         else let sc2 = sc1\<lparr>sc_lastLagRefreshNano := now\<rparr>;
                  partitions = Current (sc_assignments sc2)
           in if partitions = [] then sc2
              else let (answer, sc3) = ask (\<lambda>t. position t partitions) sc2 in
                case answer of
                  Inl e \<Rightarrow> recordSubscriberError env e sc3
                | Inr positions \<Rightarrow>
                    (let (by_topic, max_lag, sc4) = measure_lag env positions [] 0 sc3
                     in on_health (\<lambda>h. h\<lparr>sh_MaxLag := max_lag, sh_LagByTopic := by_topic\<rparr>) sc4))"

section \<open>From the broker to a shard\<close>

definition Message_Deserialize :: "subscriber_env \<Rightarrow> string \<Rightarrow> marked_error option \<times> message" where
  "Message_Deserialize env bytes = (case se_Unmarshal env bytes of
     Inl e \<Rightarrow> (Some (WrapError ''invalid message envelope'' [e]),
       \<lparr>ms_ResourceKey = uuid_nil, ms_MsgType = MsgTypeUnknown, ms_Payload = []\<rparr>)
   | Inr m \<Rightarrow> (case Message_Validate m of None \<Rightarrow> None
       | Some (EnvelopeInvalid text) \<Rightarrow> Some (TextError text)
       | Some _ \<Rightarrow> Some (TextError []), m))"

datatype prepared = Prepared sharded_message | Skipped | PrepareFailed marked_error

definition prepareMessage :: "subscriber_env \<Rightarrow> kafka_message \<Rightarrow> subscriber \<Rightarrow> prepared \<times> subscriber" where
  "prepareMessage env msg sc =
     (let sc1 = recordMessage (se_Now env (sc_tick sc)) sc;
          assignment = Token (km_TopicPartition msg) (sc_assignments sc1)
      in if \<not> at_valid assignment then (Skipped, sc1)
         else let (invalid, m) = Message_Deserialize env (km_Value msg) in
           case invalid of
             Some _ \<Rightarrow> (let (dlq, sc2) = sendToDlq env msg sc1 in
               case dlq of
                 Some e \<Rightarrow> (PrepareFailed (WrapError ''send invalid Kafka message to DLQ'' [e]), recordSubscriberError env e sc2)
               | None \<Rightarrow> (Skipped, requestCommit
                   \<lparr>cr_msg = msg, cr_assignment = assignment, cr_messageType = ''deserialize_error''\<rparr> sc2))
           | None \<Rightarrow> (let (admitted, sc2) = startProcessing sc1 in
               if \<not> admitted then (PrepareFailed ContextCanceled, sc2)
               else (Prepared \<lparr>sm_ctx = se_MsgContext env msg, sm_msg = msg, sm_message = m, sm_assignment = assignment\<rparr>,
                     sc2\<lparr>sc_commitStates := registerInFlight msg (sc_commitStates sc2)\<rparr>)))"

definition shard_room :: "nat \<Rightarrow> subscriber \<Rightarrow> bool" where
  "shard_room i sc \<longleftrightarrow> length (sc_shardChannels sc ! i) < sc_channelBuffer sc"

definition enqueue_shard :: "nat \<Rightarrow> sharded_message \<Rightarrow> subscriber \<Rightarrow> subscriber" where
  "enqueue_shard i sm sc =
     sc\<lparr>sc_shardChannels := (sc_shardChannels sc)[i := sc_shardChannels sc ! i @ [sm]]\<rparr>"

definition shard_of :: "sharded_message \<Rightarrow> subscriber \<Rightarrow> nat" where
  "shard_of sm sc = getShardID (sc_numShards sc) (ms_ResourceKey (sm_message sm))"

definition tryDispatch :: "sharded_message \<Rightarrow> subscriber \<Rightarrow> bool \<times> subscriber" where
  "tryDispatch sm sc =
     (if \<not> IsCurrent (sc_assignments sc) (sm_assignment sm) then (True, wg_done sc)
      else if shard_room (shard_of sm sc) sc then (True, enqueue_shard (shard_of sm sc) sm sc)
      else (False, sc))"

fun drainDispatchBacklog :: "sharded_message list \<Rightarrow> subscriber \<Rightarrow> sharded_message list \<times> subscriber" where
  "drainDispatchBacklog [] sc = ([], sc)"
| "drainDispatchBacklog (sm # backlog) sc =
     (let (sent, sc1) = tryDispatch sm sc in
      if sent then drainDispatchBacklog backlog sc1 else (sm # backlog, sc1))"

section \<open>Handling a message\<close>

definition replay_key :: "topic_partition \<Rightarrow> string" where
  "replay_key tp = topicName tp @ ''-'' @ int_text (tp_Partition tp) @ ''-'' @ int_text (tp_Offset tp)"

definition removeReplayKey :: "topic_partition \<Rightarrow> subscriber \<Rightarrow> subscriber" where
  "removeReplayKey tp sc = sc\<lparr>sc_ReplayMap := (sc_ReplayMap sc)(replay_key tp := None)\<rparr>"

definition replay_attempts :: "topic_partition \<Rightarrow> subscriber \<Rightarrow> nat" where
  "replay_attempts tp sc = (case sc_ReplayMap sc (replay_key tp) of None \<Rightarrow> 0 | Some n \<Rightarrow> n)"

text \<open>
  What a worker does next: it is done with the message, it waits for its backoff before it
  puts the message back, or it calls the listener.
\<close>

datatype next_action = Finished | WaitAndReplay | CallListener listener

definition retry_failed :: "subscriber_env \<Rightarrow> marked_error \<Rightarrow> subscriber \<Rightarrow> subscriber" where
  "retry_failed env e sc = (if is_canceled e then sc else recordSubscriberError env e sc)"

text \<open>\<open>replayMessageToShard\<close> up to its wait; the caller reports the error it returns.\<close>

definition replay_begin :: "subscriber_env \<Rightarrow> sharded_message \<Rightarrow> subscriber \<Rightarrow> next_action \<times> subscriber" where
  "replay_begin env sm sc =
     (let tp = km_TopicPartition (sm_msg sm); attempts = replay_attempts tp sc in
      if MaxReplayAttempts \<le> attempts then
        (let (dlq, sc1) = sendToDlq env (sm_msg sm) (recordMaxReplayDLQ sc) in
         case dlq of
           Some e \<Rightarrow> (Finished, retry_failed env (WrapError ''send max-replay Kafka message to DLQ'' [e])
               (recordSubscriberError env e sc1))
         | None \<Rightarrow> (Finished, removeReplayKey tp (requestCommit (commitRequestFor sm) sc1)))
      else (WaitAndReplay,
        recordRetry (sc\<lparr>sc_ReplayMap := (sc_ReplayMap sc)(replay_key tp \<mapsto> attempts + 1)\<rparr>)))"

definition finish_message :: "sharded_message \<Rightarrow> subscriber \<Rightarrow> next_action \<times> subscriber" where
  "finish_message sm sc =
     (Finished, removeReplayKey (km_TopicPartition (sm_msg sm)) (requestCommit (commitRequestFor sm) sc))"

text \<open>\<open>processMessage\<close> up to the call of the listener.\<close>

definition process_begin :: "sharded_message \<Rightarrow> subscriber \<Rightarrow> next_action \<times> subscriber" where
  "process_begin sm sc =
     (if \<not> IsCurrent (sc_assignments sc) (sm_assignment sm) then (Finished, sc)
      else case sc_EventListeners sc (ms_MsgType (sm_message sm)) of
        None \<Rightarrow> (Finished, requestCommit (commitRequestFor sm) (seen (NoListener sm) sc))
      | Some l \<Rightarrow> (CallListener l, sc))"

text \<open>The recovered panic of \<open>processMessage\<close>.\<close>

definition process_panicked :: "subscriber_env \<Rightarrow> sharded_message \<Rightarrow> subscriber \<Rightarrow> next_action \<times> subscriber" where
  "process_panicked env sm sc =
     (let (dlq, sc1) = sendToDlq env (sm_msg sm) (recordNonRetryableFailure sc) in
      case dlq of
        Some _ \<Rightarrow> (Finished, removeReplayKey (km_TopicPartition (sm_msg sm)) sc1)
      | None \<Rightarrow> finish_message sm sc1)"

text \<open>\<open>processMessage\<close> from the return of the listener on.\<close>

definition process_returned :: "subscriber_env \<Rightarrow> sharded_message \<Rightarrow> listener_outcome \<Rightarrow> subscriber \<Rightarrow>
    next_action \<times> subscriber" where
  "process_returned env sm outcome sc0 =
     (let sc = seen (ListenerReturned sm outcome) sc0 in
      case outcome of
        Panicked _ \<Rightarrow> process_panicked env sm sc
      | Returned None \<Rightarrow> finish_message sm sc
      | Returned (Some err) \<Rightarrow>
          if IsAlreadyProcessed err then finish_message sm sc
          else if isNonRetryableError err sc then
            (let (dlq, sc1) = sendToDlq env (sm_msg sm) (recordNonRetryableFailure sc) in
             case dlq of
               Some e \<Rightarrow> replay_begin env sm (recordSubscriberError env e sc1)
             | None \<Rightarrow> finish_message sm sc1)
          else replay_begin env sm (recordSubscriberError env err sc))"

section \<open>Topics\<close>

text \<open>
  The registration of topics before a subscription, and the later addition of topics. The
  topics of a set are listed in the order they came; the creation of topics only warns.
\<close>

fun add_topics :: "string list \<Rightarrow> string list \<Rightarrow> string list \<times> string list" where
  "add_topics [] held = ([], held)"
| "add_topics (t # ts) held =
     (if t \<in> set held then add_topics ts held
      else let (new, held') = add_topics ts (held @ [t]) in (t # new, held'))"

definition AddTopics :: "subscriber_env \<Rightarrow> string list \<Rightarrow> subscriber \<Rightarrow> marked_error option \<times> subscriber" where
  "AddTopics env topics sc =
     (if topics = [] then (None, sc)
      else let (new, held) = add_topics topics (sc_subscribedTopics sc);
               sc1 = sc\<lparr>sc_subscribedTopics := held\<rparr>
        in if new = [] then (None, sc1)
           else let (answer, sc2) = ask (\<lambda>t. se_SubscribeTopics env t held) sc1 in
             case answer of
               Some e \<Rightarrow> (Some (WrapError ''failed to add topics'' [e]), recordSubscriberError env e sc2)
             | None \<Rightarrow> (None, updateHealthTopics held sc2))"

definition Subscribe_topics :: "subscriber_env \<Rightarrow> string list \<Rightarrow> subscriber \<Rightarrow> marked_error option \<times> subscriber" where
  "Subscribe_topics env topics sc =
     (let sc1 = markStarted (se_Now env (sc_tick sc)) topics
            (sc\<lparr>sc_subscribedTopics := snd (add_topics topics (sc_subscribedTopics sc))\<rparr>);
          (answer, sc2) = ask (\<lambda>t. se_SubscribeTopics env t topics) sc1
      in case answer of
           Some e \<Rightarrow> (Some (WrapError ''failed to subscribe to topics'' [e]), recordSubscriberError env e sc2)
         | None \<Rightarrow> (None, sc2))"

end
