(* ===== verification/SubscriberSystem.thy ===== *)
theory SubscriberSystem
  imports SubscriberHandling
begin

text \<open>
  The goroutines \<open>Subscribe\<close> starts in \<open>shared_lib/messaging/subscriber.go\<close>: one loop that
  polls the broker, one worker per shard and one coordinator of the commits. A label names
  the goroutine that makes the next step; \<open>sub_step\<close> is that step, or \<open>None\<close> when the
  goroutine has to wait. A step ends where another goroutine can come between: at a channel,
  at the call of a listener, at a wait, and between the checks of the assignment.
\<close>

section \<open>Goroutines\<close>

datatype worker =
  WIdle
| WReceived sharded_message
| WHandling listener sharded_message
| WWaiting sharded_message
| WAdmitted sharded_message
| WSending sharded_message

datatype coordinator =
  CoIdle
| CoChecked commit_request
| CoReady "commit_request list"
| CoCommitting commit_request "commit_request list"

datatype loop_phase = LoopRunning | LoopStopping marked_error | LoopStopped marked_error

record sub_world =
  sw_sub :: subscriber
  sw_backlog :: "sharded_message list"
  sw_paused :: bool
  sw_workers :: "worker list"
  sw_coord :: coordinator
  sw_loop :: loop_phase

datatype kafka_event =
  EvMessage kafka_message
| EvAssigned "topic_partition list"
| EvRevoked "topic_partition list"
| EvError marked_error bool
| EvOther

section \<open>The polling loop\<close>

definition rebalanceCallback :: "kafka_event \<Rightarrow> subscriber \<Rightarrow> subscriber" where
  "rebalanceCallback ev sc = (case ev of
     EvAssigned partitions \<Rightarrow> recordAssignedPartitions partitions sc
   | EvRevoked partitions \<Rightarrow> snd (recordRevokedPartitions partitions sc)
   | _ \<Rightarrow> sc)"

text \<open>The deferred function of the loop, up to its wait for the messages in flight.\<close>

definition exit_loop :: "marked_error \<Rightarrow> sub_world \<Rightarrow> sub_world" where
  "exit_loop e w = w\<lparr>sw_sub := releaseBacklog (sw_backlog w) (markClosed (stopProcessingAdmission (sw_sub w))),
     sw_backlog := [], sw_loop := LoopStopping e\<rparr>"

definition on_message :: "subscriber_env \<Rightarrow> kafka_message \<Rightarrow> sub_world \<Rightarrow> sub_world" where
  "on_message env msg w =
     (let (p, sc1) = prepareMessage env msg (sw_sub w) in
      case p of
        PrepareFailed e \<Rightarrow> exit_loop e (w\<lparr>sw_sub := sc1\<rparr>)
      | Skipped \<Rightarrow> w\<lparr>sw_sub := sc1\<rparr>
      | Prepared sm \<Rightarrow>
          (let (sent, sc2) = tryDispatch sm sc1 in
           if sent then w\<lparr>sw_sub := sc2\<rparr>
           else let backlog = sw_backlog w @ [sm]; sc3 = setBacklogDepth (length backlog) sc2 in
             w\<lparr>sw_backlog := backlog, sw_paused := True,
               sw_sub := (if sw_paused w then sc3 else pauseAssignedPartitions env sc3)\<rparr>))"

definition on_revoked :: "topic_partition list \<Rightarrow> sub_world \<Rightarrow> sub_world" where
  "on_revoked partitions w =
     (let (revoked, sc1) = recordRevokedPartitions partitions (sw_sub w);
          (backlog, sc2) = releaseBacklogForPartitions (sw_backlog w) revoked sc1
      in w\<lparr>sw_backlog := backlog, sw_paused := False,
           sw_sub := setBacklogDepth (length backlog) (releaseShardQueuesForRevokedAssignments sc2)\<rparr>)"

definition on_error :: "subscriber_env \<Rightarrow> marked_error \<Rightarrow> bool \<Rightarrow> sub_world \<Rightarrow> sub_world" where
  "on_error env e fatal w =
     (if fatal then exit_loop e (w\<lparr>sw_sub := recordSubscriberError env e (sw_sub w)\<rparr>)
      else let (interrupted, sc1) = sub_backoff env (recordTransientSubscriberError env e (sw_sub w)) in
        case interrupted of
          Some be \<Rightarrow> exit_loop be (w\<lparr>sw_sub := sc1\<rparr>)
        | None \<Rightarrow> w\<lparr>sw_sub := sc1\<rparr>)"

definition on_event :: "subscriber_env \<Rightarrow> kafka_event option \<Rightarrow> sub_world \<Rightarrow> sub_world" where
  "on_event env ev w = (case ev of
     None \<Rightarrow> w
   | Some (EvMessage msg) \<Rightarrow> on_message env msg w
   | Some (EvAssigned partitions) \<Rightarrow> w\<lparr>sw_sub := recordAssignedPartitions partitions (sw_sub w)\<rparr>
   | Some (EvRevoked partitions) \<Rightarrow> on_revoked partitions w
   | Some (EvError e fatal) \<Rightarrow> on_error env e fatal w
   | Some EvOther \<Rightarrow> w)"

text \<open>The start of an iteration: what is left over goes first, then the partitions resume.\<close>

definition drained :: "sharded_message list \<Rightarrow> subscriber \<Rightarrow> sharded_message list \<times> subscriber" where
  "drained backlog sc =
     (if backlog = [] then ([], sc)
      else let (rest, sc1) = drainDispatchBacklog backlog sc in (rest, setBacklogDepth (length rest) sc1))"

definition drain_loop :: "subscriber_env \<Rightarrow> sub_world \<Rightarrow> sub_world" where
  "drain_loop env w =
     (let (backlog, sc1) = drained (sw_backlog w) (sw_sub w);
          resume = (backlog = [] \<and> sw_paused w)
      in w\<lparr>sw_backlog := backlog, sw_paused := (sw_paused w \<and> \<not> resume),
           sw_sub := (if resume then resumeAssignedPartitions env sc1 else sc1)\<rparr>)"

text \<open>\<open>calls\<close> are the rebalances the client library reports to the callback during the poll.\<close>

definition polled :: "subscriber_env \<Rightarrow> kafka_event list \<Rightarrow> subscriber \<Rightarrow> subscriber" where
  "polled env calls sc =
     (let sc1 = fold rebalanceCallback calls sc
      in refreshLag env (recordPollAttempt (se_Now env (sc_tick sc1)) sc1))"

definition poll_iteration :: "subscriber_env \<Rightarrow> kafka_event list \<Rightarrow> kafka_event option \<Rightarrow> sub_world \<Rightarrow> sub_world" where
  "poll_iteration env calls ev w =
     (let (cancelled, sc1) = ask (se_CtxErr env) (sw_sub w) in
      case cancelled of
        Some e \<Rightarrow> exit_loop e (w\<lparr>sw_sub := sc1\<rparr>)
      | None \<Rightarrow>
          (let w1 = drain_loop env (w\<lparr>sw_sub := sc1\<rparr>);
               (cancelled', sc2) = ask (se_CtxErr env) (polled env calls (sw_sub w1))
           in case cancelled' of
                Some e \<Rightarrow> exit_loop e (w1\<lparr>sw_sub := sc2\<rparr>)
              | None \<Rightarrow> on_event env ev (w1\<lparr>sw_sub := sc2\<rparr>)))"

section \<open>Workers\<close>

definition set_worker :: "nat \<Rightarrow> worker \<Rightarrow> sub_world \<Rightarrow> sub_world" where
  "set_worker i p w = w\<lparr>sw_workers := (sw_workers w)[i := p]\<rparr>"

definition set_sub :: "subscriber \<Rightarrow> sub_world \<Rightarrow> sub_world" where
  "set_sub sc w = w\<lparr>sw_sub := sc\<rparr>"

text \<open>The worker's own \<open>Done\<close> when \<open>processMessage\<close> has returned.\<close>

definition after_action :: "nat \<Rightarrow> sharded_message \<Rightarrow> next_action \<times> subscriber \<Rightarrow> sub_world \<Rightarrow> sub_world" where
  "after_action i sm r w = (case r of
     (Finished, sc) \<Rightarrow> set_worker i WIdle (set_sub (wg_done sc) w)
   | (WaitAndReplay, sc) \<Rightarrow> set_worker i (WWaiting sm) (set_sub sc w)
   | (CallListener l, sc) \<Rightarrow> set_worker i (WHandling l sm) (set_sub sc w))"

definition commit_room :: "subscriber \<Rightarrow> bool" where
  "commit_room sc \<longleftrightarrow> length (sc_commitCh sc) < sc_numShards sc * sc_channelBuffer sc"

definition receive :: "nat \<Rightarrow> sub_world \<Rightarrow> sub_world option" where
  "receive i w = (case sc_shardChannels (sw_sub w) ! i of [] \<Rightarrow> None
     | sm # sms \<Rightarrow> Some (set_worker i (WReceived sm)
         (set_sub ((sw_sub w)\<lparr>sc_shardChannels := (sc_shardChannels (sw_sub w))[i := sms]\<rparr>) w)))"

text \<open>
  The rest of \<open>replayMessageToShard\<close>: the wait, the admission after the first look at the
  assignment, the second look, and the send, which waits for room in the shard's channel or
  for the end of the context.
\<close>

definition replay_wake :: "subscriber_env \<Rightarrow> nat \<Rightarrow> sharded_message \<Rightarrow> sub_world \<Rightarrow> sub_world" where
  "replay_wake env i sm w =
     (let (interrupted, sc1) = sub_backoff env (sw_sub w) in
      case interrupted of
        Some e \<Rightarrow> after_action i sm (Finished, retry_failed env e sc1) w
      | None \<Rightarrow>
          if \<not> IsCurrent (sc_assignments sc1) (sm_assignment sm) then after_action i sm (Finished, sc1) w
          else (let (admitted, sc2) = startProcessing sc1 in
            if \<not> admitted then after_action i sm (Finished, sc2) w
            else set_worker i (WAdmitted sm) (set_sub sc2 w)))"

definition replay_check :: "nat \<Rightarrow> sharded_message \<Rightarrow> sub_world \<Rightarrow> sub_world" where
  "replay_check i sm w =
     (if \<not> IsCurrent (sc_assignments (sw_sub w)) (sm_assignment sm)
      then after_action i sm (Finished, wg_done (sw_sub w)) w
      else set_worker i (WSending sm) w)"

definition replay_send :: "subscriber_env \<Rightarrow> nat \<Rightarrow> sharded_message \<Rightarrow> sub_world \<Rightarrow> sub_world option" where
  "replay_send env i sm w =
     (let (cancelled, sc1) = ask (se_CtxErr env) (sw_sub w); shard = shard_of sm sc1 in
      case cancelled of
        Some e \<Rightarrow> Some (after_action i sm (Finished, retry_failed env e (wg_done sc1)) w)
      | None \<Rightarrow> if shard_room shard sc1
          then Some (after_action i sm (Finished, enqueue_shard shard sm sc1) w) else None)"

definition worker_step :: "subscriber_env \<Rightarrow> nat \<Rightarrow> sub_world \<Rightarrow> sub_world option" where
  "worker_step env i w = (case sw_workers w ! i of
     WIdle \<Rightarrow> receive i w
   | WReceived sm \<Rightarrow> if commit_room (sw_sub w) then Some (after_action i sm (process_begin sm (sw_sub w)) w) else None
   | WHandling l sm \<Rightarrow> if commit_room (sw_sub w)
       then (let (outcome, sc1) = ask (l (sm_ctx sm) (sm_message sm)) (sw_sub w)
             in Some (after_action i sm (process_returned env sm outcome sc1) w))
       else None
   | WWaiting sm \<Rightarrow> Some (replay_wake env i sm w)
   | WAdmitted sm \<Rightarrow> Some (replay_check i sm w)
   | WSending sm \<Rightarrow> replay_send env i sm w)"

section \<open>The coordinator of the commits\<close>

text \<open>
  \<open>commitReadyMessages\<close> with its steps apart: the look at the assignment in
  \<open>readyToCommit\<close>, the part under the mutex, and for each ready request the second look
  and the commit.
\<close>

definition coordinator_step :: "subscriber_env \<Rightarrow> sub_world \<Rightarrow> sub_world option" where
  "coordinator_step env w = (let sc = sw_sub w in case sw_coord w of
     CoIdle \<Rightarrow> (case sc_commitCh sc of [] \<Rightarrow> None
       | req # reqs \<Rightarrow> Some (w\<lparr>sw_sub := sc\<lparr>sc_commitCh := reqs\<rparr>,
           sw_coord := (if IsCurrent (sc_assignments sc) (cr_assignment req) then CoChecked req else CoIdle)\<rparr>))
   | CoChecked req \<Rightarrow> (let (reqs, states) = mark_ready req (sc_commitStates sc)
       in Some (w\<lparr>sw_sub := sc\<lparr>sc_commitStates := states\<rparr>, sw_coord := CoReady reqs\<rparr>))
   | CoReady [] \<Rightarrow> Some (w\<lparr>sw_coord := CoIdle\<rparr>)
   | CoReady (req # reqs) \<Rightarrow>
       Some (w\<lparr>sw_coord := (if IsCurrent (sc_assignments sc) (cr_assignment req) then CoCommitting req reqs
          else CoReady reqs)\<rparr>)
   | CoCommitting req reqs \<Rightarrow>
       Some (w\<lparr>sw_sub := snd (commitMessageWithRetry env req sc), sw_coord := CoReady reqs\<rparr>))"

section \<open>Steps and runs\<close>

text \<open>\<open>Close\<close> is the end of the deferred function: no message is in flight, the channels close.\<close>

datatype sub_label =
  Poll "kafka_event list" "kafka_event option"
| CloseChannels
| Worker nat
| Coordinator
| Listen MsgType listener
| Policy "(marked_error \<Rightarrow> bool) option"
| Topics "string list"

definition close_step :: "sub_world \<Rightarrow> sub_world option" where
  "close_step w = (case sw_loop w of
     LoopStopping e \<Rightarrow> if sc_processingWg (sw_sub w) = 0 then Some (w\<lparr>sw_loop := LoopStopped e\<rparr>) else None
   | _ \<Rightarrow> None)"

fun sub_step :: "subscriber_env \<Rightarrow> sub_label \<Rightarrow> sub_world \<Rightarrow> sub_world option" where
  "sub_step env (Poll calls ev) w =
     (if sw_loop w = LoopRunning \<and> commit_room (sw_sub w) then Some (poll_iteration env calls ev w) else None)"
| "sub_step env CloseChannels w = close_step w"
| "sub_step env (Worker i) w = (if i < length (sw_workers w) then worker_step env i w else None)"
| "sub_step env Coordinator w = coordinator_step env w"
| "sub_step env (Listen t l) w = Some (w\<lparr>sw_sub := RegisterListener t l (sw_sub w)\<rparr>)"
| "sub_step env (Policy p) w = Some (w\<lparr>sw_sub := ConfigureErrorPolicy p (sw_sub w)\<rparr>)"
| "sub_step env (Topics ts) w = Some (w\<lparr>sw_sub := snd (AddTopics env ts (sw_sub w))\<rparr>)"

fun sub_run :: "subscriber_env \<Rightarrow> sub_label list \<Rightarrow> sub_world \<Rightarrow> sub_world option" where
  "sub_run env [] w = Some w"
| "sub_run env (l # ls) w = (case sub_step env l w of None \<Rightarrow> None | Some w' \<Rightarrow> sub_run env ls w')"

text \<open>A subscription that the broker accepted.\<close>

definition sub_init :: "subscriber_env \<Rightarrow> string \<Rightarrow> int \<Rightarrow> int \<Rightarrow> string list \<Rightarrow> sub_world" where
  "sub_init env groupID shards buffer topics =
     (let sc = snd (Subscribe_topics env topics (NewSubscriber groupID shards buffer)) in
      \<lparr>sw_sub = sc, sw_backlog = [], sw_paused = False, sw_workers = replicate (sc_numShards sc) WIdle,
       sw_coord = CoIdle, sw_loop = LoopRunning\<rparr>)"

lemma sub_run_append:
  "sub_run env (ls @ ks) w = (case sub_run env ls w of None \<Rightarrow> None | Some w' \<Rightarrow> sub_run env ks w')"
  by (induction ls arbitrary: w) (auto split: option.splits)

lemma sub_run_invariant:
  assumes "sub_run env ls w = Some w'" "P w"
    and "\<And>l v v'. l \<in> set ls \<Longrightarrow> P v \<Longrightarrow> sub_step env l v = Some v' \<Longrightarrow> P v'"
  shows "P w'"
  using assms
proof (induction ls arbitrary: w)
  case (Cons l ls)
  then obtain v where "sub_step env l w = Some v" "sub_run env ls v = Some w'"
    by (auto split: option.splits)
  with Cons show ?case by (meson list.set_intros)
qed simp

end
