(* ===== verification/SubscriberAccounting.thy ===== *)
theory SubscriberAccounting
  imports SubscriberSystem
begin

text \<open>
  The count of messages in flight that the subscriber of \<open>SubscriberSystem\<close> keeps in
  \<open>processingWg\<close> is exact in every run, so the channels are closed only when no goroutine
  can send on them any more.
\<close>

section \<open>What an operation leaves alone\<close>

text \<open>The part of a subscriber that admits, queues and counts messages.\<close>

definition flow :: "subscriber \<Rightarrow> bool \<times> nat \<times> nat \<times> sharded_message list list \<times> int" where
  "flow sc = (sc_closed sc, sc_numShards sc, sc_channelBuffer sc, sc_shardChannels sc, sc_processingWg sc)"

lemmas health_defs = setAssignedPartitionCount_def setPausedPartitions_def markStarted_def
  updateHealthTopics_def markClosed_def recordPollAttempt_def recordMessage_def recordCommit_def
  recordDLQ_def recordRetry_def recordNonRetryableFailure_def recordBackpressurePause_def
  recordMaxReplayDLQ_def recordSubscriberError_def recordTransientSubscriberError_def setBacklogDepth_def

lemma flow_fields:
  assumes "flow a = flow b"
  shows "sc_closed a = sc_closed b \<and> sc_numShards a = sc_numShards b \<and> sc_channelBuffer a = sc_channelBuffer b
    \<and> sc_shardChannels a = sc_shardChannels b \<and> sc_processingWg a = sc_processingWg b"
  using assms by (simp add: flow_def)

lemma flow_updates [simp]:
  "flow (sc\<lparr>sc_tick := t\<rparr>) = flow sc" "flow (sc\<lparr>sc_events := es\<rparr>) = flow sc"
  "flow (sc\<lparr>sc_health := h\<rparr>) = flow sc" "flow (sc\<lparr>sc_ReplayMap := m\<rparr>) = flow sc"
  "flow (sc\<lparr>sc_EventListeners := l\<rparr>) = flow sc" "flow (sc\<lparr>sc_commitCh := c\<rparr>) = flow sc"
  "flow (sc\<lparr>sc_commitStates := cs\<rparr>) = flow sc" "flow (sc\<lparr>sc_assignments := a\<rparr>) = flow sc"
  "flow (sc\<lparr>sc_subscribedTopics := ts\<rparr>) = flow sc" "flow (sc\<lparr>sc_lastLagRefreshNano := n\<rparr>) = flow sc"
  "flow (sc\<lparr>sc_errorPolicy := p\<rparr>) = flow sc"
  by (simp_all add: flow_def)

lemma flow_ask [simp]: "flow (snd (ask f sc)) = flow sc" "flow (seen e sc) = flow sc"
  by (simp_all add: ask_def seen_def)

lemma flow_backoff [simp]: "flow (snd (sub_backoff env sc)) = flow sc"
  by (simp add: sub_backoff_def Let_def split_beta)

lemma flow_sendToDlq [simp]: "flow (snd (sendToDlq env msg sc)) = flow sc"
proof -
  have "flow (snd (dlq_attempts env n err msg sc)) = flow sc" for n err
    by (induction n arbitrary: err sc) (simp_all add: Let_def split_beta health_defs split: option.splits)
  then show ?thesis by (simp add: sendToDlq_def)
qed

lemma flow_commit [simp]: "flow (snd (commitMessageWithRetry env req sc)) = flow sc"
proof -
  have "flow (snd (commit_attempts env n err req sc)) = flow sc" for n err
    by (induction n arbitrary: err sc) (simp_all add: Let_def split_beta health_defs split: option.splits)
  then show ?thesis by (simp add: commitMessageWithRetry_def)
qed

lemma flow_handling [simp]:
  "flow (requestCommit req sc) = flow sc" "flow (removeReplayKey tp sc) = flow sc"
  "flow (retry_failed env e sc) = flow sc" "flow (snd (finish_message sm sc)) = flow sc"
  "flow (snd (process_begin sm sc)) = flow sc"
  by (simp_all add: requestCommit_def removeReplayKey_def retry_failed_def finish_message_def
      process_begin_def health_defs split: option.splits)

lemma flow_replay_begin [simp]: "flow (snd (replay_begin env sm sc)) = flow sc"
  by (simp add: replay_begin_def Let_def split_beta health_defs split: option.splits)

lemma flow_process_panicked [simp]: "flow (snd (process_panicked env sm sc)) = flow sc"
  by (simp add: process_panicked_def Let_def split_beta health_defs split: option.splits)

lemma flow_process_returned [simp]: "flow (snd (process_returned env sm outcome sc)) = flow sc"
  by (simp add: process_returned_def Let_def split_beta health_defs split: option.splits listener_outcome.splits)

lemma flow_rebalance [simp]:
  "flow (recordAssignedPartitions ps sc) = flow sc" "flow (snd (recordRevokedPartitions ps sc)) = flow sc"
  "flow (rebalanceCallback ev sc) = flow sc"
  by (simp_all add: recordAssignedPartitions_def recordRevokedPartitions_def rebalanceCallback_def
      Let_def split_beta health_defs split: kafka_event.splits)

lemma flow_backpressure [simp]:
  "flow (pauseAssignedPartitions env sc) = flow sc" "flow (resumeAssignedPartitions env sc) = flow sc"
  by (simp_all add: pauseAssignedPartitions_def resumeAssignedPartitions_def Let_def split_beta health_defs
      split: option.splits)

lemma flow_refreshLag [simp]: "flow (refreshLag env sc) = flow sc"
proof -
  have "flow (snd (snd (measure_lag env ps bt ml sc))) = flow sc" for ps bt ml sc
    by (induction ps arbitrary: bt ml sc) (simp_all add: Let_def split_beta split: sum.splits)
  then show ?thesis
    by (simp add: refreshLag_def Let_def split_beta health_defs split: option.splits sum.splits)
qed

lemma flow_polled [simp]: "flow (polled env calls sc) = flow sc"
proof -
  have "flow (fold rebalanceCallback calls sc) = flow sc"
    by (induction calls arbitrary: sc) simp_all
  then show ?thesis by (simp add: polled_def Let_def health_defs)
qed

lemma flow_topics [simp]:
  "flow (snd (AddTopics env ts sc)) = flow sc" "flow (snd (Subscribe_topics env ts sc)) = flow sc"
  by (simp_all add: AddTopics_def Subscribe_topics_def Let_def split_beta health_defs split: option.splits)

lemma flow_wg:
  "flow (wg_add sc) = flow (sc\<lparr>sc_processingWg := sc_processingWg sc + 1\<rparr>)"
  "flow (wg_done sc) = flow (sc\<lparr>sc_processingWg := sc_processingWg sc - 1\<rparr>)"
  by (simp_all add: wg_add_def wg_done_def)

lemma fold_wg_done: "fold (\<lambda>_. wg_done) xs sc = sc\<lparr>sc_processingWg := sc_processingWg sc - int (length xs)\<rparr>"
  by (induction xs arbitrary: sc) (simp_all add: wg_done_def)

section \<open>The count of messages in flight\<close>

fun busy :: "worker \<Rightarrow> nat" where
  "busy WIdle = 0"
| "busy (WAdmitted _) = 2"
| "busy (WSending _) = 2"
| "busy _ = 1"

definition in_flight :: "sub_world \<Rightarrow> nat" where
  "in_flight w = length (sw_backlog w) + sum_list (map length (sc_shardChannels (sw_sub w)))
     + sum_list (map busy (sw_workers w))"

definition loop_ok :: "sub_world \<Rightarrow> bool" where
  "loop_ok w = (case sw_loop w of
     LoopRunning \<Rightarrow> \<not> sc_closed (sw_sub w)
   | LoopStopping _ \<Rightarrow> sc_closed (sw_sub w) \<and> sw_backlog w = []
   | LoopStopped _ \<Rightarrow> sc_closed (sw_sub w) \<and> in_flight w = 0)"

definition accounts :: "sub_world \<Rightarrow> bool" where
  "accounts w \<longleftrightarrow> sc_processingWg (sw_sub w) = int (in_flight w)
     \<and> length (sc_shardChannels (sw_sub w)) = sc_numShards (sw_sub w)
     \<and> length (sw_workers w) = sc_numShards (sw_sub w) \<and> 0 < sc_numShards (sw_sub w) \<and> loop_ok w"

lemma sum_list_set: 
  "i < length xs \<Longrightarrow> sum_list (map f (xs[i := x])) + f (xs ! i) = sum_list (map f xs) + (f x :: nat)"
  by (induction xs arbitrary: i) (auto split: nat.splits simp: nth_Cons)


definition queued :: "subscriber \<Rightarrow> nat" where
  "queued sc = sum_list (map length (sc_shardChannels sc))"

lemma flow_queued: "flow a = flow b \<Longrightarrow> queued a = queued b"
  by (simp add: flow_def queued_def)

lemma accounts_in_flight:
  "accounts w \<Longrightarrow> sc_processingWg (sw_sub w) = int (length (sw_backlog w)) + int (queued (sw_sub w))
     + int (sum_list (map busy (sw_workers w)))"
  by (simp add: accounts_def in_flight_def queued_def)

text \<open>A change of the subscriber that moves no message keeps the account.\<close>

lemma accounts_same_flow:
  assumes "accounts w" "flow sc = flow (sw_sub w)"
  shows "accounts (w\<lparr>sw_sub := sc\<rparr>)"
  using assms(1) flow_fields [OF assms(2)] by (auto simp: accounts_def in_flight_def loop_ok_def split: loop_phase.splits)

text \<open>A step of one worker keeps it when what the worker and the queues hold is counted.\<close>

lemma accounts_worker:
  assumes w: "accounts w" and i: "i < length (sw_workers w)"
    and "sc_closed sc = sc_closed (sw_sub w)" "sc_numShards sc = sc_numShards (sw_sub w)"
      "length (sc_shardChannels sc) = length (sc_shardChannels (sw_sub w))"
    and count: "sc_processingWg sc + int (busy (sw_workers w ! i)) + int (queued (sw_sub w)) =
      sc_processingWg (sw_sub w) + int (busy p) + int (queued sc)"
    and held: "0 < in_flight w"
  shows "accounts (set_worker i p (set_sub sc w))"
proof -
  have "sum_list (map busy ((sw_workers w)[i := p])) + busy (sw_workers w ! i) = sum_list (map busy (sw_workers w)) + busy p"
    by (rule sum_list_set [OF i])
  with accounts_in_flight [OF w] count
  have "sc_processingWg sc = int (in_flight (set_worker i p (set_sub sc w)))"
    by (simp add: in_flight_def set_worker_def set_sub_def queued_def)
  moreover have "loop_ok (set_worker i p (set_sub sc w))"
    using w held assms(3) by (auto simp: accounts_def loop_ok_def set_worker_def set_sub_def split: loop_phase.splits)
  ultimately show ?thesis using w assms by (simp add: accounts_def set_worker_def set_sub_def)
qed

lemma busy_in_flight:
  assumes "i < length (sw_workers w)" "0 < busy (sw_workers w ! i)"
  shows "0 < in_flight w"
proof -
  have "busy (sw_workers w ! i) \<le> sum_list (map busy (sw_workers w))"
    using assms(1) by (intro member_le_sum_list) simp_all
  then show ?thesis using assms(2) by (simp add: in_flight_def)
qed

lemma queued_set:
  assumes "i < length (sc_shardChannels sc)"
  shows "queued (sc\<lparr>sc_shardChannels := (sc_shardChannels sc)[i := q]\<rparr>) + length (sc_shardChannels sc ! i)
    = queued sc + length q"
  using sum_list_set [OF assms, of length q] by (simp add: queued_def)

lemma queued_in_flight: "0 < queued (sw_sub w) \<Longrightarrow> 0 < in_flight w"
  by (simp add: in_flight_def queued_def)

lemma shard_of_less: "accounts w \<Longrightarrow> shard_of sm (sw_sub w) < length (sc_shardChannels (sw_sub w))"
  by (simp add: accounts_def shard_of_def getShardID_less)

lemma accounts_receive:
  assumes w: "accounts w" and i: "i < length (sw_workers w)" "sw_workers w ! i = WIdle"
    and step: "receive i w = Some w'"
  shows "accounts w'"
proof -
  obtain sm sms where q: "sc_shardChannels (sw_sub w) ! i = sm # sms"
    and w': "w' = set_worker i (WReceived sm) (set_sub ((sw_sub w)
      \<lparr>sc_shardChannels := (sc_shardChannels (sw_sub w))[i := sms]\<rparr>) w)"
    using step by (auto simp: receive_def split: list.splits)
  have "i < length (sc_shardChannels (sw_sub w))" using w i by (simp add: accounts_def)
  from queued_set [OF this, of sms] q
  have "queued ((sw_sub w)\<lparr>sc_shardChannels := (sc_shardChannels (sw_sub w))[i := sms]\<rparr>) + 1 = queued (sw_sub w)"
    by simp
  then show ?thesis unfolding w'
    by (intro accounts_worker [OF w i(1)] queued_in_flight) (simp_all add: i(2))
qed

lemma accounts_after_action:
  assumes w: "accounts w" and i: "i < length (sw_workers w)" and b: "busy (sw_workers w ! i) = 1"
    and same: "flow (snd r) = flow (sw_sub w)"
  shows "accounts (after_action i sm r w)"
proof -
  have held: "0 < in_flight w" using busy_in_flight [OF i] b by simp
  obtain a sc where r: "r = (a, sc)" by (cases r)
  note flow_fields [OF same] flow_queued [OF same]
  then show ?thesis
    by (cases a; simp add: r after_action_def; intro accounts_worker [OF w i _ _ _ _ held])
      (simp_all add: b wg_done_def queued_def)
qed

lemma accounts_replay_wake:
  assumes w: "accounts w" and i: "i < length (sw_workers w)" and b: "busy (sw_workers w ! i) = 1"
  shows "accounts (replay_wake env i sm w)"
proof -
  let ?sc = "snd (sub_backoff env (sw_sub w))"
  have same: "flow ?sc = flow (sw_sub w)" by simp
  have held: "0 < in_flight w" using busy_in_flight [OF i] b by simp
  have admit: "accounts (set_worker i (WAdmitted sm) (set_sub (wg_add ?sc) w))"
    using flow_fields [OF same] flow_queued [OF same]
    by (intro accounts_worker [OF w i _ _ _ _ held]) (simp_all add: b wg_add_def queued_def)
  have finish: "accounts (after_action i sm (Finished, sc) w)" if "flow sc = flow (sw_sub w)" for sc
    using accounts_after_action [OF w i b] that by simp
  show ?thesis
    by (auto simp: replay_wake_def Let_def split_beta startProcessing_def intro: admit finish split: option.splits)
qed

lemma accounts_replay_check:
  assumes w: "accounts w" and i: "i < length (sw_workers w)" and p: "sw_workers w ! i = WAdmitted sm"
  shows "accounts (replay_check i sm w)"
proof -
  have held: "0 < in_flight w" using busy_in_flight [OF i] p by simp
  have "accounts (set_worker i WIdle (set_sub (wg_done (wg_done (sw_sub w))) w))"
    by (intro accounts_worker [OF w i _ _ _ _ held]) (simp_all add: p wg_done_def queued_def)
  moreover have "accounts (set_worker i (WSending sm) (set_sub (sw_sub w) w))"
    by (intro accounts_worker [OF w i _ _ _ _ held]) (simp_all add: p)
  ultimately show ?thesis by (simp add: replay_check_def after_action_def set_sub_def set_worker_def)
qed

lemma accounts_replay_send:
  assumes w: "accounts w" and i: "i < length (sw_workers w)" and p: "sw_workers w ! i = WSending sm"
    and step: "replay_send env i sm w = Some w'"
  shows "accounts w'"
proof -
  let ?sc = "snd (ask (se_CtxErr env) (sw_sub w))"
  have same: "flow ?sc = flow (sw_sub w)" by simp
  have held: "0 < in_flight w" using busy_in_flight [OF i] p by simp
  have gone: "accounts (set_worker i WIdle (set_sub (wg_done (retry_failed env e (wg_done ?sc))) w))" for e
  proof -
    have "flow (wg_done (retry_failed env e (wg_done ?sc))) = flow (wg_done (wg_done ?sc))"
      by (simp add: flow_def retry_failed_def wg_done_def health_defs)
    note flow_fields [OF this] flow_queued [OF this]
    then show ?thesis using flow_fields [OF same]
      by (intro accounts_worker [OF w i _ _ _ _ held]) (simp_all add: p wg_done_def queued_def)
  qed
  have "shard_of sm ?sc = shard_of sm (sw_sub w)" using flow_fields [OF same] by (simp add: shard_of_def)
  then have shard: "shard_of sm ?sc < length (sc_shardChannels ?sc)"
    using shard_of_less [OF w, of sm] flow_fields [OF same] by simp
  from queued_set [OF this, of "sc_shardChannels ?sc ! shard_of sm ?sc @ [sm]"]
  have "queued (enqueue_shard (shard_of sm ?sc) sm ?sc) = queued (sw_sub w) + 1"
    using flow_queued [OF same] by (simp add: enqueue_shard_def)
  then have sent: "accounts (set_worker i WIdle (set_sub (wg_done (enqueue_shard (shard_of sm ?sc) sm ?sc)) w))"
    using flow_fields [OF same]
    by (intro accounts_worker [OF w i _ _ _ _ held]) (simp_all add: p wg_done_def queued_def enqueue_shard_def)
  show ?thesis using step gone sent
    by (auto simp: replay_send_def Let_def split_beta after_action_def split: option.splits if_splits)
qed

lemma accounts_worker_step:
  assumes w: "accounts w" and i: "i < length (sw_workers w)" and step: "worker_step env i w = Some w'"
  shows "accounts w'"
proof (cases "sw_workers w ! i")
  case WIdle
  then show ?thesis using accounts_receive [OF w i] step by (simp add: worker_step_def)
next
  case (WReceived sm)
  then show ?thesis using accounts_after_action [OF w i, of "process_begin sm (sw_sub w)" sm] step
    by (auto simp: worker_step_def split: if_splits)
next
  case (WHandling l sm)
  let ?r = "case ask (l (sm_ctx sm) (sm_message sm)) (sw_sub w) of (outcome, sc1) \<Rightarrow> process_returned env sm outcome sc1"
  have "flow (snd ?r) = flow (sw_sub w)" by (simp add: split_beta)
  from accounts_after_action [OF w i _ this, of sm] WHandling step show ?thesis
    by (auto simp: worker_step_def Let_def split_beta split: if_splits)
next
  case (WWaiting sm)
  then show ?thesis using accounts_replay_wake [OF w i] step by (auto simp: worker_step_def)
next
  case (WAdmitted sm)
  then show ?thesis using accounts_replay_check [OF w i] step by (auto simp: worker_step_def)
next
  case (WSending sm)
  then show ?thesis using accounts_replay_send [OF w i] step by (auto simp: worker_step_def)
qed


text \<open>The loop moves messages between its backlog, the queues and the outside.\<close>

definition balance :: "subscriber \<Rightarrow> int" where
  "balance sc = sc_processingWg sc - int (queued sc)"

definition shape :: "subscriber \<Rightarrow> bool \<times> nat \<times> nat" where
  "shape sc = (sc_closed sc, sc_numShards sc, length (sc_shardChannels sc))"

lemma flow_balance: "flow a = flow b \<Longrightarrow> balance a = balance b \<and> shape a = shape b"
  by (simp add: flow_def balance_def shape_def queued_def)

lemma accounts_running:
  assumes "accounts w" "sw_loop w = LoopRunning" "shape sc = shape (sw_sub w)"
    "balance sc + int (length (sw_backlog w)) = balance (sw_sub w) + int (length bl)"
  shows "accounts (w\<lparr>sw_backlog := bl, sw_paused := p, sw_sub := sc\<rparr>)"
  using assms by (auto simp: accounts_def in_flight_def loop_ok_def shape_def balance_def queued_def)

lemma tryDispatch_balance:
  assumes "length (sc_shardChannels sc) = sc_numShards sc" "0 < sc_numShards sc"
  shows "shape (snd (tryDispatch sm sc)) = shape sc \<and>
    balance (snd (tryDispatch sm sc)) = balance sc - (if fst (tryDispatch sm sc) then 1 else 0)"
proof -
  have "shard_of sm sc < length (sc_shardChannels sc)"
    using assms by (simp add: shard_of_def getShardID_less)
  from queued_set [OF this, of "sc_shardChannels sc ! shard_of sm sc @ [sm]"]
  have "queued (enqueue_shard (shard_of sm sc) sm sc) = queued sc + 1"
    by (simp add: enqueue_shard_def)
  then show ?thesis
    by (auto simp: tryDispatch_def balance_def shape_def wg_done_def enqueue_shard_def queued_def)
qed

lemma drain_balance:
  assumes "length (sc_shardChannels sc) = sc_numShards sc" "0 < sc_numShards sc"
  shows "shape (snd (drainDispatchBacklog bl sc)) = shape sc \<and>
    balance (snd (drainDispatchBacklog bl sc)) + int (length bl) =
      balance sc + int (length (fst (drainDispatchBacklog bl sc)))"
  using assms
proof (induction bl arbitrary: sc)
  case (Cons sm bl)
  obtain sent sc1 where t: "tryDispatch sm sc = (sent, sc1)" by (cases "tryDispatch sm sc")
  have d: "shape sc1 = shape sc" "balance sc1 = balance sc - (if sent then 1 else 0)"
    using tryDispatch_balance [OF Cons.prems, of sm] t by simp_all
  then have "length (sc_shardChannels sc1) = sc_numShards sc1" "0 < sc_numShards sc1"
    using Cons.prems by (simp_all add: shape_def)
  from Cons.IH [OF this] d t show ?case by (auto simp: Let_def split_beta)
qed simp

lemma accounts_exit_loop:
  assumes "accounts w" "sw_loop w = LoopRunning"
  shows "accounts (exit_loop e w)"
  using assms
  by (auto simp: exit_loop_def accounts_def in_flight_def loop_ok_def releaseBacklog_def fold_wg_done
      markClosed_def stopProcessingAdmission_def setBacklogDepth_def)

lemma accounts_drain_loop:
  assumes w: "accounts w" "sw_loop w = LoopRunning"
  shows "accounts (drain_loop env w) \<and> sw_loop (drain_loop env w) = LoopRunning"
proof -
  obtain bl sc where d: "drained (sw_backlog w) (sw_sub w) = (bl, sc)"
    by (cases "drained (sw_backlog w) (sw_sub w)")
  let ?r = "bl = [] \<and> sw_paused w"
  let ?sc = "if ?r then resumeAssignedPartitions env sc else sc"
  have flat: "flow (setBacklogDepth n sc) = flow sc" for n sc by (simp add: setBacklogDepth_def)
  have "shape sc = shape (sw_sub w) \<and>
      balance sc + int (length (sw_backlog w)) = balance (sw_sub w) + int (length bl)"
    using drain_balance [of "sw_sub w" "sw_backlog w"] w flow_balance [OF flat] d
    by (auto simp: drained_def accounts_def Let_def split_beta split: if_splits)
  moreover have "balance ?sc = balance sc \<and> shape ?sc = shape sc" by (rule flow_balance) simp
  ultimately have "accounts (w\<lparr>sw_backlog := bl, sw_paused := (sw_paused w \<and> \<not> ?r), sw_sub := ?sc\<rparr>)"
    by (intro accounts_running [OF w]) simp_all
  then show ?thesis using w(2) by (simp add: drain_loop_def d Let_def)
qed

lemma accounts_on_message:
  assumes w: "accounts w" "sw_loop w = LoopRunning"
  shows "accounts (on_message env msg w)"
proof -
  obtain p sc1 where m: "prepareMessage env msg (sw_sub w) = (p, sc1)" by (cases "prepareMessage env msg (sw_sub w)")
  have open_sub: "\<not> sc_closed (sw_sub w)" using w by (simp add: accounts_def loop_ok_def)
  have flat: "flow (recordMessage n sc) = flow sc" "flow (recordSubscriberError env e sc) = flow sc"
    "flow (setBacklogDepth k sc) = flow sc" for n e sc k
    by (simp_all add: health_defs)
  have p: "(case p of Prepared sm \<Rightarrow> shape sc1 = shape (sw_sub w) \<and> balance sc1 = balance (sw_sub w) + 1
      | _ \<Rightarrow> flow sc1 = flow (sw_sub w))"
    using m open_sub
    by (auto simp: prepareMessage_def Let_def split_beta flat startProcessing_def wg_add_def balance_def
        queued_def shape_def recordMessage_def split: option.splits if_splits)
  show ?thesis
  proof (cases p)
    case (Prepared sm)
    obtain sent sc2 where t: "tryDispatch sm sc1 = (sent, sc2)" by (cases "tryDispatch sm sc1")
    have sh: "length (sc_shardChannels sc1) = sc_numShards sc1" "0 < sc_numShards sc1"
      using w p by (simp_all add: Prepared shape_def accounts_def)
    from tryDispatch_balance [OF sh, of sm] t p
    have d: "shape sc2 = shape (sw_sub w)" "balance sc2 + (if sent then 1 else 0) = balance (sw_sub w) + 1"
      by (simp_all add: Prepared)
    let ?sc3 = "setBacklogDepth (length (sw_backlog w @ [sm])) sc2"
    have "balance (if sw_paused w then ?sc3 else pauseAssignedPartitions env ?sc3) = balance sc2 \<and>
        shape (if sw_paused w then ?sc3 else pauseAssignedPartitions env ?sc3) = shape sc2"
      by (rule flow_balance) (simp add: flat)
    with d have "accounts (w\<lparr>sw_backlog := sw_backlog w @ [sm], sw_paused := True,
        sw_sub := if sw_paused w then ?sc3 else pauseAssignedPartitions env ?sc3\<rparr>)" if "\<not> sent"
      using that by (intro accounts_running [OF w]) simp_all
    moreover have "accounts (w\<lparr>sw_backlog := sw_backlog w, sw_paused := sw_paused w, sw_sub := sc2\<rparr>)" if sent
      using that d by (intro accounts_running [OF w]) simp_all
    ultimately show ?thesis by (cases sent) (simp_all add: on_message_def m Prepared t Let_def)
  next
    case Skipped
    with p m w(1) show ?thesis by (simp add: on_message_def accounts_same_flow)
  next
    case (PrepareFailed e)
    then have "accounts (w\<lparr>sw_sub := sc1\<rparr>)" using p w(1) by (simp add: accounts_same_flow)
    with m PrepareFailed w(2) show ?thesis by (simp add: on_message_def accounts_exit_loop)
  qed
qed

lemma accounts_on_revoked:
  assumes w: "accounts w" "sw_loop w = LoopRunning"
  shows "accounts (on_revoked partitions w)"
proof -
  obtain revoked sc1 where r: "recordRevokedPartitions partitions (sw_sub w) = (revoked, sc1)"
    by (cases "recordRevokedPartitions partitions (sw_sub w)")
  have same: "flow sc1 = flow (sw_sub w)" using flow_rebalance(2) [of partitions "sw_sub w"] r by simp
  obtain bl sc2 where b: "releaseBacklogForPartitions (sw_backlog w) revoked sc1 = (bl, sc2)"
    by (cases "releaseBacklogForPartitions (sw_backlog w) revoked sc1")
  have "int (length (filter (\<lambda>sm. P sm) xs)) + int (length (filter (\<lambda>sm. \<not> P sm) xs)) = int (length xs)"
    for P and xs :: "sharded_message list"
    using sum_length_filter_compl [of P xs] by linarith
  from this [of "\<lambda>sm. msg_key (sm_msg sm) \<in> newTopicPartitionKey ` set revoked" "sw_backlog w"]
  have kept: "balance sc2 + int (length (sw_backlog w)) = balance sc1 + int (length bl) \<and> shape sc2 = shape sc1"
    using b by (auto simp: releaseBacklogForPartitions_def Let_def fold_wg_done balance_def queued_def shape_def split: if_splits)
  have len: "length (concat xss) = sum_list (map length xss)" for xss :: "sharded_message list list"
    by (simp add: length_concat)
  have "balance (releaseShardQueuesForRevokedAssignments sc2) = balance sc2 \<and>
      shape (releaseShardQueuesForRevokedAssignments sc2) = shape sc2"
    by (simp add: releaseShardQueuesForRevokedAssignments_def fold_wg_done balance_def queued_def shape_def len
        map_replicate_const o_def)
  moreover have "balance (setBacklogDepth n sc) = balance sc \<and> shape (setBacklogDepth n sc) = shape sc" for n sc
    by (rule flow_balance) (simp add: setBacklogDepth_def)
  ultimately have "accounts (w\<lparr>sw_backlog := bl, sw_paused := False,
      sw_sub := setBacklogDepth (length bl) (releaseShardQueuesForRevokedAssignments sc2)\<rparr>)"
    using kept flow_balance [OF same] by (intro accounts_running [OF w]) simp_all
  then show ?thesis by (simp add: on_revoked_def r b)
qed

lemma accounts_poll:
  assumes w: "accounts w" "sw_loop w = LoopRunning"
  shows "accounts (poll_iteration env calls ev w)"
proof -
  have set: "accounts (v\<lparr>sw_sub := sc\<rparr>) \<and> sw_loop (v\<lparr>sw_sub := sc\<rparr>) = LoopRunning"
    if "accounts v" "sw_loop v = LoopRunning" "flow sc = flow (sw_sub v)" for v sc
    using that by (simp add: accounts_same_flow)
  have event: "accounts (on_event env ev v)" if v: "accounts v" "sw_loop v = LoopRunning" for v
  proof -
    have "accounts (on_error env e fatal v)" for e fatal
      using v by (auto simp: on_error_def Let_def split_beta health_defs
          intro!: accounts_exit_loop accounts_same_flow split: option.splits)
    with v show ?thesis
      by (auto simp: on_event_def intro: accounts_on_message accounts_on_revoked accounts_same_flow
          split: option.splits kafka_event.splits)
  qed
  let ?sc1 = "snd (ask (se_CtxErr env) (sw_sub w))"
  let ?w1 = "drain_loop env (w\<lparr>sw_sub := ?sc1\<rparr>)"
  let ?sc2 = "snd (ask (se_CtxErr env) (polled env calls (sw_sub ?w1)))"
  have 1: "accounts (w\<lparr>sw_sub := ?sc1\<rparr>) \<and> sw_loop (w\<lparr>sw_sub := ?sc1\<rparr>) = LoopRunning"
    by (rule set [OF w]) simp
  then have "accounts ?w1 \<and> sw_loop ?w1 = LoopRunning" by (intro accounts_drain_loop) auto
  then have "accounts (?w1\<lparr>sw_sub := ?sc2\<rparr>) \<and> sw_loop (?w1\<lparr>sw_sub := ?sc2\<rparr>) = LoopRunning"
    by (intro set) auto
  with 1 show ?thesis
    by (auto simp: poll_iteration_def Let_def split_beta intro!: accounts_exit_loop event split: option.splits)
qed

lemma accounts_coordinator [simp]: "accounts (w\<lparr>sw_coord := c\<rparr>) = accounts w"
  by (cases "sw_loop w") (simp_all add: accounts_def in_flight_def loop_ok_def)

lemma accounts_step:
  assumes w: "accounts w" and step: "sub_step env l w = Some w'"
  shows "accounts w'"
proof (cases l)
  case (Poll calls ev)
  then show ?thesis using accounts_poll [OF w] step by (auto split: if_splits)
next
  case CloseChannels
  then obtain e where e: "sw_loop w = LoopStopping e" "sc_processingWg (sw_sub w) = 0" "w' = w\<lparr>sw_loop := LoopStopped e\<rparr>"
    using step by (auto simp: close_step_def split: loop_phase.splits if_splits)
  with w have "in_flight w = 0" by (simp add: accounts_def)
  with e w show ?thesis by (simp add: accounts_def in_flight_def loop_ok_def)
next
  case (Worker i)
  then show ?thesis using accounts_worker_step [OF w] step by (auto split: if_splits)
next
  case Coordinator
  have "accounts (w\<lparr>sw_sub := sc, sw_coord := c\<rparr>)" if "flow sc = flow (sw_sub w)" for sc c
    using accounts_same_flow [OF w that] by simp
  then show ?thesis using w step Coordinator
    by (auto simp: coordinator_step_def Let_def split_beta split: coordinator.splits list.splits)
qed (use w step in \<open>auto simp: RegisterListener_def ConfigureErrorPolicy_def intro: accounts_same_flow\<close>)

lemma accounts_init: "accounts (sub_init env groupID shards buffer topics)"
proof -
  have "flow (snd (Subscribe_topics env topics (NewSubscriber groupID shards buffer))) = flow (NewSubscriber groupID shards buffer)"
    by simp
  note flow_fields [OF this]
  then show ?thesis
    by (simp add: sub_init_def accounts_def in_flight_def loop_ok_def NewSubscriber_def Let_def
        DefaultNumShards_def sum_list_replicate map_replicate)
qed

lemma accounts_run: "sub_run env ls (sub_init env groupID shards buffer topics) = Some w \<Longrightarrow> accounts w"
  by (erule sub_run_invariant) (auto intro: accounts_init accounts_step)

end
