(* ===== verification/SubscriberCommits.thy ===== *)
theory SubscriberCommits
  imports SubscriberAccounting
begin

text \<open>
  Which offsets a run of the subscriber commits: only those of messages that were settled, the
  maximal run of consecutive offsets each time, and, where the bookkeeping of a partition is
  dropped too early, an offset past a message that was not settled.
\<close>

section \<open>Settled messages\<close>

text \<open>
  An event settles a message when the listener took it, said it had it already, does not
  exist, or the dead letter queue has accepted the message.
\<close>

fun settles :: "sub_event \<Rightarrow> kafka_message option" where
  "settles (ListenerReturned sm (Returned None)) = Some (sm_msg sm)"
| "settles (ListenerReturned sm (Returned (Some e))) = (if IsAlreadyProcessed e then Some (sm_msg sm) else None)"
| "settles (ListenerReturned sm (Panicked _)) = None"
| "settles (NoListener sm) = Some (sm_msg sm)"
| "settles (DlqWritten msg) = Some msg"
| "settles (CommitSent _) = None"

fun is_commit :: "sub_event \<Rightarrow> bool" where
  "is_commit (CommitSent _) = True"
| "is_commit _ = False"

definition settled :: "sub_event list \<Rightarrow> kafka_message \<Rightarrow> bool" where
  "settled es msg \<longleftrightarrow> list_ex (\<lambda>e. settles e = Some msg) es"

definition sound_log :: "sub_event list \<Rightarrow> bool" where
  "sound_log es \<longleftrightarrow> (\<forall>pre req post. es = pre @ CommitSent req # post \<longrightarrow> settled pre (cr_msg req))"

lemma settled_append [simp]: "settled (es @ fs) msg \<longleftrightarrow> settled es msg \<or> settled fs msg"
  by (simp add: settled_def)

lemma settled_simps [simp]: "settled [] msg = False" "settled (e # es) msg \<longleftrightarrow> settles e = Some msg \<or> settled es msg"
  by (simp_all add: settled_def)

lemma sound_log_Nil [simp]: "sound_log []"
  by (simp add: sound_log_def)

lemma sound_log_snoc:
  "sound_log (es @ [e]) \<longleftrightarrow> sound_log es \<and> (\<forall>req. e = CommitSent req \<longrightarrow> settled es (cr_msg req))"
proof
  assume l: "sound_log (es @ [e])"
  have "sound_log es"
    unfolding sound_log_def
  proof (intro allI impI)
    fix pre req post
    assume "es = pre @ CommitSent req # post"
    then have "es @ [e] = pre @ CommitSent req # (post @ [e])" by simp
    then show "settled pre (cr_msg req)" using l unfolding sound_log_def by blast
  qed
  moreover have "settled es (cr_msg req)" if "e = CommitSent req" for req
    using l that unfolding sound_log_def by blast
  ultimately show "sound_log es \<and> (\<forall>req. e = CommitSent req \<longrightarrow> settled es (cr_msg req))" by blast
next
  assume r: "sound_log es \<and> (\<forall>req. e = CommitSent req \<longrightarrow> settled es (cr_msg req))"
  show "sound_log (es @ [e])"
    unfolding sound_log_def
  proof (intro allI impI)
    fix pre req post
    assume "es @ [e] = pre @ CommitSent req # post"
    then show "settled pre (cr_msg req)"
      using r by (cases post rule: rev_cases) (auto simp: sound_log_def)
  qed
qed

lemma sound_log_append: "sound_log es \<Longrightarrow> list_all (\<lambda>e. \<not> is_commit e) fs \<Longrightarrow> sound_log (es @ fs)"
proof (induction fs rule: rev_induct)
  case (snoc e fs)
  then show ?case using sound_log_snoc [of "es @ fs" e] by auto
qed simp

text \<open>The requests a subscriber holds ready, under their partition and offset.\<close>

definition ready_entries :: "commit_states \<Rightarrow> (topic_partition_key \<times> int \<times> commit_request) set" where
  "ready_entries states = {(key, n, req). \<exists>st. states key = Some st \<and> (n, req) \<in> set (cs_ready st)}"

text \<open>
  An operation is safe when it commits nothing, makes nothing ready and asks to commit
  settled messages only.
\<close>

definition safe :: "subscriber \<Rightarrow> subscriber \<Rightarrow> bool" where
  "safe a b \<longleftrightarrow> (\<exists>es. sc_events b = sc_events a @ es \<and> list_all (\<lambda>e. \<not> is_commit e) es)
     \<and> ready_entries (sc_commitStates b) \<subseteq> ready_entries (sc_commitStates a)
     \<and> (\<forall>req \<in> set (sc_commitCh b). req \<in> set (sc_commitCh a) \<or> settled (sc_events b) (cr_msg req))"

lemma safe_refl [simp, intro]: "safe a a"
  by (simp add: safe_def)

lemma safe_trans: "safe a b \<Longrightarrow> safe b c \<Longrightarrow> safe a c"
  unfolding safe_def by (auto simp: list_all_iff)

lemma safe_same:
  "sc_events b' = sc_events b \<Longrightarrow> sc_commitCh b' = sc_commitCh b \<Longrightarrow>
   ready_entries (sc_commitStates b') \<subseteq> ready_entries (sc_commitStates b) \<Longrightarrow> safe a b \<Longrightarrow> safe a b'"
  unfolding safe_def by auto

lemma safe_updates [simp]:
  "safe a (sc\<lparr>sc_tick := t\<rparr>) = safe a sc" "safe a (sc\<lparr>sc_health := h\<rparr>) = safe a sc"
  "safe a (sc\<lparr>sc_ReplayMap := m\<rparr>) = safe a sc" "safe a (sc\<lparr>sc_EventListeners := l\<rparr>) = safe a sc"
  "safe a (sc\<lparr>sc_assignments := as\<rparr>) = safe a sc" "safe a (sc\<lparr>sc_subscribedTopics := ts\<rparr>) = safe a sc"
  "safe a (sc\<lparr>sc_lastLagRefreshNano := n\<rparr>) = safe a sc" "safe a (sc\<lparr>sc_errorPolicy := p\<rparr>) = safe a sc"
  "safe a (sc\<lparr>sc_closed := c\<rparr>) = safe a sc" "safe a (sc\<lparr>sc_shardChannels := q\<rparr>) = safe a sc"
  "safe a (sc\<lparr>sc_processingWg := k\<rparr>) = safe a sc"
  by (simp_all add: safe_def)

lemma safe_ask [simp]: "safe a (snd (ask f sc)) = safe a sc"
  by (simp add: ask_def)

lemma safe_seen: "safe a sc \<Longrightarrow> \<not> is_commit e \<Longrightarrow> safe a (seen e sc)"
  by (auto simp: safe_def seen_def)

lemma safe_request: "safe a sc \<Longrightarrow> settled (sc_events sc) (cr_msg req) \<Longrightarrow> safe a (requestCommit req sc)"
  by (auto simp: safe_def requestCommit_def)

lemma safe_backoff [simp]: "safe a (snd (sub_backoff env sc)) = safe a sc"
  by (simp add: sub_backoff_def Let_def split_beta)

lemma dlq_attempts_safe:
  "safe a sc \<Longrightarrow> safe a (snd (dlq_attempts env n err msg sc)) \<and>
    (fst (dlq_attempts env n err msg sc) = None \<longrightarrow> settled (sc_events (snd (dlq_attempts env n err msg sc))) msg)"
proof (induction n arbitrary: err sc)
  case (Suc n)
  then show ?case
    by (auto simp: Let_def split_beta health_defs intro: safe_seen split: option.splits)
      (simp_all add: seen_def)
qed simp

lemma sendToDlq_safe:
  "safe a sc \<Longrightarrow> safe a (snd (sendToDlq env msg sc))"
  "fst (sendToDlq env msg sc) = None \<Longrightarrow> settled (sc_events (snd (sendToDlq env msg sc))) msg"
  using dlq_attempts_safe [of a sc] dlq_attempts_safe [of sc sc] by (auto simp: sendToDlq_def)

lemma safe_small [simp]:
  "safe a (removeReplayKey tp sc) = safe a sc" "safe a (retry_failed env e sc) = safe a sc"
  "safe a (wg_done sc) = safe a sc" "safe a (wg_add sc) = safe a sc"
  by (simp_all add: removeReplayKey_def retry_failed_def wg_done_def wg_add_def health_defs)

lemma finish_message_safe:
  "safe a sc \<Longrightarrow> settled (sc_events sc) (sm_msg sm) \<Longrightarrow> safe a (snd (finish_message sm sc))"
  by (simp add: finish_message_def safe_request commitRequestFor_def)

lemma process_begin_safe: "safe a sc \<Longrightarrow> safe a (snd (process_begin sm sc))"
  by (auto simp: process_begin_def commitRequestFor_def seen_def intro!: safe_request split: option.splits)
    (simp add: safe_seen [unfolded seen_def])

lemma replay_begin_safe: "safe a sc \<Longrightarrow> safe a (snd (replay_begin env sm sc))"
  by (auto simp: replay_begin_def Let_def split_beta health_defs commitRequestFor_def
      intro!: safe_request sendToDlq_safe split: option.splits)

lemma process_panicked_safe: "safe a sc \<Longrightarrow> safe a (snd (process_panicked env sm sc))"
  by (auto simp: process_panicked_def Let_def split_beta health_defs
      intro!: finish_message_safe sendToDlq_safe split: option.splits)

lemma process_returned_safe:
  assumes "safe a sc"
  shows "safe a (snd (process_returned env sm outcome sc))"
proof -
  let ?sc = "seen (ListenerReturned sm outcome) sc"
  have s: "safe a ?sc" using assms by (simp add: safe_seen)
  show ?thesis
  proof (cases outcome)
    case (Panicked r)
    then show ?thesis using process_panicked_safe [OF s] by (simp add: process_returned_def Let_def)
  next
    case (Returned err)
    have "settled (sc_events ?sc) (sm_msg sm)" if "err = None \<or> (\<exists>e. err = Some e \<and> IsAlreadyProcessed e)"
      using that Returned by (auto simp: seen_def)
    with s Returned show ?thesis
      by (auto simp: process_returned_def Let_def split_beta health_defs
          intro!: finish_message_safe replay_begin_safe sendToDlq_safe split: option.splits)
  qed
qed


section \<open>Every commit is of a settled message\<close>

lemma fold_safe: "(\<And>x b. safe a b \<Longrightarrow> safe a (f x b)) \<Longrightarrow> safe a sc \<Longrightarrow> safe a (fold f xs sc)"
  by (induction xs arbitrary: sc) auto

lemma clear_requests: "ready_entries (clearCommitStateForPartitions ps states) \<subseteq> ready_entries states"
  unfolding clearCommitStateForPartitions_def
proof (induction ps arbitrary: states)
  case (Cons p ps)
  have "ready_entries (states(newTopicPartitionKey p := None)) \<subseteq> ready_entries states"
    by (auto simp: ready_entries_def split: if_splits)
  moreover have "ready_entries (foldl (\<lambda>m p. m(newTopicPartitionKey p := None)) (states(newTopicPartitionKey p := None)) ps)
      \<subseteq> ready_entries (states(newTopicPartitionKey p := None))"
    by (rule Cons)
  ultimately show ?case by (simp only: foldl_Cons)
qed simp

lemma rebalance_safe:
  assumes "safe a sc"
  shows "safe a (recordAssignedPartitions ps sc)" "safe a (snd (recordRevokedPartitions ps sc))"
    "safe a (rebalanceCallback ev sc)"
proof -
  show 1: "safe a (recordAssignedPartitions ps sc)" for ps
    using assms by (simp add: recordAssignedPartitions_def health_defs)
  have "safe a (sc\<lparr>sc_assignments := g, sc_commitStates := clearCommitStateForPartitions revoked (sc_commitStates sc)\<rparr>)"
    for revoked g
    by (rule safe_same [OF _ _ _ assms]) (simp_all add: clear_requests)
  then show 2: "safe a (snd (recordRevokedPartitions ps sc))" for ps
    by (simp add: recordRevokedPartitions_def Let_def split_beta health_defs)
  show "safe a (rebalanceCallback ev sc)"
    using assms 1 2 by (simp add: rebalanceCallback_def split: kafka_event.splits)
qed

lemma prepareMessage_safe: "safe a sc \<Longrightarrow> safe a (snd (prepareMessage env msg sc))"
proof -
  assume s: "safe a sc"
  have register: "safe a (b\<lparr>sc_commitStates := registerInFlight msg (sc_commitStates b)\<rparr>)" if "safe a b" for b
    by (rule safe_same [OF _ _ _ that])
      (auto simp: ready_entries_def registerInFlight_def Let_def split: option.splits if_splits)
  show ?thesis
    using s by (auto simp: prepareMessage_def Let_def split_beta health_defs startProcessing_def
        intro!: safe_request sendToDlq_safe register split: option.splits)
qed

lemma dispatch_safe: "safe a (snd (tryDispatch sm sc)) = safe a sc"
  by (simp add: tryDispatch_def enqueue_shard_def)

lemma drain_safe: "safe a sc \<Longrightarrow> safe a (snd (drainDispatchBacklog bl sc))"
proof (induction bl arbitrary: sc)
  case (Cons sm bl)
  then show ?case using dispatch_safe [of a sm sc] by (auto simp: Let_def split_beta)
qed simp

lemma backpressure_safe [simp]:
  "safe a (pauseAssignedPartitions env sc) = safe a sc" "safe a (resumeAssignedPartitions env sc) = safe a sc"
  by (simp_all add: pauseAssignedPartitions_def resumeAssignedPartitions_def Let_def split_beta health_defs
      split: option.splits)

lemma refreshLag_safe [simp]: "safe a (refreshLag env sc) = safe a sc"
proof -
  have "safe a (snd (snd (measure_lag env ps bt ml sc))) = safe a sc" for ps bt ml sc
    by (induction ps arbitrary: bt ml sc) (simp_all add: Let_def split_beta split: sum.splits)
  then show ?thesis
    by (simp add: refreshLag_def Let_def split_beta health_defs split: option.splits sum.splits)
qed

lemma polled_safe: "safe a sc \<Longrightarrow> safe a (polled env calls sc)"
  by (simp add: polled_def Let_def health_defs fold_safe rebalance_safe)

lemma exit_loop_safe: "safe a (sw_sub (exit_loop e w)) = safe a (sw_sub w)"
  by (simp add: exit_loop_def releaseBacklog_def fold_wg_done health_defs stopProcessingAdmission_def)

lemma exit_loop_coord [simp]: "sw_coord (exit_loop e w) = sw_coord w"
  by (simp add: exit_loop_def)

lemma release_safe [simp]:
  "safe a (snd (releaseBacklogForPartitions bl ps sc)) = safe a sc"
  "safe a (releaseShardQueuesForRevokedAssignments sc) = safe a sc"
  by (simp_all add: releaseBacklogForPartitions_def releaseShardQueuesForRevokedAssignments_def fold_wg_done Let_def)

lemma on_event_safe:
  assumes "safe a (sw_sub w)"
  shows "safe a (sw_sub (on_event env ev w)) \<and> sw_coord (on_event env ev w) = sw_coord w"
proof -
  have "safe a (sw_sub (on_message env msg w)) \<and> sw_coord (on_message env msg w) = sw_coord w" for msg
    using prepareMessage_safe [OF assms, of env msg]
    by (auto simp: on_message_def Let_def split_beta dispatch_safe exit_loop_safe health_defs split: prepared.splits)
  moreover have "safe a (sw_sub (on_revoked ps w)) \<and> sw_coord (on_revoked ps w) = sw_coord w" for ps
    using rebalance_safe(2) [OF assms, of ps]
    by (simp add: on_revoked_def Let_def split_beta health_defs)
  moreover have "safe a (sw_sub (on_error env e fatal w)) \<and> sw_coord (on_error env e fatal w) = sw_coord w" for e fatal
    using assms by (auto simp: on_error_def Let_def split_beta exit_loop_safe health_defs split: option.splits)
  ultimately show ?thesis
    using assms rebalance_safe(1) [OF assms]
    by (auto simp: on_event_def split: option.splits kafka_event.splits)
qed


lemma poll_iteration_safe:
  "safe (sw_sub w) (sw_sub (poll_iteration env calls ev w)) \<and> sw_coord (poll_iteration env calls ev w) = sw_coord w"
proof -
  let ?a = "sw_sub w" and ?sc1 = "snd (ask (se_CtxErr env) (sw_sub w))"
  let ?w1 = "drain_loop env (w\<lparr>sw_sub := ?sc1\<rparr>)"
  let ?sc2 = "snd (ask (se_CtxErr env) (polled env calls (sw_sub ?w1)))"
  have "safe ?a (snd (drained bl ?sc1))" for bl
    using drain_safe [of ?a ?sc1] by (simp add: drained_def Let_def split_beta health_defs)
  then have 1: "safe ?a (sw_sub ?w1)" "sw_coord ?w1 = sw_coord w"
    by (simp_all add: drain_loop_def Let_def split_beta)
  then have 2: "safe ?a ?sc2" by (simp add: polled_safe)
  then have "safe ?a (sw_sub (?w1\<lparr>sw_sub := ?sc2\<rparr>))" by simp
  from on_event_safe [OF this, of env ev] 1 2 show ?thesis
    by (auto simp: poll_iteration_def Let_def split_beta exit_loop_safe split: option.splits)
qed

fun held_by :: "coordinator \<Rightarrow> commit_request set" where
  "held_by CoIdle = {}"
| "held_by (CoChecked req) = {req}"
| "held_by (CoReady reqs) = set reqs"
| "held_by (CoCommitting req reqs) = insert req (set reqs)"

text \<open>
  The invariant: the log is sound, what waits for its commit is settled, and a ready request
  stands under its own partition and offset.
\<close>

definition commits_ok :: "subscriber \<Rightarrow> coordinator \<Rightarrow> bool" where
  "commits_ok sc c \<longleftrightarrow> sound_log (sc_events sc)
     \<and> (\<forall>req \<in> set (sc_commitCh sc) \<union> held_by c. settled (sc_events sc) (cr_msg req))
     \<and> (\<forall>(key, n, req) \<in> ready_entries (sc_commitStates sc).
          settled (sc_events sc) (cr_msg req) \<and> key = msg_key (cr_msg req) \<and> n = msg_offset (cr_msg req))"

lemma commits_ok_safe: "commits_ok a c \<Longrightarrow> safe a b \<Longrightarrow> commits_ok b c"
  unfolding commits_ok_def safe_def by (auto simp: sound_log_append) blast+

lemma worker_safe:
  assumes "worker_step env i w = Some w'"
  shows "safe (sw_sub w) (sw_sub w') \<and> sw_coord w' = sw_coord w"
proof -
  have act: "safe a (sw_sub (after_action i sm r w)) = safe a (snd r) \<and> sw_coord (after_action i sm r w) = sw_coord w" for a sm r
    by (cases r) (simp add: after_action_def set_worker_def set_sub_def split: next_action.splits)
  have set: "sw_sub (set_worker i p v) = sw_sub v" "sw_coord (set_worker i p v) = sw_coord v"
    "sw_sub (set_sub sc v) = sc" "sw_coord (set_sub sc v) = sw_coord v" for p v sc
    by (simp_all add: set_worker_def set_sub_def)
  have wake: "safe (sw_sub w) (sw_sub (replay_wake env i sm w)) \<and> sw_coord (replay_wake env i sm w) = sw_coord w" for sm
    by (simp add: replay_wake_def Let_def split_beta act set startProcessing_def split: option.splits)
  have check: "safe (sw_sub w) (sw_sub (replay_check i sm w)) \<and> sw_coord (replay_check i sm w) = sw_coord w" for sm
    by (simp add: replay_check_def act set)
  have send: "safe (sw_sub w) (sw_sub w') \<and> sw_coord w' = sw_coord w" if "replay_send env i sm w = Some w'" for sm
    using that by (auto simp: replay_send_def Let_def split_beta act enqueue_shard_def split: option.splits if_splits)
  show ?thesis
    using assms wake check send
    by (auto simp: worker_step_def receive_def act set Let_def split_beta process_begin_safe process_returned_safe
        split: worker.splits list.splits if_splits)
qed

lemma take_ready_keys:
  "take_ready n ready = (reqs, m, rest) \<Longrightarrow> set reqs \<subseteq> snd ` set ready \<and> set rest \<subseteq> set ready"
proof (induction n ready arbitrary: reqs m rest rule: take_ready.induct)
  case (1 n ready)
  show ?case
  proof (cases "map_of ready n")
    case None
    with 1(2) show ?thesis by (subst (asm) take_ready.simps) auto
  next
    case (Some req)
    obtain reqs1 m1 rest1 where t: "take_ready (n + 1) (AList.delete n ready) = (reqs1, m1, rest1)"
      by (cases "take_ready (n + 1) (AList.delete n ready)")
    have r: "reqs = req # reqs1" "m = m1" "rest = rest1"
      using 1(2) Some t by (subst (asm) take_ready.simps, simp)+
    have sub: "set (AList.delete n ready) \<subseteq> set ready" by (auto simp: AList.delete_eq)
    then have "set reqs1 \<subseteq> snd ` set ready" using 1(1) [OF Some t] by blast
    moreover have "req \<in> snd ` set ready" using map_of_SomeD [OF Some] by force
    moreover have "set rest1 \<subseteq> set ready" using 1(1) [OF Some] t sub by blast
    ultimately show ?thesis unfolding r by simp
  qed
qed

lemma set_update_subset: "set (AList.update k v xs) \<subseteq> insert (k, v) (set xs)"
  by (induction xs) auto

lemma mark_ready_entries:
  assumes "mark_ready req states = (reqs, states')"
  shows "ready_entries states' \<subseteq> insert (msg_key (cr_msg req), msg_offset (cr_msg req), req) (ready_entries states)"
    and "set reqs \<subseteq> insert req ((snd \<circ> snd) ` ready_entries states)"
proof -
  let ?key = "msg_key (cr_msg req)" and ?n = "msg_offset (cr_msg req)"
  define st where "st = (case states ?key of Some st \<Rightarrow> st | None \<Rightarrow> \<lparr>cs_nextOffset = ?n, cs_ready = []\<rparr>)"
  obtain rs m rest where t: "take_ready (cs_nextOffset st) (AList.update ?n req (cs_ready st)) = (rs, m, rest)"
    by (cases "take_ready (cs_nextOffset st) (AList.update ?n req (cs_ready st))")
  have r: "reqs = rs" "states' = (if rest = [] then states(?key := None) else states(?key \<mapsto> \<lparr>cs_nextOffset = m, cs_ready = rest\<rparr>))"
    using assms t by (simp_all add: mark_ready_def Let_def st_def)
  have old: "{?key} \<times> set (cs_ready st) \<subseteq> ready_entries states"
    by (auto simp: st_def ready_entries_def split: option.splits)
  note k = take_ready_keys [OF t] and u = set_update_subset [of ?n req "cs_ready st"]
  have "{?key} \<times> set rest \<subseteq> insert (?key, ?n, req) (ready_entries states)" using k u old by fast
  moreover have "ready_entries states' \<subseteq> {?key} \<times> set rest \<union> ready_entries states"
    unfolding r by (auto simp: ready_entries_def split: if_splits)
  ultimately show "ready_entries states' \<subseteq> insert (?key, ?n, req) (ready_entries states)" by blast
  have "set rs \<subseteq> snd ` insert (?n, req) (set (cs_ready st))" using k u by (meson image_mono subset_trans)
  moreover have "snd ` set (cs_ready st) \<subseteq> (snd \<circ> snd) ` ready_entries states" using old by force
  ultimately show "set reqs \<subseteq> insert req ((snd \<circ> snd) ` ready_entries states)"
    unfolding r by auto
qed

lemma commit_events:
  "sc_events (snd (commitMessageWithRetry env req sc)) = sc_events sc \<or>
   sc_events (snd (commitMessageWithRetry env req sc)) = sc_events sc @ [CommitSent req]"
  "sc_commitCh (snd (commitMessageWithRetry env req sc)) = sc_commitCh sc"
  "sc_commitStates (snd (commitMessageWithRetry env req sc)) = sc_commitStates sc"
proof -
  have b: "sc_events (snd (sub_backoff env sc)) = sc_events sc" "sc_commitCh (snd (sub_backoff env sc)) = sc_commitCh sc"
    "sc_commitStates (snd (sub_backoff env sc)) = sc_commitStates sc" for sc
    by (simp_all add: sub_backoff_def Let_def split_beta ask_def)
  have "(sc_events (snd (commit_attempts env n err req sc)) = sc_events sc \<or>
      sc_events (snd (commit_attempts env n err req sc)) = sc_events sc @ [CommitSent req]) \<and>
      sc_commitCh (snd (commit_attempts env n err req sc)) = sc_commitCh sc \<and>
      sc_commitStates (snd (commit_attempts env n err req sc)) = sc_commitStates sc" for n err
  proof (induction n arbitrary: err sc)
    case (Suc n)
    let ?sc = "snd (sub_backoff env (sc\<lparr>sc_tick := Suc (Suc (sc_tick sc))\<rparr>))"
    have "sc_events ?sc = sc_events sc" "sc_commitCh ?sc = sc_commitCh sc" "sc_commitStates ?sc = sc_commitStates sc"
      by (simp_all add: b)
    with Suc.IH [of "Some e" ?sc for e] show ?case
      by (auto simp: Let_def split_beta health_defs ask_def seen_def split: option.splits)
  qed simp
  then show
    "sc_events (snd (commitMessageWithRetry env req sc)) = sc_events sc \<or>
      sc_events (snd (commitMessageWithRetry env req sc)) = sc_events sc @ [CommitSent req]"
    "sc_commitCh (snd (commitMessageWithRetry env req sc)) = sc_commitCh sc"
    "sc_commitStates (snd (commitMessageWithRetry env req sc)) = sc_commitStates sc"
    by (simp_all add: commitMessageWithRetry_def)
qed


lemma coordinator_ok:
  assumes ok: "commits_ok (sw_sub w) (sw_coord w)" and step: "coordinator_step env w = Some w'"
  shows "commits_ok (sw_sub w') (sw_coord w')"
proof (cases "sw_coord w")
  case CoIdle
  with ok step show ?thesis
    by (auto simp: coordinator_step_def Let_def commits_ok_def split: list.splits if_splits)
next
  case (CoChecked req)
  obtain reqs states where m: "mark_ready req (sc_commitStates (sw_sub w)) = (reqs, states)"
    by (cases "mark_ready req (sc_commitStates (sw_sub w))")
  have w': "w' = w\<lparr>sw_sub := (sw_sub w)\<lparr>sc_commitStates := states\<rparr>, sw_coord := CoReady reqs\<rparr>"
    using step CoChecked m by (simp add: coordinator_step_def Let_def)
  show ?thesis
    using ok CoChecked mark_ready_entries [OF m] unfolding w' commits_ok_def by (auto 0 4)
next
  case (CoReady reqs)
  with ok step show ?thesis
    by (cases reqs) (auto simp: coordinator_step_def Let_def commits_ok_def split: if_splits)
next
  case (CoCommitting req reqs)
  have w': "w' = w\<lparr>sw_sub := snd (commitMessageWithRetry env req (sw_sub w)), sw_coord := CoReady reqs\<rparr>"
    using step CoCommitting by (simp add: coordinator_step_def Let_def)
  have "settled (sc_events (sw_sub w)) (cr_msg req)" using ok CoCommitting by (simp add: commits_ok_def)
  with ok CoCommitting commit_events [of env req "sw_sub w"] show ?thesis
    unfolding w' commits_ok_def by (auto simp: sound_log_snoc)
qed

lemma commits_ok_step:
  assumes ok: "commits_ok (sw_sub w) (sw_coord w)" and step: "sub_step env l w = Some w'"
  shows "commits_ok (sw_sub w') (sw_coord w')"
proof -
  have "l = Coordinator \<or> (safe (sw_sub w) (sw_sub w') \<and> sw_coord w' = sw_coord w)"
  proof (cases l)
    case (Poll calls ev)
    then show ?thesis using step poll_iteration_safe [of w env calls ev] by (auto split: if_splits)
  next
    case (Worker i)
    then show ?thesis using step worker_safe [of env i w w'] by (auto split: if_splits)
  qed (use step in \<open>auto simp: close_step_def RegisterListener_def ConfigureErrorPolicy_def AddTopics_def
      Let_def split_beta health_defs split: loop_phase.splits if_splits option.splits\<close>)
  then show ?thesis
    using coordinator_ok [OF ok] commits_ok_safe [OF ok] step by auto
qed

lemma commits_ok_init:
  "commits_ok (sw_sub (sub_init env g n b ts)) (sw_coord (sub_init env g n b ts))"
  by (auto simp: sub_init_def Let_def commits_ok_def Subscribe_topics_def split_beta health_defs ask_def
      NewSubscriber_def ready_entries_def split: option.splits)

lemma commits_ok_run:
  assumes "sub_run env ls (sub_init env g n b ts) = Some w"
  shows "commits_ok (sw_sub w) (sw_coord w)"
  using sub_run_invariant [where P = "\<lambda>v. commits_ok (sw_sub v) (sw_coord v)", OF assms commits_ok_init]
    commits_ok_step by blast

section \<open>The run of consecutive offsets\<close>

lemma take_ready_run:
  "take_ready n ready = (reqs, m, rest) \<Longrightarrow>
     m = n + int (length reqs) \<and> map (map_of ready) [n..m - 1] = map Some reqs \<and> map_of rest m = None"
proof (induction n ready arbitrary: reqs m rest rule: take_ready.induct)
  case (1 n ready)
  show ?case
  proof (cases "map_of ready n")
    case None
    with 1(2) show ?thesis by (subst (asm) take_ready.simps) auto
  next
    case (Some req)
    obtain reqs1 m1 rest1 where t: "take_ready (n + 1) (AList.delete n ready) = (reqs1, m1, rest1)"
      by (cases "take_ready (n + 1) (AList.delete n ready)")
    have r: "reqs = req # reqs1" "m = m1" "rest = rest1"
      using 1(2) Some t by (subst (asm) take_ready.simps, simp)+
    have IH: "m1 = n + 1 + int (length reqs1)"
      "map (map_of (AList.delete n ready)) [n + 1..m1 - 1] = map Some reqs1"
      "map_of rest1 m1 = None"
      using 1(1) [OF Some t] by blast+
    have off: "map_of (AList.delete n ready) k = map_of ready k" if "n < k" for k
      using that by (simp add: delete_conv')
    have "map (map_of ready) [n + 1..m1 - 1] = map (map_of (AList.delete n ready)) [n + 1..m1 - 1]"
      using off by (intro map_cong) auto
    then have "map (map_of ready) [n + 1..m1 - 1] = map Some reqs1" by (simp only: IH(2))
    moreover have "[n..m1 - 1] = n # [n + 1..m1 - 1]" using IH(1) by (simp add: upto_rec1)
    ultimately have "map (map_of ready) [n..m1 - 1] = map Some (req # reqs1)" using Some by simp
    then show ?thesis using IH(1,3) unfolding r by simp
  qed
qed

lemma commit_at_once:
  "se_CommitMessage env (sc_tick sc) (cr_msg req) = None \<Longrightarrow> commitMessageWithRetry env req sc =
    (None, recordCommit (se_Now env (sc_tick sc + 1)) (seen (CommitSent req) (sc\<lparr>sc_tick := sc_tick sc + 1\<rparr>)))"
  by (simp add: commitMessageWithRetry_def MaxCommitAttempts_def eval_nat_numeral ask_def Let_def)

lemma take_ready_single: "take_ready n [(n, req)] = ([req], n + 1, [])"
  by (simp add: take_ready.simps [of n] take_ready.simps [of "n + 1"] AList.delete_eq)

end
