(* ===== verification/SubscriberProperties.thy ===== *)
theory SubscriberProperties
  imports SubscriberCommits
begin

text \<open>
  The properties of runs of the subscriber: what its shutdown guarantees, which offsets it
  commits and in which order, and the two places where it breaks its own contract, an offset
  committed past an earlier message and a shard that waits for itself.
\<close>

section \<open>Shutdown\<close>

text \<open>C14. The counter of messages in flight is exact in every run: it is the number of messages in the
  backlog, in the queues and with the workers, twice for one that is being put back. Once the loop has
  closed the channels, the backlog and the queues are empty and every worker is idle, so no
  goroutine sends on a closed channel.\<close>

theorem closed_channels_unused:
  assumes "sub_run env ls (sub_init env groupID shards buffer topics) = Some w"
  shows "sc_processingWg (sw_sub w) = int (in_flight w) \<and>
    (sw_loop w = LoopStopped e \<longrightarrow> sw_backlog w = [] \<and> concat (sc_shardChannels (sw_sub w)) = [] \<and>
      set (sw_workers w) = {WIdle})"
proof -
  have w: "accounts w" by (rule accounts_run [OF assms])
  have idle: "p = WIdle" if "busy p = 0" for p
    using that by (cases p) auto
  have "set (sw_workers w) = {WIdle}" if "sum_list (map busy (sw_workers w)) = 0"
  proof -
    have "\<forall>p \<in> set (sw_workers w). p = WIdle" using that idle by auto
    moreover have "sw_workers w \<noteq> []" using w by (auto simp: accounts_def)
    ultimately show ?thesis by (cases "sw_workers w") auto
  qed
  with w show ?thesis by (auto simp: accounts_def loop_ok_def in_flight_def)
qed

section \<open>Commits\<close>

text \<open>C13. In every run, whatever the rebalances, failures and shutdowns, an offset is committed only
  after its message was settled: its listener took it or knew it already, no listener was
  registered for it, or the dead letter queue accepted it.\<close>

theorem commits_are_settled:
  assumes "sub_run env ls (sub_init env groupID shards buffer topics) = Some w"
    and "sc_events (sw_sub w) = pre @ CommitSent req # post"
  shows "settled pre (cr_msg req)"
  using commits_ok_run [OF assms(1)] assms(2) unfolding commits_ok_def sound_log_def by blast

text \<open>While a partition has a commit state, the requests that a completed message releases are the
  maximal run of consecutive offsets of that partition from the next expected one on; the message
  itself is among them when its offset is the expected one. Afterwards the partition expects the
  offset behind the run, which is not ready, or has no state because nothing is.\<close>

theorem commits_consecutive:
  assumes run: "sub_run env ls (sub_init env groupID shards buffer topics) = Some w"
    and req: "sw_coord w = CoChecked req"
    and st: "sc_commitStates (sw_sub w) (msg_key (cr_msg req)) = Some st"
    and step: "coordinator_step env w = Some w'"
  shows "\<exists>reqs. sw_coord w' = CoReady reqs \<and>
    map (msg_offset \<circ> cr_msg) reqs = [cs_nextOffset st..cs_nextOffset st + int (length reqs) - 1] \<and>
    (\<forall>r \<in> set reqs. msg_key (cr_msg r) = msg_key (cr_msg req)) \<and>
    (msg_offset (cr_msg req) = cs_nextOffset st \<longrightarrow> req \<in> set reqs) \<and>
    (case sc_commitStates (sw_sub w') (msg_key (cr_msg req)) of None \<Rightarrow> True
     | Some st' \<Rightarrow> cs_nextOffset st' = cs_nextOffset st + int (length reqs) \<and>
         map_of (cs_ready st') (cs_nextOffset st') = None \<and> cs_ready st' \<noteq> [])"
proof -
  let ?key = "msg_key (cr_msg req)" and ?n = "msg_offset (cr_msg req)" and ?first = "cs_nextOffset st"
  let ?ready = "AList.update ?n req (cs_ready st)"
  obtain reqs m rest where t: "take_ready ?first ?ready = (reqs, m, rest)"
    by (cases "take_ready ?first ?ready")
  note r = take_ready_run [OF t]
  have w': "sw_coord w' = CoReady reqs"
    using step req st t by (auto simp: coordinator_step_def Let_def mark_ready_def)
  have entries: "msg_offset (cr_msg q) = k \<and> msg_key (cr_msg q) = ?key" if "map_of ?ready k = Some q" for k q
  proof (cases "k = ?n")
    case True
    with that show ?thesis by (simp add: update_conv)
  next
    case False
    with that have "(k, q) \<in> set (cs_ready st)" by (simp add: update_conv map_of_SomeD)
    with st have "(?key, k, q) \<in> ready_entries (sc_commitStates (sw_sub w))" by (auto simp: ready_entries_def)
    with commits_ok_run [OF run] show ?thesis unfolding commits_ok_def by fastforce
  qed
  have at: "map_of ?ready (?first + int i) = Some (reqs ! i)" if "i < length reqs" for i
  proof -
    have m: "m = ?first + int (length reqs)" and eq: "map (map_of ?ready) [?first..m - 1] = map Some reqs"
      using r by blast+
    have "map (map_of ?ready) [?first..m - 1] ! i = Some (reqs ! i)" unfolding eq using that by simp
    then show ?thesis using that unfolding m by (simp add: nth_upto)
  qed
  have "map (msg_offset \<circ> cr_msg) reqs = [?first..?first + int (length reqs) - 1]"
  proof (rule nth_equalityI)
    fix i assume i: "i < length (map (msg_offset \<circ> cr_msg) reqs)"
    with entries [OF at [of i]] show
      "map (msg_offset \<circ> cr_msg) reqs ! i = [?first..?first + int (length reqs) - 1] ! i"
      by (simp add: nth_upto)
  qed simp
  moreover have "\<forall>q \<in> set reqs. msg_key (cr_msg q) = ?key"
  proof
    fix q assume "q \<in> set reqs"
    then obtain i where "i < length reqs" "q = reqs ! i" by (auto simp: in_set_conv_nth)
    with entries [OF at [of i]] show "msg_key (cr_msg q) = ?key" by simp
  qed
  moreover have "req \<in> set reqs" if "?n = ?first"
  proof -
    have "map_of ?ready ?first = Some req" using that by (simp add: update_conv)
    then have "0 < length reqs" using t by (subst (asm) take_ready.simps) (auto simp: Let_def split: prod.splits)
    moreover from this have "reqs ! 0 = req" using at [of 0] \<open>map_of ?ready ?first = Some req\<close> by simp
    ultimately show ?thesis by (metis nth_mem)
  qed
  moreover have "case sc_commitStates (sw_sub w') ?key of None \<Rightarrow> True
     | Some st' \<Rightarrow> cs_nextOffset st' = ?first + int (length reqs) \<and>
         map_of (cs_ready st') (cs_nextOffset st') = None \<and> cs_ready st' \<noteq> []"
    using step req st t r by (auto simp: coordinator_step_def Let_def mark_ready_def)
  ultimately show ?thesis using w' by blast
qed

text \<open>C37. A partition without a commit state, which is dropped whenever nothing is ready, commits the
  offset of whatever message completes next, also while a message with a smaller offset of the same
  partition is still with its handler.\<close>

theorem commit_overtakes:
  assumes "sw_coord w = CoIdle" "sc_commitCh (sw_sub w) = req # reqs"
    and "IsCurrent (sc_assignments (sw_sub w)) (cr_assignment req)"
    and "sc_commitStates (sw_sub w) (msg_key (cr_msg req)) = None"
    and "se_CommitMessage env (sc_tick (sw_sub w)) (cr_msg req) = None"
    and "i < length (sw_workers w)" "sw_workers w ! i = WHandling l sm"
    and "msg_key (sm_msg sm) = msg_key (cr_msg req)" "msg_offset (sm_msg sm) < msg_offset (cr_msg req)"
  shows "\<exists>w'. sub_run env [Coordinator, Coordinator, Coordinator, Coordinator] w = Some w' \<and>
    sc_events (sw_sub w') = sc_events (sw_sub w) @ [CommitSent req] \<and> sw_workers w' ! i = WHandling l sm"
proof -
  have "mark_ready req states = ([req], states)" if "states (msg_key (cr_msg req)) = None" for states
    using that by (simp add: mark_ready_def Let_def take_ready_single fun_upd_idem)
  with assms show ?thesis
    by (simp add: coordinator_step_def Let_def commit_at_once seen_def recordCommit_def)
qed

section \<open>A shard that waits for itself\<close>

definition shard_part :: "subscriber \<Rightarrow> nat \<times> nat \<times> sharded_message list list" where
  "shard_part sc = (sc_numShards sc, sc_channelBuffer sc, sc_shardChannels sc)"

lemma flow_part: "flow a = flow b \<Longrightarrow> shard_part a = shard_part b"
  by (simp add: flow_def shard_part_def)

text \<open>The queue of shard \<open>i\<close> is \<open>q\<close>, and full.\<close>

definition full :: "nat \<Rightarrow> nat \<Rightarrow> sharded_message list \<Rightarrow> subscriber \<Rightarrow> bool" where
  "full n i q sc \<longleftrightarrow> sc_numShards sc = n \<and> i < length (sc_shardChannels sc) \<and> sc_shardChannels sc ! i = q
     \<and> sc_channelBuffer sc \<le> length q"

lemma full_part: "shard_part a = shard_part b \<Longrightarrow> full n i q a = full n i q b"
  by (simp add: shard_part_def full_def)

lemma full_flow: "flow a = flow b \<Longrightarrow> full n i q a = full n i q b"
  by (rule full_part) (rule flow_part)

lemma full_dispatch:
  assumes "full n i q sc"
  shows "full n i q (snd (tryDispatch sm sc))"
proof (cases "shard_of sm sc = i")
  case True
  with assms show ?thesis by (auto simp: full_def tryDispatch_def shard_room_def wg_done_def)
next
  case False
  with assms show ?thesis by (auto simp: full_def tryDispatch_def enqueue_shard_def wg_done_def)
qed

lemma full_drain: "full n i q sc \<Longrightarrow> full n i q (snd (drainDispatchBacklog bl sc))"
proof (induction bl arbitrary: sc)
  case (Cons sm bl)
  then show ?case using full_dispatch [of n i q sc sm] by (auto simp: Let_def split_beta)
qed simp

lemma shard_part_simps:
  "shard_part (wg_done sc) = shard_part sc" "shard_part (wg_add sc) = shard_part sc"
  "shard_part (sc\<lparr>sc_health := h\<rparr>) = shard_part sc" "shard_part (sc\<lparr>sc_commitStates := cs\<rparr>) = shard_part sc"
  "shard_part (releaseBacklog bl sc) = shard_part sc" "shard_part (sc\<lparr>sc_closed := c\<rparr>) = shard_part sc"
  by (simp_all add: shard_part_def wg_done_def wg_add_def releaseBacklog_def fold_wg_done setBacklogDepth_def)

lemma shard_part_flow [simp]:
  "shard_part (requestCommit req sc) = shard_part sc" "shard_part (snd (sendToDlq env msg sc)) = shard_part sc"
  "shard_part (snd (sub_backoff env sc)) = shard_part sc" "shard_part (snd (ask f sc)) = shard_part sc"
  "shard_part (pauseAssignedPartitions env sc) = shard_part sc" "shard_part (retry_failed env e sc) = shard_part sc"
  by (rule flow_part, simp)+

lemma part_exit_loop [simp]: "shard_part (sw_sub (exit_loop e w)) = shard_part (sw_sub w)"
  by (simp add: exit_loop_def shard_part_simps markClosed_def stopProcessingAdmission_def)

lemma part_prepareMessage [simp]: "shard_part (snd (prepareMessage env msg sc)) = shard_part sc"
  by (simp add: prepareMessage_def Let_def split_beta startProcessing_def shard_part_simps health_defs
      split: option.splits)

text \<open>A revocation that the loop handles empties the queues; every other event leaves a full one.\<close>

fun drains_queues :: "sub_label \<Rightarrow> bool" where
  "drains_queues (Poll calls (Some (EvRevoked ps))) = True"
| "drains_queues _ = False"

lemma full_on_event:
  assumes "full n i q (sw_sub w)" "\<not> drains_queues (Poll calls ev)"
  shows "full n i q (sw_sub (on_event env ev w))"
proof -
  have "full n i q (sw_sub (on_message env msg w))" for msg
  proof -
    have p: "full n i q (snd (prepareMessage env msg (sw_sub w)))"
      using assms(1) full_part [OF part_prepareMessage] by blast
    have d: "full n i q (snd (tryDispatch sm (snd (prepareMessage env msg (sw_sub w)))))" for sm
      by (rule full_dispatch [OF p])
    then show ?thesis
      using p by (auto simp: on_message_def Let_def split_beta health_defs full_part [OF part_exit_loop]
          full_part [OF shard_part_flow(5)] full_part [OF shard_part_simps(3)] split: prepared.splits)
  qed
  moreover have "full n i q (sw_sub (on_error env e fatal w))" for e fatal
    using assms(1) by (auto simp: on_error_def Let_def split_beta health_defs full_part [OF part_exit_loop]
        full_part [OF shard_part_flow(3)] full_part [OF shard_part_simps(3)] split: option.splits)
  moreover have "full n i q (recordAssignedPartitions ps (sw_sub w))" for ps
    using assms(1) full_flow [OF flow_rebalance(1)] by blast
  ultimately show ?thesis
    using assms by (auto simp: on_event_def split: option.splits kafka_event.splits)
qed

lemma full_poll:
  assumes "full n i q (sw_sub w)" "\<not> drains_queues (Poll calls ev)"
  shows "full n i q (sw_sub (poll_iteration env calls ev w))"
proof -
  let ?sc1 = "snd (ask (se_CtxErr env) (sw_sub w))"
  let ?w1 = "drain_loop env (w\<lparr>sw_sub := ?sc1\<rparr>)"
  let ?sc2 = "snd (ask (se_CtxErr env) (polled env calls (sw_sub ?w1)))"
  have 1: "full n i q ?sc1" using assms(1) full_part [OF shard_part_flow(4)] by blast
  then have "full n i q (snd (drained bl ?sc1))" for bl
    using full_drain [OF 1] by (simp add: drained_def Let_def split_beta health_defs full_part [OF shard_part_simps(3)])
  then have "full n i q (sw_sub ?w1)"
    by (simp add: drain_loop_def Let_def split_beta full_flow [OF flow_backpressure(2)])
  then have 2: "full n i q ?sc2"
    by (simp add: full_part [OF shard_part_flow(4)] full_flow [OF flow_polled])
  then have "full n i q (sw_sub (?w1\<lparr>sw_sub := ?sc2\<rparr>))" by simp
  from full_on_event [OF this assms(2)] 1 2 show ?thesis
    by (auto simp: poll_iteration_def Let_def split_beta full_part [OF part_exit_loop] split: option.splits)
qed


lemma full_worker:
  assumes f: "full n i q (sw_sub w)" and k: "k \<noteq> i" and step: "worker_step env k w = Some w'"
  shows "full n i q (sw_sub w') \<and> sw_workers w' ! i = sw_workers w ! i \<and> length (sw_workers w') = length (sw_workers w)"
proof -
  have act: "sw_sub (after_action k sm r w) = (if fst r = Finished then wg_done (snd r) else snd r) \<and>
      sw_workers (after_action k sm r w) ! i = sw_workers w ! i \<and>
      length (sw_workers (after_action k sm r w)) = length (sw_workers w)" for sm r
    using k by (cases r) (simp add: after_action_def set_worker_def set_sub_def split: next_action.splits)
  have same: "full n i q (sw_sub (after_action k sm r w))" if "full n i q (snd r)" for sm r
    using act [of sm r] that by (simp add: full_part [OF shard_part_simps(1)])
  have flow: "full n i q sc" if "flow sc = flow (sw_sub w)" for sc
    using full_flow [OF that] f by simp
  have kept: "full n i q sc" if "shard_part sc = shard_part (sw_sub w)" for sc
    using full_part [OF that] f by simp
  have set: "sw_sub (set_worker k p v) = sw_sub v" "sw_workers (set_worker k p v) ! i = sw_workers v ! i"
    "length (sw_workers (set_worker k p v)) = length (sw_workers v)"
    "sw_sub (set_sub sc v) = sc" "sw_workers (set_sub sc v) = sw_workers v" for p v sc
    using k by (simp_all add: set_worker_def set_sub_def)
  show ?thesis
  proof (cases "sw_workers w ! k")
    case WIdle
    then show ?thesis using step f k
      by (auto simp: worker_step_def receive_def set full_def split: list.splits)
  next
    case (WReceived sm)
    have "w' = after_action k sm (process_begin sm (sw_sub w)) w"
      using WReceived step by (simp add: worker_step_def split: if_splits)
    then show ?thesis using act same [OF flow [OF flow_handling(5)]] by simp
  next
    case (WHandling l sm)
    let ?r = "case ask (l (sm_ctx sm) (sm_message sm)) (sw_sub w) of (outcome, sc1) \<Rightarrow> process_returned env sm outcome sc1"
    have "flow (snd ?r) = flow (sw_sub w)" by (simp add: split_beta)
    moreover have "w' = after_action k sm ?r w"
      using WHandling step by (simp add: worker_step_def Let_def split_beta split: if_splits)
    ultimately show ?thesis using act same [OF flow] by simp
  next
    case (WWaiting sm)
    have "full n i q (sw_sub (replay_wake env k sm w)) \<and> sw_workers (replay_wake env k sm w) ! i = sw_workers w ! i \<and>
        length (sw_workers (replay_wake env k sm w)) = length (sw_workers w)"
      by (auto simp: replay_wake_def Let_def split_beta act set startProcessing_def shard_part_simps
          intro!: same kept split: option.splits)
    with WWaiting step show ?thesis by (auto simp: worker_step_def)
  next
    case (WAdmitted sm)
    have "full n i q (sw_sub (replay_check k sm w)) \<and> sw_workers (replay_check k sm w) ! i = sw_workers w ! i \<and>
        length (sw_workers (replay_check k sm w)) = length (sw_workers w)"
      using f by (auto simp: replay_check_def act set full_part [OF shard_part_simps(1)] intro!: same)
    with WAdmitted step show ?thesis by (auto simp: worker_step_def)
  next
    case (WSending sm)
    let ?sc = "snd (ask (se_CtxErr env) (sw_sub w))"
    have c: "full n i q ?sc" by (rule flow) simp
    have "full n i q (enqueue_shard s sm ?sc)" if "shard_room s ?sc" for s
      using c that by (cases "s = i") (auto simp: full_def shard_room_def enqueue_shard_def)
    with WSending step c show ?thesis
      by (auto simp: worker_step_def replay_send_def Let_def split_beta act full_part [OF shard_part_simps(1)]
          full_part [OF shard_part_flow(6)] intro!: same split: option.splits if_splits)
  qed
qed

text \<open>Shard \<open>i\<close> is stalled: its worker waits to put \<open>sm\<close> into its own full queue.\<close>

definition stalled :: "nat \<Rightarrow> nat \<Rightarrow> sharded_message \<Rightarrow> sharded_message list \<Rightarrow> sub_world \<Rightarrow> bool" where
  "stalled n i sm q w \<longleftrightarrow> full n i q (sw_sub w) \<and> i < length (sw_workers w) \<and> sw_workers w ! i = WSending sm
     \<and> getShardID n (ms_ResourceKey (sm_message sm)) = i"

lemma poll_workers [simp]: "sw_workers (poll_iteration env calls ev w) = sw_workers w"
proof -
  have x: "sw_workers (exit_loop e v) = sw_workers v" for e v by (simp add: exit_loop_def)
  have "sw_workers (on_event env ev v) = sw_workers v" for v
    by (simp add: on_event_def on_message_def on_revoked_def on_error_def Let_def split_beta x
        split: option.splits kafka_event.splits prepared.splits)
  then show ?thesis
    by (simp add: poll_iteration_def Let_def split_beta x drain_loop_def split: option.splits)
qed

lemma stalled_step:
  assumes s: "stalled n i sm q w" and step: "sub_step env l w = Some w'"
    and "\<And>t. se_CtxErr env t = None" "\<not> drains_queues l"
  shows "stalled n i sm q w'"
proof (cases l)
  case (Poll calls ev)
  then have "w' = poll_iteration env calls ev w" using step by (auto split: if_splits)
  with s assms(4) show ?thesis unfolding stalled_def Poll by (simp add: full_poll)
next
  case (Worker k)
  have wait: "replay_send env i sm w = None"
    using s assms(3) by (simp add: replay_send_def Let_def split_beta ask_def stalled_def full_def shard_of_def shard_room_def)
  have k: "k \<noteq> i" "worker_step env k w = Some w'"
    using step s wait by (auto simp: Worker worker_step_def stalled_def split: if_splits)
  have "full n i q (sw_sub w)" using s by (simp add: stalled_def)
  from full_worker [OF this k] s show ?thesis by (simp add: stalled_def)
next
  case Coordinator
  have "full n i q (snd (commitMessageWithRetry env req (sw_sub w)))" for req
    using full_flow [OF flow_commit] s by (simp add: stalled_def)
  with s step show ?thesis
    by (auto simp: Coordinator coordinator_step_def Let_def split_beta stalled_def full_def split: coordinator.splits list.splits)
next
  case (Topics ts)
  with s step show ?thesis
    using full_flow [OF flow_topics(1), of n i q env ts "sw_sub w"] by (auto simp: stalled_def)
qed (use s step in \<open>auto simp: stalled_def full_def close_step_def RegisterListener_def ConfigureErrorPolicy_def
      split: loop_phase.splits if_splits\<close>)

text \<open>C38. A worker that puts a failed message back into its own full queue waits for itself: until a
  revocation is handled or the context ends, its queue keeps the same messages, the worker keeps
  waiting and the loop never stops, also after a fatal error of the broker.\<close>

theorem full_shard_stalls:
  assumes start: "sub_run env ls (sub_init env groupID shards buffer topics) = Some w"
    and full: "i < sc_numShards (sw_sub w)" "sw_workers w ! i = WSending sm" "shard_of sm (sw_sub w) = i"
      "sc_channelBuffer (sw_sub w) \<le> length (sc_shardChannels (sw_sub w) ! i)"
    and run: "sub_run env ks w = Some w'"
    and quiet: "\<And>t. se_CtxErr env t = None" "list_all (\<lambda>l. \<not> drains_queues l) ks"
  shows "sw_workers w' ! i = WSending sm \<and> sc_shardChannels (sw_sub w') ! i = sc_shardChannels (sw_sub w) ! i \<and>
    (\<forall>e. sw_loop w' \<noteq> LoopStopped e)"
proof -
  let ?n = "sc_numShards (sw_sub w)" and ?q = "sc_shardChannels (sw_sub w) ! i"
  have "accounts w" by (rule accounts_run [OF start])
  then have s: "stalled ?n i sm ?q w" using full by (simp add: stalled_def full_def shard_of_def accounts_def)
  have w': "stalled ?n i sm ?q w'"
    by (rule sub_run_invariant [where P = "stalled ?n i sm ?q", OF run s])
      (use quiet stalled_step in \<open>auto simp: list_all_iff\<close>)
  have "accounts w'"
    using accounts_step by (rule sub_run_invariant [where P = accounts, OF run \<open>accounts w\<close>])
  moreover have "0 < in_flight w'" using w' by (intro busy_in_flight [of i]) (simp_all add: stalled_def)
  ultimately show ?thesis using w' by (auto simp: stalled_def full_def accounts_def loop_ok_def)
qed

end
