(* ===== verification/SubscriberExamples.thy ===== *)
theory SubscriberExamples
  imports SubscriberProperties
begin

text \<open>
  Concrete runs of the subscriber, to which the properties of \<open>SubscriberProperties\<close> are
  applied: three messages of one partition on two shards, a shard of one place whose handler
  fails, and a shutdown after a fatal error of the broker.
\<close>

section \<open>A topic with one partition\<close>

definition sample_tp :: "int \<Rightarrow> topic_partition" where
  "sample_tp n = \<lparr>tp_Topic = Some ''t'', tp_Partition = 0, tp_Offset = n\<rparr>"

definition sample_kafka :: "int \<Rightarrow> string \<Rightarrow> kafka_message" where
  "sample_kafka n value = \<lparr>km_TopicPartition = sample_tp n, km_Value = value\<rparr>"

text \<open>The value \<open>b\<close> is a message of the second shard, every other one of the first.\<close>

definition sample_sub_message :: "string \<Rightarrow> message" where
  "sample_sub_message value = \<lparr>ms_ResourceKey = (if value = ''b'' then 2 else 1),
     ms_MsgType = MsgTypeUserCreated, ms_Payload = ''p''\<rparr>"

definition sample_sub_env :: subscriber_env where
  "sample_sub_env = \<lparr>se_Unmarshal = (\<lambda>v. Inr (sample_sub_message v)), se_MsgContext = (\<lambda>_. background),
     se_WriteMessage = (\<lambda>_ _. None), se_CommitMessage = (\<lambda>_ _. None), se_Backoff = (\<lambda>_. Waited),
     se_CtxErr = (\<lambda>_. None), se_Now = int, se_Pause = None, se_Resume = None, se_Position = None,
     se_HighWatermark = (\<lambda>_ _ _. Inr 0), se_SubscribeTopics = (\<lambda>_ _. None)\<rparr>"

definition sample_ok :: listener where
  "sample_ok ctx msg t = Returned None"

definition sample_failing :: listener where
  "sample_failing ctx msg t = Returned (Some (TextError ''database down''))"

lemma sample_shards: "getShardID 2 1 = 0" "getShardID 2 2 = 1" "getShardID (Suc 0) k = 0"
  by (simp_all add: getShardID_def uuid_octets_def upt_rec fnv32a_def drop_bit_eq_div)

lemmas sample_sub_defs = sample_tp_def sample_kafka_def sample_sub_message_def sample_sub_env_def

lemmas step_defs = sub_init_def Subscribe_topics_def NewSubscriber_def new_health_def newPartitionAssignment_def
  poll_iteration_def drain_loop_def drained_def polled_def on_event_def on_message_def prepareMessage_def
  Message_Deserialize_def Message_Validate_def Token_def newTopicPartitionKey_def startProcessing_def
  registerInFlight_def tryDispatch_def shard_of_def shard_room_def enqueue_shard_def IsCurrent_def
  recordAssignedPartitions_def Assign_def worker_step_def receive_def after_action_def set_worker_def set_sub_def
  process_begin_def process_returned_def finish_message_def requestCommit_def commitRequestFor_def
  removeReplayKey_def seen_def ask_def wg_add_def wg_done_def commit_room_def coordinator_step_def
  RegisterListener_def refreshLag_def health_defs

definition sample_setup :: "listener \<Rightarrow> sub_label list" where
  "sample_setup l = [Listen MsgTypeUserCreated l, Poll [] (Some (EvAssigned [sample_tp 0]))]"

definition sample_arrivals :: "sub_label list" where
  "sample_arrivals = [Poll [] (Some (EvMessage (sample_kafka 0 ''a''))), Poll [] (Some (EvMessage (sample_kafka 1 ''a''))),
     Poll [] (Some (EvMessage (sample_kafka 2 ''b'')))]"

lemmas sample_run_defs = sample_setup_def sample_arrivals_def sample_sub_defs step_defs Let_def sample_shards

text \<open>A run and what holds at its end, evaluated at once.\<close>

definition ends_in :: "subscriber_env \<Rightarrow> sub_label list \<Rightarrow> sub_world \<Rightarrow> (sub_world \<Rightarrow> bool) \<Rightarrow> bool" where
  "ends_in env ls w p = (case sub_run env ls w of None \<Rightarrow> False | Some w' \<Rightarrow> p w')"

lemma ends_inD: "ends_in env ls w p \<Longrightarrow> \<exists>w'. sub_run env ls w = Some w' \<and> p w'"
  by (simp add: ends_in_def split: option.splits)

definition sample_start :: "int \<Rightarrow> int \<Rightarrow> sub_world" where
  "sample_start n b = sub_init sample_sub_env ''g'' n b [''t'']"

definition sample_token :: assignment_token where
  "sample_token = \<lparr>at_key = \<lparr>tk_topic = ''t'', tk_partition = 0\<rparr>, at_generation = 1, at_valid = True\<rparr>"

definition sample_sharded :: "int \<Rightarrow> string \<Rightarrow> sharded_message" where
  "sample_sharded n value = \<lparr>sm_ctx = background, sm_msg = sample_kafka n value,
     sm_message = sample_sub_message value, sm_assignment = sample_token\<rparr>"

section \<open>An offset committed too early\<close>

text \<open>
  Offset 0 is handled and committed, offset 1 is with its handler, offset 2, on the other
  shard, is done and waits for its commit.
\<close>

definition sample_overtaking :: "sub_label list" where
  "sample_overtaking = sample_setup sample_ok @ sample_arrivals @ [Worker 0, Worker 0, Worker 0,
     Coordinator, Coordinator, Coordinator, Coordinator, Coordinator, Worker 0, Worker 0, Worker 1, Worker 1, Worker 1]"

lemma sample_overtaking_run:
  "ends_in sample_sub_env sample_overtaking (sample_start 2 4)
     (\<lambda>w. sw_coord w = CoIdle \<and> sc_commitCh (sw_sub w) = [commitRequestFor (sample_sharded 2 ''b'')] \<and>
       IsCurrent (sc_assignments (sw_sub w)) sample_token \<and>
       sc_commitStates (sw_sub w) \<lparr>tk_topic = ''t'', tk_partition = 0\<rparr> = None \<and>
       length (sw_workers w) = 2 \<and> sw_workers w ! 0 = WHandling sample_ok (sample_sharded 1 ''a''))"
  by (simp add: ends_in_def sample_start_def sample_overtaking_def sample_run_defs sample_ok_def [abs_def]
      mark_ready_def take_ready_single commit_at_once
      sample_sharded_def sample_token_def)

theorem commit_overtakes_witness:
  "\<exists>w w'. sub_run sample_sub_env sample_overtaking (sample_start 2 4) = Some w \<and>
    sub_run sample_sub_env [Coordinator, Coordinator, Coordinator, Coordinator] w = Some w' \<and>
    sc_events (sw_sub w') = sc_events (sw_sub w) @ [CommitSent (commitRequestFor (sample_sharded 2 ''b''))] \<and>
    sw_workers w' ! 0 = WHandling sample_ok (sample_sharded 1 ''a'')"
proof -
  obtain w where run: "sub_run sample_sub_env sample_overtaking (sample_start 2 4) = Some w"
    and w: "sw_coord w = CoIdle" "sc_commitCh (sw_sub w) = [commitRequestFor (sample_sharded 2 ''b'')]"
      "IsCurrent (sc_assignments (sw_sub w)) sample_token"
      "sc_commitStates (sw_sub w) \<lparr>tk_topic = ''t'', tk_partition = 0\<rparr> = None"
      "length (sw_workers w) = 2" "sw_workers w ! 0 = WHandling sample_ok (sample_sharded 1 ''a'')"
    using ends_inD [OF sample_overtaking_run] by blast
  have req: "cr_assignment (commitRequestFor (sample_sharded 2 ''b'')) = sample_token"
    "msg_key (cr_msg (commitRequestFor (sample_sharded 2 ''b''))) = \<lparr>tk_topic = ''t'', tk_partition = 0\<rparr>"
    "msg_key (sm_msg (sample_sharded 1 ''a'')) = \<lparr>tk_topic = ''t'', tk_partition = 0\<rparr>"
    "msg_offset (cr_msg (commitRequestFor (sample_sharded 2 ''b''))) = 2" "msg_offset (sm_msg (sample_sharded 1 ''a'')) = 1"
    by (simp_all add: commitRequestFor_def sample_sharded_def sample_kafka_def sample_tp_def newTopicPartitionKey_def)
  show ?thesis
    using run commit_overtakes [of w "commitRequestFor (sample_sharded 2 ''b'')" "[]" sample_sub_env 0 sample_ok "sample_sharded 1 ''a''"]
      w by (simp add: req sample_sub_env_def del: sub_run.simps)
qed

section \<open>A shard of one place\<close>

text \<open>The handler fails while the next message takes the only place of the queue.\<close>

definition sample_full :: "sub_label list" where
  "sample_full = sample_setup sample_failing @ [Poll [] (Some (EvMessage (sample_kafka 0 ''a''))), Worker 0, Worker 0,
     Poll [] (Some (EvMessage (sample_kafka 1 ''a''))), Worker 0, Worker 0, Worker 0]"

lemma sample_full_run:
  "ends_in sample_sub_env sample_full (sample_start 1 1)
     (\<lambda>w. sc_numShards (sw_sub w) = 1 \<and> sw_workers w ! 0 = WSending (sample_sharded 0 ''a'') \<and>
       sc_channelBuffer (sw_sub w) = 1 \<and> sc_shardChannels (sw_sub w) ! 0 = [sample_sharded 1 ''a''] \<and>
       sub_run sample_sub_env [Poll [] None] w \<noteq> None)"
  by (simp add: ends_in_def sample_start_def sample_full_def sample_run_defs sample_failing_def [abs_def]
      isNonRetryableError_def replay_begin_def replay_attempts_def MaxReplayAttempts_def replay_wake_def
      replay_check_def sub_backoff_def sample_sharded_def sample_token_def)

theorem full_shard_stalls_witness:
  "\<exists>w w'. sub_run sample_sub_env sample_full (sample_start 1 1) = Some w \<and>
    sub_run sample_sub_env [Poll [] None] w = Some w' \<and> sw_workers w' ! 0 = WSending (sample_sharded 0 ''a'') \<and>
    sc_shardChannels (sw_sub w') ! 0 = [sample_sharded 1 ''a'']"
proof -
  obtain w w' where run: "sub_run sample_sub_env sample_full (sub_init sample_sub_env ''g'' 1 1 [''t'']) = Some w"
    and w: "sc_numShards (sw_sub w) = 1" "sw_workers w ! 0 = WSending (sample_sharded 0 ''a'')"
      "sc_channelBuffer (sw_sub w) = 1" "sc_shardChannels (sw_sub w) ! 0 = [sample_sharded 1 ''a'']"
    and w': "sub_run sample_sub_env [Poll [] None] w = Some w'"
    using ends_inD [OF sample_full_run] unfolding sample_start_def by blast
  have "sw_workers w' ! 0 = WSending (sample_sharded 0 ''a'') \<and> sc_shardChannels (sw_sub w') ! 0 = sc_shardChannels (sw_sub w) ! 0 \<and>
      (\<forall>e. sw_loop w' \<noteq> LoopStopped e)"
    by (rule full_shard_stalls [OF run _ w(2) _ _ w'])
      (simp_all add: w shard_of_def sample_shards sample_sub_env_def)
  with run w' w(4) show ?thesis unfolding sample_start_def by auto
qed

section \<open>Commits and shutdown\<close>

text \<open>The first message is handled and its request is with the coordinator, then committed.\<close>

definition sample_checked :: "sub_label list" where
  "sample_checked = sample_setup sample_ok @ sample_arrivals @ [Worker 0, Worker 0, Worker 0, Coordinator]"

lemma sample_checked_run:
  "ends_in sample_sub_env sample_checked (sample_start 2 4)
     (\<lambda>w. sw_coord w = CoChecked (commitRequestFor (sample_sharded 0 ''a'')) \<and>
       sc_commitStates (sw_sub w) \<lparr>tk_topic = ''t'', tk_partition = 0\<rparr> = Some \<lparr>cs_nextOffset = 0, cs_ready = []\<rparr> \<and>
       (\<exists>w'. coordinator_step sample_sub_env w = Some w'))"
  by (simp add: ends_in_def sample_start_def sample_checked_def sample_run_defs sample_ok_def [abs_def]
      mark_ready_def take_ready_single sample_sharded_def sample_token_def)

theorem commits_consecutive_witness:
  "\<exists>w w' reqs. sub_run sample_sub_env sample_checked (sample_start 2 4) = Some w \<and>
    coordinator_step sample_sub_env w = Some w' \<and> sw_coord w' = CoReady reqs \<and>
    map (msg_offset \<circ> cr_msg) reqs = [0..int (length reqs) - 1] \<and> commitRequestFor (sample_sharded 0 ''a'') \<in> set reqs"
proof -
  obtain w w' where run: "sub_run sample_sub_env sample_checked (sub_init sample_sub_env ''g'' 2 4 [''t'']) = Some w"
    and w: "sw_coord w = CoChecked (commitRequestFor (sample_sharded 0 ''a''))"
      "sc_commitStates (sw_sub w) \<lparr>tk_topic = ''t'', tk_partition = 0\<rparr> = Some \<lparr>cs_nextOffset = 0, cs_ready = []\<rparr>"
    and w': "coordinator_step sample_sub_env w = Some w'"
    using ends_inD [OF sample_checked_run] unfolding sample_start_def by blast
  have key: "msg_key (cr_msg (commitRequestFor (sample_sharded 0 ''a''))) = \<lparr>tk_topic = ''t'', tk_partition = 0\<rparr>"
    "msg_offset (cr_msg (commitRequestFor (sample_sharded 0 ''a''))) = 0"
    by (simp_all add: commitRequestFor_def sample_sharded_def sample_kafka_def sample_tp_def newTopicPartitionKey_def)
  show ?thesis
    using commits_consecutive [OF run w(1) _ w', of "\<lparr>cs_nextOffset = 0, cs_ready = []\<rparr>"] w(2) run w'
    unfolding sample_start_def by (auto simp: key)
qed

definition sample_committed :: "sub_label list" where
  "sample_committed = sample_checked @ [Coordinator, Coordinator, Coordinator]"

lemma sample_committed_run:
  "ends_in sample_sub_env sample_committed (sample_start 2 4)
     (\<lambda>w. sc_events (sw_sub w) = [ListenerReturned (sample_sharded 0 ''a'') (Returned None)] @
       CommitSent (commitRequestFor (sample_sharded 0 ''a'')) # [])"
  by (simp add: ends_in_def sample_start_def sample_committed_def sample_checked_def sample_run_defs sample_ok_def [abs_def]
      mark_ready_def take_ready_single commit_at_once sample_sharded_def sample_token_def)

theorem commits_are_settled_witness:
  "settled [ListenerReturned (sample_sharded 0 ''a'') (Returned None)] (cr_msg (commitRequestFor (sample_sharded 0 ''a'')))"
  using commits_are_settled ends_inD [OF sample_committed_run] unfolding sample_start_def by blast

definition sample_shutdown :: "sub_label list" where
  "sample_shutdown = sample_setup sample_ok @ [Poll [] (Some (EvMessage (sample_kafka 0 ''a''))),
     Poll [] (Some (EvError (TextError ''fatal'') True)), Worker 0, Worker 0, Worker 0, CloseChannels]"

lemma sample_shutdown_run:
  "ends_in sample_sub_env sample_shutdown (sample_start 2 4) (\<lambda>w. sw_loop w = LoopStopped (TextError ''fatal''))"
  by (simp add: ends_in_def sample_start_def sample_shutdown_def sample_run_defs sample_ok_def [abs_def]
      on_error_def exit_loop_def markClosed_def stopProcessingAdmission_def releaseBacklog_def close_step_def)

theorem closed_channels_unused_witness:
  "\<exists>w. sub_run sample_sub_env sample_shutdown (sample_start 2 4) = Some w \<and>
    sw_loop w = LoopStopped (TextError ''fatal'') \<and> set (sw_workers w) = {WIdle}"
  using closed_channels_unused ends_inD [OF sample_shutdown_run] unfolding sample_start_def by blast

section \<open>A replayed message loses its turn\<close>

text \<open>
  Two messages with one key: the handler fails once on the first, which goes to the end of the
  queue, so the second is handled before it.
\<close>

definition sample_flaky :: "nat \<Rightarrow> listener" where
  "sample_flaky n ctx msg t = Returned (if t < n then Some (TextError ''database down'') else None)"

definition sample_replay :: "sub_label list" where
  "sample_replay = sample_setup (sample_flaky 8) @ [Poll [] (Some (EvMessage (sample_kafka 0 ''a''))),
     Poll [] (Some (EvMessage (sample_kafka 1 ''a''))), Worker 0, Worker 0, Worker 0, Worker 0, Worker 0, Worker 0,
     Worker 0, Worker 0, Worker 0, Worker 0, Worker 0, Worker 0]"

theorem replay_changes_order:
  "ends_in sample_sub_env sample_replay (sample_start 1 4)
     (\<lambda>w. sc_events (sw_sub w) =
       [ListenerReturned (sample_sharded 0 ''a'') (Returned (Some (TextError ''database down''))),
        ListenerReturned (sample_sharded 1 ''a'') (Returned None),
        ListenerReturned (sample_sharded 0 ''a'') (Returned None)])"
  by (simp add: ends_in_def sample_start_def sample_replay_def sample_run_defs sample_flaky_def [abs_def]
      isNonRetryableError_def replay_begin_def replay_attempts_def MaxReplayAttempts_def replay_wake_def
      replay_check_def replay_send_def sub_backoff_def sample_sharded_def sample_token_def)

end
