(* ===== verification/AgentRegistryTypes.thy ===== *)
theory AgentRegistryTypes
  imports GoFloat64 Outbox
begin

text \<open>
  The domain of the agent registry: \<open>agent_registry_service/pkg/domain\<close>. A lineage of
  agents has registered versions of its specification, endpoints it is bound to, golden tasks
  in three splits, labels of past runs, training datasets built from them, adapters trained on
  the datasets, evaluation reports and one champion.

  A time is a count of microseconds, PostgreSQL's resolution, and the zero time is 0; an
  optional UUID is \<open>uuid.Nil\<close> when absent, as in the Go structs.
\<close>

section \<open>Errors\<close>

datatype agent_code =
  CodeValidation | CodeSpecUnavailable | CodeEndpointUnavailable | CodeVersionNotFound
| CodeGoldenTaskLeak | CodeEvalFailed | CodeLabelNotFound | CodeDatasetNotFound
| CodeAdapterNotFound | CodeChampionNotFound | CodeTrainingFailed | CodePromotionFailed

text \<open>
  What an operation may return: a service error, the \<open>ErrNoRows\<close> of the driver, any other
  error of the database or of a client, an error of the outbox.
\<close>

datatype agent_error =
  AgentServiceError agent_code string
| NoRows
| AgentSql string
| ClientError string
| AgentOutbox outbox_error

fun agent_message :: "agent_code \<Rightarrow> string" where
  "agent_message CodeValidation = ''agent registry validation failed''"
| "agent_message CodeSpecUnavailable = ''agent spec unavailable''"
| "agent_message CodeEndpointUnavailable = ''agent endpoint unavailable''"
| "agent_message CodeVersionNotFound = ''agent version not found''"
| "agent_message CodeGoldenTaskLeak = ''golden task leakage detected''"
| "agent_message CodeEvalFailed = ''agent eval failed''"
| "agent_message CodeLabelNotFound = ''agent run label not found''"
| "agent_message CodeDatasetNotFound = ''agent trajectory dataset not found''"
| "agent_message CodeAdapterNotFound = ''agent adapter not found''"
| "agent_message CodeChampionNotFound = ''agent champion not found''"
| "agent_message CodeTrainingFailed = ''agent adapter training failed''"
| "agent_message CodePromotionFailed = ''agent adapter promotion failed''"

definition agent_err :: "agent_code \<Rightarrow> agent_error" where
  "agent_err code = AgentServiceError code (agent_message code)"

definition agent_Extend :: "agent_code \<Rightarrow> string \<Rightarrow> agent_error" where
  "agent_Extend code message = AgentServiceError code (agent_message code @ '': '' @ message)"

text \<open>\<open>errors.Is\<close> against one of the errors above compares the codes only.\<close>

definition agent_Is :: "agent_error \<Rightarrow> agent_code \<Rightarrow> bool" where
  "agent_Is e code = (case e of AgentServiceError c _ \<Rightarrow> c = code | _ \<Rightarrow> False)"

lemma agent_Is_simps [simp]:
  "agent_Is (agent_err c) d \<longleftrightarrow> c = d" "agent_Is (agent_Extend c m) d \<longleftrightarrow> c = d"
  "\<not> agent_Is NoRows d" "\<not> agent_Is (AgentSql s) d" "\<not> agent_Is (ClientError s) d" "\<not> agent_Is (AgentOutbox ob) d"
  by (auto simp: agent_Is_def agent_err_def agent_Extend_def)

section \<open>Enumerations\<close>

datatype AgentAdapterStatus =
  AgentAdapterStatusUnknown | AgentAdapterStatusTraining | AgentAdapterStatusCandidate
| AgentAdapterStatusEvaluated | AgentAdapterStatusPromoted | AgentAdapterStatusRejected
| AgentAdapterStatusFailed

fun AgentAdapterStatus_String :: "AgentAdapterStatus \<Rightarrow> string" where
  "AgentAdapterStatus_String AgentAdapterStatusTraining = ''TRAINING''"
| "AgentAdapterStatus_String AgentAdapterStatusCandidate = ''CANDIDATE''"
| "AgentAdapterStatus_String AgentAdapterStatusEvaluated = ''EVALUATED''"
| "AgentAdapterStatus_String AgentAdapterStatusPromoted = ''PROMOTED''"
| "AgentAdapterStatus_String AgentAdapterStatusRejected = ''REJECTED''"
| "AgentAdapterStatus_String AgentAdapterStatusFailed = ''FAILED''"
| "AgentAdapterStatus_String AgentAdapterStatusUnknown = ''UNKNOWN''"

definition ToAgentAdapterStatus :: "string \<Rightarrow> string + AgentAdapterStatus" where
  "ToAgentAdapterStatus value = (let v = ToUpper (TrimSpace value) in
     if v = ''TRAINING'' then Inr AgentAdapterStatusTraining
     else if v = ''CANDIDATE'' then Inr AgentAdapterStatusCandidate
     else if v = ''EVALUATED'' then Inr AgentAdapterStatusEvaluated
     else if v = ''PROMOTED'' then Inr AgentAdapterStatusPromoted
     else if v = ''REJECTED'' then Inr AgentAdapterStatusRejected
     else if v = ''FAILED'' then Inr AgentAdapterStatusFailed
     else Inl (''invalid agent adapter status '' @ value))"

datatype GoldenTaskSplit =
  GoldenTaskSplitUnknown | GoldenTaskSplitSeedTrain | GoldenTaskSplitDevEval
| GoldenTaskSplitPromotionHoldout

fun GoldenTaskSplit_String :: "GoldenTaskSplit \<Rightarrow> string" where
  "GoldenTaskSplit_String GoldenTaskSplitSeedTrain = ''SEED_TRAIN''"
| "GoldenTaskSplit_String GoldenTaskSplitDevEval = ''DEV_EVAL''"
| "GoldenTaskSplit_String GoldenTaskSplitPromotionHoldout = ''PROMOTION_HOLDOUT''"
| "GoldenTaskSplit_String GoldenTaskSplitUnknown = ''UNKNOWN''"

definition ToGoldenTaskSplit :: "string \<Rightarrow> string + GoldenTaskSplit" where
  "ToGoldenTaskSplit value = (let v = ToUpper (TrimSpace value) in
     if v = ''SEED_TRAIN'' then Inr GoldenTaskSplitSeedTrain
     else if v = ''DEV_EVAL'' then Inr GoldenTaskSplitDevEval
     else if v = ''PROMOTION_HOLDOUT'' then Inr GoldenTaskSplitPromotionHoldout
     else Inl (''invalid golden task split '' @ value))"

interpretation adapter_status: text_enum "\<lambda>s. s \<noteq> AgentAdapterStatusUnknown" AgentAdapterStatus_String ToAgentAdapterStatus
proof
  fix x
  assume "x \<noteq> AgentAdapterStatusUnknown"
  then show "ToAgentAdapterStatus (AgentAdapterStatus_String x) = Inr x"
    by (cases x) (auto simp: ToAgentAdapterStatus_def Let_def ToUpper_def upper_char_def TrimSpace_def is_space_def)
qed (auto simp: ToAgentAdapterStatus_def Let_def split: if_splits)

interpretation golden_split: text_enum "\<lambda>s. s \<noteq> GoldenTaskSplitUnknown" GoldenTaskSplit_String ToGoldenTaskSplit
proof
  fix x
  assume "x \<noteq> GoldenTaskSplitUnknown"
  then show "ToGoldenTaskSplit (GoldenTaskSplit_String x) = Inr x"
    by (cases x) (auto simp: ToGoldenTaskSplit_def Let_def ToUpper_def upper_char_def TrimSpace_def is_space_def)
qed (auto simp: ToGoldenTaskSplit_def Let_def split: if_splits)

section \<open>What is stored\<close>

record agent_spec_version =
  asv_OrgID :: uuid
  asv_AgentLineage :: string
  asv_AgentSpecHash :: string
  asv_ModelID :: uuid
  asv_RegisteredByUserID :: uuid
  asv_RegisteredAt :: int

record agent_endpoint_binding =
  aeb_OrgID :: uuid
  aeb_AgentLineage :: string
  aeb_EndpointID :: uuid
  aeb_CreatedByUserID :: uuid
  aeb_CreatedAt :: int

record agent_champion_state =
  acs_OrgID :: uuid
  acs_AgentLineage :: string
  acs_ChampionAgentSpecHash :: string
  acs_ChampionAdapterID :: uuid
  acs_ServingModelID :: uuid
  acs_PreviousAgentSpecHash :: string
  acs_DecisionID :: uuid
  acs_DecidedBy :: uuid
  acs_DecidedAt :: int

record golden_task =
  gt_TaskID :: uuid
  gt_OrgID :: uuid
  gt_AgentLineage :: string
  gt_Split :: GoldenTaskSplit
  gt_SplitVersion :: int
  gt_GroupKey :: string
  gt_Prompt :: string
  gt_NormalizedPromptHash :: string
  gt_ContentFingerprint :: string
  gt_NearDuplicateFingerprint :: string
  gt_ExpectedToolPlanHash :: string
  gt_ExpectedAnswer :: string
  gt_ExpectedAnswerRubricID :: string
  gt_LabelsHash :: string
  gt_CreatedByUserID :: uuid
  gt_CreatedAt :: int

record golden_task_leak_conflict =
  glc_TaskID :: uuid
  glc_Split :: GoldenTaskSplit
  glc_GroupKey :: string
  glc_ContentFingerprint :: string
  glc_NearDuplicateFingerprint :: string

record agent_run_label =
  arl_LabelID :: uuid
  arl_OrgID :: uuid
  arl_RunID :: uuid
  arl_AgentLineage :: string
  arl_AgentSpecHash :: string
  arl_ToolsetHash :: string
  arl_EffectiveBaseID :: string
  arl_DataSnapshotHash :: string
  arl_ContentFingerprint :: string
  arl_NearDuplicateFingerprint :: string
  arl_Evaluator :: string
  arl_TaskSuccess :: bool
  arl_ToolSelectionScore :: f64
  arl_Groundedness :: f64
  arl_PolicyViolations :: int
  arl_Confidence :: f64
  arl_LabelSource :: string
  arl_RubricVersion :: string
  arl_CreatedByUserID :: uuid
  arl_CreatedAt :: int

record agent_trajectory_dataset =
  atd_DatasetID :: uuid
  atd_OrgID :: uuid
  atd_AgentLineage :: string
  atd_GoldenSplitVersion :: int
  atd_ContentHash :: string
  atd_DatasetURI :: string
  atd_Format :: string
  atd_LabelCount :: int
  atd_Manifest :: string
  atd_EffectiveBaseID :: string
  atd_AgentSpecHash :: string
  atd_ToolsetHash :: string
  atd_DataSnapshotHash :: string
  atd_CreatedByUserID :: uuid
  atd_CreatedAt :: int

record agent_adapter =
  aad_AdapterID :: uuid
  aad_OrgID :: uuid
  aad_AgentLineage :: string
  aad_DatasetID :: uuid
  aad_TrainingRunID :: uuid
  aad_ServingModelID :: uuid
  aad_AdapterURI :: string
  aad_AdapterChecksum :: string
  aad_TrainingProvider :: string
  aad_TrainedAgainstEffectiveBaseID :: string
  aad_TrainedAgainstAgentSpecHash :: string
  aad_TrainedAgainstToolsetHash :: string
  aad_TrainedAgainstDataSnapshotHash :: string
  aad_TrainedAgainstRubricVersion :: string
  aad_TrainedAgainstGoldenSplitVersion :: int
  aad_Status :: AgentAdapterStatus
  aad_PromotionPassed :: bool
  aad_CreatedByUserID :: uuid
  aad_CreatedAt :: int
  aad_UpdatedAt :: int

record agent_eval_task_result =
  atr_OrgID :: uuid
  atr_ReportID :: uuid
  atr_TaskID :: uuid
  atr_RunID :: uuid
  atr_Status :: string
  atr_StopReason :: string
  atr_TaskSuccess :: bool
  atr_ToolSuccess :: bool
  atr_Groundedness :: bool
  atr_FailureReason :: string

record agent_eval_report =
  aer_ReportID :: uuid
  aer_OrgID :: uuid
  aer_AgentLineage :: string
  aer_AgentSpecHash :: string
  aer_AdapterID :: uuid
  aer_EndpointID :: uuid
  aer_Split :: GoldenTaskSplit
  aer_SplitVersion :: int
  aer_RubricVersion :: string
  aer_TaskCount :: int
  aer_TaskSuccessRate :: f64
  aer_ToolSuccessRate :: f64
  aer_GroundednessRate :: f64
  aer_Passed :: bool
  aer_GateReason :: string
  aer_PromotedDecisionID :: uuid
  aer_EvaluatedBy :: uuid
  aer_EvaluatedAt :: int
  aer_TaskResults :: "agent_eval_task_result list"

section \<open>Commands\<close>

record register_spec_command =
  rsv_OrgID :: uuid
  rsv_UserID :: uuid
  rsv_AgentLineage :: string
  rsv_AgentSpecHash :: string

record register_binding_command =
  reb_OrgID :: uuid
  reb_UserID :: uuid
  reb_AgentLineage :: string
  reb_EndpointID :: uuid

record promote_spec_command =
  psc_OrgID :: uuid
  psc_UserID :: uuid
  psc_AgentLineage :: string
  psc_AgentSpecHash :: string
  psc_DecisionID :: uuid
  psc_DecidedAt :: int

record golden_task_input =
  gti_GroupKey :: string
  gti_Prompt :: string
  gti_ExpectedToolPlanHash :: string
  gti_ExpectedAnswer :: string
  gti_ExpectedAnswerRubricID :: string
  gti_LabelsHash :: string

record import_golden_command =
  igt_OrgID :: uuid
  igt_UserID :: uuid
  igt_AgentLineage :: string
  igt_Split :: GoldenTaskSplit
  igt_SplitVersion :: int
  igt_Tasks :: "golden_task_input list"

record list_golden_command =
  lgt_OrgID :: uuid
  lgt_AgentLineage :: string
  lgt_Split :: GoldenTaskSplit
  lgt_SplitVersion :: int

record label_run_command =
  lar_OrgID :: uuid
  lar_UserID :: uuid
  lar_RunID :: uuid
  lar_AgentLineage :: string
  lar_Prompt :: string
  lar_Evaluator :: string
  lar_TaskSuccess :: bool
  lar_ToolSelectionScore :: f64
  lar_Groundedness :: f64
  lar_PolicyViolations :: int
  lar_Confidence :: f64
  lar_LabelSource :: string
  lar_RubricVersion :: string

record list_labels_command =
  llc_OrgID :: uuid
  llc_AgentLineage :: string

record build_dataset_command =
  btd_OrgID :: uuid
  btd_UserID :: uuid
  btd_AgentLineage :: string
  btd_GoldenSplitVersion :: int

record dispatch_training_command =
  dat_OrgID :: uuid
  dat_UserID :: uuid
  dat_AgentLineage :: string
  dat_DatasetID :: uuid
  dat_TrainingProfile :: string

record adapter_training_request =
  atq_OrgID :: uuid
  atq_UserID :: uuid
  atq_AgentLineage :: string
  atq_DatasetID :: uuid
  atq_DatasetURI :: string
  atq_ContentHash :: string
  atq_SourceModelID :: uuid
  atq_TrainingProfile :: string
  atq_EffectiveBaseID :: string
  atq_AgentSpecHash :: string
  atq_ToolsetHash :: string
  atq_DataSnapshotHash :: string

record adapter_training_result =
  ats_TrainingRunID :: uuid
  ats_ServingModelID :: uuid
  ats_AdapterURI :: string
  ats_AdapterChecksum :: string
  ats_TrainingProvider :: string

record adapter_training_completion =
  atc_TrainingRunID :: uuid
  atc_OrgID :: uuid
  atc_ServingModelID :: uuid
  atc_AdapterURI :: string
  atc_AdapterChecksum :: string
  atc_TrainingProvider :: string

record adapter_training_failure =
  atf_TrainingRunID :: uuid
  atf_OrgID :: uuid
  atf_FailureReason :: string

record evaluate_adapter_command =
  eac_OrgID :: uuid
  eac_UserID :: uuid
  eac_AgentLineage :: string
  eac_AdapterID :: uuid
  eac_EndpointID :: uuid
  eac_SplitVersion :: int
  eac_MinTaskSuccessRate :: f64
  eac_MinToolSuccessRate :: f64
  eac_MinGroundednessRate :: f64

record promote_adapter_command =
  paa_OrgID :: uuid
  paa_UserID :: uuid
  paa_AgentLineage :: string
  paa_AdapterID :: uuid
  paa_ReportID :: uuid
  paa_MinDelta :: f64

record evaluate_spec_command =
  esc_OrgID :: uuid
  esc_UserID :: uuid
  esc_AgentLineage :: string
  esc_AgentSpecHash :: string
  esc_AdapterID :: uuid
  esc_EndpointID :: uuid
  esc_SplitVersion :: int
  esc_MinTaskSuccessRate :: f64
  esc_MinToolSuccessRate :: f64
  esc_MinGroundednessRate :: f64

section \<open>What other services answer\<close>

record agent_spec_ref =
  asr_OrgID :: uuid
  asr_AgentSpecHash :: string
  asr_AgentLineage :: string
  asr_ModelID :: uuid

record endpoint_ref =
  epr_OrgID :: uuid
  epr_EndpointID :: uuid

record agent_trajectory_ref =
  atj_RunID :: uuid
  atj_OrgID :: uuid
  atj_UserID :: uuid
  atj_EndpointID :: uuid
  atj_AgentSpecHash :: string
  atj_ToolsetHash :: string
  atj_EffectiveBaseID :: string
  atj_DataSnapshotHash :: string
  atj_Status :: string
  atj_StopReason :: string

record agent_task_run_command =
  atx_OrgID :: uuid
  atx_UserID :: uuid
  atx_EndpointID :: uuid
  atx_AgentSpecHash :: string
  atx_ServingModelID :: uuid
  atx_TaskID :: uuid
  atx_QueryText :: string

record agent_task_tool_invocation =
  ati_ToolName :: string
  ati_ErrorType :: string

record agent_task_run_result =
  trr_RunID :: uuid
  trr_Status :: string
  trr_StopReason :: string
  trr_Answer :: string
  trr_GroundedContextCount :: int
  trr_GroundedContextTexts :: "string list"
  trr_ToolInvocations :: "agent_task_tool_invocation list"

end
