(* ===== verification/AgentRegistryTables.thy ===== *)
theory AgentRegistryTables
  imports AgentRegistryTypes SessionContext GoInt
begin

text \<open>
  The tables of the agent registry and the statements on them:
  \<open>agent_registry_repository.go\<close> in \<open>agent_registry_service/pkg/infra/repo/db\<close>, with the
  constraints and row policies of \<open>agent_registry_service/db/migrations\<close>.

  A nullable UUID column is NULL exactly when the Go field is \<open>uuid.Nil\<close>, so both are the
  zero word. An integer column refuses what does not fit 32 bits. A constraint, a foreign key
  or a row policy that refuses a row makes the statement fail and changes nothing. UUIDs
  order as their texts do. Where a statement leaves the order of equal rows open, they keep
  the order in which they were inserted.
\<close>

section \<open>Tables\<close>

record agent_lineage_row =
  aln_org :: uuid
  aln_lineage :: string
  aln_created_by :: uuid
  aln_created_at :: int

text \<open>
  \<open>agt_drawn\<close> counts the ids the server has drawn. A report is stored without its results.
\<close>

record agent_tables =
  agt_lineages :: "agent_lineage_row list"
  agt_specs :: "agent_spec_version list"
  agt_bindings :: "agent_endpoint_binding list"
  agt_champions :: "agent_champion_state list"
  agt_tasks :: "golden_task list"
  agt_labels :: "agent_run_label list"
  agt_datasets :: "agent_trajectory_dataset list"
  agt_adapters :: "agent_adapter list"
  agt_reports :: "agent_eval_report list"
  agt_results :: "agent_eval_task_result list"
  agt_drawn :: nat

text \<open>
  What the server decides: its clock, the ids it draws, the failure, if any, of a statement
  (by the name of the repository method), the normal form of a JSON object (None for a text
  that is not one), and the value of a double kept in a \<open>numeric(8,6)\<close> column.
\<close>

record stmt_env =
  sv_now :: int
  sv_uuid :: "nat \<Rightarrow> uuid"
  sv_fail :: "string \<Rightarrow> string option"
  sv_jsonb_object :: "string \<Rightarrow> string option"
  sv_numeric6 :: "f64 \<Rightarrow> f64 option"

definition statement :: "stmt_env \<Rightarrow> string \<Rightarrow> agent_error + 'a \<Rightarrow> agent_error + 'a" where
  "statement env method r = (case sv_fail env method of Some e \<Rightarrow> Inl (AgentSql e) | None \<Rightarrow> r)"

lemma statement_ok: "statement env method r = Inr x \<longleftrightarrow> sv_fail env method = None \<and> r = Inr x"
  by (simp add: statement_def split: option.splits)

definition lineage_known :: "uuid \<Rightarrow> string \<Rightarrow> agent_tables \<Rightarrow> bool" where
  "lineage_known org lineage t \<longleftrightarrow> (\<exists>l \<in> set (agt_lineages t). aln_org l = org \<and> aln_lineage l = lineage)"

definition split_cast :: "GoldenTaskSplit \<Rightarrow> bool" where
  "split_cast split \<longleftrightarrow> GoldenTaskSplit_String split \<in> {''SEED_TRAIN'', ''DEV_EVAL'', ''PROMOTION_HOLDOUT''}"

section \<open>Lineages, versions, bindings\<close>

definition EnsureLineage :: "stmt_env \<Rightarrow> session \<Rightarrow> uuid \<Rightarrow> string \<Rightarrow> uuid \<Rightarrow> agent_tables \<Rightarrow> agent_error + agent_tables" where
  "EnsureLineage env s orgID agentLineage userID t = statement env ''EnsureLineage''
     (if \<not> org_visible s orgID \<or> btrim_blank agentLineage then Inl (AgentSql ''ensure agent lineage'')
      else if lineage_known orgID agentLineage t then Inr t
      else Inr (t\<lparr>agt_lineages := agt_lineages t @ [\<lparr>aln_org = orgID, aln_lineage = agentLineage,
             aln_created_by = userID, aln_created_at = sv_now env\<rparr>]\<rparr>))"

definition same_spec :: "uuid \<Rightarrow> string \<Rightarrow> agent_spec_version \<Rightarrow> bool" where
  "same_spec org hash r \<longleftrightarrow> asv_OrgID r = org \<and> asv_AgentSpecHash r = hash"

definition UpsertAgentSpecVersion ::
  "stmt_env \<Rightarrow> session \<Rightarrow> agent_spec_version \<Rightarrow> agent_tables \<Rightarrow> agent_error + (agent_spec_version \<times> agent_tables)" where
  "UpsertAgentSpecVersion env s version t = statement env ''UpsertAgentSpecVersion''
     (let same = same_spec (asv_OrgID version) (asv_AgentSpecHash version);
          set_version = (\<lambda>r. r\<lparr>asv_AgentLineage := asv_AgentLineage version, asv_ModelID := asv_ModelID version\<rparr>)
      in if \<not> org_visible s (asv_OrgID version) \<or> btrim_blank (asv_AgentSpecHash version) \<or>
            \<not> lineage_known (asv_OrgID version) (asv_AgentLineage version) t
         then Inl (AgentSql ''upsert agent spec version'')
         else case find same (agt_specs t) of
           None \<Rightarrow> let row = version\<lparr>asv_RegisteredAt := sv_now env\<rparr>
             in Inr (row, t\<lparr>agt_specs := agt_specs t @ [row]\<rparr>)
         | Some r \<Rightarrow> Inr (set_version r, t\<lparr>agt_specs := update_where same set_version (agt_specs t)\<rparr>))"

definition same_binding :: "uuid \<Rightarrow> uuid \<Rightarrow> agent_endpoint_binding \<Rightarrow> bool" where
  "same_binding org endpoint r \<longleftrightarrow> aeb_OrgID r = org \<and> aeb_EndpointID r = endpoint"

definition UpsertEndpointBinding ::
  "stmt_env \<Rightarrow> session \<Rightarrow> agent_endpoint_binding \<Rightarrow> agent_tables \<Rightarrow> agent_error + (agent_endpoint_binding \<times> agent_tables)" where
  "UpsertEndpointBinding env s binding t = statement env ''UpsertEndpointBinding''
     (let same = same_binding (aeb_OrgID binding) (aeb_EndpointID binding);
          set_lineage = (\<lambda>r. r\<lparr>aeb_AgentLineage := aeb_AgentLineage binding\<rparr>)
      in if \<not> org_visible s (aeb_OrgID binding) \<or> \<not> lineage_known (aeb_OrgID binding) (aeb_AgentLineage binding) t
         then Inl (AgentSql ''upsert endpoint binding'')
         else case find same (agt_bindings t) of
           None \<Rightarrow> let row = binding\<lparr>aeb_CreatedAt := sv_now env\<rparr>
             in Inr (row, t\<lparr>agt_bindings := agt_bindings t @ [row]\<rparr>)
         | Some r \<Rightarrow> Inr (set_lineage r, t\<lparr>agt_bindings := update_where same set_lineage (agt_bindings t)\<rparr>))"

definition ReadSpecVersion :: "stmt_env \<Rightarrow> session \<Rightarrow> uuid \<Rightarrow> string \<Rightarrow> agent_tables \<Rightarrow> agent_error + agent_spec_version" where
  "ReadSpecVersion env s orgID agentSpecHash t = statement env ''ReadSpecVersion''
     (case find (\<lambda>r. same_spec orgID agentSpecHash r \<and> org_visible s (asv_OrgID r)) (agt_specs t) of
        None \<Rightarrow> Inl (agent_err CodeVersionNotFound) | Some r \<Rightarrow> Inr r)"

definition ListEndpointBindings ::
  "stmt_env \<Rightarrow> session \<Rightarrow> uuid \<Rightarrow> string \<Rightarrow> agent_tables \<Rightarrow> agent_error + agent_endpoint_binding list" where
  "ListEndpointBindings env s orgID agentLineage t = statement env ''ListEndpointBindings''
     (Inr (sort_key aeb_EndpointID (filter (\<lambda>r. aeb_OrgID r = orgID \<and> aeb_AgentLineage r = agentLineage \<and>
        org_visible s (aeb_OrgID r)) (agt_bindings t))))"

section \<open>Champions\<close>

definition same_champion :: "uuid \<Rightarrow> string \<Rightarrow> agent_champion_state \<Rightarrow> bool" where
  "same_champion org lineage r \<longleftrightarrow> acs_OrgID r = org \<and> acs_AgentLineage r = lineage"

text \<open>The new champion remembers the specification it replaces.\<close>

definition RecordChampionState ::
  "stmt_env \<Rightarrow> session \<Rightarrow> agent_champion_state \<Rightarrow> agent_tables \<Rightarrow> agent_error + (agent_champion_state \<times> agent_tables)" where
  "RecordChampionState env s state t = statement env ''RecordChampionState''
     (let same = same_champion (acs_OrgID state) (acs_AgentLineage state);
          replace = (\<lambda>r. state\<lparr>acs_PreviousAgentSpecHash := acs_ChampionAgentSpecHash r\<rparr>)
      in if \<not> org_visible s (acs_OrgID state) \<or> btrim_blank (acs_ChampionAgentSpecHash state) \<or>
            \<not> lineage_known (acs_OrgID state) (acs_AgentLineage state) t
         then Inl (AgentSql ''record champion state'')
         else case find same (agt_champions t) of
           None \<Rightarrow> let row = state\<lparr>acs_PreviousAgentSpecHash := []\<rparr>
             in Inr (row, t\<lparr>agt_champions := agt_champions t @ [row]\<rparr>)
         | Some r \<Rightarrow> Inr (replace r, t\<lparr>agt_champions := update_where same replace (agt_champions t)\<rparr>))"

definition ReadChampionState :: "stmt_env \<Rightarrow> session \<Rightarrow> uuid \<Rightarrow> string \<Rightarrow> agent_tables \<Rightarrow> agent_error + agent_champion_state" where
  "ReadChampionState env s orgID agentLineage t = statement env ''ReadChampionState''
     (case find (\<lambda>r. same_champion orgID agentLineage r \<and> org_visible s (acs_OrgID r)) (agt_champions t) of
        None \<Rightarrow> Inl (agent_err CodeChampionNotFound) | Some r \<Rightarrow> Inr r)"

section \<open>Golden tasks\<close>

definition scanGoldenTask :: "golden_task \<Rightarrow> agent_error + golden_task" where
  "scanGoldenTask r = (case ToGoldenTaskSplit (GoldenTaskSplit_String (gt_Split r)) of
     Inl e \<Rightarrow> Inl (AgentSql e) | Inr split \<Rightarrow> Inr (r\<lparr>gt_Split := split\<rparr>))"

fun scan_all :: "('r \<Rightarrow> agent_error + 'a) \<Rightarrow> 'r list \<Rightarrow> agent_error + 'a list" where
  "scan_all scan [] = Inr []"
| "scan_all scan (r # rs) = (case scan r of Inl e \<Rightarrow> Inl e
     | Inr a \<Rightarrow> (case scan_all scan rs of Inl e \<Rightarrow> Inl e | Inr as \<Rightarrow> Inr (a # as)))"

definition golden_task_checks :: "golden_task \<Rightarrow> bool" where
  "golden_task_checks task \<longleftrightarrow> split_cast (gt_Split task) \<and> in_i32 (gt_SplitVersion task) \<and>
     gt_SplitVersion task > 0 \<and> \<not> btrim_blank (gt_Prompt task) \<and>
     \<not> btrim_blank (gt_NormalizedPromptHash task) \<and> \<not> btrim_blank (gt_ContentFingerprint task) \<and>
     \<not> btrim_blank (gt_NearDuplicateFingerprint task) \<and> \<not> btrim_blank (gt_ExpectedAnswer task) \<and>
     \<not> btrim_blank (gt_ExpectedAnswerRubricID task)"

text \<open>\<open>unique_golden_tasks_fingerprint\<close>, and the primary key.\<close>

definition golden_task_conflict :: "golden_task \<Rightarrow> golden_task \<Rightarrow> bool" where
  "golden_task_conflict r q \<longleftrightarrow> gt_TaskID r = gt_TaskID q \<or>
     (gt_OrgID r = gt_OrgID q \<and> gt_AgentLineage r = gt_AgentLineage q \<and>
      gt_SplitVersion r = gt_SplitVersion q \<and> gt_ContentFingerprint r = gt_ContentFingerprint q)"

definition CreateGoldenTask ::
  "stmt_env \<Rightarrow> session \<Rightarrow> golden_task \<Rightarrow> agent_tables \<Rightarrow> agent_error + (golden_task \<times> agent_tables)" where
  "CreateGoldenTask env s task t = statement env ''CreateGoldenTask''
     (let row = task\<lparr>gt_TaskID := sv_uuid env (agt_drawn t), gt_CreatedAt := sv_now env\<rparr>
      in if \<not> org_visible s (gt_OrgID task) \<or> \<not> golden_task_checks row \<or>
            \<not> lineage_known (gt_OrgID task) (gt_AgentLineage task) t \<or>
            (\<exists>q \<in> set (agt_tasks t). golden_task_conflict row q)
         then Inl (AgentSql ''create golden task'')
         else case scanGoldenTask row of Inl e \<Rightarrow> Inl e
           | Inr out \<Rightarrow> Inr (out, t\<lparr>agt_tasks := agt_tasks t @ [row], agt_drawn := Suc (agt_drawn t)\<rparr>))"

definition leaks_into :: "golden_task \<Rightarrow> golden_task \<Rightarrow> bool" where
  "leaks_into task r \<longleftrightarrow> gt_OrgID r = gt_OrgID task \<and> gt_AgentLineage r = gt_AgentLineage task \<and>
     gt_SplitVersion r = gt_SplitVersion task \<and> gt_Split r \<noteq> gt_Split task \<and>
     (gt_ContentFingerprint r = gt_ContentFingerprint task \<or>
      gt_NearDuplicateFingerprint r = gt_NearDuplicateFingerprint task \<or>
      (gt_GroupKey task \<noteq> [] \<and> gt_GroupKey r = gt_GroupKey task))"

definition conflict_of :: "golden_task \<Rightarrow> agent_error + golden_task_leak_conflict" where
  "conflict_of r = (case ToGoldenTaskSplit (GoldenTaskSplit_String (gt_Split r)) of
     Inl e \<Rightarrow> Inl (AgentSql e)
   | Inr split \<Rightarrow> Inr \<lparr>glc_TaskID = gt_TaskID r, glc_Split = split, glc_GroupKey = gt_GroupKey r,
       glc_ContentFingerprint = gt_ContentFingerprint r,
       glc_NearDuplicateFingerprint = gt_NearDuplicateFingerprint r\<rparr>)"

definition FindGoldenTaskLeakConflicts ::
  "stmt_env \<Rightarrow> session \<Rightarrow> golden_task \<Rightarrow> agent_tables \<Rightarrow> agent_error + golden_task_leak_conflict list" where
  "FindGoldenTaskLeakConflicts env s task t = statement env ''FindGoldenTaskLeakConflicts''
     (if \<not> split_cast (gt_Split task) \<or> \<not> in_i32 (gt_SplitVersion task)
      then Inl (AgentSql ''find golden task leak conflicts'')
      else scan_all conflict_of (take 10 (sort_key gt_CreatedAt
             (filter (\<lambda>r. org_visible s (gt_OrgID r) \<and> leaks_into task r) (agt_tasks t)))))"

definition ListGoldenTasks :: "stmt_env \<Rightarrow> session \<Rightarrow> list_golden_command \<Rightarrow> agent_tables \<Rightarrow> agent_error + golden_task list" where
  "ListGoldenTasks env s command t = statement env ''ListGoldenTasks''
     (if \<not> split_cast (lgt_Split command) \<or> \<not> in_i32 (lgt_SplitVersion command)
      then Inl (AgentSql ''list golden tasks'')
      else scan_all scanGoldenTask (sort_key gt_CreatedAt (sort_key gt_TaskID
        (filter (\<lambda>r. org_visible s (gt_OrgID r) \<and> gt_OrgID r = lgt_OrgID command \<and>
           gt_AgentLineage r = lgt_AgentLineage command \<and> gt_SplitVersion r = lgt_SplitVersion command \<and>
           gt_Split r = lgt_Split command) (agt_tasks t)))))"

section \<open>Labels\<close>

definition score_range :: "f64 \<Rightarrow> bool" where
  "score_range x \<longleftrightarrow> 0 \<le> x \<and> x \<le> f64_one"

definition run_label_checks :: "agent_run_label \<Rightarrow> bool" where
  "run_label_checks l \<longleftrightarrow> \<not> btrim_blank (arl_AgentSpecHash l) \<and> \<not> btrim_blank (arl_ToolsetHash l) \<and>
     \<not> btrim_blank (arl_EffectiveBaseID l) \<and> \<not> btrim_blank (arl_DataSnapshotHash l) \<and>
     \<not> btrim_blank (arl_ContentFingerprint l) \<and> \<not> btrim_blank (arl_NearDuplicateFingerprint l) \<and>
     \<not> btrim_blank (arl_Evaluator l) \<and> \<not> btrim_blank (arl_LabelSource l) \<and> \<not> btrim_blank (arl_RubricVersion l) \<and>
     score_range (arl_ToolSelectionScore l) \<and> score_range (arl_Groundedness l) \<and>
     score_range (arl_Confidence l) \<and> arl_PolicyViolations l \<ge> 0"

text \<open>\<open>agentRunLabelArgs\<close> with the casts of its columns.\<close>

definition agentRunLabelArgs :: "stmt_env \<Rightarrow> agent_run_label \<Rightarrow> agent_run_label option" where
  "agentRunLabelArgs env l =
     (case (sv_numeric6 env (arl_ToolSelectionScore l), sv_numeric6 env (arl_Groundedness l),
            sv_numeric6 env (arl_Confidence l)) of
        (Some score, Some grounded, Some confidence) \<Rightarrow>
          if in_i32 (arl_PolicyViolations l)
          then Some (l\<lparr>arl_ToolSelectionScore := score, arl_Groundedness := grounded, arl_Confidence := confidence\<rparr>)
          else None
      | _ \<Rightarrow> None)"

definition same_label :: "agent_run_label \<Rightarrow> agent_run_label \<Rightarrow> bool" where
  "same_label l r \<longleftrightarrow> arl_OrgID r = arl_OrgID l \<and> arl_RunID r = arl_RunID l \<and>
     arl_Evaluator r = arl_Evaluator l \<and> arl_RubricVersion r = arl_RubricVersion l"

definition relabel :: "agent_run_label \<Rightarrow> agent_run_label \<Rightarrow> agent_run_label" where
  "relabel l r = r\<lparr>arl_ContentFingerprint := arl_ContentFingerprint l,
     arl_NearDuplicateFingerprint := arl_NearDuplicateFingerprint l, arl_TaskSuccess := arl_TaskSuccess l,
     arl_ToolSelectionScore := arl_ToolSelectionScore l, arl_Groundedness := arl_Groundedness l,
     arl_PolicyViolations := arl_PolicyViolations l, arl_Confidence := arl_Confidence l,
     arl_LabelSource := arl_LabelSource l\<rparr>"

definition RecordAgentRunLabel ::
  "stmt_env \<Rightarrow> session \<Rightarrow> agent_run_label \<Rightarrow> agent_tables \<Rightarrow> agent_error + (agent_run_label \<times> agent_tables)" where
  "RecordAgentRunLabel env s label t = statement env ''RecordAgentRunLabel''
     (case agentRunLabelArgs env label of
        None \<Rightarrow> Inl (AgentSql ''record agent run label'')
      | Some args \<Rightarrow>
          let row = args\<lparr>arl_LabelID := sv_uuid env (agt_drawn t), arl_CreatedAt := sv_now env\<rparr>
          in if \<not> org_visible s (arl_OrgID row) \<or> \<not> run_label_checks row \<or>
                \<not> lineage_known (arl_OrgID row) (arl_AgentLineage row) t
             then Inl (AgentSql ''record agent run label'')
             else case find (same_label row) (agt_labels t) of
               Some r \<Rightarrow> Inr (relabel row r, t\<lparr>agt_labels := update_where (same_label row) (relabel row) (agt_labels t),
                 agt_drawn := Suc (agt_drawn t)\<rparr>)
             | None \<Rightarrow> if arl_LabelID row \<in> arl_LabelID ` set (agt_labels t)
                 then Inl (AgentSql ''record agent run label'')
                 else Inr (row, t\<lparr>agt_labels := agt_labels t @ [row], agt_drawn := Suc (agt_drawn t)\<rparr>))"

definition ListAgentRunLabels :: "stmt_env \<Rightarrow> session \<Rightarrow> list_labels_command \<Rightarrow> agent_tables \<Rightarrow> agent_error + agent_run_label list" where
  "ListAgentRunLabels env s command t = statement env ''ListAgentRunLabels''
     (Inr (sort_key arl_CreatedAt (sort_key arl_LabelID
        (filter (\<lambda>r. org_visible s (arl_OrgID r) \<and> arl_OrgID r = llc_OrgID command \<and>
           arl_AgentLineage r = llc_AgentLineage command) (agt_labels t)))))"

section \<open>Training datasets\<close>

definition dataset_checks :: "agent_trajectory_dataset \<Rightarrow> bool" where
  "dataset_checks d \<longleftrightarrow> in_i32 (atd_GoldenSplitVersion d) \<and> in_i32 (atd_LabelCount d) \<and>
     atd_GoldenSplitVersion d > 0 \<and> \<not> btrim_blank (atd_ContentHash d) \<and> \<not> btrim_blank (atd_DatasetURI d) \<and>
     \<not> btrim_blank (atd_Format d) \<and> atd_LabelCount d > 0 \<and> \<not> btrim_blank (atd_EffectiveBaseID d) \<and>
     \<not> btrim_blank (atd_AgentSpecHash d) \<and> \<not> btrim_blank (atd_ToolsetHash d) \<and> \<not> btrim_blank (atd_DataSnapshotHash d)"

text \<open>
  The content hash is unique across organisations: a conflict with a row the policy hides is
  an error.
\<close>

definition RecordTrajectoryDataset ::
  "stmt_env \<Rightarrow> session \<Rightarrow> agent_trajectory_dataset \<Rightarrow> agent_tables \<Rightarrow>
   agent_error + (agent_trajectory_dataset \<times> agent_tables)" where
  "RecordTrajectoryDataset env s dataset t = statement env ''RecordTrajectoryDataset''
     (case sv_jsonb_object env (atd_Manifest dataset) of
        None \<Rightarrow> Inl (AgentSql ''record trajectory dataset'')
      | Some manifest \<Rightarrow>
          let row = dataset\<lparr>atd_Manifest := manifest, atd_DatasetID := sv_uuid env (agt_drawn t), atd_CreatedAt := sv_now env\<rparr>;
              same = (\<lambda>r. atd_ContentHash r = atd_ContentHash row);
              set_uri = (\<lambda>r. r\<lparr>atd_DatasetURI := atd_DatasetURI row\<rparr>)
          in if \<not> org_visible s (atd_OrgID row) \<or> \<not> dataset_checks row \<or>
                \<not> lineage_known (atd_OrgID row) (atd_AgentLineage row) t
             then Inl (AgentSql ''record trajectory dataset'')
             else case find same (agt_datasets t) of
               Some r \<Rightarrow> if \<not> org_visible s (atd_OrgID r) then Inl (AgentSql ''record trajectory dataset'')
                 else Inr (set_uri r, t\<lparr>agt_datasets := update_where same set_uri (agt_datasets t),
                   agt_drawn := Suc (agt_drawn t)\<rparr>)
             | None \<Rightarrow> if atd_DatasetID row \<in> atd_DatasetID ` set (agt_datasets t)
                 then Inl (AgentSql ''record trajectory dataset'')
                 else Inr (row, t\<lparr>agt_datasets := agt_datasets t @ [row], agt_drawn := Suc (agt_drawn t)\<rparr>))"

definition ReadTrajectoryDataset :: "stmt_env \<Rightarrow> session \<Rightarrow> uuid \<Rightarrow> uuid \<Rightarrow> agent_tables \<Rightarrow> agent_error + agent_trajectory_dataset" where
  "ReadTrajectoryDataset env s orgID datasetID t = statement env ''ReadTrajectoryDataset''
     (case find (\<lambda>r. atd_OrgID r = orgID \<and> atd_DatasetID r = datasetID \<and> org_visible s (atd_OrgID r)) (agt_datasets t) of
        None \<Rightarrow> Inl (agent_err CodeDatasetNotFound) | Some r \<Rightarrow> Inr r)"

section \<open>Adapters\<close>

definition scanAgentAdapter :: "agent_adapter \<Rightarrow> agent_error + agent_adapter" where
  "scanAgentAdapter r = (case ToAgentAdapterStatus (AgentAdapterStatus_String (aad_Status r)) of
     Inl e \<Rightarrow> Inl (AgentSql e) | Inr status \<Rightarrow> Inr (r\<lparr>aad_Status := status\<rparr>))"

definition has_artifact :: "agent_adapter \<Rightarrow> bool" where
  "has_artifact a \<longleftrightarrow> aad_ServingModelID a \<noteq> uuid_nil \<and> \<not> btrim_blank (aad_AdapterURI a) \<and>
     \<not> btrim_blank (aad_AdapterChecksum a)"

definition adapter_checks :: "agent_adapter \<Rightarrow> bool" where
  "adapter_checks a \<longleftrightarrow> aad_Status a \<noteq> AgentAdapterStatusUnknown \<and> aad_TrainingRunID a \<noteq> uuid_nil \<and>
     in_i32 (aad_TrainedAgainstGoldenSplitVersion a) \<and> \<not> btrim_blank (aad_TrainingProvider a) \<and>
     \<not> btrim_blank (aad_TrainedAgainstEffectiveBaseID a) \<and> \<not> btrim_blank (aad_TrainedAgainstAgentSpecHash a) \<and>
     \<not> btrim_blank (aad_TrainedAgainstToolsetHash a) \<and> \<not> btrim_blank (aad_TrainedAgainstDataSnapshotHash a) \<and>
     \<not> btrim_blank (aad_TrainedAgainstRubricVersion a) \<and> aad_TrainedAgainstGoldenSplitVersion a > 0 \<and>
     (aad_Status a \<in> {AgentAdapterStatusTraining, AgentAdapterStatusFailed} \<or> has_artifact a)"

definition RecordAgentAdapter ::
  "stmt_env \<Rightarrow> session \<Rightarrow> agent_adapter \<Rightarrow> agent_tables \<Rightarrow> agent_error + (agent_adapter \<times> agent_tables)" where
  "RecordAgentAdapter env s adapter t = statement env ''RecordAgentAdapter''
     (let row = adapter\<lparr>aad_AdapterID := sv_uuid env (agt_drawn t), aad_CreatedAt := sv_now env, aad_UpdatedAt := sv_now env\<rparr>
      in if \<not> org_visible s (aad_OrgID row) \<or> \<not> adapter_checks row \<or>
            aad_DatasetID row \<notin> atd_DatasetID ` set (agt_datasets t) \<or>
            \<not> lineage_known (aad_OrgID row) (aad_AgentLineage row) t \<or>
            aad_AdapterID row \<in> aad_AdapterID ` set (agt_adapters t)
         then Inl (AgentSql ''record agent adapter'')
         else case scanAgentAdapter row of Inl e \<Rightarrow> Inl e
           | Inr out \<Rightarrow> Inr (out, t\<lparr>agt_adapters := agt_adapters t @ [row], agt_drawn := Suc (agt_drawn t)\<rparr>))"

definition ReadAgentAdapter :: "stmt_env \<Rightarrow> session \<Rightarrow> uuid \<Rightarrow> uuid \<Rightarrow> agent_tables \<Rightarrow> agent_error + agent_adapter" where
  "ReadAgentAdapter env s orgID adapterID t = statement env ''ReadAgentAdapter''
     (case find (\<lambda>r. aad_OrgID r = orgID \<and> aad_AdapterID r = adapterID \<and> org_visible s (aad_OrgID r)) (agt_adapters t) of
        None \<Rightarrow> Inl (agent_err CodeAdapterNotFound) | Some r \<Rightarrow> scanAgentAdapter r)"

text \<open>
  An \<open>UPDATE ... RETURNING\<close> on adapters: it changes every row that matches and that the
  policy shows, each of which must keep the checks, and returns the first; the trigger sets
  \<open>updated_at\<close>.
\<close>

definition update_adapters ::
  "stmt_env \<Rightarrow> session \<Rightarrow> (agent_adapter \<Rightarrow> bool) \<Rightarrow> (agent_adapter \<Rightarrow> agent_adapter) \<Rightarrow> agent_tables \<Rightarrow>
   agent_error + (agent_adapter \<times> agent_tables)" where
  "update_adapters env s p f t =
     (let q = (\<lambda>r. p r \<and> org_visible s (aad_OrgID r)); g = (\<lambda>r. (f r)\<lparr>aad_UpdatedAt := sv_now env\<rparr>)
      in case find q (agt_adapters t) of
        None \<Rightarrow> Inl NoRows
      | Some r \<Rightarrow> if \<exists>a \<in> set (agt_adapters t). q a \<and> \<not> adapter_checks (g a) then Inl (AgentSql ''check constraint'')
          else case scanAgentAdapter (g r) of Inl e \<Rightarrow> Inl e
            | Inr out \<Rightarrow> Inr (out, t\<lparr>agt_adapters := update_where q g (agt_adapters t)\<rparr>))"

definition in_training :: "uuid \<Rightarrow> uuid \<Rightarrow> agent_adapter \<Rightarrow> bool" where
  "in_training org run r \<longleftrightarrow> aad_OrgID r = org \<and> aad_TrainingRunID r = run \<and> aad_Status r = AgentAdapterStatusTraining"

definition or_not_found :: "agent_code \<Rightarrow> agent_error + 'a \<Rightarrow> agent_error + 'a" where
  "or_not_found code r = (case r of Inl e \<Rightarrow> Inl (if e = NoRows then agent_err code else e) | Inr x \<Rightarrow> Inr x)"

definition CompleteAgentAdapterTraining ::
  "stmt_env \<Rightarrow> session \<Rightarrow> adapter_training_completion \<Rightarrow> agent_tables \<Rightarrow> agent_error + (agent_adapter \<times> agent_tables)" where
  "CompleteAgentAdapterTraining env s completion t = statement env ''CompleteAgentAdapterTraining''
     (or_not_found CodeAdapterNotFound (update_adapters env s
        (in_training (atc_OrgID completion) (atc_TrainingRunID completion))
        (\<lambda>r. r\<lparr>aad_ServingModelID := atc_ServingModelID completion, aad_AdapterURI := atc_AdapterURI completion,
           aad_AdapterChecksum := atc_AdapterChecksum completion, aad_TrainingProvider := atc_TrainingProvider completion,
           aad_Status := AgentAdapterStatusCandidate\<rparr>) t))"

definition FailAgentAdapterTraining ::
  "stmt_env \<Rightarrow> session \<Rightarrow> adapter_training_failure \<Rightarrow> agent_tables \<Rightarrow> agent_error + (agent_adapter \<times> agent_tables)" where
  "FailAgentAdapterTraining env s failure t = statement env ''FailAgentAdapterTraining''
     (or_not_found CodeAdapterNotFound (update_adapters env s
        (in_training (atf_OrgID failure) (atf_TrainingRunID failure))
        (\<lambda>r. r\<lparr>aad_Status := AgentAdapterStatusFailed\<rparr>) t))"

definition UpdateAgentAdapterPromotion ::
  "stmt_env \<Rightarrow> session \<Rightarrow> uuid \<Rightarrow> AgentAdapterStatus \<Rightarrow> bool \<Rightarrow> agent_tables \<Rightarrow> agent_error + (agent_adapter \<times> agent_tables)" where
  "UpdateAgentAdapterPromotion env s adapterID status promotionPassed t = statement env ''UpdateAgentAdapterPromotion''
     (update_adapters env s (\<lambda>r. aad_AdapterID r = adapterID)
        (\<lambda>r. r\<lparr>aad_Status := status, aad_PromotionPassed := promotionPassed\<rparr>) t)"

section \<open>Evaluation reports\<close>

definition scanAgentEvalReport :: "agent_eval_report \<Rightarrow> agent_error + agent_eval_report" where
  "scanAgentEvalReport r = (case ToGoldenTaskSplit (GoldenTaskSplit_String (aer_Split r)) of
     Inl e \<Rightarrow> Inl (AgentSql e) | Inr split \<Rightarrow> Inr (r\<lparr>aer_Split := split, aer_TaskResults := []\<rparr>))"

definition ReadLatestEvalReportForAdapter ::
  "stmt_env \<Rightarrow> session \<Rightarrow> uuid \<Rightarrow> uuid \<Rightarrow> agent_tables \<Rightarrow> agent_error + agent_eval_report" where
  "ReadLatestEvalReportForAdapter env s orgID adapterID t = statement env ''ReadLatestEvalReportForAdapter''
     (case best_by aer_EvaluatedAt (filter (\<lambda>r. org_visible s (aer_OrgID r) \<and> aer_OrgID r = orgID \<and>
         adapterID \<noteq> uuid_nil \<and> aer_AdapterID r = adapterID) (agt_reports t)) of
        None \<Rightarrow> Inl (agent_Extend CodeEvalFailed ''no eval report exists for adapter'') | Some r \<Rightarrow> scanAgentEvalReport r)"

definition eval_report_checks :: "agent_eval_report \<Rightarrow> bool" where
  "eval_report_checks r \<longleftrightarrow> split_cast (aer_Split r) \<and> in_i32 (aer_SplitVersion r) \<and> in_i32 (aer_TaskCount r) \<and>
     \<not> btrim_blank (aer_AgentSpecHash r) \<and> aer_SplitVersion r > 0 \<and> \<not> btrim_blank (aer_RubricVersion r) \<and>
     aer_TaskCount r > 0 \<and> score_range (aer_TaskSuccessRate r) \<and> score_range (aer_ToolSuccessRate r) \<and>
     score_range (aer_GroundednessRate r) \<and> \<not> btrim_blank (aer_GateReason r)"

definition eval_report_references :: "agent_eval_report \<Rightarrow> agent_tables \<Rightarrow> bool" where
  "eval_report_references r t \<longleftrightarrow> lineage_known (aer_OrgID r) (aer_AgentLineage r) t \<and>
     (\<exists>v \<in> set (agt_specs t). same_spec (aer_OrgID r) (aer_AgentSpecHash r) v) \<and>
     (aer_AdapterID r = uuid_nil \<or> aer_AdapterID r \<in> aad_AdapterID ` set (agt_adapters t)) \<and>
     (\<exists>b \<in> set (agt_bindings t). same_binding (aer_OrgID r) (aer_EndpointID r) b)"

definition insert_task_result ::
  "session \<Rightarrow> agent_eval_task_result \<Rightarrow> agent_tables \<Rightarrow> agent_error + agent_tables" where
  "insert_task_result s r t =
     (if \<not> org_visible s (atr_OrgID r) \<or> btrim_blank (atr_Status r) \<or> btrim_blank (atr_StopReason r) \<or>
         (\<exists>q \<in> set (agt_results t). atr_OrgID q = atr_OrgID r \<and> atr_ReportID q = atr_ReportID r \<and> atr_TaskID q = atr_TaskID r) \<or>
         \<not> (\<exists>p \<in> set (agt_reports t). aer_OrgID p = atr_OrgID r \<and> aer_ReportID p = atr_ReportID r) \<or>
         \<not> (\<exists>g \<in> set (agt_tasks t). gt_OrgID g = atr_OrgID r \<and> gt_TaskID g = atr_TaskID r)
      then Inl (AgentSql ''record agent eval task result'')
      else Inr (t\<lparr>agt_results := agt_results t @ [r]\<rparr>))"

fun insert_task_results ::
  "session \<Rightarrow> agent_eval_report \<Rightarrow> agent_eval_task_result list \<Rightarrow> agent_tables \<Rightarrow> agent_error + (agent_eval_report \<times> agent_tables)" where
  "insert_task_results s record [] t = Inr (record, t)"
| "insert_task_results s record (r # rs) t =
     (let r1 = r\<lparr>atr_OrgID := aer_OrgID record, atr_ReportID := aer_ReportID record\<rparr>
      in case insert_task_result s r1 t of Inl e \<Rightarrow> Inl e
        | Inr t1 \<Rightarrow> insert_task_results s (record\<lparr>aer_TaskResults := aer_TaskResults record @ [r1]\<rparr>) rs t1)"

definition RecordAgentEvalReport ::
  "stmt_env \<Rightarrow> session \<Rightarrow> agent_eval_report \<Rightarrow> agent_tables \<Rightarrow> agent_error + (agent_eval_report \<times> agent_tables)" where
  "RecordAgentEvalReport env s report t = statement env ''RecordAgentEvalReport''
     (let row = report\<lparr>aer_ReportID := sv_uuid env (agt_drawn t), aer_EvaluatedAt := sv_now env, aer_TaskResults := []\<rparr>
      in if \<not> org_visible s (aer_OrgID row) \<or> \<not> eval_report_checks row \<or> \<not> eval_report_references row t \<or>
            aer_ReportID row \<in> aer_ReportID ` set (agt_reports t)
         then Inl (AgentSql ''record agent eval report'')
         else case scanAgentEvalReport row of Inl e \<Rightarrow> Inl e
           | Inr record \<Rightarrow> insert_task_results s record (aer_TaskResults report)
               (t\<lparr>agt_reports := agt_reports t @ [row], agt_drawn := Suc (agt_drawn t)\<rparr>))"

definition readAgentEvalTaskResults ::
  "stmt_env \<Rightarrow> session \<Rightarrow> uuid \<Rightarrow> uuid \<Rightarrow> agent_tables \<Rightarrow> agent_error + agent_eval_task_result list" where
  "readAgentEvalTaskResults env s orgID reportID t = statement env ''readAgentEvalTaskResults''
     (Inr (sort_key atr_TaskID (filter (\<lambda>r. org_visible s (atr_OrgID r) \<and>
        atr_OrgID r = orgID \<and> atr_ReportID r = reportID) (agt_results t))))"

text \<open>Unlike the other reads, this one hands the \<open>ErrNoRows\<close> of the driver on.\<close>

definition ReadAgentEvalReport :: "stmt_env \<Rightarrow> session \<Rightarrow> uuid \<Rightarrow> uuid \<Rightarrow> agent_tables \<Rightarrow> agent_error + agent_eval_report" where
  "ReadAgentEvalReport env s orgID reportID t = statement env ''ReadAgentEvalReport''
     (case find (\<lambda>r. aer_OrgID r = orgID \<and> aer_ReportID r = reportID \<and> org_visible s (aer_OrgID r)) (agt_reports t) of
        None \<Rightarrow> Inl NoRows
      | Some r \<Rightarrow> (case scanAgentEvalReport r of Inl e \<Rightarrow> Inl e
          | Inr report \<Rightarrow> (case readAgentEvalTaskResults env s (aer_OrgID report) (aer_ReportID report) t of
              Inl e \<Rightarrow> Inl e | Inr results \<Rightarrow> Inr (report\<lparr>aer_TaskResults := results\<rparr>))))"

section \<open>Enumerations through their columns\<close>

lemma split_cast_known [simp]: "split_cast split \<longleftrightarrow> split \<noteq> GoldenTaskSplitUnknown"
  by (cases split) (auto simp: split_cast_def)

lemma scan_adapter [simp]: "aad_Status a \<noteq> AgentAdapterStatusUnknown \<Longrightarrow> scanAgentAdapter a = Inr a"
  by (simp add: scanAgentAdapter_def adapter_status.parse_print)

lemma scan_adapter_ok: "scanAgentAdapter a = Inr b \<Longrightarrow> b = a \<and> aad_Status a \<noteq> AgentAdapterStatusUnknown"
proof (cases "aad_Status a = AgentAdapterStatusUnknown")
  case True
  then have "\<exists>e. ToAgentAdapterStatus (AgentAdapterStatus_String (aad_Status a)) = Inl e"
    by (simp add: ToAgentAdapterStatus_def ToUpper_def upper_char_def TrimSpace_def is_space_def)
  then show "scanAgentAdapter a = Inr b \<Longrightarrow> ?thesis" by (auto simp: scanAgentAdapter_def)
qed simp

lemma scan_golden [simp]: "gt_Split r \<noteq> GoldenTaskSplitUnknown \<Longrightarrow> scanGoldenTask r = Inr r"
  by (simp add: scanGoldenTask_def golden_split.parse_print)

lemma scan_report [simp]:
  "aer_Split r \<noteq> GoldenTaskSplitUnknown \<Longrightarrow> scanAgentEvalReport r = Inr (r\<lparr>aer_TaskResults := []\<rparr>)"
  by (simp add: scanAgentEvalReport_def golden_split.parse_print)

lemma scan_all_length: "scan_all f rs = Inr as \<Longrightarrow> length as = length rs"
  by (induction rs arbitrary: as) (auto split: sum.splits)

lemma scan_all_id: "\<forall>r \<in> set rs. scan r = Inr r \<Longrightarrow> scan_all scan rs = Inr rs"
  by (induction rs) auto

end
