(* ===== verification/GoText.thy ===== *)
theory GoText
  imports GoStrings "HOL-Library.List_Lexorder" "HOL-Library.Char_ord"
begin

text \<open>
  More of Go's \<open>strings\<close> and \<open>sort\<close>: splitting a text into fields, searching,
  trimming a set of bytes, and the order of texts. As in \<open>GoStrings\<close>, letters and white
  space are those of ASCII; texts compare bytewise.
\<close>

section \<open>Fields\<close>

fun fields_acc :: "(char \<Rightarrow> bool) \<Rightarrow> string \<Rightarrow> string \<Rightarrow> string list" where
  "fields_acc sep cur [] = (if cur = [] then [] else [rev cur])"
| "fields_acc sep cur (c # cs) =
     (if sep c then (if cur = [] then [] else [rev cur]) @ fields_acc sep [] cs
      else fields_acc sep (c # cur) cs)"

definition FieldsFunc :: "(char \<Rightarrow> bool) \<Rightarrow> string \<Rightarrow> string list" where
  "FieldsFunc sep s = fields_acc sep [] s"

definition Fields :: "string \<Rightarrow> string list" where
  "Fields s = FieldsFunc is_space s"

definition proper_field :: "(char \<Rightarrow> bool) \<Rightarrow> string \<Rightarrow> bool" where
  "proper_field sep f \<longleftrightarrow> f \<noteq> [] \<and> (\<forall>c \<in> set f. \<not> sep c)"

lemma fields_acc_proper:
  "\<forall>c \<in> set cur. \<not> sep c \<Longrightarrow> f \<in> set (fields_acc sep cur s) \<Longrightarrow> proper_field sep f"
proof (induction sep cur s rule: fields_acc.induct)
  case (1 sep cur)
  then show ?case by (auto simp: proper_field_def split: if_splits)
next
  case (2 sep cur c cs)
  show ?case
  proof (cases "sep c")
    case True
    then consider "cur \<noteq> []" "f = rev cur" | "f \<in> set (fields_acc sep [] cs)"
      using "2.prems"(2) by (auto split: if_splits)
    then show ?thesis using 2 True by cases (auto simp: proper_field_def)
  next
    case False
    then show ?thesis using 2 by auto
  qed
qed

lemma FieldsFunc_proper: "f \<in> set (FieldsFunc sep s) \<Longrightarrow> proper_field sep f"
  unfolding FieldsFunc_def by (rule fields_acc_proper) auto

lemma fields_acc_field:
  "\<forall>c \<in> set f. \<not> sep c \<Longrightarrow> fields_acc sep cur (f @ s) = fields_acc sep (rev f @ cur) s"
  by (induction f arbitrary: cur) auto

text \<open>Joining proper fields with one separator and splitting again gives them back.\<close>

lemma FieldsFunc_Join:
  assumes "\<forall>f \<in> set fs. proper_field sep f" "sep c"
  shows "FieldsFunc sep (Join fs [c]) = fs"
  using assms(1)
proof (induction fs "[c]" rule: Join.induct)
  case (2 f)
  then have "fields_acc sep [] (f @ []) = fields_acc sep (rev f @ []) []"
    by (intro fields_acc_field) (auto simp: proper_field_def)
  then show ?case using 2 by (auto simp: FieldsFunc_def proper_field_def)
next
  case (3 f g fs)
  then have "fields_acc sep [] (f @ [c] @ Join (g # fs) [c]) = fields_acc sep (rev f @ []) ([c] @ Join (g # fs) [c])"
    by (intro fields_acc_field) (auto simp: proper_field_def)
  then show ?case using 3 assms(2) by (auto simp: FieldsFunc_def proper_field_def)
qed (simp add: FieldsFunc_def)

section \<open>Search and trimming\<close>

fun Contains :: "string \<Rightarrow> string \<Rightarrow> bool" where
  "Contains [] sub = (sub = [])"
| "Contains (c # cs) sub = (HasPrefix (c # cs) sub \<or> Contains cs sub)"

lemma HasPrefix_iff: "HasPrefix s p \<longleftrightarrow> (\<exists>t. s = p @ t)"
  by (induction s p rule: HasPrefix.induct) auto

lemma Contains_iff: "Contains s sub \<longleftrightarrow> (\<exists>a b. s = a @ sub @ b)"
proof (induction s)
  case (Cons c cs)
  show ?case
  proof
    assume "Contains (c # cs) sub"
    then consider "HasPrefix (c # cs) sub" | "Contains cs sub" by auto
    then show "\<exists>a b. c # cs = a @ sub @ b"
    proof cases
      case 1
      then show ?thesis by (metis HasPrefix_iff append_Nil)
    next
      case 2
      then show ?thesis using Cons.IH by (metis append_Cons)
    qed
  next
    assume "\<exists>a b. c # cs = a @ sub @ b"
    then obtain a b where "c # cs = a @ sub @ b" by blast
    then have "HasPrefix (c # cs) sub \<or> Contains cs sub"
      using Cons.IH by (cases a) (auto simp: HasPrefix_iff)
    then show "Contains (c # cs) sub" by (simp only: Contains.simps)
  qed
qed auto

definition Trim :: "string \<Rightarrow> string \<Rightarrow> string" where
  "Trim s cutset = rev (dropWhile (\<lambda>c. c \<in> set cutset) (rev (dropWhile (\<lambda>c. c \<in> set cutset) s)))"

section \<open>Sorted texts\<close>

text \<open>\<open>sort.Strings\<close>. The result depends only on the texts and how often each occurs.\<close>

definition sort_Strings :: "string list \<Rightarrow> string list" where
  "sort_Strings = sort"

lemma sort_Strings_set:
  "distinct xs \<Longrightarrow> distinct ys \<Longrightarrow> set xs = set ys \<Longrightarrow> sort_Strings xs = sort_Strings ys"
  unfolding sort_Strings_def by (intro properties_for_sort) (auto simp: set_eq_iff_mset_eq_distinct)

end
