(* ===== verification/GoRatio.thy ===== *)
theory GoRatio
  imports GoFloat64
begin

text \<open>
  The quotient of two counts as a \<open>float64\<close>, and the sum of two doubles, in the
  representation of \<open>GoFloat64\<close>. A count below \<open>2^53\<close> is a double exactly, so the
  quotient is the exact one rounded once to 53 significant bits, ties to even.
\<close>

definition f64_add :: "f64 \<Rightarrow> f64 \<Rightarrow> f64" where
  "f64_add a b = f64_round (a + b)"

definition f64_quot :: "nat \<Rightarrow> nat \<Rightarrow> f64" where
  "f64_quot n d = (let x = n * 2 ^ f64_unit_bits; k = bit_len (x div d) - 53; u = 2 ^ k * d;
       q = x div u; r = x mod u
     in int ((if 2 * r < u \<or> (2 * r = u \<and> even q) then q else q + 1) * 2 ^ k))"

lemma bit_len_unique: "2 ^ k \<le> n \<Longrightarrow> n < 2 ^ Suc k \<Longrightarrow> bit_len n = Suc k"
proof -
  assume a: "2 ^ k \<le> n" "n < 2 ^ Suc k"
  have "k < bit_len n" using a by (intro bit_len_le)
  moreover have "bit_len n - 1 < Suc k"
  proof -
    have "0 < n" using a(1) by (cases n) auto
    then have "2 ^ (bit_len n - 1) \<le> n" by (rule bit_len_lower)
    with a(2) have "(2::nat) ^ (bit_len n - 1) < 2 ^ Suc k" by linarith
    then show ?thesis by (simp only: power_strict_increasing_iff one_less_numeral_iff semiring_norm)
  qed
  ultimately show ?thesis by linarith
qed

lemma bit_len_upper: "n < 2 ^ k \<Longrightarrow> bit_len n \<le> k"
proof (rule ccontr)
  assume n: "n < 2 ^ k" and "\<not> bit_len n \<le> k"
  then have k: "k \<le> bit_len n - 1" and "n \<noteq> 0" by (cases "n = 0"; simp add: bit_len.simps [of 0])+
  then have "2 ^ (bit_len n - 1) \<le> n" by (intro bit_len_lower) simp
  moreover have "(2::nat) ^ k \<le> 2 ^ (bit_len n - 1)" using k by (intro power_increasing) auto
  ultimately show False using n by linarith
qed

lemma bit_len_power [simp]: "bit_len (2 ^ k) = Suc k"
  by (rule bit_len_unique) auto

lemma f64_quot_0 [simp]: "0 < d \<Longrightarrow> f64_quot 0 d = 0"
  by (simp add: f64_quot_def Let_def)

lemma f64_quot_nonneg [simp]: "0 \<le> f64_quot n d"
  by (simp add: f64_quot_def Let_def)

lemma f64_quot_self [simp]: "0 < n \<Longrightarrow> f64_quot n n = f64_one"
proof -
  assume n: "0 < n"
  define k where "k = (1022::nat)"
  have "n * 2 ^ f64_unit_bits div n = (2::nat) ^ f64_unit_bits" using n by simp
  then have k: "bit_len (n * 2 ^ f64_unit_bits div n) - 53 = k"
    by (simp only: bit_len_power k_def)
  have x: "n * 2 ^ f64_unit_bits = 2 ^ 52 * (2 ^ k * n)"
    by (simp only: k_def mult.assoc [symmetric] power_add [symmetric] mult.commute) simp
  have "n * 2 ^ f64_unit_bits div (2 ^ k * n) = 2 ^ 52" "n * 2 ^ f64_unit_bits mod (2 ^ k * n) = 0"
    unfolding x using n by simp_all
  then show ?thesis
    unfolding f64_quot_def Let_def k f64_one_def
    by (simp only: if_True mult_0_right) (simp add: k_def n flip: power_add of_nat_power)
qed

text \<open>
  A proper fraction stays below one: its distance from one is at least the spacing of the
  doubles there.
\<close>

lemma f64_quot_below_one:
  assumes "n < d" "d \<le> 2 ^ 53"
  shows "f64_quot n d < f64_one"
proof -
  define x k where "x = n * 2 ^ f64_unit_bits" and "k = bit_len (x div d) - 53"
  define u q r where "u = 2 ^ k * d" and "q = x div u" and "r = x mod u"
  have d: "0 < d" using assms by simp
  have xd: "x < 2 ^ f64_unit_bits * d" unfolding x_def using assms(1) by simp
  then have "x div d < 2 ^ f64_unit_bits" using d by (simp add: less_mult_imp_div_less)
  then have "bit_len (x div d) \<le> f64_unit_bits" by (rule bit_len_upper)
  then have k: "k \<le> 1021" by (simp add: k_def)
  have pow: "(2::nat) ^ f64_unit_bits = 2 ^ (1021 - k) * 2 ^ 53 * 2 ^ k"
    using k by (simp flip: power_add)
  have "(d - n) * 2 ^ (1021 - k) * 2 ^ 53 \<ge> 1 * 1 * d"
    using assms by (intro mult_le_mono) (auto simp: Suc_le_eq)
  have "int (q * u + r) = int x" by (simp add: q_def r_def)
  have ux: "u * (2 ^ (1021 - k) * 2 ^ 53) = x + (d - n) * 2 ^ f64_unit_bits"
    unfolding u_def x_def pow using assms(1) by (simp add: algebra_simps flip: add_mult_distrib2)
  have step: "u \<le> (d - n) * 2 ^ f64_unit_bits"
  proof -
    have "u \<le> 2 ^ k * 2 ^ 53" unfolding u_def using assms(2) by simp
    also have "\<dots> \<le> 1 * (2 ^ (1021 - k) * 2 ^ 53 * 2 ^ k)" by simp
    also have "\<dots> \<le> (d - n) * 2 ^ f64_unit_bits" unfolding pow using assms(1) by (intro mult_le_mono1) simp
    finally show ?thesis .
  qed
  have "u * q + r + u \<le> u * (2 ^ (1021 - k) * 2 ^ 53)"
    using ux step by (simp add: q_def r_def)
  then have qr: "u * (q + 1) + r \<le> u * (2 ^ (1021 - k) * 2 ^ 53)" by (simp add: algebra_simps)
  have u0: "0 < u" using d by (simp add: u_def)
  have le: "q + 1 \<le> 2 ^ (1021 - k) * 2 ^ 53"
    using qr u0 by (metis add_leE mult_le_cancel1 less_numeral_extra(3))
  have lt: "0 < r \<Longrightarrow> q + 1 < 2 ^ (1021 - k) * 2 ^ 53"
    using qr u0 by (metis add_leE le less_add_same_cancel1 linorder_not_less nat_less_le)
  have "(if 2 * r < u \<or> (2 * r = u \<and> even q) then q else q + 1) < 2 ^ (1021 - k) * 2 ^ 53"
    using le lt u0 by (auto simp: not_less)
  then have "(if 2 * r < u \<or> (2 * r = u \<and> even q) then q else q + 1) * 2 ^ k < 2 ^ f64_unit_bits"
    unfolding pow by simp
  then have "f64_quot n d < int (2 ^ f64_unit_bits)"
    unfolding f64_quot_def Let_def x_def [symmetric] k_def [symmetric] u_def [symmetric]
      q_def [symmetric] r_def [symmetric] by (simp only: of_nat_less_iff)
  then show ?thesis by (simp only: f64_one_def of_nat_power of_nat_numeral)
qed

lemma f64_quot_le_one: "n \<le> d \<Longrightarrow> 0 < d \<Longrightarrow> d \<le> 2 ^ 53 \<Longrightarrow> f64_quot n d \<le> f64_one"
  using f64_quot_below_one [of n d] by (cases "n = d") auto

lemma f64_quot_one_iff:
  "n \<le> d \<Longrightarrow> 0 < d \<Longrightarrow> d \<le> 2 ^ 53 \<Longrightarrow> f64_one \<le> f64_quot n d \<longleftrightarrow> n = d"
  using f64_quot_below_one [of n d] by (cases "n = d") auto

lemma f64_quot_half: "f64_quot 1 2 = f64_half"
proof -
  have "2 ^ 1074 div 2 = (2 ^ 1073 :: nat)" by simp
  then have k: "bit_len (1 * 2 ^ f64_unit_bits div 2) - 53 = 1021"
    by (simp only: mult_1 bit_len_power)
  show ?thesis unfolding f64_quot_def Let_def k f64_half_def by simp
qed

end
