(* ===== verification/AgentRegistryEvaluation.thy ===== *)
theory AgentRegistryEvaluation
  imports AgentRegistryTypes GoText GoRatio
begin

text \<open>
  The pure functions of \<open>agent_registry_usecase.go\<close>: the fingerprints of a prompt, the choice
  of labels for training, the score of a golden task and the report of an evaluation.

  \<open>sha\<close> is SHA-256 with its hexadecimal text, \<open>uuid_text\<close> the text of a UUID. A list of Go
  pointers is a list of values: no element is nil.
\<close>

section \<open>Constants\<close>

definition agentEvalRubricVersion :: string where
  "agentEvalRubricVersion = ''trajectory_answer_contains_v1''"

definition agentEvalStatusCompleted :: string where "agentEvalStatusCompleted = ''COMPLETED''"
definition agentEvalStatusFailed :: string where "agentEvalStatusFailed = ''FAILED''"
definition agentEvalStopFinalAnswer :: string where "agentEvalStopFinalAnswer = ''FINAL_ANSWER''"
definition agentEvalStopRuntimeError :: string where "agentEvalStopRuntimeError = ''RUNTIME_ERROR''"
definition trajectoryDatasetFormat :: string where "trajectoryDatasetFormat = ''AGENT_TRAJECTORY_JSON''"
definition trajectoryDatasetSchema :: string where "trajectoryDatasetSchema = ''agent_trajectory_dataset_v1''"
definition trajectoryDatasetURIPrefix :: string where
  "trajectoryDatasetURIPrefix = ''agent-registry://trajectory-datasets/''"
definition defaultAgentTrainingProfile :: string where
  "defaultAgentTrainingProfile = ''agent-sft-dpo-fast@v1''"

section \<open>Fingerprints\<close>

definition SHA256String :: "(string \<Rightarrow> string) \<Rightarrow> string \<Rightarrow> string" where
  "SHA256String sha value = sha (TrimSpace value)"

definition normalizeGoldenPrompt :: "string \<Rightarrow> string" where
  "normalizeGoldenPrompt prompt = Join (Fields (ToLower (TrimSpace prompt))) '' ''"

definition goldenTaskContentFingerprint :: "(string \<Rightarrow> string) \<Rightarrow> string \<Rightarrow> string" where
  "goldenTaskContentFingerprint sha normalizedPrompt = SHA256String sha normalizedPrompt"

definition goldenTaskNearDuplicateStopWords :: "string list" where
  "goldenTaskNearDuplicateStopWords =
     [''and'', ''are'', ''can'', ''did'', ''does'', ''for'', ''from'',
      ''has'', ''have'', ''how'', ''into'', ''the'', ''this'', ''that'',
      ''was'', ''what'', ''when'', ''where'', ''which'', ''who'', ''why'',
      ''with'', ''you'', ''your'']"

definition token_cutset :: string where
  "token_cutset = ''.,!?;:'' @ [CHR 0x27, CHR 0x22] @ ''()[]{}''"

definition significant_token :: "string \<Rightarrow> bool" where
  "significant_token token \<longleftrightarrow> length token \<ge> 3 \<and> token \<notin> set goldenTaskNearDuplicateStopWords"

text \<open>The loop over the tokens; \<open>seen\<close> are the values so far.\<close>

fun near_duplicate_values :: "string list \<Rightarrow> string list \<Rightarrow> string list" where
  "near_duplicate_values seen [] = seen"
| "near_duplicate_values seen (raw # tokens) =
     (let token = Trim raw token_cutset in
      if \<not> significant_token token \<or> token \<in> set seen then near_duplicate_values seen tokens
      else near_duplicate_values (seen @ [token]) tokens)"

definition goldenTaskNearDuplicateFingerprint :: "(string \<Rightarrow> string) \<Rightarrow> string \<Rightarrow> string" where
  "goldenTaskNearDuplicateFingerprint sha normalizedPrompt =
     (let tokens = Fields normalizedPrompt; values = near_duplicate_values [] tokens in
      if tokens = [] then goldenTaskContentFingerprint sha normalizedPrompt
      else if values = [] then goldenTaskContentFingerprint sha normalizedPrompt
      else SHA256String sha (Join (sort_Strings values) '' ''))"

section \<open>The labels of a training dataset\<close>

definition filterTrainingLabels :: "agent_run_label list \<Rightarrow> golden_task list \<Rightarrow> agent_run_label list" where
  "filterTrainingLabels labels holdout =
     (let fingerprints = filter (\<lambda>f. f \<noteq> []) (map (TrimSpace \<circ> gt_ContentFingerprint) holdout);
          near = filter (\<lambda>f. f \<noteq> []) (map (TrimSpace \<circ> gt_NearDuplicateFingerprint) holdout)
      in filter (\<lambda>l. TrimSpace (arl_ContentFingerprint l) \<notin> set fingerprints \<and>
           \<not> (TrimSpace (arl_NearDuplicateFingerprint l) \<noteq> [] \<and>
              TrimSpace (arl_NearDuplicateFingerprint l) \<in> set near)) labels)"

record training_tuple =
  ttp_AgentSpecHash :: string
  ttp_ToolsetHash :: string
  ttp_EffectiveBaseID :: string
  ttp_DataSnapshotHash :: string

definition tuple_of :: "agent_run_label \<Rightarrow> training_tuple" where
  "tuple_of l = \<lparr>ttp_AgentSpecHash = TrimSpace (arl_AgentSpecHash l), ttp_ToolsetHash = TrimSpace (arl_ToolsetHash l),
     ttp_EffectiveBaseID = TrimSpace (arl_EffectiveBaseID l), ttp_DataSnapshotHash = TrimSpace (arl_DataSnapshotHash l)\<rparr>"

definition commonTrainingTuple :: "agent_run_label list \<Rightarrow> agent_error + training_tuple" where
  "commonTrainingTuple labels = (case labels of
     [] \<Rightarrow> Inl (agent_Extend CodeTrainingFailed ''no labels are available for training'')
   | first # _ \<Rightarrow>
       let tuple = tuple_of first in
       if ttp_AgentSpecHash tuple = [] \<or> ttp_ToolsetHash tuple = [] \<or> ttp_EffectiveBaseID tuple = [] \<or>
          ttp_DataSnapshotHash tuple = []
       then Inl (agent_Extend CodeTrainingFailed ''label tuple is incomplete'')
       else if list_ex (\<lambda>l. tuple_of l \<noteq> tuple) labels
       then Inl (agent_Extend CodeTrainingFailed ''labels are not comparable for a single training dataset'')
       else Inr tuple)"

record manifest_label =
  mfl_LabelID :: string
  mfl_RunID :: string
  mfl_ContentFingerprint :: string
  mfl_TaskSuccess :: bool
  mfl_ToolSelectionScore :: f64
  mfl_Groundedness :: f64
  mfl_Confidence :: f64

record manifest_doc =
  mfd_SchemaVersion :: string
  mfd_GoldenSplitVersion :: int
  mfd_Labels :: "manifest_label list"

definition manifest_label_of :: "(uuid \<Rightarrow> string) \<Rightarrow> agent_run_label \<Rightarrow> manifest_label" where
  "manifest_label_of uuid_text l = \<lparr>mfl_LabelID = uuid_text (arl_LabelID l), mfl_RunID = uuid_text (arl_RunID l),
     mfl_ContentFingerprint = arl_ContentFingerprint l, mfl_TaskSuccess = arl_TaskSuccess l,
     mfl_ToolSelectionScore = arl_ToolSelectionScore l, mfl_Groundedness = arl_Groundedness l,
     mfl_Confidence = arl_Confidence l\<rparr>"

definition trajectoryDatasetManifest ::
  "(uuid \<Rightarrow> string) \<Rightarrow> (manifest_doc \<Rightarrow> agent_error + string) \<Rightarrow> (string \<Rightarrow> string) \<Rightarrow> agent_run_label list \<Rightarrow> int \<Rightarrow>
   agent_error + (string \<times> string)" where
  "trajectoryDatasetManifest uuid_text json sha labels splitVersion =
     (case json \<lparr>mfd_SchemaVersion = trajectoryDatasetSchema, mfd_GoldenSplitVersion = splitVersion,
           mfd_Labels = map (manifest_label_of uuid_text) labels\<rparr> of
        Inl e \<Rightarrow> Inl e | Inr raw \<Rightarrow> Inr (raw, SHA256String sha raw))"

section \<open>The score of a golden task\<close>

definition answer_separator :: "char \<Rightarrow> bool" where
  "answer_separator c \<longleftrightarrow> (let n = of_char c :: nat in \<not> (97 \<le> n \<and> n \<le> 122) \<and> \<not> (48 \<le> n \<and> n \<le> 57))"

definition normalizeEvalAnswer :: "string \<Rightarrow> string" where
  "normalizeEvalAnswer value = Join (FieldsFunc answer_separator (ToLower (TrimSpace value))) '' ''"

definition answerMatchesExpected :: "string \<Rightarrow> string \<Rightarrow> bool" where
  "answerMatchesExpected answer expected =
     (let normalizedAnswer = normalizeEvalAnswer answer; normalizedExpected = normalizeEvalAnswer expected
      in normalizedAnswer \<noteq> [] \<and> normalizedExpected \<noteq> [] \<and> Contains normalizedAnswer normalizedExpected)"

definition expectedAnswerSupportedByContext :: "string \<Rightarrow> string list \<Rightarrow> bool" where
  "expectedAnswerSupportedByContext expected contexts =
     (let normalizedExpected = normalizeEvalAnswer expected
      in normalizedExpected \<noteq> [] \<and> list_ex (\<lambda>c. Contains (normalizeEvalAnswer c) normalizedExpected) contexts)"

definition agentEvalToolSuccess :: "agent_task_tool_invocation list \<Rightarrow> bool" where
  "agentEvalToolSuccess invocations \<longleftrightarrow> list_all (\<lambda>i. TrimSpace (ati_ErrorType i) = [] \<or>
     EqualFold (TrimSpace (ati_ErrorType i)) ''UNKNOWN'') invocations"

definition add_reason :: "bool \<Rightarrow> string \<Rightarrow> string \<Rightarrow> string" where
  "add_reason ok reason what = (if ok then reason else TrimSpace (Join [reason, what] ''; ''))"

text \<open>\<open>runErr\<close> is the text of the error the run returned.\<close>

definition scoreGoldenTaskRun ::
  "golden_task \<Rightarrow> agent_task_run_result \<Rightarrow> string option \<Rightarrow> agent_eval_task_result" where
  "scoreGoldenTaskRun task run runErr =
     (let result = \<lparr>atr_OrgID = uuid_nil, atr_ReportID = uuid_nil, atr_TaskID = gt_TaskID task,
            atr_RunID = trr_RunID run, atr_Status = TrimSpace (trr_Status run),
            atr_StopReason = TrimSpace (trr_StopReason run), atr_TaskSuccess = False, atr_ToolSuccess = False,
            atr_Groundedness = False, atr_FailureReason = []\<rparr>
      in case runErr of
        Some e \<Rightarrow> result\<lparr>atr_Status := agentEvalStatusFailed, atr_StopReason := agentEvalStopRuntimeError,
          atr_FailureReason := e\<rparr>
      | None \<Rightarrow>
          let completedWithFinalAnswer = EqualFold (atr_Status result) agentEvalStatusCompleted \<and>
                EqualFold (atr_StopReason result) agentEvalStopFinalAnswer;
              answerMatchesTask = answerMatchesExpected (trr_Answer run) (gt_ExpectedAnswer task);
              toolSuccess = agentEvalToolSuccess (trr_ToolInvocations run);
              groundedness = answerMatchesTask \<and>
                expectedAnswerSupportedByContext (gt_ExpectedAnswer task) (trr_GroundedContextTexts run);
              reason = (if \<not> completedWithFinalAnswer then ''agent run did not complete with final answer''
                else if \<not> answerMatchesTask then ''agent answer did not match the golden task expected answer''
                else [])
          in result\<lparr>atr_TaskSuccess := completedWithFinalAnswer \<and> answerMatchesTask, atr_ToolSuccess := toolSuccess,
               atr_Groundedness := groundedness,
               atr_FailureReason := add_reason groundedness
                 (add_reason toolSuccess reason ''tool invocation failed'') ''no grounded context returned''\<rparr>)"

section \<open>The report\<close>

definition ratio :: "nat \<Rightarrow> nat \<Rightarrow> f64" where
  "ratio numerator denominator = (if denominator = 0 then 0 else f64_quot numerator denominator)"

text \<open>A threshold of zero stands for the default of one.\<close>

definition threshold :: "f64 \<Rightarrow> f64" where
  "threshold x = (if x = 0 then f64_one else x)"

definition success_rate :: "(agent_eval_task_result \<Rightarrow> bool) \<Rightarrow> agent_eval_task_result list \<Rightarrow> f64" where
  "success_rate p results = ratio (length (filter p results)) (length results)"

definition agentEvalReportFromTaskResults ::
  "evaluate_spec_command \<Rightarrow> agent_eval_task_result list \<Rightarrow> agent_eval_report" where
  "agentEvalReportFromTaskResults command results =
     (let taskSuccessRate = success_rate atr_TaskSuccess results;
          toolSuccessRate = success_rate atr_ToolSuccess results;
          groundednessRate = success_rate atr_Groundedness results;
          passed = taskSuccessRate \<ge> threshold (esc_MinTaskSuccessRate command) \<and>
            toolSuccessRate \<ge> threshold (esc_MinToolSuccessRate command) \<and>
            groundednessRate \<ge> threshold (esc_MinGroundednessRate command);
          reason = (if passed then ''candidate passes promotion holdout''
            else ''candidate failed promotion holdout thresholds: task_success='' @ fmt4 taskSuccessRate @
              '' tool_success='' @ fmt4 toolSuccessRate @ '' groundedness='' @ fmt4 groundednessRate)
      in \<lparr>aer_ReportID = uuid_nil, aer_OrgID = esc_OrgID command, aer_AgentLineage = esc_AgentLineage command,
          aer_AgentSpecHash = esc_AgentSpecHash command, aer_AdapterID = esc_AdapterID command,
          aer_EndpointID = esc_EndpointID command, aer_Split = GoldenTaskSplitPromotionHoldout,
          aer_SplitVersion = esc_SplitVersion command, aer_RubricVersion = agentEvalRubricVersion,
          aer_TaskCount = int (length results), aer_TaskSuccessRate = taskSuccessRate,
          aer_ToolSuccessRate = toolSuccessRate, aer_GroundednessRate = groundednessRate, aer_Passed = passed,
          aer_GateReason = reason, aer_PromotedDecisionID = uuid_nil, aer_EvaluatedBy = esc_UserID command,
          aer_EvaluatedAt = 0, aer_TaskResults = results\<rparr>)"

section \<open>Before a promotion\<close>

definition agentEndpointBound :: "agent_endpoint_binding list \<Rightarrow> uuid \<Rightarrow> bool" where
  "agentEndpointBound bindings endpointID \<longleftrightarrow> list_ex (\<lambda>b. aeb_EndpointID b = endpointID) bindings"

definition agentAdapterCompatibleWithReport :: "agent_adapter \<Rightarrow> agent_eval_report \<Rightarrow> bool" where
  "agentAdapterCompatibleWithReport adapter report \<longleftrightarrow>
     aer_AdapterID report = aad_AdapterID adapter \<and>
     TrimSpace (aer_AgentSpecHash report) = TrimSpace (aad_TrainedAgainstAgentSpecHash adapter) \<and>
     aer_SplitVersion report = aad_TrainedAgainstGoldenSplitVersion adapter \<and>
     TrimSpace (aer_RubricVersion report) = TrimSpace (aad_TrainedAgainstRubricVersion adapter)"

text \<open>The comparison at the end of \<open>enforceChampionNoRegression\<close>.\<close>

definition regresses :: "agent_eval_report \<Rightarrow> f64 \<Rightarrow> agent_eval_report \<Rightarrow> bool" where
  "regresses candidate minDelta champion \<longleftrightarrow>
     f64_add (aer_TaskSuccessRate candidate) minDelta < aer_TaskSuccessRate champion \<or>
     f64_add (aer_ToolSuccessRate candidate) minDelta < aer_ToolSuccessRate champion \<or>
     f64_add (aer_GroundednessRate candidate) minDelta < aer_GroundednessRate champion"

section \<open>What the fingerprints identify\<close>

lemma near_duplicate_values_set:
  "set (near_duplicate_values seen tokens) =
     set seen \<union> {t. t \<in> (\<lambda>raw. Trim raw token_cutset) ` set tokens \<and> significant_token t}"
  by (induction seen tokens rule: near_duplicate_values.induct) (auto simp: Let_def)

lemma near_duplicate_values_distinct:
  "distinct seen \<Longrightarrow> distinct (near_duplicate_values seen tokens)"
  by (induction seen tokens rule: near_duplicate_values.induct) (auto simp: Let_def)

text \<open>
  Two prompts with the same set of significant tokens have the same near duplicate
  fingerprint, whatever the order, the repetitions, the punctuation and the stop words.
\<close>

definition significant_tokens :: "string \<Rightarrow> string set" where
  "significant_tokens prompt = {t. t \<in> (\<lambda>raw. Trim raw token_cutset) ` set (Fields prompt) \<and> significant_token t}"

lemma near_values_tokens: "set (near_duplicate_values [] (Fields prompt)) = significant_tokens prompt"
  by (simp add: near_duplicate_values_set significant_tokens_def)

lemma near_duplicate_by_tokens:
  assumes "significant_tokens p = significant_tokens q" "significant_tokens p \<noteq> {}"
  shows "goldenTaskNearDuplicateFingerprint sha p = goldenTaskNearDuplicateFingerprint sha q"
proof -
  have fields: "Fields x \<noteq> []" "near_duplicate_values [] (Fields x) \<noteq> []" if "significant_tokens x \<noteq> {}" for x
    using that near_values_tokens [of x] by (auto simp: significant_tokens_def)
  have "sort_Strings (near_duplicate_values [] (Fields p)) = sort_Strings (near_duplicate_values [] (Fields q))"
    by (intro sort_Strings_set near_duplicate_values_distinct) (use assms in \<open>simp_all add: near_values_tokens\<close>)
  then show ?thesis
    using fields [of p] fields [of q] assms by (simp add: goldenTaskNearDuplicateFingerprint_def Let_def)
qed

text \<open>A normalized prompt is its own normal form, so the fingerprint of a prompt is well defined.\<close>

lemma Join_not_blank:
  assumes "fs \<noteq> []" "\<forall>f \<in> set fs. proper_field sep f"
  shows "Join fs '' '' \<noteq> [] \<and> hd (Join fs '' '') = hd (hd fs) \<and> last (Join fs '' '') = last (last fs)"
  using assms by (induction fs "'' ''" rule: Join.induct) (auto simp: proper_field_def)

lemma TrimSpace_Join:
  assumes "\<forall>f \<in> set fs. proper_field is_space f"
  shows "TrimSpace (Join fs '' '') = Join fs '' ''"
proof (cases "fs = []")
  case False
  then have "\<not> is_space (hd (hd fs))" "\<not> is_space (last (last fs))"
    using assms by (auto simp: proper_field_def dest: bspec [where x = "hd fs"] bspec [where x = "last fs"])
  then show ?thesis using Join_not_blank [OF False assms] by (intro TrimSpace_trimmed) auto
qed simp

end
