(* ===== verification/AgentRegistry.thy ===== *)
theory AgentRegistry
  imports AgentRegistryTables AgentRegistryEvaluation SubscriberErrors
begin

text \<open>
  The use cases of the agent registry, \<open>agent_registry_service/pkg/app/agent_registry_usecase.go\<close>,
  the event they publish and the two listeners for training events
  (\<open>pkg/infra/network/messaging\<close>).

  A use case reads outside transactions and writes in one. Other requests run at the same
  time: \<open>ak_between k\<close> is what they do to the registry before the \<open>k\<close>-th access of this
  request, counted from 0, and a transaction is one access. So every interleaving of reads and
  transactions is a choice of \<open>ak_between\<close>. What other services answer is a field of the use
  case object.
\<close>

section \<open>The champion event\<close>

record champion_event =
  ace_EventId :: string
  ace_IdempotencyKey :: string
  ace_OrgId :: string
  ace_AgentLineage :: string
  ace_EndpointId :: string
  ace_AgentSpecHash :: string
  ace_PreviousAgentSpecHash :: string
  ace_DecisionId :: string
  ace_DecidedAt :: string
  ace_ChampionAdapterId :: string
  ace_ServingModelId :: string

record agent_event_builder =
  acb_topic :: string
  acb_uuid :: "uuid \<Rightarrow> string"
  acb_time :: "int \<Rightarrow> string"
  acb_marshal :: "champion_event \<Rightarrow> string"

definition optionalUUID :: "agent_event_builder \<Rightarrow> uuid \<Rightarrow> string" where
  "optionalUUID b value = (if value = uuid_nil then [] else acb_uuid b value)"

definition champion_dispatch_key :: "agent_event_builder \<Rightarrow> uuid \<Rightarrow> uuid \<Rightarrow> string" where
  "champion_dispatch_key b endpoint decision =
     ''agent_champion_updated:'' @ acb_uuid b endpoint @ '':'' @ acb_uuid b decision"

definition AgentChampionUpdatedMessage ::
  "agent_event_builder \<Rightarrow> agent_champion_state \<Rightarrow> agent_endpoint_binding \<Rightarrow> outbound_message" where
  "AgentChampionUpdatedMessage b state binding =
     \<lparr>om_Topic = acb_topic b,
      om_Message = \<lparr>ms_ResourceKey = aeb_EndpointID binding, ms_MsgType = MsgTypeAgentChampionUpdated,
        ms_Payload = acb_marshal b \<lparr>ace_EventId = acb_uuid b (acs_DecisionID state),
          ace_IdempotencyKey = acb_uuid b (acs_DecisionID state), ace_OrgId = acb_uuid b (acs_OrgID state),
          ace_AgentLineage = acs_AgentLineage state, ace_EndpointId = acb_uuid b (aeb_EndpointID binding),
          ace_AgentSpecHash = acs_ChampionAgentSpecHash state,
          ace_PreviousAgentSpecHash = acs_PreviousAgentSpecHash state,
          ace_DecisionId = acb_uuid b (acs_DecisionID state), ace_DecidedAt = acb_time b (acs_DecidedAt state),
          ace_ChampionAdapterId = optionalUUID b (acs_ChampionAdapterID state),
          ace_ServingModelId = optionalUUID b (acs_ServingModelID state)\<rparr>\<rparr>,
      om_Headers = [],
      om_DispatchKey = champion_dispatch_key b (aeb_EndpointID binding) (acs_DecisionID state)\<rparr>"

section \<open>Requests\<close>

record agent_registry =
  arg_ReadAgentSpec :: "uuid \<Rightarrow> uuid \<Rightarrow> string \<Rightarrow> agent_error + agent_spec_ref"
  arg_ReadEndpoint :: "uuid \<Rightarrow> uuid \<Rightarrow> uuid \<Rightarrow> agent_error + endpoint_ref"
  arg_ReadAgentTrajectory :: "uuid \<Rightarrow> uuid \<Rightarrow> uuid \<Rightarrow> agent_error + agent_trajectory_ref"
  arg_RunAgentTask :: "agent_task_run_command \<Rightarrow> agent_task_run_result \<times> string option"
  arg_trainingDispatcher :: "(adapter_training_request \<Rightarrow> agent_error + adapter_training_result) option"
  arg_builder :: agent_event_builder
  arg_sha256 :: "string \<Rightarrow> string"
  arg_manifest_json :: "manifest_doc \<Rightarrow> agent_error + string"

record agent_state =
  gs_db :: "agent_tables \<times> outbox"
  gs_signals :: nat

abbreviation gs_tables :: "agent_state \<Rightarrow> agent_tables" where
  "gs_tables st \<equiv> fst (gs_db st)"

abbreviation gs_outbox :: "agent_state \<Rightarrow> outbox" where
  "gs_outbox st \<equiv> snd (gs_db st)"

text \<open>
  \<open>ak_stmt k\<close> is the server during the \<open>k\<close>-th access, \<open>ak_now\<close> and \<open>ak_new_uuid\<close> are
  what \<open>time.Now\<close> and \<open>uuid.New\<close> give.
\<close>

record agent_call =
  ak_stmt :: "nat \<Rightarrow> stmt_env"
  ak_tx :: "nat \<Rightarrow> agent_error tx_env"
  ak_between :: "nat \<Rightarrow> agent_state \<Rightarrow> agent_state"
  ak_outbox :: outbox_env
  ak_outbox_id :: "outbox \<Rightarrow> uuid"
  ak_now :: int
  ak_new_uuid :: uuid

type_synonym 'a request = "agent_state \<Rightarrow> (agent_error + 'a) \<times> agent_state"

definition returns :: "'a \<Rightarrow> 'a request" where
  "returns x st = (Inr x, st)"

definition fails :: "agent_error \<Rightarrow> 'a request" where
  "fails e st = (Inl e, st)"

definition and_then :: "'a request \<Rightarrow> ('a \<Rightarrow> 'b request) \<Rightarrow> 'b request" where
  "and_then m f st = (case m st of (Inl e, st1) \<Rightarrow> (Inl e, st1) | (Inr x, st1) \<Rightarrow> f x st1)"

definition require :: "bool \<Rightarrow> agent_error \<Rightarrow> unit request" where
  "require ok e = (if ok then returns () else fails e)"

definition lift_result :: "agent_error + 'a \<Rightarrow> 'a request" where
  "lift_result r = (case r of Inl e \<Rightarrow> fails e | Inr x \<Rightarrow> returns x)"

definition reads :: "agent_call \<Rightarrow> nat \<Rightarrow> (stmt_env \<Rightarrow> agent_tables \<Rightarrow> agent_error + 'a) \<Rightarrow> 'a request" where
  "reads ak k query st = (let st1 = ak_between ak k st in (query (ak_stmt ak k) (gs_tables st1), st1))"

definition agent_enqueue ::
  "agent_call \<Rightarrow> agent_tables \<times> outbox \<Rightarrow> outbound_message \<Rightarrow> agent_error + (agent_tables \<times> outbox)" where
  "agent_enqueue ak db msg =
     (case EnqueueDB (ak_outbox ak) (ak_now ak) (ak_outbox_id ak (snd db)) db msg of
        Inl e \<Rightarrow> Inl (AgentOutbox e) | Inr db' \<Rightarrow> Inr db')"

fun agent_tx_cause :: "agent_error tx_error \<Rightarrow> agent_error" where
  "agent_tx_cause (BeginTx e) = e"
| "agent_tx_cause (FnError e rb) = e"
| "agent_tx_cause (tx_error.Panicked p rb) = ClientError p"
| "agent_tx_cause (CommitTx e rb) = e"

definition on_tables ::
  "(agent_tables \<Rightarrow> agent_error + ('a \<times> agent_tables)) \<Rightarrow> agent_tables \<times> outbox \<Rightarrow>
   agent_error + ('a \<times> (agent_tables \<times> outbox))" where
  "on_tables change db = (case change (fst db) of Inl e \<Rightarrow> Inl e | Inr (a, t) \<Rightarrow> Inr (a, (t, snd db)))"

text \<open>One transaction of the unit of work: it changes the tables, then enqueues.\<close>

definition writes ::
  "agent_call \<Rightarrow> nat \<Rightarrow> (stmt_env \<Rightarrow> agent_tables \<Rightarrow> agent_error + ('a \<times> agent_tables)) \<Rightarrow>
   ('a \<Rightarrow> outbound_message list) \<Rightarrow> 'a request" where
  "writes ak k change msgs st =
     (let st1 = ak_between ak k st in
      case uow_Do (ak_tx ak k) (agent_enqueue ak)
          (change_then_enqueue (on_tables (change (ak_stmt ak k))) msgs) (gs_db st1) of
        (Inl e, db, signal) \<Rightarrow> (Inl (agent_tx_cause e), st1\<lparr>gs_db := db\<rparr>)
      | (Inr a, db, signal) \<Rightarrow>
          (Inr a, st1\<lparr>gs_db := db, gs_signals := gs_signals st1 + (if signal then 1 else 0)\<rparr>))"

definition after_lineage ::
  "session \<Rightarrow> uuid \<Rightarrow> string \<Rightarrow> uuid \<Rightarrow> (stmt_env \<Rightarrow> agent_tables \<Rightarrow> agent_error + 'a) \<Rightarrow>
   stmt_env \<Rightarrow> agent_tables \<Rightarrow> agent_error + 'a" where
  "after_lineage s orgID lineage userID change env t =
     (case EnsureLineage env s orgID lineage userID t of Inl e \<Rightarrow> Inl e | Inr t1 \<Rightarrow> change env t1)"

section \<open>Versions, bindings, champions\<close>

definition RegisterAgentSpecVersion ::
  "agent_registry \<Rightarrow> agent_call \<Rightarrow> session \<Rightarrow> register_spec_command \<Rightarrow> agent_spec_version request" where
  "RegisterAgentSpecVersion u ak s command =
     and_then (lift_result (arg_ReadAgentSpec u (rsv_OrgID command) (rsv_UserID command) (rsv_AgentSpecHash command)))
     (\<lambda>spec. and_then (require (asr_AgentLineage spec = rsv_AgentLineage command)
        (agent_Extend CodeValidation ''agent spec lineage does not match registry lineage''))
     (\<lambda>_. writes ak 0 (after_lineage s (rsv_OrgID command) (rsv_AgentLineage command) (rsv_UserID command)
        (\<lambda>env. UpsertAgentSpecVersion env s \<lparr>asv_OrgID = rsv_OrgID command, asv_AgentLineage = rsv_AgentLineage command,
           asv_AgentSpecHash = rsv_AgentSpecHash command, asv_ModelID = asr_ModelID spec,
           asv_RegisteredByUserID = rsv_UserID command, asv_RegisteredAt = 0\<rparr>)) (\<lambda>_. [])))"

definition RegisterEndpointBinding ::
  "agent_registry \<Rightarrow> agent_call \<Rightarrow> session \<Rightarrow> register_binding_command \<Rightarrow> agent_endpoint_binding request" where
  "RegisterEndpointBinding u ak s command =
     and_then (lift_result (arg_ReadEndpoint u (reb_OrgID command) (reb_UserID command) (reb_EndpointID command)))
     (\<lambda>_. writes ak 0 (after_lineage s (reb_OrgID command) (reb_AgentLineage command) (reb_UserID command)
        (\<lambda>env. UpsertEndpointBinding env s \<lparr>aeb_OrgID = reb_OrgID command, aeb_AgentLineage = reb_AgentLineage command,
           aeb_EndpointID = reb_EndpointID command, aeb_CreatedByUserID = reb_UserID command, aeb_CreatedAt = 0\<rparr>))
        (\<lambda>_. []))"

definition agentChampionStateFromCommand :: "agent_call \<Rightarrow> promote_spec_command \<Rightarrow> agent_champion_state" where
  "agentChampionStateFromCommand ak command =
     \<lparr>acs_OrgID = psc_OrgID command, acs_AgentLineage = psc_AgentLineage command,
      acs_ChampionAgentSpecHash = psc_AgentSpecHash command, acs_ChampionAdapterID = uuid_nil,
      acs_ServingModelID = uuid_nil, acs_PreviousAgentSpecHash = [],
      acs_DecisionID = (if psc_DecisionID command = uuid_nil then ak_new_uuid ak else psc_DecisionID command),
      acs_DecidedBy = psc_UserID command,
      acs_DecidedAt = (if psc_DecidedAt command = 0 then ak_now ak else psc_DecidedAt command)\<rparr>"

text \<open>The messages of \<open>recordChampionStateAndEvents\<close>, one for each binding.\<close>

definition champion_messages ::
  "agent_registry \<Rightarrow> agent_endpoint_binding list \<Rightarrow> agent_champion_state \<Rightarrow> outbound_message list" where
  "champion_messages u bindings record = map (AgentChampionUpdatedMessage (arg_builder u) record) bindings"

definition PromoteSpecChampion ::
  "agent_registry \<Rightarrow> agent_call \<Rightarrow> session \<Rightarrow> promote_spec_command \<Rightarrow> agent_champion_state request" where
  "PromoteSpecChampion u ak s command =
     and_then (reads ak 0 (\<lambda>env. ReadSpecVersion env s (psc_OrgID command) (psc_AgentSpecHash command)))
     (\<lambda>version. and_then (require (asv_AgentLineage version = psc_AgentLineage command)
        (agent_Extend CodeValidation ''registered agent spec lineage does not match champion lineage''))
     (\<lambda>_. and_then (reads ak 1 (\<lambda>env. ListEndpointBindings env s (psc_OrgID command) (psc_AgentLineage command)))
     (\<lambda>bindings. writes ak 2 (\<lambda>env. RecordChampionState env s (agentChampionStateFromCommand ak command))
        (champion_messages u bindings))))"

section \<open>Golden tasks\<close>

definition golden_task_of ::
  "agent_registry \<Rightarrow> import_golden_command \<Rightarrow> golden_task_input \<Rightarrow> golden_task" where
  "golden_task_of u command input = (let normalizedPrompt = normalizeGoldenPrompt (gti_Prompt input) in
     \<lparr>gt_TaskID = uuid_nil, gt_OrgID = igt_OrgID command, gt_AgentLineage = igt_AgentLineage command,
      gt_Split = igt_Split command, gt_SplitVersion = igt_SplitVersion command,
      gt_GroupKey = TrimSpace (gti_GroupKey input), gt_Prompt = gti_Prompt input,
      gt_NormalizedPromptHash = SHA256String (arg_sha256 u) normalizedPrompt,
      gt_ContentFingerprint = goldenTaskContentFingerprint (arg_sha256 u) normalizedPrompt,
      gt_NearDuplicateFingerprint = goldenTaskNearDuplicateFingerprint (arg_sha256 u) normalizedPrompt,
      gt_ExpectedToolPlanHash = TrimSpace (gti_ExpectedToolPlanHash input),
      gt_ExpectedAnswer = TrimSpace (gti_ExpectedAnswer input),
      gt_ExpectedAnswerRubricID = TrimSpace (gti_ExpectedAnswerRubricID input),
      gt_LabelsHash = TrimSpace (gti_LabelsHash input), gt_CreatedByUserID = igt_UserID command,
      gt_CreatedAt = 0\<rparr>)"

definition import_golden_task ::
  "stmt_env \<Rightarrow> session \<Rightarrow> golden_task \<Rightarrow> agent_tables \<Rightarrow> agent_error + (golden_task \<times> agent_tables)" where
  "import_golden_task env s task t = (case FindGoldenTaskLeakConflicts env s task t of
     Inl e \<Rightarrow> Inl e
   | Inr (c # _) \<Rightarrow> Inl (agent_Extend CodeGoldenTaskLeak
       (''task fingerprint or group_key overlaps split '' @ GoldenTaskSplit_String (glc_Split c)))
   | Inr [] \<Rightarrow> CreateGoldenTask env s task t)"

fun import_golden_tasks ::
  "stmt_env \<Rightarrow> session \<Rightarrow> golden_task list \<Rightarrow> golden_task list \<Rightarrow> agent_tables \<Rightarrow>
   agent_error + (golden_task list \<times> agent_tables)" where
  "import_golden_tasks env s [] out t = Inr (out, t)"
| "import_golden_tasks env s (task # tasks) out t = (case import_golden_task env s task t of
     Inl e \<Rightarrow> Inl e | Inr (record, t1) \<Rightarrow> import_golden_tasks env s tasks (out @ [record]) t1)"

definition ImportGoldenTasks ::
  "agent_registry \<Rightarrow> agent_call \<Rightarrow> session \<Rightarrow> import_golden_command \<Rightarrow> golden_task list request" where
  "ImportGoldenTasks u ak s command =
     writes ak 0 (after_lineage s (igt_OrgID command) (igt_AgentLineage command) (igt_UserID command)
       (\<lambda>env. import_golden_tasks env s (map (golden_task_of u command) (igt_Tasks command)) [])) (\<lambda>_. [])"

section \<open>Labels and datasets\<close>

definition label_of ::
  "agent_registry \<Rightarrow> label_run_command \<Rightarrow> agent_trajectory_ref \<Rightarrow> agent_run_label" where
  "label_of u command trajectory = (let normalizedPrompt = normalizeGoldenPrompt (lar_Prompt command) in
     \<lparr>arl_LabelID = uuid_nil, arl_OrgID = lar_OrgID command, arl_RunID = lar_RunID command,
      arl_AgentLineage = lar_AgentLineage command, arl_AgentSpecHash = atj_AgentSpecHash trajectory,
      arl_ToolsetHash = atj_ToolsetHash trajectory, arl_EffectiveBaseID = atj_EffectiveBaseID trajectory,
      arl_DataSnapshotHash = atj_DataSnapshotHash trajectory,
      arl_ContentFingerprint = goldenTaskContentFingerprint (arg_sha256 u) normalizedPrompt,
      arl_NearDuplicateFingerprint = goldenTaskNearDuplicateFingerprint (arg_sha256 u) normalizedPrompt,
      arl_Evaluator = lar_Evaluator command, arl_TaskSuccess = lar_TaskSuccess command,
      arl_ToolSelectionScore = lar_ToolSelectionScore command, arl_Groundedness = lar_Groundedness command,
      arl_PolicyViolations = lar_PolicyViolations command, arl_Confidence = lar_Confidence command,
      arl_LabelSource = lar_LabelSource command, arl_RubricVersion = lar_RubricVersion command,
      arl_CreatedByUserID = lar_UserID command, arl_CreatedAt = 0\<rparr>)"

definition LabelAgentRun ::
  "agent_registry \<Rightarrow> agent_call \<Rightarrow> session \<Rightarrow> label_run_command \<Rightarrow> agent_run_label request" where
  "LabelAgentRun u ak s command =
     and_then (lift_result (arg_ReadAgentTrajectory u (lar_OrgID command) (lar_UserID command) (lar_RunID command)))
     (\<lambda>trajectory. and_then (require (TrimSpace (atj_AgentSpecHash trajectory) \<noteq> [] \<and>
          TrimSpace (atj_ToolsetHash trajectory) \<noteq> [] \<and> TrimSpace (atj_EffectiveBaseID trajectory) \<noteq> [] \<and>
          TrimSpace (atj_DataSnapshotHash trajectory) \<noteq> [])
        (agent_Extend CodeValidation ''agent trajectory tuple is incomplete''))
     (\<lambda>_. writes ak 0 (after_lineage s (lar_OrgID command) (lar_AgentLineage command) (lar_UserID command)
        (\<lambda>env. RecordAgentRunLabel env s (label_of u command trajectory))) (\<lambda>_. [])))"

definition holdout_query :: "uuid \<Rightarrow> string \<Rightarrow> int \<Rightarrow> list_golden_command" where
  "holdout_query org lineage splitVersion = \<lparr>lgt_OrgID = org, lgt_AgentLineage = lineage,
     lgt_Split = GoldenTaskSplitPromotionHoldout, lgt_SplitVersion = splitVersion\<rparr>"

definition dataset_of ::
  "build_dataset_command \<Rightarrow> agent_run_label list \<Rightarrow> training_tuple \<Rightarrow> string \<Rightarrow> string \<Rightarrow> agent_trajectory_dataset" where
  "dataset_of command filtered tuple manifest contentHash =
     \<lparr>atd_DatasetID = uuid_nil, atd_OrgID = btd_OrgID command, atd_AgentLineage = btd_AgentLineage command,
      atd_GoldenSplitVersion = btd_GoldenSplitVersion command, atd_ContentHash = contentHash,
      atd_DatasetURI = trajectoryDatasetURIPrefix @ contentHash, atd_Format = trajectoryDatasetFormat,
      atd_LabelCount = int (length filtered), atd_Manifest = manifest,
      atd_EffectiveBaseID = ttp_EffectiveBaseID tuple, atd_AgentSpecHash = ttp_AgentSpecHash tuple,
      atd_ToolsetHash = ttp_ToolsetHash tuple, atd_DataSnapshotHash = ttp_DataSnapshotHash tuple,
      atd_CreatedByUserID = btd_UserID command, atd_CreatedAt = 0\<rparr>"

definition training_labels :: "agent_run_label list \<Rightarrow> golden_task list \<Rightarrow> agent_error + agent_run_label list" where
  "training_labels labels holdout = (let filtered = filterTrainingLabels labels holdout in
     if filtered = [] then Inl (agent_Extend CodeTrainingFailed ''no non-holdout labels are eligible for training'')
     else Inr filtered)"

definition BuildTrajectoryDataset ::
  "agent_registry \<Rightarrow> agent_call \<Rightarrow> session \<Rightarrow> build_dataset_command \<Rightarrow> agent_trajectory_dataset request" where
  "BuildTrajectoryDataset u ak s command =
     and_then (reads ak 0 (\<lambda>env. ListAgentRunLabels env s
        \<lparr>llc_OrgID = btd_OrgID command, llc_AgentLineage = btd_AgentLineage command\<rparr>))
     (\<lambda>labels. and_then (reads ak 1 (\<lambda>env. ListGoldenTasks env s
        (holdout_query (btd_OrgID command) (btd_AgentLineage command) (btd_GoldenSplitVersion command))))
     (\<lambda>holdout. and_then (lift_result (training_labels labels holdout))
     (\<lambda>filtered. and_then (lift_result (commonTrainingTuple filtered))
     (\<lambda>tuple. and_then (lift_result (trajectoryDatasetManifest (acb_uuid (arg_builder u)) (arg_manifest_json u)
          (arg_sha256 u) filtered (btd_GoldenSplitVersion command)))
     (\<lambda>(manifest, contentHash). writes ak 2
        (after_lineage s (btd_OrgID command) (btd_AgentLineage command) (btd_UserID command)
          (\<lambda>env. RecordTrajectoryDataset env s (dataset_of command filtered tuple manifest contentHash))) (\<lambda>_. []))))))"

section \<open>Training an adapter\<close>

definition training_request ::
  "dispatch_training_command \<Rightarrow> agent_trajectory_dataset \<Rightarrow> agent_spec_version \<Rightarrow> adapter_training_request" where
  "training_request command dataset version = (let profile = TrimSpace (dat_TrainingProfile command) in
     \<lparr>atq_OrgID = dat_OrgID command, atq_UserID = dat_UserID command, atq_AgentLineage = dat_AgentLineage command,
      atq_DatasetID = atd_DatasetID dataset, atq_DatasetURI = atd_DatasetURI dataset,
      atq_ContentHash = atd_ContentHash dataset, atq_SourceModelID = asv_ModelID version,
      atq_TrainingProfile = (if profile = [] then defaultAgentTrainingProfile else profile),
      atq_EffectiveBaseID = atd_EffectiveBaseID dataset, atq_AgentSpecHash = atd_AgentSpecHash dataset,
      atq_ToolsetHash = atd_ToolsetHash dataset, atq_DataSnapshotHash = atd_DataSnapshotHash dataset\<rparr>)"

text \<open>The status of the adapter a dispatch starts: an artifact that is there already must be complete.\<close>

definition dispatched_status :: "adapter_training_result \<Rightarrow> agent_error + AgentAdapterStatus" where
  "dispatched_status training =
     (if ats_TrainingRunID training = uuid_nil \<or> TrimSpace (ats_TrainingProvider training) = []
      then Inl (agent_Extend CodeTrainingFailed ''agent training provider returned an incomplete training dispatch'')
      else if TrimSpace (ats_AdapterURI training) \<noteq> [] \<or> TrimSpace (ats_AdapterChecksum training) \<noteq> []
      then if ats_ServingModelID training = uuid_nil \<or> TrimSpace (ats_AdapterURI training) = [] \<or>
              TrimSpace (ats_AdapterChecksum training) = []
           then Inl (agent_Extend CodeTrainingFailed ''agent training provider returned an incomplete adapter artifact'')
           else Inr AgentAdapterStatusCandidate
      else Inr AgentAdapterStatusTraining)"

definition adapter_of ::
  "dispatch_training_command \<Rightarrow> agent_trajectory_dataset \<Rightarrow> adapter_training_result \<Rightarrow> AgentAdapterStatus \<Rightarrow> agent_adapter" where
  "adapter_of command dataset training status =
     \<lparr>aad_AdapterID = uuid_nil, aad_OrgID = dat_OrgID command, aad_AgentLineage = dat_AgentLineage command,
      aad_DatasetID = atd_DatasetID dataset, aad_TrainingRunID = ats_TrainingRunID training,
      aad_ServingModelID = ats_ServingModelID training, aad_AdapterURI = ats_AdapterURI training,
      aad_AdapterChecksum = ats_AdapterChecksum training, aad_TrainingProvider = ats_TrainingProvider training,
      aad_TrainedAgainstEffectiveBaseID = atd_EffectiveBaseID dataset,
      aad_TrainedAgainstAgentSpecHash = atd_AgentSpecHash dataset,
      aad_TrainedAgainstToolsetHash = atd_ToolsetHash dataset,
      aad_TrainedAgainstDataSnapshotHash = atd_DataSnapshotHash dataset,
      aad_TrainedAgainstRubricVersion = agentEvalRubricVersion,
      aad_TrainedAgainstGoldenSplitVersion = atd_GoldenSplitVersion dataset, aad_Status = status,
      aad_PromotionPassed = False, aad_CreatedByUserID = dat_UserID command, aad_CreatedAt = 0, aad_UpdatedAt = 0\<rparr>"

definition DispatchAgentAdapterTraining ::
  "agent_registry \<Rightarrow> agent_call \<Rightarrow> session \<Rightarrow> dispatch_training_command \<Rightarrow> agent_adapter request" where
  "DispatchAgentAdapterTraining u ak s command = (case arg_trainingDispatcher u of
     None \<Rightarrow> fails (agent_Extend CodeTrainingFailed ''agent training dispatcher is not configured'')
   | Some dispatch \<Rightarrow>
       and_then (reads ak 0 (\<lambda>env. ReadTrajectoryDataset env s (dat_OrgID command) (dat_DatasetID command)))
       (\<lambda>dataset. and_then (require (atd_AgentLineage dataset = dat_AgentLineage command)
          (agent_Extend CodeValidation ''trajectory dataset lineage does not match adapter lineage''))
       (\<lambda>_. and_then (reads ak 1 (\<lambda>env. ReadSpecVersion env s (dat_OrgID command) (atd_AgentSpecHash dataset)))
       (\<lambda>version. and_then (require (asv_AgentLineage version = dat_AgentLineage command)
          (agent_Extend CodeValidation ''trajectory dataset spec lineage does not match adapter lineage''))
       (\<lambda>_. and_then (lift_result (dispatch (training_request command dataset version)))
       (\<lambda>training. and_then (lift_result (dispatched_status training))
       (\<lambda>status. writes ak 2 (\<lambda>env. RecordAgentAdapter env s (adapter_of command dataset training status)) (\<lambda>_. []))))))))"

definition RecordAgentAdapterTrainingCompleted ::
  "agent_call \<Rightarrow> session \<Rightarrow> adapter_training_completion \<Rightarrow> agent_adapter request" where
  "RecordAgentAdapterTrainingCompleted ak s completion =
     and_then (require (atc_TrainingRunID completion \<noteq> uuid_nil \<and> atc_OrgID completion \<noteq> uuid_nil \<and>
          atc_ServingModelID completion \<noteq> uuid_nil \<and> TrimSpace (atc_AdapterURI completion) \<noteq> [] \<and>
          TrimSpace (atc_AdapterChecksum completion) \<noteq> [] \<and> TrimSpace (atc_TrainingProvider completion) \<noteq> [])
        (agent_Extend CodeTrainingFailed ''agent adapter training completion is incomplete''))
     (\<lambda>_. writes ak 0 (\<lambda>env. CompleteAgentAdapterTraining env s completion) (\<lambda>_. []))"

definition RecordAgentAdapterTrainingFailed ::
  "agent_call \<Rightarrow> session \<Rightarrow> adapter_training_failure \<Rightarrow> agent_adapter request" where
  "RecordAgentAdapterTrainingFailed ak s failure =
     and_then (require (atf_TrainingRunID failure \<noteq> uuid_nil \<and> atf_OrgID failure \<noteq> uuid_nil)
        (agent_Extend CodeTrainingFailed ''agent adapter training failure is incomplete''))
     (\<lambda>_. writes ak 0 (\<lambda>env. FailAgentAdapterTraining env s failure) (\<lambda>_. []))"

section \<open>Evaluations\<close>

definition run_golden_task ::
  "agent_registry \<Rightarrow> evaluate_spec_command \<Rightarrow> uuid \<Rightarrow> golden_task \<Rightarrow> agent_eval_task_result" where
  "run_golden_task u command servingModelID task =
     (case arg_RunAgentTask u \<lparr>atx_OrgID = esc_OrgID command, atx_UserID = esc_UserID command,
         atx_EndpointID = esc_EndpointID command, atx_AgentSpecHash = esc_AgentSpecHash command,
         atx_ServingModelID = servingModelID, atx_TaskID = gt_TaskID task, atx_QueryText = gt_Prompt task\<rparr> of
       (run, err) \<Rightarrow> scoreGoldenTaskRun task run err)"

definition spec_champion_of_report :: "evaluate_spec_command \<Rightarrow> agent_eval_report \<Rightarrow> agent_champion_state" where
  "spec_champion_of_report command report =
     \<lparr>acs_OrgID = esc_OrgID command, acs_AgentLineage = esc_AgentLineage command,
      acs_ChampionAgentSpecHash = esc_AgentSpecHash command, acs_ChampionAdapterID = uuid_nil,
      acs_ServingModelID = uuid_nil, acs_PreviousAgentSpecHash = [],
      acs_DecisionID = aer_PromotedDecisionID report, acs_DecidedBy = esc_UserID command,
      acs_DecidedAt = aer_EvaluatedAt report\<rparr>"

text \<open>
  The change of the transaction at the end of \<open>evaluateCandidate\<close>: the stored report, and the
  champion it makes when a passed evaluation promotes.
\<close>

definition record_evaluation ::
  "stmt_env \<Rightarrow> session \<Rightarrow> evaluate_spec_command \<Rightarrow> uuid \<Rightarrow> bool \<Rightarrow> agent_eval_report \<Rightarrow> agent_tables \<Rightarrow>
   agent_error + ((agent_eval_report \<times> agent_champion_state option) \<times> agent_tables)" where
  "record_evaluation env s command decision autoPromote report t =
     (let report1 = (if aer_Passed report \<and> autoPromote then report\<lparr>aer_PromotedDecisionID := decision\<rparr> else report)
      in case RecordAgentEvalReport env s report1 t of
           Inl e \<Rightarrow> Inl e
         | Inr (record, t1) \<Rightarrow>
             if aer_Passed record \<and> autoPromote
             then (case RecordChampionState env s (spec_champion_of_report command record) t1 of
                 Inl e \<Rightarrow> Inl e | Inr (champion, t2) \<Rightarrow> Inr ((record, Some champion), t2))
             else Inr ((record, None), t1))"

definition evaluateCandidate ::
  "agent_registry \<Rightarrow> agent_call \<Rightarrow> nat \<Rightarrow> session \<Rightarrow> evaluate_spec_command \<Rightarrow> uuid \<Rightarrow> bool \<Rightarrow> agent_eval_report request" where
  "evaluateCandidate u ak k s command servingModelID autoPromote =
     and_then (reads ak k (\<lambda>env. ReadSpecVersion env s (esc_OrgID command) (esc_AgentSpecHash command)))
     (\<lambda>version. and_then (require (asv_AgentLineage version = esc_AgentLineage command)
        (agent_Extend CodeValidation ''registered agent spec lineage does not match eval lineage''))
     (\<lambda>_. and_then (reads ak (k + 1) (\<lambda>env. ListEndpointBindings env s (esc_OrgID command) (esc_AgentLineage command)))
     (\<lambda>bindings. and_then (require (agentEndpointBound bindings (esc_EndpointID command))
        (agent_Extend CodeEndpointUnavailable ''endpoint is not bound to agent lineage''))
     (\<lambda>_. and_then (reads ak (k + 2) (\<lambda>env. ListGoldenTasks env s
        (holdout_query (esc_OrgID command) (esc_AgentLineage command) (esc_SplitVersion command))))
     (\<lambda>tasks. and_then (require (tasks \<noteq> []) (agent_Extend CodeEvalFailed ''promotion holdout has no golden tasks''))
     (\<lambda>_. and_then (writes ak (k + 3)
          (\<lambda>env. record_evaluation env s command (ak_new_uuid ak) autoPromote
             (agentEvalReportFromTaskResults command (map (run_golden_task u command servingModelID) tasks)))
          (\<lambda>(record, champion). case champion of None \<Rightarrow> [] | Some c \<Rightarrow> champion_messages u bindings c))
     (\<lambda>(record, _). returns record)))))))"

definition EvaluateSpecChampion ::
  "agent_registry \<Rightarrow> agent_call \<Rightarrow> session \<Rightarrow> evaluate_spec_command \<Rightarrow> agent_eval_report request" where
  "EvaluateSpecChampion u ak s command = evaluateCandidate u ak 0 s command uuid_nil True"

definition adapter_eval_command :: "evaluate_adapter_command \<Rightarrow> agent_adapter \<Rightarrow> evaluate_spec_command" where
  "adapter_eval_command command adapter =
     \<lparr>esc_OrgID = eac_OrgID command, esc_UserID = eac_UserID command, esc_AgentLineage = eac_AgentLineage command,
      esc_AgentSpecHash = aad_TrainedAgainstAgentSpecHash adapter, esc_AdapterID = aad_AdapterID adapter,
      esc_EndpointID = eac_EndpointID command, esc_SplitVersion = eac_SplitVersion command,
      esc_MinTaskSuccessRate = eac_MinTaskSuccessRate command, esc_MinToolSuccessRate = eac_MinToolSuccessRate command,
      esc_MinGroundednessRate = eac_MinGroundednessRate command\<rparr>"

definition EvaluateAdapterCandidate ::
  "agent_registry \<Rightarrow> agent_call \<Rightarrow> session \<Rightarrow> evaluate_adapter_command \<Rightarrow> agent_eval_report request" where
  "EvaluateAdapterCandidate u ak s command =
     and_then (reads ak 0 (\<lambda>env. ReadAgentAdapter env s (eac_OrgID command) (eac_AdapterID command)))
     (\<lambda>adapter. and_then (require (aad_AgentLineage adapter = eac_AgentLineage command)
        (agent_Extend CodeValidation ''adapter lineage does not match eval lineage''))
     (\<lambda>_. and_then (require (aad_Status adapter = AgentAdapterStatusCandidate \<or> aad_Status adapter = AgentAdapterStatusEvaluated)
        (agent_Extend CodeEvalFailed ''adapter must be is_trained before evaluation''))
     (\<lambda>_. and_then (evaluateCandidate u ak 1 s (adapter_eval_command command adapter) (aad_ServingModelID adapter) False)
     (\<lambda>report. and_then (writes ak 5 (\<lambda>env. UpdateAgentAdapterPromotion env s (aad_AdapterID adapter)
          (if aer_Passed report then AgentAdapterStatusEvaluated else AgentAdapterStatusRejected) False) (\<lambda>_. []))
     (\<lambda>_. returns report)))))"

section \<open>Promoting an adapter\<close>

text \<open>
  \<open>enforceChampionNoRegression\<close>, accesses \<open>k\<close> and \<open>k + 1\<close>. There is nothing to compare
  with when the lineage has no champion, when the champion is a bare specification, or when
  the champion was never evaluated.
\<close>

definition enforceChampionNoRegression ::
  "agent_call \<Rightarrow> nat \<Rightarrow> session \<Rightarrow> agent_adapter \<Rightarrow> agent_eval_report \<Rightarrow> f64 \<Rightarrow> unit request" where
  "enforceChampionNoRegression ak k s adapter candidate minDelta st =
     (case reads ak k (\<lambda>env. ReadChampionState env s (aad_OrgID adapter) (aad_AgentLineage adapter)) st of
        (Inl e, st1) \<Rightarrow> if agent_Is e CodeChampionNotFound then (Inr (), st1) else (Inl e, st1)
      | (Inr state, st1) \<Rightarrow>
          if acs_ChampionAdapterID state = uuid_nil then (Inr (), st1)
          else (case reads ak (k + 1) (\<lambda>env. ReadLatestEvalReportForAdapter env s (aad_OrgID adapter)
                   (acs_ChampionAdapterID state)) st1 of
             (Inl e, st2) \<Rightarrow> if agent_Is e CodeEvalFailed then (Inr (), st2) else (Inl e, st2)
           | (Inr champion, st2) \<Rightarrow>
               if regresses candidate minDelta champion
               then (Inl (agent_Extend CodePromotionFailed ''adapter eval regresses against champion''), st2)
               else (Inr (), st2)))"

definition champion_of_adapter :: "agent_call \<Rightarrow> promote_adapter_command \<Rightarrow> agent_adapter \<Rightarrow> agent_champion_state" where
  "champion_of_adapter ak command adapter =
     \<lparr>acs_OrgID = paa_OrgID command, acs_AgentLineage = paa_AgentLineage command,
      acs_ChampionAgentSpecHash = aad_TrainedAgainstAgentSpecHash adapter,
      acs_ChampionAdapterID = aad_AdapterID adapter, acs_ServingModelID = aad_ServingModelID adapter,
      acs_PreviousAgentSpecHash = [], acs_DecisionID = ak_new_uuid ak, acs_DecidedBy = paa_UserID command,
      acs_DecidedAt = ak_now ak\<rparr>"

definition record_promotion ::
  "stmt_env \<Rightarrow> session \<Rightarrow> uuid \<Rightarrow> agent_champion_state \<Rightarrow> agent_tables \<Rightarrow>
   agent_error + ((agent_adapter \<times> agent_champion_state) \<times> agent_tables)" where
  "record_promotion env s adapterID state t =
     (case UpdateAgentAdapterPromotion env s adapterID AgentAdapterStatusPromoted True t of
        Inl e \<Rightarrow> Inl e
      | Inr (record, t1) \<Rightarrow> (case RecordChampionState env s state t1 of
          Inl e \<Rightarrow> Inl e | Inr (champion, t2) \<Rightarrow> Inr ((record, champion), t2)))"

definition PromoteAgentAdapter ::
  "agent_registry \<Rightarrow> agent_call \<Rightarrow> session \<Rightarrow> promote_adapter_command \<Rightarrow> agent_adapter request" where
  "PromoteAgentAdapter u ak s command =
     and_then (reads ak 0 (\<lambda>env. ReadAgentAdapter env s (paa_OrgID command) (paa_AdapterID command)))
     (\<lambda>adapter. and_then (require (aad_Status adapter = AgentAdapterStatusEvaluated)
        (agent_Extend CodePromotionFailed ''adapter must pass evaluation before promotion''))
     (\<lambda>_. and_then (reads ak 1 (\<lambda>env. ReadAgentEvalReport env s (paa_OrgID command) (paa_ReportID command)))
     (\<lambda>report. and_then (require (agentAdapterCompatibleWithReport adapter report)
        (agent_Extend CodePromotionFailed ''adapter and eval report tuples are incompatible''))
     (\<lambda>_. and_then (require (aer_Passed report)
        (agent_Extend CodePromotionFailed ''adapter eval report did not pass''))
     (\<lambda>_. and_then (enforceChampionNoRegression ak 2 s adapter report (paa_MinDelta command))
     (\<lambda>_. and_then (reads ak 4 (\<lambda>env. ListEndpointBindings env s (paa_OrgID command) (paa_AgentLineage command)))
     (\<lambda>bindings. and_then (writes ak 5
          (\<lambda>env. record_promotion env s (aad_AdapterID adapter) (champion_of_adapter ak command adapter))
          (\<lambda>(record, champion). champion_messages u bindings champion))
     (\<lambda>(record, _). returns record))))))))"

section \<open>Training events\<close>

record training_completed_event =
  tce_TrainingRunId :: string
  tce_OrgId :: string
  tce_ModelId :: string
  tce_AdapterUri :: string
  tce_ArtifactChecksum :: string

record training_failed_event =
  tfe_TrainingRunId :: string
  tfe_OrgId :: string
  tfe_FailureReason :: string

definition agentTrainingCompletedToModel ::
  "(string \<Rightarrow> marked_error + uuid) \<Rightarrow> training_completed_event \<Rightarrow> marked_error + adapter_training_completion" where
  "agentTrainingCompletedToModel parse payload =
     (case ParseUUID parse ''training_run_id'' (tce_TrainingRunId payload) of
        (Some e, _) \<Rightarrow> Inl e
      | (None, trainingRunID) \<Rightarrow> (case ParseUUID parse ''org_id'' (tce_OrgId payload) of
        (Some e, _) \<Rightarrow> Inl e
      | (None, orgID) \<Rightarrow> (case ParseUUID parse ''model_id'' (tce_ModelId payload) of
        (Some e, _) \<Rightarrow> Inl e
      | (None, servingModelID) \<Rightarrow>
          let adapterURI = TrimSpace (tce_AdapterUri payload); checksum = TrimSpace (tce_ArtifactChecksum payload) in
          if adapterURI = [] then Inl (TextError ''adapter_uri is required'')
          else if checksum = [] then Inl (TextError ''artifact_checksum is required'')
          else Inr \<lparr>atc_TrainingRunID = trainingRunID, atc_OrgID = orgID, atc_ServingModelID = servingModelID,
            atc_AdapterURI = adapterURI, atc_AdapterChecksum = checksum,
            atc_TrainingProvider = ''training-service-agent-adapter''\<rparr>)))"

definition agentTrainingFailedToModel ::
  "(string \<Rightarrow> marked_error + uuid) \<Rightarrow> training_failed_event \<Rightarrow> marked_error + adapter_training_failure" where
  "agentTrainingFailedToModel parse payload =
     (case ParseUUID parse ''training_run_id'' (tfe_TrainingRunId payload) of
        (Some e, _) \<Rightarrow> Inl e
      | (None, trainingRunID) \<Rightarrow> (case ParseUUID parse ''org_id'' (tfe_OrgId payload) of
        (Some e, _) \<Rightarrow> Inl e
      | (None, orgID) \<Rightarrow>
          let failureReason = TrimSpace (tfe_FailureReason payload) in
          if failureReason = [] then Inl (TextError ''failure_reason is required'')
          else Inr \<lparr>atf_TrainingRunID = trainingRunID, atf_OrgID = orgID, atf_FailureReason = failureReason\<rparr>))"

text \<open>
  What a handler gives the subscriber: done, an error not to be repeated, or the error of the
  use case, which is. An adapter that is not found is not an error: training runs of other
  services arrive on the same topic.
\<close>

datatype training_outcome = Handled | Poison "marked_error option" | Retried agent_error

fun adapter_outcome :: "agent_error + agent_adapter \<Rightarrow> training_outcome" where
  "adapter_outcome (Inr _) = Handled"
| "adapter_outcome (Inl e) = (if agent_Is e CodeAdapterNotFound then Handled else Retried e)"

definition training_completed_Handle ::
  "(string \<Rightarrow> marked_error + uuid) \<Rightarrow> agent_call \<Rightarrow> session \<Rightarrow> training_completed_event \<Rightarrow> agent_state \<Rightarrow>
   training_outcome \<times> agent_state" where
  "training_completed_Handle parse ak s payload st = (case agentTrainingCompletedToModel parse payload of
     Inl e \<Rightarrow> (Poison (NonRetryable (Some e)), st)
   | Inr completion \<Rightarrow> (case RecordAgentAdapterTrainingCompleted ak s completion st of
       (r, st1) \<Rightarrow> (adapter_outcome r, st1)))"

definition training_failed_Handle ::
  "(string \<Rightarrow> marked_error + uuid) \<Rightarrow> agent_call \<Rightarrow> session \<Rightarrow> training_failed_event \<Rightarrow> agent_state \<Rightarrow>
   training_outcome \<times> agent_state" where
  "training_failed_Handle parse ak s payload st = (case agentTrainingFailedToModel parse payload of
     Inl e \<Rightarrow> (Poison (NonRetryable (Some e)), st)
   | Inr failure \<Rightarrow> (case RecordAgentAdapterTrainingFailed ak s failure st of
       (r, st1) \<Rightarrow> (adapter_outcome r, st1)))"

end
