(* ===== verification/AgentRegistryGuarantees.thy ===== *)
theory AgentRegistryGuarantees
  imports AgentRegistry
begin

text \<open>
  How the use cases of the agent registry change its tables while other requests run: the
  results of requests and transactions, and the locale \<open>registry_guarantee\<close>. A history is
  an invariant of the tables with a relation between earlier and later tables. When every
  statement follows the history, and what other requests do between the accesses of a request
  follows it, the request follows it too.
\<close>

section \<open>Results of requests\<close>

lemma request_ok:
  "returns x st = (Inr y, st') \<longleftrightarrow> y = x \<and> st' = st"
  "fails e st \<noteq> (Inr y, st')"
  "and_then m f st = (Inr z, st') \<longleftrightarrow> (\<exists>x st1. m st = (Inr x, st1) \<and> f x st1 = (Inr z, st'))"
  "require ok e st = (Inr u, st') \<longleftrightarrow> ok \<and> st' = st"
  "lift_result r st = (Inr x, st') \<longleftrightarrow> r = Inr x \<and> st' = st"
  "reads ak k q st = (Inr x, st') \<longleftrightarrow> st' = ak_between ak k st \<and> q (ak_stmt ak k) (gs_tables st') = Inr x"
  by (auto simp: returns_def fails_def and_then_def require_def lift_result_def reads_def Let_def
      split: prod.splits sum.splits)

interpretation agent_outbox: ordered_outbox "agent_enqueue ak" "\<lambda>db. outbox_keys (snd db)"
  "\<lambda>msg. TrimSpace (om_DispatchKey msg)" fst
  for ak
proof
  fix db msg db'
  assume "agent_enqueue ak db msg = Inr db'"
  then have "EnqueueDB (ak_outbox ak) (ak_now ak) (ak_outbox_id ak (snd db)) db msg = Inr db'"
    by (auto simp: agent_enqueue_def split: sum.splits)
  then show "TrimSpace (om_DispatchKey msg) \<in> outbox_keys (snd db')"
    and "outbox_keys (snd db) \<subseteq> outbox_keys (snd db')" and "fst db' = fst db"
    by (fact pg_outbox.enqueued, fact pg_outbox.keeps, fact pg_outbox.frame)
qed

text \<open>A transaction that succeeds has changed the tables and holds all its messages.\<close>

lemma on_tables_ok: "on_tables change db = Inr (a, db') \<longleftrightarrow> change (fst db) = Inr (a, fst db') \<and> snd db' = snd db"
  by (cases db') (auto simp: on_tables_def split: sum.splits)

lemma writes_run:
  "writes ak k change msgs st = (case uow_Do (ak_tx ak k) (agent_enqueue ak)
       (change_then_enqueue (on_tables (change (ak_stmt ak k))) msgs) (gs_db (ak_between ak k st)) of
     (Inl e, db, signal) \<Rightarrow> (Inl (agent_tx_cause e), (ak_between ak k st)\<lparr>gs_db := db\<rparr>)
   | (Inr a, db, signal) \<Rightarrow> (Inr a, (ak_between ak k st)\<lparr>gs_db := db,
       gs_signals := gs_signals (ak_between ak k st) + (if signal then 1 else 0)\<rparr>))"
  by (simp only: writes_def Let_def)

lemma writes_ok:
  assumes "writes ak k change msgs st = (Inr a, st')"
  shows "change (ak_stmt ak k) (gs_tables (ak_between ak k st)) = Inr (a, gs_tables st')"
    and "\<forall>m \<in> set (msgs a). TrimSpace (om_DispatchKey m) \<in> outbox_keys (gs_outbox st')"
    and "outbox_keys (gs_outbox (ak_between ak k st)) \<subseteq> outbox_keys (gs_outbox st')"
proof -
  obtain res db sig where run: "uow_Do (ak_tx ak k) (agent_enqueue ak)
      (change_then_enqueue (on_tables (change (ak_stmt ak k))) msgs) (gs_db (ak_between ak k st)) = (res, db, sig)"
    by (metis prod_cases3)
  have res: "res = Inr a" "gs_db st' = db"
    using assms unfolding writes_run run by (auto split: sum.splits)
  note committed = agent_outbox.change_and_enqueue [OF run [unfolded res(1)], unfolded sum.case]
  then obtain s1 where s1: "on_tables (change (ak_stmt ak k)) (gs_db (ak_between ak k st)) = Inr (a, s1)"
      "fst db = fst s1" "outbox_keys (snd s1) \<subseteq> outbox_keys (snd db)"
    by (elim conjE exE) (rule that)
  have keys: "\<forall>m \<in> set (msgs a). TrimSpace (om_DispatchKey m) \<in> outbox_keys (snd db)"
    using committed by (elim conjE) assumption
  have at: "change (ak_stmt ak k) (gs_tables (ak_between ak k st)) = Inr (a, fst s1)"
    "snd s1 = gs_outbox (ak_between ak k st)"
    using s1(1) unfolding on_tables_ok by (rule conjunct1, rule conjunct2)
  show "change (ak_stmt ak k) (gs_tables (ak_between ak k st)) = Inr (a, gs_tables st')"
    unfolding res(2) s1(2) by (rule at(1))
  show "\<forall>m \<in> set (msgs a). TrimSpace (om_DispatchKey m) \<in> outbox_keys (gs_outbox st')"
    unfolding res(2) by (rule keys)
  show "outbox_keys (gs_outbox (ak_between ak k st)) \<subseteq> outbox_keys (gs_outbox st')"
    using s1(3) unfolding res(2) at(2) .
qed

lemma writes_error:
  assumes "writes ak k change msgs st = (Inl e, st')"
  shows "gs_db st' = gs_db (ak_between ak k st)"
proof -
  obtain res db sig where run: "uow_Do (ak_tx ak k) (agent_enqueue ak)
      (change_then_enqueue (on_tables (change (ak_stmt ak k))) msgs) (gs_db (ak_between ak k st)) = (res, db, sig)"
    by (metis prod_cases3)
  obtain e' where res: "res = Inl e'" "gs_db st' = db"
    using assms unfolding writes_run run by (auto split: sum.splits)
  have "db = gs_db (ak_between ak k st) \<and> \<not> sig" by (rule uow_Do_error [OF run [unfolded res(1)]])
  then show ?thesis unfolding res(2) by (rule conjunct1)
qed

section \<open>What each statement leaves alone\<close>

lemma EnsureLineage_frame:
  "EnsureLineage env s orgID l userID t = Inr t' \<Longrightarrow>
     agt_tasks t' = agt_tasks t \<and> agt_adapters t' = agt_adapters t \<and> agt_champions t' = agt_champions t \<and> lineage_known orgID l t'"
  by (auto simp: EnsureLineage_def statement_ok lineage_known_def split: if_splits)

lemma UpsertAgentSpecVersion_frame:
  "UpsertAgentSpecVersion env s v t = Inr (r, t') \<Longrightarrow>
     agt_tasks t' = agt_tasks t \<and> agt_adapters t' = agt_adapters t \<and> agt_champions t' = agt_champions t"
  by (auto simp: UpsertAgentSpecVersion_def statement_ok Let_def split: if_splits option.splits)

lemma UpsertEndpointBinding_frame:
  "UpsertEndpointBinding env s b t = Inr (r, t') \<Longrightarrow>
     agt_tasks t' = agt_tasks t \<and> agt_adapters t' = agt_adapters t \<and> agt_champions t' = agt_champions t"
  by (auto simp: UpsertEndpointBinding_def statement_ok Let_def split: if_splits option.splits)

lemma RecordChampionState_frame:
  "RecordChampionState env s state t = Inr (r, t') \<Longrightarrow> agt_tasks t' = agt_tasks t \<and> agt_adapters t' = agt_adapters t"
  by (auto simp: RecordChampionState_def statement_ok Let_def split: if_splits option.splits)

lemma CreateGoldenTask_frame:
  "CreateGoldenTask env s task t = Inr (r, t') \<Longrightarrow>
     agt_adapters t' = agt_adapters t \<and> agt_champions t' = agt_champions t"
  by (auto simp: CreateGoldenTask_def statement_ok Let_def split: if_splits sum.splits)

lemma RecordAgentRunLabel_frame:
  "RecordAgentRunLabel env s l t = Inr (r, t') \<Longrightarrow>
     agt_tasks t' = agt_tasks t \<and> agt_adapters t' = agt_adapters t \<and> agt_champions t' = agt_champions t"
  by (auto simp: RecordAgentRunLabel_def statement_ok Let_def split: if_splits option.splits)

lemma RecordTrajectoryDataset_frame:
  "RecordTrajectoryDataset env s d t = Inr (r, t') \<Longrightarrow>
     agt_tasks t' = agt_tasks t \<and> agt_adapters t' = agt_adapters t \<and> agt_champions t' = agt_champions t"
  by (auto simp: RecordTrajectoryDataset_def statement_ok Let_def split: if_splits option.splits)

lemma update_adapters_ok:
  assumes "update_adapters env s p f t = Inr (r, t')"
  obtains g q where "t' = t\<lparr>agt_adapters := update_where q g (agt_adapters t)\<rparr>"
    "g = (\<lambda>a. (f a)\<lparr>aad_UpdatedAt := sv_now env\<rparr>)" "q = (\<lambda>a. p a \<and> org_visible s (aad_OrgID a))"
    "\<forall>a \<in> set (agt_adapters t). q a \<longrightarrow> adapter_checks (g a)" "\<exists>a \<in> set (agt_adapters t). q a \<and> r = g a"
proof -
  from assms obtain a where a: "find (\<lambda>r. p r \<and> org_visible s (aad_OrgID r)) (agt_adapters t) = Some a"
    "\<not> (\<exists>b \<in> set (agt_adapters t). (p b \<and> org_visible s (aad_OrgID b)) \<and> \<not> adapter_checks ((f b)\<lparr>aad_UpdatedAt := sv_now env\<rparr>))"
    "scanAgentAdapter ((f a)\<lparr>aad_UpdatedAt := sv_now env\<rparr>) = Inr r"
    "t' = t\<lparr>agt_adapters := update_where (\<lambda>r. p r \<and> org_visible s (aad_OrgID r))
       (\<lambda>r. (f r)\<lparr>aad_UpdatedAt := sv_now env\<rparr>) (agt_adapters t)\<rparr>"
    by (auto simp: update_adapters_def Let_def split: option.splits if_splits sum.splits)
  have "r = (f a)\<lparr>aad_UpdatedAt := sv_now env\<rparr>" using scan_adapter_ok [OF a(3)] by simp
  moreover have "a \<in> set (agt_adapters t)" "p a" "org_visible s (aad_OrgID a)" using find_SomeD [OF a(1)] by auto
  ultimately show ?thesis using a(2,4) by (intro that [OF _ refl refl]) blast+
qed

lemma insert_task_result_frame:
  "insert_task_result s r t = Inr t' \<Longrightarrow> agt_tasks t' = agt_tasks t \<and> agt_adapters t' = agt_adapters t \<and>
     agt_champions t' = agt_champions t \<and> agt_reports t' = agt_reports t"
  by (auto simp: insert_task_result_def split: if_splits)

lemma insert_task_results_frame:
  "insert_task_results s rep rs t = Inr (r, t') \<Longrightarrow> agt_tasks t' = agt_tasks t \<and> agt_adapters t' = agt_adapters t \<and>
     agt_champions t' = agt_champions t \<and> agt_reports t' = agt_reports t"
proof (induction s rep rs t arbitrary: r t' rule: insert_task_results.induct)
  case (2 s rep p ps t)
  let ?p = "p\<lparr>atr_OrgID := aer_OrgID rep, atr_ReportID := aer_ReportID rep\<rparr>"
  from 2(2) obtain t1 where t1: "insert_task_result s ?p t = Inr t1"
    "insert_task_results s (rep\<lparr>aer_TaskResults := aer_TaskResults rep @ [?p]\<rparr>) ps t1 = Inr (r, t')"
    by (auto simp: Let_def split: sum.splits)
  show ?case using 2(1) [OF refl t1] insert_task_result_frame [OF t1(1)] by simp
qed simp

lemma RecordAgentEvalReport_frame:
  "RecordAgentEvalReport env s report t = Inr (r, t') \<Longrightarrow>
     agt_tasks t' = agt_tasks t \<and> agt_adapters t' = agt_adapters t \<and> agt_champions t' = agt_champions t"
  by (auto simp: RecordAgentEvalReport_def statement_ok Let_def split: if_splits sum.splits
      dest!: insert_task_results_frame)

section \<open>Histories\<close>

definition follows :: "('t \<Rightarrow> bool) \<Rightarrow> ('t \<Rightarrow> 't \<Rightarrow> bool) \<Rightarrow> 't \<Rightarrow> 't \<Rightarrow> bool" where
  "follows Inv R t t' \<longleftrightarrow> (Inv t \<longrightarrow> Inv t' \<and> R t t')"

text \<open>\<open>Ready i\<close> says that the adapter \<open>i\<close> is out of training for good.\<close>

locale registry_guarantee =
  fixes Inv :: "agent_tables \<Rightarrow> bool"
    and R :: "agent_tables \<Rightarrow> agent_tables \<Rightarrow> bool"
    and Ready :: "uuid \<Rightarrow> agent_tables \<Rightarrow> bool"
  assumes reflexive: "R t t"
    and transitive: "R t1 t2 \<Longrightarrow> R t2 t3 \<Longrightarrow> R t1 t3"
    and ready_stable: "Inv t \<Longrightarrow> Ready i t \<Longrightarrow> R t t' \<Longrightarrow> Ready i t'"
    and ready_read: "Inv t \<Longrightarrow> ReadAgentAdapter env s orgID i t = Inr a \<Longrightarrow>
      aad_Status a \<in> {AgentAdapterStatusCandidate, AgentAdapterStatusEvaluated} \<Longrightarrow> Ready (aad_AdapterID a) t"
    and ensure_lineage: "Inv t \<Longrightarrow> EnsureLineage env s orgID l userID t = Inr t' \<Longrightarrow> Inv t' \<and> R t t'"
    and upsert_spec: "Inv t \<Longrightarrow> UpsertAgentSpecVersion env s v t = Inr (v', t') \<Longrightarrow> Inv t' \<and> R t t'"
    and upsert_binding: "Inv t \<Longrightarrow> UpsertEndpointBinding env s b t = Inr (b', t') \<Longrightarrow> Inv t' \<and> R t t'"
    and record_champion: "Inv t \<Longrightarrow> RecordChampionState env s c t = Inr (c', t') \<Longrightarrow> Inv t' \<and> R t t'"
    and import_task: "Inv t \<Longrightarrow> import_golden_task env s g t = Inr (g', t') \<Longrightarrow> Inv t' \<and> R t t'"
    and record_label: "Inv t \<Longrightarrow> RecordAgentRunLabel env s l' t = Inr (l'', t') \<Longrightarrow> Inv t' \<and> R t t'"
    and record_dataset: "Inv t \<Longrightarrow> RecordTrajectoryDataset env s d t = Inr (d', t') \<Longrightarrow> Inv t' \<and> R t t'"
    and record_adapter: "Inv t \<Longrightarrow> RecordAgentAdapter env s a t = Inr (a', t') \<Longrightarrow> \<not> aad_PromotionPassed a \<Longrightarrow>
      aad_Status a \<noteq> AgentAdapterStatusPromoted \<Longrightarrow> Inv t' \<and> R t t'"
    and complete_training: "Inv t \<Longrightarrow> CompleteAgentAdapterTraining env s tc t = Inr (a', t') \<Longrightarrow> Inv t' \<and> R t t'"
    and fail_training: "Inv t \<Longrightarrow> FailAgentAdapterTraining env s tf t = Inr (a', t') \<Longrightarrow> Inv t' \<and> R t t'"
    and update_promotion: "Inv t \<Longrightarrow> Ready i t \<Longrightarrow> UpdateAgentAdapterPromotion env s i status passed t = Inr (a', t') \<Longrightarrow>
      status \<in> {AgentAdapterStatusEvaluated, AgentAdapterStatusRejected, AgentAdapterStatusPromoted} \<Longrightarrow>
      passed = (status = AgentAdapterStatusPromoted) \<Longrightarrow> Inv t' \<and> R t t'"
    and record_report: "Inv t \<Longrightarrow> RecordAgentEvalReport env s p t = Inr (p', t') \<Longrightarrow> Inv t' \<and> R t t'"
begin

abbreviation keeps :: "agent_state \<Rightarrow> agent_state \<Rightarrow> bool" where
  "keeps st st' \<equiv> follows Inv R (gs_tables st) (gs_tables st')"

lemma keeps_refl [simp]: "keeps st st"
  by (simp add: follows_def reflexive)

lemma keeps_trans: "keeps st1 st2 \<Longrightarrow> keeps st2 st3 \<Longrightarrow> keeps st1 st3"
  unfolding follows_def using transitive by (metis (no_types))

text \<open>A request that others may interrupt, in a history: it may use what \<open>Q\<close> says of the tables.\<close>

definition sound :: "agent_call \<Rightarrow> (agent_tables \<Rightarrow> bool) \<Rightarrow> 'a request \<Rightarrow> bool" where
  "sound ak Q m \<longleftrightarrow> ((\<forall>k st. keeps st (ak_between ak k st)) \<longrightarrow>
     (\<forall>st. Q (gs_tables st) \<longrightarrow> keeps st (snd (m st))))"

definition stable :: "(agent_tables \<Rightarrow> bool) \<Rightarrow> bool" where
  "stable Q \<longleftrightarrow> (\<forall>t t'. Inv t \<longrightarrow> Q t \<longrightarrow> R t t' \<longrightarrow> Q t')"

lemma stable_True [simp]: "stable (\<lambda>_. True)"
  by (simp add: stable_def)

lemma stable_Ready [simp]: "stable (Ready i)"
  unfolding stable_def using ready_stable by blast

lemma sound_pure [simp]:
  "sound ak Q (returns x)" "sound ak Q (fails e)" "sound ak Q (require ok e)" "sound ak Q (lift_result r)"
  by (auto simp: sound_def returns_def fails_def require_def lift_result_def split: sum.splits)

lemma sound_reads [simp]: "sound ak Q (reads ak k q)"
  by (auto simp: sound_def reads_def Let_def)

text \<open>What a request found out may be used by the rest of it.\<close>

lemma sound_and_then:
  assumes m: "sound ak Q m" and "stable Q" "\<And>x. stable (P x)"
    and post: "\<And>st x st1. Inv (gs_tables st) \<Longrightarrow> Inv (gs_tables st1) \<Longrightarrow> m st = (Inr x, st1) \<Longrightarrow> Q (gs_tables st) \<Longrightarrow> P x (gs_tables st1)"
    and f: "\<And>x. sound ak (\<lambda>t. Q t \<and> P x t) (f x)"
  shows "sound ak Q (and_then m f)"
  unfolding sound_def
proof (intro impI allI)
  fix st
  assume others: "\<forall>k st. keeps st (ak_between ak k st)" and Q: "Q (gs_tables st)"
  obtain r st1 where run: "m st = (r, st1)" by fastforce
  have st1: "keeps st st1" using m others Q run by (auto simp: sound_def)
  show "keeps st (snd (and_then m f st))"
  proof (cases r)
    case (Inl e)
    then show ?thesis using run st1 by (simp add: and_then_def)
  next
    case (Inr x)
    have "keeps st1 (snd (f x st1))" if inv: "Inv (gs_tables st)"
    proof -
      have "Inv (gs_tables st1)" "R (gs_tables st) (gs_tables st1)" using st1 inv by (auto simp: follows_def)
      then have "Q (gs_tables st1)" "P x (gs_tables st1)"
        using post [OF inv _ run [unfolded Inr] Q] Q \<open>stable Q\<close> inv unfolding stable_def by blast+
      then show ?thesis using f [of x] others unfolding sound_def by blast
    qed
    then show ?thesis using st1 keeps_trans run Inr by (fastforce simp: and_then_def follows_def)
  qed
qed

lemma sound_then:
  assumes "sound ak Q m" "stable Q" "\<And>x. sound ak Q (f x)"
  shows "sound ak Q (and_then m f)"
  using sound_and_then [of ak Q m "\<lambda>_ _. True" f] assms by simp

lemma sound_writes:
  assumes "stable Q"
    and "\<And>t a t'. Inv t \<Longrightarrow> Q t \<Longrightarrow> change (ak_stmt ak k) t = Inr (a, t') \<Longrightarrow> Inv t' \<and> R t t'"
  shows "sound ak Q (writes ak k change msgs)"
  unfolding sound_def
proof (intro impI allI)
  fix st
  assume others: "\<forall>k st. keeps st (ak_between ak k st)" and Q: "Q (gs_tables st)"
  obtain r st1 where run: "writes ak k change msgs st = (r, st1)" by fastforce
  have before: "keeps st (ak_between ak k st)" using others by blast
  show "keeps st (snd (writes ak k change msgs st))"
  proof (cases r)
    case (Inl e)
    then have "gs_db st1 = gs_db (ak_between ak k st)" using writes_error run by blast
    then show ?thesis using before run by simp
  next
    case (Inr a)
    then have change: "change (ak_stmt ak k) (gs_tables (ak_between ak k st)) = Inr (a, gs_tables st1)"
      by (simp only: writes_ok(1) [OF run [unfolded Inr]])
    show ?thesis
      unfolding follows_def
    proof
      assume inv: "Inv (gs_tables st)"
      then have mid: "Inv (gs_tables (ak_between ak k st))" "R (gs_tables st) (gs_tables (ak_between ak k st))"
        using before by (auto simp: follows_def)
      then have "Q (gs_tables (ak_between ak k st))" using \<open>stable Q\<close> inv Q unfolding stable_def by blast
      then have "Inv (gs_tables st1) \<and> R (gs_tables (ak_between ak k st)) (gs_tables st1)"
        using assms(2) mid change by blast
      then show "Inv (gs_tables (snd (writes ak k change msgs st))) \<and> R (gs_tables st) (gs_tables (snd (writes ak k change msgs st)))"
        unfolding run snd_conv using mid(2) transitive by blast
    qed
  qed
qed

lemma after_lineage_step:
  assumes "Inv t" "after_lineage s orgID l userID change env t = Inr (a, t')"
    and "\<And>t1. Inv t1 \<Longrightarrow> change env t1 = Inr (a, t') \<Longrightarrow> Inv t' \<and> R t1 t'"
  shows "Inv t' \<and> R t t'"
proof -
  from assms(2) obtain t1 where t1: "EnsureLineage env s orgID l userID t = Inr t1" "change env t1 = Inr (a, t')"
    by (auto simp: after_lineage_def split: sum.splits)
  then have "Inv t1" "R t t1" using ensure_lineage [OF assms(1)] by blast+
  then show ?thesis using assms(3) [OF _ t1(2)] transitive [of t t1 t'] by blast
qed

lemma import_tasks_step:
  "Inv t \<Longrightarrow> import_golden_tasks env s gs out t = Inr (out', t') \<Longrightarrow> Inv t' \<and> R t t'"
proof (induction env s gs out t rule: import_golden_tasks.induct)
  case (2 env s g gs out t)
  then obtain g' t1 where "import_golden_task env s g t = Inr (g', t1)" "import_golden_tasks env s gs (out @ [g']) t1 = Inr (out', t')"
    by (auto split: sum.splits)
  note t1 = this
  have first: "Inv t1 \<and> R t t1" by (rule import_task [OF "2.prems"(1) t1(1)])
  have "Inv t' \<and> R t1 t'" by (rule "2.IH" [OF t1(1) refl _ t1(2)]) (use first in simp)
  then show ?case using transitive [of t t1 t'] first by simp
qed (auto simp: reflexive)

lemma sound_require: "(ok \<Longrightarrow> sound ak Q (f ())) \<Longrightarrow> sound ak Q (and_then (require ok e) f)"
  by (cases ok) (simp_all add: sound_def and_then_def require_def returns_def fails_def)

lemma sound_lift: "(\<And>x. r = Inr x \<Longrightarrow> sound ak Q (f x)) \<Longrightarrow> sound ak Q (and_then (lift_result r) f)"
  by (cases r) (simp_all add: sound_def and_then_def lift_result_def returns_def fails_def)

lemma sound_after_reads: "stable Q \<Longrightarrow> (\<And>x. sound ak Q (f x)) \<Longrightarrow> sound ak Q (and_then (reads ak k q) f)"
  by (rule sound_then) simp_all

text \<open>A transaction that makes sure of its lineage first.\<close>

lemma sound_lineage_writes:
  assumes "\<And>t a t'. Inv t \<Longrightarrow> change (ak_stmt ak k) t = Inr (a, t') \<Longrightarrow> Inv t' \<and> R t t'"
  shows "sound ak (\<lambda>_. True) (writes ak k (after_lineage s orgID l userID change) msgs)"
proof (rule sound_writes)
  fix t a t'
  assume "Inv t" "after_lineage s orgID l userID change (ak_stmt ak k) t = Inr (a, t')"
  then show "Inv t' \<and> R t t'" by (rule after_lineage_step) (rule assms)
qed simp

section \<open>Every use case follows the history\<close>

lemma RegisterAgentSpecVersion_sound: "sound ak (\<lambda>_. True) (RegisterAgentSpecVersion u ak s c)"
  unfolding RegisterAgentSpecVersion_def
  by (intro sound_lift sound_require sound_lineage_writes) (erule (1) upsert_spec)

lemma RegisterEndpointBinding_sound: "sound ak (\<lambda>_. True) (RegisterEndpointBinding u ak s c)"
  unfolding RegisterEndpointBinding_def
  by (intro sound_lift sound_lineage_writes) (erule (1) upsert_binding)

lemma PromoteSpecChampion_sound: "sound ak (\<lambda>_. True) (PromoteSpecChampion u ak s c)"
  unfolding PromoteSpecChampion_def
  by (intro sound_after_reads sound_require sound_writes stable_True) (erule (1) record_champion)

lemma ImportGoldenTasks_sound: "sound ak (\<lambda>_. True) (ImportGoldenTasks u ak s c)"
  unfolding ImportGoldenTasks_def by (rule sound_lineage_writes) (erule (1) import_tasks_step)

lemma LabelAgentRun_sound: "sound ak (\<lambda>_. True) (LabelAgentRun u ak s c)"
  unfolding LabelAgentRun_def
  by (intro sound_lift sound_require sound_lineage_writes) (erule (1) record_label)

lemma BuildTrajectoryDataset_sound: "sound ak (\<lambda>_. True) (BuildTrajectoryDataset u ak s c)"
  unfolding BuildTrajectoryDataset_def split_beta
  by (intro sound_after_reads sound_lift sound_lineage_writes stable_True) (erule (1) record_dataset)

lemma dispatched_not_promoted: "dispatched_status training = Inr status \<Longrightarrow> status \<noteq> AgentAdapterStatusPromoted"
  by (auto simp: dispatched_status_def split: if_splits)

lemma DispatchAgentAdapterTraining_sound: "sound ak (\<lambda>_. True) (DispatchAgentAdapterTraining u ak s c)"
proof (cases "arg_trainingDispatcher u")
  case (Some dispatch)
  have stored: "sound ak (\<lambda>_. True) (writes ak k (\<lambda>env. RecordAgentAdapter env s (adapter_of c d training status)) msgs)"
    if "dispatched_status training = Inr status" for d training status k msgs
  proof (rule sound_writes)
    fix t a t'
    assume "Inv t" "RecordAgentAdapter (ak_stmt ak k) s (adapter_of c d training status) t = Inr (a, t')"
    then show "Inv t' \<and> R t t'"
      by (rule record_adapter) (use dispatched_not_promoted [OF that] in \<open>simp_all add: adapter_of_def\<close>)
  qed simp
  show ?thesis
    unfolding DispatchAgentAdapterTraining_def Some option.case
    by (intro sound_after_reads sound_require sound_lift stable_True) (rule stored)
qed (simp add: DispatchAgentAdapterTraining_def)

lemma RecordAgentAdapterTrainingCompleted_sound: "sound ak (\<lambda>_. True) (RecordAgentAdapterTrainingCompleted ak s c)"
  unfolding RecordAgentAdapterTrainingCompleted_def
  by (intro sound_require sound_writes stable_True) (erule (1) complete_training)

lemma RecordAgentAdapterTrainingFailed_sound: "sound ak (\<lambda>_. True) (RecordAgentAdapterTrainingFailed ak s c)"
  unfolding RecordAgentAdapterTrainingFailed_def
  by (intro sound_require sound_writes stable_True) (erule (1) fail_training)

lemma record_evaluation_step:
  assumes "Inv t" "record_evaluation env s c decision auto report t = Inr (x, t')"
  shows "Inv t' \<and> R t t'"
proof -
  let ?report1 = "if aer_Passed report \<and> auto then report\<lparr>aer_PromotedDecisionID := decision\<rparr> else report"
  obtain rep t1 where first: "RecordAgentEvalReport env s ?report1 t = Inr (rep, t1)"
    using assms(2) unfolding record_evaluation_def Let_def
    by (cases "RecordAgentEvalReport env s ?report1 t") auto
  then have rest: "t' = t1 \<or> (\<exists>state champion. RecordChampionState env s state t1 = Inr (champion, t'))"
    using assms(2) unfolding record_evaluation_def Let_def first sum.case prod.case
    by (cases "aer_Passed rep \<and> auto"; cases "RecordChampionState env s (spec_champion_of_report c rep) t1") auto
  have t1: "Inv t1 \<and> R t t1" by (rule record_report [OF assms(1) first])
  show ?thesis
    using rest
  proof
    assume "\<exists>state champion. RecordChampionState env s state t1 = Inr (champion, t')"
    then have "Inv t' \<and> R t1 t'" using t1 record_champion by blast
    then show ?thesis using t1 transitive [of t t1 t'] by blast
  qed (use t1 in simp)
qed

lemma evaluateCandidate_sound: "stable Q \<Longrightarrow> sound ak Q (evaluateCandidate u ak k s c serving auto)"
  unfolding evaluateCandidate_def split_beta
  by (intro sound_after_reads sound_require sound_then [OF sound_writes] sound_pure) (auto dest: record_evaluation_step)

lemma EvaluateSpecChampion_sound: "sound ak (\<lambda>_. True) (EvaluateSpecChampion u ak s c)"
  unfolding EvaluateSpecChampion_def by (rule evaluateCandidate_sound) simp

text \<open>An adapter read as trained is still out of training at the end of the request.\<close>

lemma sound_read_adapter:
  assumes "\<And>a. sound ak (\<lambda>t. aad_Status a \<in> {AgentAdapterStatusCandidate, AgentAdapterStatusEvaluated} \<longrightarrow>
      Ready (aad_AdapterID a) t) (f a)"
  shows "sound ak (\<lambda>_. True) (and_then (reads ak k (\<lambda>env. ReadAgentAdapter env s orgID i)) f)"
proof (rule sound_and_then)
  show "\<And>a. stable (\<lambda>t. aad_Status a \<in> {AgentAdapterStatusCandidate, AgentAdapterStatusEvaluated} \<longrightarrow>
      Ready (aad_AdapterID a) t)"
    using ready_stable unfolding stable_def by blast
  show "\<And>a. sound ak (\<lambda>t. True \<and> (aad_Status a \<in> {AgentAdapterStatusCandidate, AgentAdapterStatusEvaluated} \<longrightarrow>
      Ready (aad_AdapterID a) t)) (f a)"
    unfolding simp_thms by (rule assms)
qed (auto simp: request_ok intro: ready_read)

lemma sound_weaken: "sound ak Q m \<Longrightarrow> (\<And>t. P t \<Longrightarrow> Q t) \<Longrightarrow> sound ak P m"
  unfolding sound_def by blast

lemma EvaluateAdapterCandidate_sound: "sound ak (\<lambda>_. True) (EvaluateAdapterCandidate u ak s c)"
  unfolding EvaluateAdapterCandidate_def
proof (intro sound_read_adapter sound_require)
  fix a :: agent_adapter
  assume status: "aad_Status a = AgentAdapterStatusCandidate \<or> aad_Status a = AgentAdapterStatusEvaluated"
  let ?rest = "and_then (evaluateCandidate u ak 1 s (adapter_eval_command c a) (aad_ServingModelID a) False)
     (\<lambda>report. and_then (writes ak 5 (\<lambda>env. UpdateAgentAdapterPromotion env s (aad_AdapterID a)
          (if aer_Passed report then AgentAdapterStatusEvaluated else AgentAdapterStatusRejected) False) (\<lambda>_. []))
     (\<lambda>_. returns report))"
  have "sound ak (Ready (aad_AdapterID a)) ?rest"
    by (intro sound_then [OF evaluateCandidate_sound] sound_then [OF sound_writes] sound_pure stable_Ready)
      (erule (2) update_promotion; simp)
  then show "sound ak (\<lambda>t. aad_Status a \<in> {AgentAdapterStatusCandidate, AgentAdapterStatusEvaluated} \<longrightarrow>
      Ready (aad_AdapterID a) t) ?rest"
    by (rule sound_weaken) (use status in auto)
qed

lemma enforceChampionNoRegression_sound: "sound ak Q (enforceChampionNoRegression ak k s a p d)"
  unfolding sound_def
proof (intro impI allI)
  fix st
  assume others: "\<forall>k st. keeps st (ak_between ak k st)"
  have "\<exists>st1. snd (enforceChampionNoRegression ak k s a p d st) = st1 \<and>
      (st1 = ak_between ak k st \<or> st1 = ak_between ak (k + 1) (ak_between ak k st))"
    by (auto simp: enforceChampionNoRegression_def reads_def Let_def split: sum.splits)
  then show "keeps st (snd (enforceChampionNoRegression ak k s a p d st))"
    using others keeps_trans by metis
qed

lemma record_promotion_step:
  assumes "Inv t" "Ready i t" "record_promotion env s i state t = Inr (x, t')"
  shows "Inv t' \<and> R t t'"
proof -
  obtain rep t1 champion where steps: "UpdateAgentAdapterPromotion env s i AgentAdapterStatusPromoted True t = Inr (rep, t1)"
    "RecordChampionState env s state t1 = Inr (champion, t')"
    using assms(3) by (auto simp: record_promotion_def split: sum.splits)
  have t1: "Inv t1 \<and> R t t1" by (rule update_promotion [OF assms(1,2) steps(1)]) simp_all
  then have "Inv t' \<and> R t1 t'" using record_champion [OF _ steps(2)] by blast
  then show ?thesis using t1 transitive [of t t1 t'] by blast
qed

lemma PromoteAgentAdapter_sound: "sound ak (\<lambda>_. True) (PromoteAgentAdapter u ak s c)"
  unfolding PromoteAgentAdapter_def split_beta
proof (intro sound_read_adapter sound_require)
  fix a :: agent_adapter
  assume status: "aad_Status a = AgentAdapterStatusEvaluated"
  let ?rest = "and_then (reads ak 1 (\<lambda>env. ReadAgentEvalReport env s (paa_OrgID c) (paa_ReportID c)))
     (\<lambda>report. and_then (require (agentAdapterCompatibleWithReport a report)
        (agent_Extend CodePromotionFailed ''adapter and eval report tuples are incompatible''))
     (\<lambda>_. and_then (require (aer_Passed report)
        (agent_Extend CodePromotionFailed ''adapter eval report did not pass''))
     (\<lambda>_. and_then (enforceChampionNoRegression ak 2 s a report (paa_MinDelta c))
     (\<lambda>_. and_then (reads ak 4 (\<lambda>env. ListEndpointBindings env s (paa_OrgID c) (paa_AgentLineage c)))
     (\<lambda>bindings. and_then (writes ak 5
          (\<lambda>env. record_promotion env s (aad_AdapterID a) (champion_of_adapter ak c a))
          (\<lambda>x. champion_messages u bindings (snd x)))
     (\<lambda>x. returns (fst x)))))))"
  have "sound ak (Ready (aad_AdapterID a)) ?rest"
    by (intro sound_after_reads sound_require sound_then [OF enforceChampionNoRegression_sound]
        sound_then [OF sound_writes] sound_pure stable_Ready) (erule (2) record_promotion_step)
  then show "sound ak (\<lambda>t. aad_Status a \<in> {AgentAdapterStatusCandidate, AgentAdapterStatusEvaluated} \<longrightarrow>
      Ready (aad_AdapterID a) t) ?rest"
    by (rule sound_weaken) (use status in auto)
qed

lemmas use_cases_sound =
  RegisterAgentSpecVersion_sound RegisterEndpointBinding_sound PromoteSpecChampion_sound ImportGoldenTasks_sound
  LabelAgentRun_sound BuildTrajectoryDataset_sound DispatchAgentAdapterTraining_sound
  RecordAgentAdapterTrainingCompleted_sound RecordAgentAdapterTrainingFailed_sound EvaluateSpecChampion_sound
  EvaluateAdapterCandidate_sound PromoteAgentAdapter_sound

end

section \<open>All requests\<close>

datatype agent_request =
  RegisterSpec register_spec_command
| BindEndpoint register_binding_command
| PromoteSpec promote_spec_command
| ImportTasks import_golden_command
| LabelRun label_run_command
| BuildDataset build_dataset_command
| DispatchTraining dispatch_training_command
| TrainingCompleted adapter_training_completion
| TrainingFailed adapter_training_failure
| EvaluateAdapter evaluate_adapter_command
| PromoteAdapter promote_adapter_command
| EvaluateSpec evaluate_spec_command

text \<open>The state a request leaves, whether it succeeds or not.\<close>

fun serve :: "agent_registry \<Rightarrow> agent_call \<Rightarrow> session \<Rightarrow> agent_request \<Rightarrow> agent_state \<Rightarrow> agent_state" where
  "serve u ak s (RegisterSpec c) st = snd (RegisterAgentSpecVersion u ak s c st)"
| "serve u ak s (BindEndpoint c) st = snd (RegisterEndpointBinding u ak s c st)"
| "serve u ak s (PromoteSpec c) st = snd (PromoteSpecChampion u ak s c st)"
| "serve u ak s (ImportTasks c) st = snd (ImportGoldenTasks u ak s c st)"
| "serve u ak s (LabelRun c) st = snd (LabelAgentRun u ak s c st)"
| "serve u ak s (BuildDataset c) st = snd (BuildTrajectoryDataset u ak s c st)"
| "serve u ak s (DispatchTraining c) st = snd (DispatchAgentAdapterTraining u ak s c st)"
| "serve u ak s (TrainingCompleted c) st = snd (RecordAgentAdapterTrainingCompleted ak s c st)"
| "serve u ak s (TrainingFailed c) st = snd (RecordAgentAdapterTrainingFailed ak s c st)"
| "serve u ak s (EvaluateAdapter c) st = snd (EvaluateAdapterCandidate u ak s c st)"
| "serve u ak s (PromoteAdapter c) st = snd (PromoteAgentAdapter u ak s c st)"
| "serve u ak s (EvaluateSpec c) st = snd (EvaluateSpecChampion u ak s c st)"

context registry_guarantee begin

lemma serve_safe:
  assumes "\<forall>k st. keeps st (ak_between ak k st)"
  shows "keeps st (serve u ak s req st)"
proof -
  have run: "keeps st (snd (m st))" if "sound ak (\<lambda>_. True) m" for m :: "'x request"
    using that assms unfolding sound_def by blast
  show ?thesis
    by (cases req) (simp_all only: serve.simps, (rule run, rule use_cases_sound)+)
qed

end

end
