(* ===== verification/AgentRegistryProperties.thy ===== *)
theory AgentRegistryProperties
  imports AgentRegistryGuarantees
begin

text \<open>
  What the agent registry guarantees, whatever other requests do between the accesses of a
  request: golden tasks do not leak between splits, adapters go through their life in one
  direction and keep their provenance, training data holds no prompt of the holdout, a
  champion changes only after a passed evaluation and every bound endpoint is told.
\<close>

section \<open>Golden tasks\<close>

definition leak_free :: "agent_tables \<Rightarrow> bool" where
  "leak_free t \<longleftrightarrow> (\<forall>a \<in> set (agt_tasks t). \<forall>b \<in> set (agt_tasks t). \<not> leaks_into a b)"

lemma leaks_into_sym: "leaks_into a b \<longleftrightarrow> leaks_into b a"
  unfolding leaks_into_def by metis

lemma leaks_into_cong:
  "leaks_into (a\<lparr>gt_TaskID := i, gt_CreatedAt := n\<rparr>) b = leaks_into a b"
  "leaks_into b (a\<lparr>gt_TaskID := i, gt_CreatedAt := n\<rparr>) = leaks_into b a"
  by (simp_all add: leaks_into_def)

lemma CreateGoldenTask_ok:
  assumes "CreateGoldenTask env s task t = Inr (r, t')"
  obtains row where "row = task\<lparr>gt_TaskID := sv_uuid env (agt_drawn t), gt_CreatedAt := sv_now env\<rparr>"
    "agt_tasks t' = agt_tasks t @ [row]" "agt_adapters t' = agt_adapters t" "org_visible s (gt_OrgID task)"
    "golden_task_checks row"
  using assms that [OF refl] by (auto simp: CreateGoldenTask_def statement_ok Let_def split: if_splits sum.splits)

text \<open>No conflict was found: no task of another split that the session sees overlaps.\<close>

lemma FindGoldenTaskLeakConflicts_none:
  assumes "FindGoldenTaskLeakConflicts env s task t = Inr []"
  shows "\<forall>r \<in> set (agt_tasks t). org_visible s (gt_OrgID r) \<longrightarrow> \<not> leaks_into task r"
proof -
  have "scan_all conflict_of (take 10 (sort_key gt_CreatedAt
      (filter (\<lambda>r. org_visible s (gt_OrgID r) \<and> leaks_into task r) (agt_tasks t)))) = Inr []"
    using assms by (auto simp: FindGoldenTaskLeakConflicts_def statement_ok split: if_splits)
  from scan_all_length [OF this] have "filter (\<lambda>r. org_visible s (gt_OrgID r) \<and> leaks_into task r) (agt_tasks t) = []"
    by (simp add: min_def split: if_splits)
  then show ?thesis by (simp add: filter_empty_conv)
qed

lemma import_golden_task_ok:
  assumes "import_golden_task env s task t = Inr (r, t')"
  shows "FindGoldenTaskLeakConflicts env s task t = Inr []" "CreateGoldenTask env s task t = Inr (r, t')"
  using assms by (auto simp: import_golden_task_def split: sum.splits list.splits)

lemma import_keeps_leak_free:
  assumes "leak_free t" "import_golden_task env s task t = Inr (r, t')"
  shows "leak_free t'"
proof -
  note ok = import_golden_task_ok [OF assms(2)]
  obtain row where row: "row = task\<lparr>gt_TaskID := sv_uuid env (agt_drawn t), gt_CreatedAt := sv_now env\<rparr>"
    and tasks: "agt_tasks t' = agt_tasks t @ [row]" and visible: "org_visible s (gt_OrgID task)"
    using CreateGoldenTask_ok [OF ok(2)] by metis
  have old: "\<not> leaks_into task q" if "q \<in> set (agt_tasks t)" for q
  proof
    assume "leaks_into task q"
    moreover from this have "gt_OrgID q = gt_OrgID task" by (simp add: leaks_into_def)
    ultimately show False using FindGoldenTaskLeakConflicts_none [OF ok(1)] that visible by simp
  qed
  have "\<not> leaks_into row q \<and> \<not> leaks_into q row" if "q \<in> set (agt_tasks t)" for q
    using old [OF that] leaks_into_sym unfolding row leaks_into_cong by blast
  moreover have "\<not> leaks_into row row" by (simp add: leaks_into_def)
  ultimately show ?thesis using assms(1) by (auto simp: leak_free_def tasks)
qed

lemma leak_free_same: "agt_tasks t' = agt_tasks t \<Longrightarrow> leak_free t \<Longrightarrow> leak_free t' \<and> True"
  by (simp add: leak_free_def)

lemma update_adapters_tasks:
  "update_adapters env s p f t = Inr (r, t') \<Longrightarrow> agt_tasks t' = agt_tasks t \<and> agt_champions t' = agt_champions t"
  by (auto elim!: update_adapters_ok)

lemma adapter_statement_ok:
  "CompleteAgentAdapterTraining env s tc t = Inr x \<Longrightarrow> update_adapters env s
     (in_training (atc_OrgID tc) (atc_TrainingRunID tc))
     (\<lambda>r. r\<lparr>aad_ServingModelID := atc_ServingModelID tc, aad_AdapterURI := atc_AdapterURI tc,
        aad_AdapterChecksum := atc_AdapterChecksum tc, aad_TrainingProvider := atc_TrainingProvider tc,
        aad_Status := AgentAdapterStatusCandidate\<rparr>) t = Inr x"
  "FailAgentAdapterTraining env s tf t = Inr x \<Longrightarrow> update_adapters env s
     (in_training (atf_OrgID tf) (atf_TrainingRunID tf)) (\<lambda>r. r\<lparr>aad_Status := AgentAdapterStatusFailed\<rparr>) t = Inr x"
  "UpdateAgentAdapterPromotion env s i status passed t = Inr x \<Longrightarrow> update_adapters env s
     (\<lambda>r. aad_AdapterID r = i) (\<lambda>r. r\<lparr>aad_Status := status, aad_PromotionPassed := passed\<rparr>) t = Inr x"
  by (auto simp: CompleteAgentAdapterTraining_def FailAgentAdapterTraining_def UpdateAgentAdapterPromotion_def
      statement_ok or_not_found_def split: sum.splits)

lemma RecordAgentAdapter_ok:
  assumes "RecordAgentAdapter env s a t = Inr (r, t')"
  obtains row where "row = a\<lparr>aad_AdapterID := sv_uuid env (agt_drawn t), aad_CreatedAt := sv_now env, aad_UpdatedAt := sv_now env\<rparr>"
    "agt_adapters t' = agt_adapters t @ [row]" "adapter_checks row" "aad_AdapterID row \<notin> aad_AdapterID ` set (agt_adapters t)"
    "agt_tasks t' = agt_tasks t" "agt_champions t' = agt_champions t"
  using assms that [OF refl] by (auto simp: RecordAgentAdapter_def statement_ok Let_def split: if_splits sum.splits)

lemma RecordAgentAdapter_tasks: "RecordAgentAdapter env s a t = Inr (r, t') \<Longrightarrow> agt_tasks t' = agt_tasks t"
  by (auto elim: RecordAgentAdapter_ok)

text \<open>The statements that leave the golden tasks alone, and those that leave the adapters alone.\<close>

lemmas tasks_kept =
  EnsureLineage_frame [THEN conjunct1] UpsertAgentSpecVersion_frame [THEN conjunct1]
  UpsertEndpointBinding_frame [THEN conjunct1] RecordChampionState_frame [THEN conjunct1]
  RecordAgentRunLabel_frame [THEN conjunct1] RecordTrajectoryDataset_frame [THEN conjunct1]
  RecordAgentEvalReport_frame [THEN conjunct1] RecordAgentAdapter_tasks
  adapter_statement_ok(1) [THEN update_adapters_tasks, THEN conjunct1]
  adapter_statement_ok(2) [THEN update_adapters_tasks, THEN conjunct1]
  adapter_statement_ok(3) [THEN update_adapters_tasks, THEN conjunct1]

lemmas adapters_kept =
  EnsureLineage_frame [THEN conjunct2, THEN conjunct1] UpsertAgentSpecVersion_frame [THEN conjunct2, THEN conjunct1]
  UpsertEndpointBinding_frame [THEN conjunct2, THEN conjunct1] RecordChampionState_frame [THEN conjunct2]
  RecordAgentRunLabel_frame [THEN conjunct2, THEN conjunct1] RecordTrajectoryDataset_frame [THEN conjunct2, THEN conjunct1]
  RecordAgentEvalReport_frame [THEN conjunct2, THEN conjunct1]
  import_golden_task_ok(2) [THEN CreateGoldenTask_frame, THEN conjunct1]

interpretation golden: registry_guarantee leak_free "\<lambda>_ _. True" "\<lambda>_ _. True"
  by unfold_locales
    ((rule TrueI)+ | (erule (1) import_keeps_leak_free [THEN conjI [OF _ TrueI]]) | (rule leak_free_same, erule tasks_kept, assumption))+


section \<open>Adapters\<close>

definition is_trained :: "agent_adapter \<Rightarrow> bool" where
  "is_trained a \<longleftrightarrow> aad_Status a \<notin> {AgentAdapterStatusUnknown, AgentAdapterStatusTraining, AgentAdapterStatusFailed}"

text \<open>What no statement changes.\<close>

definition provenance :: "agent_adapter \<Rightarrow> agent_adapter" where
  "provenance a = a\<lparr>aad_ServingModelID := uuid_nil, aad_AdapterURI := [], aad_AdapterChecksum := [],
     aad_TrainingProvider := [], aad_Status := AgentAdapterStatusUnknown, aad_PromotionPassed := False, aad_UpdatedAt := 0\<rparr>"

definition artifact :: "agent_adapter \<Rightarrow> uuid \<times> string \<times> string \<times> string" where
  "artifact a = (aad_ServingModelID a, aad_AdapterURI a, aad_AdapterChecksum a, aad_TrainingProvider a)"

definition adapter_later :: "agent_adapter \<Rightarrow> agent_adapter \<Rightarrow> bool" where
  "adapter_later a b \<longleftrightarrow> provenance b = provenance a \<and>
     (aad_Status a = AgentAdapterStatusFailed \<longrightarrow> aad_Status b = AgentAdapterStatusFailed) \<and>
     (is_trained a \<longrightarrow> is_trained b \<and> artifact b = artifact a)"

definition adapter_history :: "agent_tables \<Rightarrow> agent_tables \<Rightarrow> bool" where
  "adapter_history t t' \<longleftrightarrow> (\<exists>olds news. agt_adapters t' = olds @ news \<and>
     list_all2 adapter_later (agt_adapters t) olds \<and>
     (\<forall>a \<in> set news. aad_AdapterID a \<notin> aad_AdapterID ` set (agt_adapters t)))"

definition adapters_ok :: "agent_tables \<Rightarrow> bool" where
  "adapters_ok t \<longleftrightarrow> distinct (map aad_AdapterID (agt_adapters t)) \<and>
     (\<forall>a \<in> set (agt_adapters t). adapter_checks a \<and>
        (aad_PromotionPassed a \<longleftrightarrow> aad_Status a = AgentAdapterStatusPromoted))"

definition out_of_training :: "uuid \<Rightarrow> agent_tables \<Rightarrow> bool" where
  "out_of_training i t \<longleftrightarrow> i \<in> aad_AdapterID ` set (agt_adapters t) \<and>
     (\<forall>a \<in> set (agt_adapters t). aad_AdapterID a = i \<longrightarrow> is_trained a)"

lemma provenance_id: "provenance b = provenance a \<Longrightarrow> aad_AdapterID b = aad_AdapterID a"
  by (drule arg_cong [where f = aad_AdapterID]) (simp add: provenance_def)

lemma adapter_later_refl [simp]: "adapter_later a a"
  by (simp add: adapter_later_def)

lemma adapter_later_trans: "adapter_later a b \<Longrightarrow> adapter_later b c \<Longrightarrow> adapter_later a c"
  by (auto simp: adapter_later_def)

lemma later_ids: "list_all2 adapter_later as bs \<Longrightarrow> map aad_AdapterID bs = map aad_AdapterID as"
  by (induction rule: list_all2_induct) (auto simp: adapter_later_def dest: provenance_id)

lemma adapter_history_same: "agt_adapters t' = agt_adapters t \<Longrightarrow> adapter_history t t'"
  unfolding adapter_history_def by (rule exI [of _ "agt_adapters t"]) (auto intro: list_all2_refl)

lemma fresh_iff: "(\<forall>a \<in> A. f a \<notin> f ` B) \<longleftrightarrow> f ` A \<inter> f ` B = {}"
  by fast

lemma adapter_history_trans:
  assumes "adapter_history t1 t2" "adapter_history t2 t3"
  shows "adapter_history t1 t3"
proof -
  obtain o1 n1 o2 n2 where 1: "agt_adapters t2 = o1 @ n1" "list_all2 adapter_later (agt_adapters t1) o1"
      "\<forall>a \<in> set n1. aad_AdapterID a \<notin> aad_AdapterID ` set (agt_adapters t1)"
    and 2: "agt_adapters t3 = o2 @ n2" "list_all2 adapter_later (o1 @ n1) o2"
      "\<forall>a \<in> set n2. aad_AdapterID a \<notin> aad_AdapterID ` set (o1 @ n1)"
    using assms unfolding adapter_history_def by metis
  obtain p q where pq: "o2 = p @ q" "list_all2 adapter_later o1 p" "list_all2 adapter_later n1 q"
    using 2(2) by (auto simp: list_all2_append1)
  have "list_all2 adapter_later (agt_adapters t1) p"
    using list_all2_trans [OF adapter_later_trans 1(2) pq(2)] .
  moreover have "\<forall>a \<in> set (q @ n2). aad_AdapterID a \<notin> aad_AdapterID ` set (agt_adapters t1)"
  proof -
    have q: "aad_AdapterID ` set q = aad_AdapterID ` set n1" using later_ids [OF pq(3)] by (metis set_map)
    have old: "aad_AdapterID ` set (agt_adapters t1) = aad_AdapterID ` set o1" using later_ids [OF 1(2)] by (metis set_map)
    have "aad_AdapterID ` set n1 \<inter> aad_AdapterID ` set o1 = {}"
      using 1(3) unfolding old fresh_iff .
    moreover have "aad_AdapterID ` set n2 \<inter> aad_AdapterID ` set o1 = {}"
      using 2(3) unfolding set_append image_Un by (simp only: fresh_iff [symmetric] Un_iff de_Morgan_disj) blast
    ultimately have "aad_AdapterID ` set (q @ n2) \<inter> aad_AdapterID ` set (agt_adapters t1) = {}"
      unfolding set_append image_Un q old by (simp only: Int_Un_distrib2 Un_empty)
    then show ?thesis unfolding fresh_iff .
  qed
  ultimately show ?thesis unfolding adapter_history_def 2(1) pq(1) by (intro exI [of _ p] exI [of _ "q @ n2"]) simp
qed

lemma out_of_training_stable:
  assumes "out_of_training i t" "adapter_history t t'"
  shows "out_of_training i t'"
proof -
  obtain olds news where h: "agt_adapters t' = olds @ news" "list_all2 adapter_later (agt_adapters t) olds"
    "\<forall>a \<in> set news. aad_AdapterID a \<notin> aad_AdapterID ` set (agt_adapters t)"
    using assms(2) unfolding adapter_history_def by metis
  have ids: "aad_AdapterID ` set olds = aad_AdapterID ` set (agt_adapters t)"
    using later_ids [OF h(2)] by (metis set_map)
  have "is_trained b" if "b \<in> set olds" "aad_AdapterID b = i" for b
  proof -
    obtain a where a: "a \<in> set (agt_adapters t)" "adapter_later a b"
      using h(2) \<open>b \<in> set olds\<close> by (metis in_set_conv_nth list_all2_conv_all_nth)
    then have "aad_AdapterID a = i" using provenance_id that(2) unfolding adapter_later_def by metis
    then have "is_trained a" using assms(1) a(1) unfolding out_of_training_def by blast
    then show ?thesis using a(2) unfolding adapter_later_def by blast
  qed
  then show ?thesis using assms(1) h(3) ids unfolding out_of_training_def h(1) by auto
qed

text \<open>An update of adapters is a step of the history when it is one for each row it changes.\<close>

lemma update_step:
  assumes ok: "adapters_ok t" and run: "update_adapters env s p f t = Inr (r, t')"
    and row: "\<And>a. a \<in> set (agt_adapters t) \<Longrightarrow> p a \<Longrightarrow> adapter_later a ((f a)\<lparr>aad_UpdatedAt := n\<rparr>) \<and>
      (aad_PromotionPassed (f a) \<longleftrightarrow> aad_Status (f a) = AgentAdapterStatusPromoted)"
  shows "adapters_ok t' \<and> adapter_history t t'"
  using run
proof (rule update_adapters_ok)
  fix g q
  assume t': "t' = t\<lparr>agt_adapters := update_where q g (agt_adapters t)\<rparr>"
    and g: "g = (\<lambda>a. (f a)\<lparr>aad_UpdatedAt := sv_now env\<rparr>)" and q: "q = (\<lambda>a. p a \<and> org_visible s (aad_OrgID a))"
    and checks: "\<forall>a \<in> set (agt_adapters t). q a \<longrightarrow> adapter_checks (g a)"
  have later: "adapter_later a (g a)" "aad_PromotionPassed (g a) \<longleftrightarrow> aad_Status (g a) = AgentAdapterStatusPromoted"
    if "a \<in> set (agt_adapters t)" "q a" for a
    using row [OF that(1)] that(2) unfolding g q by (auto simp: adapter_later_def provenance_def artifact_def is_trained_def)
  have all: "list_all2 adapter_later (agt_adapters t) (agt_adapters t')"
    unfolding t' update_where_def by (auto simp: list_all2_conv_all_nth later)
  then have "map aad_AdapterID (agt_adapters t') = map aad_AdapterID (agt_adapters t)" by (rule later_ids)
  moreover have "adapter_checks a \<and> (aad_PromotionPassed a \<longleftrightarrow> aad_Status a = AgentAdapterStatusPromoted)"
    if "a \<in> set (agt_adapters t')" for a
    using that ok checks later(2) unfolding t' adapters_ok_def by (auto simp: set_update_where)
  ultimately have "adapters_ok t'" using ok by (simp add: adapters_ok_def)
  moreover have "adapter_history t t'" unfolding adapter_history_def
    by (rule exI [of _ "agt_adapters t'"]) (simp add: all)
  ultimately show ?thesis by simp
qed

lemma adapters_ok_same: "agt_adapters t' = agt_adapters t \<Longrightarrow> adapters_ok t \<Longrightarrow> adapters_ok t' \<and> adapter_history t t'"
  by (simp add: adapter_history_same) (simp add: adapters_ok_def)

lemma record_adapter_step:
  assumes "adapters_ok t" "RecordAgentAdapter env s a t = Inr (r, t')" "\<not> aad_PromotionPassed a"
    "aad_Status a \<noteq> AgentAdapterStatusPromoted"
  shows "adapters_ok t' \<and> adapter_history t t'"
  using assms(2)
proof (rule RecordAgentAdapter_ok)
  fix row
  assume row: "row = a\<lparr>aad_AdapterID := sv_uuid env (agt_drawn t), aad_CreatedAt := sv_now env, aad_UpdatedAt := sv_now env\<rparr>"
    and t': "agt_adapters t' = agt_adapters t @ [row]" and new: "aad_AdapterID row \<notin> aad_AdapterID ` set (agt_adapters t)"
    and checks: "adapter_checks row"
  have "\<not> aad_PromotionPassed row" "aad_Status row \<noteq> AgentAdapterStatusPromoted" using assms(3,4) by (simp_all add: row)
  then have "adapters_ok t'" using assms(1) new checks unfolding adapters_ok_def t' by auto
  moreover have "adapter_history t t'" unfolding adapter_history_def t'
    by (intro exI [of _ "agt_adapters t"] exI [of _ "[row]"]) (auto simp: new intro: list_all2_refl)
  ultimately show ?thesis ..
qed

lemma read_out_of_training:
  assumes "adapters_ok t" "ReadAgentAdapter env s org i t = Inr a"
    "aad_Status a \<in> {AgentAdapterStatusCandidate, AgentAdapterStatusEvaluated}"
  shows "out_of_training (aad_AdapterID a) t"
proof -
  obtain r where "r \<in> set (agt_adapters t)" "scanAgentAdapter r = Inr a"
    using assms(2) by (auto simp: ReadAgentAdapter_def statement_ok split: option.splits dest!: find_SomeD)
  then have a: "a \<in> set (agt_adapters t)" using scan_adapter_ok by metis
  have unique: "b = a" if "b \<in> set (agt_adapters t)" "aad_AdapterID b = aad_AdapterID a" for b
    using assms(1) a that by (auto simp: adapters_ok_def distinct_map dest: inj_onD)
  have "is_trained a" using assms(3) by (auto simp: is_trained_def)
  then show ?thesis unfolding out_of_training_def using a unique by blast
qed

lemma promotion_step:
  assumes "adapters_ok t" "out_of_training i t" "UpdateAgentAdapterPromotion env s i status passed t = Inr (a, t')"
    "status \<in> {AgentAdapterStatusEvaluated, AgentAdapterStatusRejected, AgentAdapterStatusPromoted}"
    "passed = (status = AgentAdapterStatusPromoted)"
  shows "adapters_ok t' \<and> adapter_history t t'"
  by (rule update_step [OF assms(1) adapter_statement_ok(3) [OF assms(3)], where n = 0])
    (use assms(2,4,5) in \<open>auto simp: adapter_later_def provenance_def artifact_def is_trained_def out_of_training_def\<close>)

lemma training_step:
  "adapters_ok t \<Longrightarrow> CompleteAgentAdapterTraining env s tc t = Inr (a, t') \<Longrightarrow> adapters_ok t' \<and> adapter_history t t'"
  "adapters_ok t \<Longrightarrow> FailAgentAdapterTraining env s tf t = Inr (a, t') \<Longrightarrow> adapters_ok t' \<and> adapter_history t t'"
proof -
  assume ok: "adapters_ok t"
  have flag: "\<not> aad_PromotionPassed b" if "b \<in> set (agt_adapters t)" "in_training org run b" for b org run
    using ok that by (simp add: adapters_ok_def in_training_def)
  show "adapters_ok t' \<and> adapter_history t t'" if "CompleteAgentAdapterTraining env s tc t = Inr (a, t')"
    by (rule update_step [OF ok adapter_statement_ok(1) [OF that], where n = 0])
      (use flag in \<open>simp add: adapter_later_def provenance_def is_trained_def in_training_def\<close>)
  show "adapters_ok t' \<and> adapter_history t t'" if "FailAgentAdapterTraining env s tf t = Inr (a, t')"
    by (rule update_step [OF ok adapter_statement_ok(2) [OF that], where n = 0])
      (use flag in \<open>simp add: adapter_later_def provenance_def is_trained_def in_training_def\<close>)
qed

interpretation adapters: registry_guarantee adapters_ok adapter_history out_of_training
proof unfold_locales
  show "adapter_history t t" for t by (simp add: adapter_history_same)
  show "adapter_history t1 t3" if "adapter_history t1 t2" "adapter_history t2 t3" for t1 t2 t3
    using that by (rule adapter_history_trans)
  show "out_of_training i t'" if "adapters_ok t" "out_of_training i t" "adapter_history t t'" for t t' i
    using that(2,3) by (rule out_of_training_stable)
qed ((erule (2) read_out_of_training) | (erule (3) record_adapter_step) | (erule (4) promotion_step) | (erule (1) training_step)
    | (rule adapters_ok_same, erule adapters_kept, assumption))+

text \<open>C9. An adapter lives in one direction: whatever request runs, and whatever requests of the same
  kind commit between its accesses, no adapter disappears or changes its lineage, its dataset, its
  training run or what it was trained against; training ends once, a failed adapter stays failed, a
  trained one keeps its artifact; and the promotion flag is set exactly on the promoted adapters.\<close>

theorem adapter_lifecycle:
  assumes "adapters_ok (gs_tables st)"
    and "\<forall>k st. follows adapters_ok adapter_history (gs_tables st) (gs_tables (ak_between ak k st))"
  shows "adapters_ok (gs_tables (serve u ak s req st)) \<and>
    adapter_history (gs_tables st) (gs_tables (serve u ak s req st))"
  using adapters.serve_safe [of ak st u s req] assms by (simp add: follows_def)

end
