(* ===== verification/AgentRegistryPromotion.thy ===== *)
theory AgentRegistryPromotion
  imports AgentRegistryGuarantees
begin

text \<open>
  How an agent becomes the champion of its lineage, and what its training data may hold. A
  promotion rests on what the request read: each theorem names the states in which it read
  and the state in which its transaction ran.
\<close>

section \<open>The champion row\<close>

lemma find_update_where:
  assumes "find p xs = Some x" "\<And>y. p y \<Longrightarrow> p (f y)"
  shows "find p (update_where p f xs) = Some (f x)"
  using assms by (induction xs) (auto simp: update_where_def split: if_splits)

lemma filter_update_where:
  "(\<And>y. p y \<Longrightarrow> p (f y)) \<Longrightarrow> filter (\<lambda>y. \<not> p y) (update_where p f xs) = filter (\<lambda>y. \<not> p y) xs"
  by (induction xs) (auto simp: update_where_def)

lemma find_append_new: "find p xs = None \<Longrightarrow> p x \<Longrightarrow> find p (xs @ [x]) = Some x"
  by (induction xs) (auto split: if_splits)

text \<open>The row of the lineage is the new decision, the rows of other lineages stay.\<close>

lemma RecordChampionState_ok:
  assumes "RecordChampionState env s state t = Inr (row, t')"
  shows "find (same_champion (acs_OrgID state) (acs_AgentLineage state)) (agt_champions t') = Some row"
    and "row\<lparr>acs_PreviousAgentSpecHash := []\<rparr> = state\<lparr>acs_PreviousAgentSpecHash := []\<rparr>"
    and "filter (\<lambda>r. \<not> same_champion (acs_OrgID state) (acs_AgentLineage state) r) (agt_champions t') =
      filter (\<lambda>r. \<not> same_champion (acs_OrgID state) (acs_AgentLineage state) r) (agt_champions t)"
proof -
  let ?same = "same_champion (acs_OrgID state) (acs_AgentLineage state)"
  let ?replace = "\<lambda>r. state\<lparr>acs_PreviousAgentSpecHash := acs_ChampionAgentSpecHash r\<rparr>"
  have same: "?same (?replace r)" "?same (state\<lparr>acs_PreviousAgentSpecHash := x\<rparr>)" for r x
    by (simp_all add: same_champion_def)
  consider (new) "find ?same (agt_champions t) = None" "row = state\<lparr>acs_PreviousAgentSpecHash := []\<rparr>"
      "agt_champions t' = agt_champions t @ [row]"
    | (old) r where "find ?same (agt_champions t) = Some r" "row = ?replace r"
      "agt_champions t' = update_where ?same ?replace (agt_champions t)"
    using assms by (auto simp: RecordChampionState_def statement_ok Let_def split: if_splits option.splits)
  then show "find ?same (agt_champions t') = Some row"
    and "row\<lparr>acs_PreviousAgentSpecHash := []\<rparr> = state\<lparr>acs_PreviousAgentSpecHash := []\<rparr>"
    and "filter (\<lambda>r. \<not> ?same r) (agt_champions t') = filter (\<lambda>r. \<not> ?same r) (agt_champions t)"
    by (cases; simp add: find_append_new find_update_where filter_update_where same)+
qed

text \<open>What the row says apart from the specification it remembers.\<close>

lemma champion_fields:
  assumes "row\<lparr>acs_PreviousAgentSpecHash := []\<rparr> = state\<lparr>acs_PreviousAgentSpecHash := []\<rparr>"
  shows "acs_OrgID row = acs_OrgID state" "acs_AgentLineage row = acs_AgentLineage state"
    "acs_ChampionAgentSpecHash row = acs_ChampionAgentSpecHash state"
    "acs_ChampionAdapterID row = acs_ChampionAdapterID state" "acs_ServingModelID row = acs_ServingModelID state"
    "acs_DecisionID row = acs_DecisionID state" "acs_DecidedBy row = acs_DecidedBy state"
    "acs_DecidedAt row = acs_DecidedAt state"
  using assms by (cases row; cases state; simp)+

definition champion_told :: "agent_registry \<Rightarrow> agent_endpoint_binding list \<Rightarrow> uuid \<Rightarrow> agent_state \<Rightarrow> bool" where
  "champion_told u bindings decision st \<longleftrightarrow> (\<forall>b \<in> set bindings.
     TrimSpace (champion_dispatch_key (arg_builder u) (aeb_EndpointID b) decision) \<in> outbox_keys (gs_outbox st))"

lemma champion_messages_told:
  assumes "\<forall>m \<in> set (champion_messages u bindings row). TrimSpace (om_DispatchKey m) \<in> outbox_keys (gs_outbox st)"
  shows "champion_told u bindings (acs_DecisionID row) st"
  using assms by (simp add: champion_told_def champion_messages_def AgentChampionUpdatedMessage_def)

section \<open>Promoting a specification\<close>

text \<open>The champion row of a lineage.\<close>

definition champion_row :: "uuid \<Rightarrow> string \<Rightarrow> agent_tables \<Rightarrow> agent_champion_state option" where
  "champion_row org lineage t = find (same_champion org lineage) (agt_champions t)"

lemma spec_promotion:
  assumes "PromoteSpecChampion u ak s c st = (Inr row, st')"
  shows "champion_row (psc_OrgID c) (psc_AgentLineage c) (gs_tables st') = Some row"
    and "acs_ChampionAgentSpecHash row = psc_AgentSpecHash c" "acs_ChampionAdapterID row = uuid_nil"
    and "\<exists>bindings st1. ListEndpointBindings (ak_stmt ak 1) s (psc_OrgID c) (psc_AgentLineage c) (gs_tables st1) = Inr bindings \<and>
      champion_told u bindings (acs_DecisionID row) st'"
proof -
  let ?state = "agentChampionStateFromCommand ak c"
  have state: "acs_OrgID ?state = psc_OrgID c" "acs_AgentLineage ?state = psc_AgentLineage c"
    "acs_ChampionAgentSpecHash ?state = psc_AgentSpecHash c" "acs_ChampionAdapterID ?state = uuid_nil"
    by (simp_all add: agentChampionStateFromCommand_def)
  from assms obtain st1 bindings where
    bindings: "ListEndpointBindings (ak_stmt ak 1) s (psc_OrgID c) (psc_AgentLineage c) (gs_tables st1) = Inr bindings"
    and w: "writes ak 2 (\<lambda>env. RecordChampionState env s ?state) (champion_messages u bindings) st1 = (Inr row, st')"
    unfolding PromoteSpecChampion_def request_ok by (elim exE conjE) (rule that, simp_all)
  note row = RecordChampionState_ok [OF writes_ok(1) [OF w], unfolded state]
  note fields = champion_fields [OF row(2), unfolded state]
  show "champion_row (psc_OrgID c) (psc_AgentLineage c) (gs_tables st') = Some row"
    unfolding champion_row_def by (rule row(1))
  show "acs_ChampionAgentSpecHash row = psc_AgentSpecHash c" "acs_ChampionAdapterID row = uuid_nil"
    by (rule fields(3), rule fields(4))
  show "\<exists>bindings st1. ListEndpointBindings (ak_stmt ak 1) s (psc_OrgID c) (psc_AgentLineage c) (gs_tables st1) = Inr bindings \<and>
      champion_told u bindings (acs_DecisionID row) st'"
    using bindings champion_messages_told [OF writes_ok(2) [OF w]] by blast
qed

section \<open>Promoting an adapter\<close>

text \<open>What \<open>enforceChampionNoRegression\<close> has seen when it lets a candidate pass.\<close>

definition champion_not_better ::
  "agent_call \<Rightarrow> nat \<Rightarrow> session \<Rightarrow> agent_adapter \<Rightarrow> agent_eval_report \<Rightarrow> f64 \<Rightarrow> agent_state \<Rightarrow> bool" where
  "champion_not_better ak k s a report delta st \<longleftrightarrow>
     (let st1 = ak_between ak k st; st2 = ak_between ak (k + 1) st1
      in case ReadChampionState (ak_stmt ak k) s (aad_OrgID a) (aad_AgentLineage a) (gs_tables st1) of
        Inl e \<Rightarrow> agent_Is e CodeChampionNotFound
      | Inr champion \<Rightarrow> acs_ChampionAdapterID champion = uuid_nil \<or>
          (case ReadLatestEvalReportForAdapter (ak_stmt ak (k + 1)) s (aad_OrgID a) (acs_ChampionAdapterID champion) (gs_tables st2) of
             Inl e \<Rightarrow> agent_Is e CodeEvalFailed | Inr old \<Rightarrow> \<not> regresses report delta old))"

lemma enforceChampionNoRegression_ok:
  assumes "enforceChampionNoRegression ak k s a report delta st = (Inr x, st')"
  shows "champion_not_better ak k s a report delta st"
  using assms by (auto simp: enforceChampionNoRegression_def champion_not_better_def reads_def Let_def
      split: sum.splits if_splits)

lemma UpdateAgentAdapterPromotion_ok:
  assumes "UpdateAgentAdapterPromotion env s i status passed t = Inr (a, t')"
  shows "a \<in> set (agt_adapters t')" "aad_AdapterID a = i" "aad_Status a = status" "aad_PromotionPassed a = passed"
    "agt_champions t' = agt_champions t"
proof -
  have "update_adapters env s (\<lambda>r. aad_AdapterID r = i)
      (\<lambda>r. r\<lparr>aad_Status := status, aad_PromotionPassed := passed\<rparr>) t = Inr (a, t')"
    using assms by (simp add: UpdateAgentAdapterPromotion_def statement_ok)
  then show "a \<in> set (agt_adapters t')" "aad_AdapterID a = i" "aad_Status a = status" "aad_PromotionPassed a = passed"
    "agt_champions t' = agt_champions t"
    by (rule update_adapters_ok, auto simp: set_update_where)+
qed

lemma record_promotion_ok:
  assumes "record_promotion env s i state t = Inr ((a, row), t')"
  shows "a \<in> set (agt_adapters t')" "aad_AdapterID a = i" "aad_Status a = AgentAdapterStatusPromoted"
    "aad_PromotionPassed a" "champion_row (acs_OrgID state) (acs_AgentLineage state) t' = Some row"
    "row\<lparr>acs_PreviousAgentSpecHash := []\<rparr> = state\<lparr>acs_PreviousAgentSpecHash := []\<rparr>"
proof -
  obtain t1 where t1: "UpdateAgentAdapterPromotion env s i AgentAdapterStatusPromoted True t = Inr (a, t1)"
    "RecordChampionState env s state t1 = Inr (row, t')"
    using assms by (auto simp: record_promotion_def split: sum.splits)
  note a = UpdateAgentAdapterPromotion_ok [OF t1(1)]
  note row = RecordChampionState_ok [OF t1(2)]
  show "a \<in> set (agt_adapters t')" using a(1) RecordChampionState_frame [OF t1(2)] by simp
  show "aad_AdapterID a = i" "aad_Status a = AgentAdapterStatusPromoted" "aad_PromotionPassed a" using a(2-4) by simp_all
  show "champion_row (acs_OrgID state) (acs_AgentLineage state) t' = Some row"
    using row(1) by (simp add: champion_row_def)
  show "row\<lparr>acs_PreviousAgentSpecHash := []\<rparr> = state\<lparr>acs_PreviousAgentSpecHash := []\<rparr>" by (rule row(2))
qed

text \<open>The adapter and the report a promotion rests on, and the state after the two reads.\<close>

definition promotable ::
  "agent_call \<Rightarrow> session \<Rightarrow> promote_adapter_command \<Rightarrow> agent_state \<Rightarrow> agent_adapter \<Rightarrow> agent_eval_report \<Rightarrow> bool" where
  "promotable ak s c st a report \<longleftrightarrow> (let st0 = ak_between ak 0 st; st1 = ak_between ak 1 st0 in
     ReadAgentAdapter (ak_stmt ak 0) s (paa_OrgID c) (paa_AdapterID c) (gs_tables st0) = Inr a \<and>
     aad_Status a = AgentAdapterStatusEvaluated \<and>
     ReadAgentEvalReport (ak_stmt ak 1) s (paa_OrgID c) (paa_ReportID c) (gs_tables st1) = Inr report \<and>
     agentAdapterCompatibleWithReport a report \<and> aer_Passed report \<and>
     champion_not_better ak 2 s a report (paa_MinDelta c) st1)"


section \<open>Evaluating a specification\<close>

lemma insert_task_results_report:
  "insert_task_results s rep rs t = Inr (r, t') \<Longrightarrow> r\<lparr>aer_TaskResults := []\<rparr> = rep\<lparr>aer_TaskResults := []\<rparr>"
proof (induction s rep rs t arbitrary: r t' rule: insert_task_results.induct)
  case (2 s rep p ps t)
  let ?p = "p\<lparr>atr_OrgID := aer_OrgID rep, atr_ReportID := aer_ReportID rep\<rparr>"
  from 2(2) obtain t1 where t1: "insert_task_result s ?p t = Inr t1"
    "insert_task_results s (rep\<lparr>aer_TaskResults := aer_TaskResults rep @ [?p]\<rparr>) ps t1 = Inr (r, t')"
    by (auto simp: Let_def split: sum.splits)
  show ?case using 2(1) [OF refl t1] by simp
qed simp

lemma RecordAgentEvalReport_ok:
  assumes "RecordAgentEvalReport env s report t = Inr (r, t')"
  shows "aer_Passed r = aer_Passed report" "aer_PromotedDecisionID r = aer_PromotedDecisionID report"
proof -
  let ?row = "report\<lparr>aer_ReportID := sv_uuid env (agt_drawn t), aer_EvaluatedAt := sv_now env, aer_TaskResults := []\<rparr>"
  obtain split t1 where inserted: "insert_task_results s (?row\<lparr>aer_Split := split, aer_TaskResults := []\<rparr>) (aer_TaskResults report) t1 = Inr (r, t')"
    using assms by (auto simp: RecordAgentEvalReport_def scanAgentEvalReport_def statement_ok Let_def split: if_splits sum.splits)
  from insert_task_results_report [OF inserted] have
    "aer_Passed (r\<lparr>aer_TaskResults := []\<rparr>) = aer_Passed report"
    "aer_PromotedDecisionID (r\<lparr>aer_TaskResults := []\<rparr>) = aer_PromotedDecisionID report"
    by simp_all
  then show "aer_Passed r = aer_Passed report" "aer_PromotedDecisionID r = aer_PromotedDecisionID report" by simp_all
qed

lemma record_evaluation_ok:
  assumes "record_evaluation env s c decision auto report t = Inr ((r, champion), t')"
  shows "aer_Passed r = aer_Passed report"
    and "aer_Passed r \<and> auto \<Longrightarrow> aer_PromotedDecisionID r = decision \<and> (\<exists>row. champion = Some row \<and>
      champion_row (esc_OrgID c) (esc_AgentLineage c) t' = Some row \<and> acs_DecisionID row = decision \<and>
      acs_ChampionAgentSpecHash row = esc_AgentSpecHash c)"
    and "\<not> (aer_Passed r \<and> auto) \<Longrightarrow> champion = None \<and> agt_champions t' = agt_champions t"
proof -
  let ?report1 = "if aer_Passed report \<and> auto then report\<lparr>aer_PromotedDecisionID := decision\<rparr> else report"
  obtain rep t1 where first: "RecordAgentEvalReport env s ?report1 t = Inr (rep, t1)"
    using assms unfolding record_evaluation_def Let_def
    by (cases "RecordAgentEvalReport env s ?report1 t") auto
  have passed: "aer_Passed rep = aer_Passed report" using RecordAgentEvalReport_ok(1) [OF first] by simp
  have run: "(if aer_Passed rep \<and> auto
      then (case RecordChampionState env s (spec_champion_of_report c rep) t1 of
          Inl e \<Rightarrow> Inl e | Inr (champion, t2) \<Rightarrow> Inr ((rep, Some champion), t2))
      else Inr ((rep, None), t1)) = Inr ((r, champion), t')"
    using assms unfolding record_evaluation_def Let_def first by simp
  then have r: "r = rep" by (auto split: if_splits sum.splits)
  show "aer_Passed r = aer_Passed report" using passed by (simp add: r)
  show "champion = None \<and> agt_champions t' = agt_champions t" if "\<not> (aer_Passed r \<and> auto)"
  proof -
    have "champion = None" "t' = t1" using run that by (auto simp: r split: if_splits)
    then show ?thesis using RecordAgentEvalReport_frame [OF first] by simp
  qed
  assume both: "aer_Passed r \<and> auto"
  let ?state = "spec_champion_of_report c rep"
  have state: "acs_OrgID ?state = esc_OrgID c" "acs_AgentLineage ?state = esc_AgentLineage c"
    "acs_ChampionAgentSpecHash ?state = esc_AgentSpecHash c" "acs_DecisionID ?state = aer_PromotedDecisionID rep"
    by (simp_all add: spec_champion_of_report_def)
  obtain row where row: "RecordChampionState env s ?state t1 = Inr (row, t')" "champion = Some row"
    using run both by (auto simp: r split: if_splits sum.splits)
  note stored = RecordChampionState_ok [OF row(1), unfolded state]
  have "aer_PromotedDecisionID rep = decision"
    using RecordAgentEvalReport_ok(2) [OF first] both passed by (simp add: r)
  then show "aer_PromotedDecisionID r = decision \<and> (\<exists>row. champion = Some row \<and>
      champion_row (esc_OrgID c) (esc_AgentLineage c) t' = Some row \<and> acs_DecisionID row = decision \<and>
      acs_ChampionAgentSpecHash row = esc_AgentSpecHash c)"
    using stored(1) champion_fields(3,6) [OF stored(2), unfolded state] row(2) by (simp add: r champion_row_def)
qed

text \<open>
  The gate, with the default thresholds: an evaluation passes exactly when every task of the
  holdout succeeded in every respect. Up to \<open>2 ^ 53\<close> tasks no rounding hides a failure.
\<close>

definition task_perfect :: "agent_eval_task_result \<Rightarrow> bool" where
  "task_perfect r \<longleftrightarrow> atr_TaskSuccess r \<and> atr_ToolSuccess r \<and> atr_Groundedness r"

lemma success_rate_one:
  assumes "results \<noteq> []" "length results \<le> 2 ^ 53"
  shows "f64_one \<le> success_rate p results \<longleftrightarrow> (\<forall>r \<in> set results. p r)"
proof -
  have "f64_one \<le> success_rate p results \<longleftrightarrow> length (filter p results) = length results"
    using f64_quot_one_iff [of "length (filter p results)" "length results"] assms
    by (simp add: success_rate_def ratio_def)
  also have "\<dots> \<longleftrightarrow> (\<forall>r \<in> set results. p r)"
    by (metis filter_True length_filter_less order_less_irrefl)
  finally show ?thesis .
qed

text \<open>A threshold the command leaves out, and the threshold one.\<close>

definition default_thresholds :: "evaluate_spec_command \<Rightarrow> bool" where
  "default_thresholds c \<longleftrightarrow> (\<forall>x \<in> {esc_MinTaskSuccessRate c, esc_MinToolSuccessRate c, esc_MinGroundednessRate c}.
     x = 0 \<or> x = f64_one)"

lemma default_gate:
  assumes "default_thresholds c" "results \<noteq> []" "length results \<le> 2 ^ 53"
  shows "aer_Passed (agentEvalReportFromTaskResults c results) \<longleftrightarrow> (\<forall>r \<in> set results. task_perfect r)"
proof -
  have one: "threshold (esc_MinTaskSuccessRate c) = f64_one" "threshold (esc_MinToolSuccessRate c) = f64_one"
    "threshold (esc_MinGroundednessRate c) = f64_one"
    using assms(1) by (auto simp: default_thresholds_def threshold_def)
  show ?thesis
    using success_rate_one [OF assms(2,3)]
    by (auto simp: agentEvalReportFromTaskResults_def Let_def one task_perfect_def)
qed


section \<open>Training data\<close>

text \<open>A label and a task that are the same prompt, or nearly.\<close>

definition overlaps :: "agent_run_label \<Rightarrow> golden_task \<Rightarrow> bool" where
  "overlaps l g \<longleftrightarrow>
     (TrimSpace (gt_ContentFingerprint g) \<noteq> [] \<and> TrimSpace (arl_ContentFingerprint l) = TrimSpace (gt_ContentFingerprint g)) \<or>
     (TrimSpace (gt_NearDuplicateFingerprint g) \<noteq> [] \<and>
        TrimSpace (arl_NearDuplicateFingerprint l) = TrimSpace (gt_NearDuplicateFingerprint g))"

text \<open>The filter keeps exactly the labels that overlap no task of the holdout.\<close>

lemma filterTrainingLabels_iff:
  "set (filterTrainingLabels labels holdout) = {l \<in> set labels. \<not> (\<exists>g \<in> set holdout. overlaps l g)}"
  unfolding filterTrainingLabels_def Let_def overlaps_def by (auto simp: image_iff)

definition complete_tuple :: "training_tuple \<Rightarrow> bool" where
  "complete_tuple tp \<longleftrightarrow> ttp_AgentSpecHash tp \<noteq> [] \<and> ttp_ToolsetHash tp \<noteq> [] \<and> ttp_EffectiveBaseID tp \<noteq> [] \<and>
     ttp_DataSnapshotHash tp \<noteq> []"

lemma commonTrainingTuple_ok:
  assumes "commonTrainingTuple labels = Inr tp"
  shows "complete_tuple tp" "\<forall>l \<in> set labels. tuple_of l = tp"
proof -
  obtain l ls where labels: "labels = l # ls" using assms by (cases labels) (simp_all add: commonTrainingTuple_def)
  show "complete_tuple tp" "\<forall>l \<in> set labels. tuple_of l = tp"
    using assms unfolding labels complete_tuple_def
    by (auto simp: commonTrainingTuple_def Let_def list_ex_iff split: if_splits)
qed

lemma RecordTrajectoryDataset_ok:
  assumes "RecordTrajectoryDataset env s d t = Inr (row, t')"
  shows "row \<in> set (agt_datasets t')" "atd_ContentHash row = atd_ContentHash d" "atd_DatasetURI row = atd_DatasetURI d"
proof -
  obtain manifest where cases: "(\<exists>r. find (\<lambda>r. atd_ContentHash r = atd_ContentHash d) (agt_datasets t) = Some r \<and>
        row = r\<lparr>atd_DatasetURI := atd_DatasetURI d\<rparr> \<and> agt_datasets t' = update_where
          (\<lambda>r. atd_ContentHash r = atd_ContentHash d) (\<lambda>r. r\<lparr>atd_DatasetURI := atd_DatasetURI d\<rparr>) (agt_datasets t)) \<or>
      (row = d\<lparr>atd_Manifest := manifest, atd_DatasetID := sv_uuid env (agt_drawn t), atd_CreatedAt := sv_now env\<rparr> \<and>
        agt_datasets t' = agt_datasets t @ [row])"
    using assms by (auto simp: RecordTrajectoryDataset_def statement_ok Let_def split: option.splits if_splits)
  show "row \<in> set (agt_datasets t')" "atd_ContentHash row = atd_ContentHash d" "atd_DatasetURI row = atd_DatasetURI d"
    using cases by (auto simp: set_update_where dest!: find_SomeD)
qed


end
