(* ===== verification/AgentRegistryExamples.thy ===== *)
theory AgentRegistryExamples
  imports AgentRegistryProperties AgentRegistryPromotion
begin

text \<open>
  A registry with two lineages in one organisation: concrete runs for the theorems about the
  agent registry, and what a promotion of an adapter in another lineage and a promotion during
  an evaluation do.
\<close>

section \<open>A registry\<close>

definition sample_session1 :: session where
  "sample_session1 = \<lparr>ss_user = Some 5, ss_org = Some 1, ss_system = False\<rparr>"

definition sample_adapter :: "uuid \<Rightarrow> string \<Rightarrow> AgentAdapterStatus \<Rightarrow> bool \<Rightarrow> agent_adapter" where
  "sample_adapter i lineage status passed = \<lparr>aad_AdapterID = i, aad_OrgID = 1, aad_AgentLineage = lineage,
     aad_DatasetID = 40, aad_TrainingRunID = i + 100, aad_ServingModelID = i + 200, aad_AdapterURI = ''uri'',
     aad_AdapterChecksum = ''sum'', aad_TrainingProvider = ''p'', aad_TrainedAgainstEffectiveBaseID = ''base'',
     aad_TrainedAgainstAgentSpecHash = ''spec'', aad_TrainedAgainstToolsetHash = ''tools'',
     aad_TrainedAgainstDataSnapshotHash = ''data'', aad_TrainedAgainstRubricVersion = agentEvalRubricVersion,
     aad_TrainedAgainstGoldenSplitVersion = 1, aad_Status = status, aad_PromotionPassed = passed,
     aad_CreatedByUserID = 5, aad_CreatedAt = 1, aad_UpdatedAt = 1\<rparr>"

definition sample_report :: "uuid \<Rightarrow> string \<Rightarrow> uuid \<Rightarrow> f64 \<Rightarrow> agent_eval_report" where
  "sample_report i lineage adapter rate = \<lparr>aer_ReportID = i, aer_OrgID = 1, aer_AgentLineage = lineage,
     aer_AgentSpecHash = ''spec'', aer_AdapterID = adapter, aer_EndpointID = 7,
     aer_Split = GoldenTaskSplitPromotionHoldout, aer_SplitVersion = 1, aer_RubricVersion = agentEvalRubricVersion,
     aer_TaskCount = 1, aer_TaskSuccessRate = rate, aer_ToolSuccessRate = rate, aer_GroundednessRate = rate,
     aer_Passed = True, aer_GateReason = ''passes'', aer_PromotedDecisionID = 0, aer_EvaluatedBy = 5,
     aer_EvaluatedAt = 2, aer_TaskResults = []\<rparr>"

definition sample_golden :: "uuid \<Rightarrow> GoldenTaskSplit \<Rightarrow> string \<Rightarrow> golden_task" where
  "sample_golden i split prompt = \<lparr>gt_TaskID = i, gt_OrgID = 1, gt_AgentLineage = ''b'', gt_Split = split,
     gt_SplitVersion = 1, gt_GroupKey = [], gt_Prompt = prompt, gt_NormalizedPromptHash = prompt,
     gt_ContentFingerprint = prompt, gt_NearDuplicateFingerprint = prompt, gt_ExpectedToolPlanHash = [],
     gt_ExpectedAnswer = ''pong'', gt_ExpectedAnswerRubricID = ''r'', gt_LabelsHash = [],
     gt_CreatedByUserID = 5, gt_CreatedAt = 1\<rparr>"

definition sample_label :: "uuid \<Rightarrow> string \<Rightarrow> agent_run_label" where
  "sample_label i prompt = \<lparr>arl_LabelID = i, arl_OrgID = 1, arl_RunID = i, arl_AgentLineage = ''b'',
     arl_AgentSpecHash = ''spec'', arl_ToolsetHash = ''tools'', arl_EffectiveBaseID = ''base'',
     arl_DataSnapshotHash = ''data'', arl_ContentFingerprint = prompt, arl_NearDuplicateFingerprint = prompt,
     arl_Evaluator = ''e'', arl_TaskSuccess = True, arl_ToolSelectionScore = 0, arl_Groundedness = 0,
     arl_PolicyViolations = 0, arl_Confidence = 0, arl_LabelSource = ''human'', arl_RubricVersion = ''r'',
     arl_CreatedByUserID = 5, arl_CreatedAt = 1\<rparr>"

definition sample_binding :: agent_endpoint_binding where
  "sample_binding = \<lparr>aeb_OrgID = 1, aeb_AgentLineage = ''b'', aeb_EndpointID = 7, aeb_CreatedByUserID = 5, aeb_CreatedAt = 1\<rparr>"

definition sample_version :: agent_spec_version where
  "sample_version = \<lparr>asv_OrgID = 1, asv_AgentLineage = ''b'', asv_AgentSpecHash = ''spec'', asv_ModelID = 9,
     asv_RegisteredByUserID = 5, asv_RegisteredAt = 1\<rparr>"

text \<open>
  Lineage \<open>b\<close> is served on endpoint 7 by adapter 21; it and adapter 22 were evaluated with the
  rates \<open>rate\<close>, adapter 20 of lineage \<open>a\<close> with the rates zero.
\<close>

definition registry_tables :: "f64 \<Rightarrow> agent_tables" where
  "registry_tables rate = \<lparr>
     agt_lineages = [\<lparr>aln_org = 1, aln_lineage = ''a'', aln_created_by = 5, aln_created_at = 1\<rparr>,
       \<lparr>aln_org = 1, aln_lineage = ''b'', aln_created_by = 5, aln_created_at = 1\<rparr>],
     agt_specs = [sample_version],
     agt_bindings = [sample_binding],
     agt_champions = [\<lparr>acs_OrgID = 1, acs_AgentLineage = ''b'', acs_ChampionAgentSpecHash = ''spec'',
       acs_ChampionAdapterID = 21, acs_ServingModelID = 221, acs_PreviousAgentSpecHash = [], acs_DecisionID = 50,
       acs_DecidedBy = 5, acs_DecidedAt = 1\<rparr>],
     agt_tasks = [sample_golden 60 GoldenTaskSplitPromotionHoldout ''ping''],
     agt_labels = [sample_label 70 ''ping'', sample_label 71 ''sing''],
     agt_datasets = [],
     agt_adapters = [sample_adapter 20 ''a'' AgentAdapterStatusEvaluated False,
       sample_adapter 21 ''b'' AgentAdapterStatusPromoted True, sample_adapter 22 ''b'' AgentAdapterStatusEvaluated False,
       sample_adapter 23 ''b'' AgentAdapterStatusTraining False],
     agt_reports = [sample_report 30 ''a'' 20 0, sample_report 31 ''b'' 21 rate, sample_report 32 ''b'' 22 rate],
     agt_results = [], agt_drawn = 0\<rparr>"

definition sample_agents :: "f64 \<Rightarrow> agent_state" where
  "sample_agents rate = \<lparr>gs_db = (registry_tables rate, []), gs_signals = 0\<rparr>"

text \<open>Runs of the bare specification answer, runs of an adapter fail.\<close>

definition sample_run :: "agent_task_run_command \<Rightarrow> agent_task_run_result \<times> string option" where
  "sample_run command = (if atx_ServingModelID command = 0
     then \<lparr>trr_RunID = 80, trr_Status = ''COMPLETED'', trr_StopReason = ''FINAL_ANSWER'', trr_Answer = ''Pong!'',
       trr_GroundedContextCount = 1, trr_GroundedContextTexts = [''the pong''], trr_ToolInvocations = []\<rparr>
     else \<lparr>trr_RunID = 81, trr_Status = ''COMPLETED'', trr_StopReason = ''FINAL_ANSWER'', trr_Answer = ''no'',
       trr_GroundedContextCount = 0, trr_GroundedContextTexts = [],
       trr_ToolInvocations = [\<lparr>ati_ToolName = ''search'', ati_ErrorType = ''TIMEOUT''\<rparr>]\<rparr>, None)"

definition sample_registry :: agent_registry where
  "sample_registry = \<lparr>arg_ReadAgentSpec = (\<lambda>_ _ _. Inl NoRows), arg_ReadEndpoint = (\<lambda>_ _ _. Inl NoRows),
     arg_ReadAgentTrajectory = (\<lambda>_ _ _. Inl NoRows), arg_RunAgentTask = sample_run, arg_trainingDispatcher = None,
     arg_builder = \<lparr>acb_topic = ''agents'', acb_uuid = (\<lambda>i. if i = 7 then ''seven'' else ''other''),
       acb_time = (\<lambda>_. ''now''), acb_marshal = (\<lambda>_. ''payload'')\<rparr>,
     arg_sha256 = (\<lambda>x. ''sha:'' @ x), arg_manifest_json = (\<lambda>m. Inr (concat (map mfl_ContentFingerprint (mfd_Labels m))))\<rparr>"

definition sample_stmt :: stmt_env where
  "sample_stmt = \<lparr>sv_now = 100, sv_uuid = (\<lambda>n. 1000 + of_nat n), sv_fail = (\<lambda>_. None),
     sv_jsonb_object = Some, sv_numeric6 = Some\<rparr>"

definition sample_request :: agent_call where
  "sample_request = \<lparr>ak_stmt = (\<lambda>_. sample_stmt),
     ak_tx = (\<lambda>_. \<lparr>te_begin = None, te_commit = None, te_rollback = None\<rparr>), ak_between = (\<lambda>_ st. st),
     ak_outbox = \<lparr>oe_envelope = (\<lambda>_. ''envelope''), oe_trace_headers = [], oe_derive_key = (\<lambda>_ _ _ _. ''key''), oe_exec_error = None\<rparr>,
     ak_outbox_id = (\<lambda>_. 2000), ak_now = 100, ak_new_uuid = 90\<rparr>"

definition sample_promotion :: "uuid \<Rightarrow> uuid \<Rightarrow> promote_adapter_command" where
  "sample_promotion adapter report = \<lparr>paa_OrgID = 1, paa_UserID = 5, paa_AgentLineage = ''b'', paa_AdapterID = adapter,
     paa_ReportID = report, paa_MinDelta = 0\<rparr>"

definition sample_evaluation :: evaluate_spec_command where
  "sample_evaluation = \<lparr>esc_OrgID = 1, esc_UserID = 5, esc_AgentLineage = ''b'', esc_AgentSpecHash = ''spec'',
     esc_AdapterID = 0, esc_EndpointID = 7, esc_SplitVersion = 1, esc_MinTaskSuccessRate = 0,
     esc_MinToolSuccessRate = 0, esc_MinGroundednessRate = 0\<rparr>"

definition sample_reevaluation :: evaluate_adapter_command where
  "sample_reevaluation = \<lparr>eac_OrgID = 1, eac_UserID = 5, eac_AgentLineage = ''b'', eac_AdapterID = 22,
     eac_EndpointID = 7, eac_SplitVersion = 1, eac_MinTaskSuccessRate = 0, eac_MinToolSuccessRate = 0, eac_MinGroundednessRate = 0\<rparr>"

definition sample_build :: build_dataset_command where
  "sample_build = \<lparr>btd_OrgID = 1, btd_UserID = 5, btd_AgentLineage = ''b'', btd_GoldenSplitVersion = 1\<rparr>"

definition sample_import :: import_golden_command where
  "sample_import = \<lparr>igt_OrgID = 1, igt_UserID = 5, igt_AgentLineage = ''b'', igt_Split = GoldenTaskSplitSeedTrain,
     igt_SplitVersion = 1, igt_Tasks = [\<lparr>gti_GroupKey = [], gti_Prompt = ''Sing aloud'', gti_ExpectedToolPlanHash = [],
       gti_ExpectedAnswer = ''la'', gti_ExpectedAnswerRubricID = ''r'', gti_LabelsHash = []\<rparr>]\<rparr>"

definition sample_completion :: adapter_training_completion where
  "sample_completion = \<lparr>atc_TrainingRunID = 123, atc_OrgID = 1, atc_ServingModelID = 300, atc_AdapterURI = ''new'',
     atc_AdapterChecksum = ''sum2'', atc_TrainingProvider = ''p''\<rparr>"

text \<open>Another request promotes adapter 22 just before the last transaction of its evaluation.\<close>

definition racing_call :: agent_call where
  "racing_call = sample_request\<lparr>ak_between := (\<lambda>k st. if k = 5
     then snd (PromoteAgentAdapter sample_registry sample_request sample_session1 (sample_promotion 22 32) st) else st)\<rparr>"

section \<open>Evaluating doubles\<close>

text \<open>Rounding is too slow to evaluate; the rates zero and one need none.\<close>

lemma f64_round_power: "f64_round (2 ^ k) = 2 ^ k"
proof -
  have "round53 (2 ^ k) = 2 ^ k"
  proof (cases "k < 53")
    case False
    then have "(2::nat) ^ k mod 2 ^ (k - 52) = 0" "(2::nat) ^ k div 2 ^ (k - 52) * 2 ^ (k - 52) = 2 ^ k"
      by (simp_all add: le_imp_power_dvd)
    then show ?thesis by (simp add: round53_def Let_def)
  next
    case True
    then have "(2::nat) ^ k < 2 ^ 53" by (rule power_strict_increasing) simp
    then show ?thesis by (rule round53_small)
  qed
  then show ?thesis by (simp add: f64_round_def nat_power_eq)
qed

lemma sample_one [simp]: "f64_add f64_one 0 = f64_one" "f64_add 0 0 = 0" "0 < f64_one" "0 \<le> f64_one" "f64_one \<noteq> 0"
proof -
  show "f64_add f64_one 0 = f64_one" by (simp only: f64_add_def f64_round_power f64_one_def add_0_right)
  show "f64_add 0 0 = 0" by (simp add: f64_add_def f64_round_def)
qed (simp_all add: f64_one_def)

lemma f64_add_code [code]: "f64_add a b = (let c = a + b in if c = 0 \<or> c = f64_one then c else f64_round c)"
proof -
  have "f64_round 0 = 0" "f64_round f64_one = f64_one"
    unfolding f64_one_def f64_round_power by (simp_all add: f64_round_def)
  then show ?thesis unfolding f64_add_def Let_def by (cases "a + b = 0 \<or> a + b = f64_one") auto
qed

lemma f64_quot_code [code]:
  "f64_quot n d = (if 0 < n \<and> n = d then f64_one else if n = 0 \<and> 0 < d then 0
     else let x = n * 2 ^ f64_unit_bits; k = bit_len (x div d) - 53; v = 2 ^ k * d; q = x div v; r = x mod v
       in int ((if 2 * r < v \<or> (2 * r = v \<and> even q) then q else q + 1) * 2 ^ k))"
proof (cases "0 < n \<and> n = d")
  case True
  then have "0 < n" "d = n" by simp_all
  then show ?thesis by (simp only: f64_quot_self if_True simp_thms)
next
  case False
  then show ?thesis by (simp only: f64_quot_0 if_False if_True simp_thms f64_quot_def split: if_split) simp
qed

lemma fmt4_code [code]:
  "fmt4 x = (if x = 0 then ''0.0000'' else let p = nat \<bar>x\<bar> * 10000; d = 2 ^ f64_unit_bits; q = p div d; r = p mod d;
       m = (if 2 * r < d \<or> (2 * r = d \<and> even q) then q else q + 1); frac = nat_text (m mod 10000)
     in (if x < 0 then ''-'' else []) @ nat_text (m div 10000) @ ''.'' @ replicate (4 - length frac) (CHR ''0'') @ frac)"
proof (cases "x = 0")
  case True
  have "nat_text 0 = ''0''" by code_simp
  then show ?thesis by (simp add: True fmt4_def Let_def numeral_3_eq_3)
qed (simp only: fmt4_def if_False)

section \<open>Golden tasks and adapters\<close>

lemma sample_import_run:
  "leak_free (gs_tables (sample_agents 0)) \<and>
   length (agt_tasks (gs_tables (serve sample_registry sample_request sample_session1 (ImportTasks sample_import) (sample_agents 0)))) = 2"
  by code_simp


text \<open>A near duplicate of a task in another split is refused.\<close>

lemma overlapping_import_refused:
  "(case fst (ImportGoldenTasks sample_registry sample_request sample_session1
       (sample_import\<lparr>igt_Tasks := map (gti_Prompt_update (\<lambda>_. ''the PING!'')) (igt_Tasks sample_import)\<rparr>)
       \<lparr>gs_db = ((registry_tables 0)\<lparr>agt_tasks := [(sample_golden 60 GoldenTaskSplitPromotionHoldout ''ping'')
          \<lparr>gt_NearDuplicateFingerprint := ''sha:ping''\<rparr>]\<rparr>, []), gs_signals = 0\<rparr>) of
     Inl e \<Rightarrow> agent_Is e CodeGoldenTaskLeak | Inr _ \<Rightarrow> False)"
  by code_simp

lemma sample_completion_run:
  "adapters_ok (gs_tables (sample_agents 0)) \<and>
   map aad_Status (agt_adapters (gs_tables (serve sample_registry sample_request sample_session1
      (TrainingCompleted sample_completion) (sample_agents 0)))) =
   [AgentAdapterStatusEvaluated, AgentAdapterStatusPromoted, AgentAdapterStatusEvaluated, AgentAdapterStatusCandidate]"
  by code_simp

theorem adapter_lifecycle_witness:
  "adapter_history (gs_tables (sample_agents 0))
     (gs_tables (serve sample_registry sample_request sample_session1 (TrainingCompleted sample_completion) (sample_agents 0))) \<and>
   map aad_Status (agt_adapters (gs_tables (serve sample_registry sample_request sample_session1
      (TrainingCompleted sample_completion) (sample_agents 0)))) =
   [AgentAdapterStatusEvaluated, AgentAdapterStatusPromoted, AgentAdapterStatusEvaluated, AgentAdapterStatusCandidate]"
  using adapter_lifecycle [of "sample_agents 0" sample_request sample_registry sample_session1 "TrainingCompleted sample_completion"]
    sample_completion_run by (simp add: sample_request_def follows_def adapter_history_same)

section \<open>Promotions\<close>

definition promotion_run :: "uuid \<Rightarrow> uuid \<Rightarrow> (agent_error + agent_adapter) \<times> agent_state" where
  "promotion_run adapter report =
     PromoteAgentAdapter sample_registry sample_request sample_session1 (sample_promotion adapter report) (sample_agents f64_one)"

definition champion_after :: "(agent_error + 'a) \<times> agent_state \<Rightarrow> uuid option" where
  "champion_after run = (case run of (Inl _, _) \<Rightarrow> None
     | (Inr _, st) \<Rightarrow> map_option acs_ChampionAdapterID (champion_row 1 ''b'' (gs_tables st)))"

lemma promotion_runs: "champion_after (promotion_run 22 32) = Some 22" "champion_after (promotion_run 20 30) = Some 20"
  by code_simp+

lemma champion_after_ok: "champion_after run = Some i \<Longrightarrow> \<exists>a st. run = (Inr a, st) \<and>
    map_option acs_ChampionAdapterID (champion_row 1 ''b'' (gs_tables st)) = Some i"
  by (cases run; cases "fst run") (auto simp: champion_after_def)


text \<open>C32. An adapter of one lineage can become the champion of another: the lineage of the adapter is
  never compared with the lineage of the command, and the champion that a candidate must not
  fall behind is looked up in the lineage of the adapter. Here adapter 20 of lineage \<open>a\<close>, with
  rates of zero, replaces the champion of lineage \<open>b\<close>, with rates of one.\<close>

theorem cross_lineage_promotion:
  "\<exists>a st. promotion_run 20 30 = (Inr a, st) \<and> champion_after (promotion_run 20 30) = Some 20 \<and>
     map_option aad_AgentLineage (find (\<lambda>r. aad_AdapterID r = 20) (agt_adapters (registry_tables f64_one))) = Some ''a'' \<and>
     regresses (sample_report 30 ''a'' 20 0) 0 (sample_report 31 ''b'' 21 f64_one)"
proof -
  have "map_option aad_AgentLineage (find (\<lambda>r. aad_AdapterID r = 20) (agt_adapters (registry_tables f64_one))) = Some ''a''"
    by (simp add: registry_tables_def sample_adapter_def)
  moreover have "regresses (sample_report 30 ''a'' 20 0) 0 (sample_report 31 ''b'' 21 f64_one)"
    by (simp add: regresses_def sample_report_def)
  ultimately show ?thesis using champion_after_ok [OF promotion_runs(2)] promotion_runs(2) by blast
qed

section \<open>Training data\<close>

lemma sample_build_run:
  "(case BuildTrajectoryDataset sample_registry sample_request sample_session1 sample_build (sample_agents 0) of
      (Inr d, _) \<Rightarrow> atd_ContentHash d = ''sha:sing'' | _ \<Rightarrow> False)"
  by code_simp


section \<open>Evaluations\<close>

definition sample_task :: golden_task where
  "sample_task = sample_golden 60 GoldenTaskSplitPromotionHoldout ''ping''"

lemma sample_reads:
  "ReadSpecVersion sample_stmt sample_session1 1 ''spec'' (registry_tables 0) = Inr sample_version"
  "ListEndpointBindings sample_stmt sample_session1 1 ''b'' (registry_tables 0) = Inr [sample_binding]"
  "ListGoldenTasks sample_stmt sample_session1 (holdout_query 1 ''b'' 1) (registry_tables 0) = Inr [sample_task]"
  "agentEndpointBound [sample_binding] 7" "asv_AgentLineage sample_version = ''b''"
  "ReadAgentAdapter sample_stmt sample_session1 1 22 (registry_tables 0) = Inr (sample_adapter 22 ''b'' AgentAdapterStatusEvaluated False)"
  by code_simp+

lemma sample_fields:
  "ak_stmt sample_request k = sample_stmt" "ak_between sample_request k st = st" "ak_new_uuid sample_request = 90"
  "gs_db (sample_agents 0) = (registry_tables 0, [])"
  "esc_OrgID sample_evaluation = 1" "esc_AgentLineage sample_evaluation = ''b''" "esc_AgentSpecHash sample_evaluation = ''spec''"
  "esc_EndpointID sample_evaluation = 7" "esc_SplitVersion sample_evaluation = 1"
  by (simp_all add: sample_request_def sample_agents_def sample_evaluation_def)

lemma writes_commits:
  assumes "ak_tx ak k = \<lparr>te_begin = None, te_commit = None, te_rollback = None\<rparr>"
    and "change (ak_stmt ak k) (gs_tables (ak_between ak k st)) = Inr (a, t)"
    and "enqueue_all (uow_enqueue (agent_enqueue ak)) ((t, gs_outbox (ak_between ak k st)), False) (msgs a) = Inr db"
  shows "\<exists>st'. writes ak k change msgs st = (Inr a, st')"
  using assms by (simp add: writes_run uow_Do_def doOnce_def change_then_enqueue_def on_tables_def split: prod.splits)

definition evaluation_recorded :: "agent_error + ((agent_eval_report \<times> agent_champion_state option) \<times> agent_tables)" where
  "evaluation_recorded = record_evaluation sample_stmt sample_session1 sample_evaluation 90 True
     (agentEvalReportFromTaskResults sample_evaluation [run_golden_task sample_registry sample_evaluation 0 sample_task]) (registry_tables 0)"

definition sample_enqueued :: "agent_error + ((agent_tables \<times> outbox) \<times> bool)" where
  "sample_enqueued = (case evaluation_recorded of Inr ((r, Some c), t) \<Rightarrow>
       enqueue_all (uow_enqueue (agent_enqueue sample_request)) ((t, []), False) (champion_messages sample_registry [sample_binding] c)
     | _ \<Rightarrow> Inl NoRows)"

lemma evaluation_recorded_run: "case evaluation_recorded of Inr ((r, Some c), t) \<Rightarrow> aer_Passed r | _ \<Rightarrow> False"
  by code_simp

lemma sample_enqueued_run: "case sample_enqueued of Inr _ \<Rightarrow> True | _ \<Rightarrow> False"
  by code_simp


text \<open>
  The same evaluation for adapter 22, and what its last transaction does after a promotion.
\<close>

definition sample_evaluated :: "agent_error + ((agent_eval_report \<times> agent_champion_state option) \<times> agent_tables)" where
  "sample_evaluated = (let c = adapter_eval_command sample_reevaluation (sample_adapter 22 ''b'' AgentAdapterStatusEvaluated False)
     in record_evaluation sample_stmt sample_session1 c 90 False
          (agentEvalReportFromTaskResults c [run_golden_task sample_registry c 222 sample_task]) (registry_tables 0))"

definition sample_overtaken :: "agent_error + (agent_adapter \<times> agent_tables)" where
  "sample_overtaken = (case sample_evaluated of Inl e \<Rightarrow> Inl e
     | Inr (_, t) \<Rightarrow> UpdateAgentAdapterPromotion sample_stmt sample_session1 22 AgentAdapterStatusRejected False
         (gs_tables (snd (PromoteAgentAdapter sample_registry sample_request sample_session1 (sample_promotion 22 32)
            \<lparr>gs_db = (t, []), gs_signals = 0\<rparr>))))"

lemma sample_evaluated_run: "case sample_evaluated of Inr ((r, None), t) \<Rightarrow> \<not> aer_Passed r | _ \<Rightarrow> False"
  by code_simp

lemma sample_overtaken_run:
  "case sample_overtaken of Inr (a, t) \<Rightarrow> aad_Status a = AgentAdapterStatusRejected \<and> a \<in> set (agt_adapters t) \<and>
     map_option acs_ChampionAdapterID (champion_row 1 ''b'' t) = Some (aad_AdapterID a) | _ \<Rightarrow> False"
  by code_simp

lemma writes_quiet:
  assumes "ak_tx ak k = \<lparr>te_begin = None, te_commit = None, te_rollback = None\<rparr>"
    and "change (ak_stmt ak k) (gs_tables (ak_between ak k st)) = Inr (a, t)" and "msgs a = []"
  shows "writes ak k change msgs st =
    (Inr a, (ak_between ak k st)\<lparr>gs_db := (t, gs_outbox (ak_between ak k st)), gs_signals := gs_signals (ak_between ak k st)\<rparr>)"
  using assms by (simp add: writes_run uow_Do_def doOnce_def change_then_enqueue_def on_tables_def)

lemma racing_fields:
  "ak_stmt racing_call k = sample_stmt" "ak_new_uuid racing_call = 90"
  "ak_tx racing_call k = \<lparr>te_begin = None, te_commit = None, te_rollback = None\<rparr>"
  "k \<noteq> 5 \<Longrightarrow> ak_between racing_call k st = st"
  "ak_between racing_call 5 st = snd (PromoteAgentAdapter sample_registry sample_request sample_session1 (sample_promotion 22 32) st)"
  by (simp_all add: racing_call_def sample_request_def)

lemma reevaluation_fields:
  "eac_OrgID sample_reevaluation = 1" "eac_AgentLineage sample_reevaluation = ''b''" "eac_AdapterID sample_reevaluation = 22"
  "esc_OrgID (adapter_eval_command sample_reevaluation a) = 1"
  "esc_AgentLineage (adapter_eval_command sample_reevaluation a) = ''b''"
  "esc_AgentSpecHash (adapter_eval_command sample_reevaluation a) = aad_TrainedAgainstAgentSpecHash a"
  "esc_EndpointID (adapter_eval_command sample_reevaluation a) = 7"
  "esc_SplitVersion (adapter_eval_command sample_reevaluation a) = 1"
  by (simp_all add: sample_reevaluation_def adapter_eval_command_def)

text \<open>C33. An evaluation writes its outcome into the row of the adapter whatever the row says by then: an
  adapter that another request has promoted meanwhile serves as the champion of its lineage with
  the status of a rejected one.\<close>

theorem evaluation_demotes_champion:
  "\<exists>r a st. EvaluateAdapterCandidate sample_registry racing_call sample_session1 sample_reevaluation (sample_agents 0) = (Inr r, st) \<and>
     a \<in> set (agt_adapters (gs_tables st)) \<and> aad_Status a = AgentAdapterStatusRejected \<and>
     map_option acs_ChampionAdapterID (champion_row 1 ''b'' (gs_tables st)) = Some (aad_AdapterID a)"
proof -
  let ?a = "sample_adapter 22 ''b'' AgentAdapterStatusEvaluated False"
  let ?c = "adapter_eval_command sample_reevaluation ?a"
  have a: "aad_AgentLineage ?a = ''b''" "aad_Status ?a = AgentAdapterStatusEvaluated" "aad_AdapterID ?a = 22"
    "aad_ServingModelID ?a = 222" "aad_TrainedAgainstAgentSpecHash ?a = ''spec''" by (simp_all add: sample_adapter_def)
  obtain r t where recorded: "sample_evaluated = Inr ((r, None), t)" "\<not> aer_Passed r"
    using sample_evaluated_run by (auto split: sum.splits prod.splits option.splits)
  let ?st1 = "(sample_agents 0)\<lparr>gs_db := (t, []), gs_signals := 0\<rparr>"
  have outbox: "gs_signals (sample_agents 0) = 0" "?st1 = \<lparr>gs_db = (t, []), gs_signals = 0\<rparr>" by (simp_all add: sample_agents_def)
  have evaluated: "evaluateCandidate sample_registry racing_call 1 sample_session1 ?c 222 False (sample_agents 0) = (Inr r, ?st1)"
    using recorded(1) unfolding sample_evaluated_def Let_def evaluateCandidate_def
    by (simp add: and_then_def reads_def require_def returns_def racing_fields reevaluation_fields a sample_fields sample_reads
        writes_quiet outbox(1))
  obtain x u where overtaken: "UpdateAgentAdapterPromotion sample_stmt sample_session1 22 AgentAdapterStatusRejected False
      (gs_tables (ak_between racing_call 5 ?st1)) = Inr (x, u)" "aad_Status x = AgentAdapterStatusRejected" "x \<in> set (agt_adapters u)"
      "map_option acs_ChampionAdapterID (champion_row 1 ''b'' u) = Some (aad_AdapterID x)"
    using sample_overtaken_run unfolding sample_overtaken_def recorded(1) outbox(2) racing_fields(5)
    by (auto split: sum.splits prod.splits)
  have "\<exists>st. EvaluateAdapterCandidate sample_registry racing_call sample_session1 sample_reevaluation (sample_agents 0) = (Inr r, st) \<and>
      gs_tables st = u"
    unfolding EvaluateAdapterCandidate_def
    by (simp add: and_then_def reads_def require_def returns_def racing_fields(1-4) reevaluation_fields sample_fields sample_reads a
        evaluated [unfolded One_nat_def] recorded(2) writes_quiet overtaken(1))
  then show ?thesis using overtaken(2-4) by blast
qed

end
