(* ===== verification/GoFloat32.thy ===== *)
theory GoFloat32
  imports GoRatio
begin

text \<open>
  Go's \<open>float32\<close> and more of \<open>float64\<close>, in the representation of \<open>GoFloat64\<close>: a
  finite \<open>float32\<close> is a whole multiple of \<open>2^-149\<close>, so an integer in that unit. An
  operation rounds its exact result to the significant bits of its type, ties to even. As for
  doubles, negative zero is zero and results stay finite.
\<close>

type_synonym f32 = int

abbreviation f32_unit_bits :: nat where
  "f32_unit_bits \<equiv> 149"

text \<open>The quotient of two naturals rounded to \<open>p\<close> significant bits.\<close>

definition round_quot :: "nat \<Rightarrow> nat \<Rightarrow> nat \<Rightarrow> nat" where
  "round_quot p x d = (let k = bit_len (x div d) - p; u = 2 ^ k * d; q = x div u; r = x mod u
     in (if 2 * r < u \<or> (2 * r = u \<and> even q) then q else q + 1) * 2 ^ k)"

lemma round_quot_0 [simp]: "0 < d \<Longrightarrow> round_quot p 0 d = 0"
  by (simp add: round_quot_def Let_def)

text \<open>What has few enough significant bits is left as it is.\<close>

lemma round_quot_exact:
  assumes "0 < d" "m < 2 ^ p"
  shows "round_quot p (m * 2 ^ j * d) d = m * 2 ^ j"
proof -
  define k where "k = bit_len (m * 2 ^ j) - p"
  have "m * 2 ^ j < 2 ^ (p + j)" using assms(2) by (simp add: power_add)
  then have "bit_len (m * 2 ^ j) \<le> p + j" by (rule bit_len_upper)
  then have k: "k \<le> j" by (simp add: k_def)
  have x: "m * 2 ^ j * d = m * 2 ^ (j - k) * (2 ^ k * d)"
    using k by (simp add: mult.assoc [symmetric] flip: power_add)
  have "m * 2 ^ j * d div (2 ^ k * d) = m * 2 ^ (j - k)" "m * 2 ^ j * d mod (2 ^ k * d) = 0"
    unfolding x using assms(1) by simp_all
  moreover have "bit_len (m * 2 ^ j * d div d) - p = k" using assms(1) by (simp add: k_def)
  ultimately have "round_quot p (m * 2 ^ j * d) d = m * 2 ^ (j - k) * 2 ^ k"
    using assms(1) by (simp add: round_quot_def Let_def)
  then show ?thesis using k by (simp add: mult.assoc flip: power_add)
qed

section \<open>Single precision\<close>

definition f32_round :: "int \<Rightarrow> f32" where
  "f32_round n = sgn n * int (round_quot 24 (nat \<bar>n\<bar>) 1)"

definition f32_add :: "f32 \<Rightarrow> f32 \<Rightarrow> f32" where
  "f32_add a b = f32_round (a + b)"

definition f32_div :: "f32 \<Rightarrow> f32 \<Rightarrow> f32" where
  "f32_div a b = sgn a * sgn b * int (round_quot 24 (nat \<bar>a\<bar> * 2 ^ f32_unit_bits) (nat \<bar>b\<bar>))"

definition f32_of_nat :: "nat \<Rightarrow> f32" where
  "f32_of_nat n = int (round_quot 24 (n * 2 ^ f32_unit_bits) 1)"

section \<open>Double precision\<close>

text \<open>The conversion \<open>float64(x)\<close> is exact, \<open>float32(x)\<close> rounds.\<close>

definition f64_of_f32 :: "f32 \<Rightarrow> f64" where
  "f64_of_f32 a = a * 2 ^ (f64_unit_bits - f32_unit_bits)"

definition f32_of_f64 :: "f64 \<Rightarrow> f32" where
  "f32_of_f64 a = sgn a * int (round_quot 24 (nat \<bar>a\<bar>) (2 ^ (f64_unit_bits - f32_unit_bits)))"

definition f64_mul :: "f64 \<Rightarrow> f64 \<Rightarrow> f64" where
  "f64_mul a b = sgn a * sgn b * int (round_quot 53 (nat \<bar>a\<bar> * nat \<bar>b\<bar>) (2 ^ f64_unit_bits))"

definition f64_of_int :: "int \<Rightarrow> f64" where
  "f64_of_int n = f64_round (n * 2 ^ f64_unit_bits)"

lemma f64_mul_comm: "f64_mul a b = f64_mul b a"
  by (simp add: f64_mul_def mult.commute)

text \<open>The largest natural whose square is at most \<open>n\<close>.\<close>

fun isqrt :: "nat \<Rightarrow> nat" where
  "isqrt n = (if n = 0 then 0 else let r = 2 * isqrt (n div 4) in if (r + 1) * (r + 1) \<le> n then r + 1 else r)"

declare isqrt.simps [simp del]

lemma isqrt_correct: "isqrt n * isqrt n \<le> n \<and> n < (isqrt n + 1) * (isqrt n + 1)"
proof (induction n rule: isqrt.induct)
  case (1 n)
  show ?case
  proof (cases "n = 0")
    case False
    define s where "s = isqrt (n div 4)"
    have s: "s * s \<le> n div 4" "n div 4 < (s + 1) * (s + 1)" using 1 False by (simp_all add: s_def)
    have n: "n = 4 * (n div 4) + n mod 4" "n mod 4 < 4" by simp_all
    have "4 * (s * s) \<le> n" "n < 4 * ((s + 1) * (s + 1))" using s n by linarith+
    then show ?thesis
      by (subst (1 2 3 4) isqrt.simps) (simp add: False Let_def s_def [symmetric] algebra_simps)
  qed (simp add: isqrt.simps)
qed

text \<open>
  \<open>math.Sqrt\<close>, correctly rounded. The root of the least double has far more than 53 bits
  in this unit, so the quotient below is never cut short.
\<close>

definition f64_sqrt :: "f64 \<Rightarrow> f64" where
  "f64_sqrt x = (let n = nat x * 2 ^ f64_unit_bits; s = isqrt n; k = bit_len s - 53; q = s div 2 ^ k
     in int ((if 0 < k \<and> (2 * q + 1)\<^sup>2 * 2 ^ (2 * k - 2) \<le> n then q + 1 else q) * 2 ^ k))"

end
