(* ===== verification/GraphTypes.thy ===== *)
theory GraphTypes
  imports GoText GoInt GoFloat32
begin

text \<open>
  The domain of graph materialisation in the feature materializer:
  \<open>feature_materializer_service/pkg/domain/errors.go\<close> and, in \<open>pkg/domain/model\<close>,
  \<open>graph.go\<close>, \<open>snapshot_status.go\<close>, \<open>embedding_snapshot.go\<close> and
  \<open>embedding_strategy.go\<close>. A pointer that may be nil is an option, a missing UUID is
  \<open>uuid.Nil\<close>, a Go \<open>int\<close> an integer in the range of 64 bits, a \<open>float64\<close> and a
  \<open>float32\<close> the integers of \<open>GoFloat64\<close> and \<open>GoFloat32\<close>.
\<close>

section \<open>Errors\<close>

datatype feature_code =
  ErrValidationFailed | ErrRawSnapshotMaterialize | ErrFeatureSnapshotBuild | ErrEmbeddingMaterialize
| ErrEmbeddingSearch | ErrGraphMaterialize | ErrGraphPersistence | ErrGraphEntityResolution
| ErrGraphCommunityReport | ErrGraphExtractionInvalid | ErrGraphSearch | ErrArtifactRead
| ErrArtifactWrite | ErrCatalogRegister | ErrRegistryUpdate | ErrRawSnapshotNotFound
| ErrFeatureSnapshotNotFound | ErrEmbeddingSnapshotNotFound | ErrGraphSnapshotNotFound
| ErrRawSnapshotInProgress | ErrFeatureSnapshotInProgress | ErrEmbeddingSnapshotInProgress
| ErrGraphSnapshotInProgress

fun feature_message :: "feature_code \<Rightarrow> string" where
  "feature_message ErrValidationFailed = ''validation failed''"
| "feature_message ErrRawSnapshotMaterialize = ''raw snapshot materialize failed''"
| "feature_message ErrFeatureSnapshotBuild = ''feature snapshot build failed''"
| "feature_message ErrEmbeddingMaterialize = ''embedding materialize failed''"
| "feature_message ErrEmbeddingSearch = ''embedding search failed''"
| "feature_message ErrGraphMaterialize = ''graph materialize failed''"
| "feature_message ErrGraphPersistence = ''graph persistence failed''"
| "feature_message ErrGraphEntityResolution = ''graph entity resolution failed''"
| "feature_message ErrGraphCommunityReport = ''graph community report failed''"
| "feature_message ErrGraphExtractionInvalid = ''graph extraction document invalid''"
| "feature_message ErrGraphSearch = ''graph search failed''"
| "feature_message ErrArtifactRead = ''artifact read failed''"
| "feature_message ErrArtifactWrite = ''artifact write failed''"
| "feature_message ErrCatalogRegister = ''catalog register failed''"
| "feature_message ErrRegistryUpdate = ''registry update failed''"
| "feature_message ErrRawSnapshotNotFound = ''raw snapshot not found''"
| "feature_message ErrFeatureSnapshotNotFound = ''feature snapshot not found''"
| "feature_message ErrEmbeddingSnapshotNotFound = ''embedding snapshot not found''"
| "feature_message ErrGraphSnapshotNotFound = ''graph snapshot not found''"
| "feature_message ErrRawSnapshotInProgress = ''raw snapshot in progress''"
| "feature_message ErrFeatureSnapshotInProgress = ''feature snapshot in progress''"
| "feature_message ErrEmbeddingSnapshotInProgress = ''embedding snapshot in progress''"
| "feature_message ErrGraphSnapshotInProgress = ''graph snapshot in progress''"

text \<open>
  A service error with its message, an error made by \<open>fmt.Errorf\<close> with its text and what it
  wraps, or an error from outside.
\<close>

datatype feature_error =
  FeatureServiceError feature_code string
| FeatureWrapped string "feature_error list"
| FeatureOther string

fun feature_Error :: "feature_error \<Rightarrow> string" where
  "feature_Error (FeatureServiceError _ message) = message"
| "feature_Error (FeatureWrapped s _) = s"
| "feature_Error (FeatureOther s) = s"

definition feature_err :: "feature_code \<Rightarrow> feature_error" where
  "feature_err code = FeatureServiceError code (feature_message code)"

definition feature_Extend :: "feature_code \<Rightarrow> string \<Rightarrow> feature_error" where
  "feature_Extend code message = FeatureServiceError code message"

text \<open>\<open>fmt.Errorf(""%w: ...: %w"", service error, cause)\<close>.\<close>

definition wrap_errors :: "feature_code \<Rightarrow> string \<Rightarrow> feature_error \<Rightarrow> feature_error" where
  "wrap_errors code what cause =
     FeatureWrapped (feature_message code @ '': '' @ what @ feature_Error cause) [feature_err code, cause]"

text \<open>\<open>errors.As\<close> takes the first service error of the tree of wrapped errors.\<close>

fun service_code :: "feature_error \<Rightarrow> feature_code option"
and service_codes :: "feature_error list \<Rightarrow> feature_code option" where
  "service_code (FeatureServiceError code _) = Some code"
| "service_code (FeatureWrapped _ es) = service_codes es"
| "service_code (FeatureOther _) = None"
| "service_codes [] = None"
| "service_codes (e # es) = (case service_code e of Some c \<Rightarrow> Some c | None \<Rightarrow> service_codes es)"

lemma service_code_simps [simp]:
  "service_code (feature_err c) = Some c" "service_code (feature_Extend c m) = Some c"
  "service_code (wrap_errors c what cause) = Some c"
  by (simp_all add: feature_err_def feature_Extend_def wrap_errors_def)

section \<open>Snapshots\<close>

text \<open>The verb \<open>%q\<close> is modelled for texts that need no escape.\<close>

datatype SnapshotStatus = SnapshotStatusPending | SnapshotStatusReady | SnapshotStatusFailed

fun SnapshotStatus_String :: "SnapshotStatus \<Rightarrow> string" where
  "SnapshotStatus_String SnapshotStatusPending = ''PENDING''"
| "SnapshotStatus_String SnapshotStatusReady = ''READY''"
| "SnapshotStatus_String SnapshotStatusFailed = ''FAILED''"

definition ToSnapshotStatus :: "string \<Rightarrow> string + SnapshotStatus" where
  "ToSnapshotStatus s = (let t = ToUpper (TrimSpace s) in
     if t = ''PENDING'' then Inr SnapshotStatusPending
     else if t = ''READY'' then Inr SnapshotStatusReady
     else if t = ''FAILED'' then Inr SnapshotStatusFailed
     else Inl (''invalid snapshot status '' @ CHR 0x22 # s @ [CHR 0x22]))"

interpretation snapshot_status: text_enum "\<lambda>_. True" SnapshotStatus_String ToSnapshotStatus
proof
  show "ToSnapshotStatus (SnapshotStatus_String x) = Inr x" for x by (cases x; hypsubst; code_simp)
qed simp

record graph_snapshot =
  gsn_GraphSnapshotID :: uuid
  gsn_FeatureSnapshotID :: uuid
  gsn_EmbeddingSnapshotID :: uuid
  gsn_DatasetID :: uuid
  gsn_UserID :: uuid
  gsn_OrgID :: uuid
  gsn_MaterializationEventSeq :: int
  gsn_IdempotencyKey :: uuid
  gsn_ProvenanceHash :: string
  gsn_ExtractionModel :: string
  gsn_ExtractionPromptVersion :: string
  gsn_ExtractionSchemaVersion :: string
  gsn_ChunkCount :: int
  gsn_ChunksProcessed :: int
  gsn_EntityCount :: int
  gsn_EdgeCount :: int
  gsn_ActiveForRetrieval :: bool
  gsn_Status :: SnapshotStatus
  gsn_FailureReason :: string

record embedding_strategy =
  est_StrategyVersion :: string
  est_ExtractorName :: string
  est_ExtractorVersion :: string
  est_CleanerName :: string
  est_CleanerVersion :: string
  est_ChunkerName :: string
  est_ChunkerVersion :: string
  est_ChunkSize :: int
  est_ChunkOverlap :: int
  est_EmbeddingProvider :: string
  est_EmbeddingModel :: string
  est_EmbeddingDimensions :: int

definition NormalizeEmbeddingStrategy :: "embedding_strategy \<Rightarrow> embedding_strategy" where
  "NormalizeEmbeddingStrategy s = s\<lparr>est_StrategyVersion := TrimSpace (est_StrategyVersion s),
     est_ExtractorName := TrimSpace (est_ExtractorName s),
     est_ExtractorVersion := TrimSpace (est_ExtractorVersion s),
     est_CleanerName := TrimSpace (est_CleanerName s),
     est_CleanerVersion := TrimSpace (est_CleanerVersion s),
     est_ChunkerName := TrimSpace (est_ChunkerName s),
     est_ChunkerVersion := TrimSpace (est_ChunkerVersion s),
     est_EmbeddingProvider := ToLower (TrimSpace (est_EmbeddingProvider s)),
     est_EmbeddingModel := TrimSpace (est_EmbeddingModel s)\<rparr>"

record embedding_snapshot =
  esn_EmbeddingSnapshotID :: uuid
  esn_FeatureSnapshotID :: uuid
  esn_DatasetID :: uuid
  esn_UserID :: uuid
  esn_OrgID :: uuid
  esn_MaterializationEventSeq :: int
  esn_VectorStore :: string
  esn_CollectionName :: string
  esn_EmbeddingDimensions :: int
  esn_EmbeddingCount :: int
  esn_StrategyVersion :: string
  esn_ExtractorName :: string
  esn_ExtractorVersion :: string
  esn_CleanerName :: string
  esn_CleanerVersion :: string
  esn_ChunkerName :: string
  esn_ChunkerVersion :: string
  esn_ChunkSize :: int
  esn_ChunkOverlap :: int
  esn_EmbeddingProvider :: string
  esn_EmbeddingModel :: string
  esn_ActiveForRetrieval :: bool
  esn_Status :: SnapshotStatus
  esn_FailureReason :: string

section \<open>The graph\<close>

record graph_chunk =
  gch_EmbeddingRecordID :: uuid
  gch_EmbeddingSnapshotID :: uuid
  gch_DatasetID :: uuid
  gch_UserID :: uuid
  gch_OrgID :: uuid
  gch_ChunkIndex :: int
  gch_SourceText :: string

record graph_node =
  gno_GraphNodeID :: uuid
  gno_GraphSnapshotID :: uuid
  gno_DatasetID :: uuid
  gno_UserID :: uuid
  gno_OrgID :: uuid
  gno_EntityKey :: string
  gno_Name :: string
  gno_Type :: string
  gno_Description :: string
  gno_MentionCount :: int
  gno_AssertionStatus :: string

record graph_edge =
  ged_GraphEdgeID :: uuid
  ged_GraphSnapshotID :: uuid
  ged_DatasetID :: uuid
  ged_UserID :: uuid
  ged_OrgID :: uuid
  ged_SourceNodeID :: uuid
  ged_TargetNodeID :: uuid
  ged_SourceEntityKey :: string
  ged_TargetEntityKey :: string
  ged_RelationType :: string
  ged_Description :: string
  ged_Weight :: f64
  ged_AssertionStatus :: string

record graph_node_chunk =
  gnc_GraphNodeChunkID :: uuid
  gnc_GraphSnapshotID :: uuid
  gnc_GraphNodeID :: uuid
  gnc_EntityKey :: string
  gnc_EmbeddingRecordID :: uuid
  gnc_EmbeddingSnapshotID :: uuid
  gnc_DatasetID :: uuid
  gnc_UserID :: uuid
  gnc_OrgID :: uuid
  gnc_ChunkIndex :: int
  gnc_SourceText :: string
  gnc_AssertionStatus :: string

record graph_node_alias =
  gna_GraphNodeAliasID :: uuid
  gna_GraphSnapshotID :: uuid
  gna_GraphNodeID :: uuid
  gna_CanonicalEntityKey :: string
  gna_SourceEntityKey :: string
  gna_Alias :: string
  gna_Type :: string
  gna_AssertionStatus :: string
  gna_DatasetID :: uuid
  gna_UserID :: uuid
  gna_OrgID :: uuid

record graph_node_embedding =
  gne_GraphNodeEmbeddingID :: uuid
  gne_GraphSnapshotID :: uuid
  gne_GraphNodeID :: uuid
  gne_EntityKey :: string
  gne_EmbeddingSnapshotID :: uuid
  gne_DatasetID :: uuid
  gne_UserID :: uuid
  gne_OrgID :: uuid
  gne_EmbeddingText :: string
  gne_Vector :: "f32 list"
  gne_AssertionStatus :: string

record graph_community =
  gcm_GraphCommunityID :: uuid
  gcm_GraphSnapshotID :: uuid
  gcm_DatasetID :: uuid
  gcm_UserID :: uuid
  gcm_OrgID :: uuid
  gcm_CommunityKey :: string
  gcm_Algorithm :: string
  gcm_Level :: int
  gcm_Title :: string
  gcm_Summary :: string
  gcm_Rank :: f64
  gcm_EntityCount :: int
  gcm_EdgeCount :: int
  gcm_AssertionStatus :: string

record graph_community_member =
  gcb_GraphCommunityMemberID :: uuid
  gcb_GraphCommunityID :: uuid
  gcb_GraphSnapshotID :: uuid
  gcb_GraphNodeID :: uuid
  gcb_EntityKey :: string
  gcb_CommunityKey :: string
  gcb_DatasetID :: uuid
  gcb_UserID :: uuid
  gcb_OrgID :: uuid
  gcb_AssertionStatus :: string

record graph_community_report =
  gcr_GraphCommunityReportID :: uuid
  gcr_GraphCommunityID :: uuid
  gcr_GraphSnapshotID :: uuid
  gcr_EmbeddingSnapshotID :: uuid
  gcr_DatasetID :: uuid
  gcr_UserID :: uuid
  gcr_OrgID :: uuid
  gcr_CommunityKey :: string
  gcr_Level :: int
  gcr_Title :: string
  gcr_Summary :: string
  gcr_ReportText :: string
  gcr_Rank :: f64
  gcr_ReportVersion :: string
  gcr_EmbeddingText :: string
  gcr_Vector :: "f32 list"
  gcr_AssertionStatus :: string

record graph_materialization =
  gmz_Snapshot :: "graph_snapshot option"
  gmz_Nodes :: "graph_node list"
  gmz_Edges :: "graph_edge list"
  gmz_NodeChunks :: "graph_node_chunk list"
  gmz_NodeAliases :: "graph_node_alias list"
  gmz_NodeEmbeddings :: "graph_node_embedding list"
  gmz_Communities :: "graph_community list"
  gmz_CommunityMembers :: "graph_community_member list"
  gmz_CommunityReports :: "graph_community_report list"

section \<open>What the extractor returns\<close>

record graph_extraction_entity =
  gxe_ID :: string
  gxe_Name :: string
  gxe_Type :: string
  gxe_Description :: string
  gxe_ChunkIndex :: int

record graph_extraction_relation =
  gxr_Source :: string
  gxr_Target :: string
  gxr_Type :: string
  gxr_Description :: string
  gxr_Weight :: f64

record graph_extraction =
  gx_Entities :: "graph_extraction_entity list"
  gx_Relations :: "graph_extraction_relation list"

definition DefaultGraphExtractionModel :: string where "DefaultGraphExtractionModel = []"
definition DefaultGraphExtractionPromptVersion :: string where
  "DefaultGraphExtractionPromptVersion = ''graph_extraction_prompt_v1''"
definition DefaultGraphExtractionSchemaVersion :: string where
  "DefaultGraphExtractionSchemaVersion = ''graph_extraction_v1''"
definition GraphCommunityAlgorithmConnectedComponents :: string where
  "GraphCommunityAlgorithmConnectedComponents = ''connected_components_v1''"
definition GraphCommunityReportExtractiveV1 :: string where
  "GraphCommunityReportExtractiveV1 = ''graph_community_report_extractive_v1''"

record graph_extraction_strategy =
  gxs_ExtractionModel :: string
  gxs_ExtractionPromptVersion :: string
  gxs_ExtractionSchemaVersion :: string

definition ApplyGraphExtractionStrategyDefaults :: "graph_extraction_strategy \<Rightarrow> graph_extraction_strategy" where
  "ApplyGraphExtractionStrategyDefaults s =
     (let model = TrimSpace (gxs_ExtractionModel s); prompt = TrimSpace (gxs_ExtractionPromptVersion s);
          schema = TrimSpace (gxs_ExtractionSchemaVersion s)
      in \<lparr>gxs_ExtractionModel = (if model = [] then DefaultGraphExtractionModel else model),
          gxs_ExtractionPromptVersion = (if prompt = [] then DefaultGraphExtractionPromptVersion else prompt),
          gxs_ExtractionSchemaVersion = (if schema = [] then DefaultGraphExtractionSchemaVersion else schema)\<rparr>)"

end
