(* ===== verification/GraphExtraction.thy ===== *)
theory GraphExtraction
  imports GraphTypes "HOL-Library.AList" "HOL-Library.Product_Lexorder"
begin

text \<open>
  From what the model extracted to nodes and edges: \<open>graphMaterializationFromExtraction\<close> of
  \<open>feature_materializer_service/pkg/app/graph_materialization_usecase.go\<close>.

  A Go map that is only looked up is a map, one whose entries are collected is a list of keys
  and values in the order of insertion. Ranging over a map visits its keys in any order:
  \<open>range_keys n\<close> is the order of the \<open>n\<close>-th such loop. \<open>uuid_text\<close> is the text of a UUID.
  Where \<open>sort.Slice\<close> leaves the order of equal elements open, they keep their order.
\<close>

section \<open>Keys\<close>

definition single_spaced :: "string \<Rightarrow> string" where
  "single_spaced s = ToLower (Join (Fields (TrimSpace s)) '' '')"

definition graphEntityKey :: "string \<Rightarrow> string \<Rightarrow> string" where
  "graphEntityKey rawName rawType = (let name = single_spaced rawName; entityType = single_spaced rawType in
     if name = [] then [] else if entityType = [] then name else entityType @ '':'' @ name)"

definition HasSuffix :: "string \<Rightarrow> string \<Rightarrow> bool" where
  "HasSuffix s t = HasPrefix (rev s) (rev t)"

text \<open>A missing key of a Go map reads as the zero value, for texts the empty one.\<close>

definition text_at :: "('k \<rightharpoonup> string) \<Rightarrow> 'k \<Rightarrow> string" where
  "text_at m k = (case m k of Some v \<Rightarrow> v | None \<Rightarrow> [])"

text \<open>The key \<open>a + ""\x00"" + b\<close>.\<close>

definition pair_key :: "string \<Rightarrow> string \<Rightarrow> string" where
  "pair_key a b = a @ CHR 0x00 # b"

section \<open>Entities\<close>

record extraction_state =
  exs_nodeByKey :: "(string \<times> graph_node) list"
  exs_entityIDToKey :: "string \<rightharpoonup> string"
  exs_nodeChunkSeen :: "string list"
  exs_nodeChunks :: "graph_node_chunk list"

definition new_node :: "graph_snapshot \<Rightarrow> string \<Rightarrow> graph_extraction_entity \<Rightarrow> graph_node" where
  "new_node snapshot key entity = \<lparr>gno_GraphNodeID = uuid_nil, gno_GraphSnapshotID = gsn_GraphSnapshotID snapshot,
     gno_DatasetID = gsn_DatasetID snapshot, gno_UserID = gsn_UserID snapshot, gno_OrgID = gsn_OrgID snapshot,
     gno_EntityKey = key, gno_Name = TrimSpace (gxe_Name entity), gno_Type = TrimSpace (gxe_Type entity),
     gno_Description = TrimSpace (gxe_Description entity), gno_MentionCount = 0, gno_AssertionStatus = []\<rparr>"

definition mentioned_node ::
  "graph_snapshot \<Rightarrow> string \<Rightarrow> graph_extraction_entity \<Rightarrow> graph_node option \<Rightarrow> graph_node" where
  "mentioned_node snapshot key entity known =
     (let node = (case known of
            None \<Rightarrow> new_node snapshot key entity
          | Some n \<Rightarrow> if gno_Description n = [] \<and> TrimSpace (gxe_Description entity) \<noteq> []
                      then n\<lparr>gno_Description := TrimSpace (gxe_Description entity)\<rparr> else n)
      in node\<lparr>gno_MentionCount := wrap64 (gno_MentionCount node + 1)\<rparr>)"

definition new_node_chunk :: "graph_snapshot \<Rightarrow> string \<Rightarrow> graph_chunk \<Rightarrow> graph_node_chunk" where
  "new_node_chunk snapshot key chunk = \<lparr>gnc_GraphNodeChunkID = uuid_nil,
     gnc_GraphSnapshotID = gsn_GraphSnapshotID snapshot, gnc_GraphNodeID = uuid_nil, gnc_EntityKey = key,
     gnc_EmbeddingRecordID = gch_EmbeddingRecordID chunk, gnc_EmbeddingSnapshotID = gch_EmbeddingSnapshotID chunk,
     gnc_DatasetID = gsn_DatasetID snapshot, gnc_UserID = gsn_UserID snapshot, gnc_OrgID = gsn_OrgID snapshot,
     gnc_ChunkIndex = gch_ChunkIndex chunk, gnc_SourceText = gch_SourceText chunk, gnc_AssertionStatus = []\<rparr>"

definition add_node_chunk ::
  "(uuid \<Rightarrow> string) \<Rightarrow> graph_snapshot \<Rightarrow> string \<Rightarrow> graph_chunk option \<Rightarrow> extraction_state \<Rightarrow> extraction_state" where
  "add_node_chunk uuid_text snapshot key found st = (case found of
     None \<Rightarrow> st
   | Some chunk \<Rightarrow> let chunkKey = pair_key key (uuid_text (gch_EmbeddingRecordID chunk)) in
       if chunkKey \<in> set (exs_nodeChunkSeen st) then st
       else st\<lparr>exs_nodeChunks := exs_nodeChunks st @ [new_node_chunk snapshot key chunk],
               exs_nodeChunkSeen := chunkKey # exs_nodeChunkSeen st\<rparr>)"

definition add_entity ::
  "(uuid \<Rightarrow> string) \<Rightarrow> graph_snapshot \<Rightarrow> (int \<rightharpoonup> graph_chunk) \<Rightarrow> graph_extraction_entity \<Rightarrow> extraction_state \<Rightarrow> extraction_state" where
  "add_entity uuid_text snapshot chunkByIndex entity st =
     (let key = graphEntityKey (gxe_Name entity) (gxe_Type entity) in
      if key = [] then st
      else let trimmedID = TrimSpace (gxe_ID entity);
               node = mentioned_node snapshot key entity (map_of (exs_nodeByKey st) key)
           in add_node_chunk uuid_text snapshot key (chunkByIndex (gxe_ChunkIndex entity))
                (st\<lparr>exs_entityIDToKey := (if trimmedID = [] then exs_entityIDToKey st
                                           else (exs_entityIDToKey st)(trimmedID \<mapsto> key)),
                    exs_nodeByKey := AList.update key node (exs_nodeByKey st)\<rparr>))"

definition extract_entities ::
  "(uuid \<Rightarrow> string) \<Rightarrow> graph_snapshot \<Rightarrow> graph_chunk list \<Rightarrow> graph_extraction_entity list \<Rightarrow> extraction_state" where
  "extract_entities uuid_text snapshot chunks entities =
     fold (add_entity uuid_text snapshot (map_of (rev (map (\<lambda>c. (gch_ChunkIndex c, c)) chunks)))) entities
       \<lparr>exs_nodeByKey = [], exs_entityIDToKey = Map.empty, exs_nodeChunkSeen = [], exs_nodeChunks = []\<rparr>"

section \<open>Relations\<close>

definition resolveRelationEntityKey :: "(string list \<Rightarrow> string list) \<Rightarrow> string \<Rightarrow> (string \<times> graph_node) list \<Rightarrow> string" where
  "resolveRelationEntityKey visit nameKey nodes =
     (if nameKey \<in> set (map fst nodes) then nameKey
      else case find (\<lambda>key. HasSuffix key ('':'' @ nameKey)) (visit (map fst nodes)) of
             Some key \<Rightarrow> key | None \<Rightarrow> [])"

definition relation_key ::
  "(string list \<Rightarrow> string list) \<Rightarrow> extraction_state \<Rightarrow> string \<Rightarrow> string" where
  "relation_key visit st name = (let byID = text_at (exs_entityIDToKey st) (TrimSpace name) in
     resolveRelationEntityKey visit (if byID = [] then graphEntityKey name [] else byID) (exs_nodeByKey st))"

definition relation_edge ::
  "(nat \<Rightarrow> string list \<Rightarrow> string list) \<Rightarrow> graph_snapshot \<Rightarrow> extraction_state \<Rightarrow> nat \<times> graph_extraction_relation \<Rightarrow> graph_edge option" where
  "relation_edge range_keys snapshot st = (\<lambda>(i, relation).
     let sourceKey = relation_key (range_keys (2 * i)) st (gxr_Source relation);
         targetKey = relation_key (range_keys (2 * i + 1)) st (gxr_Target relation)
     in if sourceKey = [] \<or> targetKey = [] \<or> sourceKey = targetKey then None
        else Some \<lparr>ged_GraphEdgeID = uuid_nil, ged_GraphSnapshotID = gsn_GraphSnapshotID snapshot,
          ged_DatasetID = gsn_DatasetID snapshot, ged_UserID = gsn_UserID snapshot, ged_OrgID = gsn_OrgID snapshot,
          ged_SourceNodeID = uuid_nil, ged_TargetNodeID = uuid_nil,
          ged_SourceEntityKey = sourceKey, ged_TargetEntityKey = targetKey,
          ged_RelationType = TrimSpace (gxr_Type relation), ged_Description = TrimSpace (gxr_Description relation),
          ged_Weight = (if gxr_Weight relation \<le> 0 then f64_one else gxr_Weight relation),
          ged_AssertionStatus = []\<rparr>)"

definition graphMaterializationFromExtraction ::
  "(uuid \<Rightarrow> string) \<Rightarrow> (nat \<Rightarrow> string list \<Rightarrow> string list) \<Rightarrow> graph_snapshot \<Rightarrow> graph_chunk list \<Rightarrow>
   graph_extraction option \<Rightarrow> graph_materialization" where
  "graphMaterializationFromExtraction uuid_text range_keys snapshot chunks extraction =
     (let entities = (case extraction of Some x \<Rightarrow> gx_Entities x | None \<Rightarrow> []);
          relations = (case extraction of Some x \<Rightarrow> gx_Relations x | None \<Rightarrow> []);
          st = extract_entities uuid_text snapshot chunks entities;
          nodes = sort_key gno_EntityKey (map snd (exs_nodeByKey st));
          edges = List.map_filter (relation_edge range_keys snapshot st) (List.enumerate 0 relations)
      in \<lparr>gmz_Snapshot = Some (snapshot\<lparr>gsn_ChunksProcessed := int (length chunks),
            gsn_EntityCount := int (length nodes), gsn_EdgeCount := int (length edges),
            gsn_Status := SnapshotStatusReady\<rparr>),
          gmz_Nodes = nodes, gmz_Edges = edges, gmz_NodeChunks = exs_nodeChunks st, gmz_NodeAliases = [],
          gmz_NodeEmbeddings = [], gmz_Communities = [], gmz_CommunityMembers = [], gmz_CommunityReports = []\<rparr>)"

section \<open>What an extraction gives\<close>

text \<open>
  A graph is closed when its nodes are sorted by distinct keys, its edges join two different
  nodes with a positive weight, and its chunks belong to nodes, each at most once per record.
\<close>

definition closed_graph :: "graph_node list \<Rightarrow> graph_edge list \<Rightarrow> graph_node_chunk list \<Rightarrow> bool" where
  "closed_graph nodes edges chunks \<longleftrightarrow>
     sorted_wrt (<) (map gno_EntityKey nodes) \<and> [] \<notin> gno_EntityKey ` set nodes \<and>
     (\<forall>e \<in> set edges. ged_SourceEntityKey e \<in> gno_EntityKey ` set nodes \<and>
        ged_TargetEntityKey e \<in> gno_EntityKey ` set nodes \<and>
        ged_SourceEntityKey e \<noteq> ged_TargetEntityKey e \<and> 0 < ged_Weight e) \<and>
     gnc_EntityKey ` set chunks \<subseteq> gno_EntityKey ` set nodes \<and>
     distinct (map (\<lambda>c. (gnc_EntityKey c, gnc_EmbeddingRecordID c)) chunks)"

definition extraction_ok :: "(uuid \<Rightarrow> string) \<Rightarrow> extraction_state \<Rightarrow> bool" where
  "extraction_ok uuid_text st \<longleftrightarrow> distinct (map fst (exs_nodeByKey st)) \<and>
     (\<forall>(k, n) \<in> set (exs_nodeByKey st). gno_EntityKey n = k \<and> k \<noteq> []) \<and>
     set (exs_nodeChunkSeen st) =
       (\<lambda>c. pair_key (gnc_EntityKey c) (uuid_text (gnc_EmbeddingRecordID c))) ` set (exs_nodeChunks st) \<and>
     distinct (map (\<lambda>c. pair_key (gnc_EntityKey c) (uuid_text (gnc_EmbeddingRecordID c))) (exs_nodeChunks st)) \<and>
     gnc_EntityKey ` set (exs_nodeChunks st) \<subseteq> set (map fst (exs_nodeByKey st))"

lemma mentioned_node_key:
  "(case known of None \<Rightarrow> True | Some n \<Rightarrow> gno_EntityKey n = key) \<Longrightarrow>
   gno_EntityKey (mentioned_node snapshot key entity known) = key"
  by (auto simp: mentioned_node_def new_node_def Let_def split: option.splits)

lemma extraction_ok_add_chunk:
  assumes "extraction_ok uuid_text st" "key \<in> set (map fst (exs_nodeByKey st))"
  shows "extraction_ok uuid_text (add_node_chunk uuid_text snapshot key found st)"
  using assms by (auto simp: extraction_ok_def add_node_chunk_def new_node_chunk_def Let_def split: option.splits)

lemma extraction_ok_update:
  assumes "extraction_ok uuid_text st" "gno_EntityKey node = key" "key \<noteq> []"
  shows "extraction_ok uuid_text (st\<lparr>exs_entityIDToKey := m, exs_nodeByKey := AList.update key node (exs_nodeByKey st)\<rparr>)"
proof -
  let ?nodes = "exs_nodeByKey st" and ?new = "AList.update key node (exs_nodeByKey st)"
  have keys: "set (map fst ?new) = insert key (set (map fst ?nodes))"
    by (auto simp: AList.update_keys)
  have d: "distinct (map fst ?new)"
    using assms(1) by (simp add: extraction_ok_def AList.distinct_update)
  have "gno_EntityKey n = k \<and> k \<noteq> []" if "(k, n) \<in> set ?new" for k n
  proof (cases "k = key")
    case True
    have "map_of ?new k = Some n" using that d by simp
    then show ?thesis using True assms(2,3) by (simp add: update_conv)
  next
    case False
    have "map_of ?new k = Some n" using that d by simp
    then have "map_of ?nodes k = Some n" using False by (simp add: update_conv)
    then show ?thesis using assms(1) by (auto simp: extraction_ok_def dest: map_of_SomeD)
  qed
  then show ?thesis using assms(1) d keys by (auto simp: extraction_ok_def)
qed

lemma extraction_ok_add:
  assumes "extraction_ok uuid_text st"
  shows "extraction_ok uuid_text (add_entity uuid_text snapshot chunkByIndex entity st)"
proof -
  define key where "key = graphEntityKey (gxe_Name entity) (gxe_Type entity)"
  define node where "node = mentioned_node snapshot key entity (map_of (exs_nodeByKey st) key)"
  have "gno_EntityKey node = key" unfolding node_def
    by (rule mentioned_node_key) (use assms in \<open>auto simp: extraction_ok_def split: option.splits dest: map_of_SomeD\<close>)
  note upd = extraction_ok_update [OF assms this]
  have "extraction_ok uuid_text (add_node_chunk uuid_text snapshot key found
      (st\<lparr>exs_entityIDToKey := m, exs_nodeByKey := AList.update key node (exs_nodeByKey st)\<rparr>))"
    if "key \<noteq> []" for m found
    by (rule extraction_ok_add_chunk [OF upd [OF that]]) (simp add: AList.update_keys)
  then show ?thesis
    unfolding add_entity_def Let_def key_def [symmetric] node_def [symmetric] by (simp add: assms del: fun_upd_apply)
qed

lemma extract_entities_ok: "extraction_ok uuid_text (extract_entities uuid_text snapshot chunks entities)"
proof -
  have step: "extraction_ok uuid_text st \<Longrightarrow> extraction_ok uuid_text (fold (add_entity uuid_text snapshot m) es st)" for es st m
    by (induction es arbitrary: st) (auto intro: extraction_ok_add)
  show ?thesis unfolding extract_entities_def by (rule step) (simp add: extraction_ok_def)
qed

lemma sorted_distinct_keys:
  fixes k :: "'a \<Rightarrow> 'k::linorder"
  assumes "distinct (map k xs)"
  shows "sorted_wrt (<) (map k (sort_key k xs))"
proof -
  have "mset (map k (sort_key k xs)) = mset (map k xs)" by simp
  then have "distinct (map k (sort_key k xs))" using assms by (metis mset_eq_imp_distinct_iff)
  then show ?thesis by (simp add: strict_sorted_iff)
qed

lemma relation_key_known:
  assumes "relation_key visit st name \<noteq> []" "\<And>xs. set (visit xs) \<subseteq> set xs"
  shows "relation_key visit st name \<in> set (map fst (exs_nodeByKey st))"
proof -
  have "resolveRelationEntityKey visit k nodes \<in> set (map fst nodes)"
    if ne: "resolveRelationEntityKey visit k nodes \<noteq> []" for k and nodes :: "(string \<times> graph_node) list"
  proof (cases "k \<in> set (map fst nodes)")
    case False
    then obtain key where "find (\<lambda>key. HasSuffix key ('':'' @ k)) (visit (map fst nodes)) = Some key"
      "resolveRelationEntityKey visit k nodes = key"
      using ne by (auto simp: resolveRelationEntityKey_def split: option.splits)
    then show ?thesis using find_SomeD assms(2) [of "map fst nodes"] by fast
  qed (simp add: resolveRelationEntityKey_def)
  then show ?thesis using assms(1) by (simp add: relation_key_def Let_def)
qed

lemma extraction_closed:
  assumes "\<And>n xs. set (range_keys n xs) \<subseteq> set xs"
    and "m = graphMaterializationFromExtraction uuid_text range_keys snapshot chunks extraction"
  shows "closed_graph (gmz_Nodes m) (gmz_Edges m) (gmz_NodeChunks m)"
proof -
  obtain entities relations where m: "m = graphMaterializationFromExtraction uuid_text range_keys snapshot chunks
      (Some \<lparr>gx_Entities = entities, gx_Relations = relations\<rparr>)"
    using assms(2) that [of "case extraction of Some x \<Rightarrow> gx_Entities x | None \<Rightarrow> []"
      "case extraction of Some x \<Rightarrow> gx_Relations x | None \<Rightarrow> []"]
    by (cases extraction) (simp_all add: graphMaterializationFromExtraction_def)
  define st where "st = extract_entities uuid_text snapshot chunks entities"
  have ok: "extraction_ok uuid_text st" by (simp add: st_def extract_entities_ok)
  define nodes where "nodes = sort_key gno_EntityKey (map snd (exs_nodeByKey st))"
  have snd_key: "map gno_EntityKey (map snd (exs_nodeByKey st)) = map fst (exs_nodeByKey st)"
    using ok by (auto simp: extraction_ok_def)
  then have keys: "gno_EntityKey ` set nodes = set (map fst (exs_nodeByKey st))"
    unfolding nodes_def by (metis set_map set_sort)
  have parts: "gmz_Nodes m = nodes" "gmz_NodeChunks m = exs_nodeChunks st"
    "gmz_Edges m = List.map_filter (relation_edge range_keys snapshot st) (List.enumerate 0 relations)"
    by (simp_all add: m graphMaterializationFromExtraction_def st_def nodes_def Let_def)
  have "sorted_wrt (<) (map gno_EntityKey nodes)" unfolding nodes_def
    by (rule sorted_distinct_keys) (use ok in \<open>simp only: snd_key extraction_ok_def\<close>)
  moreover have "[] \<notin> gno_EntityKey ` set nodes" unfolding keys using ok by (auto simp: extraction_ok_def)
  moreover have "distinct (map (\<lambda>c. (gnc_EntityKey c, gnc_EmbeddingRecordID c)) (exs_nodeChunks st))"
    using ok by (auto simp: extraction_ok_def distinct_map inj_on_def)
  moreover have "ged_SourceEntityKey e \<in> gno_EntityKey ` set nodes \<and> ged_TargetEntityKey e \<in> gno_EntityKey ` set nodes \<and>
      ged_SourceEntityKey e \<noteq> ged_TargetEntityKey e \<and> 0 < ged_Weight e" if "e \<in> set (gmz_Edges m)" for e
    using that relation_key_known [OF _ assms(1)] unfolding keys parts
    by (auto simp: map_filter_def relation_edge_def Let_def f64_one_def split: if_splits)
  ultimately show ?thesis using ok unfolding closed_graph_def parts keys
    by (auto simp: extraction_ok_def)
qed

end
