(* ===== verification/GraphDisjointSet.thy ===== *)
theory GraphDisjointSet
  imports Prelude "HOL-Library.Monad_Syntax"
begin

text \<open>
  \<open>graphEntityDisjointSet\<close> of \<open>pkg/app/graph_entity_resolver.go\<close>: disjoint sets of indices
  with union by rank and path compression. The locale \<open>disjoint_sets\<close> is what the entity
  resolver and the community builder ask of it.

  \<open>None\<close> stands for a call that does not return: an index out of range panics, and a cycle of
  parents would recurse for ever. Neither happens on a set built by the operations.
\<close>

section \<open>The code\<close>

record disjoint_set =
  ds_parent :: "nat list"
  ds_rank :: "nat list"

definition newGraphEntityDisjointSet :: "nat \<Rightarrow> disjoint_set" where
  "newGraphEntityDisjointSet n = \<lparr>ds_parent = [0..<n], ds_rank = replicate n 0\<rparr>"

partial_function (option) ds_find :: "disjoint_set \<Rightarrow> nat \<Rightarrow> (nat \<times> disjoint_set) option" where
  "ds_find s index =
     (if length (ds_parent s) \<le> index then None
      else if ds_parent s ! index \<noteq> index
      then do {
        (root, s1) \<leftarrow> ds_find s (ds_parent s ! index);
        Some (root, s1\<lparr>ds_parent := (ds_parent s1)[index := root]\<rparr>)
      }
      else Some (ds_parent s ! index, s))"

declare ds_find.simps [code]

definition ds_link :: "disjoint_set \<Rightarrow> nat \<Rightarrow> nat \<Rightarrow> disjoint_set" where
  "ds_link s leftRoot rightRoot =
     (if leftRoot = rightRoot then s
      else if ds_rank s ! leftRoot < ds_rank s ! rightRoot
      then s\<lparr>ds_parent := (ds_parent s)[leftRoot := rightRoot]\<rparr>
      else if ds_rank s ! rightRoot < ds_rank s ! leftRoot
      then s\<lparr>ds_parent := (ds_parent s)[rightRoot := leftRoot]\<rparr>
      else s\<lparr>ds_parent := (ds_parent s)[rightRoot := leftRoot],
             ds_rank := (ds_rank s)[leftRoot := Suc (ds_rank s ! leftRoot)]\<rparr>)"

definition ds_union :: "disjoint_set \<Rightarrow> nat \<Rightarrow> nat \<Rightarrow> disjoint_set option" where
  "ds_union s left right = do {
     (leftRoot, s1) \<leftarrow> ds_find s left;
     (rightRoot, s2) \<leftarrow> ds_find s1 right;
     Some (ds_link s2 leftRoot rightRoot)
   }"

section \<open>Loops\<close>

text \<open>A loop whose body may not return, and one that collects a value in each round.\<close>

fun loop_option :: "('x \<Rightarrow> 's \<Rightarrow> 's option) \<Rightarrow> 'x list \<Rightarrow> 's \<Rightarrow> 's option" where
  "loop_option f [] s = Some s"
| "loop_option f (x # xs) s = do { s1 \<leftarrow> f x s; loop_option f xs s1 }"

fun walk_option :: "('x \<Rightarrow> 's \<Rightarrow> ('y \<times> 's) option) \<Rightarrow> 'x list \<Rightarrow> 's \<Rightarrow> ('y list \<times> 's) option" where
  "walk_option f [] s = Some ([], s)"
| "walk_option f (x # xs) s = do { (y, s1) \<leftarrow> f x s; (ys, s2) \<leftarrow> walk_option f xs s1; Some (y # ys, s2) }"

lemma loop_option_append: "loop_option f (xs @ ys) s = do { s1 \<leftarrow> loop_option f xs s; loop_option f ys s1 }"
  by (induction xs arbitrary: s) (auto split: Option.bind_split)

definition ds_unions :: "(nat \<times> nat) list \<Rightarrow> disjoint_set \<Rightarrow> disjoint_set option" where
  "ds_unions pairs s = loop_option (\<lambda>(i, j) s. ds_union s i j) pairs s"

definition ds_finds :: "nat list \<Rightarrow> disjoint_set \<Rightarrow> (nat list \<times> disjoint_set) option" where
  "ds_finds indexes s = walk_option (\<lambda>i s. ds_find s i) indexes s"

section \<open>The contract\<close>

text \<open>\<open>linked E\<close>: a path of the undirected graph with the edges \<open>E\<close>.\<close>

definition linked :: "('a \<times> 'a) set \<Rightarrow> 'a \<Rightarrow> 'a \<Rightarrow> bool" where
  "linked E a b \<longleftrightarrow> (a, b) \<in> (E \<union> E\<inverse>)\<^sup>*"

lemma linked_empty [simp]: "linked {} a b \<longleftrightarrow> a = b"
  by (simp add: linked_def)

lemma linked_refl [simp]: "linked E a a"
  by (simp add: linked_def)

lemma linked_sym: "linked E a b \<Longrightarrow> linked E b a"
  unfolding linked_def by (rule symD [OF sym_rtrancl]) (auto simp: sym_def)

lemma linked_trans: "linked E a b \<Longrightarrow> linked E b c \<Longrightarrow> linked E a c"
  unfolding linked_def by (rule rtrancl_trans)

lemma linked_edge: "(a, b) \<in> E \<Longrightarrow> linked E a b"
  unfolding linked_def by (rule r_into_rtrancl) simp

lemma linked_mono: "E \<subseteq> F \<Longrightarrow> linked E a b \<Longrightarrow> linked F a b"
  unfolding linked_def by (rule rtrancl_mono [THEN subsetD, rotated]) auto

lemma linked_insert:
  "linked (insert (i, j) E) a b \<longleftrightarrow>
     linked E a b \<or> (linked E a i \<and> linked E b j) \<or> (linked E a j \<and> linked E b i)"
proof
  assume "linked (insert (i, j) E) a b"
  then show "linked E a b \<or> (linked E a i \<and> linked E b j) \<or> (linked E a j \<and> linked E b i)"
    unfolding linked_def [of "insert (i, j) E"]
  proof (induction rule: rtrancl_induct)
    case (step b c)
    then consider "(b, c) \<in> E \<union> E\<inverse>" | "(b, c) = (i, j)" | "(b, c) = (j, i)" by auto
    then show ?case
    proof cases
      case 1
      then have "linked E b c" unfolding linked_def by (rule r_into_rtrancl)
      then show ?thesis using step.IH by (meson linked_sym linked_trans)
    qed (use step.IH in \<open>auto intro: linked_sym dest: linked_trans linked_sym\<close>)
  qed simp
next
  have up: "linked E x y \<Longrightarrow> linked (insert (i, j) E) x y" for x y by (rule linked_mono) auto
  have "linked (insert (i, j) E) i j" by (simp add: linked_edge)
  then show "linked E a b \<or> (linked E a i \<and> linked E b j) \<or> (linked E a j \<and> linked E b i) \<Longrightarrow>
    linked (insert (i, j) E) a b"
    using up by (meson linked_sym linked_trans)
qed

text \<open>
  The indices below \<open>size s\<close> fall into classes; \<open>rep s\<close> chooses one index of each. A find
  returns it and keeps the classes, a union merges two of them.
\<close>

definition merged :: "(nat \<Rightarrow> nat) \<Rightarrow> nat \<Rightarrow> nat \<Rightarrow> nat \<Rightarrow> nat \<Rightarrow> bool" where
  "merged r i j a b \<longleftrightarrow> r a = r b \<or> (r a = r i \<and> r b = r j) \<or> (r a = r j \<and> r b = r i)"

locale disjoint_sets =
  fixes ok :: "'s \<Rightarrow> bool"
    and size_of :: "'s \<Rightarrow> nat"
    and rep :: "'s \<Rightarrow> nat \<Rightarrow> nat"
    and empty_sets :: "nat \<Rightarrow> 's"
    and find_root :: "'s \<Rightarrow> nat \<Rightarrow> (nat \<times> 's) option"
    and unite :: "'s \<Rightarrow> nat \<Rightarrow> nat \<Rightarrow> 's option"
  assumes ok_empty: "ok (empty_sets n)"
    and size_empty: "size_of (empty_sets n) = n"
    and rep_empty: "i < n \<Longrightarrow> rep (empty_sets n) i = i"
    and rep_less: "ok s \<Longrightarrow> i < size_of s \<Longrightarrow> rep s i < size_of s"
    and rep_rep: "ok s \<Longrightarrow> i < size_of s \<Longrightarrow> rep s (rep s i) = rep s i"
    and find_ok: "ok s \<Longrightarrow> i < size_of s \<Longrightarrow> \<exists>s'. find_root s i = Some (rep s i, s') \<and> ok s' \<and>
      size_of s' = size_of s \<and> (\<forall>j < size_of s. rep s' j = rep s j)"
    and unite_ok: "ok s \<Longrightarrow> i < size_of s \<Longrightarrow> j < size_of s \<Longrightarrow> \<exists>s'. unite s i j = Some s' \<and> ok s' \<and>
      size_of s' = size_of s \<and>
      (\<forall>a < size_of s. \<forall>b < size_of s. rep s' a = rep s' b \<longleftrightarrow> merged (rep s) i j a b)"
begin

text \<open>After a list of unions, two indices are in one class when the unions connect them.\<close>

lemma unite_all:
  assumes "\<forall>(i, j) \<in> set es. i < n \<and> j < n"
  shows "\<exists>s. loop_option (\<lambda>(i, j) s. unite s i j) es (empty_sets n) = Some s \<and> ok s \<and> size_of s = n \<and>
    (\<forall>a < n. \<forall>b < n. rep s a = rep s b \<longleftrightarrow> linked (set es) a b)"
  using assms
proof (induction es rule: rev_induct)
  case Nil
  then show ?case by (auto simp: ok_empty size_empty rep_empty linked_empty)
next
  case (snoc e es)
  obtain i j where e: "e = (i, j)" by (cases e)
  with snoc.prems have ij: "i < n" "j < n" by auto
  obtain s where s: "loop_option (\<lambda>(i, j) s. unite s i j) es (empty_sets n) = Some s" "ok s" "size_of s = n"
    and cl: "\<forall>a < n. \<forall>b < n. rep s a = rep s b \<longleftrightarrow> linked (set es) a b"
    using snoc by auto
  obtain s' where s': "unite s i j = Some s'" "ok s'" "size_of s' = n"
    and m: "\<forall>a < n. \<forall>b < n. rep s' a = rep s' b \<longleftrightarrow> merged (rep s) i j a b"
    using unite_ok [OF s(2)] ij s(3) by metis
  have "rep s' a = rep s' b \<longleftrightarrow> linked (set (es @ [e])) a b" if "a < n" "b < n" for a b
  proof -
    have "rep s' a = rep s' b \<longleftrightarrow> merged (rep s) i j a b" using m that by blast
    also have "\<dots> \<longleftrightarrow> linked (insert (i, j) (set es)) a b"
      unfolding merged_def linked_insert using cl that ij by (metis (full_types))
    finally show ?thesis by (simp add: e)
  qed
  then show ?case using s s' by (auto simp: loop_option_append e)
qed

text \<open>A list of finds returns the chosen indices, whatever the finds change.\<close>

lemma find_all:
  assumes "ok s" "\<forall>i \<in> set is. i < size_of s"
  shows "\<exists>s'. walk_option (\<lambda>i s. find_root s i) is s = Some (map (rep s) is, s') \<and> ok s' \<and>
    size_of s' = size_of s \<and> (\<forall>j < size_of s. rep s' j = rep s j)"
  using assms
proof (induction "is" arbitrary: s)
  case (Cons i "is")
  then obtain s1 where s1: "find_root s i = Some (rep s i, s1)" "ok s1" "size_of s1 = size_of s"
    and keep: "\<forall>j < size_of s. rep s1 j = rep s j"
    using find_ok [of s i] by auto
  obtain s2 where s2: "walk_option (\<lambda>i s. find_root s i) is s1 = Some (map (rep s1) is, s2)" "ok s2"
    "size_of s2 = size_of s1" "\<forall>j < size_of s1. rep s2 j = rep s1 j"
    using Cons.IH [of s1] Cons.prems s1 by auto
  have "map (rep s1) is = map (rep s) is" using keep Cons.prems(2) by simp
  then show ?case using s1 s2 keep by simp
qed simp

end

section \<open>The code keeps the contract\<close>

inductive has_root :: "disjoint_set \<Rightarrow> nat \<Rightarrow> nat \<Rightarrow> bool" for s where
  root: "i < length (ds_parent s) \<Longrightarrow> ds_parent s ! i = i \<Longrightarrow> has_root s i i"
| up: "i < length (ds_parent s) \<Longrightarrow> ds_parent s ! i \<noteq> i \<Longrightarrow> has_root s (ds_parent s ! i) r \<Longrightarrow> has_root s i r"

inductive_cases has_rootE: "has_root s i r"

lemma has_root_unique: "has_root s i r \<Longrightarrow> has_root s i q \<Longrightarrow> q = r"
proof (induction arbitrary: q rule: has_root.induct)
  case (root i)
  from root(3) show ?case by (rule has_rootE) (use root(2) in blast)+
next
  case (up i r)
  from up(5) show ?case by (rule has_rootE) (use up(2,4) in blast)+
qed

lemma has_root_step: "i < length (ds_parent s) \<Longrightarrow> ds_parent s ! i = p \<Longrightarrow> p \<noteq> i \<Longrightarrow> has_root s p r \<Longrightarrow> has_root s i r"
  using has_root.up by blast

lemma has_root_is_root: "has_root s i r \<Longrightarrow> i < length (ds_parent s) \<and> r < length (ds_parent s) \<and> ds_parent s ! r = r"
  by (induction rule: has_root.induct) auto

definition ranked :: "disjoint_set \<Rightarrow> bool" where
  "ranked s \<longleftrightarrow> length (ds_rank s) = length (ds_parent s) \<and>
     (\<forall>i < length (ds_parent s). ds_parent s ! i < length (ds_parent s) \<and>
        (ds_parent s ! i \<noteq> i \<longrightarrow> ds_rank s ! i < ds_rank s ! (ds_parent s ! i)))"

lemma has_root_rank: "has_root s i r \<Longrightarrow> ranked s \<Longrightarrow> r \<noteq> i \<Longrightarrow> ds_rank s ! i < ds_rank s ! r"
proof (induction rule: has_root.induct)
  case (up i r)
  then have "ds_rank s ! i < ds_rank s ! (ds_parent s ! i)" by (simp add: ranked_def)
  moreover have "ds_rank s ! (ds_parent s ! i) \<le> ds_rank s ! r" using up by (cases "r = ds_parent s ! i") auto
  ultimately show ?case by simp
qed simp

lemma ranked_has_root:
  assumes "ranked s" "i < length (ds_parent s)"
  shows "\<exists>r. has_root s i r"
  using assms(2)
proof (induction "Suc (Max (set (ds_rank s))) - ds_rank s ! i" arbitrary: i rule: less_induct)
  case less
  let ?p = "ds_parent s ! i"
  show ?case
  proof (cases "?p = i")
    case False
    then have p: "?p < length (ds_parent s)" "ds_rank s ! i < ds_rank s ! ?p"
      using assms(1) less.prems by (auto simp: ranked_def)
    then have "ds_rank s ! ?p \<le> Max (set (ds_rank s))" using assms(1) by (simp add: ranked_def)
    then show ?thesis using less p False by (meson diff_less_mono2 has_root.up le_imp_less_Suc less_trans)
  qed (use less.prems in \<open>auto intro: has_root.root\<close>)
qed

text \<open>Path compression keeps every root.\<close>

lemma compress_roots:
  assumes "has_root s i r" "has_root s j q"
  shows "has_root (s\<lparr>ds_parent := (ds_parent s)[i := r]\<rparr>) j q"
  using assms(2)
proof (induction rule: has_root.induct)
  case (root j)
  show ?case
  proof (cases "j = i")
    case True
    then have "r = j" using assms(1) root has_root.root has_root_unique by metis
    then show ?thesis using root True by (auto intro!: has_root.root)
  qed (use root in \<open>auto intro!: has_root.root\<close>)
next
  case (up j q)
  show ?case
  proof (cases "j = i")
    case True
    then have q: "q = r" using assms(1) up has_root.up has_root_unique by metis
    have r: "r < length (ds_parent s)" "ds_parent s ! r = r" using has_root_is_root [OF assms(1)] by auto
    then have "r \<noteq> i" using up(2) True by auto
    then have "has_root (s\<lparr>ds_parent := (ds_parent s)[i := r]\<rparr>) r r" using r by (auto intro!: has_root.root)
    then show ?thesis unfolding True q by (rule has_root_step [rotated 3]) (use up(1) True \<open>r \<noteq> i\<close> in simp_all)
  next
    case False
    show ?thesis by (rule has_root_step [OF _ _ up(2,4)]) (use up(1) False in simp_all)
  qed
qed

lemma set_parent_ranked:
  assumes "ranked s" "r < length (ds_parent s)" "r \<noteq> i \<Longrightarrow> ds_rank s ! i < ds_rank s ! r"
  shows "ranked (s\<lparr>ds_parent := (ds_parent s)[i := r]\<rparr>)"
proof -
  have "(ds_parent s)[i := r] ! k < length (ds_parent s) \<and>
    ((ds_parent s)[i := r] ! k \<noteq> k \<longrightarrow> ds_rank s ! k < ds_rank s ! ((ds_parent s)[i := r] ! k))"
    if "k < length (ds_parent s)" for k
    using that assms by (cases "k = i") (simp_all add: ranked_def)
  then show ?thesis using assms(1) by (simp add: ranked_def)
qed

lemma raise_ranked:
  assumes "ranked s" "l < length (ds_parent s)" "ds_parent s ! l = l"
  shows "ranked (s\<lparr>ds_rank := (ds_rank s)[l := Suc (ds_rank s ! l)]\<rparr>)"
proof -
  have "(ds_rank s)[l := Suc (ds_rank s ! l)] ! k < (ds_rank s)[l := Suc (ds_rank s ! l)] ! (ds_parent s ! k)"
    if "k < length (ds_parent s)" "ds_parent s ! k \<noteq> k" for k
  proof -
    have "k \<noteq> l" "ds_rank s ! k < ds_rank s ! (ds_parent s ! k)" "ds_parent s ! k < length (ds_parent s)"
      using that assms by (auto simp: ranked_def)
    then show ?thesis using assms by (cases "ds_parent s ! k = l") (simp_all add: ranked_def less_SucI)
  qed
  then show ?thesis using assms(1) by (simp add: ranked_def)
qed

lemma compress_ranked:
  assumes "ranked s" "has_root s i r"
  shows "ranked (s\<lparr>ds_parent := (ds_parent s)[i := r]\<rparr>)"
  using assms has_root_is_root [OF assms(2)] has_root_rank [OF assms(2,1)] by (intro set_parent_ranked) auto

lemma ds_find_root:
  assumes "has_root s i r" "ranked s"
  shows "\<exists>s'. ds_find s i = Some (r, s') \<and> ranked s' \<and> ds_rank s' = ds_rank s \<and>
    length (ds_parent s') = length (ds_parent s) \<and> (\<forall>j q. has_root s j q \<longrightarrow> has_root s' j q)"
  using assms
proof (induction rule: has_root.induct)
  case (root i)
  have "ds_find s i = Some (i, s)" by (subst ds_find.simps) (use root in simp)
  then show ?case using root by blast
next
  case (up i r)
  then obtain s1 where s1: "ds_find s (ds_parent s ! i) = Some (r, s1)" "ranked s1" "ds_rank s1 = ds_rank s"
    "length (ds_parent s1) = length (ds_parent s)" "\<forall>j q. has_root s j q \<longrightarrow> has_root s1 j q"
    by auto
  have "has_root s i r" using up(1-3) by (rule has_root.up)
  with s1(5) have i: "has_root s1 i r" by blast
  have "ds_find s i = Some (r, s1\<lparr>ds_parent := (ds_parent s1)[i := r]\<rparr>)"
    by (subst ds_find.simps) (use up(1,2) s1(1) in simp)
  then show ?case
    using s1 compress_ranked [OF s1(2) i] compress_roots [OF i] by simp
qed

definition ds_root :: "disjoint_set \<Rightarrow> nat \<Rightarrow> nat" where
  "ds_root s i = (case ds_find s i of Some (r, _) \<Rightarrow> r | None \<Rightarrow> i)"

lemma ds_root_eq: "has_root s i r \<Longrightarrow> ranked s \<Longrightarrow> ds_root s i = r"
  using ds_find_root [of s i r] by (auto simp: ds_root_def)

lemma ds_root_has: "ranked s \<Longrightarrow> i < length (ds_parent s) \<Longrightarrow> has_root s i (ds_root s i)"
  using ranked_has_root ds_root_eq by metis

text \<open>Union by rank merges two classes.\<close>

lemma ds_link_parent:
  assumes "has_root s l l" "has_root s r r" "l \<noteq> r" "has_root s j q" "ds_parent s' = (ds_parent s)[l := r]"
  shows "has_root s' j (if q = l then r else q)"
  using assms(4)
proof (induction rule: has_root.induct)
  case (root j)
  have rr: "has_root s' r r"
    using has_root_is_root [OF assms(2)] assms(3,5) by (intro has_root.root) auto
  then show ?case using root assms(3,5) by (cases "j = l") (auto intro: has_root.root has_root.up)
next
  case (up j q)
  have "j \<noteq> l" using has_root_is_root [OF assms(1)] up(2) by auto
  show ?case by (rule has_root_step [OF _ _ up(2,4)]) (use up(1) assms(5) \<open>j \<noteq> l\<close> in simp_all)
qed

lemma ds_link_ranked:
  assumes "has_root s l l" "has_root s r r" "ranked s"
  shows "ranked (ds_link s l r) \<and> length (ds_parent (ds_link s l r)) = length (ds_parent s)"
proof -
  have l: "l < length (ds_parent s)" "ds_parent s ! l = l" and r: "r < length (ds_parent s)"
    using has_root_is_root [OF assms(1)] has_root_is_root [OF assms(2)] by auto
  have len: "length (ds_rank s) = length (ds_parent s)" using assms(3) by (simp add: ranked_def)
  let ?s = "s\<lparr>ds_rank := (ds_rank s)[l := Suc (ds_rank s ! l)]\<rparr>"
  have up: "ranked ?s" by (rule raise_ranked [OF assms(3) l])
  have eq: "s\<lparr>ds_parent := (ds_parent s)[r := l], ds_rank := (ds_rank s)[l := Suc (ds_rank s ! l)]\<rparr> =
    ?s\<lparr>ds_parent := (ds_parent s)[r := l]\<rparr>" by simp
  have "ranked (s\<lparr>ds_parent := (ds_parent s)[r := l], ds_rank := (ds_rank s)[l := Suc (ds_rank s ! l)]\<rparr>)" if "ds_rank s ! l = ds_rank s ! r" "l \<noteq> r"
  proof -
    have "ranked (?s\<lparr>ds_parent := (ds_parent ?s)[r := l]\<rparr>)"
      by (rule set_parent_ranked [OF up]) (use that l r len in simp_all)
    then show ?thesis unfolding eq by simp
  qed
  then show ?thesis
    using set_parent_ranked [OF assms(3), of r l] set_parent_ranked [OF assms(3), of l r] l(1) r assms(3)
    unfolding ds_link_def by (cases "ds_rank s ! l" "ds_rank s ! r" rule: linorder_cases) simp_all
qed

lemma ds_link_cases:
  assumes "l \<noteq> r"
  obtains x y where "(x = l \<and> y = r) \<or> (x = r \<and> y = l)" "ds_parent (ds_link s l r) = (ds_parent s)[x := y]"
proof (cases "ds_rank s ! l < ds_rank s ! r")
  case True
  then show ?thesis using that [of l r] assms by (simp add: ds_link_def)
next
  case False
  then show ?thesis using that [of r l] assms by (simp add: ds_link_def)
qed

lemma ds_link_root:
  assumes "has_root s l l" "has_root s r r" "ranked s" "a < length (ds_parent s)" "b < length (ds_parent s)"
  shows "ds_root (ds_link s l r) a = ds_root (ds_link s l r) b \<longleftrightarrow>
    ds_root s a = ds_root s b \<or> (ds_root s a = l \<and> ds_root s b = r) \<or> (ds_root s a = r \<and> ds_root s b = l)"
proof (cases "l = r")
  case False
  then obtain x y where xy: "(x = l \<and> y = r) \<or> (x = r \<and> y = l)"
    "ds_parent (ds_link s l r) = (ds_parent s)[x := y]" by (rule ds_link_cases)
  have ok: "ranked (ds_link s l r)" using ds_link_ranked [OF assms(1-3)] by simp
  have "ds_root (ds_link s l r) j = (if ds_root s j = x then y else ds_root s j)"
    if "j < length (ds_parent s)" for j
  proof (rule ds_root_eq [OF ds_link_parent ok])
    show "has_root s x x" "has_root s y y" "x \<noteq> y" using xy(1) assms False by auto
    show "has_root s j (ds_root s j)" using ds_root_has that assms(3) by blast
  qed (rule xy(2))
  then show ?thesis using assms(4,5) xy(1) False by (auto split: if_splits)
qed (simp add: ds_link_def, metis)

interpretation entity_sets: disjoint_sets ranked "\<lambda>s. length (ds_parent s)" ds_root
  newGraphEntityDisjointSet ds_find ds_union
proof
  show "ranked (newGraphEntityDisjointSet n)" for n
    by (simp add: ranked_def newGraphEntityDisjointSet_def)
  show "length (ds_parent (newGraphEntityDisjointSet n)) = n" for n
    by (simp add: newGraphEntityDisjointSet_def)
  show "i < n \<Longrightarrow> ds_root (newGraphEntityDisjointSet n) i = i" for i n
    by (simp add: ds_root_def ds_find.simps newGraphEntityDisjointSet_def)
next
  fix s i
  assume s: "ranked s" "i < length (ds_parent s)"
  have i: "has_root s i (ds_root s i)" by (rule ds_root_has [OF s])
  show "ds_root s i < length (ds_parent s)" using has_root_is_root [OF i] by simp
  then have "has_root s (ds_root s i) (ds_root s i)" using has_root_is_root [OF i] by (auto intro: has_root.root)
  then show "ds_root s (ds_root s i) = ds_root s i" using s(1) by (rule ds_root_eq)
  obtain s' where s': "ds_find s i = Some (ds_root s i, s')" "ranked s'"
    "length (ds_parent s') = length (ds_parent s)" "\<And>j q. has_root s j q \<Longrightarrow> has_root s' j q"
    using ds_find_root [OF i s(1)] by blast
  have "ds_root s' j = ds_root s j" if "j < length (ds_parent s)" for j
    by (rule ds_root_eq [OF s'(4) s'(2)]) (rule ds_root_has [OF s(1) that])
  then show "\<exists>s'. ds_find s i = Some (ds_root s i, s') \<and> ranked s' \<and>
    length (ds_parent s') = length (ds_parent s) \<and> (\<forall>j < length (ds_parent s). ds_root s' j = ds_root s j)"
    using s' by blast
next
  fix s i j
  assume s: "ranked s" "i < length (ds_parent s)" "j < length (ds_parent s)"
  let ?n = "length (ds_parent s)" and ?l = "ds_root s i" and ?r = "ds_root s j"
  obtain s1 where s1: "ds_find s i = Some (?l, s1)" "ranked s1" "length (ds_parent s1) = ?n"
    "\<And>j q. has_root s j q \<Longrightarrow> has_root s1 j q"
    using ds_find_root [OF ds_root_has [OF s(1,2)] s(1)] by blast
  have r1: "ds_root s1 k = ds_root s k" if "k < ?n" for k
    by (rule ds_root_eq [OF s1(4) s1(2)]) (rule ds_root_has [OF s(1) that])
  obtain s2 where s2: "ds_find s1 j = Some (?r, s2)" "ranked s2" "length (ds_parent s2) = ?n"
    "\<And>j q. has_root s1 j q \<Longrightarrow> has_root s2 j q"
    using ds_find_root [OF s1(4) [OF ds_root_has [OF s(1,3)]] s1(2)] s1(3) by auto
  have r2: "ds_root s2 k = ds_root s k" if "k < ?n" for k
    by (rule ds_root_eq [OF s2(4) [OF s1(4)] s2(2)]) (rule ds_root_has [OF s(1) that])
  have root: "has_root s2 q q" if "has_root s k q" for k q
    using s2(4) [OF s1(4) [OF that]] has_root_is_root by (blast intro: has_root.root)
  have l: "has_root s2 ?l ?l" and r: "has_root s2 ?r ?r"
    by (rule root [OF ds_root_has [OF s(1)]], rule s)+
  have "ds_union s i j = Some (ds_link s2 ?l ?r)" by (simp add: ds_union_def s1(1) s2(1))
  moreover have "merged (ds_root s) i j a b \<longleftrightarrow> ds_root (ds_link s2 ?l ?r) a = ds_root (ds_link s2 ?l ?r) b"
    if "a < ?n" "b < ?n" for a b
    using ds_link_root [OF l r s2(2), of a b] that s2(3) r2 by (simp add: merged_def)
  ultimately show "\<exists>s'. ds_union s i j = Some s' \<and> ranked s' \<and> length (ds_parent s') = ?n \<and>
    (\<forall>a < ?n. \<forall>b < ?n. ds_root s' a = ds_root s' b \<longleftrightarrow> merged (ds_root s) i j a b)"
    using ds_link_ranked [OF l r s2(2)] s2(3) by auto
qed

text \<open>The facts the two clients use.\<close>

lemma ds_unions_classes:
  assumes "\<forall>(i, j) \<in> set es. i < n \<and> j < n"
  obtains s where "ds_unions es (newGraphEntityDisjointSet n) = Some s" "ranked s" "length (ds_parent s) = n"
    "\<And>a b. a < n \<Longrightarrow> b < n \<Longrightarrow> ds_root s a = ds_root s b \<longleftrightarrow> linked (set es) a b"
  using entity_sets.unite_all [OF assms] unfolding ds_unions_def by blast

lemma ds_finds_roots:
  assumes "ranked s" "\<forall>i \<in> set is. i < length (ds_parent s)"
  obtains s' where "ds_finds is s = Some (map (ds_root s) is, s')" "ranked s'"
    "length (ds_parent s') = length (ds_parent s)" "\<And>j. j < length (ds_parent s) \<Longrightarrow> ds_root s' j = ds_root s j"
  using entity_sets.find_all [OF assms] unfolding ds_finds_def by blast

end
