(* ===== verification/GraphResolver.thy ===== *)
theory GraphResolver
  imports GraphExtraction GraphDisjointSet
begin

text \<open>
  Entity resolution: \<open>feature_materializer_service/pkg/app/graph_entity_resolver.go\<close>, with
  \<open>embeddingStrategyFromSnapshot\<close> and \<open>normalizeVector\<close> of \<open>embedding_search_usecase.go\<close>.
  Nodes of one type whose embeddings are similar enough become one node.

  The embedding provider is a parameter. A result \<open>None\<close> stands for a call that does not
  return, as in \<open>GraphDisjointSet\<close>. The snapshot of a materialisation is shared by pointer;
  here every materialisation carries its own copy, and an error returns none.
\<close>

section \<open>Vectors\<close>

definition normalizeVector :: "f32 list \<Rightarrow> f32 list" where
  "normalizeVector vector =
     (let total = fold (\<lambda>v acc. f64_add acc (f64_mul (f64_of_f32 v) (f64_of_f32 v))) vector 0
      in if total = 0 then vector
         else let norm = f32_of_f64 (f64_sqrt total) in map (\<lambda>v. f32_div v norm) vector)"

definition graphCosineSimilarity :: "f32 list \<Rightarrow> f32 list \<Rightarrow> f64" where
  "graphCosineSimilarity left right =
     (if left = [] \<or> length left \<noteq> length right then 0
      else fold (\<lambda>(l, r) dot. f64_add dot (f64_mul (f64_of_f32 l) (f64_of_f32 r))) (zip left right) 0)"

text \<open>All vectors have the length of the first; a longer one would panic.\<close>

definition add_vector :: "f32 list \<Rightarrow> f32 list \<Rightarrow> f32 list" where
  "add_vector vector out = map (\<lambda>i. if i < length vector then f32_add (out ! i) (vector ! i) else out ! i) [0..<length out]"

definition graphAverageVectors :: "f32 list list \<Rightarrow> f32 list" where
  "graphAverageVectors vectors = (case vectors of [] \<Rightarrow> []
   | v # _ \<Rightarrow> let out = fold add_vector vectors (replicate (length v) 0); scale = f32_of_nat (length vectors)
             in normalizeVector (map (\<lambda>x. f32_div x scale) out))"

section \<open>Texts\<close>

definition graphNormalizedType :: "string \<Rightarrow> string" where
  "graphNormalizedType entityType = ToLower (Join (Fields (TrimSpace entityType)) '' '')"

definition labelled :: "string \<Rightarrow> string \<Rightarrow> string list" where
  "labelled label s = (let t = TrimSpace s in if t = [] then [] else [label @ t])"

definition graphNodeEmbeddingText :: "graph_node \<Rightarrow> string" where
  "graphNodeEmbeddingText node = Join (labelled ''name: '' (gno_Name node) @
     labelled ''type: '' (gno_Type node) @ labelled ''description: '' (gno_Description node)) [CHR 0x0A]"

fun alias_names :: "string list \<Rightarrow> graph_node_alias list \<Rightarrow> string list" where
  "alias_names seen [] = []"
| "alias_names seen (a # as) = (let normalized = ToLower (TrimSpace (gna_Alias a)) in
     if normalized = [] \<or> normalized \<in> set seen then alias_names seen as
     else TrimSpace (gna_Alias a) # alias_names (normalized # seen) as)"

definition graphCanonicalEmbeddingText :: "graph_node \<Rightarrow> graph_node_alias list \<Rightarrow> string" where
  "graphCanonicalEmbeddingText node aliases =
     (let aliasNames = sort_Strings (alias_names [] aliases)
      in Join (graphNodeEmbeddingText node #
           (if aliasNames = [] then [] else [''aliases: '' @ Join aliasNames '', ''])) [CHR 0x0A])"

section \<open>Canonical nodes\<close>

definition graphPreferCanonicalNode :: "graph_node \<Rightarrow> graph_node \<Rightarrow> bool" where
  "graphPreferCanonicalNode candidate current =
     (if gno_MentionCount candidate \<noteq> gno_MentionCount current
      then gno_MentionCount current < gno_MentionCount candidate
      else let candidateName = TrimSpace (gno_Name candidate); currentName = TrimSpace (gno_Name current) in
        if candidateName \<noteq> [] \<and> currentName = [] then True
        else if candidateName = [] \<and> currentName \<noteq> [] then False
        else gno_EntityKey candidate < gno_EntityKey current)"

text \<open>The pairs the two nested loops unite, in their order.\<close>

definition similar :: "graph_node list \<Rightarrow> f32 list list \<Rightarrow> f64 \<Rightarrow> nat \<Rightarrow> nat \<Rightarrow> bool" where
  "similar nodes vectors threshold i j \<longleftrightarrow>
     gno_EntityKey (nodes ! i) \<noteq> [] \<and> gno_EntityKey (nodes ! j) \<noteq> [] \<and>
     graphNormalizedType (gno_Type (nodes ! j)) = graphNormalizedType (gno_Type (nodes ! i)) \<and>
     threshold \<le> graphCosineSimilarity (vectors ! i) (vectors ! j)"

definition similar_pairs :: "graph_node list \<Rightarrow> f32 list list \<Rightarrow> f64 \<Rightarrow> (nat \<times> nat) list" where
  "similar_pairs nodes vectors threshold = concat (map (\<lambda>i.
     map (\<lambda>j. (i, j)) (filter (similar nodes vectors threshold i) [i + 1..<length nodes])) [0..<length nodes])"

definition keyed_indexes :: "graph_node list \<Rightarrow> nat list" where
  "keyed_indexes nodes = filter (\<lambda>i. gno_EntityKey (nodes ! i) \<noteq> []) [0..<length nodes]"

definition choose_canonical :: "graph_node list \<Rightarrow> nat \<times> nat \<Rightarrow> (nat \<rightharpoonup> nat) \<Rightarrow> (nat \<rightharpoonup> nat)" where
  "choose_canonical nodes = (\<lambda>(i, root) m. case m root of
       None \<Rightarrow> m(root \<mapsto> i)
     | Some c \<Rightarrow> if graphPreferCanonicalNode (nodes ! i) (nodes ! c) then m(root \<mapsto> i) else m)"

definition set_canonical_key ::
  "graph_node list \<Rightarrow> (nat \<rightharpoonup> nat) \<Rightarrow> nat \<times> nat \<Rightarrow> (string \<rightharpoonup> string) \<Rightarrow> (string \<rightharpoonup> string)" where
  "set_canonical_key nodes canonicalIndexByRoot = (\<lambda>(i, root) m.
     m(gno_EntityKey (nodes ! i) \<mapsto> (case canonicalIndexByRoot root of
         None \<Rightarrow> gno_EntityKey (nodes ! i) | Some c \<Rightarrow> gno_EntityKey (nodes ! c))))"

definition graphCanonicalEntityKeys ::
  "graph_node list \<Rightarrow> f32 list list \<Rightarrow> f64 \<Rightarrow> (string \<rightharpoonup> string) option" where
  "graphCanonicalEntityKeys nodes vectors threshold = do {
     clusters \<leftarrow> ds_unions (similar_pairs nodes vectors threshold) (newGraphEntityDisjointSet (length nodes));
     (roots, clusters1) \<leftarrow> ds_finds (keyed_indexes nodes) clusters;
     let canonicalIndexByRoot = fold (choose_canonical nodes) (zip (keyed_indexes nodes) roots) Map.empty;
     (roots1, _) \<leftarrow> ds_finds (keyed_indexes nodes) clusters1;
     Some (fold (set_canonical_key nodes canonicalIndexByRoot) (zip (keyed_indexes nodes) roots1) Map.empty)
   }"

section \<open>The resolved graph\<close>

definition zero_node :: graph_node where
  "zero_node = \<lparr>gno_GraphNodeID = uuid_nil, gno_GraphSnapshotID = uuid_nil, gno_DatasetID = uuid_nil,
     gno_UserID = uuid_nil, gno_OrgID = uuid_nil, gno_EntityKey = [], gno_Name = [], gno_Type = [],
     gno_Description = [], gno_MentionCount = 0, gno_AssertionStatus = []\<rparr>"

definition node_at :: "(string \<rightharpoonup> graph_node) \<Rightarrow> string \<Rightarrow> graph_node" where
  "node_at m k = (case m k of Some n \<Rightarrow> n | None \<Rightarrow> zero_node)"

definition by_key :: "graph_node list \<Rightarrow> (string \<rightharpoonup> graph_node)" where
  "by_key nodes = map_of (rev (map (\<lambda>n. (gno_EntityKey n, n)) nodes))"

definition list_at :: "('k \<rightharpoonup> 'v list) \<Rightarrow> 'k \<Rightarrow> 'v list" where
  "list_at m k = (case m k of Some xs \<Rightarrow> xs | None \<Rightarrow> [])"

record resolution_state =
  rst_canonicalNodes :: "(string \<times> graph_node) list"
  rst_clusterVectors :: "string \<rightharpoonup> f32 list list"
  rst_aliases :: "graph_node_alias list"

definition graphCanonicalKey :: "(string \<rightharpoonup> string) \<Rightarrow> string \<Rightarrow> string" where
  "graphCanonicalKey canonicalByKey entityKey =
     (if text_at canonicalByKey entityKey \<noteq> [] then text_at canonicalByKey entityKey else entityKey)"

definition absorb_node :: "graph_node \<Rightarrow> graph_node \<Rightarrow> graph_node" where
  "absorb_node node canonical =
     (let counted = canonical\<lparr>gno_MentionCount := wrap64 (gno_MentionCount canonical + gno_MentionCount node)\<rparr>
      in if gno_Description counted = [] \<and> TrimSpace (gno_Description node) \<noteq> []
         then counted\<lparr>gno_Description := TrimSpace (gno_Description node)\<rparr> else counted)"

definition node_alias :: "graph_snapshot \<Rightarrow> string \<Rightarrow> graph_node \<Rightarrow> graph_node_alias" where
  "node_alias snapshot canonicalKey node = \<lparr>gna_GraphNodeAliasID = uuid_nil,
     gna_GraphSnapshotID = gsn_GraphSnapshotID snapshot, gna_GraphNodeID = uuid_nil,
     gna_CanonicalEntityKey = canonicalKey, gna_SourceEntityKey = gno_EntityKey node, gna_Alias = gno_Name node,
     gna_Type = gno_Type node, gna_AssertionStatus = [], gna_DatasetID = gsn_DatasetID snapshot,
     gna_UserID = gsn_UserID snapshot, gna_OrgID = gsn_OrgID snapshot\<rparr>"

definition resolve_node ::
  "graph_snapshot \<Rightarrow> (string \<rightharpoonup> graph_node) \<Rightarrow> (string \<rightharpoonup> f32 list) \<Rightarrow> (string \<rightharpoonup> string) \<Rightarrow>
   graph_node \<Rightarrow> resolution_state \<Rightarrow> resolution_state" where
  "resolve_node snapshot nodeByKey vectorByKey canonicalByKey node st =
     (let canonicalKey = graphCanonicalKey canonicalByKey (gno_EntityKey node);
          known = node_at (map_of (rst_canonicalNodes st)) canonicalKey;
          canonical = (if gno_EntityKey known = [] then (node_at nodeByKey canonicalKey)\<lparr>gno_MentionCount := 0\<rparr> else known)
      in \<lparr>rst_canonicalNodes = AList.update canonicalKey (absorb_node node canonical) (rst_canonicalNodes st),
          rst_clusterVectors = (rst_clusterVectors st)(canonicalKey \<mapsto>
            list_at (rst_clusterVectors st) canonicalKey @ [list_at vectorByKey (gno_EntityKey node)]),
          rst_aliases = rst_aliases st @ [node_alias snapshot canonicalKey node]\<rparr>)"

definition graphResolvedNodeEmbeddings ::
  "graph_snapshot \<Rightarrow> embedding_snapshot \<Rightarrow> graph_node list \<Rightarrow> graph_node_alias list \<Rightarrow>
   (string \<rightharpoonup> f32 list list) \<Rightarrow> graph_node_embedding list" where
  "graphResolvedNodeEmbeddings snapshot embeddingSnapshot nodes aliases clusterVectors =
     map (\<lambda>node. \<lparr>gne_GraphNodeEmbeddingID = uuid_nil, gne_GraphSnapshotID = gsn_GraphSnapshotID snapshot,
       gne_GraphNodeID = uuid_nil, gne_EntityKey = gno_EntityKey node,
       gne_EmbeddingSnapshotID = esn_EmbeddingSnapshotID embeddingSnapshot,
       gne_DatasetID = gsn_DatasetID snapshot, gne_UserID = gsn_UserID snapshot, gne_OrgID = gsn_OrgID snapshot,
       gne_EmbeddingText = graphCanonicalEmbeddingText node
         (filter (\<lambda>a. gna_CanonicalEntityKey a = gno_EntityKey node) aliases),
       gne_Vector = graphAverageVectors (list_at clusterVectors (gno_EntityKey node)),
       gne_AssertionStatus = []\<rparr>) nodes"

fun resolve_chunks ::
  "(uuid \<Rightarrow> string) \<Rightarrow> (string \<rightharpoonup> string) \<Rightarrow> string list \<Rightarrow> graph_node_chunk list \<Rightarrow> graph_node_chunk list" where
  "resolve_chunks uuid_text canonicalByKey seen [] = []"
| "resolve_chunks uuid_text canonicalByKey seen (chunk # chunks) =
     (let canonicalKey = graphCanonicalKey canonicalByKey (gnc_EntityKey chunk);
          key = pair_key canonicalKey (uuid_text (gnc_EmbeddingRecordID chunk))
      in if canonicalKey = [] \<or> key \<in> set seen then resolve_chunks uuid_text canonicalByKey seen chunks
         else chunk\<lparr>gnc_EntityKey := canonicalKey\<rparr> # resolve_chunks uuid_text canonicalByKey (key # seen) chunks)"

definition graphResolvedNodeChunks ::
  "(uuid \<Rightarrow> string) \<Rightarrow> graph_node_chunk list \<Rightarrow> (string \<rightharpoonup> string) \<Rightarrow> graph_node_chunk list" where
  "graphResolvedNodeChunks uuid_text chunks canonicalByKey =
     sort_key (\<lambda>c. (gnc_EntityKey c, gnc_ChunkIndex c)) (resolve_chunks uuid_text canonicalByKey [] chunks)"

definition resolve_edge ::
  "(string \<rightharpoonup> string) \<Rightarrow> graph_edge \<Rightarrow> (string \<times> graph_edge) list \<Rightarrow> (string \<times> graph_edge) list" where
  "resolve_edge canonicalByKey edge0 edgeByKey =
     (let sourceKey = graphCanonicalKey canonicalByKey (ged_SourceEntityKey edge0);
          targetKey = graphCanonicalKey canonicalByKey (ged_TargetEntityKey edge0)
      in if sourceKey = [] \<or> targetKey = [] \<or> sourceKey = targetKey then edgeByKey
         else let edge = edge0\<lparr>ged_SourceEntityKey := sourceKey, ged_TargetEntityKey := targetKey\<rparr>;
                  trimmed = TrimSpace (ged_RelationType edge0);
                  relationType = (if trimmed = [] then ''RELATED_TO'' else trimmed);
                  key = pair_key sourceKey (pair_key targetKey relationType)
              in case map_of edgeByKey key of
                   None \<Rightarrow> AList.update key (edge\<lparr>ged_RelationType := relationType\<rparr>) edgeByKey
                 | Some existing \<Rightarrow>
                     if ged_Weight existing < ged_Weight edge0
                     then AList.update key (edge\<lparr>ged_RelationType := relationType\<rparr>) edgeByKey
                     else if ged_Description existing = [] \<and> TrimSpace (ged_Description edge0) \<noteq> []
                     then AList.update key (existing\<lparr>ged_Description := TrimSpace (ged_Description edge0)\<rparr>) edgeByKey
                     else edgeByKey)"

definition edge_triple :: "graph_edge \<Rightarrow> string \<times> string \<times> string" where
  "edge_triple e = (ged_SourceEntityKey e, ged_TargetEntityKey e, ged_RelationType e)"

definition graphResolvedEdges :: "graph_edge list \<Rightarrow> (string \<rightharpoonup> string) \<Rightarrow> graph_edge list" where
  "graphResolvedEdges edges canonicalByKey =
     sort_key edge_triple (map snd (fold (resolve_edge canonicalByKey) edges []))"

definition graphResolveMaterialization ::
  "(uuid \<Rightarrow> string) \<Rightarrow> graph_snapshot \<Rightarrow> graph_materialization \<Rightarrow> embedding_snapshot \<Rightarrow> graph_node list \<Rightarrow>
   f32 list list \<Rightarrow> (string \<rightharpoonup> string) \<Rightarrow> graph_materialization" where
  "graphResolveMaterialization uuid_text snapshot materialization embeddingSnapshot nodes vectors canonicalByKey =
     (let nodeByKey = by_key nodes;
          vectorByKey = map_of (rev (zip (map gno_EntityKey nodes) vectors));
          st = fold (resolve_node snapshot nodeByKey vectorByKey canonicalByKey) nodes
                 \<lparr>rst_canonicalNodes = [], rst_clusterVectors = Map.empty, rst_aliases = []\<rparr>;
          outNodes = sort_key gno_EntityKey (map snd (rst_canonicalNodes st));
          aliases = sort_key (\<lambda>a. (gna_CanonicalEntityKey a, gna_SourceEntityKey a)) (rst_aliases st);
          edges = graphResolvedEdges (gmz_Edges materialization) canonicalByKey
      in materialization\<lparr>gmz_Nodes := outNodes, gmz_NodeAliases := aliases,
           gmz_NodeEmbeddings := graphResolvedNodeEmbeddings snapshot embeddingSnapshot outNodes aliases (rst_clusterVectors st),
           gmz_NodeChunks := graphResolvedNodeChunks uuid_text (gmz_NodeChunks materialization) canonicalByKey,
           gmz_Edges := edges,
           gmz_Snapshot := Some (snapshot\<lparr>gsn_EntityCount := int (length outNodes), gsn_EdgeCount := int (length edges)\<rparr>)\<rparr>)"

section \<open>The resolver\<close>

definition defaultGraphEntityResolutionThreshold :: f64 where
  "defaultGraphEntityResolutionThreshold = 8286623314361713 * 2 ^ 1021"

record embedding_provider =
  epr_Dimensions :: int
  epr_Embed :: "string list \<Rightarrow> feature_error + f32 list list"

type_synonym provider_factory = "embedding_strategy \<Rightarrow> feature_error + embedding_provider"

datatype graph_entity_resolver =
  noopGraphEntityResolver
| embeddingGraphEntityResolver provider_factory f64

definition NewEmbeddingGraphEntityResolver :: "provider_factory option \<Rightarrow> f64 \<Rightarrow> graph_entity_resolver" where
  "NewEmbeddingGraphEntityResolver providerFactory similarityThreshold = (case providerFactory of
     None \<Rightarrow> noopGraphEntityResolver
   | Some factory \<Rightarrow> embeddingGraphEntityResolver factory
       (if similarityThreshold \<le> 0 \<or> f64_one < similarityThreshold
        then defaultGraphEntityResolutionThreshold else similarityThreshold))"

definition embeddingStrategyFromSnapshot :: "embedding_snapshot \<Rightarrow> embedding_strategy" where
  "embeddingStrategyFromSnapshot s = NormalizeEmbeddingStrategy \<lparr>est_StrategyVersion = esn_StrategyVersion s,
     est_ExtractorName = esn_ExtractorName s, est_ExtractorVersion = esn_ExtractorVersion s,
     est_CleanerName = esn_CleanerName s, est_CleanerVersion = esn_CleanerVersion s,
     est_ChunkerName = esn_ChunkerName s, est_ChunkerVersion = esn_ChunkerVersion s,
     est_ChunkSize = esn_ChunkSize s, est_ChunkOverlap = esn_ChunkOverlap s,
     est_EmbeddingProvider = esn_EmbeddingProvider s, est_EmbeddingModel = esn_EmbeddingModel s,
     est_EmbeddingDimensions = esn_EmbeddingDimensions s\<rparr>"

text \<open>The vectors of the texts, with the checks both users of a provider make.\<close>

definition embed_nodes ::
  "provider_factory \<Rightarrow> embedding_snapshot \<Rightarrow> graph_node list \<Rightarrow> feature_error + f32 list list" where
  "embed_nodes factory embeddingSnapshot nodes = (case factory (embeddingStrategyFromSnapshot embeddingSnapshot) of
     Inl e \<Rightarrow> Inl (wrap_errors ErrGraphEntityResolution ''create graph entity embedding provider: '' e)
   | Inr provider \<Rightarrow>
       if epr_Dimensions provider \<noteq> esn_EmbeddingDimensions embeddingSnapshot
       then Inl (feature_Extend ErrGraphEntityResolution
              ''graph entity embedding provider dimensions do not match graph embedding snapshot'')
       else case epr_Embed provider (map graphNodeEmbeddingText nodes) of
         Inl e \<Rightarrow> Inl (wrap_errors ErrGraphEntityResolution ''embed graph entities: '' e)
       | Inr vectors \<Rightarrow>
           if length vectors \<noteq> length nodes
           then Inl (feature_Extend ErrGraphEntityResolution
                  ''graph entity embedding provider returned unexpected vector count'')
           else if \<exists>v \<in> set vectors. int (length v) \<noteq> esn_EmbeddingDimensions embeddingSnapshot
           then Inl (feature_Extend ErrGraphEntityResolution
                  ''graph entity embedding vector dimensions do not match graph embedding snapshot'')
           else Inr (map normalizeVector vectors))"

definition ResolveGraphEntities ::
  "(uuid \<Rightarrow> string) \<Rightarrow> graph_entity_resolver \<Rightarrow> graph_materialization option \<Rightarrow> embedding_snapshot option \<Rightarrow>
   (feature_error + graph_materialization option) option" where
  "ResolveGraphEntities uuid_text resolver materialization embeddingSnapshot = (case resolver of
     noopGraphEntityResolver \<Rightarrow> Some (Inr materialization)
   | embeddingGraphEntityResolver factory threshold \<Rightarrow>
       (case (materialization, map_option gmz_Snapshot materialization) of
          (Some m, Some (Some snapshot)) \<Rightarrow>
            if gmz_Nodes m = [] then Some (Inr (Some (m\<lparr>gmz_NodeAliases := [], gmz_NodeEmbeddings := []\<rparr>)))
            else (case embeddingSnapshot of
                None \<Rightarrow> Some (Inl (feature_Extend ErrGraphEntityResolution ''embedding snapshot is required''))
              | Some es \<Rightarrow> let nodes = sort_key gno_EntityKey (gmz_Nodes m) in
                  case embed_nodes factory es nodes of
                    Inl e \<Rightarrow> Some (Inl e)
                  | Inr vectors \<Rightarrow> do {
                      canonicalByKey \<leftarrow> graphCanonicalEntityKeys nodes vectors threshold;
                      Some (Inr (Some (graphResolveMaterialization uuid_text snapshot m es nodes vectors canonicalByKey)))
                    })
        | _ \<Rightarrow> Some (Inl (feature_Extend ErrGraphEntityResolution ''graph materialization is required''))))"

end
