(* ===== verification/GraphCommunities.thy ===== *)
theory GraphCommunities
  imports GraphResolver
begin

text \<open>
  Communities of a graph and their reports:
  \<open>feature_materializer_service/pkg/app/graph_community_builder.go\<close>. A community is a
  connected component of the graph.

  A Go map filled in a loop and read afterwards is given by what its entries are at the end: the
  elements of the loop with that key, in their order.
\<close>

definition graphCommunityReportMaxTitleNodes :: nat where "graphCommunityReportMaxTitleNodes = 3"
definition graphCommunityReportMaxEntityLines :: nat where "graphCommunityReportMaxEntityLines = 8"
definition graphCommunityReportMaxRelationLines :: nat where "graphCommunityReportMaxRelationLines = 8"
definition graphCommunityReportMaxEvidenceChunks :: nat where "graphCommunityReportMaxEvidenceChunks = 5"

section \<open>Groups\<close>

definition community_pairs :: "(string \<rightharpoonup> nat) \<Rightarrow> graph_edge list \<Rightarrow> (nat \<times> nat) list" where
  "community_pairs nodeIndexByKey edges = List.map_filter (\<lambda>e.
     case (nodeIndexByKey (ged_SourceEntityKey e), nodeIndexByKey (ged_TargetEntityKey e)) of
       (Some i, Some j) \<Rightarrow> Some (i, j) | _ \<Rightarrow> None) edges"

definition add_to_root :: "nat \<times> nat \<Rightarrow> (nat \<times> nat list) list \<Rightarrow> (nat \<times> nat list) list" where
  "add_to_root = (\<lambda>(i, root) al. AList.update root (list_at (map_of al) root @ [i]) al)"

text \<open>\<open>graphCommunityNodeLess\<close> compares these keys: most mentions first, then the entity key.\<close>

definition community_node_order :: "graph_node \<Rightarrow> int \<times> string" where
  "community_node_order n = (- gno_MentionCount n, gno_EntityKey n)"

definition graphCommunityNodeLess :: "graph_node \<Rightarrow> graph_node \<Rightarrow> bool" where
  "graphCommunityNodeLess left right =
     (if gno_MentionCount left \<noteq> gno_MentionCount right
      then gno_MentionCount right < gno_MentionCount left
      else gno_EntityKey left < gno_EntityKey right)"

lemma community_node_order_less: "community_node_order a < community_node_order b \<longleftrightarrow> graphCommunityNodeLess a b"
  by (auto simp: community_node_order_def graphCommunityNodeLess_def less_prod_def)

definition graphCommunityGroups :: "(nat \<times> nat list) list \<Rightarrow> graph_node list \<Rightarrow> graph_node list list" where
  "graphCommunityGroups nodeIndexesByRoot nodes =
     sort_key (\<lambda>grp. gno_EntityKey (hd grp))
       (map (\<lambda>(_, indexes). sort_key community_node_order (map (\<lambda>i. nodes ! i) indexes)) nodeIndexesByRoot)"

text \<open>The verb \<open>%03d\<close>.\<close>

definition pad3 :: "nat \<Rightarrow> string" where
  "pad3 n = replicate (3 - length (nat_text n)) (CHR ''0'') @ nat_text n"

definition graphCommunityKey :: "nat \<Rightarrow> graph_node list \<Rightarrow> string" where
  "graphCommunityKey index nodes = (case nodes of
     [] \<Rightarrow> ''community:'' @ pad3 (index + 1)
   | n # _ \<Rightarrow> ''community:'' @ pad3 (index + 1) @ '':'' @ gno_EntityKey n)"

section \<open>Reports\<close>

definition graphCommunityTitle :: "graph_node list \<Rightarrow> string" where
  "graphCommunityTitle nodes =
     (let names = take graphCommunityReportMaxTitleNodes (filter (\<lambda>s. s \<noteq> []) (map (TrimSpace \<circ> gno_Name) nodes))
      in if names = [] then ''Untitled graph community'' else Join names '' / '')"

definition graphCommunitySummary :: "graph_node list \<Rightarrow> graph_edge list \<Rightarrow> string" where
  "graphCommunitySummary nodes edges =
     (if length nodes = 1 then graphCommunityTitle nodes @ '' is an isolated graph community with 1 entity.''
      else graphCommunityTitle nodes @ '' is a graph community with '' @ nat_text (length nodes) @ '' entities and '' @
        nat_text (length edges) @ '' internal relationships.'')"

definition graphCommunityRank :: "graph_node list \<Rightarrow> graph_edge list \<Rightarrow> f64" where
  "graphCommunityRank nodes edges =
     (let ranked = fold (\<lambda>e r. f64_add r (ged_Weight e)) edges
            (fold (\<lambda>n r. f64_add r (f64_of_int (gno_MentionCount n))) nodes 0)
      in if ranked \<le> 0 then f64_of_int (int (length nodes)) else ranked)"

definition entity_line :: "graph_node \<Rightarrow> string" where
  "entity_line node =
     (let name = TrimSpace (gno_Name node); entityType = TrimSpace (gno_Type node);
          description = TrimSpace (gno_Description node)
      in (if name = [] then gno_EntityKey node else name) @
         (if entityType = [] then [] else '' ('' @ entityType @ '')'') @
         (if description = [] then [] else '': '' @ description))"

definition graphCommunityEntityLines :: "graph_node list \<Rightarrow> nat \<Rightarrow> string list" where
  "graphCommunityEntityLines nodes limit = take limit (map entity_line nodes)"

definition relation_line :: "graph_edge \<Rightarrow> string" where
  "relation_line edge =
     (let relationType = TrimSpace (ged_RelationType edge); description = TrimSpace (ged_Description edge)
      in ged_SourceEntityKey edge @ '' '' @ (if relationType = [] then ''RELATED_TO'' else relationType) @ '' '' @
         ged_TargetEntityKey edge @ (if description = [] then [] else '': '' @ description))"

definition graphCommunityRelationLines :: "graph_edge list \<Rightarrow> nat \<Rightarrow> string list" where
  "graphCommunityRelationLines edges limit = take limit (map relation_line
     (sort_key (\<lambda>e. (- ged_Weight e, ged_SourceEntityKey e, ged_TargetEntityKey e)) edges))"

fun fresh_texts :: "string list \<Rightarrow> string list \<Rightarrow> string list" where
  "fresh_texts seen [] = []"
| "fresh_texts seen (t # ts) = (if t = [] \<or> t \<in> set seen then fresh_texts seen ts else t # fresh_texts (t # seen) ts)"

definition graphCommunityEvidenceLines ::
  "graph_node list \<Rightarrow> (string \<Rightarrow> graph_node_chunk list) \<Rightarrow> nat \<Rightarrow> string list" where
  "graphCommunityEvidenceLines nodes chunksByEntityKey limit = take limit (fresh_texts []
     (map (\<lambda>c. Join (Fields (TrimSpace (gnc_SourceText c))) '' '')
        (concat (map (\<lambda>n. sort_key gnc_ChunkIndex (chunksByEntityKey (gno_EntityKey n))) nodes))))"

definition line_block :: "string \<Rightarrow> string list \<Rightarrow> string list" where
  "line_block heading ls = (if ls = [] then [] else [heading @ '':'' @ CHR 0x0A # ''- '' @ Join ls (CHR 0x0A # ''- '')])"

definition graphCommunityReportText ::
  "string \<Rightarrow> string \<Rightarrow> graph_node list \<Rightarrow> graph_edge list \<Rightarrow> (string \<Rightarrow> graph_node_chunk list) \<Rightarrow> string" where
  "graphCommunityReportText title summary nodes edges chunksByEntityKey =
     Join ([''Title: '' @ title, ''Summary: '' @ summary] @
       line_block ''Entities'' (graphCommunityEntityLines nodes graphCommunityReportMaxEntityLines) @
       line_block ''Relationships'' (graphCommunityRelationLines edges graphCommunityReportMaxRelationLines) @
       line_block ''Evidence'' (graphCommunityEvidenceLines nodes chunksByEntityKey graphCommunityReportMaxEvidenceChunks))
       [CHR 0x0A, CHR 0x0A]"

section \<open>Communities\<close>

definition community_of ::
  "graph_snapshot \<Rightarrow> string \<Rightarrow> graph_node list \<Rightarrow> graph_edge list \<Rightarrow> graph_community" where
  "community_of snapshot communityKey grp edges = \<lparr>gcm_GraphCommunityID = uuid_nil,
     gcm_GraphSnapshotID = gsn_GraphSnapshotID snapshot, gcm_DatasetID = gsn_DatasetID snapshot,
     gcm_UserID = gsn_UserID snapshot, gcm_OrgID = gsn_OrgID snapshot, gcm_CommunityKey = communityKey,
     gcm_Algorithm = GraphCommunityAlgorithmConnectedComponents, gcm_Level = 0,
     gcm_Title = graphCommunityTitle grp, gcm_Summary = graphCommunitySummary grp edges,
     gcm_Rank = graphCommunityRank grp edges, gcm_EntityCount = int (length grp),
     gcm_EdgeCount = int (length edges), gcm_AssertionStatus = []\<rparr>"

definition community_member :: "graph_snapshot \<Rightarrow> string \<Rightarrow> graph_node \<Rightarrow> graph_community_member" where
  "community_member snapshot communityKey node = \<lparr>gcb_GraphCommunityMemberID = uuid_nil,
     gcb_GraphCommunityID = uuid_nil, gcb_GraphSnapshotID = gsn_GraphSnapshotID snapshot, gcb_GraphNodeID = uuid_nil,
     gcb_EntityKey = gno_EntityKey node, gcb_CommunityKey = communityKey, gcb_DatasetID = gsn_DatasetID snapshot,
     gcb_UserID = gsn_UserID snapshot, gcb_OrgID = gsn_OrgID snapshot, gcb_AssertionStatus = []\<rparr>"

definition community_report ::
  "graph_snapshot \<Rightarrow> string \<Rightarrow> graph_node list \<Rightarrow> graph_edge list \<Rightarrow> (string \<Rightarrow> graph_node_chunk list) \<Rightarrow> graph_community_report" where
  "community_report snapshot communityKey grp edges chunksByEntityKey =
     (let title = graphCommunityTitle grp; summary = graphCommunitySummary grp edges;
          reportText = graphCommunityReportText title summary grp edges chunksByEntityKey
      in \<lparr>gcr_GraphCommunityReportID = uuid_nil, gcr_GraphCommunityID = uuid_nil,
          gcr_GraphSnapshotID = gsn_GraphSnapshotID snapshot, gcr_EmbeddingSnapshotID = gsn_EmbeddingSnapshotID snapshot,
          gcr_DatasetID = gsn_DatasetID snapshot, gcr_UserID = gsn_UserID snapshot, gcr_OrgID = gsn_OrgID snapshot,
          gcr_CommunityKey = communityKey, gcr_Level = 0, gcr_Title = title, gcr_Summary = summary,
          gcr_ReportText = reportText, gcr_Rank = graphCommunityRank grp edges,
          gcr_ReportVersion = GraphCommunityReportExtractiveV1, gcr_EmbeddingText = reportText,
          gcr_Vector = [], gcr_AssertionStatus = []\<rparr>)"

definition keyed_groups :: "graph_node list list \<Rightarrow> (string \<times> graph_node list) list" where
  "keyed_groups groups = map (\<lambda>(i, grp). (graphCommunityKey i grp, grp)) (List.enumerate 0 groups)"

definition community_key_map :: "(string \<times> graph_node list) list \<Rightarrow> (string \<rightharpoonup> string)" where
  "community_key_map groups = map_of (rev (concat (map (\<lambda>(k, grp). map (\<lambda>n. (gno_EntityKey n, k)) grp) groups)))"

definition internal_edges :: "(string \<rightharpoonup> string) \<Rightarrow> graph_edge list \<Rightarrow> string \<Rightarrow> graph_edge list" where
  "internal_edges communityKeyByEntityKey edges communityKey = filter (\<lambda>e.
     let source = text_at communityKeyByEntityKey (ged_SourceEntityKey e);
         target = text_at communityKeyByEntityKey (ged_TargetEntityKey e)
     in source \<noteq> [] \<and> source = target \<and> source = communityKey) edges"

definition community_groups :: "graph_node list \<Rightarrow> graph_edge list \<Rightarrow> graph_node list list option" where
  "community_groups nodes edges = do {
     let nodeIndexByKey = map_of (rev (zip (map gno_EntityKey nodes) [0..<length nodes]));
     components \<leftarrow> ds_unions (community_pairs nodeIndexByKey edges) (newGraphEntityDisjointSet (length nodes));
     (roots, _) \<leftarrow> ds_finds [0..<length nodes] components;
     Some (graphCommunityGroups (fold add_to_root (zip [0..<length nodes] roots) []) nodes)
   }"

definition graphMaterializationWithCommunities :: "graph_materialization \<Rightarrow> graph_materialization option" where
  "graphMaterializationWithCommunities m = (case gmz_Snapshot m of
     None \<Rightarrow> Some m
   | Some snapshot \<Rightarrow> if gmz_Nodes m = [] then Some m else do {
       groups \<leftarrow> map_option keyed_groups (community_groups (sort_key gno_EntityKey (gmz_Nodes m)) (gmz_Edges m));
       let edges_of = internal_edges (community_key_map groups) (gmz_Edges m);
       let chunksByEntityKey = (\<lambda>k. filter (\<lambda>c. gnc_EntityKey c = k) (gmz_NodeChunks m));
       Some (m\<lparr>
         gmz_Communities := map (\<lambda>(k, grp). community_of snapshot k grp (edges_of k)) groups,
         gmz_CommunityMembers := concat (map (\<lambda>(k, grp). map (community_member snapshot k) grp) groups),
         gmz_CommunityReports := map (\<lambda>(k, grp). community_report snapshot k grp (edges_of k) chunksByEntityKey) groups\<rparr>)
     })"

section \<open>The reporter\<close>

datatype graph_community_reporter = disabledGraphCommunityReporter | embeddingGraphCommunityReporter provider_factory

definition NewEmbeddingGraphCommunityReporter :: "provider_factory option \<Rightarrow> graph_community_reporter" where
  "NewEmbeddingGraphCommunityReporter providerFactory = (case providerFactory of
     None \<Rightarrow> disabledGraphCommunityReporter | Some factory \<Rightarrow> embeddingGraphCommunityReporter factory)"

definition embed_reports ::
  "provider_factory \<Rightarrow> embedding_snapshot \<Rightarrow> graph_materialization \<Rightarrow> feature_error + graph_materialization" where
  "embed_reports factory embeddingSnapshot m = (let reports = gmz_CommunityReports m in
     if reports = [] then Inr m
     else case factory (embeddingStrategyFromSnapshot embeddingSnapshot) of
       Inl e \<Rightarrow> Inl (wrap_errors ErrGraphCommunityReport ''create graph community embedding provider: '' e)
     | Inr provider \<Rightarrow>
         if epr_Dimensions provider \<noteq> esn_EmbeddingDimensions embeddingSnapshot
         then Inl (feature_Extend ErrGraphCommunityReport
                ''graph community embedding provider dimensions do not match graph embedding snapshot'')
         else case epr_Embed provider (map gcr_EmbeddingText reports) of
           Inl e \<Rightarrow> Inl (wrap_errors ErrGraphCommunityReport ''embed graph community reports: '' e)
         | Inr vectors \<Rightarrow>
             if length vectors \<noteq> length reports
             then Inl (feature_Extend ErrGraphCommunityReport
                    ''graph community embedding provider returned unexpected vector count'')
             else if \<exists>v \<in> set vectors. int (length v) \<noteq> esn_EmbeddingDimensions embeddingSnapshot
             then Inl (feature_Extend ErrGraphCommunityReport
                    ''graph community embedding vector dimensions do not match graph embedding snapshot'')
             else Inr (m\<lparr>gmz_CommunityReports := map (\<lambda>(r, v). r\<lparr>gcr_Vector := normalizeVector v\<rparr>) (zip reports vectors)\<rparr>))"

definition BuildGraphCommunities ::
  "graph_community_reporter \<Rightarrow> graph_materialization option \<Rightarrow> embedding_snapshot option \<Rightarrow>
   (feature_error + graph_materialization option) option" where
  "BuildGraphCommunities reporter materialization embeddingSnapshot = (case reporter of
     disabledGraphCommunityReporter \<Rightarrow> Some (Inr materialization)
   | embeddingGraphCommunityReporter factory \<Rightarrow>
       (if materialization = None \<or> map_option gmz_Snapshot materialization = Some None
        then Some (Inl (feature_Extend ErrGraphCommunityReport ''graph materialization is required''))
        else case embeddingSnapshot of
          None \<Rightarrow> Some (Inl (feature_Extend ErrGraphCommunityReport ''embedding snapshot is required''))
        | Some es \<Rightarrow> do {
            m \<leftarrow> graphMaterializationWithCommunities (the materialization);
            Some (case embed_reports factory es m of Inl e \<Rightarrow> Inl e | Inr m1 \<Rightarrow> Inr (Some m1))
          }))"

end
