(* ===== verification/GraphResolverProperties.thy ===== *)
theory GraphResolverProperties
  imports GraphResolver
begin

text \<open>
  What entity resolution guarantees: the clusters are the classes of the similarity between
  nodes, each is named by its preferred node, and the resolved graph is again a closed one in
  which edges are unique.
\<close>

section \<open>Canonical keys\<close>

text \<open>The preference between nodes is an order: most mentions, then a name, then the key.\<close>

definition canonical_rank :: "graph_node \<Rightarrow> int \<times> bool \<times> string" where
  "canonical_rank n = (- gno_MentionCount n, TrimSpace (gno_Name n) = [], gno_EntityKey n)"

lemma prefer_rank: "graphPreferCanonicalNode a b \<longleftrightarrow> canonical_rank a < canonical_rank b"
  by (auto simp: graphPreferCanonicalNode_def canonical_rank_def Let_def less_prod_def)

lemma choose_canonical_fold:
  fixes r :: "nat \<Rightarrow> nat" and nodes :: "graph_node list"
  defines "m xs \<equiv> fold (choose_canonical nodes) (map (\<lambda>i. (i, r i)) xs) Map.empty"
  shows "case m xs root of None \<Rightarrow> \<forall>i \<in> set xs. r i \<noteq> root
    | Some c \<Rightarrow> c \<in> set xs \<and> r c = root \<and>
        (\<forall>i \<in> set xs. r i = root \<longrightarrow> canonical_rank (nodes ! c) \<le> canonical_rank (nodes ! i))"
proof (induction xs rule: rev_induct)
  case (snoc j js)
  have m: "m (js @ [j]) = choose_canonical nodes (j, r j) (m js)" by (simp add: m_def)
  show ?case
  proof (cases "m js (r j)")
    case None
    then show ?thesis using snoc unfolding m by (auto simp: choose_canonical_def split: option.splits)
  next
    case (Some c)
    then show ?thesis
      using snoc unfolding m choose_canonical_def
      by (fastforce simp: prefer_rank not_less split: option.splits if_splits)
  qed
qed (simp add: m_def)

lemma set_canonical_fold:
  assumes "distinct (map (\<lambda>i. gno_EntityKey (nodes ! i)) is)"
  shows "fold (set_canonical_key nodes c) (map (\<lambda>i. (i, r i)) is) Map.empty k =
    map_option (\<lambda>i. case c (r i) of None \<Rightarrow> gno_EntityKey (nodes ! i) | Some j \<Rightarrow> gno_EntityKey (nodes ! j))
      (find (\<lambda>i. gno_EntityKey (nodes ! i) = k) is)"
  using assms
proof (induction "is" rule: rev_induct)
  case (snoc j js)
  have find_snoc: "find p (xs @ [y]) = (case find p xs of Some x \<Rightarrow> Some x | None \<Rightarrow> if p y then Some y else None)"
    for p :: "nat \<Rightarrow> bool" and xs y by (induction xs) auto
  have "find (\<lambda>i. gno_EntityKey (nodes ! i) = gno_EntityKey (nodes ! j)) js = None"
    unfolding find_None_iff using snoc.prems by (simp add: image_iff) metis
  then show ?case using snoc by (auto simp: set_canonical_key_def find_snoc split: option.splits)
qed simp

text \<open>Two nodes are in one cluster when a chain of similar nodes joins them.\<close>

definition clustered :: "graph_node list \<Rightarrow> f32 list list \<Rightarrow> f64 \<Rightarrow> nat \<Rightarrow> nat \<Rightarrow> bool" where
  "clustered nodes vectors threshold = linked (set (similar_pairs nodes vectors threshold))"

lemma similar_pairs_set:
  "set (similar_pairs nodes vectors threshold) =
     {(i, j). i < j \<and> j < length nodes \<and> similar nodes vectors threshold i j}"
  by (force simp: similar_pairs_def image_iff)

lemma linked_induct_sym:
  assumes "linked E a b" "P a" "\<And>x y. (x, y) \<in> E \<Longrightarrow> P x \<longleftrightarrow> P y"
  shows "P b"
  using assms(1) unfolding linked_def
  by (induction rule: rtrancl_induct) (use assms(2,3) in auto)

lemma clustered_keyed:
  assumes "clustered nodes vectors threshold i j" "i < length nodes" "gno_EntityKey (nodes ! i) \<noteq> []"
  shows "j < length nodes \<and> gno_EntityKey (nodes ! j) \<noteq> [] \<and>
    graphNormalizedType (gno_Type (nodes ! j)) = graphNormalizedType (gno_Type (nodes ! i))"
  using assms(1) unfolding clustered_def
  by (rule linked_induct_sym [where P = "\<lambda>j. j < length nodes \<and> gno_EntityKey (nodes ! j) \<noteq> [] \<and>
    graphNormalizedType (gno_Type (nodes ! j)) = graphNormalizedType (gno_Type (nodes ! i))"])
    (use assms(2,3) in \<open>auto simp: similar_pairs_set similar_def\<close>)

definition canonical_of :: "graph_node list \<Rightarrow> f32 list list \<Rightarrow> f64 \<Rightarrow> (string \<rightharpoonup> string) \<Rightarrow> bool" where
  "canonical_of nodes vectors threshold m \<longleftrightarrow>
     dom m = {gno_EntityKey n |n. n \<in> set nodes \<and> gno_EntityKey n \<noteq> []} \<and>
     (\<forall>i < length nodes. gno_EntityKey (nodes ! i) \<noteq> [] \<longrightarrow>
        (\<exists>c < length nodes. m (gno_EntityKey (nodes ! i)) = Some (gno_EntityKey (nodes ! c)) \<and>
           clustered nodes vectors threshold i c \<and>
           (\<forall>j. clustered nodes vectors threshold i j \<longrightarrow> canonical_rank (nodes ! c) \<le> canonical_rank (nodes ! j))))"

lemma canonical_keys:
  assumes "distinct (map gno_EntityKey nodes)"
  shows "\<exists>m. graphCanonicalEntityKeys nodes vectors threshold = Some m \<and> canonical_of nodes vectors threshold m"
proof -
  let ?n = "length nodes" and ?pairs = "similar_pairs nodes vectors threshold" and ?is = "keyed_indexes nodes"
  let ?key = "\<lambda>i. gno_EntityKey (nodes ! i)"
  have is_set: "set ?is = {i. i < ?n \<and> ?key i \<noteq> []}" by (auto simp: keyed_indexes_def)
  obtain s where s: "ds_unions ?pairs (newGraphEntityDisjointSet ?n) = Some s" "ranked s" "length (ds_parent s) = ?n"
    and cl: "\<And>a b. a < ?n \<Longrightarrow> b < ?n \<Longrightarrow> ds_root s a = ds_root s b \<longleftrightarrow> clustered nodes vectors threshold a b"
    unfolding clustered_def by (rule ds_unions_classes [of ?pairs ?n]) (auto simp: similar_pairs_set)
  obtain s1 where s1: "ds_finds ?is s = Some (map (ds_root s) ?is, s1)" "ranked s1" "length (ds_parent s1) = ?n"
    and r1: "\<And>j. j < ?n \<Longrightarrow> ds_root s1 j = ds_root s j"
    using ds_finds_roots [OF s(2), of ?is] s(3) is_set by auto
  have "\<forall>i \<in> set ?is. i < length (ds_parent s1)" using s1(3) is_set by simp
  then obtain s2 where s2: "ds_finds ?is s1 = Some (map (ds_root s1) ?is, s2)"
    by (rule ds_finds_roots [OF s1(2)]) (rule that)
  have roots: "map (ds_root s1) ?is = map (ds_root s) ?is" using r1 is_set by simp
  define c where "c = fold (choose_canonical nodes) (map (\<lambda>i. (i, ds_root s i)) ?is) Map.empty"
  define m where "m = fold (set_canonical_key nodes c) (map (\<lambda>i. (i, ds_root s i)) ?is) Map.empty"
  have "graphCanonicalEntityKeys nodes vectors threshold = Some m"
    by (simp add: graphCanonicalEntityKeys_def s(1) s1(1) s2 roots m_def c_def zip_map2 zip_same_conv_map Let_def comp_def)
  moreover have "canonical_of nodes vectors threshold m"
  proof -
    have inj: "i = j" if "i < ?n" "j < ?n" "?key i = ?key j" for i j
      using assms that by (metis distinct_map inj_on_eq_iff nth_eq_iff_index_eq nth_mem)
    have "distinct (map ?key ?is)"
      by (auto simp: distinct_map inj_on_def is_set keyed_indexes_def dest: inj)
    note m_find = set_canonical_fold [OF this, of c "ds_root s", folded m_def]
    have found: "find (\<lambda>j. ?key j = ?key i) ?is = Some i" if "i \<in> set ?is" for i
    proof -
      have "find (\<lambda>j. ?key j = ?key i) ?is \<noteq> None" using that by (auto simp: find_None_iff)
      then obtain j where j: "find (\<lambda>j. ?key j = ?key i) ?is = Some j" by blast
      then show ?thesis using find_SomeD [OF j] that inj is_set by auto
    qed
    have dom: "dom m = ?key ` set ?is"
      by (auto simp: dom_def m_find find_Some_iff2 find_None_iff dest: find_SomeD)
    have "\<exists>d < ?n. m (?key i) = Some (?key d) \<and> clustered nodes vectors threshold i d \<and>
        (\<forall>j. clustered nodes vectors threshold i j \<longrightarrow> canonical_rank (nodes ! d) \<le> canonical_rank (nodes ! j))"
      if i: "i < ?n" "?key i \<noteq> []" for i
    proof -
      have ii: "i \<in> set ?is" using i is_set by auto
      obtain d where d: "c (ds_root s i) = Some d" "d \<in> set ?is" "ds_root s d = ds_root s i"
        and best: "\<And>j. j \<in> set ?is \<Longrightarrow> ds_root s j = ds_root s i \<Longrightarrow> canonical_rank (nodes ! d) \<le> canonical_rank (nodes ! j)"
        using choose_canonical_fold [where nodes = nodes and r = "ds_root s" and xs = ?is and root = "ds_root s i", folded c_def] ii
        by (auto split: option.splits)
      have "m (?key i) = Some (?key d)" using found [OF ii] by (simp add: m_find d(1))
      moreover have "clustered nodes vectors threshold i d" using cl [of i d] d is_set i by auto
      moreover have "canonical_rank (nodes ! d) \<le> canonical_rank (nodes ! j)"
        if "clustered nodes vectors threshold i j" for j
        using best [of j] clustered_keyed [OF that i] cl [of i j] that i is_set by auto
      ultimately show ?thesis using d(2) is_set by auto
    qed
    moreover have "?key ` set ?is = {gno_EntityKey n |n. n \<in> set nodes \<and> gno_EntityKey n \<noteq> []}"
      unfolding is_set by (auto simp: in_set_conv_nth)
    ultimately show ?thesis unfolding canonical_of_def dom by blast
  qed
  ultimately show ?thesis by blast
qed

section \<open>The nodes of the resolved graph\<close>

text \<open>
  A canonical map: it sends every node key to the key of a node, and that key to itself. The
  loop over the nodes then leaves one node per canonical key.
\<close>

definition canonical_map :: "graph_node list \<Rightarrow> (string \<rightharpoonup> string) \<Rightarrow> bool" where
  "canonical_map nodes m \<longleftrightarrow> dom m = gno_EntityKey ` set nodes \<and> ran m \<subseteq> dom m \<and> (\<forall>k \<in> ran m. m k = Some k)"

lemma canonical_of_map:
  assumes "distinct (map gno_EntityKey nodes)" "[] \<notin> gno_EntityKey ` set nodes"
    and "canonical_of nodes vectors threshold m"
  shows "canonical_map nodes m"
proof -
  let ?cl = "clustered nodes vectors threshold"
  have "{gno_EntityKey n |n. n \<in> set nodes \<and> gno_EntityKey n \<noteq> []} = gno_EntityKey ` set nodes"
    using assms(2) by (auto simp: image_iff) metis
  then have dom: "dom m = gno_EntityKey ` set nodes" using assms(3) by (simp only: canonical_of_def)
  have keyed: "gno_EntityKey (nodes ! i) \<noteq> []" if "i < length nodes" for i
    using assms(2) that by (metis image_eqI nth_mem)
  have step: "\<exists>c < length nodes. m (gno_EntityKey (nodes ! i)) = Some (gno_EntityKey (nodes ! c)) \<and> ?cl i c \<and>
      (\<forall>j. ?cl i j \<longrightarrow> canonical_rank (nodes ! c) \<le> canonical_rank (nodes ! j))" if "i < length nodes" for i
    using assms(3) keyed [OF that] that by (simp add: canonical_of_def)
  have fixed: "v \<in> dom m \<and> m v = Some v" if kv: "m k = Some v" for k v
  proof -
    have "k \<in> gno_EntityKey ` set nodes" using kv dom by blast
    then obtain i where i: "i < length nodes" "k = gno_EntityKey (nodes ! i)" by (auto simp: in_set_conv_nth)
    then obtain c where c: "c < length nodes" "v = gno_EntityKey (nodes ! c)" "?cl i c"
      "\<forall>j. ?cl i j \<longrightarrow> canonical_rank (nodes ! c) \<le> canonical_rank (nodes ! j)"
      using step [of i] kv by auto
    obtain d where d: "d < length nodes" "m v = Some (gno_EntityKey (nodes ! d))" "?cl c d"
      "\<forall>j. ?cl c j \<longrightarrow> canonical_rank (nodes ! d) \<le> canonical_rank (nodes ! j)"
      using step [OF c(1)] c(2) by auto
    have "?cl c c" "?cl i d" using c(3) d(3) by (auto simp: clustered_def intro: linked_trans)
    then have "canonical_rank (nodes ! d) = canonical_rank (nodes ! c)"
      using c(4) d(4) by (meson order_antisym)
    then have "gno_EntityKey (nodes ! d) = v" using c(2) by (simp add: canonical_rank_def)
    then show ?thesis using d(2) by auto
  qed
  then show ?thesis unfolding canonical_map_def dom by (auto simp: ran_def dom [symmetric])
qed

lemma graphCanonicalKey_map:
  assumes "canonical_map nodes m" "[] \<notin> gno_EntityKey ` set nodes" "k \<in> gno_EntityKey ` set nodes"
  shows "m k = Some (graphCanonicalKey m k)" "graphCanonicalKey m k \<in> gno_EntityKey ` set nodes"
    "graphCanonicalKey m k \<noteq> []" "graphCanonicalKey m (graphCanonicalKey m k) = graphCanonicalKey m k"
proof -
  have "k \<in> dom m" using assms(1,3) by (simp only: canonical_map_def)
  then obtain v where v: "m k = Some v" by blast
  then have vr: "v \<in> ran m" by (auto simp: ran_def)
  then have vk: "v \<in> gno_EntityKey ` set nodes" "m v = Some v" using assms(1) by (auto simp: canonical_map_def)
  then have "v \<noteq> []" using assms(2) by metis
  then have g: "graphCanonicalKey m k = v" "graphCanonicalKey m v = v"
    using v vk(2) by (simp_all add: graphCanonicalKey_def text_at_def)
  show "m k = Some (graphCanonicalKey m k)" "graphCanonicalKey m k \<in> gno_EntityKey ` set nodes"
    "graphCanonicalKey m k \<noteq> []" "graphCanonicalKey m (graphCanonicalKey m k) = graphCanonicalKey m k"
    using g v vk \<open>v \<noteq> []\<close> by simp_all
qed

lemma graphCanonicalKey_other: "k \<notin> dom m \<Longrightarrow> graphCanonicalKey m k = k"
  by (auto simp: graphCanonicalKey_def text_at_def dom_def)

definition mentions :: "graph_node list \<Rightarrow> int" where
  "mentions nodes = sum_list (map gno_MentionCount nodes)"

lemma wrap64_add: "wrap64 (wrap64 a + b) = wrap64 (a + b)" "wrap64 (a + wrap64 b) = wrap64 (a + b)"
  by (simp_all add: wrap64_def) (presburger | smt (verit) mod_add_left_eq mod_add_right_eq)+

lemma mentions_update:
  assumes "distinct (map fst al)" "map_of al k = Some old"
  shows "sum_list (map (gno_MentionCount \<circ> snd) (AList.update k new al)) =
    sum_list (map (gno_MentionCount \<circ> snd) al) - gno_MentionCount old + gno_MentionCount new"
  using assms by (induction al) (auto split: if_splits)

lemma mentions_new:
  assumes "map_of al k = None"
  shows "sum_list (map (gno_MentionCount \<circ> snd) (AList.update k new al)) =
    sum_list (map (gno_MentionCount \<circ> snd) al) + gno_MentionCount new"
  using assms by (induction al) (auto split: if_splits)

definition resolved_nodes_ok ::
  "graph_node list \<Rightarrow> (string \<rightharpoonup> string) \<Rightarrow> graph_snapshot \<Rightarrow> graph_node list \<Rightarrow> resolution_state \<Rightarrow> bool" where
  "resolved_nodes_ok nodes m snapshot ns st \<longleftrightarrow> distinct (map fst (rst_canonicalNodes st)) \<and>
     set (map fst (rst_canonicalNodes st)) = (graphCanonicalKey m \<circ> gno_EntityKey) ` set ns \<and>
     (\<forall>(k, n) \<in> set (rst_canonicalNodes st). gno_EntityKey n = k \<and>
        (\<exists>n0 \<in> set nodes. gno_EntityKey n0 = k \<and> gno_Name n = gno_Name n0 \<and> gno_Type n = gno_Type n0)) \<and>
     wrap64 (sum_list (map (gno_MentionCount \<circ> snd) (rst_canonicalNodes st))) = wrap64 (mentions ns) \<and>
     rst_aliases st = map (\<lambda>n. node_alias snapshot (graphCanonicalKey m (gno_EntityKey n)) n) ns"

lemma resolved_nodes_okD:
  "resolved_nodes_ok nodes m snapshot ns st \<Longrightarrow> \<forall>(k, n) \<in> set (rst_canonicalNodes st). gno_EntityKey n = k \<and>
     (\<exists>n0 \<in> set nodes. gno_EntityKey n0 = k \<and> gno_Name n = gno_Name n0 \<and> gno_Type n = gno_Type n0)"
  by (simp add: resolved_nodes_ok_def)

lemma absorb_node_fields:
  "gno_EntityKey (absorb_node n c) = gno_EntityKey c" "gno_Name (absorb_node n c) = gno_Name c"
  "gno_Type (absorb_node n c) = gno_Type c"
  "gno_MentionCount (absorb_node n c) = wrap64 (gno_MentionCount c + gno_MentionCount n)"
  by (simp_all add: absorb_node_def Let_def)

lemma map_of_key_list: "n \<in> set ns \<Longrightarrow> \<exists>n0. by_key ns (gno_EntityKey n) = Some n0 \<and>
    n0 \<in> set ns \<and> gno_EntityKey n0 = gno_EntityKey n"
  unfolding by_key_def
  by (cases "map_of (rev (map (\<lambda>n. (gno_EntityKey n, n)) ns)) (gno_EntityKey n)")
    (auto simp: map_of_eq_None_iff image_iff dest!: map_of_SomeD)

lemma resolve_node_ok:
  assumes m: "canonical_map nodes m" "[] \<notin> gno_EntityKey ` set nodes" and n: "n \<in> set nodes"
    and ok: "resolved_nodes_ok nodes m snapshot ns st"
  shows "resolved_nodes_ok nodes m snapshot (ns @ [n])
    (resolve_node snapshot (by_key nodes) vectorByKey m n st)"
proof -
  define k where "k = graphCanonicalKey m (gno_EntityKey n)"
  define al where "al = rst_canonicalNodes st"
  have k: "k \<in> gno_EntityKey ` set nodes" "k \<noteq> []"
    unfolding k_def using graphCanonicalKey_map [OF m] n by blast+
  obtain x where x: "x \<in> set nodes" "gno_EntityKey x = k" using k(1) by blast
  obtain n0 where n0: "by_key nodes k = Some n0" "n0 \<in> set nodes" "gno_EntityKey n0 = k"
    using map_of_key_list [OF x(1)] unfolding x(2) by blast
  define canonical where "canonical = (case map_of al k of Some c \<Rightarrow> c | None \<Rightarrow> n0\<lparr>gno_MentionCount := 0\<rparr>)"
  let ?new = "AList.update k (absorb_node n canonical) al"
  have al: "distinct (map fst al)" "\<forall>(k, n) \<in> set al. gno_EntityKey n = k \<and>
      (\<exists>n0 \<in> set nodes. gno_EntityKey n0 = k \<and> gno_Name n = gno_Name n0 \<and> gno_Type n = gno_Type n0)"
    using ok by (simp_all add: resolved_nodes_ok_def al_def)
  have canonical: "gno_EntityKey canonical = k" "\<exists>n0 \<in> set nodes. gno_EntityKey n0 = k \<and>
      gno_Name canonical = gno_Name n0 \<and> gno_Type canonical = gno_Type n0"
    using al(2) n0 by (auto simp: canonical_def split: option.splits dest: map_of_SomeD)
  have nodes: "rst_canonicalNodes (resolve_node snapshot (by_key nodes) vectorByKey m n st) = ?new"
    using canonical(1) k(2) n0(1) unfolding canonical_def
    by (auto simp: resolve_node_def Let_def k_def [symmetric] al_def [symmetric] node_at_def zero_node_def
        split: option.splits)
  have "gno_EntityKey c = j \<and> (\<exists>n0 \<in> set nodes. gno_EntityKey n0 = j \<and> gno_Name c = gno_Name n0 \<and> gno_Type c = gno_Type n0)"
    if "(j, c) \<in> set ?new" for j c
  proof (cases "j = k")
    case True
    have "map_of ?new j = Some c" using that al(1) by (simp add: AList.distinct_update)
    then have "c = absorb_node n canonical" using True by (simp add: update_conv)
    then show ?thesis using canonical True by (simp add: absorb_node_fields)
  next
    case False
    have "map_of ?new j = Some c" using that al(1) by (simp add: AList.distinct_update)
    then have "(j, c) \<in> set al" using False by (auto simp: update_conv dest: map_of_SomeD)
    then show ?thesis using al(2) by blast
  qed
  moreover have "wrap64 (sum_list (map (gno_MentionCount \<circ> snd) ?new)) = wrap64 (mentions (ns @ [n]))"
  proof -
    have "sum_list (map (gno_MentionCount \<circ> snd) ?new) =
        sum_list (map (gno_MentionCount \<circ> snd) al) - (gno_MentionCount canonical) +
          wrap64 (gno_MentionCount canonical + gno_MentionCount n)"
      using mentions_update [OF al(1), of k] mentions_new [of al k]
      by (auto simp: canonical_def absorb_node_fields split: option.splits)
    also have "wrap64 \<dots> = wrap64 (sum_list (map (gno_MentionCount \<circ> snd) al) + gno_MentionCount n)"
      by (simp add: wrap64_add)
    also have "\<dots> = wrap64 (wrap64 (mentions ns) + gno_MentionCount n)"
      using ok unfolding resolved_nodes_ok_def al_def by (metis wrap64_add(1))
    also have "\<dots> = wrap64 (mentions (ns @ [n]))"
      by (simp add: wrap64_add mentions_def)
    finally show ?thesis .
  qed
  moreover have "rst_aliases (resolve_node snapshot (by_key nodes) vectorByKey m n st) =
      map (\<lambda>n. node_alias snapshot (graphCanonicalKey m (gno_EntityKey n)) n) (ns @ [n])"
    using ok by (simp add: resolved_nodes_ok_def resolve_node_def Let_def)
  ultimately show ?thesis
    using ok al unfolding resolved_nodes_ok_def nodes al_def [symmetric] k_def [symmetric]
    by (auto simp: AList.distinct_update AList.update_keys k_def)
qed

lemma resolve_nodes_ok:
  assumes "canonical_map nodes m" "[] \<notin> gno_EntityKey ` set nodes" "set ns \<subseteq> set nodes"
  shows "resolved_nodes_ok nodes m snapshot ns
    (fold (resolve_node snapshot (by_key nodes) vectorByKey m) ns
      \<lparr>rst_canonicalNodes = [], rst_clusterVectors = Map.empty, rst_aliases = []\<rparr>)"
  using assms(3)
proof (induction ns rule: rev_induct)
  case (snoc n ns)
  then show ?case using resolve_node_ok [OF assms(1,2), of n] by simp
qed (simp add: resolved_nodes_ok_def mentions_def)

section \<open>The edges of the resolved graph\<close>

definition survives :: "(string \<rightharpoonup> string) \<Rightarrow> graph_edge \<Rightarrow> bool" where
  "survives m e \<longleftrightarrow> graphCanonicalKey m (ged_SourceEntityKey e) \<noteq> [] \<and>
     graphCanonicalKey m (ged_TargetEntityKey e) \<noteq> [] \<and>
     graphCanonicalKey m (ged_SourceEntityKey e) \<noteq> graphCanonicalKey m (ged_TargetEntityKey e)"

definition resolved_triple :: "(string \<rightharpoonup> string) \<Rightarrow> graph_edge \<Rightarrow> string \<times> string \<times> string" where
  "resolved_triple m e = (graphCanonicalKey m (ged_SourceEntityKey e), graphCanonicalKey m (ged_TargetEntityKey e),
     if TrimSpace (ged_RelationType e) = [] then ''RELATED_TO'' else TrimSpace (ged_RelationType e))"

definition triple_key :: "string \<times> string \<times> string \<Rightarrow> string" where
  "triple_key = (\<lambda>(s, t, r). pair_key s (pair_key t r))"

definition redirected :: "(string \<rightharpoonup> string) \<Rightarrow> graph_edge \<Rightarrow> graph_edge" where
  "redirected m e = e\<lparr>ged_SourceEntityKey := fst (resolved_triple m e),
     ged_TargetEntityKey := fst (snd (resolved_triple m e)), ged_RelationType := snd (snd (resolved_triple m e))\<rparr>"

lemma redirected_fields [simp]:
  "edge_triple (redirected m e) = resolved_triple m e" "ged_Weight (redirected m e) = ged_Weight e"
  by (simp_all add: redirected_def edge_triple_def)

lemma resolve_edge_eq:
  "resolve_edge m e al = (if \<not> survives m e then al
     else let key = triple_key (resolved_triple m e) in case map_of al key of
         None \<Rightarrow> AList.update key (redirected m e) al
       | Some y \<Rightarrow> if ged_Weight y < ged_Weight e then AList.update key (redirected m e) al
           else if ged_Description y = [] \<and> TrimSpace (ged_Description e) \<noteq> []
           then AList.update key (y\<lparr>ged_Description := TrimSpace (ged_Description e)\<rparr>) al else al)"
  by (simp add: resolve_edge_def survives_def triple_key_def resolved_triple_def redirected_def Let_def
      split: option.split)

definition resolved_edges_ok :: "(string \<rightharpoonup> string) \<Rightarrow> graph_edge list \<Rightarrow> (string \<times> graph_edge) list \<Rightarrow> bool" where
  "resolved_edges_ok m es al \<longleftrightarrow> distinct (map fst al) \<and>
     (\<forall>k x. map_of al k = Some x \<longrightarrow> k = triple_key (edge_triple x) \<and>
        (\<exists>e \<in> set es. survives m e \<and> edge_triple x = resolved_triple m e \<and> ged_Weight x = ged_Weight e)) \<and>
     (\<forall>e \<in> set es. survives m e \<longrightarrow>
        (\<exists>x. map_of al (triple_key (resolved_triple m e)) = Some x \<and> ged_Weight e \<le> ged_Weight x))"

lemma resolved_edges_put:
  assumes ok: "resolved_edges_ok m es al" and e: "survives m e"
    and x: "triple_key (edge_triple x) = triple_key (resolved_triple m e)"
      "edge_triple x = resolved_triple m e \<and> ged_Weight x = ged_Weight e \<or> (\<exists>y. map_of al (triple_key (resolved_triple m e)) = Some y \<and>
         edge_triple y = edge_triple x \<and> ged_Weight y = ged_Weight x)"
    and le: "ged_Weight e \<le> ged_Weight x"
      "\<And>y. map_of al (triple_key (resolved_triple m e)) = Some y \<Longrightarrow> ged_Weight y \<le> ged_Weight x"
  shows "resolved_edges_ok m (es @ [e]) (AList.update (triple_key (resolved_triple m e)) x al)"
proof -
  let ?k = "triple_key (resolved_triple m e)" and ?al = "AList.update (triple_key (resolved_triple m e)) x al"
  have lookup: "map_of ?al k = (if k = ?k then Some x else map_of al k)" for k by (simp add: update_conv)
  have d: "distinct (map fst ?al)" using ok by (simp add: resolved_edges_ok_def AList.distinct_update)
  have old: "k = triple_key (edge_triple y) \<and>
      (\<exists>e \<in> set es. survives m e \<and> edge_triple y = resolved_triple m e \<and> ged_Weight y = ged_Weight e)"
    if "map_of al k = Some y" for k y using ok that by (simp add: resolved_edges_ok_def)
  have "\<exists>e' \<in> set (es @ [e]). survives m e' \<and> edge_triple x = resolved_triple m e' \<and> ged_Weight x = ged_Weight e'"
    using x(2)
  proof
    assume "\<exists>y. map_of al ?k = Some y \<and> edge_triple y = edge_triple x \<and> ged_Weight y = ged_Weight x"
    then obtain y where y: "map_of al ?k = Some y" "edge_triple y = edge_triple x" "ged_Weight y = ged_Weight x" by blast
    from old [OF y(1)] show ?thesis unfolding y(2,3) by auto
  qed (use e x(1) in auto)
  then have "k = triple_key (edge_triple y) \<and> (\<exists>e' \<in> set (es @ [e]). survives m e' \<and>
      edge_triple y = resolved_triple m e' \<and> ged_Weight y = ged_Weight e')" if "map_of ?al k = Some y" for k y
    using that x(1) old [of k y] by (auto simp: lookup split: if_splits)
  moreover have "\<exists>y. map_of ?al (triple_key (resolved_triple m e')) = Some y \<and> ged_Weight e' \<le> ged_Weight y"
    if e': "e' \<in> set (es @ [e])" "survives m e'" for e'
  proof (cases "triple_key (resolved_triple m e') = ?k")
    case True
    have "ged_Weight e' \<le> ged_Weight x" if "e' \<in> set es"
      using ok that \<open>survives m e'\<close> True le(2) unfolding resolved_edges_ok_def by (metis order_trans)
    then show ?thesis using that(1) le(1) by (auto simp: lookup True)
  next
    case False
    then have "e' \<in> set es" using that(1) by auto
    then obtain y where "map_of al (triple_key (resolved_triple m e')) = Some y" "ged_Weight e' \<le> ged_Weight y"
      using ok e'(2) unfolding resolved_edges_ok_def by blast
    then show ?thesis using False unfolding lookup by auto
  qed
  ultimately show ?thesis unfolding resolved_edges_ok_def using d by blast
qed

lemma resolve_edge_ok:
  assumes "resolved_edges_ok m es al"
  shows "resolved_edges_ok m (es @ [e]) (resolve_edge m e al)"
proof (cases "survives m e")
  case True
  let ?k = "triple_key (resolved_triple m e)"
  show ?thesis
  proof (cases "map_of al ?k")
    case None
    then show ?thesis using True assms by (auto simp: resolve_edge_eq intro!: resolved_edges_put)
  next
    case (Some y)
    then have k: "?k = triple_key (edge_triple y)" using assms by (simp add: resolved_edges_ok_def)
    consider "ged_Weight y < ged_Weight e"
      | "ged_Weight e \<le> ged_Weight y" "ged_Description y = [] \<and> TrimSpace (ged_Description e) \<noteq> []"
      | "ged_Weight e \<le> ged_Weight y" "\<not> (ged_Description y = [] \<and> TrimSpace (ged_Description e) \<noteq> [])"
      by linarith
    then show ?thesis
    proof cases
      case 1
      then show ?thesis using True Some assms by (auto simp: resolve_edge_eq intro!: resolved_edges_put)
    next
      case 2
      let ?x = "y\<lparr>ged_Description := TrimSpace (ged_Description e)\<rparr>"
      have "resolved_edges_ok m (es @ [e]) (AList.update ?k ?x al)"
        by (rule resolved_edges_put [OF assms True]) (use 2 Some k in \<open>simp_all add: edge_triple_def\<close>)
      then show ?thesis using True Some 2 by (simp add: resolve_edge_eq)
    next
      case 3
      then have "resolve_edge m e al = al" using True Some by (auto simp: resolve_edge_eq)
      then show ?thesis using assms Some 3(1) by (auto simp: resolved_edges_ok_def)
    qed
  qed
next
  case False
  then have "resolve_edge m e al = al" by (simp add: resolve_edge_eq)
  then show ?thesis using assms False by (auto simp: resolved_edges_ok_def)
qed

lemma resolve_edges_ok: "resolved_edges_ok m es (fold (resolve_edge m) es [])"
  by (induction es rule: rev_induct) (simp_all add: resolve_edge_ok, simp add: resolved_edges_ok_def)

lemma resolved_edges_set:
  "x \<in> set (graphResolvedEdges edges m) \<longleftrightarrow>
     (\<exists>k. map_of (fold (resolve_edge m) edges []) k = Some x)"
proof -
  have "distinct (map fst (fold (resolve_edge m) edges []))"
    using resolve_edges_ok by (simp add: resolved_edges_ok_def)
  then show ?thesis by (force simp: graphResolvedEdges_def image_iff)
qed

lemma resolved_edges_sorted: "sorted_wrt (<) (map edge_triple (graphResolvedEdges edges m))"
proof -
  let ?al = "fold (resolve_edge m) edges []"
  have ok: "resolved_edges_ok m edges ?al" by (rule resolve_edges_ok)
  then have d: "distinct (map fst ?al)" by (simp add: resolved_edges_ok_def)
  have "map fst ?al = map (triple_key \<circ> edge_triple) (map snd ?al)"
  proof -
    have "k = triple_key (edge_triple x)" if "(k, x) \<in> set ?al" for k x
      using ok d that unfolding resolved_edges_ok_def by (metis map_of_is_SomeI)
    then show ?thesis by auto
  qed
  with d have "distinct (map edge_triple (map snd ?al))" by (metis distinct_map map_map)
  then show ?thesis unfolding graphResolvedEdges_def by (rule sorted_distinct_keys)
qed

lemma resolved_edge_origin:
  assumes "x \<in> set (graphResolvedEdges edges m)"
  obtains e where "e \<in> set edges" "survives m e" "edge_triple x = resolved_triple m e" "ged_Weight x = ged_Weight e"
  using assms resolve_edges_ok [of m edges] unfolding resolved_edges_set resolved_edges_ok_def by metis

text \<open>Every edge between two clusters is kept, in an edge that weighs at least as much.\<close>

definition no_zero_byte :: "string \<times> string \<times> string \<Rightarrow> bool" where
  "no_zero_byte = (\<lambda>(s, t, r). CHR 0x00 \<notin> set s \<and> CHR 0x00 \<notin> set t)"

lemma triple_key_inj:
  assumes "triple_key x = triple_key y" "no_zero_byte x" "no_zero_byte y"
  shows "x = y"
proof -
  obtain a b c a' b' c' where xy: "x = (a, b, c)" "y = (a', b', c')" by (cases x, cases y)
  note assms = assms [unfolded xy no_zero_byte_def, simplified]
  have "a = a'" "pair_key b c = pair_key b' c'"
    using assms join_sep_inj [of "CHR 0x00" a a' "pair_key b c" "pair_key b' c'"]
    by (simp_all add: triple_key_def pair_key_def)
  then show ?thesis using assms join_sep_inj [of "CHR 0x00" b b' c c'] by (simp add: pair_key_def xy)
qed

lemma resolved_edge_kept:
  assumes "e \<in> set edges" "survives m e"
    and "\<And>e. e \<in> set edges \<Longrightarrow> no_zero_byte (resolved_triple m e)"
  obtains x where "x \<in> set (graphResolvedEdges edges m)" "edge_triple x = resolved_triple m e" "ged_Weight e \<le> ged_Weight x"
proof -
  obtain x where x: "map_of (fold (resolve_edge m) edges []) (triple_key (resolved_triple m e)) = Some x" "ged_Weight e \<le> ged_Weight x"
    using assms(1,2) resolve_edges_ok [of m edges] unfolding resolved_edges_ok_def by metis
  then have k: "triple_key (resolved_triple m e) = triple_key (edge_triple x)"
    using resolve_edges_ok [of m edges] unfolding resolved_edges_ok_def by metis
  have xs: "x \<in> set (graphResolvedEdges edges m)" using x(1) by (auto simp: resolved_edges_set)
  then obtain e' where e': "e' \<in> set edges" "edge_triple x = resolved_triple m e'" by (rule resolved_edge_origin)
  have "edge_triple x = resolved_triple m e"
    unfolding e'(2) by (rule triple_key_inj) (use k e' assms(1,3) in simp_all)
  with xs x(2) show ?thesis using that by blast
qed

section \<open>The chunks of the resolved graph\<close>

abbreviation chunk_key :: "(uuid \<Rightarrow> string) \<Rightarrow> graph_node_chunk \<Rightarrow> string" where
  "chunk_key uuid_text c \<equiv> pair_key (gnc_EntityKey c) (uuid_text (gnc_EmbeddingRecordID c))"

lemma resolve_chunks_in:
  "c \<in> set (resolve_chunks uuid_text m seen chunks) \<Longrightarrow>
     chunk_key uuid_text c \<notin> set seen \<and> gnc_EntityKey c \<noteq> [] \<and>
     (\<exists>c0 \<in> set chunks. c = c0\<lparr>gnc_EntityKey := graphCanonicalKey m (gnc_EntityKey c0)\<rparr>)"
proof (induction chunks arbitrary: seen)
  case (Cons x xs)
  let ?g = "graphCanonicalKey m (gnc_EntityKey x)"
  let ?k = "pair_key ?g (uuid_text (gnc_EmbeddingRecordID x))"
  show ?case
  proof (cases "?g = [] \<or> ?k \<in> set seen")
    case True
    then have "c \<in> set (resolve_chunks uuid_text m seen xs)" using Cons.prems by (simp add: Let_def)
    from Cons.IH [OF this] show ?thesis by auto
  next
    case False
    then have "resolve_chunks uuid_text m seen (x # xs) =
        x\<lparr>gnc_EntityKey := ?g\<rparr> # resolve_chunks uuid_text m (?k # seen) xs" by (simp add: Let_def)
    then consider "c = x\<lparr>gnc_EntityKey := ?g\<rparr>" | "c \<in> set (resolve_chunks uuid_text m (?k # seen) xs)"
      using Cons.prems by (metis set_ConsD)
    then show ?thesis
    proof cases
      case 1
      have "x \<in> set (x # xs)" by simp
      with 1 have "\<exists>c0 \<in> set (x # xs). c = c0\<lparr>gnc_EntityKey := graphCanonicalKey m (gnc_EntityKey c0)\<rparr>" by (rule bexI)
      then show ?thesis using False 1 by simp
    next
      case 2
      from Cons.IH [OF this] show ?thesis by auto
    qed
  qed
qed simp

lemma resolve_chunks_distinct: "distinct (map (chunk_key uuid_text) (resolve_chunks uuid_text m seen chunks))"
proof (induction chunks arbitrary: seen)
  case (Cons x xs)
  let ?k = "pair_key (graphCanonicalKey m (gnc_EntityKey x)) (uuid_text (gnc_EmbeddingRecordID x))"
  have "?k \<notin> chunk_key uuid_text ` set (resolve_chunks uuid_text m (?k # seen) xs)"
    using resolve_chunks_in [of _ uuid_text m "?k # seen" xs] by fastforce
  then show ?case using Cons.IH by (simp add: Let_def)
qed simp

lemma resolve_chunks_kept:
  "c \<in> set chunks \<Longrightarrow> graphCanonicalKey m (gnc_EntityKey c) \<noteq> [] \<Longrightarrow>
   pair_key (graphCanonicalKey m (gnc_EntityKey c)) (uuid_text (gnc_EmbeddingRecordID c)) \<in>
     set seen \<union> chunk_key uuid_text ` set (resolve_chunks uuid_text m seen chunks)"
proof (induction chunks arbitrary: seen)
  case (Cons x xs)
  show ?case
  proof (cases "c = x")
    case True
    then show ?thesis using Cons.prems by (auto simp: Let_def)
  next
    case False
    then show ?thesis
      using Cons.prems Cons.IH [of seen]
        Cons.IH [of "pair_key (graphCanonicalKey m (gnc_EntityKey x)) (uuid_text (gnc_EmbeddingRecordID x)) # seen"]
      by (auto simp: Let_def)
  qed
qed simp

section \<open>The resolved graph\<close>

lemma strictly_sorted_distinct: "sorted_wrt (<) (xs :: 'a::linorder list) \<Longrightarrow> distinct xs"
  by (simp add: strict_sorted_iff)

lemma sort_key_sorted: "sorted_wrt (<) (map f xs) \<Longrightarrow> sort_key f xs = xs" for f :: "'a \<Rightarrow> 'k::linorder"
  by (rule sort_key_id_if_sorted) (simp add: strict_sorted_iff)

lemma resolved_edges_closed:
  assumes m: "canonical_map nodes m" "[] \<notin> gno_EntityKey ` set nodes"
    and edges: "\<forall>e \<in> set edges. ged_SourceEntityKey e \<in> gno_EntityKey ` set nodes \<and>
      ged_TargetEntityKey e \<in> gno_EntityKey ` set nodes \<and> 0 < ged_Weight e"
    and x: "x \<in> set (graphResolvedEdges edges m)"
  shows "m (ged_SourceEntityKey x) = Some (ged_SourceEntityKey x) \<and> m (ged_TargetEntityKey x) = Some (ged_TargetEntityKey x) \<and>
    ged_SourceEntityKey x \<noteq> ged_TargetEntityKey x \<and> 0 < ged_Weight x"
proof -
  obtain e where e: "e \<in> set edges" "survives m e" "edge_triple x = resolved_triple m e" "ged_Weight x = ged_Weight e"
    using x by (rule resolved_edge_origin)
  have ends: "ged_SourceEntityKey x = graphCanonicalKey m (ged_SourceEntityKey e)"
    "ged_TargetEntityKey x = graphCanonicalKey m (ged_TargetEntityKey e)"
    using e(3) by (simp_all add: edge_triple_def resolved_triple_def)
  have fixed: "m (graphCanonicalKey m k) = Some (graphCanonicalKey m k)" if "k \<in> gno_EntityKey ` set nodes" for k
    using graphCanonicalKey_map(1) [OF m graphCanonicalKey_map(2) [OF m that]] graphCanonicalKey_map(4) [OF m that] by simp
  show ?thesis using fixed edges e(1,2,4) unfolding ends survives_def by simp
qed

lemma canonical_nodes_keys:
  assumes "canonical_map nodes m" "[] \<notin> gno_EntityKey ` set nodes"
  shows "(graphCanonicalKey m \<circ> gno_EntityKey) ` set nodes = {k. m k = Some k}"
proof -
  have "m k = Some k \<longleftrightarrow> k \<in> graphCanonicalKey m ` gno_EntityKey ` set nodes" for k
  proof
    assume k: "m k = Some k"
    then have kn: "k \<in> gno_EntityKey ` set nodes" using assms(1) unfolding canonical_map_def by (metis domI)
    then have "graphCanonicalKey m k = k" using graphCanonicalKey_map(1) [OF assms kn] k by simp
    then show "k \<in> graphCanonicalKey m ` gno_EntityKey ` set nodes" using kn by (metis image_eqI)
  next
    assume "k \<in> graphCanonicalKey m ` gno_EntityKey ` set nodes"
    then obtain j where j: "j \<in> gno_EntityKey ` set nodes" "k = graphCanonicalKey m j" by blast
    show "m k = Some k"
      using graphCanonicalKey_map(1) [OF assms graphCanonicalKey_map(2) [OF assms j(1)]]
        graphCanonicalKey_map(4) [OF assms j(1)] by (simp add: j(2))
  qed
  then show ?thesis by (simp add: set_eq_iff image_comp)
qed

definition resolution_of ::
  "graph_materialization \<Rightarrow> (string \<rightharpoonup> string) \<Rightarrow> graph_materialization \<Rightarrow> bool" where
  "resolution_of m c m' \<longleftrightarrow>
     gno_EntityKey ` set (gmz_Nodes m') = {k. c k = Some k} \<and>
     (\<forall>n' \<in> set (gmz_Nodes m'). \<exists>n \<in> set (gmz_Nodes m). gno_EntityKey n' = gno_EntityKey n \<and>
        gno_Name n' = gno_Name n \<and> gno_Type n' = gno_Type n) \<and>
     wrap64 (mentions (gmz_Nodes m')) = wrap64 (mentions (gmz_Nodes m)) \<and>
     (\<lambda>a. (gna_SourceEntityKey a, Some (gna_CanonicalEntityKey a))) ` set (gmz_NodeAliases m') =
       (\<lambda>n. (gno_EntityKey n, c (gno_EntityKey n))) ` set (gmz_Nodes m) \<and>
     sorted_wrt (<) (map edge_triple (gmz_Edges m')) \<and>
     (\<forall>e' \<in> set (gmz_Edges m'). \<exists>e \<in> set (gmz_Edges m). ged_Weight e' = ged_Weight e \<and>
        c (ged_SourceEntityKey e) = Some (ged_SourceEntityKey e') \<and> c (ged_TargetEntityKey e) = Some (ged_TargetEntityKey e')) \<and>
     ((\<forall>n \<in> set (gmz_Nodes m). CHR 0x00 \<notin> set (gno_EntityKey n)) \<longrightarrow>
        (\<forall>e \<in> set (gmz_Edges m). c (ged_SourceEntityKey e) \<noteq> c (ged_TargetEntityKey e) \<longrightarrow>
           (\<exists>e' \<in> set (gmz_Edges m'). ged_Weight e \<le> ged_Weight e' \<and>
              c (ged_SourceEntityKey e) = Some (ged_SourceEntityKey e') \<and> c (ged_TargetEntityKey e) = Some (ged_TargetEntityKey e'))))"

lemma graphResolveMaterialization_sound:
  fixes m
  defines "nodes \<equiv> gmz_Nodes m"
  assumes closed: "closed_graph (gmz_Nodes m) (gmz_Edges m) (gmz_NodeChunks m)" and c: "canonical_map nodes c"
    and m': "m' = graphResolveMaterialization uuid_text snapshot m es nodes vectors c"
  shows "closed_graph (gmz_Nodes m') (gmz_Edges m') (gmz_NodeChunks m') \<and> resolution_of m c m'"
proof -
  let ?g = "graphCanonicalKey c"
  have keys: "[] \<notin> gno_EntityKey ` set nodes" using closed by (simp add: closed_graph_def nodes_def)
  note g = graphCanonicalKey_map [OF c keys]
  let ?vec = "map_of (rev (zip (map gno_EntityKey nodes) vectors))"
  define st where "st = fold (resolve_node snapshot (by_key nodes) ?vec c) nodes
      \<lparr>rst_canonicalNodes = [], rst_clusterVectors = Map.empty, rst_aliases = []\<rparr>"
  have ok: "resolved_nodes_ok nodes c snapshot nodes st"
    unfolding st_def by (rule resolve_nodes_ok [OF c keys]) simp
  define al where "al = rst_canonicalNodes st"
  have out: "gmz_Nodes m' = sort_key gno_EntityKey (map snd al)" "gmz_Edges m' = graphResolvedEdges (gmz_Edges m) c"
    "gmz_NodeChunks m' = graphResolvedNodeChunks uuid_text (gmz_NodeChunks m) c"
    "gmz_NodeAliases m' = sort_key (\<lambda>a. (gna_CanonicalEntityKey a, gna_SourceEntityKey a)) (rst_aliases st)"
    by (simp_all add: m' graphResolveMaterialization_def Let_def st_def al_def)
  have fsts: "map gno_EntityKey (map snd al) = map fst al"
    using ok by (auto simp: resolved_nodes_ok_def al_def)
  have dal: "distinct (map fst al)" using ok by (simp add: resolved_nodes_ok_def al_def)
  have outkeys: "gno_EntityKey ` set (gmz_Nodes m') = {k. c k = Some k}"
  proof -
    have "gno_EntityKey ` set (gmz_Nodes m') = set (map fst al)" unfolding out fsts [symmetric] by (simp add: image_image)
    then show ?thesis using ok canonical_nodes_keys [OF c keys] by (simp add: resolved_nodes_ok_def al_def)
  qed
  have fixed: "c (?g k) = Some (?g k)" if "k \<in> gno_EntityKey ` set nodes" for k
    using canonical_nodes_keys [OF c keys] that by (auto simp: image_iff)
  have ends: "ged_SourceEntityKey e \<in> gno_EntityKey ` set nodes \<and> ged_TargetEntityKey e \<in> gno_EntityKey ` set nodes \<and>
      0 < ged_Weight e" if "e \<in> set (gmz_Edges m)" for e
    using closed that by (simp add: closed_graph_def nodes_def)
  have chunks: "d \<in> set (gmz_NodeChunks m') \<Longrightarrow> gnc_EntityKey d \<in> {k. c k = Some k}" for d
  proof -
    assume "d \<in> set (gmz_NodeChunks m')"
    then obtain d0 where "d0 \<in> set (gmz_NodeChunks m)" "gnc_EntityKey d = ?g (gnc_EntityKey d0)"
      using resolve_chunks_in [of d uuid_text c "[]" "gmz_NodeChunks m"] by (auto simp: out graphResolvedNodeChunks_def)
    moreover have "gnc_EntityKey ` set (gmz_NodeChunks m) \<subseteq> gno_EntityKey ` set nodes"
      using closed by (simp add: closed_graph_def nodes_def)
    ultimately show "gnc_EntityKey d \<in> {k. c k = Some k}" using fixed by auto
  qed
  have "distinct (map (\<lambda>d. (gnc_EntityKey d, gnc_EmbeddingRecordID d)) (gmz_NodeChunks m'))"
  proof -
    have "distinct (map (\<lambda>d. (gnc_EntityKey d, gnc_EmbeddingRecordID d)) (resolve_chunks uuid_text c [] (gmz_NodeChunks m)))"
      using resolve_chunks_distinct [of uuid_text c "[]" "gmz_NodeChunks m"]
      by (auto simp: distinct_map inj_on_def)
    moreover have "mset (gmz_NodeChunks m') = mset (resolve_chunks uuid_text c [] (gmz_NodeChunks m))"
      by (simp add: out graphResolvedNodeChunks_def)
    ultimately show ?thesis by (metis mset_map mset_eq_imp_distinct_iff)
  qed
  moreover have "sorted_wrt (<) (map gno_EntityKey (gmz_Nodes m'))"
    unfolding out(1) by (rule sorted_distinct_keys) (use dal in \<open>simp only: fsts\<close>)
  moreover have "[] \<notin> {k. c k = Some k}"
  proof -
    have "?g k \<noteq> []" if "k \<in> gno_EntityKey ` set nodes" for k by (rule g(3) [OF that])
    then show ?thesis unfolding canonical_nodes_keys [OF c keys, symmetric] by fastforce
  qed
  moreover have "ged_SourceEntityKey e \<in> {k. c k = Some k} \<and> ged_TargetEntityKey e \<in> {k. c k = Some k} \<and>
      ged_SourceEntityKey e \<noteq> ged_TargetEntityKey e \<and> 0 < ged_Weight e" if "e \<in> set (gmz_Edges m')" for e
    using resolved_edges_closed [OF c keys, of "gmz_Edges m" e] ends that by (simp add: out)
  ultimately have "closed_graph (gmz_Nodes m') (gmz_Edges m') (gmz_NodeChunks m')"
    unfolding closed_graph_def outkeys using chunks by blast
  moreover have "resolution_of m c m'"
  proof -
    have origin: "\<forall>n' \<in> set (gmz_Nodes m'). \<exists>n \<in> set nodes. gno_EntityKey n' = gno_EntityKey n \<and>
        gno_Name n' = gno_Name n \<and> gno_Type n' = gno_Type n"
    proof
      fix n'
      assume "n' \<in> set (gmz_Nodes m')"
      then obtain k where "(k, n') \<in> set al" by (auto simp: out(1))
      then show "\<exists>n \<in> set nodes. gno_EntityKey n' = gno_EntityKey n \<and> gno_Name n' = gno_Name n \<and> gno_Type n' = gno_Type n"
        using bspec [OF resolved_nodes_okD [OF ok], of "(k, n')"] unfolding al_def by (simp, metis)
    qed
    have "mset (map gno_MentionCount (gmz_Nodes m')) = mset (map (gno_MentionCount \<circ> snd) al)"
      by (simp add: out(1) image_mset.compositionality)
    then have "mentions (gmz_Nodes m') = sum_list (map (gno_MentionCount \<circ> snd) al)"
      unfolding mentions_def by (metis sum_mset_sum_list)
    then have sums: "wrap64 (mentions (gmz_Nodes m')) = wrap64 (mentions nodes)"
      using ok by (simp add: resolved_nodes_ok_def al_def)
    have "set (gmz_NodeAliases m') = (\<lambda>n. node_alias snapshot (?g (gno_EntityKey n)) n) ` set nodes"
      using ok by (simp add: out resolved_nodes_ok_def)
    then have aliases: "(\<lambda>a. (gna_SourceEntityKey a, Some (gna_CanonicalEntityKey a))) ` set (gmz_NodeAliases m') =
        (\<lambda>n. (gno_EntityKey n, c (gno_EntityKey n))) ` set nodes"
      using g(1) by (simp add: image_image node_alias_def)
    have c_g: "c k = Some (?g k)" if "k \<in> gno_EntityKey ` set nodes" for k by (rule g(1) [OF that])
    have origins: "\<exists>e \<in> set (gmz_Edges m). ged_Weight e' = ged_Weight e \<and>
        c (ged_SourceEntityKey e) = Some (ged_SourceEntityKey e') \<and> c (ged_TargetEntityKey e) = Some (ged_TargetEntityKey e')"
      if "e' \<in> set (gmz_Edges m')" for e'
    proof -
      obtain e where e: "e \<in> set (gmz_Edges m)" "edge_triple e' = resolved_triple c e" "ged_Weight e' = ged_Weight e"
        using \<open>e' \<in> set (gmz_Edges m')\<close> unfolding out(2) by (rule resolved_edge_origin)
      then show ?thesis using c_g ends [OF e(1)] by (auto simp: edge_triple_def resolved_triple_def)
    qed
    have kept: "\<exists>e' \<in> set (gmz_Edges m'). ged_Weight e \<le> ged_Weight e' \<and>
        c (ged_SourceEntityKey e) = Some (ged_SourceEntityKey e') \<and> c (ged_TargetEntityKey e) = Some (ged_TargetEntityKey e')"
      if plain: "\<forall>n \<in> set nodes. CHR 0x00 \<notin> set (gno_EntityKey n)" and e: "e \<in> set (gmz_Edges m)"
        and ne: "c (ged_SourceEntityKey e) \<noteq> c (ged_TargetEntityKey e)" for e
    proof -
      have "CHR 0x00 \<notin> set (?g k)" if "k \<in> gno_EntityKey ` set nodes" for k
        using g(2) [OF that] plain by auto
      then have bytes: "no_zero_byte (resolved_triple c e)" if "e \<in> set (gmz_Edges m)" for e
        using ends [OF that] by (simp add: no_zero_byte_def resolved_triple_def)
      have "survives c e" using ne c_g ends [OF e] g(3) by (auto simp: survives_def)
      then obtain e' where "e' \<in> set (graphResolvedEdges (gmz_Edges m) c)" "edge_triple e' = resolved_triple c e"
        "ged_Weight e \<le> ged_Weight e'" using resolved_edge_kept [OF e _ bytes] by blast
      then show ?thesis using c_g ends [OF e] by (auto simp: out(2) edge_triple_def resolved_triple_def)
    qed
    show ?thesis
      unfolding resolution_of_def nodes_def [symmetric]
      using outkeys origin sums aliases resolved_edges_sorted [of "gmz_Edges m" c] origins kept by (simp add: out(2))
  qed
  ultimately show ?thesis by blast
qed

end
