(* ===== verification/GraphCommunityProperties.thy ===== *)
theory GraphCommunityProperties
  imports GraphCommunities GraphResolverProperties
begin

text \<open>
  The communities of a graph are its connected components: every node is a member of exactly
  one community, two nodes share a community when a path joins them, and the counts of a
  community are those of its members and of the edges between them.
\<close>

section \<open>Community keys\<close>

lemma text_nat_zeros: "text_nat (replicate k (CHR ''0'') @ s) = text_nat s"
proof -
  have zero: "digit_val (CHR ''0'') = 0" by code_simp
  have "text_nat (CHR ''0'' # t) = text_nat t" for t unfolding text_nat_def foldl.simps zero by simp
  then show ?thesis by (induction k) (simp_all only: replicate.simps append.simps)
qed

lemma pad3_inj: "pad3 m = pad3 n \<Longrightarrow> m = n"
  unfolding pad3_def by (metis text_nat_zeros text_nat_nat_text)

lemma pad3_no_colon: "CHR '':'' \<notin> set (pad3 n)"
proof -
  have "\<not> is_digit (CHR '':'')" by code_simp
  then have "CHR '':'' \<notin> set (nat_text n)" using nat_text_digits [of n] unfolding list_all_iff by blast
  then show ?thesis unfolding pad3_def by simp
qed

lemma graphCommunityKey_inj:
  assumes "graphCommunityKey i g = graphCommunityKey j h"
  shows "i = j"
proof -
  have prefix: "takeWhile (\<lambda>c. c \<noteq> CHR '':'') (drop 10 (graphCommunityKey i g)) = pad3 (i + 1)" for i g
  proof -
    have "\<forall>c \<in> set (pad3 (i + 1)). c \<noteq> CHR '':''" using pad3_no_colon by metis
    then have "takeWhile (\<lambda>c. c \<noteq> CHR '':'') (pad3 (i + 1)) = pad3 (i + 1)"
      "takeWhile (\<lambda>c. c \<noteq> CHR '':'') (pad3 (i + 1) @ CHR '':'' # t) = pad3 (i + 1)" for t
      by (simp_all add: takeWhile_append2)
    then show ?thesis by (cases g) (simp_all add: graphCommunityKey_def)
  qed
  show ?thesis using pad3_inj prefix assms by (metis add_right_cancel)
qed

lemma graphCommunityKey_not_Nil: "graphCommunityKey i g \<noteq> []"
  by (cases g) (simp_all add: graphCommunityKey_def)

section \<open>Groups\<close>

definition grouped :: "(nat \<times> nat) list \<Rightarrow> (nat \<times> nat list) list \<Rightarrow> bool" where
  "grouped ps al \<longleftrightarrow> distinct (map fst al) \<and> (\<forall>(r, js) \<in> set al. js \<noteq> [] \<and> (\<forall>i \<in> set js. (i, r) \<in> set ps)) \<and>
     mset (concat (map snd al)) = mset (map fst ps)"

lemma list_at_upd: "list_at (m(q \<mapsto> js)) r = (if r = q then js else list_at m r)"
  by (simp add: list_at_def)

lemma mset_update_append:
  assumes "distinct (map fst al)"
  shows "mset (concat (map snd (AList.update r (list_at (map_of al) r @ [i]) al))) = mset (concat (map snd al)) + {#i#}"
  using assms
proof (induction al)
  case (Cons p al)
  obtain q js where p: "p = (q, js)" by (cases p)
  show ?case
  proof (cases "q = r")
    case False
    then show ?thesis using Cons by (simp add: p list_at_upd del: fun_upd_apply)
  qed (simp add: p list_at_def)
qed (simp add: list_at_def)

lemma grouped_add:
  assumes "grouped ps al"
  shows "grouped (ps @ [(i, r)]) (add_to_root (i, r) al)"
proof -
  let ?new = "AList.update r (list_at (map_of al) r @ [i]) al"
  have al: "distinct (map fst al)" "\<And>q js. (q, js) \<in> set al \<Longrightarrow> js \<noteq> [] \<and> (\<forall>i \<in> set js. (i, q) \<in> set ps)"
    "mset (concat (map snd al)) = mset (map fst ps)"
    using assms by (auto simp: grouped_def)
  have d: "distinct (map fst ?new)" using al(1) by (simp add: AList.distinct_update)
  have "js \<noteq> [] \<and> (\<forall>j \<in> set js. (j, q) \<in> set (ps @ [(i, r)]))" if "(q, js) \<in> set ?new" for q js
  proof -
    have m: "map_of ?new q = Some js" using that d by simp
    show ?thesis
    proof (cases "q = r")
      case True
      then have "js = list_at (map_of al) r @ [i]" using m by (simp add: update_conv)
      moreover have "\<forall>j \<in> set (list_at (map_of al) r). (j, r) \<in> set ps"
        using al(2) map_of_SomeD [of al r] by (cases "map_of al r") (auto simp: list_at_def)
      ultimately show ?thesis using True by auto
    next
      case False
      then have "(q, js) \<in> set al" using m by (auto simp: update_conv dest: map_of_SomeD)
      then show ?thesis using al(2) by fastforce
    qed
  qed
  then have "\<forall>(q, js) \<in> set ?new. js \<noteq> [] \<and> (\<forall>j \<in> set js. (j, q) \<in> set (ps @ [(i, r)]))" by blast
  moreover have "mset (concat (map snd ?new)) = mset (map fst (ps @ [(i, r)]))"
    using al(3) mset_update_append [OF al(1), of r i] by simp
  ultimately show ?thesis unfolding grouped_def add_to_root_def prod.case using d by blast
qed

lemma grouped_fold: "grouped ps (fold add_to_root ps [])"
  by (induction ps rule: rev_induct) (auto simp: grouped_add, simp add: grouped_def)

text \<open>
  The groups of a partition given by roots: together they are the nodes, and a group holds the
  nodes of one root, all of them.
\<close>

definition class_groups :: "graph_node list \<Rightarrow> (nat \<Rightarrow> nat) \<Rightarrow> graph_node list list \<Rightarrow> bool" where
  "class_groups nodes root groups \<longleftrightarrow> mset (concat groups) = mset nodes \<and> [] \<notin> set groups \<and>
     (\<forall>g \<in> set groups. \<exists>r. set g = {nodes ! i |i. i < length nodes \<and> root i = r})"

lemma graphCommunityGroups_classes:
  assumes al: "grouped (zip [0..<length nodes] (map root [0..<length nodes])) al"
  shows "class_groups nodes root (graphCommunityGroups al nodes)"
proof -
  let ?ps = "zip [0..<length nodes] (map root [0..<length nodes])"
  let ?gs = "map (\<lambda>(_, indexes). sort_key community_node_order (map ((!) nodes) indexes)) al"
  have ps: "set ?ps = {(i, root i) |i. i < length nodes}" by (auto simp: zip_map2 zip_same_conv_map)
  have mg: "mset (graphCommunityGroups al nodes) = mset ?gs" by (simp add: graphCommunityGroups_def)
  have all: "mset (concat (map snd al)) = mset [0..<length nodes]" using al by (simp add: grouped_def)
  have "mset (concat ?gs) = image_mset ((!) nodes) (mset (concat (map snd al)))"
    by (induction al) auto
  also have "\<dots> = mset nodes" unfolding all by (metis map_nth mset_map)
  finally have "mset (concat ?gs) = mset nodes" .
  moreover have "mset (concat (graphCommunityGroups al nodes)) = mset (concat ?gs)"
  proof -
    have "mset (concat xs) = \<Sum>\<^sub># (image_mset mset (mset xs))" for xs :: "graph_node list list" by (induction xs) auto
    then show ?thesis using mg by simp
  qed
  moreover have "[] \<notin> set (graphCommunityGroups al nodes)"
  proof -
    have "sort_key community_node_order (map ((!) nodes) js) \<noteq> []" if "(r, js) \<in> set al" for r js
    proof -
      have "js \<noteq> []" using al that unfolding grouped_def by blast
      then show ?thesis by (metis length_0_conv length_map length_sort)
    qed
    then have "[] \<notin> set ?gs" by fastforce
    then show ?thesis using mg by (metis set_mset_mset)
  qed
  moreover have "\<exists>r. set g = {nodes ! i |i. i < length nodes \<and> root i = r}" if g: "g \<in> set (graphCommunityGroups al nodes)" for g
  proof -
    obtain r js where r: "(r, js) \<in> set al" "set g = (!) nodes ` set js"
      using g mg [THEN mset_eq_setD] by auto
    have "i \<in> set js \<longleftrightarrow> i < length nodes \<and> root i = r" for i
    proof
      assume "i \<in> set js"
      then show "i < length nodes \<and> root i = r" using al r(1) ps by (force simp: grouped_def)
    next
      assume i: "i < length nodes \<and> root i = r"
      then have "i \<in> set (concat (map snd al))" using mset_eq_setD [OF all] by simp
      then obtain q ks where q: "(q, ks) \<in> set al" "i \<in> set ks" by auto
      then have "q = r" using al i ps by (force simp: grouped_def)
      then have "ks = js" using al q(1) r(1) by (metis grouped_def map_of_eq_Some_iff option.inject)
      then show "i \<in> set js" using q(2) by simp
    qed
    then have "set js = {i. i < length nodes \<and> root i = r}" by auto
    then have "set g = {nodes ! i |i. i < length nodes \<and> root i = r}" using r(2) by auto
    then show ?thesis by blast
  qed
  ultimately show ?thesis by (simp add: class_groups_def)
qed

text \<open>The order in which the map of the groups is visited does not matter.\<close>

lemma graphCommunityGroups_order:
  assumes "mset al = mset al'" "distinct (map (\<lambda>(_, js). gno_EntityKey (hd (sort_key community_node_order (map ((!) nodes) js)))) al)"
  shows "graphCommunityGroups al nodes = graphCommunityGroups al' nodes"
proof -
  let ?f = "\<lambda>(_, indexes). sort_key community_node_order (map ((!) nodes) indexes)"
  let ?k = "\<lambda>g. gno_EntityKey (hd g)"
  have "mset (map ?f al) = mset (sort_key ?k (map ?f al'))" using assms(1) by simp
  moreover have "inj_on ?k (set (map ?f al))"
    using assms(2) distinct_map [of ?k "map ?f al"] by (simp add: comp_def case_prod_unfold)
  ultimately show ?thesis
    unfolding graphCommunityGroups_def by (rule sort_key_inj_key_eq) simp
qed

section \<open>Components\<close>

definition joins :: "graph_node list \<Rightarrow> graph_edge list \<Rightarrow> (string \<times> string) set" where
  "joins nodes edges = {(ged_SourceEntityKey e, ged_TargetEntityKey e) |e. e \<in> set edges \<and>
     ged_SourceEntityKey e \<in> gno_EntityKey ` set nodes \<and> ged_TargetEntityKey e \<in> gno_EntityKey ` set nodes}"

lemma linked_image: "linked E a b \<Longrightarrow> linked (map_prod f f ` E) (f a) (f b)"
  unfolding linked_def
proof (induction rule: rtrancl_induct)
  case (step b c)
  then have "(f b, f c) \<in> map_prod f f ` E \<union> (map_prod f f ` E)\<inverse>" by (auto simp: map_prod_def image_iff) force+
  then show ?case using step.IH by (rule rtrancl_into_rtrancl [rotated])
qed simp

lemma linked_inj:
  assumes "inj_on f A" "E \<subseteq> A \<times> A" "a \<in> A" "b \<in> A"
  shows "linked (map_prod f f ` E) (f a) (f b) \<longleftrightarrow> linked E a b"
proof
  assume "linked (map_prod f f ` E) (f a) (f b)"
  then have "linked (map_prod (inv_into A f) (inv_into A f) ` map_prod f f ` E) (inv_into A f (f a)) (inv_into A f (f b))"
    by (rule linked_image)
  moreover have "map_prod (inv_into A f) (inv_into A f) ` map_prod f f ` E = E"
  proof -
    have "map_prod (inv_into A f) (inv_into A f) (map_prod f f p) = p" if "p \<in> E" for p
      using that assms(1,2) by (cases p) (auto simp: inv_into_f_f)
    then show ?thesis by (simp add: image_image)
  qed
  ultimately show "linked E a b" using assms by (simp add: inv_into_f_f)
qed (rule linked_image)

lemma community_groups_ok:
  assumes d: "distinct (map gno_EntityKey nodes)"
  obtains groups root where "community_groups nodes edges = Some groups" "class_groups nodes root groups"
    "\<And>i j. i < length nodes \<Longrightarrow> j < length nodes \<Longrightarrow> root i = root j \<longleftrightarrow>
      linked (joins nodes edges) (gno_EntityKey (nodes ! i)) (gno_EntityKey (nodes ! j))"
proof -
  let ?n = "length nodes" and ?key = "\<lambda>i. gno_EntityKey (nodes ! i)"
  let ?idx = "map_of (rev (zip (map gno_EntityKey nodes) [0..<length nodes]))"
  let ?pairs = "community_pairs ?idx edges"
  have inj: "inj_on ?key {..<?n}"
    using d by (auto simp: inj_on_def distinct_conv_nth) 
  have idx: "?idx k = Some i \<longleftrightarrow> i < ?n \<and> ?key i = k" for k i
  proof -
    have "distinct (map fst (rev (zip (map gno_EntityKey nodes) [0..<?n])))" using d by (simp add: rev_map [symmetric])
    then have "?idx k = Some i \<longleftrightarrow> (k, i) \<in> set (zip (map gno_EntityKey nodes) [0..<?n])"
      by (simp only: map_of_eq_Some_iff set_rev)
    moreover have "zip (map gno_EntityKey nodes) [0..<?n] = map (\<lambda>i. (?key i, i)) [0..<?n]"
      by (rule nth_equalityI) simp_all
    ultimately show ?thesis by auto
  qed
  have keyset: "gno_EntityKey ` set nodes = {?key i |i. i < ?n}"
    by (auto simp: in_set_conv_nth intro: imageI nth_mem)
  have "(i, j) \<in> set ?pairs \<longleftrightarrow> (\<exists>e \<in> set edges. ?idx (ged_SourceEntityKey e) = Some i \<and> ?idx (ged_TargetEntityKey e) = Some j)" for i j
    unfolding community_pairs_def map_filter_def by (auto simp del: map_of_eq_Some_iff split: option.splits) force
  then have pairs: "(i, j) \<in> set ?pairs \<longleftrightarrow> i < ?n \<and> j < ?n \<and> (?key i, ?key j) \<in> joins nodes edges" for i j
    unfolding idx joins_def keyset by auto metis
  have "\<forall>(i, j) \<in> set ?pairs. i < ?n \<and> j < ?n" using pairs by auto
  then obtain s where s: "ds_unions ?pairs (newGraphEntityDisjointSet ?n) = Some s" "ranked s" "length (ds_parent s) = ?n"
    and cl: "\<And>a b. a < ?n \<Longrightarrow> b < ?n \<Longrightarrow> ds_root s a = ds_root s b \<longleftrightarrow> linked (set ?pairs) a b"
    by (rule ds_unions_classes) blast
  have "\<forall>i \<in> set [0..<?n]. i < length (ds_parent s)" using s(3) by simp
  then obtain s1 where s1: "ds_finds [0..<?n] s = Some (map (ds_root s) [0..<?n], s1)"
    by (rule ds_finds_roots [OF s(2)]) (rule that)
  let ?groups = "graphCommunityGroups (fold add_to_root (zip [0..<?n] (map (ds_root s) [0..<?n])) []) nodes"
  have "community_groups nodes edges = Some ?groups"
    by (simp add: community_groups_def s(1) s1 Let_def)
  moreover have "class_groups nodes (ds_root s) ?groups"
    by (rule graphCommunityGroups_classes [OF grouped_fold])
  moreover have "ds_root s i = ds_root s j \<longleftrightarrow> linked (joins nodes edges) (?key i) (?key j)" if "i < ?n" "j < ?n" for i j
  proof -
    have "map_prod ?key ?key ` set ?pairs = joins nodes edges"
    proof (intro equalityI subsetI)
      fix p
      assume p: "p \<in> joins nodes edges"
      then obtain i j where ij: "i < ?n" "j < ?n" "p = (?key i, ?key j)"
        unfolding joins_def keyset by blast
      have "(i, j) \<in> set ?pairs" using pairs [of i j] ij p by simp
      then show "p \<in> map_prod ?key ?key ` set ?pairs" by (rule image_eqI [rotated]) (simp add: ij(3))
    qed (use pairs in auto)
    moreover have "set ?pairs \<subseteq> {..<?n} \<times> {..<?n}" using pairs by auto
    ultimately show ?thesis using cl [OF that] linked_inj [OF inj, of "set ?pairs" i j] that by simp
  qed
  ultimately show ?thesis by (rule that)
qed

section \<open>Members\<close>

definition is_member :: "graph_materialization \<Rightarrow> string \<Rightarrow> string \<Rightarrow> bool" where
  "is_member m entityKey communityKey \<longleftrightarrow> (\<exists>x \<in> set (gmz_CommunityMembers m).
     gcb_EntityKey x = entityKey \<and> gcb_CommunityKey x = communityKey)"

definition community_partition :: "graph_materialization \<Rightarrow> bool" where
  "community_partition m \<longleftrightarrow>
     distinct (map gcb_EntityKey (gmz_CommunityMembers m)) \<and>
     gcb_EntityKey ` set (gmz_CommunityMembers m) = gno_EntityKey ` set (gmz_Nodes m) \<and>
     (\<forall>a \<in> set (gmz_CommunityMembers m). \<forall>b \<in> set (gmz_CommunityMembers m).
        gcb_CommunityKey a = gcb_CommunityKey b \<longleftrightarrow>
          linked (joins (gmz_Nodes m) (gmz_Edges m)) (gcb_EntityKey a) (gcb_EntityKey b)) \<and>
     distinct (map gcm_CommunityKey (gmz_Communities m)) \<and>
     gcm_CommunityKey ` set (gmz_Communities m) = gcb_CommunityKey ` set (gmz_CommunityMembers m) \<and>
     (\<forall>c \<in> set (gmz_Communities m).
        gcm_EntityCount c = int (length (filter (\<lambda>x. gcb_CommunityKey x = gcm_CommunityKey c) (gmz_CommunityMembers m))) \<and>
        gcm_EdgeCount c = int (length (filter (\<lambda>e. is_member m (ged_SourceEntityKey e) (gcm_CommunityKey c) \<and>
          is_member m (ged_TargetEntityKey e) (gcm_CommunityKey c)) (gmz_Edges m)))) \<and>
     map gcr_CommunityKey (gmz_CommunityReports m) = map gcm_CommunityKey (gmz_Communities m)"

lemma keyed_groups_fst: "map snd (keyed_groups groups) = groups" "distinct (map fst (keyed_groups groups))"
proof -
  show "map snd (keyed_groups groups) = groups"
    by (simp add: keyed_groups_def comp_def case_prod_unfold)
  have "map fst (keyed_groups groups) = map (\<lambda>i. graphCommunityKey i (groups ! i)) [0..<length groups]"
    by (rule nth_equalityI) (simp_all add: keyed_groups_def nth_enumerate_eq)
  then show "distinct (map fst (keyed_groups groups))"
    by (auto simp: distinct_map inj_on_def dest: graphCommunityKey_inj)
qed

lemma concat_same:
  assumes "distinct (concat (map snd ks))" "(k, g) \<in> set ks" "(k', g') \<in> set ks" "x \<in> set g" "x \<in> set g'"
  shows "(k, g) = (k', g')"
  using assms
proof (induction ks)
  case (Cons p ks)
  have "\<forall>q \<in> set ks. set (snd p) \<inter> set (snd q) = {}" using Cons.prems(1) by auto
  then show ?case using Cons by fastforce
qed simp

lemma filter_map_const:
  assumes "distinct (map fst ks)" "(k, g) \<in> set ks" "\<And>k n. key_of (f k n) = k"
  shows "filter (\<lambda>x. key_of x = k) (concat (map (\<lambda>(k, g). map (f k) g) ks)) = map (f k) g"
  using assms(1,2)
proof (induction ks)
  case (Cons p ks)
  obtain j h where p: "p = (j, h)" by (cases p)
  have none: "filter (\<lambda>x. key_of x = k) (concat (map (\<lambda>(k, g). map (f k) g) ks)) = []" if "k \<notin> fst ` set ks"
    using that by (force simp: filter_empty_conv assms(3))
  show ?case
  proof (cases "j = k")
    case True
    then have "h = g" "k \<notin> fst ` set ks" using Cons.prems by (auto simp: p image_iff)
    then show ?thesis using none True by (simp add: p assms(3) filter_map comp_def)
  next
    case False
    then have "(k, g) \<in> set ks" using Cons.prems(2) by (auto simp: p)
    then show ?thesis using Cons False by (simp add: p assms(3) filter_map comp_def)
  qed
qed simp

lemma communities_partition:
  fixes m
  assumes d: "distinct (map gno_EntityKey (gmz_Nodes m))" and nodes: "gmz_Nodes m \<noteq> []"
    and snapshot: "gmz_Snapshot m = Some snapshot"
  shows "\<exists>m'. graphMaterializationWithCommunities m = Some m' \<and> community_partition m' \<and>
    gmz_Nodes m' = gmz_Nodes m \<and> gmz_Edges m' = gmz_Edges m \<and> gmz_NodeChunks m' = gmz_NodeChunks m"
proof -
  define ns where "ns = sort_key gno_EntityKey (gmz_Nodes m)"
  have ns: "set ns = set (gmz_Nodes m)" "mset ns = mset (gmz_Nodes m)" by (simp_all add: ns_def)
  have "mset (map gno_EntityKey ns) = mset (map gno_EntityKey (gmz_Nodes m))" using ns(2) by simp
  then have dns: "distinct (map gno_EntityKey ns)" using d by (metis mset_eq_imp_distinct_iff)
  obtain groups root where groups: "community_groups ns (gmz_Edges m) = Some groups" "class_groups ns root groups"
    and root: "\<And>i j. i < length ns \<Longrightarrow> j < length ns \<Longrightarrow> root i = root j \<longleftrightarrow>
      linked (joins ns (gmz_Edges m)) (gno_EntityKey (ns ! i)) (gno_EntityKey (ns ! j))"
    by (rule community_groups_ok [OF dns, of "gmz_Edges m"]) (rule that)
  define ks where "ks = keyed_groups groups"
  have ks: "map snd ks = groups" "distinct (map fst ks)" by (simp_all add: ks_def keyed_groups_fst)
  define edges_of where "edges_of = internal_edges (community_key_map ks) (gmz_Edges m)"
  let ?chunks = "\<lambda>k. filter (\<lambda>c. gnc_EntityKey c = k) (gmz_NodeChunks m)"
  let ?m = "m\<lparr>gmz_Communities := map (\<lambda>(k, g). community_of snapshot k g (edges_of k)) ks,
    gmz_CommunityMembers := concat (map (\<lambda>(k, g). map (community_member snapshot k) g) ks),
    gmz_CommunityReports := map (\<lambda>(k, g). community_report snapshot k g (edges_of k) ?chunks) ks\<rparr>"
  have eq: "graphMaterializationWithCommunities m = Some ?m"
    using nodes by (simp add: graphMaterializationWithCommunities_def snapshot groups(1) [unfolded ns_def] ks_def edges_of_def Let_def)
  have all: "mset (concat groups) = mset ns" and ne: "[] \<notin> set groups" using groups(2) by (simp_all add: class_groups_def)
  have dkeys: "distinct (map gno_EntityKey (concat groups))"
    using dns all by (metis mset_eq_imp_distinct_iff mset_map)
  then have dg: "distinct (concat (map snd ks))" by (simp add: ks(1) distinct_map)
  have kg: "g \<in> set groups" if "(k, g) \<in> set ks" for k g using that ks(1) by force
  have member: "x \<in> set (gmz_CommunityMembers ?m) \<longleftrightarrow> (\<exists>k g n. (k, g) \<in> set ks \<and> n \<in> set g \<and> x = community_member snapshot k n)" for x
    by auto
  have mkeys: "map gcb_EntityKey (gmz_CommunityMembers ?m) = map gno_EntityKey (concat groups)"
    unfolding ks(1) [symmetric] by (simp add: map_concat comp_def case_prod_unfold community_member_def)
  have p1: "distinct (map gcb_EntityKey (gmz_CommunityMembers ?m))" using dkeys by (simp only: mkeys)
  have p2: "gcb_EntityKey ` set (gmz_CommunityMembers ?m) = gno_EntityKey ` set (gmz_Nodes ?m)"
  proof -
    have "gcb_EntityKey ` set (gmz_CommunityMembers ?m) = set (map gno_EntityKey (concat groups))" by (metis mkeys set_map)
    also have "\<dots> = gno_EntityKey ` set ns" using mset_eq_setD [OF all] by simp
    finally show ?thesis by (simp add: ns)
  qed
  have same: "k = k' \<longleftrightarrow> linked (joins ns (gmz_Edges m)) (gno_EntityKey n) (gno_EntityKey n')"
    if g: "(k, g) \<in> set ks" "n \<in> set g" and g': "(k', g') \<in> set ks" "n' \<in> set g'" for k g n k' g' n'
  proof -
    obtain r where r: "set g = {ns ! i |i. i < length ns \<and> root i = r}" using kg [OF g(1)] groups(2) by (auto simp: class_groups_def)
    obtain r' where r': "set g' = {ns ! i |i. i < length ns \<and> root i = r'}" using kg [OF g'(1)] groups(2) by (auto simp: class_groups_def)
    obtain i where i: "i < length ns" "root i = r" "n = ns ! i" using g(2) r by auto
    obtain j where j: "j < length ns" "root j = r'" "n' = ns ! j" using g'(2) r' by auto
    have "k = k' \<longleftrightarrow> r = r'"
    proof
      assume "k = k'"
      then have "g = g'" using g(1) g'(1) ks(2) by (metis map_of_eq_Some_iff option.inject)
      then obtain i' where "i' < length ns" "root i' = r'" "ns ! i' = ns ! i" using g(2) r' i(3) by auto
      then show "r = r'" using i dns by (metis distinct_map nth_eq_iff_index_eq)
    next
      assume "r = r'"
      then have "n \<in> set g'" using r r' g(2) by simp
      then show "k = k'" using concat_same [OF dg g(1) g'(1) g(2)] by simp
    qed
    then show ?thesis using root [OF i(1) j(1)] i j by simp
  qed
  have p3: "gcb_CommunityKey a = gcb_CommunityKey b \<longleftrightarrow>
      linked (joins (gmz_Nodes ?m) (gmz_Edges ?m)) (gcb_EntityKey a) (gcb_EntityKey b)"
    if "a \<in> set (gmz_CommunityMembers ?m)" "b \<in> set (gmz_CommunityMembers ?m)" for a b
  proof -
    have "joins (gmz_Nodes ?m) (gmz_Edges ?m) = joins ns (gmz_Edges m)" by (simp add: joins_def ns)
    then show ?thesis using that same unfolding member by (auto simp: community_member_def)
  qed
  have p4: "map gcm_CommunityKey (gmz_Communities ?m) = map fst ks"
    by (simp add: community_of_def comp_def case_prod_unfold)
  have p5: "gcm_CommunityKey ` set (gmz_Communities ?m) = gcb_CommunityKey ` set (gmz_CommunityMembers ?m)"
  proof -
    have keys: "gcm_CommunityKey ` set (gmz_Communities ?m) = fst ` set ks" using p4 by (metis set_map)
    have there: "k \<in> gcb_CommunityKey ` set (gmz_CommunityMembers ?m)" if "(k, g) \<in> set ks" for k g
    proof -
      have "g \<noteq> []" using kg [OF that] ne by auto
      then obtain n where "n \<in> set g" by (meson last_in_set)
      then have "community_member snapshot k n \<in> set (gmz_CommunityMembers ?m)" using that member by blast
      then show ?thesis by (rule image_eqI [rotated]) (simp add: community_member_def)
    qed
    have known: "gcb_CommunityKey x \<in> fst ` set ks" if "x \<in> set (gmz_CommunityMembers ?m)" for x
      using that unfolding member by (force simp: community_member_def)
    show ?thesis unfolding keys
    proof (intro equalityI image_subsetI)
      show "fst p \<in> gcb_CommunityKey ` set (gmz_CommunityMembers ?m)" if "p \<in> set ks" for p
        using there [of "fst p" "snd p"] that by simp
    qed (rule known)
  qed
  have key_map: "text_at (community_key_map ks) x = k \<and> k \<noteq> [] \<longleftrightarrow> is_member ?m x k" for x k
  proof -
    let ?ps = "concat (map (\<lambda>(k, g). map (\<lambda>n. (gno_EntityKey n, k)) g) ks)"
    have "map fst ?ps = map gno_EntityKey (concat groups)"
      unfolding ks(1) [symmetric] by (simp add: map_concat comp_def case_prod_unfold)
    then have "distinct (map fst (rev ?ps))" using dkeys by (simp add: rev_map [symmetric])
    then have "community_key_map ks x = Some k \<longleftrightarrow> (x, k) \<in> set ?ps"
      unfolding community_key_map_def by (simp only: map_of_eq_Some_iff set_rev)
    also have "\<dots> \<longleftrightarrow> is_member ?m x k" unfolding is_member_def Bex_def member by (force simp: community_member_def)
    finally have lookup: "community_key_map ks x = Some k \<longleftrightarrow> is_member ?m x k" .
    have "k \<noteq> []" if "is_member ?m x k"
    proof -
      have "k \<in> set (map fst ks)" using that unfolding is_member_def Bex_def member by (force simp: community_member_def)
      then show ?thesis by (auto simp: ks_def keyed_groups_def graphCommunityKey_not_Nil)
    qed
    then show ?thesis using lookup by (auto simp: text_at_def split: option.splits)
  qed
  have p6: "gcm_EntityCount c = int (length (filter (\<lambda>x. gcb_CommunityKey x = gcm_CommunityKey c) (gmz_CommunityMembers ?m))) \<and>
      gcm_EdgeCount c = int (length (filter (\<lambda>e. is_member ?m (ged_SourceEntityKey e) (gcm_CommunityKey c) \<and>
        is_member ?m (ged_TargetEntityKey e) (gcm_CommunityKey c)) (gmz_Edges ?m)))"
    if community: "c \<in> set (gmz_Communities ?m)" for c
  proof -
    obtain k g where c: "(k, g) \<in> set ks" "c = community_of snapshot k g (edges_of k)" using community by auto
    have "filter (\<lambda>x. gcb_CommunityKey x = k) (gmz_CommunityMembers ?m) = map (community_member snapshot k) g"
      using filter_map_const [OF ks(2) c(1), of gcb_CommunityKey "community_member snapshot"] by (simp add: community_member_def)
    moreover have "edges_of k = filter (\<lambda>e. is_member ?m (ged_SourceEntityKey e) k \<and> is_member ?m (ged_TargetEntityKey e) k) (gmz_Edges ?m)"
    proof -
      have "edges_of k = filter (\<lambda>e. (text_at (community_key_map ks) (ged_SourceEntityKey e) = k \<and> k \<noteq> []) \<and>
          (text_at (community_key_map ks) (ged_TargetEntityKey e) = k \<and> k \<noteq> [])) (gmz_Edges m)"
        unfolding edges_of_def internal_edges_def Let_def by (rule filter_cong) auto
      then show ?thesis unfolding key_map by simp
    qed
    ultimately show ?thesis unfolding c(2) by (simp add: community_of_def)
  qed
  have p7: "map gcr_CommunityKey (gmz_CommunityReports ?m) = map gcm_CommunityKey (gmz_Communities ?m)"
    by (simp add: community_of_def community_report_def Let_def comp_def case_prod_unfold)
  have "community_partition ?m"
    unfolding community_partition_def p4 using p1 p2 p3 p5 p6 p7 ks(2) by (simp only: p4) blast
  then show ?thesis using eq by simp
qed

end
