(* ===== verification/GraphPipeline.thy ===== *)
theory GraphPipeline
  imports GraphCommunityProperties
begin

text \<open>
  From an extraction to the graph that is stored: the part of \<open>MaterializeGraph\<close>
  (\<open>pkg/app/graph_materialization_usecase.go\<close>) between the extractor and the database, and
  what the stages guarantee together.

  The stages share the snapshot by pointer: a failing stage leaves the counts of the stage
  before it, which \<open>build_failure\<close> keeps with the error.
\<close>

record build_failure =
  bf_snapshot :: graph_snapshot
  bf_cause :: feature_error
  bf_error :: feature_error

definition failed_stage :: "graph_materialization option \<Rightarrow> graph_snapshot \<Rightarrow> string \<Rightarrow> feature_error \<Rightarrow> build_failure" where
  "failed_stage m snapshot what cause =
     \<lparr>bf_snapshot = (case Option.bind m gmz_Snapshot of Some s \<Rightarrow> s | None \<Rightarrow> snapshot),
      bf_cause = cause, bf_error = wrap_errors ErrGraphMaterialize what cause\<rparr>"

lemma failed_stage_errors [simp]:
  "bf_cause (failed_stage m snapshot what cause) = cause"
  "bf_error (failed_stage m snapshot what cause) = wrap_errors ErrGraphMaterialize what cause"
  by (simp_all add: failed_stage_def)

definition build_communities ::
  "graph_community_reporter \<Rightarrow> graph_snapshot \<Rightarrow> embedding_snapshot option \<Rightarrow> graph_materialization option \<Rightarrow>
   (build_failure + graph_materialization option) option" where
  "build_communities reporter snapshot embeddingSnapshot m =
     map_option (\<lambda>r. case r of
         Inl e \<Rightarrow> Inl (failed_stage m snapshot ''build graph community reports: '' e)
       | Inr m1 \<Rightarrow> Inr m1) (BuildGraphCommunities reporter m embeddingSnapshot)"

definition build_graph ::
  "(uuid \<Rightarrow> string) \<Rightarrow> (nat \<Rightarrow> string list \<Rightarrow> string list) \<Rightarrow> graph_entity_resolver \<Rightarrow> graph_community_reporter \<Rightarrow>
   graph_snapshot \<Rightarrow> graph_chunk list \<Rightarrow> graph_extraction option \<Rightarrow> embedding_snapshot option \<Rightarrow>
   (build_failure + graph_materialization option) option" where
  "build_graph uuid_text range_keys resolver reporter snapshot chunks extraction embeddingSnapshot =
     (let m = Some (graphMaterializationFromExtraction uuid_text range_keys snapshot chunks extraction) in do {
        resolved \<leftarrow> ResolveGraphEntities uuid_text resolver m embeddingSnapshot;
        case resolved of
          Inl e \<Rightarrow> Some (Inl (failed_stage m snapshot ''resolve graph entities: '' e))
        | Inr m1 \<Rightarrow> build_communities reporter snapshot embeddingSnapshot m1
      })"

section \<open>The stages together\<close>

text \<open>What every stage keeps: a snapshot is there and the graph is closed.\<close>

definition graph_ok :: "graph_materialization \<Rightarrow> bool" where
  "graph_ok m \<longleftrightarrow> gmz_Snapshot m \<noteq> None \<and> closed_graph (gmz_Nodes m) (gmz_Edges m) (gmz_NodeChunks m)"

lemma closed_graph_keys:
  assumes "closed_graph nodes edges chunks"
  shows "distinct (map gno_EntityKey nodes)" "[] \<notin> gno_EntityKey ` set nodes" "sort_key gno_EntityKey nodes = nodes"
  using assms by (auto simp: closed_graph_def strictly_sorted_distinct sort_key_sorted)

lemma graph_ok_extraction:
  assumes "\<And>n xs. set (range_keys n xs) \<subseteq> set xs"
  shows "graph_ok (graphMaterializationFromExtraction uuid_text range_keys snapshot chunks extraction)"
  using extraction_closed [OF assms refl] by (simp add: graph_ok_def graphMaterializationFromExtraction_def Let_def)

text \<open>The outcomes of the resolver on such a graph.\<close>

definition resolved_from :: "graph_materialization \<Rightarrow> graph_materialization \<Rightarrow> bool" where
  "resolved_from m m1 \<longleftrightarrow> graph_ok m1 \<and>
     ((gmz_Nodes m1, gmz_Edges m1, gmz_NodeChunks m1) = (gmz_Nodes m, gmz_Edges m, gmz_NodeChunks m) \<or>
      (\<exists>vectors threshold c. canonical_of (gmz_Nodes m) vectors threshold c \<and> resolution_of m c m1))"

lemma resolver_outcome:
  assumes m: "graph_ok m"
  obtains (error) e where "ResolveGraphEntities uuid_text resolver (Some m) es = Some (Inl e)"
      "service_code e = Some ErrGraphEntityResolution"
  | (graph) m1 where "ResolveGraphEntities uuid_text resolver (Some m) es = Some (Inr (Some m1))" "resolved_from m m1"
proof (cases resolver)
  case noopGraphEntityResolver
  then show ?thesis using m by (intro graph [of m]) (simp_all add: ResolveGraphEntities_def resolved_from_def)
next
  case (embeddingGraphEntityResolver factory threshold)
  obtain snapshot where snapshot: "gmz_Snapshot m = Some snapshot" using m by (auto simp: graph_ok_def)
  have closed: "closed_graph (gmz_Nodes m) (gmz_Edges m) (gmz_NodeChunks m)" using m by (simp add: graph_ok_def)
  show ?thesis
  proof (cases "gmz_Nodes m = []")
    case True
    show ?thesis
      by (rule graph [of "m\<lparr>gmz_NodeAliases := [], gmz_NodeEmbeddings := []\<rparr>"])
        (use m True snapshot embeddingGraphEntityResolver in \<open>auto simp: ResolveGraphEntities_def resolved_from_def graph_ok_def\<close>)
  next
    case False
    note res = ResolveGraphEntities_def embeddingGraphEntityResolver snapshot False
    show ?thesis
    proof (cases es)
      case None
      then show ?thesis by (intro error) (auto simp: res)
    next
      case (Some snap)
      show ?thesis
      proof (cases "embed_nodes factory snap (gmz_Nodes m)")
        case (Inl e)
        then have "service_code e = Some ErrGraphEntityResolution"
          by (auto simp: embed_nodes_def split: sum.splits if_splits)
        then show ?thesis using Inl Some closed_graph_keys(3) [OF closed]
          by (intro error [of e]) (simp_all add: res)
      next
        case (Inr vectors)
        obtain c where c: "graphCanonicalEntityKeys (gmz_Nodes m) vectors threshold = Some c"
          "canonical_of (gmz_Nodes m) vectors threshold c"
          using canonical_keys [OF closed_graph_keys(1) [OF closed]] by blast
        define m1 where "m1 = graphResolveMaterialization uuid_text snapshot m snap (gmz_Nodes m) vectors c"
        have "gmz_Snapshot m1 \<noteq> None" by (simp add: m1_def graphResolveMaterialization_def Let_def)
        moreover have "closed_graph (gmz_Nodes m1) (gmz_Edges m1) (gmz_NodeChunks m1) \<and> resolution_of m c m1"
          by (rule graphResolveMaterialization_sound [OF closed
            canonical_of_map [OF closed_graph_keys(1,2) [OF closed] c(2)]]) (rule m1_def)
        ultimately have "resolved_from m m1" using c(2) unfolding resolved_from_def graph_ok_def by blast
        then show ?thesis using Inr Some c(1) closed_graph_keys(3) [OF closed]
          by (intro graph [of m1]) (simp_all add: res m1_def)
      qed
    qed
  qed
qed

definition reported_from :: "graph_materialization \<Rightarrow> graph_materialization \<Rightarrow> bool" where
  "reported_from m m1 \<longleftrightarrow> graph_ok m1 \<and>
     (gmz_Nodes m1, gmz_Edges m1, gmz_NodeChunks m1) = (gmz_Nodes m, gmz_Edges m, gmz_NodeChunks m)"

lemma embed_reports_fields:
  assumes "embed_reports factory es m = Inr m1"
  shows "gmz_Nodes m1 = gmz_Nodes m" "gmz_Edges m1 = gmz_Edges m" "gmz_NodeChunks m1 = gmz_NodeChunks m"
    "gmz_Snapshot m1 = gmz_Snapshot m" "gmz_Communities m1 = gmz_Communities m"
    "gmz_CommunityMembers m1 = gmz_CommunityMembers m"
    "map gcr_CommunityKey (gmz_CommunityReports m1) = map gcr_CommunityKey (gmz_CommunityReports m)"
proof -
  have keys: "length vs = length rs \<Longrightarrow>
    map (gcr_CommunityKey \<circ> (\<lambda>(r, v). r\<lparr>gcr_Vector := f v\<rparr>)) (zip rs vs) = map gcr_CommunityKey rs"
    for f :: "f32 list \<Rightarrow> f32 list" and rs :: "graph_community_report list" and vs
    by (rule nth_equalityI) (simp_all add: case_prod_unfold)
  show "gmz_Nodes m1 = gmz_Nodes m" "gmz_Edges m1 = gmz_Edges m" "gmz_NodeChunks m1 = gmz_NodeChunks m"
    "gmz_Snapshot m1 = gmz_Snapshot m" "gmz_Communities m1 = gmz_Communities m"
    "gmz_CommunityMembers m1 = gmz_CommunityMembers m"
    "map gcr_CommunityKey (gmz_CommunityReports m1) = map gcr_CommunityKey (gmz_CommunityReports m)"
    using assms by (auto simp: embed_reports_def Let_def keys split: sum.splits if_splits)
qed

lemma embed_reports_partition:
  "embed_reports factory es m = Inr m1 \<Longrightarrow> community_partition m \<Longrightarrow> community_partition m1"
  by (simp add: community_partition_def is_member_def embed_reports_fields)

lemma reporter_outcome:
  assumes m: "graph_ok m"
  obtains (error) e where "BuildGraphCommunities reporter (Some m) es = Some (Inl e)"
      "service_code e = Some ErrGraphCommunityReport"
  | (graph) m1 where "BuildGraphCommunities reporter (Some m) es = Some (Inr (Some m1))" "reported_from m m1"
      "reporter \<noteq> disabledGraphCommunityReporter \<Longrightarrow> gmz_Nodes m \<noteq> [] \<Longrightarrow> community_partition m1"
proof (cases reporter)
  case disabledGraphCommunityReporter
  then show ?thesis using m by (intro graph [of m]) (simp_all add: BuildGraphCommunities_def reported_from_def)
next
  case (embeddingGraphCommunityReporter factory)
  obtain snapshot where snapshot: "gmz_Snapshot m = Some snapshot" using m by (auto simp: graph_ok_def)
  have closed: "closed_graph (gmz_Nodes m) (gmz_Edges m) (gmz_NodeChunks m)" using m by (simp add: graph_ok_def)
  note res = BuildGraphCommunities_def embeddingGraphCommunityReporter snapshot
  show ?thesis
  proof (cases es)
    case None
    then show ?thesis by (intro error) (auto simp: res)
  next
    case (Some snap)
    obtain m0 where m0: "graphMaterializationWithCommunities m = Some m0" "gmz_Nodes m0 = gmz_Nodes m"
      "gmz_Edges m0 = gmz_Edges m" "gmz_NodeChunks m0 = gmz_NodeChunks m" "gmz_Snapshot m0 = gmz_Snapshot m"
      "gmz_Nodes m \<noteq> [] \<Longrightarrow> community_partition m0"
    proof (cases "gmz_Nodes m = []")
      case True
      then show ?thesis using that [of m] by (simp add: graphMaterializationWithCommunities_def snapshot)
    next
      case False
      obtain m0 where m0: "graphMaterializationWithCommunities m = Some m0" "community_partition m0"
        "gmz_Nodes m0 = gmz_Nodes m" "gmz_Edges m0 = gmz_Edges m" "gmz_NodeChunks m0 = gmz_NodeChunks m"
        using communities_partition [OF closed_graph_keys(1) [OF closed] False snapshot] by blast
      have "gmz_Snapshot m0 = gmz_Snapshot m" using m0(1) False snapshot
        by (auto simp: graphMaterializationWithCommunities_def Let_def split: Option.bind_splits)
      then show ?thesis using that m0 by blast
    qed
    show ?thesis
    proof (cases "embed_reports factory snap m0")
      case (Inl e)
      then have "service_code e = Some ErrGraphCommunityReport"
        by (auto simp: embed_reports_def Let_def split: sum.splits if_splits)
      then show ?thesis using Inl Some m0(1) by (intro error [of e]) (simp_all add: res)
    next
      case (Inr m1)
      have "graph_ok m1" using m m0(2-5) by (simp add: graph_ok_def embed_reports_fields [OF Inr])
      then have "reported_from m m1" using m0(2-5) by (simp add: reported_from_def embed_reports_fields [OF Inr])
      then show ?thesis using Inr Some m0(1,6) embed_reports_partition [OF Inr]
        by (intro graph [of m1]) (simp_all add: res)
    qed
  qed
qed

lemma build_graph_outcome:
  fixes uuid_text snapshot chunks extraction
  assumes visit: "\<And>n xs. set (range_keys n xs) \<subseteq> set xs"
  defines "m \<equiv> graphMaterializationFromExtraction uuid_text range_keys snapshot chunks extraction"
  obtains (error) bf where
      "build_graph uuid_text range_keys resolver reporter snapshot chunks extraction es = Some (Inl bf)"
      "service_code (bf_error bf) = Some ErrGraphMaterialize"
      "service_code (bf_cause bf) \<in> {Some ErrGraphEntityResolution, Some ErrGraphCommunityReport}"
  | (graph) m1 m2 where
      "build_graph uuid_text range_keys resolver reporter snapshot chunks extraction es = Some (Inr (Some m2))"
      "resolved_from m m1" "reported_from m1 m2"
      "reporter \<noteq> disabledGraphCommunityReporter \<Longrightarrow> gmz_Nodes m1 \<noteq> [] \<Longrightarrow> community_partition m2"
proof -
  have ok: "graph_ok m" unfolding m_def by (rule graph_ok_extraction) (rule visit)
  show ?thesis
  proof (rule resolver_outcome [OF ok, of uuid_text resolver es])
    fix e assume "ResolveGraphEntities uuid_text resolver (Some m) es = Some (Inl e)"
      "service_code e = Some ErrGraphEntityResolution"
    then show ?thesis
      by (intro error [of "failed_stage (Some m) snapshot ''resolve graph entities: '' e"])
        (simp_all add: build_graph_def Let_def m_def)
  next
    fix m1 assume m1: "ResolveGraphEntities uuid_text resolver (Some m) es = Some (Inr (Some m1))" "resolved_from m m1"
    then have "graph_ok m1" by (simp add: resolved_from_def)
    then show ?thesis
    proof (rule reporter_outcome [of m1 reporter es])
      fix e assume "BuildGraphCommunities reporter (Some m1) es = Some (Inl e)" "service_code e = Some ErrGraphCommunityReport"
      then show ?thesis using m1(1)
        by (intro error [of "failed_stage (Some m1) snapshot ''build graph community reports: '' e"])
          (simp_all add: build_graph_def build_communities_def Let_def m_def)
    next
      fix m2 assume m2: "BuildGraphCommunities reporter (Some m1) es = Some (Inr (Some m2))" "reported_from m1 m2"
        "reporter \<noteq> disabledGraphCommunityReporter \<Longrightarrow> gmz_Nodes m1 \<noteq> [] \<Longrightarrow> community_partition m2"
      show ?thesis by (rule graph [OF _ m1(2) m2(2,3)])
          (use m1(1) m2(1) in \<open>simp_all add: build_graph_def build_communities_def Let_def m_def\<close>)
    qed
  qed
qed

end
