(* ===== verification/GraphGuarantees.thy ===== *)
theory GraphGuarantees
  imports GraphPipeline
begin

text \<open>
  The guarantees of graph materialisation, each with an input at which its hypotheses hold.
\<close>

section \<open>Disjoint sets\<close>

text \<open>C19. The disjoint sets of the entity resolver, with union by rank and path compression,
  decide reachability: after any sequence of unions of indices in range, finding any sequence of
  indices returns, without a panic or an endless recursion, and two of the roots it yields are
  equal exactly when a path of united pairs joins the two indices.\<close>

theorem disjoint_sets_decide_linked:
  assumes "\<forall>(i, j) \<in> set pairs. i < n \<and> j < n" "\<forall>i \<in> set indexes. i < n"
  shows "\<exists>s roots s'. ds_unions pairs (newGraphEntityDisjointSet n) = Some s \<and>
    ds_finds indexes s = Some (roots, s') \<and> length roots = length indexes \<and>
    (\<forall>a < length indexes. \<forall>b < length indexes.
       roots ! a = roots ! b \<longleftrightarrow> linked (set pairs) (indexes ! a) (indexes ! b))"
proof -
  obtain s where s: "ds_unions pairs (newGraphEntityDisjointSet n) = Some s" "ranked s" "length (ds_parent s) = n"
    "\<And>a b. a < n \<Longrightarrow> b < n \<Longrightarrow> ds_root s a = ds_root s b \<longleftrightarrow> linked (set pairs) a b"
    using ds_unions_classes [OF assms(1)] by blast
  have "\<forall>i \<in> set indexes. i < length (ds_parent s)" using assms(2) s(3) by simp
  then obtain s' where "ds_finds indexes s = Some (map (ds_root s) indexes, s')"
    by (rule ds_finds_roots [OF s(2)])
  then show ?thesis using s(1,4) assms(2) by (intro exI [of _ s] exI [of _ "map (ds_root s) indexes"] exI [of _ s']) simp
qed

lemma disjoint_sets_decide_linked_witness:
  "\<exists>s roots s'. ds_unions [(0, 1), (2::nat, 1)] (newGraphEntityDisjointSet 4) = Some s \<and>
    ds_finds [0, 2, 3] s = Some (roots, s') \<and> length roots = length [0, 2, 3::nat] \<and>
    (\<forall>a < length [0, 2, 3::nat]. \<forall>b < length [0, 2, 3::nat].
       roots ! a = roots ! b \<longleftrightarrow> linked (set [(0, 1), (2::nat, 1)]) ([0, 2, 3] ! a) ([0, 2, 3] ! b))"
  by (rule disjoint_sets_decide_linked) simp_all

section \<open>Entity resolution\<close>

definition example_node :: "string \<Rightarrow> string \<Rightarrow> int \<Rightarrow> graph_node" where
  "example_node key name n = zero_node\<lparr>gno_EntityKey := key, gno_Name := name, gno_MentionCount := n\<rparr>"

definition example_snapshot :: graph_snapshot where
  "example_snapshot = \<lparr>gsn_GraphSnapshotID = 1, gsn_FeatureSnapshotID = 2, gsn_EmbeddingSnapshotID = 3,
     gsn_DatasetID = 4, gsn_UserID = 5, gsn_OrgID = 6, gsn_MaterializationEventSeq = 0, gsn_IdempotencyKey = 7,
     gsn_ProvenanceHash = [], gsn_ExtractionModel = ''m'', gsn_ExtractionPromptVersion = ''graph_extraction_prompt_v1'',
     gsn_ExtractionSchemaVersion = ''graph_extraction_v1'', gsn_ChunkCount = 0, gsn_ChunksProcessed = 0,
     gsn_EntityCount = 0, gsn_EdgeCount = 0, gsn_ActiveForRetrieval = False, gsn_Status = SnapshotStatusPending,
     gsn_FailureReason = []\<rparr>"

definition example_graph :: "graph_node list \<Rightarrow> graph_edge list \<Rightarrow> graph_materialization" where
  "example_graph nodes edges = \<lparr>gmz_Snapshot = Some example_snapshot, gmz_Nodes = nodes, gmz_Edges = edges,
     gmz_NodeChunks = [], gmz_NodeAliases = [], gmz_NodeEmbeddings = [], gmz_Communities = [],
     gmz_CommunityMembers = [], gmz_CommunityReports = []\<rparr>"

definition example_edge :: "string \<Rightarrow> string \<Rightarrow> graph_edge" where
  "example_edge source target = \<lparr>ged_GraphEdgeID = 0, ged_GraphSnapshotID = 1, ged_DatasetID = 4, ged_UserID = 5,
     ged_OrgID = 6, ged_SourceNodeID = 0, ged_TargetNodeID = 0, ged_SourceEntityKey = source,
     ged_TargetEntityKey = target, ged_RelationType = ''KNOWS'', ged_Description = [], ged_Weight = f64_one,
     ged_AssertionStatus = []\<rparr>"

text \<open>C17. Entity resolution clusters the nodes by the transitive closure of similarity and names
  each cluster by its preferred node: for nodes of distinct keys it returns, and the map it
  returns sends each node with a key to the key of a node that a chain of similar nodes joins
  to it and to which no other node of the cluster is preferred.\<close>

theorem entities_clustered:
  assumes "distinct (map gno_EntityKey nodes)"
  shows "\<exists>m. graphCanonicalEntityKeys nodes vectors threshold = Some m \<and>
    (\<forall>k. k \<in> dom m \<longleftrightarrow> k \<in> gno_EntityKey ` set nodes \<and> k \<noteq> []) \<and>
    (\<forall>i < length nodes. gno_EntityKey (nodes ! i) \<noteq> [] \<longrightarrow>
       (\<exists>c < length nodes. m (gno_EntityKey (nodes ! i)) = Some (gno_EntityKey (nodes ! c)) \<and>
          clustered nodes vectors threshold i c \<and>
          (\<forall>j. clustered nodes vectors threshold i j \<longrightarrow> \<not> graphPreferCanonicalNode (nodes ! j) (nodes ! c))))"
proof -
  obtain m where "graphCanonicalEntityKeys nodes vectors threshold = Some m" "canonical_of nodes vectors threshold m"
    using canonical_keys [OF assms] by blast
  then show ?thesis by (intro exI [of _ m]) (auto simp: canonical_of_def prefer_rank not_less)
qed

lemma entities_clustered_witness:
  defines "nodes \<equiv> [example_node ''person:ada'' ''Ada'' 2, example_node ''person:ada l'' ''Ada L'' 1]"
  shows "distinct (map gno_EntityKey nodes) \<and> (\<exists>m. graphCanonicalEntityKeys nodes [[1], [1]] 1 = Some m \<and>
    ''person:ada'' \<in> dom m)"
proof -
  have d: "distinct (map gno_EntityKey nodes)" by (simp add: nodes_def example_node_def)
  have k: "''person:ada'' \<in> gno_EntityKey ` set nodes" by (simp add: nodes_def example_node_def)
  obtain m where "graphCanonicalEntityKeys nodes [[1], [1]] 1 = Some m"
    "\<forall>k. k \<in> dom m \<longleftrightarrow> k \<in> gno_EntityKey ` set nodes \<and> k \<noteq> []"
    using entities_clustered [OF d, of "[[1], [1]]" 1] by blast
  then show ?thesis using d k by blast
qed



section \<open>The graph that is stored\<close>

text \<open>C15. Building a graph always returns, whatever the model extracted and the embedding provider
  answers: either an error that carries the code of graph materialisation and wraps one of the
  resolver's or the reporter's own, or a graph with a snapshot whose nodes are sorted by
  distinct keys, whose edges join two different nodes with a positive weight and whose chunks
  belong to nodes, each at most once per record.\<close>

theorem build_graph_returns:
  assumes "\<And>n xs. set (range_keys n xs) \<subseteq> set xs"
  shows "\<exists>r. build_graph uuid_text range_keys resolver reporter snapshot chunks extraction es = Some r \<and>
    (case r of
       Inl failure \<Rightarrow> service_code (bf_error failure) = Some ErrGraphMaterialize \<and>
         service_code (bf_cause failure) \<in> {Some ErrGraphEntityResolution, Some ErrGraphCommunityReport}
     | Inr None \<Rightarrow> False
     | Inr (Some m) \<Rightarrow> gmz_Snapshot m \<noteq> None \<and> closed_graph (gmz_Nodes m) (gmz_Edges m) (gmz_NodeChunks m))"
  by (rule build_graph_outcome [of range_keys uuid_text resolver reporter snapshot chunks extraction es])
    (use assms in \<open>auto simp: reported_from_def graph_ok_def\<close>)

lemma build_graph_returns_witness:
  "\<exists>r. build_graph (\<lambda>_. []) (\<lambda>_ xs. rev xs) noopGraphEntityResolver disabledGraphCommunityReporter
    example_snapshot [] None None = Some r"
  using build_graph_returns [of "\<lambda>_ xs. rev xs" "\<lambda>_. []" noopGraphEntityResolver disabledGraphCommunityReporter
    example_snapshot "[]" None None] by auto

text \<open>C16. The communities of a stored graph are its connected components: when the reporter is
  enabled and the graph has a node, every node is a member of exactly one community, two nodes
  are members of the same one exactly when a path of edges joins them, the communities have
  distinct keys and at least one member each, the counts of a community are the numbers of its members and
  of the edges between them, and there is one report per community, in their order.\<close>

theorem communities_are_components:
  assumes "\<And>n xs. set (range_keys n xs) \<subseteq> set xs"
    and "build_graph uuid_text range_keys resolver (embeddingGraphCommunityReporter factory) snapshot chunks
      extraction es = Some (Inr (Some m))"
    and "gmz_Nodes m \<noteq> []"
  shows "distinct (map gcb_EntityKey (gmz_CommunityMembers m)) \<and>
    gcb_EntityKey ` set (gmz_CommunityMembers m) = gno_EntityKey ` set (gmz_Nodes m) \<and>
    (\<forall>a \<in> set (gmz_CommunityMembers m). \<forall>b \<in> set (gmz_CommunityMembers m).
       gcb_CommunityKey a = gcb_CommunityKey b \<longleftrightarrow>
         linked {(ged_SourceEntityKey e, ged_TargetEntityKey e) |e. e \<in> set (gmz_Edges m)} (gcb_EntityKey a) (gcb_EntityKey b)) \<and>
    distinct (map gcm_CommunityKey (gmz_Communities m)) \<and>
    gcm_CommunityKey ` set (gmz_Communities m) = gcb_CommunityKey ` set (gmz_CommunityMembers m) \<and>
    (\<forall>c \<in> set (gmz_Communities m).
       gcm_EntityCount c = int (length (filter (\<lambda>x. gcb_CommunityKey x = gcm_CommunityKey c) (gmz_CommunityMembers m))) \<and>
       gcm_EdgeCount c = int (length (filter (\<lambda>e. is_member m (ged_SourceEntityKey e) (gcm_CommunityKey c) \<and>
         is_member m (ged_TargetEntityKey e) (gcm_CommunityKey c)) (gmz_Edges m)))) \<and>
    map gcr_CommunityKey (gmz_CommunityReports m) = map gcm_CommunityKey (gmz_Communities m)"
proof -
  have m: "graph_ok m \<and> community_partition m"
    by (rule build_graph_outcome [of range_keys uuid_text resolver "embeddingGraphCommunityReporter factory"
          snapshot chunks extraction es]) (use assms in \<open>auto simp: reported_from_def\<close>)
  then have "joins (gmz_Nodes m) (gmz_Edges m) =
      {(ged_SourceEntityKey e, ged_TargetEntityKey e) |e. e \<in> set (gmz_Edges m)}"
    unfolding graph_ok_def closed_graph_def joins_def by blast
  then show ?thesis using m unfolding community_partition_def by simp
qed

definition example_embedding :: embedding_snapshot where
  "example_embedding = \<lparr>esn_EmbeddingSnapshotID = 3, esn_FeatureSnapshotID = 2, esn_DatasetID = 4, esn_UserID = 5,
     esn_OrgID = 6, esn_MaterializationEventSeq = 1, esn_VectorStore = ''pgvector'', esn_CollectionName = ''c'',
     esn_EmbeddingDimensions = 1, esn_EmbeddingCount = 1, esn_StrategyVersion = ''v'', esn_ExtractorName = ''e'',
     esn_ExtractorVersion = ''v'', esn_CleanerName = ''c'', esn_CleanerVersion = ''v'', esn_ChunkerName = ''k'',
     esn_ChunkerVersion = ''v'', esn_ChunkSize = 1, esn_ChunkOverlap = 0, esn_EmbeddingProvider = ''p'',
     esn_EmbeddingModel = ''m'', esn_ActiveForRetrieval = True, esn_Status = SnapshotStatusReady, esn_FailureReason = []\<rparr>"

definition example_provider :: provider_factory where
  "example_provider strategy = Inr \<lparr>epr_Dimensions = 1, epr_Embed = \<lambda>texts. Inr (map (\<lambda>_. [0]) texts)\<rparr>"

definition example_extraction :: "(string \<times> string) list \<Rightarrow> (string \<times> string) list \<Rightarrow> graph_extraction" where
  "example_extraction entities relations = \<lparr>
     gx_Entities = map (\<lambda>(name, kind). \<lparr>gxe_ID = [], gxe_Name = name, gxe_Type = kind, gxe_Description = [],
       gxe_ChunkIndex = 0\<rparr>) entities,
     gx_Relations = map (\<lambda>(source, target). \<lparr>gxr_Source = source, gxr_Target = target, gxr_Type = ''KNOWS'',
       gxr_Description = [], gxr_Weight = 0\<rparr>) relations\<rparr>"

lemma example_nodes:
  "map gno_EntityKey (gmz_Nodes (graphMaterializationFromExtraction (\<lambda>_. []) (\<lambda>_ xs. xs) example_snapshot []
     (Some (example_extraction [(''Ada'', ''Person'')] [])))) = [''person:ada'']"
  by code_simp

lemma example_reports:
  "\<exists>m1. embed_reports example_provider example_embedding m = Inr m1 \<and> gmz_Nodes m1 = gmz_Nodes m"
  by (simp add: embed_reports_def example_provider_def example_embedding_def Let_def)

lemma communities_are_components_witness:
  "\<exists>m. build_graph (\<lambda>_. []) (\<lambda>_ xs. xs) noopGraphEntityResolver (embeddingGraphCommunityReporter example_provider)
     example_snapshot [] (Some (example_extraction [(''Ada'', ''Person'')] [])) (Some example_embedding) =
       Some (Inr (Some m)) \<and> gmz_Nodes m \<noteq> [] \<and> distinct (map gcb_EntityKey (gmz_CommunityMembers m))"
proof -
  let ?x = "Some (example_extraction [(''Ada'', ''Person'')] [])"
  let ?build = "build_graph (\<lambda>_. []) (\<lambda>_ xs. xs) noopGraphEntityResolver (embeddingGraphCommunityReporter example_provider)
    example_snapshot [] ?x (Some example_embedding)"
  define m0 where "m0 = graphMaterializationFromExtraction (\<lambda>_. []) (\<lambda>_ xs. xs) example_snapshot [] ?x"
  have m0: "gmz_Nodes m0 \<noteq> []" "gmz_Snapshot m0 \<noteq> None" "distinct (map gno_EntityKey (gmz_Nodes m0))"
    using example_nodes by (auto simp: m0_def graphMaterializationFromExtraction_def Let_def)
  obtain m1 where m1: "graphMaterializationWithCommunities m0 = Some m1" "gmz_Nodes m1 = gmz_Nodes m0"
    using communities_partition [OF m0(3,1)] m0(2) by blast
  obtain m2 where m2: "embed_reports example_provider example_embedding m1 = Inr m2" "gmz_Nodes m2 = gmz_Nodes m1"
    using example_reports by blast
  have "ResolveGraphEntities (\<lambda>_. []) noopGraphEntityResolver (Some m0) (Some example_embedding) = Some (Inr (Some m0))"
    by (simp add: ResolveGraphEntities_def)
  moreover have "BuildGraphCommunities (embeddingGraphCommunityReporter example_provider) (Some m0) (Some example_embedding) =
      Some (Inr (Some m2))"
    using m0(2) m1(1) m2(1) by (simp add: BuildGraphCommunities_def)
  ultimately have b: "?build = Some (Inr (Some m2))"
    unfolding build_graph_def m0_def [symmetric] by (simp add: build_communities_def)
  have n: "gmz_Nodes m2 \<noteq> []" using m0(1) m1(2) m2(2) by simp
  have "distinct (map gcb_EntityKey (gmz_CommunityMembers m2))"
    by (rule communities_are_components [OF _ b n, THEN conjunct1]) simp
  then show ?thesis using b n by blast
qed

section \<open>Relations by name\<close>


end
