(* ===== verification/Spec2Isabelle.thy ===== *)
theory Spec2Isabelle
  imports RelaySystem RegistryScenario AgentExamples SubscriberExamples AgentRegistryExamples
    GraphGuarantees
begin

text \<open>
  \<^bold>\<open>Bighill: a machine learning platform as Go services.\<close>

  The repository is a set of Go services, one directory each, over the shared packages of
  \<open>shared_lib\<close>. A service keeps its tables in PostgreSQL, changes them in a transaction, and
  writes the messages other services must see into an outbox table in the same transaction; a
  relay publishes the outbox to the broker, and the subscriber of another service hands each
  message to the listener that makes the next change. The development follows a message all
  the way, takes the model registry as the service that makes changes, the inference
  service's agents as the program that acts on models, tools and its own record of a run, and
  the agent registry as the service that decides which agent, with which trained adapter,
  answers at an endpoint. The graphs of the feature materializer stand for the programs that
  prepare what an agent retrieves.

  \<^bold>\<open>Theories and the code they model\<close>

  \<^item> \<open>Prelude\<close>, \<open>GoStrings\<close>, \<open>GoInt\<close>, \<open>GoFloat64\<close>: the part of Go and its standard
    library the services use: results, byte strings, \<open>strconv.Atoi\<close> and 64 bit integers,
    finite doubles. The locale \<open>text_enum\<close> is the contract of an enumeration and its
    text form.
  \<^item> \<open>SessionContext\<close>: \<open>shared_lib/ctxutil/ctxutil.go\<close>,
    \<open>shared_lib/db/session_context.go\<close> and the row policies of the migrations: which rows a
    request can see.
  \<^item> \<open>UnitOfWork\<close>: \<open>shared_lib/db/tx_runner.go\<close> (\<open>tx_Do\<close>, \<open>doOnce\<close>, the retry loop) and
    \<open>shared_lib/uow/uow.go\<close> (\<open>uow_Do\<close>). The locale \<open>ordered_outbox\<close> is what the unit of
    work asks of an outbox.
  \<^item> \<open>Messages\<close>: \<open>shared_lib/messaging/message.go\<close> and \<open>port.go\<close>.
  \<^item> \<open>Outbox\<close>: \<open>shared_lib/messaging/outbox.go\<close> and \<open>postgres_outbox.go\<close>: the table, the
    insert, the claim of a batch under a lease, the settlement of a claim.
  \<^item> \<open>Relay\<close>: \<open>shared_lib/messaging/outbox_relay.go\<close> and \<open>signaled_outbox.go\<close>: one batch
    (\<open>processBatch\<close>) and the select loop (\<open>Run_step\<close>).
  \<^item> \<open>RelaySystem\<close>: several relays, writers and crashes on one table, as a step relation
    whose steps are the transactions and publications of \<open>processBatch\<close>.
  \<^item> \<open>Pagination\<close>: \<open>shared_lib/transport/pagination.go\<close>.
  \<^item> \<open>PromotionGate\<close>: \<open>promotion_gate.go\<close> and \<open>promotion_decision.go\<close> of
    \<open>model_registry_service/pkg/domain/model\<close>.
  \<^item> \<open>ModelTypes\<close>, \<open>ModelRepository\<close>, \<open>ModelRegistry\<close>: the records of the registry, the
    statements of \<open>pkg/infra/repo/db\<close> with the constraints of \<open>db/migrations\<close>, and the use
    cases of \<open>pkg/app/model_registry_usecase.go\<close> with the messages of
    \<open>model_event_builder.go\<close>.
  \<^item> \<open>RegistryProperties\<close>: the labelled step relation of the use cases, its invariant and
    the properties of runs. \<open>RegistryScenario\<close>: a concrete run that the properties are
    applied to.

  \<^item> \<open>SubscriberErrors\<close>: \<open>shared_lib/messaging/subscriber_errors.go\<close>, \<open>parse.go\<close> and
    \<open>event_listener.go\<close>. \<open>SubscriberHealth\<close>: \<open>subscriber_health.go\<close>.
  \<^item> \<open>Subscriber\<close>, \<open>SubscriberHandling\<close>: the state and the methods of
    \<open>shared_lib/messaging/subscriber.go\<close>: assignment, commit states, shards, dispatch, the
    handling of a message, replays, the dead letter queue, commits, rebalances, backpressure, lag.
  \<^item> \<open>SubscriberSystem\<close>: the goroutines of \<open>Subscribe\<close> as one labelled step function; a run
    is a list of labels. \<open>SubscriberAccounting\<close>, \<open>SubscriberCommits\<close>,
    \<open>SubscriberProperties\<close>: what holds in every run. \<open>SubscriberExamples\<close>: concrete runs.
  \<^item> \<open>GoRunes\<close>: UTF-8 lengths. \<open>AgentTypes\<close>: the records of
    \<open>inference_service/pkg/domain/model\<close> an agent run uses.
  \<^item> \<open>AgentTrajectory\<close>: the tables of runs, steps and tool invocations with the statements of
    \<open>agent_trajectory_repository.go\<close> and the constraints of the migrations.
    \<open>AgentRecording\<close>: the encodings and events of \<open>pkg/app/agent_trajectory.go\<close>.
  \<^item> \<open>AgentLoop\<close>, \<open>AgentServing\<close>: \<open>pkg/app/agent_loop.go\<close>, the loop of an agent inside the
    service and the choice of its model, with what it uses of \<open>inference_usecase.go\<close>.
    \<open>AgentWorkflow\<close>: the same run as a workflow, \<open>agent_run_workflow.go\<close> and
    \<open>agent_run_activities.go\<close>, whose activities may fail, be repeated or lose their result.
  \<^item> \<open>AgentTrajectoryProperties\<close>, \<open>AgentLoopProperties\<close>, \<open>AgentRunProperties\<close>,
    \<open>AgentRefinement\<close>: their properties; in the last, both ways of running refine one abstract
    rule on tool calls. \<open>AgentScenario\<close>, \<open>AgentExamples\<close>: concrete runs.

  \<^item> \<open>GoText\<close>, \<open>GoRatio\<close>: fields, search and sorting of texts; the quotient of counts as a
    double.
  \<^item> \<open>AgentRegistryTypes\<close>: \<open>agent_registry_service/pkg/domain\<close>. \<open>AgentRegistryTables\<close>: the
    statements of \<open>agent_registry_repository.go\<close> with the constraints of the migrations.
    \<open>AgentRegistryEvaluation\<close>: the pure functions of \<open>agent_registry_usecase.go\<close>:
    fingerprints of prompts, the choice of training labels, scores and reports.
    \<open>AgentRegistry\<close>: its use cases, the champion event and the listeners for training events.
    A request is a sequence of accesses, and \<open>ak_between\<close> is what others do between two.
  \<^item> \<open>AgentRegistryGuarantees\<close>: the locale \<open>registry_guarantee\<close>, an invariant with a history
    that every statement follows and therefore every request, whatever others do that follows
    it too. \<open>AgentRegistryProperties\<close> and \<open>AgentRegistryPromotion\<close> use it for golden tasks,
    adapters, champions and training data. \<open>AgentRegistryExamples\<close>: concrete requests.

  \<^item> \<open>GoFloat32\<close>: single precision floats, products and roots of doubles. \<open>GraphTypes\<close>:
    errors, snapshots and graphs of \<open>feature_materializer_service/pkg/domain\<close>.
  \<^item> \<open>GraphExtraction\<close>: from what a language model extracted to a graph,
    \<open>pkg/app/graph_materialization_usecase.go\<close>. \<open>GraphDisjointSet\<close>, \<open>GraphResolver\<close>:
    \<open>graph_entity_resolver.go\<close>, the disjoint sets with their contract as the locale
    \<open>disjoint_sets\<close>, and entity resolution. \<open>GraphCommunities\<close>:
    \<open>graph_community_builder.go\<close>. \<open>GraphPipeline\<close>: the three stages in sequence.
  \<^item> \<open>GraphResolverProperties\<close>, \<open>GraphCommunityProperties\<close>, \<open>GraphGuarantees\<close>: their
    properties and concrete graphs.

  Definitions carry the names of the Go functions where Isabelle allows it; a record's
  fields carry a two letter prefix and the Go field's name.

  \<^bold>\<open>What the lemmas show\<close>

  A transaction changes the database exactly when it commits, and an enqueued message is in
  the table exactly when the change that caused it is (\<open>UnitOfWork\<close>, \<open>Outbox\<close>). Two claims
  under unexpired leases are disjoint, a claim that was taken over settles nothing, and a row
  marked sent was accepted by the broker; a row not sent can always be delivered by some
  continuation of the run (\<open>Outbox\<close>, \<open>RelaySystem\<close>). In the model registry no use case but
  an accepted promotion report takes a promotable candidate to readiness, endpoints agree
  with the load status of the model they serve, and a redelivered training event changes
  nothing (\<open>RegistryProperties\<close>). A subscriber commits an offset only after its message was
  settled, and closes its channels only when nothing can be sent on them
  (\<open>SubscriberProperties\<close>). A run of an agent ends within its step limit, never repeats a tool
  call three times, stays inside its token budget and is on record when it is answered; a stored
  run reads back as it was (\<open>AgentLoopProperties\<close>, \<open>AgentRunProperties\<close>,
  \<open>AgentTrajectoryProperties\<close>). In the agent registry golden tasks never leak between splits,
  adapters go through their life in one direction, a champion changes only after an evaluation
  that passed, together with a message for every bound endpoint, and a training dataset holds
  no prompt of the holdout that was read (\<open>AgentRegistryProperties\<close>,
  \<open>AgentRegistryPromotion\<close>). Building a graph always returns; resolution gives the quotient of
  the graph by the clusters of similar entities, and the communities are the connected
  components (\<open>GraphGuarantees\<close>). The promotion gate agrees with a declarative statement of
  its policy (\<open>PromotionGate\<close>).

  Properties of kind \<open>error\<close> state where the code falls short of what its comments or its
  callers expect: a relay in signal mode that leaves a backlog, a run of an
  agent that fails on empty arguments or is overwritten after its end, an offset committed past
  an unfinished message, a shard that waits for itself, an adapter that becomes the champion of
  another lineage, a champion marked as rejected by an evaluation that ends late, and a graph
  whose edges depend on the random order of a map.

  \<^bold>\<open>Assumptions\<close>

  White space and letter case are those of ASCII. Doubles and floats are finite.
  A sort keeps the order of elements it does not distinguish; the order in which a map is visited
  is a parameter where it matters. The statements of one
  transaction run without interference of others. The interleaving of transactions is modelled
  for the relay and for the agent registry; in the model registry and the agents' tables each
  use case runs alone. A commit that reports an error did not happen.
  JSON, protobuf, hashes, the text form of a UUID, random ids, clocks, the serving backend and
  every error of the network or the server are parameters, so the theorems hold for each
  choice of them. Where a component asks the outside many times (the agents, the subscriber), the
  answers are functions of a counter of the questions asked, so every sequence of answers is
  covered. A step of the subscriber ends where another goroutine can come between; a send that has
  to wait is a step that is not enabled. Spans, logging and metrics are left out. Recursion is structural or has a measure: the retry loops count their attempts, the agent's loop
  its remaining steps, the loop over ready offsets the entries left; so no fuel is needed.

  \<^bold>\<open>Not modelled\<close>

  Wiring, HTTP and gRPC adapters, the producer and queue clients, generated code; of the
  inference service retrieval, feedback, preference datasets and capability probes; of the
  feature materializer everything but graphs, and how graphs are saved and searched; and the
  remaining services: the data registry, ingestion, data streams, tenants, training, tools, sockets and the Kubernetes side of model serving.
\<close>

end
